(* ===== verification/Runner_Prelude.thy ===== *)
theory Runner_Prelude
  imports Main "HOL-Library.Word"
begin

text \<open>
  Shared vocabulary of the development.

  The types of the machine integers the native code uses (\<open>unsigned long long\<close> time stamps are
  64-bit words, \<open>unsigned int\<close> counters and periods 32-bit words), the saturating time difference
  that every timed component writes out as \<open>now > then ? now - then : 0\<close>, counting along a run,
  and the interfaces the components share: a machine with an invariant, a latch that fires once per
  episode, a machine that simulates another one, a partial machine that is defined within a
  discipline, and a relation every step keeps.
\<close>

named_theorems clock_simps \<open>facts that read word-valued clocks as natural numbers\<close>

type_synonym u64 = "64 word"
type_synonym u32 = "32 word"

section \<open>Saturating time differences\<close>

definition elapsed_since :: "u64 \<Rightarrow> u64 \<Rightarrow> u64" where
  "elapsed_since now since = (if since < now then now - since else 0)"

lemma unat_elapsed_since [clock_simps]:
  "unat (elapsed_since now since) = unat now - unat since"
  by (auto simp: elapsed_since_def unat_sub word_le_nat_alt word_less_nat_alt)

lemma elapsed_since_same [simp]: "elapsed_since t t = 0"
  by (simp add: elapsed_since_def)

lemma elapsed_since_mono:
  "now \<le> now' \<Longrightarrow> elapsed_since now since \<le> elapsed_since now' since"
  by (simp add: word_le_nat_alt unat_elapsed_since)

lemma elapsed_since_antimono:
  "since \<le> since' \<Longrightarrow> elapsed_since now since' \<le> elapsed_since now since"
  by (simp add: word_le_nat_alt unat_elapsed_since)

lemma elapsed_since_le: "elapsed_since now since \<le> now"
  by (simp add: word_le_nat_alt unat_elapsed_since)

lemma unat_minus_le [clock_simps]:
  "b \<le> a \<Longrightarrow> unat (a - b) = unat a - unat b" for a b :: "'a::len word"
  by (simp add: unat_sub)

lemma unat_plus_no_wrap:
  "unat a + unat b < 2 ^ LENGTH('a) \<Longrightarrow> unat (a + b) = unat a + unat b"
  for a b :: "'a::len word"
  by (simp add: unat_word_ariths)

section \<open>Runs and counting along a run\<close>

abbreviation run :: "('s \<Rightarrow> 'e \<Rightarrow> 's) \<Rightarrow> 's \<Rightarrow> 'e list \<Rightarrow> 's" where
  "run \<equiv> foldl"

fun count_along :: "('s \<Rightarrow> 'e \<Rightarrow> 's) \<Rightarrow> ('s \<Rightarrow> 'e \<Rightarrow> bool) \<Rightarrow> 's \<Rightarrow> 'e list \<Rightarrow> nat" where
  "count_along step p s [] = 0"
| "count_along step p s (e # es) = (if p s e then 1 else 0) + count_along step p (step s e) es"

fun sum_along :: "('s \<Rightarrow> 'e \<Rightarrow> 's) \<Rightarrow> ('s \<Rightarrow> 'e \<Rightarrow> nat) \<Rightarrow> 's \<Rightarrow> 'e list \<Rightarrow> nat" where
  "sum_along step f s [] = 0"
| "sum_along step f s (e # es) = f s e + sum_along step f (step s e) es"

lemma count_along_append:
  "count_along step p s (es @ fs) = count_along step p s es + count_along step p (run step s es) fs"
  by (induction es arbitrary: s) auto

lemma sum_along_append:
  "sum_along step f s (es @ fs) = sum_along step f s es + sum_along step f (run step s es) fs"
  by (induction es arbitrary: s) auto

lemma count_along_le_length: "count_along step p s es \<le> length es"
  by (induction es arbitrary: s) (auto simp: le_SucI)

section \<open>Interface: a machine with an invariant\<close>

locale invariant_machine =
  fixes step :: "'s \<Rightarrow> 'e \<Rightarrow> 's" and inv :: "'s \<Rightarrow> bool"
  assumes step_inv: "inv s \<Longrightarrow> inv (step s e)"
begin

lemma run_inv: "inv s \<Longrightarrow> inv (run step s es)"
  by (induction es arbitrary: s) (auto intro: step_inv)

lemma run_always: "inv s \<Longrightarrow> (\<And>t. inv t \<Longrightarrow> good t) \<Longrightarrow> good (run step s es)"
  by (blast intro: run_inv)

end

section \<open>Interface: a latch that fires once per episode\<close>

text \<open>
  A component that reports something (a device loss, a raster failure, the withdrawal of
  crash-restart) keeps a latch. The contract: it fires only while the latch is open, firing closes
  it, and only a resetting event opens it again. The client's theorem is a count: over any run the
  number of reports is at most the number of resets plus one.
\<close>

locale once_latch =
  fixes step :: "'s \<Rightarrow> 'e \<Rightarrow> 's" and fires :: "'s \<Rightarrow> 'e \<Rightarrow> bool"
    and latched :: "'s \<Rightarrow> bool" and resets :: "'s \<Rightarrow> 'e \<Rightarrow> bool"
  assumes fires_open: "fires s e \<Longrightarrow> \<not> latched s"
    and fires_latches: "fires s e \<Longrightarrow> latched (step s e)"
    and latch_kept: "latched s \<Longrightarrow> \<not> resets s e \<Longrightarrow> latched (step s e)"
begin

lemma fire_count:
  "count_along step fires s es \<le> (if latched s then 0 else 1) + count_along step resets s es"
proof (induction es arbitrary: s)
  case Nil
  then show ?case by simp
next
  case (Cons e es)
  have IH: "count_along step fires (step s e) es
      \<le> (if latched (step s e) then 0 else 1) + count_along step resets (step s e) es"
    by (rule Cons.IH)
  show ?case
  proof (cases "fires s e")
    case True
    with fires_open fires_latches IH show ?thesis by auto
  next
    case False
    with IH latch_kept [of s e] show ?thesis by (auto split: if_splits)
  qed
qed

lemma fire_count_le: "count_along step fires s es \<le> Suc (count_along step resets s es)"
  using fire_count [of s es] by (auto split: if_splits)

end

text \<open>A latch that nothing resets fires at most once for the life of the process.\<close>

locale process_latch = once_latch step fires latched "\<lambda>_ _. False"
  for step :: "'s \<Rightarrow> 'e \<Rightarrow> 's" and fires :: "'s \<Rightarrow> 'e \<Rightarrow> bool" and latched :: "'s \<Rightarrow> bool"
begin

lemma no_resets: "count_along step (\<lambda>_ _. False) s es = 0"
  by (induction es arbitrary: s) auto

lemma fires_at_most_once: "count_along step fires s es \<le> 1"
  using fire_count_le [of s es] by (simp add: no_resets)

lemma latched_never_fires: "latched s \<Longrightarrow> count_along step fires s es = 0"
  using fire_count [of s es] by (simp add: no_resets)

end

section \<open>Interface: a machine that simulates an abstract one\<close>

locale simulation =
  fixes step :: "'s \<Rightarrow> 'e \<Rightarrow> 's" and astep :: "'a \<Rightarrow> 'e \<Rightarrow> 'a"
    and abs :: "'s \<Rightarrow> 'a" and inv :: "'s \<Rightarrow> bool"
  assumes sim_inv: "inv s \<Longrightarrow> inv (step s e)"
    and sim_step: "inv s \<Longrightarrow> abs (step s e) = astep (abs s) e"

sublocale simulation \<subseteq> invariant_machine step inv
  by unfold_locales (rule sim_inv)

context simulation
begin

lemma sim_run: "inv s \<Longrightarrow> abs (run step s es) = run astep (abs s) es"
  by (induction es arbitrary: s) (auto simp: sim_step sim_inv)

end

section \<open>Interface: a partial machine used within a discipline\<close>

text \<open>
  Code with undefined behaviour is a partial step: \<open>None\<close> is the step that must not be taken. The
  contract: within the discipline, and from a state of the invariant, the step is defined and keeps
  the invariant. The client's theorem: a disciplined run is defined to its end.
\<close>

fun run_option :: "('s \<Rightarrow> 'e \<Rightarrow> 's option) \<Rightarrow> 's \<Rightarrow> 'e list \<Rightarrow> 's option" where
  "run_option step s [] = Some s"
| "run_option step s (e # es) = (case step s e of None \<Rightarrow> None | Some t \<Rightarrow> run_option step t es)"

fun disciplined :: "('s \<Rightarrow> 'e \<Rightarrow> 's option) \<Rightarrow> ('s \<Rightarrow> 'e \<Rightarrow> bool) \<Rightarrow> 's \<Rightarrow> 'e list \<Rightarrow> bool" where
  "disciplined step allowed s [] \<longleftrightarrow> True"
| "disciplined step allowed s (e # es) \<longleftrightarrow>
     allowed s e \<and> (case step s e of None \<Rightarrow> True | Some t \<Rightarrow> disciplined step allowed t es)"

locale guarded_machine =
  fixes step :: "'s \<Rightarrow> 'e \<Rightarrow> 's option" and allowed :: "'s \<Rightarrow> 'e \<Rightarrow> bool" and inv :: "'s \<Rightarrow> bool"
  assumes guarded_step: "inv s \<Longrightarrow> allowed s e \<Longrightarrow> \<exists>t. step s e = Some t \<and> inv t"
begin

lemma guarded_run:
  "inv s \<Longrightarrow> disciplined step allowed s es \<Longrightarrow> \<exists>t. run_option step s es = Some t \<and> inv t"
proof (induction es arbitrary: s)
  case Nil
  then show ?case by simp
next
  case (Cons e es)
  then obtain t where "step s e = Some t" "inv t" using guarded_step [of s e] by auto
  with Cons show ?case by simp
qed

end

text \<open>A relation between the state before and after, kept by every defined step.\<close>

locale step_preorder =
  fixes step :: "'s \<Rightarrow> 'e \<Rightarrow> 's option" and le :: "'s \<Rightarrow> 's \<Rightarrow> bool"
  assumes le_refl: "le s s"
    and le_trans: "le s t \<Longrightarrow> le t u \<Longrightarrow> le s u"
    and le_step: "step s e = Some t \<Longrightarrow> le s t"
begin

lemma le_run: "run_option step s es = Some t \<Longrightarrow> le s t"
  by (induction es arbitrary: s) (auto intro: le_refl le_trans le_step split: option.splits)

end

end
