(* ===== verification/Text_Format.thy ===== *)
theory Text_Format
  imports Runner_Prelude "HOL-Library.Sublist"
begin

text \<open>
  What the native code uses of the C and C++ standard libraries to build text: decimal and
  hexadecimal integers, \<open>snprintf\<close> into a bounded buffer, and the two floating-point conversions the
  log lines use (\<open>%.1f\<close> of \<open>ms / 1000.0\<close> and the default stream output of it). Strings are lists of
  bytes (\<open>char\<close>). The round trip of the decimal printer gives its injectivity, which the naming of
  archive files rests on.
\<close>

section \<open>Characters\<close>

definition newline :: char where "newline = CHR 0x0A"
definition backslash :: char where "backslash = CHR 0x5C"
definition dquote :: char where "dquote = CHR 0x22"

section \<open>Decimal integers\<close>

definition digit_char :: "nat \<Rightarrow> char" where "digit_char d = char_of (48 + d)"

definition digit_value :: "char \<Rightarrow> nat" where "digit_value c = of_char c - 48"

definition is_digit :: "char \<Rightarrow> bool" where
  "is_digit c \<longleftrightarrow> 48 \<le> (of_char c :: nat) \<and> (of_char c :: nat) \<le> 57"

fun show_nat :: "nat \<Rightarrow> string" where
  "show_nat n = (if n < 10 then [digit_char n] else show_nat (n div 10) @ [digit_char (n mod 10)])"

declare show_nat.simps [simp del]

definition show_int :: "int \<Rightarrow> string" where
  "show_int i = (if i < 0 then CHR ''-'' # show_nat (nat (- i)) else show_nat (nat i))"

abbreviation show_u64 :: "u64 \<Rightarrow> string" where "show_u64 w \<equiv> show_nat (unat w)"
abbreviation show_u32 :: "u32 \<Rightarrow> string" where "show_u32 w \<equiv> show_nat (unat w)"

definition read_nat :: "string \<Rightarrow> nat" where
  "read_nat s = foldl (\<lambda>acc c. 10 * acc + digit_value c) 0 s"

lemma of_char_digit_char [simp]: "d < 10 \<Longrightarrow> of_char (digit_char d) = (48 + d :: nat)"
  by (simp add: digit_char_def)

lemma digit_value_digit_char [simp]: "d < 10 \<Longrightarrow> digit_value (digit_char d) = d"
  by (simp add: digit_value_def)

lemma is_digit_digit_char [simp]: "d < 10 \<Longrightarrow> is_digit (digit_char d)"
  by (simp add: is_digit_def)

lemma show_nat_nonempty [simp]: "show_nat n \<noteq> []"
  by (subst show_nat.simps) simp

lemma show_nat_digits: "\<forall>c \<in> set (show_nat n). is_digit c"
proof (induction n rule: show_nat.induct)
  case (1 n)
  then show ?case by (subst show_nat.simps) auto
qed

lemma read_show_nat: "read_nat (show_nat n) = n"
proof (induction n rule: show_nat.induct)
  case (1 n)
  show ?case
  proof (cases "n < 10")
    case True
    then show ?thesis by (subst show_nat.simps) (simp add: read_nat_def)
  next
    case False
    with "1.IH" have IH: "read_nat (show_nat (n div 10)) = n div 10" by simp
    from False have "read_nat (show_nat n) = 10 * read_nat (show_nat (n div 10)) + n mod 10"
      by (subst show_nat.simps) (simp add: read_nat_def)
    with IH show ?thesis by simp
  qed
qed

lemma show_nat_inject [simp]: "show_nat m = show_nat n \<longleftrightarrow> m = n"
  by (metis read_show_nat)

lemma length_show_nat: "n < 10 ^ k \<Longrightarrow> 0 < k \<Longrightarrow> length (show_nat n) \<le> k"
proof (induction k arbitrary: n)
  case 0
  then show ?case by simp
next
  case (Suc k)
  show ?case
  proof (cases "n < 10")
    case True
    then show ?thesis by (subst show_nat.simps) simp
  next
    case False
    with Suc.prems have "n div 10 < 10 ^ k" and "0 < k"
      by (auto simp: less_mult_imp_div_less mult.commute intro: gr0I)
    with Suc.IH have "length (show_nat (n div 10)) \<le> k" by simp
    with False show ?thesis by (subst show_nat.simps) simp
  qed
qed

lemma length_show_u64: "length (show_u64 w) \<le> 20"
proof (rule length_show_nat)
  have "unat w < 2 ^ 64" using unsigned_less [of w] by simp
  then show "unat w < 10 ^ 20" by (rule less_le_trans) simp
qed simp

section \<open>Hexadecimal integers and padding\<close>

definition hex_char :: "bool \<Rightarrow> nat \<Rightarrow> char" where
  "hex_char upper d = (if d < 10 then char_of (48 + d) else char_of ((if upper then 55 else 87) + d))"

fun show_hex :: "bool \<Rightarrow> nat \<Rightarrow> string" where
  "show_hex upper n =
     (if n < 16 then [hex_char upper n]
      else show_hex upper (n div 16) @ [hex_char upper (n mod 16)])"

declare show_hex.simps [simp del]

definition pad_zero :: "nat \<Rightarrow> string \<Rightarrow> string" where
  "pad_zero width s = replicate (width - length s) (CHR ''0'') @ s"

lemma length_pad_zero: "length (pad_zero width s) = max width (length s)"
  by (simp add: pad_zero_def)

lemma show_hex_nonempty [simp]: "show_hex u n \<noteq> []"
  by (subst show_hex.simps) simp

lemma length_show_hex: "n < 16 ^ k \<Longrightarrow> 0 < k \<Longrightarrow> length (show_hex u n) \<le> k"
proof (induction k arbitrary: n)
  case 0
  then show ?case by simp
next
  case (Suc k)
  show ?case
  proof (cases "n < 16")
    case True
    then show ?thesis by (subst show_hex.simps) simp
  next
    case False
    with Suc.prems have "n div 16 < 16 ^ k" and "0 < k"
      by (auto simp: less_mult_imp_div_less mult.commute intro: gr0I)
    with Suc.IH have "length (show_hex u (n div 16)) \<le> k" by simp
    with False show ?thesis by (subst show_hex.simps) simp
  qed
qed

section \<open>Bounded buffers\<close>

text \<open>
  \<open>snprintf(out, n, ...)\<close> leaves at most \<open>n - 1\<close> bytes in the buffer and returns the length it would
  have needed. The contents of the buffer, read as a C string, are the formatted text cut there.
\<close>

definition snprintf_buf :: "nat \<Rightarrow> string \<Rightarrow> string" where
  "snprintf_buf n s = take (n - 1) s"

lemma length_snprintf_buf: "0 < n \<Longrightarrow> length (snprintf_buf n s) < n"
  by (auto simp: snprintf_buf_def)

lemma snprintf_buf_prefix: "prefix (snprintf_buf n s) s"
  by (auto simp: snprintf_buf_def take_is_prefix)

lemma snprintf_buf_fits: "length s < n \<Longrightarrow> snprintf_buf n s = s"
  by (simp add: snprintf_buf_def)

section \<open>Milliseconds as seconds\<close>

text \<open>
  \<open>ms / 1000.0\<close> is IEEE double arithmetic: the integer is rounded to 53 bits, the quotient is rounded
  to 53 bits again, and \<open>%.1f\<close> rounds the exact value of that double to one decimal. Each rounding is
  to nearest, ties to even. A double is held here as a mantissa \<open>m\<close> and a bit length \<open>l\<close>: its value is
  \<open>m * 2 ^ l / 2 ^ 116\<close>.
\<close>

fun bit_len :: "nat \<Rightarrow> nat" where
  "bit_len n = (if n = 0 then 0 else Suc (bit_len (n div 2)))"

declare bit_len.simps [simp del]

definition round_half_even :: "nat \<Rightarrow> nat \<Rightarrow> nat" where
  "round_half_even num den =
     (let q = num div den; r = num mod den
      in if 2 * r < den \<or> (2 * r = den \<and> even q) then q else Suc q)"

definition double_of_nat :: "nat \<Rightarrow> nat" where
  "double_of_nat n = (let s = bit_len n - 53 in round_half_even n (2 ^ s) * 2 ^ s)"

definition thousandths :: "nat \<Rightarrow> nat \<times> nat" where
  "thousandths ms =
     (let d = double_of_nat ms; l = bit_len (d * 2 ^ 63 div 1000)
      in (round_half_even (d * 2 ^ 116) (1000 * 2 ^ l), l))"

definition seconds_1f :: "nat \<Rightarrow> string" where
  "seconds_1f ms =
     (let (m, l) = thousandths ms; t = round_half_even (m * 2 ^ l * 10) (2 ^ 116)
      in show_nat (t div 10) @ ''.'' @ [digit_char (t mod 10)])"

definition strip_trailing_zeros :: "string \<Rightarrow> string" where
  "strip_trailing_zeros s = rev (dropWhile (\<lambda>c. c = CHR ''0'') (rev s))"

text \<open>
  The default stream format keeps six significant digits and drops trailing zeros. Below a minute the
  value has at most five, so the text is the decimal fraction itself.
\<close>

definition seconds_g :: "nat \<Rightarrow> string" where
  "seconds_g ms =
     (let f = strip_trailing_zeros (pad_zero 3 (show_nat (ms mod 1000)))
      in show_nat (ms div 1000) @ (if f = [] then [] else CHR ''.'' # f))"

lemma round_half_even_exact: "0 < den \<Longrightarrow> round_half_even (k * den) den = k"
  by (simp add: round_half_even_def Let_def)

lemma round_half_even_bounds:
  assumes "0 < den"
  shows "num div den \<le> round_half_even num den" and "round_half_even num den \<le> Suc (num div den)"
  by (auto simp: round_half_even_def Let_def)

text \<open>The \<open>Seconds\<close> helper of the runner: the conversion into a 32-byte buffer.\<close>

definition Seconds :: "u64 \<Rightarrow> string" where
  "Seconds ms = snprintf_buf 32 (seconds_1f (unat ms))"

lemma length_Seconds: "length (Seconds ms) < 32"
  by (simp add: Seconds_def length_snprintf_buf)

section \<open>Case-insensitive comparison\<close>

definition ascii_lower :: "char \<Rightarrow> char" where
  "ascii_lower c =
     (let n = (of_char c :: nat) in if 65 \<le> n \<and> n \<le> 90 then char_of (n + 32) else c)"

fun EqualsIgnoreCase :: "string \<Rightarrow> string \<Rightarrow> bool" where
  "EqualsIgnoreCase (a # as) (b # bs) \<longleftrightarrow> ascii_lower a = ascii_lower b \<and> EqualsIgnoreCase as bs"
| "EqualsIgnoreCase [] [] \<longleftrightarrow> True"
| "EqualsIgnoreCase _ _ \<longleftrightarrow> False"

lemma EqualsIgnoreCase_map: "EqualsIgnoreCase a b \<longleftrightarrow> map ascii_lower a = map ascii_lower b"
  by (induction a b rule: EqualsIgnoreCase.induct) auto

section \<open>Lines of a text\<close>

text \<open>The newline-terminated lines of a text; an unterminated rest is a last line of its own.\<close>

fun split_lines_from :: "string \<Rightarrow> string \<Rightarrow> string list" where
  "split_lines_from acc [] = (if acc = [] then [] else [acc])"
| "split_lines_from acc (c # cs) =
     (if c = newline then acc # split_lines_from [] cs else split_lines_from (acc @ [c]) cs)"

definition split_lines :: "string \<Rightarrow> string list" where "split_lines = split_lines_from []"

definition clean :: "string \<Rightarrow> bool" where "clean s \<longleftrightarrow> newline \<notin> set s"

lemma clean_simps [simp]:
  "clean []" "clean (c # s) \<longleftrightarrow> c \<noteq> CHR 0x0A \<and> clean s" "clean (s @ t) \<longleftrightarrow> clean s \<and> clean t"
  by (auto simp: clean_def newline_def)

lemma split_lines_from_line:
  "clean l \<Longrightarrow> split_lines_from acc (l @ newline # rest) = (acc @ l) # split_lines_from [] rest"
  by (induction l arbitrary: acc) (auto simp: newline_def)

lemma split_lines_concat:
  "(\<And>l. l \<in> set ls \<Longrightarrow> clean l) \<Longrightarrow>
   split_lines (concat (map (\<lambda>l. l @ [newline]) ls)) = ls"
  unfolding split_lines_def
  by (induction ls) (simp_all add: split_lines_from_line)

text \<open>Numbers, padding and bounded copies never contain a newline.\<close>

lemma clean_show_nat [simp]: "clean (show_nat n)"
  using show_nat_digits [of n] by (auto simp: clean_def newline_def is_digit_def)

lemma clean_show_int [simp]: "clean (show_int i)"
  by (simp add: show_int_def)

lemma hex_char_not_newline [simp]: "d < 16 \<Longrightarrow> hex_char u d \<noteq> CHR 0x0A"
  unfolding hex_char_def
  by (cases u) (auto dest!: arg_cong [where f = "of_char :: char \<Rightarrow> nat"])

lemma clean_show_hex [simp]: "clean (show_hex u n)"
proof (induction n rule: show_hex.induct [where P = "\<lambda>_ n. clean (show_hex u n)"])
  case (1 v n)
  then show ?case by (subst show_hex.simps) auto
qed

lemma clean_pad_zero [simp]: "clean (pad_zero k s) \<longleftrightarrow> clean s"
  by (auto simp: pad_zero_def clean_def newline_def)

lemma clean_snprintf_buf [intro]: "clean s \<Longrightarrow> clean (snprintf_buf n s)"
  by (auto simp: snprintf_buf_def clean_def dest: in_set_takeD)

lemma clean_strip_trailing_zeros [intro]: "clean s \<Longrightarrow> clean (strip_trailing_zeros s)"
  by (auto simp: strip_trailing_zeros_def clean_def dest: set_dropWhileD)

lemma clean_seconds_g [simp]: "clean (seconds_g ms)"
  by (simp add: seconds_g_def Let_def clean_strip_trailing_zeros)

lemma clean_seconds_1f [simp]: "clean (seconds_1f ms)"
proof -
  have "clean [digit_char (t mod 10)]" for t
    using of_char_digit_char [of "t mod 10"] by (auto simp del: of_char_digit_char)
  then show ?thesis by (simp add: seconds_1f_def Let_def split: prod.split)
qed

lemma clean_Seconds [simp]: "clean (Seconds ms)"
  by (simp add: Seconds_def clean_snprintf_buf)

section \<open>Reading integers\<close>

text \<open>
  \<open>strtol(raw, &end, 10)\<close> with the 32-bit \<open>long\<close> of the Windows ABI: leading white space, an optional
  sign, digits, saturation at the limits. The result is the value and the rest at \<open>end\<close>; with no
  digits \<open>end\<close> is the whole input and the value 0.
\<close>

definition is_space :: "char \<Rightarrow> bool" where
  "is_space c \<longleftrightarrow> c = CHR '' '' \<or> (9 \<le> (of_char c :: nat) \<and> (of_char c :: nat) \<le> 13)"

definition long_max :: int where "long_max = 2147483647"
definition long_min :: int where "long_min = - 2147483648"

definition strtol10 :: "string \<Rightarrow> int \<times> string" where
  "strtol10 raw =
     (let s = dropWhile is_space raw;
          neg = (s \<noteq> [] \<and> hd s = CHR ''-'');
          body = (if s \<noteq> [] \<and> (hd s = CHR ''-'' \<or> hd s = CHR ''+'') then tl s else s);
          digits = takeWhile is_digit body;
          v = (if neg then - int (read_nat digits) else int (read_nat digits))
      in if digits = [] then (0, raw)
         else (max long_min (min long_max v), dropWhile is_digit body))"

lemma strtol10_show_nat:
  assumes "int n \<le> long_max"
  shows "strtol10 (show_nat n) = (int n, [])"
proof -
  have d: "is_digit c" if "c \<in> set (show_nat n)" for c
    using show_nat_digits [of n] that by blast
  obtain c cs where s: "show_nat n = c # cs" by (cases "show_nat n") auto
  with d have c: "is_digit c" by simp
  then have "\<not> is_space c" "c \<noteq> CHR ''-''" "c \<noteq> CHR ''+''"
    by (auto simp: is_digit_def is_space_def)
  moreover have rest: "takeWhile is_digit cs = cs" "dropWhile is_digit cs = []"
    using d by (auto simp: s takeWhile_eq_all_conv)
  moreover have "long_min \<le> int n" by (simp add: long_min_def)
  ultimately show ?thesis
    using assms c read_show_nat [of n] unfolding strtol10_def s by (simp add: Let_def rest)
qed

lemma strtol10_range: "long_min \<le> fst (strtol10 s) \<and> fst (strtol10 s) \<le> long_max"
  by (simp add: strtol10_def Let_def long_min_def long_max_def)

end
