(* ===== verification/Rebuild_Gate.thy ===== *)
theory Rebuild_Gate
  imports Text_Format
begin

text \<open>
  The gate every engine rebuild passes (\<open>engine_rebuild_gate.h\<close>, \<open>engine_rebuild_gate.cpp\<close>): requests are
  debounced, held while a startup is in flight and folded into one, and released when the startup
  reports complete or its timeout runs out. The lemmas show that no rebuild is ever let through while
  a startup blocks, that every request the debounce lets pass is answered by exactly one rebuild or is
  still queued, that the newest reason wins, and that a queued request is released at the first poll
  after completion or timeout.
\<close>

section \<open>Data\<close>

record GateConfig =
  debounce_ms :: u64
  startup_timeout_ms :: u64

definition default_gate_config :: GateConfig where
  "default_gate_config = \<lparr> debounce_ms = 3000, startup_timeout_ms = 180000 \<rparr>"

datatype GateVerdict = kIdle | kGateRebuildNow | kQueued | kCoalesced | kDebounced

record GateDecision =
  gd_verdict :: GateVerdict
  gd_coalesced :: u32
  gd_reason :: string
  gd_waited_ms :: u64
  gd_startup_timed_out :: bool

definition idle_decision :: GateDecision where
  "idle_decision = \<lparr> gd_verdict = kIdle, gd_coalesced = 0, gd_reason = [], gd_waited_ms = 0,
     gd_startup_timed_out = False \<rparr>"

record EngineRebuildGate =
  g_config :: GateConfig
  g_startup_in_flight :: bool
  g_startup_started_ms :: u64
  g_last_rebuild_ms :: u64
  g_ever_rebuilt :: bool
  g_queued :: bool
  g_queued_count :: u32
  g_queued_since_ms :: u64
  g_queued_reason :: string

definition gate_init :: "GateConfig \<Rightarrow> EngineRebuildGate" where
  "gate_init config = \<lparr> g_config = config, g_startup_in_flight = False, g_startup_started_ms = 0,
     g_last_rebuild_ms = 0, g_ever_rebuilt = False, g_queued = False, g_queued_count = 0,
     g_queued_since_ms = 0, g_queued_reason = [] \<rparr>"

section \<open>Operations\<close>

definition gate_EngineCreated :: "u64 \<Rightarrow> EngineRebuildGate \<Rightarrow> EngineRebuildGate" where
  "gate_EngineCreated now_ms g = g\<lparr>g_startup_in_flight := True, g_startup_started_ms := now_ms\<rparr>"

definition gate_StartupComplete :: "u64 \<Rightarrow> EngineRebuildGate \<Rightarrow> EngineRebuildGate" where
  "gate_StartupComplete now_ms g = g\<lparr>g_startup_in_flight := False\<rparr>"

definition gate_StartupBlocking :: "u64 \<Rightarrow> EngineRebuildGate \<Rightarrow> bool" where
  "gate_StartupBlocking now_ms g \<longleftrightarrow>
     g_startup_in_flight g \<and>
     elapsed_since now_ms (g_startup_started_ms g) < startup_timeout_ms (g_config g)"

definition gate_Release :: "u64 \<Rightarrow> EngineRebuildGate \<Rightarrow> EngineRebuildGate \<times> GateDecision" where
  "gate_Release now_ms g =
     (g\<lparr>g_queued := False, g_queued_count := 0, g_queued_since_ms := 0, g_queued_reason := [],
        g_last_rebuild_ms := now_ms, g_ever_rebuilt := True\<rparr>,
      \<lparr> gd_verdict = kGateRebuildNow,
        gd_coalesced = (if g_queued_count g = 0 then 1 else g_queued_count g),
        gd_reason = g_queued_reason g,
        gd_waited_ms = (if g_queued g then elapsed_since now_ms (g_queued_since_ms g) else 0),
        gd_startup_timed_out = (g_queued g \<and> g_startup_in_flight g) \<rparr>)"

definition gate_debounced :: "u64 \<Rightarrow> EngineRebuildGate \<Rightarrow> bool" where
  "gate_debounced now_ms g \<longleftrightarrow>
     g_ever_rebuilt g \<and> g_last_rebuild_ms g \<le> now_ms \<and>
     now_ms - g_last_rebuild_ms g < debounce_ms (g_config g)"

definition gate_Request ::
  "string \<Rightarrow> u64 \<Rightarrow> EngineRebuildGate \<Rightarrow> EngineRebuildGate \<times> GateDecision" where
  "gate_Request reason now_ms g =
     (if gate_debounced now_ms g then
        (g, idle_decision\<lparr>gd_verdict := kDebounced, gd_reason := reason\<rparr>)
      else if gate_StartupBlocking now_ms g then
        let g1 = (if \<not> g_queued g then g\<lparr>g_queued := True, g_queued_since_ms := now_ms\<rparr> else g);
            g2 = g1\<lparr>g_queued_count := g_queued_count g1 + 1, g_queued_reason := reason\<rparr>
        in (g2, idle_decision\<lparr>gd_verdict := (if g_queued g then kCoalesced else kQueued),
                  gd_coalesced := g_queued_count g2, gd_reason := reason,
                  gd_waited_ms := elapsed_since now_ms (g_queued_since_ms g2)\<rparr>)
      else
        let g1 = g\<lparr>g_queued_count := g_queued_count g + 1, g_queued_reason := reason\<rparr>;
            g2 = (if \<not> g_queued g1 then g1\<lparr>g_queued_since_ms := now_ms\<rparr> else g1)
        in gate_Release now_ms (g2\<lparr>g_queued := True\<rparr>))"

definition gate_Poll :: "u64 \<Rightarrow> EngineRebuildGate \<Rightarrow> EngineRebuildGate \<times> GateDecision" where
  "gate_Poll now_ms g =
     (if \<not> g_queued g then (g, idle_decision)
      else if gate_StartupBlocking now_ms g then (g, idle_decision)
      else gate_Release now_ms g)"

definition DescribeEngineRebuild :: "GateDecision \<Rightarrow> string" where
  "DescribeEngineRebuild decision =
     (let reason = (if gd_reason decision = [] then ''unspecified'' else gd_reason decision) in
      case gd_verdict decision of
        kIdle \<Rightarrow> []
      | kDebounced \<Rightarrow>
          ''rebuild request ('' @ reason @
          '') ignored: a duplicate of the one the rebuild just above '' @ ''already answered''
      | kQueued \<Rightarrow>
          ''rebuild request ('' @ reason @
          '') QUEUED: the current engine is still starting up. Tearing one '' @
          ''down mid-startup orphaned a generation of OPC UA clients on '' @
          ''2026-09-10, and on 2026-09-11 it restarted a startup three '' @
          ''times over until the app never came up at all. The rebuild will '' @
          ''run once startup reports complete.''
      | kCoalesced \<Rightarrow>
          ''rebuild request ('' @ reason @ '') folded into the queued rebuild -- '' @
          show_u32 (gd_coalesced decision) @ '' request(s) will now cost one rebuild, not '' @
          show_u32 (gd_coalesced decision)
      | kGateRebuildNow \<Rightarrow>
          if gd_waited_ms decision = 0 \<and> gd_coalesced decision \<le> 1 then
            ''rebuild request ('' @ reason @
            '') -- REBUILDING the renderer now. A rebuild is a new Dart '' @
            ''isolate; the operator's page and pending proposals are '' @
            ''restored from the device-local store by the next one.''
          else
            ''rebuild request ('' @ reason @ '') -- REBUILDING now, answering '' @
            show_u32 (gd_coalesced decision) @ '' queued request(s) after waiting '' @
            Seconds (gd_waited_ms decision) @ '' s for startup'' @
            (if gd_startup_timed_out decision
             then '', which never reported complete -- rebuilding anyway '' @
                  ''rather than leaving the operator without a renderer''
             else '' to finish''))"

section \<open>The gate as a machine\<close>

datatype GateEvent = GCreated u64 | GComplete u64 | GRequest string u64 | GPoll u64

fun gate_event :: "EngineRebuildGate \<Rightarrow> GateEvent \<Rightarrow> EngineRebuildGate \<times> GateDecision" where
  "gate_event g (GCreated t) = (gate_EngineCreated t g, idle_decision)"
| "gate_event g (GComplete t) = (gate_StartupComplete t g, idle_decision)"
| "gate_event g (GRequest reason t) = gate_Request reason t g"
| "gate_event g (GPoll t) = gate_Poll t g"

definition gate_step :: "EngineRebuildGate \<Rightarrow> GateEvent \<Rightarrow> EngineRebuildGate" where
  "gate_step g e = fst (gate_event g e)"

definition gate_decision :: "EngineRebuildGate \<Rightarrow> GateEvent \<Rightarrow> GateDecision" where
  "gate_decision g e = snd (gate_event g e)"

definition gate_rebuilds :: "EngineRebuildGate \<Rightarrow> GateEvent \<Rightarrow> bool" where
  "gate_rebuilds g e \<longleftrightarrow> gd_verdict (gate_decision g e) = kGateRebuildNow"

lemmas gate_defs = gate_step_def gate_decision_def gate_rebuilds_def gate_EngineCreated_def
  gate_StartupComplete_def gate_Release_def gate_Request_def gate_Poll_def idle_decision_def Let_def

section \<open>No rebuild while a startup blocks\<close>

fun gate_time :: "GateEvent \<Rightarrow> u64" where
  "gate_time (GCreated t) = t"
| "gate_time (GComplete t) = t"
| "gate_time (GRequest r t) = t"
| "gate_time (GPoll t) = t"

text \<open>Whoever asks (a session change, the watchdog, a poll), the gate lets a rebuild through only
  when no startup is in flight or the startup has used up its timeout, and the request it answers was
  not a duplicate inside the debounce.\<close>

theorem rebuild_never_interrupts_startup:
  assumes "gate_rebuilds g e"
  shows "\<not> gate_StartupBlocking (gate_time e) g \<and>
    (\<not> g_startup_in_flight g \<or> startup_timeout_ms (g_config g) \<le> elapsed_since (gate_time e) (g_startup_started_ms g)) \<and>
    (\<forall>r t. e = GRequest r t \<longrightarrow> \<not> gate_debounced t g)"
  using assms by (cases e) (auto simp: gate_defs gate_StartupBlocking_def not_less split: if_splits)

lemma rebuild_never_interrupts_startup_witness:
  "\<not> gate_StartupBlocking 180000 (gate_EngineCreated 0 (gate_init default_gate_config))"
  using rebuild_never_interrupts_startup
    [of "gate_EngineCreated 0 (gate_init default_gate_config)" "GRequest ''resume'' 180000"]
  by (simp add: gate_defs gate_debounced_def gate_StartupBlocking_def gate_init_def
      default_gate_config_def elapsed_since_def)

section \<open>Every request is answered once\<close>

definition gate_ok :: "EngineRebuildGate \<Rightarrow> bool" where
  "gate_ok g \<longleftrightarrow> (\<not> g_queued g \<longrightarrow> g_queued_count g = 0 \<and> g_queued_reason g = [])"

lemma gate_ok_step: "gate_ok g \<Longrightarrow> gate_ok (gate_step g e)"
  by (cases e) (auto simp: gate_defs gate_ok_def)

interpretation gate_inv: invariant_machine gate_step gate_ok
  by unfold_locales (rule gate_ok_step)

text \<open>A request the debounce lets pass.\<close>

fun counts_request :: "EngineRebuildGate \<Rightarrow> GateEvent \<Rightarrow> bool" where
  "counts_request g (GRequest reason t) \<longleftrightarrow> \<not> gate_debounced t g"
| "counts_request g _ \<longleftrightarrow> False"

definition answered :: "EngineRebuildGate \<Rightarrow> GateEvent \<Rightarrow> nat" where
  "answered g e = (if gate_rebuilds g e then unat (gd_coalesced (gate_decision g e)) else 0)"

lemma unat_inc: "unat (x :: u32) + 1 < 2 ^ 32 \<Longrightarrow> unat (x + 1) = unat x + 1"
  by (simp add: unat_word_ariths)

lemma inc_nonzero: "unat (x :: u32) + 1 < 2 ^ 32 \<Longrightarrow> x + 1 \<noteq> 0"
  using unat_inc [of x] by (metis add_is_0 one_neq_zero unat_0)

text \<open>The count of a queue that is in use is not zero, as long as it has not wrapped.\<close>

definition gate_busy :: "EngineRebuildGate \<Rightarrow> bool" where
  "gate_busy g \<longleftrightarrow> gate_ok g \<and> (g_queued g \<longrightarrow> g_queued_count g \<noteq> 0)"

lemma gate_busy_step:
  assumes "gate_busy g" and "unat (g_queued_count g) + 1 < 2 ^ 32"
  shows "gate_busy (gate_step g e) \<and>
    (if counts_request g e then 1 else 0) + unat (g_queued_count g) =
      answered g e + unat (g_queued_count (gate_step g e))"
  using assms inc_nonzero [OF assms(2)] unat_inc [OF assms(2)]
  by (cases e) (auto simp: gate_defs gate_busy_def gate_ok_def answered_def)

lemma gate_accounting:
  assumes "gate_busy g" and "unat (g_queued_count g) + length es < 2 ^ 32"
  shows "count_along gate_step counts_request g es + unat (g_queued_count g) =
      sum_along gate_step answered g es + unat (g_queued_count (run gate_step g es))"
  using assms
proof (induction es arbitrary: g)
  case Nil
  then show ?case by simp
next
  case (Cons e es)
  have "unat (g_queued_count g) + 1 < 2 ^ 32" using Cons.prems(2) by simp
  note s = gate_busy_step [OF Cons.prems(1) this, of e]
  then have "unat (g_queued_count (gate_step g e)) \<le> unat (g_queued_count g) + 1"
    by (auto split: if_splits)
  with Cons.prems(2) have "unat (g_queued_count (gate_step g e)) + length es < 2 ^ 32" by simp
  from Cons.IH [OF _ this] s show ?case by (auto split: if_splits)
qed

text \<open>No request is lost and none is answered twice: over any history of fewer than 2^32 events, the
  requests the debounce let pass are exactly the ones the rebuilds say they answer plus the ones
  still queued.\<close>

theorem requests_accounted:
  assumes "length es < 2 ^ 32"
  shows "count_along gate_step counts_request (gate_init c) es =
    sum_along gate_step answered (gate_init c) es +
    unat (g_queued_count (run gate_step (gate_init c) es))"
proof -
  have "gate_busy (gate_init c)" by (simp add: gate_busy_def gate_ok_def gate_init_def)
  from gate_accounting [OF this, of es] assms show ?thesis by (simp add: gate_init_def)
qed

lemma requests_accounted_witness:
  "count_along gate_step counts_request (gate_init default_gate_config)
     [GCreated 0, GRequest ''a'' 5, GRequest ''b'' 6, GComplete 9, GPoll 10] =
   sum_along gate_step answered (gate_init default_gate_config)
     [GCreated 0, GRequest ''a'' 5, GRequest ''b'' 6, GComplete 9, GPoll 10] +
   unat (g_queued_count (run gate_step (gate_init default_gate_config)
     [GCreated 0, GRequest ''a'' 5, GRequest ''b'' 6, GComplete 9, GPoll 10]))"
  by (rule requests_accounted) simp

section \<open>A queued request is released, with the newest reason\<close>

text \<open>Events that happen while a startup blocks: requests and polls inside its timeout.\<close>

fun blocked_event :: "EngineRebuildGate \<Rightarrow> GateEvent \<Rightarrow> bool" where
  "blocked_event g (GRequest r t) \<longleftrightarrow> gate_StartupBlocking t g \<and> \<not> gate_debounced t g"
| "blocked_event g (GPoll t) \<longleftrightarrow> gate_StartupBlocking t g"
| "blocked_event g _ \<longleftrightarrow> False"

fun newest_reason :: "string \<Rightarrow> GateEvent list \<Rightarrow> string" where
  "newest_reason r [] = r"
| "newest_reason r (GRequest r' t # es) = newest_reason r' es"
| "newest_reason r (e # es) = newest_reason r es"

lemma blocked_step:
  assumes "blocked_event g e" and "g_queued g"
  shows "g_queued (gate_step g e) \<and> \<not> gate_rebuilds g e \<and>
    g_queued_reason (gate_step g e) = newest_reason (g_queued_reason g) [e] \<and>
    g_queued_since_ms (gate_step g e) = g_queued_since_ms g \<and>
    (\<forall>e'. blocked_event (gate_step g e) e' = blocked_event g e') \<and>
    (\<forall>t. gate_StartupBlocking t (gate_step g e) = gate_StartupBlocking t g)"
proof -
  have "blocked_event (gate_step g e) e' = blocked_event g e'" for e'
    using assms by (cases e; cases e') (auto simp: gate_defs gate_StartupBlocking_def gate_debounced_def)
  then show ?thesis
    using assms by (cases e) (auto simp: gate_defs gate_StartupBlocking_def gate_debounced_def)
qed

lemma newest_reason_Cons: "newest_reason r (e # es) = newest_reason (newest_reason r [e]) es"
  by (cases e) simp_all

lemma blocked_run:
  assumes "list_all (blocked_event g) es" and "g_queued g"
  shows "g_queued (run gate_step g es) \<and> count_along gate_step gate_rebuilds g es = 0 \<and>
    g_queued_reason (run gate_step g es) = newest_reason (g_queued_reason g) es \<and>
    g_queued_since_ms (run gate_step g es) = g_queued_since_ms g \<and>
    (\<forall>t. gate_StartupBlocking t (run gate_step g es) = gate_StartupBlocking t g)"
  using assms
proof (induction es arbitrary: g)
  case Nil
  then show ?case by simp
next
  case (Cons e es)
  have s: "g_queued (gate_step g e)" "\<not> gate_rebuilds g e"
    "g_queued_reason (gate_step g e) = newest_reason (g_queued_reason g) [e]"
    "g_queued_since_ms (gate_step g e) = g_queued_since_ms g"
    "blocked_event (gate_step g e) = blocked_event g"
    "\<And>t. gate_StartupBlocking t (gate_step g e) = gate_StartupBlocking t g"
    using blocked_step [of g e] Cons.prems by auto
  have "list_all (blocked_event (gate_step g e)) es" unfolding s(5) using Cons.prems by simp
  from Cons.IH [OF this s(1)] s show ?case
    by (subst newest_reason_Cons) simp
qed

text \<open>A request made while a startup blocks is held through whatever further requests and polls come,
  and released by the first poll after the startup completed or used up its timeout: one rebuild, for
  the newest reason, with the wait counted from the first request.\<close>

theorem queued_request_released:
  assumes "gate_StartupBlocking t0 g" and "\<not> gate_debounced t0 g" and "\<not> g_queued g"
    and "g1 = gate_step g (GRequest r t0)" and "list_all (blocked_event g1) es"
    and "g2 = run gate_step g1 es"
    and "g3 = g2 \<or> g3 = gate_step g2 (GComplete tc)" and "\<not> gate_StartupBlocking t g3"
  shows "count_along gate_step gate_rebuilds g1 es = 0 \<and> gate_rebuilds g3 (GPoll t) \<and>
    gd_reason (gate_decision g3 (GPoll t)) = newest_reason r es \<and>
    gd_waited_ms (gate_decision g3 (GPoll t)) = elapsed_since t t0"
proof -
  have g1: "g_queued g1" "g_queued_reason g1 = r" "g_queued_since_ms g1 = t0"
    using assms(1-4) by (simp_all add: gate_defs)
  have r: "g_queued g2" "count_along gate_step gate_rebuilds g1 es = 0"
    "g_queued_reason g2 = newest_reason r es" "g_queued_since_ms g2 = t0"
    using blocked_run [OF assms(5) g1(1)] g1 assms(6) by auto
  have "g_queued g3" "g_queued_reason g3 = newest_reason r es" "g_queued_since_ms g3 = t0"
    using assms(7) r by (auto simp: gate_defs)
  with r(2) assms(8) show ?thesis by (simp add: gate_defs)
qed

lemma queued_request_released_witness:
  "gate_rebuilds (run gate_step (gate_EngineCreated 0 (gate_init default_gate_config))
      [GRequest ''disconnect'' 5, GRequest ''connect'' 9, GPoll 10, GComplete 20]) (GPoll 25)"
proof -
  let ?g = "gate_EngineCreated 0 (gate_init default_gate_config)"
  let ?g1 = "gate_step ?g (GRequest ''disconnect'' 5)"
  have "list_all (blocked_event ?g1) [GRequest ''connect'' 9, GPoll 10]"
    by (simp add: gate_defs gate_StartupBlocking_def gate_debounced_def gate_init_def
        default_gate_config_def elapsed_since_def)
  moreover have "\<not> gate_StartupBlocking 25 (gate_step (run gate_step ?g1 [GRequest ''connect'' 9, GPoll 10]) (GComplete 20))"
    by (simp add: gate_step_def [of _ "GComplete 20"] gate_StartupComplete_def gate_StartupBlocking_def)
  moreover have "gate_StartupBlocking 5 ?g" "\<not> gate_debounced 5 ?g" "\<not> g_queued ?g"
    by (simp_all add: gate_defs gate_StartupBlocking_def gate_debounced_def gate_init_def
        default_gate_config_def elapsed_since_def)
  ultimately show ?thesis
    using queued_request_released [of 5 ?g ?g1 "''disconnect''" "[GRequest ''connect'' 9, GPoll 10]"
        "run gate_step ?g1 [GRequest ''connect'' 9, GPoll 10]" _ 20 25] by auto
qed

end
