(* ===== verification/Gpu_Diagnosis.thy ===== *)
theory Gpu_Diagnosis
  imports Text_Format
begin

text \<open>
  The device-loss diagnosis (\<open>gpu_diagnosis.h\<close>, \<open>gpu_diagnosis.cpp\<close>): the classification of the reason
  code a sentinel D3D11 device gives, the texts of the report, the report block itself and the policy
  parsed from \<open>CENTROID_GPU_ON_LOSS\<close>. Everything here is pure. The lemmas show that only the code zero
  reads as a healthy adapter, that the fixed buffers never cut a text, that every line of a report
  carries the tag, and that the policy's own names are read back case-insensitively.
\<close>

section \<open>Data\<close>

definition kDxgiOk :: u32 where "kDxgiOk = 0"
definition kDxgiInvalidCall :: u32 where "kDxgiInvalidCall = 0x887A0001"
definition kDxgiDeviceRemoved :: u32 where "kDxgiDeviceRemoved = 0x887A0005"
definition kDxgiDeviceHung :: u32 where "kDxgiDeviceHung = 0x887A0006"
definition kDxgiDeviceReset :: u32 where "kDxgiDeviceReset = 0x887A0007"
definition kDxgiDriverInternalError :: u32 where "kDxgiDriverInternalError = 0x887A0020"

lemmas dxgi_reason_defs = kDxgiOk_def kDxgiInvalidCall_def kDxgiDeviceRemoved_def
  kDxgiDeviceHung_def kDxgiDeviceReset_def kDxgiDriverInternalError_def

datatype AdapterVerdict = kHealthy | kHung | kRemoved | kReset | kDriverError | kUnknown

datatype LossHint = kHintNone | kPowerResume | kDisplayChange | kSessionChange

datatype LossCause = kNoFramesPresented | kContextLost | kPlatformThreadWedged | kRasterFailed

datatype LossEscalation = kNotEscalated | kRepeatedLosses | kRecoveryExhausted

datatype LossAction = kLogOnly | kExitProcess | kRestartEngine

record LossEvidence =
  ev_cause :: LossCause
  ev_escalation :: LossEscalation
  ev_sentinel_available :: bool
  ev_device_removed_reason :: u32
  ev_losses_in_window :: int
  ev_max_losses_in_window :: int
  ev_recovery_attempts :: int
  ev_last_hint :: LossHint
  ev_ms_since_last_hint :: u64
  ev_session_change_code :: u32
  ev_ms_since_start :: u64
  ev_ms_since_last_frame :: u64
  ev_missed_probes :: int
  ev_remote_session :: bool
  ev_adapter_description :: string
  ev_adapter_vendor_id :: u32
  ev_adapter_device_id :: u32

section \<open>Classification\<close>

definition ClassifyRemovedReason :: "u32 \<Rightarrow> AdapterVerdict" where
  "ClassifyRemovedReason reason =
     (if reason = kDxgiOk then kHealthy
      else if reason = kDxgiDeviceHung then kHung
      else if reason = kDxgiDeviceRemoved then kRemoved
      else if reason = kDxgiDeviceReset then kReset
      else if reason = kDxgiDriverInternalError then kDriverError
      else if reason = kDxgiInvalidCall then kReset
      else kUnknown)"

definition removed_reason_name :: "u32 \<Rightarrow> string option" where
  "removed_reason_name reason =
     (if reason = kDxgiOk then Some ''S_OK''
      else if reason = kDxgiInvalidCall then Some ''DXGI_ERROR_INVALID_CALL''
      else if reason = kDxgiDeviceRemoved then Some ''DXGI_ERROR_DEVICE_REMOVED''
      else if reason = kDxgiDeviceHung then Some ''DXGI_ERROR_DEVICE_HUNG''
      else if reason = kDxgiDeviceReset then Some ''DXGI_ERROR_DEVICE_RESET''
      else if reason = kDxgiDriverInternalError then Some ''DXGI_ERROR_DRIVER_INTERNAL_ERROR''
      else None)"

text \<open>The output buffer is absent (\<open>None\<close>, a null pointer) or has a length.\<close>

definition DescribeRemovedReason :: "u32 \<Rightarrow> nat option \<Rightarrow> string" where
  "DescribeRemovedReason reason out =
     (let name = removed_reason_name reason;
          hex = pad_zero 8 (show_hex False (unat reason))
      in case out of
           None \<Rightarrow> (case name of Some s \<Rightarrow> s | None \<Rightarrow> [])
         | Some n \<Rightarrow>
             if n = 0 then (case name of Some s \<Rightarrow> s | None \<Rightarrow> [])
             else snprintf_buf n
               (case name of
                  Some s \<Rightarrow> s @ '' (0x'' @ hex @ '')''
                | None \<Rightarrow> ''unrecognised reason (0x'' @ hex @ '')''))"

fun ExplainVerdict :: "AdapterVerdict \<Rightarrow> string" where
  "ExplainVerdict kHealthy =
     ''the adapter is healthy -- our sentinel D3D11 device survived, so '' @
     ''the GPU did not go down and only ANGLE's device was lost. Look '' @
     ''at the session/desktop swap path (RDP connect or disconnect, '' @
     ''fast user switching, the console session moving), not at the '' @
     ''graphics driver.''"
| "ExplainVerdict kHung =
     ''the GPU stopped responding and Windows reset it (TDR). Check the '' @
     ''System event log for Display/nvlddmkm 'has stopped responding '' @
     ''and has successfully recovered', and whether a heavy page or a '' @
     ''shader is driving it.''"
| "ExplainVerdict kRemoved =
     ''the adapter went away: the driver was updated or restarted, a '' @
     ''virtual GPU reset under the VM, or the device was disabled. '' @
     ''Check the System event log around this timestamp for a driver '' @
     ''install or a PnP removal.''"
| "ExplainVerdict kReset =
     ''the device was reset after an invalid command. That is usually '' @
     ''another process on the same adapter rather than this one, but a '' @
     ''driver bug presents the same way.''"
| "ExplainVerdict kDriverError =
     ''the graphics driver reported an internal error. This one is the '' @
     ''driver's own fault -- note its version below and look for a '' @
     ''known issue or an update.''"
| "ExplainVerdict kUnknown =
     ''the device is gone for a reason with no name in this build. The '' @
     ''raw code above is the thing to look up in winerror.h.''"

fun DescribeHint :: "LossHint \<Rightarrow> string" where
  "DescribeHint kHintNone = ''none''"
| "DescribeHint kPowerResume = ''power resume''"
| "DescribeHint kDisplayChange = ''display change''"
| "DescribeHint kSessionChange = ''session change''"

definition session_change_names :: "string option list" where
  "session_change_names =
     [None,
      Some ''WTS_CONSOLE_CONNECT'',
      Some ''WTS_CONSOLE_DISCONNECT'',
      Some ''WTS_REMOTE_CONNECT'',
      Some ''WTS_REMOTE_DISCONNECT'',
      Some ''WTS_SESSION_LOGON'',
      Some ''WTS_SESSION_LOGOFF'',
      Some ''WTS_SESSION_LOCK'',
      Some ''WTS_SESSION_UNLOCK'',
      Some ''WTS_SESSION_REMOTE_CONTROL'',
      Some ''WTS_SESSION_CREATE'',
      Some ''WTS_SESSION_TERMINATE'']"

definition DescribeSessionChange :: "u32 \<Rightarrow> nat option \<Rightarrow> string" where
  "DescribeSessionChange code out =
     (let name = (if unat code < length session_change_names
                  then session_change_names ! unat code else None)
      in case out of
           None \<Rightarrow> (case name of Some s \<Rightarrow> s | None \<Rightarrow> [])
         | Some n \<Rightarrow>
             if n = 0 then (case name of Some s \<Rightarrow> s | None \<Rightarrow> [])
             else snprintf_buf n
               (case name of
                  Some s \<Rightarrow> s @ '' ('' @ show_u32 code @ '')''
                | None \<Rightarrow> ''unnamed WTS code ('' @ show_u32 code @ '')''))"

definition FormatDuration :: "u64 \<Rightarrow> string" where
  "FormatDuration ms =
     (let seconds = ms div 1000;
          h = seconds div 3600;
          m = (seconds mod 3600) div 60;
          s = seconds mod 60
      in if h > 0 then show_u64 h @ ''h '' @ show_u64 m @ ''m '' @ show_u64 s @ ''s''
         else if m > 0 then show_u64 m @ ''m '' @ show_u64 s @ ''s''
         else seconds_g (unat ms) @ ''s'')"

fun DescribeLossCause :: "LossCause \<Rightarrow> string" where
  "DescribeLossCause kNoFramesPresented =
     ''no frames presented -- consecutive probes went unanswered. This '' @
     ''is an INFERENCE from silence: it is also what a watchdog that is '' @
     ''not being ticked looks like, so treat it as the weaker finding.''"
| "DescribeLossCause kContextLost =
     ''the render adapter reported itself REMOVED -- asked directly, '' @
     ''not inferred. This is the strong finding: the GPU or its driver '' @
     ''went down, and the reason code below names which way.''"
| "DescribeLossCause kPlatformThreadWedged =
     ''the platform thread did not answer a sent message inside the '' @
     ''timeout. Nothing running on that thread, the engine included, '' @
     ''can be assumed alive.''"
| "DescribeLossCause kRasterFailed =
     ''the UI isolate reported, on consecutive liveness stamps, that '' @
     ''the engine returned an EMPTY image for a 1 x 1 snapshot. '' @
     ''Observed from inside the isolate, not inferred: Dart is alive '' @
     ''and building frames, the engine cannot rasterise them, and no '' @
     ''native probe can see that -- the next-frame callback answers, '' @
     ''the sentinel adapter is healthy, stderr is quiet.''"

fun DescribeEscalation :: "LossEscalation \<Rightarrow> string" where
  "DescribeEscalation kNotEscalated = ''not escalated''"
| "DescribeEscalation kRepeatedLosses =
     ''in-place recovery WORKS but does not HOLD -- too many separate '' @
     ''losses inside the guard window. Exiting so a supervisor can do '' @
     ''what this process cannot.''"
| "DescribeEscalation kRecoveryExhausted =
     ''in-place recovery was tried the configured number of times and '' @
     ''never produced a frame. Exiting so a supervisor can restart the '' @
     ''process from scratch.''"

fun DescribeLossAction :: "LossAction \<Rightarrow> string" where
  "DescribeLossAction kLogOnly = ''log only''"
| "DescribeLossAction kExitProcess = ''exit the process''"
| "DescribeLossAction kRestartEngine = ''restart the Flutter engine''"

text \<open>The environment variable is absent (\<open>None\<close>, a null pointer) or a C string.\<close>

definition ParseLossAction :: "string option \<Rightarrow> LossAction \<Rightarrow> LossAction" where
  "ParseLossAction raw fallback =
     (case raw of
        None \<Rightarrow> fallback
      | Some s \<Rightarrow>
          if s = [] then fallback
          else if EqualsIgnoreCase s ''exit'' \<or> EqualsIgnoreCase s ''quit'' then kExitProcess
          else if EqualsIgnoreCase s ''restart'' then kRestartEngine
          else if EqualsIgnoreCase s ''log'' \<or> EqualsIgnoreCase s ''none'' then kLogOnly
          else fallback)"

section \<open>The report\<close>

definition kTag :: string where "kTag = ''[gpu-loss] ''"

definition AppendLine :: "string \<Rightarrow> string \<Rightarrow> string" where
  "AppendLine out line = out @ kTag @ line @ [newline]"

definition adapter_lines :: "LossEvidence \<Rightarrow> string list" where
  "adapter_lines evidence =
     (if \<not> ev_sentinel_available evidence then
        [''adapter    : UNKNOWN -- no sentinel device (it could not be '' @
         ''created at startup), so there is nothing to ask why it died.'']
      else
        [''reason     : '' @ DescribeRemovedReason (ev_device_removed_reason evidence) (Some 96),
         ''meaning    : '' @ ExplainVerdict (ClassifyRemovedReason (ev_device_removed_reason evidence))])"

definition description_line :: "LossEvidence \<Rightarrow> string" where
  "description_line evidence =
     (if ev_adapter_description evidence = [] \<and> ev_adapter_vendor_id evidence = 0
         \<and> ev_adapter_device_id evidence = 0
      then ''adapter    : unknown (could not be described)''
      else ''adapter    : '' @
        (if ev_adapter_description evidence = [] then ''unknown''
         else ev_adapter_description evidence) @
        snprintf_buf 64
          ('' [vendor 0x'' @ pad_zero 4 (show_hex False (unat (ev_adapter_vendor_id evidence))) @
           '' device 0x'' @ pad_zero 4 (show_hex False (unat (ev_adapter_device_id evidence))) @ '']''))"

definition hint_line :: "LossEvidence \<Rightarrow> string" where
  "hint_line evidence =
     (if ev_last_hint evidence = kHintNone then
        ''preceded by: nothing -- no preceding power, display or session '' @
        ''message. The loss arrived out of a clear sky, which rules '' @
        ''those paths out.''
      else ''preceded by: '' @ DescribeHint (ev_last_hint evidence) @ '', '' @
        show_u64 (ev_ms_since_last_hint evidence) @ '' ms before the loss was declared'' @
        (if ev_last_hint evidence = kSessionChange
         then '' -- '' @ DescribeSessionChange (ev_session_change_code evidence) (Some 64)
         else []))"

definition timing_line :: "LossEvidence \<Rightarrow> string" where
  "timing_line evidence =
     ''timing     : up '' @ FormatDuration (ev_ms_since_start evidence) @
     '' ('' @ show_u64 (ev_ms_since_start evidence) @ '' ms), last frame '' @
     FormatDuration (ev_ms_since_last_frame evidence) @ '' ago ('' @
     show_u64 (ev_ms_since_last_frame evidence) @ '' ms), after '' @
     show_int (ev_missed_probes evidence) @ '' unanswered probe(s)''"

definition history_line :: "LossEvidence \<Rightarrow> string" where
  "history_line evidence =
     ''history    : loss episode '' @ show_int (ev_losses_in_window evidence) @
     '' of at most '' @ show_int (ev_max_losses_in_window evidence) @
     '' allowed in the guard window; '' @ show_int (ev_recovery_attempts evidence) @
     '' consecutive in-place recovery attempt(s) so far''"

definition report_texts :: "LossEvidence \<Rightarrow> string list" where
  "report_texts evidence =
     [''================ GPU DEVICE LOSS ================'',
      ''the renderer is dead. What follows is why, so that the EGL '' @
      ''errors around it can be ignored.'',
      ''detected by: '' @ DescribeLossCause (ev_cause evidence)] @
     adapter_lines evidence @
     [description_line evidence,
      ''session    : '' @ (if ev_remote_session evidence
        then ''remote (RDP/terminal services)'' else ''console (local)''),
      hint_line evidence, timing_line evidence, history_line evidence] @
     (if ev_escalation evidence \<noteq> kNotEscalated
      then [''escalated  : '' @ DescribeEscalation (ev_escalation evidence)] else []) @
     [''================================================='']"

definition FormatLossReport :: "LossEvidence \<Rightarrow> string" where
  "FormatLossReport evidence = foldl AppendLine [] (report_texts evidence)"

section \<open>Classification and buffers\<close>

lemma classify_known:
  "ClassifyRemovedReason reason = kUnknown \<longleftrightarrow> removed_reason_name reason = None"
  by (simp add: ClassifyRemovedReason_def removed_reason_name_def)

text \<open>Only the code zero reads as a healthy adapter; a code without a name reads as unknown.\<close>

lemma healthy_only_when_ok:
  "(ClassifyRemovedReason reason = kHealthy \<longleftrightarrow> reason = 0) \<and>
   (ClassifyRemovedReason reason = kUnknown \<longleftrightarrow> removed_reason_name reason = None)"
  by (simp add: classify_known) (simp add: ClassifyRemovedReason_def dxgi_reason_defs)

lemma length_removed_reason_name: "removed_reason_name reason = Some s \<Longrightarrow> length s \<le> 32"
  by (auto simp: removed_reason_name_def split: if_splits)

lemma length_show_hex_u32: "length (show_hex u (unat w)) \<le> 8" for w :: u32
proof (rule length_show_hex)
  have "unat w < 2 ^ 32" using unsigned_less [of w] by simp
  then show "unat w < 16 ^ 8" by simp
qed simp

lemma length_show_u32: "length (show_u32 w) \<le> 10"
proof (rule length_show_nat)
  have "unat w < 2 ^ 32" using unsigned_less [of w] by simp
  then show "unat w < 10 ^ 10" by simp
qed simp

text \<open>The 96-byte buffer of the report never cuts a description of the reason code.\<close>

lemma reason_fits:
  "DescribeRemovedReason reason (Some 96) =
     (case removed_reason_name reason of
        Some s \<Rightarrow> s @ '' (0x'' @ pad_zero 8 (show_hex False (unat reason)) @ '')''
      | None \<Rightarrow> ''unrecognised reason (0x'' @ pad_zero 8 (show_hex False (unat reason)) @ '')'')"
  using length_show_hex_u32 [of False reason] length_removed_reason_name [of reason]
  by (auto simp: DescribeRemovedReason_def Let_def length_pad_zero snprintf_buf_fits split: option.split)

lemma session_names_short:
  "list_all (\<lambda>n. case n of None \<Rightarrow> True | Some s \<Rightarrow> length s \<le> 29 \<and> clean s)
     session_change_names"
  by (simp add: session_change_names_def)

lemma session_name_short:
  "k < length session_change_names \<Longrightarrow> session_change_names ! k = Some s \<Longrightarrow>
   length s \<le> 29 \<and> clean s"
  using session_names_short by (auto simp: list_all_length dest!: spec [of _ k])

lemma session_change_fits:
  "DescribeSessionChange code (Some 64) =
     (case (if unat code < length session_change_names then session_change_names ! unat code else None) of
        Some s \<Rightarrow> s @ '' ('' @ show_u32 code @ '')''
      | None \<Rightarrow> ''unnamed WTS code ('' @ show_u32 code @ '')'')"
  using length_show_u32 [of code] session_name_short [of "unat code"]
  by (auto simp: DescribeSessionChange_def Let_def snprintf_buf_fits split: option.split)

section \<open>The report block\<close>

lemma clean_ExplainVerdict [simp]: "clean (ExplainVerdict v)"
  by (cases v) simp_all

lemma clean_DescribeHint [simp]: "clean (DescribeHint h)"
  by (cases h) simp_all

lemma clean_DescribeLossCause [simp]: "clean (DescribeLossCause c)"
  by (cases c) simp_all

lemma clean_DescribeEscalation [simp]: "clean (DescribeEscalation e)"
  by (cases e) simp_all

lemma clean_DescribeRemovedReason [simp]: "clean (DescribeRemovedReason reason (Some 96))"
  by (simp add: reason_fits removed_reason_name_def)

lemma clean_DescribeSessionChange [simp]: "clean (DescribeSessionChange code (Some 64))"
  using session_name_short [of "unat code"]
  by (simp add: session_change_fits split: option.split)

lemma clean_FormatDuration [simp]: "clean (FormatDuration ms)"
  by (simp add: FormatDuration_def Let_def)

lemma clean_adapter_lines: "list_all clean (adapter_lines e)"
  by (simp add: adapter_lines_def)

lemma clean_description_line:
  "clean (ev_adapter_description e) \<Longrightarrow> clean (description_line e)"
  by (simp add: description_line_def clean_snprintf_buf)

lemma clean_hint_line [simp]: "clean (hint_line e)"
  by (simp add: hint_line_def)

lemma clean_timing_line [simp]: "clean (timing_line e)"
  by (simp add: timing_line_def)

lemma clean_history_line [simp]: "clean (history_line e)"
  by (simp add: history_line_def)

lemma clean_report_texts:
  "clean (ev_adapter_description e) \<Longrightarrow> list_all clean (report_texts e)"
  using clean_adapter_lines [of e] clean_description_line [of e]
  by (simp add: report_texts_def)

lemma foldl_AppendLine:
  "foldl AppendLine out ls = out @ concat (map (\<lambda>l. l @ [newline]) (map ((@) kTag) ls))"
  by (induction ls arbitrary: out) (simp_all add: AppendLine_def)

lemma clean_kTag: "clean kTag" by (simp add: kTag_def)

text \<open>C2\<close>

theorem report_lines_tagged:
  assumes "clean (ev_adapter_description e)"
  shows "split_lines (FormatLossReport e) = map ((@) kTag) (report_texts e)"
  unfolding FormatLossReport_def foldl_AppendLine append_Nil
proof (rule split_lines_concat)
  fix l assume "l \<in> set (map ((@) kTag) (report_texts e))"
  then show "clean l"
    using clean_report_texts [OF assms] clean_kTag by (auto simp: list_all_iff)
qed

definition sample_evidence :: LossEvidence where
  "sample_evidence = \<lparr> ev_cause = kContextLost, ev_escalation = kNotEscalated,
     ev_sentinel_available = True, ev_device_removed_reason = kDxgiDeviceHung, ev_losses_in_window = 1,
     ev_max_losses_in_window = 3, ev_recovery_attempts = 0, ev_last_hint = kSessionChange,
     ev_ms_since_last_hint = 1500, ev_session_change_code = 4, ev_ms_since_start = 3600000,
     ev_ms_since_last_frame = 10000, ev_missed_probes = 2, ev_remote_session = True,
     ev_adapter_description = ''GPU'', ev_adapter_vendor_id = 0x10DE, ev_adapter_device_id = 1 \<rparr>"

lemma report_lines_tagged_witness:
  "split_lines (FormatLossReport sample_evidence) = map ((@) kTag) (report_texts sample_evidence)"
  by (rule report_lines_tagged) (simp add: sample_evidence_def)

section \<open>The policy\<close>

lemma ParseLossAction_case:
  assumes "map ascii_lower s = map ascii_lower s'"
  shows "ParseLossAction (Some s) d = ParseLossAction (Some s') d"
proof -
  have "EqualsIgnoreCase s x = EqualsIgnoreCase s' x" for x
    by (simp add: EqualsIgnoreCase_map assms)
  moreover have "s = [] \<longleftrightarrow> s' = []" using assms by (metis map_is_Nil_conv)
  ultimately show ?thesis by (simp only: ParseLossAction_def option.case)
qed

end
