(* ===== verification/Gpu_Watchdog.thy ===== *)
theory Gpu_Watchdog
  imports Gpu_Diagnosis
begin

text \<open>
  The device-loss watchdog (\<open>gpu_watchdog.h\<close>, \<open>gpu_watchdog.cpp\<close>): one record for its configuration, one
  for the action it asks the host to carry out, one for its private state, and one definition per
  member function. A member function that changes the object returns the new object with its result.
  The object is a step machine over the events the host feeds it, so that statements about whole
  histories (how often it reports, restarts, exits; how long it can be silenced) are statements about
  runs. \<open>int\<close> counters are integers: they count ticks, and their overflow is not modelled.
\<close>

section \<open>Data\<close>

record WatchdogConfig =
  probe_interval_ms :: u32
  missed_probes_before_recovery :: int
  max_probe_interval_ms :: u32
  on_loss :: LossAction
  max_recovery_attempts :: int
  loss_window_ms :: u64
  max_losses_in_window :: int
  max_judgement_hold_ms :: u64

definition default_config :: WatchdogConfig where
  "default_config = \<lparr> probe_interval_ms = 5000, missed_probes_before_recovery = 2,
     max_probe_interval_ms = 60000, on_loss = kRestartEngine, max_recovery_attempts = 5,
     loss_window_ms = 600000, max_losses_in_window = 3, max_judgement_hold_ms = 240000 \<rparr>"

record WatchdogAction =
  start_probe :: bool
  report_loss :: bool
  exit_process :: bool
  restart_engine :: bool
  set_timer_ms :: u32
  act_cause :: LossCause
  act_escalation :: LossEscalation

definition no_action :: WatchdogAction where
  "no_action = \<lparr> start_probe = False, report_loss = False, exit_process = False,
     restart_engine = False, set_timer_ms = 0, act_cause = kNoFramesPresented,
     act_escalation = kNotEscalated \<rparr>"

record GpuWatchdog =
  w_config :: WatchdogConfig
  w_disabled :: bool
  w_probe_outstanding :: bool
  w_reported_loss :: bool
  w_missed_probes :: int
  w_recovery_attempts :: int
  w_loss_window_start_ms :: u64
  w_losses_in_window :: int
  w_window_open :: bool
  w_judgement_holding :: bool
  w_judgement_hold_since_ms :: u64
  w_judgement_hold_expired :: bool

definition gw_init :: "WatchdogConfig \<Rightarrow> GpuWatchdog" where
  "gw_init config = \<lparr> w_config = config, w_disabled = False, w_probe_outstanding = False,
     w_reported_loss = False, w_missed_probes = 0, w_recovery_attempts = 0,
     w_loss_window_start_ms = 0, w_losses_in_window = 0, w_window_open = False,
     w_judgement_holding = False, w_judgement_hold_since_ms = 0, w_judgement_hold_expired = False \<rparr>"

section \<open>Member functions\<close>

definition gw_OnStarted :: "u64 \<Rightarrow> GpuWatchdog \<Rightarrow> GpuWatchdog \<times> WatchdogAction" where
  "gw_OnStarted now_ms w =
     (if w_disabled w then (w, no_action)
      else (w\<lparr>w_probe_outstanding := True\<rparr>,
            no_action\<lparr>start_probe := True, set_timer_ms := probe_interval_ms (w_config w)\<rparr>))"

definition gw_SetJudgeable :: "bool \<Rightarrow> u64 \<Rightarrow> GpuWatchdog \<Rightarrow> GpuWatchdog" where
  "gw_SetJudgeable judgeable now_ms w =
     (if judgeable then
        w\<lparr>w_judgement_holding := False, w_judgement_hold_since_ms := 0,
          w_judgement_hold_expired := False\<rparr>
      else if w_judgement_holding w then w
      else w\<lparr>w_judgement_holding := True, w_judgement_hold_since_ms := now_ms,
             w_judgement_hold_expired := False\<rparr>)"

definition gw_judgement_held :: "u64 \<Rightarrow> GpuWatchdog \<Rightarrow> bool" where
  "gw_judgement_held now_ms w =
     (if \<not> w_judgement_holding w then False
      else if max_judgement_hold_ms (w_config w) = 0 then True
      else elapsed_since now_ms (w_judgement_hold_since_ms w) < max_judgement_hold_ms (w_config w))"

definition gw_ConsumeJudgementHoldExpired :: "GpuWatchdog \<Rightarrow> GpuWatchdog \<times> bool" where
  "gw_ConsumeJudgementHoldExpired w =
     (if \<not> w_judgement_hold_expired w then (w, False)
      else (w\<lparr>w_judgement_hold_expired := False, w_judgement_holding := False,
              w_judgement_hold_since_ms := 0\<rparr>, True))"

text \<open>The loop \<open>for (i = 1; i < w_recovery_attempts; i++)\<close> with its early exit.\<close>

fun gw_backoff_loop :: "nat \<Rightarrow> u32 \<Rightarrow> u32 \<Rightarrow> u32" where
  "gw_backoff_loop 0 cap backoff = backoff"
| "gw_backoff_loop (Suc n) cap backoff =
     (if cap \<le> backoff then backoff else gw_backoff_loop n cap (backoff * 2))"

definition gw_BackoffMs :: "GpuWatchdog \<Rightarrow> u32" where
  "gw_BackoffMs w =
     (let cap = max_probe_interval_ms (w_config w);
          backoff = gw_backoff_loop (nat (w_recovery_attempts w - 1)) cap
                      (probe_interval_ms (w_config w))
      in if cap < backoff then cap else backoff)"

text \<open>The bookkeeping of a new loss episode: the report latch and the loop guard's window.\<close>

definition gw_note_episode :: "u64 \<Rightarrow> GpuWatchdog \<Rightarrow> GpuWatchdog" where
  "gw_note_episode now_ms w =
     (if w_reported_loss w then w
      else
        let w1 = w\<lparr>w_reported_loss := True\<rparr> in
        if \<not> w_window_open w \<or>
           (loss_window_ms (w_config w) \<noteq> 0 \<and>
            loss_window_ms (w_config w) < now_ms - w_loss_window_start_ms w)
        then w1\<lparr>w_window_open := True, w_loss_window_start_ms := now_ms, w_losses_in_window := 1\<rparr>
        else w1\<lparr>w_losses_in_window := w_losses_in_window w + 1\<rparr>)"

definition gw_DeclareLoss :: "LossCause \<Rightarrow> u64 \<Rightarrow> GpuWatchdog \<Rightarrow> GpuWatchdog \<times> WatchdogAction" where
  "gw_DeclareLoss cause now_ms w0 =
     (let action = no_action\<lparr>act_cause := cause, report_loss := \<not> w_reported_loss w0\<rparr>;
          w = gw_note_episode now_ms w0;
          c = w_config w;
          thrashing = (0 < max_losses_in_window c \<and> max_losses_in_window c < w_losses_in_window w);
          recovery_exhausted =
            (0 < max_recovery_attempts c \<and> max_recovery_attempts c \<le> w_recovery_attempts w)
      in if on_loss c = kRestartEngine \<and> (thrashing \<or> recovery_exhausted) then
           (w\<lparr>w_disabled := True\<rparr>,
            action\<lparr>act_escalation := (if thrashing then kRepeatedLosses else kRecoveryExhausted),
                   exit_process := True\<rparr>)
         else if on_loss c = kExitProcess then
           (w\<lparr>w_disabled := True\<rparr>, action\<lparr>exit_process := True\<rparr>)
         else if on_loss c = kLogOnly then
           (w\<lparr>w_probe_outstanding := True\<rparr>, action\<lparr>start_probe := True\<rparr>)
         else
           let w2 = w\<lparr>w_recovery_attempts := w_recovery_attempts w + 1, w_missed_probes := 0,
                      w_probe_outstanding := True\<rparr>
           in (w2, action\<lparr>restart_engine := True, set_timer_ms := gw_BackoffMs w2\<rparr>))"

definition gw_OnTick :: "u64 \<Rightarrow> GpuWatchdog \<Rightarrow> GpuWatchdog \<times> WatchdogAction" where
  "gw_OnTick now_ms w =
     (if w_disabled w then (w, no_action)
      else if gw_judgement_held now_ms w then
        (w\<lparr>w_probe_outstanding := True\<rparr>, no_action\<lparr>start_probe := True\<rparr>)
      else
        let w1 = (if w_judgement_holding w \<and> \<not> w_judgement_hold_expired w
                  then w\<lparr>w_judgement_hold_expired := True\<rparr> else w);
            w2 = (if w_probe_outstanding w1 then w1\<lparr>w_missed_probes := w_missed_probes w1 + 1\<rparr> else w1)
        in if w_probe_outstanding w1 \<and> missed_probes_before_recovery (w_config w2) \<le> w_missed_probes w2
           then gw_DeclareLoss kNoFramesPresented now_ms w2
           else (w2\<lparr>w_probe_outstanding := True\<rparr>, no_action\<lparr>start_probe := True\<rparr>))"

definition gw_OnRendererLost :: "LossCause \<Rightarrow> u64 \<Rightarrow> GpuWatchdog \<Rightarrow> GpuWatchdog \<times> WatchdogAction" where
  "gw_OnRendererLost cause now_ms w =
     (if w_disabled w then (w, no_action) else gw_DeclareLoss cause now_ms w)"

definition gw_OnFramePresented :: "u64 \<Rightarrow> GpuWatchdog \<Rightarrow> GpuWatchdog \<times> WatchdogAction" where
  "gw_OnFramePresented now_ms w =
     (if w_disabled w then (w, no_action)
      else
        let w1 = w\<lparr>w_probe_outstanding := False, w_missed_probes := 0, w_reported_loss := False,
                   w_judgement_holding := False, w_judgement_hold_since_ms := 0,
                   w_judgement_hold_expired := False\<rparr>
        in if 0 < w_recovery_attempts w1
           then (w1\<lparr>w_recovery_attempts := 0\<rparr>,
                 no_action\<lparr>set_timer_ms := probe_interval_ms (w_config w1)\<rparr>)
           else (w1, no_action))"

definition gw_OnDeviceLossHint :: "u64 \<Rightarrow> GpuWatchdog \<Rightarrow> GpuWatchdog \<times> WatchdogAction" where
  "gw_OnDeviceLossHint now_ms w =
     (if w_disabled w then (w, no_action)
      else (w\<lparr>w_probe_outstanding := True\<rparr>, no_action\<lparr>start_probe := True\<rparr>))"

definition gw_Disable :: "GpuWatchdog \<Rightarrow> GpuWatchdog" where
  "gw_Disable w = w\<lparr>w_disabled := True, w_probe_outstanding := False\<rparr>"

definition gw_has_given_up :: "GpuWatchdog \<Rightarrow> bool" where "gw_has_given_up w = w_disabled w"

definition gw_has_reported_loss :: "GpuWatchdog \<Rightarrow> bool" where
  "gw_has_reported_loss w = w_reported_loss w"

section \<open>Environment\<close>

definition kMinProbeIntervalMs :: int where "kMinProbeIntervalMs = 1000"

definition ParseWatchdogEnabled :: "string option \<Rightarrow> bool \<Rightarrow> bool" where
  "ParseWatchdogEnabled raw fallback =
     (case raw of
        None \<Rightarrow> fallback
      | Some s \<Rightarrow>
          if s = [] then fallback
          else if list_ex (EqualsIgnoreCase s) [''0'', ''false'', ''no'', ''off''] then False
          else if list_ex (EqualsIgnoreCase s) [''1'', ''true'', ''yes'', ''on''] then True
          else fallback)"

definition ParseProbeIntervalMs :: "string option \<Rightarrow> u32 \<Rightarrow> u32" where
  "ParseProbeIntervalMs raw fallback =
     (case raw of
        None \<Rightarrow> fallback
      | Some s \<Rightarrow>
          if s = [] then fallback
          else
            let (parsed, rest) = strtol10 s
            in if rest = s \<or> rest \<noteq> [] then fallback
               else if parsed < kMinProbeIntervalMs then fallback
               else word_of_int parsed)"

section \<open>The watchdog as a machine over the host's events\<close>

datatype WatchdogEvent =
    EvStarted u64
  | EvTick u64
  | EvFrame u64
  | EvHint u64
  | EvLost LossCause u64
  | EvJudgeable bool u64
  | EvConsumeExpired
  | EvDisable

fun gw_event :: "GpuWatchdog \<Rightarrow> WatchdogEvent \<Rightarrow> GpuWatchdog \<times> WatchdogAction" where
  "gw_event w (EvStarted t) = gw_OnStarted t w"
| "gw_event w (EvTick t) = gw_OnTick t w"
| "gw_event w (EvFrame t) = gw_OnFramePresented t w"
| "gw_event w (EvHint t) = gw_OnDeviceLossHint t w"
| "gw_event w (EvLost cause t) = gw_OnRendererLost cause t w"
| "gw_event w (EvJudgeable b t) = (gw_SetJudgeable b t w, no_action)"
| "gw_event w EvConsumeExpired = (fst (gw_ConsumeJudgementHoldExpired w), no_action)"
| "gw_event w EvDisable = (gw_Disable w, no_action)"

definition gw_step :: "GpuWatchdog \<Rightarrow> WatchdogEvent \<Rightarrow> GpuWatchdog" where
  "gw_step w e = fst (gw_event w e)"

definition gw_action :: "GpuWatchdog \<Rightarrow> WatchdogEvent \<Rightarrow> WatchdogAction" where
  "gw_action w e = snd (gw_event w e)"

lemmas gw_op_defs = gw_OnStarted_def gw_SetJudgeable_def gw_ConsumeJudgementHoldExpired_def
  gw_DeclareLoss_def gw_OnTick_def gw_OnRendererLost_def gw_OnFramePresented_def
  gw_OnDeviceLossHint_def gw_Disable_def gw_note_episode_def Let_def

lemmas gw_machine_defs = gw_step_def gw_action_def no_action_def

section \<open>What a tick and a declaration do\<close>

lemma note_episode_frame [simp]:
  "w_config (gw_note_episode t w) = w_config w"
  "w_disabled (gw_note_episode t w) = w_disabled w"
  "w_probe_outstanding (gw_note_episode t w) = w_probe_outstanding w"
  "w_missed_probes (gw_note_episode t w) = w_missed_probes w"
  "w_recovery_attempts (gw_note_episode t w) = w_recovery_attempts w"
  "w_reported_loss (gw_note_episode t w)"
  "w_judgement_holding (gw_note_episode t w) = w_judgement_holding w"
  "w_judgement_hold_since_ms (gw_note_episode t w) = w_judgement_hold_since_ms w"
  "w_judgement_hold_expired (gw_note_episode t w) = w_judgement_hold_expired w"
  by (simp_all add: gw_note_episode_def Let_def)

text \<open>What a declared loss does, branch by branch.\<close>

definition gw_thrashing :: "GpuWatchdog \<Rightarrow> bool" where
  "gw_thrashing w \<longleftrightarrow>
     0 < max_losses_in_window (w_config w) \<and> max_losses_in_window (w_config w) < w_losses_in_window w"

definition gw_exhausted :: "GpuWatchdog \<Rightarrow> bool" where
  "gw_exhausted w \<longleftrightarrow>
     0 < max_recovery_attempts (w_config w) \<and> max_recovery_attempts (w_config w) \<le> w_recovery_attempts w"

lemma declare_exit_iff:
  "exit_process (snd (gw_DeclareLoss cause t w)) \<longleftrightarrow>
     on_loss (w_config w) = kExitProcess \<or>
     (on_loss (w_config w) = kRestartEngine \<and> (gw_thrashing (gw_note_episode t w) \<or> gw_exhausted w))"
  by (cases "on_loss (w_config w)")
     (auto simp: gw_DeclareLoss_def gw_thrashing_def gw_exhausted_def no_action_def Let_def)

lemma declare_disabled_iff:
  "w_disabled (fst (gw_DeclareLoss cause t w)) \<longleftrightarrow>
     w_disabled w \<or> exit_process (snd (gw_DeclareLoss cause t w))"
  by (cases "on_loss (w_config w)") (auto simp: gw_DeclareLoss_def no_action_def Let_def)

lemma declare_restart_iff:
  "restart_engine (snd (gw_DeclareLoss cause t w)) \<longleftrightarrow>
     on_loss (w_config w) = kRestartEngine \<and> \<not> gw_thrashing (gw_note_episode t w) \<and> \<not> gw_exhausted w"
  by (cases "on_loss (w_config w)")
     (auto simp: gw_DeclareLoss_def gw_thrashing_def gw_exhausted_def no_action_def Let_def)

lemma declare_report [simp]:
  "report_loss (snd (gw_DeclareLoss cause t w)) \<longleftrightarrow> \<not> w_reported_loss w"
  by (simp add: gw_DeclareLoss_def no_action_def Let_def)

lemma declare_reported [simp]: "w_reported_loss (fst (gw_DeclareLoss cause t w))"
  by (simp add: gw_DeclareLoss_def Let_def)

lemma declare_cause [simp]: "act_cause (snd (gw_DeclareLoss cause t w)) = cause"
  by (simp add: gw_DeclareLoss_def no_action_def Let_def)

lemma declare_attempts:
  "w_recovery_attempts (fst (gw_DeclareLoss cause t w)) =
     w_recovery_attempts w + (if restart_engine (snd (gw_DeclareLoss cause t w)) then 1 else 0)"
  by (cases "on_loss (w_config w)") (auto simp: gw_DeclareLoss_def no_action_def Let_def)

text \<open>
  A judging tick, unfolded once: a declaration happens from a state that differs from the object's in
  the miss counter and the expiry latch only.
\<close>

definition gw_judged :: "GpuWatchdog \<Rightarrow> GpuWatchdog" where
  "gw_judged w = w\<lparr>
     w_missed_probes := (if w_probe_outstanding w then w_missed_probes w + 1 else w_missed_probes w),
     w_judgement_hold_expired := (w_judgement_holding w \<or> w_judgement_hold_expired w)\<rparr>"

definition gw_condemned :: "GpuWatchdog \<Rightarrow> bool" where
  "gw_condemned w \<longleftrightarrow>
     w_probe_outstanding w \<and> missed_probes_before_recovery (w_config w) \<le> w_missed_probes w + 1"

lemma tick_eq:
  "gw_OnTick t w =
     (if w_disabled w then (w, no_action)
      else if gw_judgement_held t w then
        (w\<lparr>w_probe_outstanding := True\<rparr>, no_action\<lparr>start_probe := True\<rparr>)
      else if gw_condemned w then gw_DeclareLoss kNoFramesPresented t (gw_judged w)
      else ((gw_judged w)\<lparr>w_probe_outstanding := True\<rparr>, no_action\<lparr>start_probe := True\<rparr>))"
  by (cases w) (auto simp: gw_OnTick_def gw_judged_def gw_condemned_def Let_def)

lemma judged_fields [simp]:
  "w_config (gw_judged w) = w_config w"
  "w_disabled (gw_judged w) = w_disabled w"
  "w_probe_outstanding (gw_judged w) = w_probe_outstanding w"
  "w_reported_loss (gw_judged w) = w_reported_loss w"
  "w_recovery_attempts (gw_judged w) = w_recovery_attempts w"
  "w_losses_in_window (gw_judged w) = w_losses_in_window w"
  "w_loss_window_start_ms (gw_judged w) = w_loss_window_start_ms w"
  "w_window_open (gw_judged w) = w_window_open w"
  "w_judgement_holding (gw_judged w) = w_judgement_holding w"
  "w_judgement_hold_since_ms (gw_judged w) = w_judgement_hold_since_ms w"
  by (simp_all add: gw_judged_def)

lemma declare_config [simp]: "w_config (fst (gw_DeclareLoss cause t w)) = w_config w"
  by (simp add: gw_DeclareLoss_def Let_def)

lemma declare_exit_not_restart:
  "exit_process (snd (gw_DeclareLoss cause t w)) \<Longrightarrow> \<not> restart_engine (snd (gw_DeclareLoss cause t w))"
  by (auto simp: declare_exit_iff declare_restart_iff)

lemmas gw_event_simps = tick_eq gw_OnStarted_def gw_SetJudgeable_def
  gw_ConsumeJudgementHoldExpired_def gw_OnRendererLost_def gw_OnFramePresented_def
  gw_OnDeviceLossHint_def gw_Disable_def gw_step_def gw_action_def no_action_def Let_def

section \<open>Configuration, giving up and the exit latch\<close>

lemma step_config [simp]: "w_config (gw_step w e) = w_config w"
  by (cases e) (simp_all add: gw_event_simps Let_def)

lemma run_config [simp]: "w_config (run gw_step w es) = w_config w"
  by (induction es arbitrary: w) simp_all

lemma disabled_step: "w_disabled w \<Longrightarrow> w_disabled (gw_step w e)"
  by (cases e) (simp_all add: gw_event_simps)

lemma disabled_silent: "w_disabled w \<Longrightarrow> gw_action w e = no_action"
  by (cases e) (simp_all add: gw_event_simps)

interpretation gw_given_up: invariant_machine gw_step w_disabled
  by unfold_locales (rule disabled_step)

lemma exit_disables: "exit_process (gw_action w e) \<Longrightarrow> \<not> w_disabled w \<and> w_disabled (gw_step w e)"
  by (cases e) (auto simp: gw_event_simps declare_disabled_iff split: if_splits)

interpretation gw_exit: process_latch gw_step "\<lambda>w e. exit_process (gw_action w e)" w_disabled
  by unfold_locales (use exit_disables disabled_step in auto)

text \<open>Over any history the watchdog asks the host to end the process at most once: the request sets the disabled flag, and nothing clears it.\<close>

theorem exit_once:
  "count_along gw_step (\<lambda>w e. exit_process (gw_action w e)) w es \<le> 1"
  by (rule gw_exit.fires_at_most_once)

text \<open>Once the watchdog has given up (disabled, or after its exit request) no later event makes it act again.\<close>

theorem given_up_is_final:
  assumes "gw_has_given_up w"
  shows "gw_has_given_up (run gw_step w es) \<and> gw_action (run gw_step w es) e = no_action"
  using gw_given_up.run_inv [of w es] assms disabled_silent by (simp add: gw_has_given_up_def)

section \<open>One report per episode\<close>

fun is_frame :: "WatchdogEvent \<Rightarrow> bool" where
  "is_frame (EvFrame t) \<longleftrightarrow> True"
| "is_frame _ \<longleftrightarrow> False"

lemma report_opens:
  "report_loss (gw_action w e) \<Longrightarrow> \<not> w_reported_loss w \<and> w_reported_loss (gw_step w e)"
  by (cases e) (auto simp: gw_event_simps split: if_splits)

lemma report_kept: "w_reported_loss w \<Longrightarrow> \<not> is_frame e \<Longrightarrow> w_reported_loss (gw_step w e)"
  by (cases e) (auto simp: gw_event_simps)

interpretation gw_report: once_latch gw_step "\<lambda>w e. report_loss (gw_action w e)" w_reported_loss
  "\<lambda>w. is_frame"
  by unfold_locales (use report_opens report_kept in auto)

text \<open>The device-loss report is requested once per episode: over any history the number of reports is at most one more than the number of frames presented.\<close>

theorem one_report_per_episode:
  "count_along gw_step (\<lambda>w e. report_loss (gw_action w e)) w es
     \<le> Suc (count_along gw_step (\<lambda>w. is_frame) w es)"
  by (rule gw_report.fire_count_le)

section \<open>Backoff\<close>

lemma min_backoff_loop:
  assumes "unat cap \<le> 2 ^ 31"
  shows "min (unat cap) (unat (gw_backoff_loop n cap b)) = min (unat cap) (unat b * 2 ^ n)"
proof (induction n arbitrary: b)
  case 0
  then show ?case by simp
next
  case (Suc n)
  show ?case
  proof (cases "cap \<le> b")
    case True
    then have "unat cap \<le> unat b * 1" by (simp add: word_le_nat_alt)
    also have "unat b * 1 \<le> unat b * 2 ^ Suc n" by (intro mult_left_mono) simp_all
    finally have "unat cap \<le> unat b * 2 ^ Suc n" by simp
    with True show ?thesis by (simp add: min_absorb1 word_le_nat_alt)
  next
    case False
    then have "unat b < unat cap" by (simp add: word_le_nat_alt)
    with assms have "unat (b * 2) = unat b * 2"
      by (simp add: unat_word_ariths)
    then show ?thesis using False Suc.IH [of "b * 2"] by (simp add: mult.assoc)
  qed
qed

text \<open>The delay before judging a rebuilt engine is the probe interval doubled per consecutive attempt, cut at the ceiling. The 32-bit doubling cannot wrap as long as the ceiling is at most 2^31.\<close>

theorem backoff_closed_form:
  assumes "unat (max_probe_interval_ms (w_config w)) \<le> 2 ^ 31"
  shows "unat (gw_BackoffMs w) =
    min (unat (max_probe_interval_ms (w_config w)))
        (unat (probe_interval_ms (w_config w)) * 2 ^ nat (w_recovery_attempts w - 1))"
  using min_backoff_loop [OF assms, of "nat (w_recovery_attempts w - 1)" "probe_interval_ms (w_config w)"]
  by (auto simp: gw_BackoffMs_def Let_def word_less_nat_alt)

section \<open>Bounded recovery\<close>

lemma attempts_step:
  "\<not> is_frame e \<Longrightarrow> w_recovery_attempts (gw_step w e) =
     w_recovery_attempts w + (if restart_engine (gw_action w e) then 1 else 0)"
  by (cases e) (auto simp: gw_event_simps declare_attempts)

lemma restart_not_exhausted: "restart_engine (gw_action w e) \<Longrightarrow> \<not> gw_exhausted w"
  by (cases e) (auto simp: gw_event_simps declare_restart_iff gw_exhausted_def split: if_splits)

lemma attempts_frame: "is_frame e \<Longrightarrow> 0 \<le> w_recovery_attempts w \<Longrightarrow>
    0 \<le> w_recovery_attempts (gw_step w e) \<and> w_recovery_attempts (gw_step w e) \<le> w_recovery_attempts w"
  by (cases e) (auto simp: gw_event_simps)

definition gw_attempts_ok :: "GpuWatchdog \<Rightarrow> bool" where
  "gw_attempts_ok w \<longleftrightarrow> 0 < max_recovery_attempts (w_config w) \<and> 0 \<le> w_recovery_attempts w \<and>
     w_recovery_attempts w \<le> max_recovery_attempts (w_config w)"

lemma attempts_ok_step: "gw_attempts_ok w \<Longrightarrow> gw_attempts_ok (gw_step w e)"
  using attempts_step [of e w] attempts_frame [of e w] restart_not_exhausted [of w e]
  by (cases "is_frame e") (auto simp: gw_attempts_ok_def gw_exhausted_def)

interpretation gw_attempts: invariant_machine gw_step gw_attempts_ok
  by unfold_locales (rule attempts_ok_step)

lemma attempts_count:
  "gw_attempts_ok w \<Longrightarrow> list_all (\<lambda>e. \<not> is_frame e) es \<Longrightarrow>
   w_recovery_attempts w + int (count_along gw_step (\<lambda>w e. restart_engine (gw_action w e)) w es)
     \<le> max_recovery_attempts (w_config w)"
proof (induction es arbitrary: w)
  case Nil
  then show ?case by (simp add: gw_attempts_ok_def)
next
  case (Cons e es)
  then have "gw_attempts_ok (gw_step w e)" and "\<not> is_frame e" by (simp_all add: attempts_ok_step)
  with Cons show ?case using Cons.IH [of "gw_step w e"] attempts_step [of e w] by auto
qed

text \<open>C40. Whatever happened before, without a presented frame in between the engine is rebuilt at most \<open>max_recovery_attempts\<close> times in a row.\<close>

theorem restarts_bounded_without_a_frame:
  assumes "0 < max_recovery_attempts c" and "list_all (\<lambda>e. \<not> is_frame e) fs"
  shows "int (count_along gw_step (\<lambda>w e. restart_engine (gw_action w e))
              (run gw_step (gw_init c) es) fs) \<le> max_recovery_attempts c"
proof -
  have "gw_attempts_ok (gw_init c)" using assms by (simp add: gw_attempts_ok_def gw_init_def)
  then have ok: "gw_attempts_ok (run gw_step (gw_init c) es)" by (rule gw_attempts.run_inv)
  then have "0 \<le> w_recovery_attempts (run gw_step (gw_init c) es)" by (simp add: gw_attempts_ok_def)
  moreover have "w_config (run gw_step (gw_init c) es) = c" by (simp add: gw_init_def)
  ultimately show ?thesis using attempts_count [OF ok assms(2)] by simp
qed

text \<open>Witnesses for the two theorems above, on the default configuration.\<close>

lemma given_up_is_final_witness:
  "gw_action (run gw_step (gw_Disable (gw_init default_config)) [EvStarted 0, EvTick 5000]) (EvTick 10000)
     = no_action"
proof -
  have "gw_has_given_up (gw_Disable (gw_init default_config))"
    by (simp add: gw_has_given_up_def gw_Disable_def)
  from given_up_is_final [OF this] show ?thesis by blast
qed

lemma backoff_closed_form_witness:
  "unat (gw_BackoffMs ((gw_init default_config)\<lparr>w_recovery_attempts := 4\<rparr>)) = 40000"
proof -
  have "unat (max_probe_interval_ms (w_config ((gw_init default_config)\<lparr>w_recovery_attempts := 4\<rparr>))) \<le> 2 ^ 31"
    by (simp add: gw_init_def default_config_def)
  from backoff_closed_form [OF this] show ?thesis by (simp add: gw_init_def default_config_def)
qed

lemma restarts_bounded_witness:
  "count_along gw_step (\<lambda>w e. restart_engine (gw_action w e))
     (run gw_step (gw_init default_config) [EvStarted 0])
     [EvTick 5000, EvTick 10000, EvTick 15000, EvTick 20000] \<le> 5"
  using restarts_bounded_without_a_frame
    [of default_config "[EvTick 5000, EvTick 10000, EvTick 15000, EvTick 20000]" "[EvStarted 0]"]
  by (simp add: default_config_def)

section \<open>The loop guard\<close>

fun ev_time :: "WatchdogEvent \<Rightarrow> u64" where
  "ev_time (EvStarted t) = t"
| "ev_time (EvTick t) = t"
| "ev_time (EvFrame t) = t"
| "ev_time (EvHint t) = t"
| "ev_time (EvLost c t) = t"
| "ev_time (EvJudgeable b t) = t"
| "ev_time EvConsumeExpired = 0"
| "ev_time EvDisable = 0"

text \<open>The window that opened at \<open>start\<close> has not run out at the event's time.\<close>

definition in_window :: "WatchdogConfig \<Rightarrow> u64 \<Rightarrow> WatchdogEvent \<Rightarrow> bool" where
  "in_window c start e \<longleftrightarrow> loss_window_ms c = 0 \<or> ev_time e - start \<le> loss_window_ms c"

definition gw_guarded :: "GpuWatchdog \<Rightarrow> bool" where
  "gw_guarded w \<longleftrightarrow>
     on_loss (w_config w) = kRestartEngine \<and> 0 < max_losses_in_window (w_config w) \<and>
     (\<not> w_disabled w \<longrightarrow> w_losses_in_window w \<le> max_losses_in_window (w_config w)) \<and>
     w_losses_in_window w \<le> max_losses_in_window (w_config w) + 1"

lemma declare_losses [simp]:
  "w_losses_in_window (fst (gw_DeclareLoss cause t w)) = w_losses_in_window (gw_note_episode t w)"
  "w_window_open (fst (gw_DeclareLoss cause t w)) = w_window_open (gw_note_episode t w)"
  "w_loss_window_start_ms (fst (gw_DeclareLoss cause t w)) = w_loss_window_start_ms (gw_note_episode t w)"
  by (simp_all add: gw_DeclareLoss_def Let_def)

lemma note_losses_le:
  "w_losses_in_window (gw_note_episode t w) \<le> max 1 (w_losses_in_window w + 1)"
  by (auto simp: gw_note_episode_def Let_def max_def)

lemma note_losses_in_window:
  "w_window_open w \<Longrightarrow>
   loss_window_ms (w_config w) = 0 \<or> t - w_loss_window_start_ms w \<le> loss_window_ms (w_config w) \<Longrightarrow>
   w_losses_in_window (gw_note_episode t w) = w_losses_in_window w + (if w_reported_loss w then 0 else 1) \<and>
   w_window_open (gw_note_episode t w) \<and>
   w_loss_window_start_ms (gw_note_episode t w) = w_loss_window_start_ms w"
  by (auto simp: gw_note_episode_def Let_def)

lemma guarded_declare:
  "gw_guarded w \<Longrightarrow> \<not> w_disabled w \<Longrightarrow> gw_guarded (fst (gw_DeclareLoss cause t w))"
  using note_losses_le [of t w]
  by (auto simp: gw_guarded_def declare_disabled_iff declare_exit_iff gw_thrashing_def)

lemma guarded_judged: "gw_guarded (gw_judged w) = gw_guarded w"
  by (simp add: gw_guarded_def)

lemma guarded_step: "gw_guarded w \<Longrightarrow> gw_guarded (gw_step w e)"
  using guarded_declare [of w] guarded_declare [of "gw_judged w"]
  by (cases e; auto simp: gw_event_simps guarded_judged) (auto simp: gw_guarded_def)

interpretation gw_guard: invariant_machine gw_step gw_guarded
  by unfold_locales (rule guarded_step)

lemma losses_step:
  assumes "w_window_open w" and "in_window (w_config w) (w_loss_window_start_ms w) e"
  shows "w_losses_in_window (gw_step w e) =
      w_losses_in_window w + (if report_loss (gw_action w e) then 1 else 0) \<and>
    w_window_open (gw_step w e) \<and> w_loss_window_start_ms (gw_step w e) = w_loss_window_start_ms w"
  using assms note_losses_in_window [of w "ev_time e"] note_losses_in_window [of "gw_judged w" "ev_time e"]
  by (cases e) (auto simp: gw_event_simps in_window_def)

lemma reports_in_window:
  "gw_guarded w \<Longrightarrow> w_window_open w \<Longrightarrow>
   list_all (in_window (w_config w) (w_loss_window_start_ms w)) es \<Longrightarrow>
   w_losses_in_window w + int (count_along gw_step (\<lambda>w e. report_loss (gw_action w e)) w es)
     \<le> max_losses_in_window (w_config w) + 1"
proof (induction es arbitrary: w)
  case Nil
  then show ?case by (simp add: gw_guarded_def)
next
  case (Cons e es)
  then have "gw_guarded (gw_step w e)" by (simp add: guarded_step)
  with Cons show ?case using Cons.IH [of "gw_step w e"] losses_step [of w e] by auto
qed

text \<open>The loop guard: from a window's opening on, and for as long as it has not run out, a
  watchdog configured to rebuild in place reports at most \<open>max_losses_in_window + 1\<close> loss episodes,
  the ones already counted included; the last of them is the one that ends the process.\<close>

theorem loop_guard_bounds_episodes:
  assumes "on_loss c = kRestartEngine" and "0 < max_losses_in_window c"
    and "w = run gw_step (gw_init c) es" and "w_window_open w"
    and "list_all (in_window c (w_loss_window_start_ms w)) fs"
  shows "w_losses_in_window w + int (count_along gw_step (\<lambda>w e. report_loss (gw_action w e)) w fs)
      \<le> max_losses_in_window c + 1"
proof -
  have "gw_guarded (gw_init c)" using assms by (simp add: gw_guarded_def gw_init_def)
  then have "gw_guarded w" unfolding assms(3) by (rule gw_guard.run_inv)
  moreover have "w_config w = c" using assms(3) by (simp add: gw_init_def)
  ultimately show ?thesis using reports_in_window [of w fs] assms(4,5) by simp
qed

lemma loop_guard_witness:
  "count_along gw_step (\<lambda>w e. report_loss (gw_action w e))
     (run gw_step (gw_init default_config) [EvLost kContextLost 1000])
     [EvFrame 2000, EvLost kContextLost 3000, EvFrame 4000, EvLost kContextLost 5000] \<le> 3"
proof -
  let ?w = "run gw_step (gw_init default_config) [EvLost kContextLost 1000]"
  let ?fs = "[EvFrame 2000, EvLost kContextLost 3000, EvFrame 4000, EvLost kContextLost 5000]"
  have w: "w_window_open ?w" "w_loss_window_start_ms ?w = 1000" "w_losses_in_window ?w = 1"
    by (simp_all add: gw_event_simps gw_init_def default_config_def gw_note_episode_def)
  then have "list_all (in_window default_config (w_loss_window_start_ms ?w)) ?fs"
    by (simp add: in_window_def default_config_def)
  from loop_guard_bounds_episodes [OF _ _ refl w(1) this] w show ?thesis
    by (simp add: default_config_def)
qed

section \<open>The judgement hold\<close>

text \<open>Events that neither present a frame nor release the hold.\<close>

fun keeps_hold :: "WatchdogEvent \<Rightarrow> bool" where
  "keeps_hold (EvFrame t) \<longleftrightarrow> False"
| "keeps_hold (EvJudgeable b t) \<longleftrightarrow> \<not> b"
| "keeps_hold EvConsumeExpired \<longleftrightarrow> False"
| "keeps_hold _ \<longleftrightarrow> True"

lemma declare_hold [simp]:
  "w_judgement_holding (fst (gw_DeclareLoss cause t w)) = w_judgement_holding w"
  "w_judgement_hold_since_ms (fst (gw_DeclareLoss cause t w)) = w_judgement_hold_since_ms w"
  by (simp_all add: gw_DeclareLoss_def Let_def)

lemma hold_step:
  "w_judgement_holding w \<Longrightarrow> keeps_hold e \<Longrightarrow>
   w_judgement_holding (gw_step w e) \<and> w_judgement_hold_since_ms (gw_step w e) = w_judgement_hold_since_ms w"
  by (cases e) (auto simp: gw_event_simps)

lemma hold_run:
  "w_judgement_holding w \<Longrightarrow> list_all keeps_hold es \<Longrightarrow>
   w_judgement_holding (run gw_step w es) \<and>
   w_judgement_hold_since_ms (run gw_step w es) = w_judgement_hold_since_ms w"
proof (induction es arbitrary: w)
  case (Cons e es)
  then show ?case using hold_step [of w e] Cons.IH [of "gw_step w e"] by simp
qed simp

text \<open>Asking again for a hold does not extend it: however often the host repeats the request,
  and whatever ticks, hints and losses come in between, judgement resumes once the cap has passed
  since the first request.\<close>

theorem hold_cannot_be_extended:
  assumes "\<not> w_judgement_holding w" and "max_judgement_hold_ms (w_config w) \<noteq> 0"
    and "list_all keeps_hold es" and "max_judgement_hold_ms (w_config w) \<le> elapsed_since now t0"
  shows "\<not> gw_judgement_held now (run gw_step w (EvJudgeable False t0 # es))"
proof -
  let ?w = "gw_step w (EvJudgeable False t0)"
  have "w_judgement_holding ?w" "w_judgement_hold_since_ms ?w = t0"
    using assms(1) by (simp_all add: gw_event_simps)
  then have "w_judgement_hold_since_ms (run gw_step ?w es) = t0"
    using hold_run [of ?w es] assms(3) by simp
  then show ?thesis using assms(2,4) by (simp add: gw_judgement_held_def not_less)
qed

lemma hold_cannot_be_extended_witness:
  "\<not> gw_judgement_held 241000 (run gw_step (gw_init default_config)
      [EvJudgeable False 1000, EvTick 6000, EvJudgeable False 6000, EvTick 11000, EvJudgeable False 11000])"
  by (rule hold_cannot_be_extended)
     (simp_all add: gw_init_def default_config_def elapsed_since_def)

text \<open>While it lasts, the hold turns every tick into a bare probe.\<close>

lemma held_tick: "\<not> w_disabled w \<Longrightarrow> gw_judgement_held t w \<Longrightarrow>
    gw_event w (EvTick t) = (w\<lparr>w_probe_outstanding := True\<rparr>, no_action\<lparr>start_probe := True\<rparr>)"
  by (simp add: tick_eq)

lemma held_probe [simp]: "gw_judgement_held t (w\<lparr>w_probe_outstanding := b\<rparr>) = gw_judgement_held t w"
  by (simp add: gw_judgement_held_def)

text \<open>While the hold lasts, ticks count nothing and declare nothing, however many there are: the
  miss count, the attempts and the report latch stay as they were.\<close>

theorem held_ticks_are_inert:
  assumes "list_all (\<lambda>t. gw_judgement_held t w) ts" and "\<not> w_disabled w"
  shows "count_along gw_step (\<lambda>w e. report_loss (gw_action w e) \<or> exit_process (gw_action w e) \<or>
            restart_engine (gw_action w e)) w (map EvTick ts) = 0 \<and>
    run gw_step w (map EvTick ts) = (if ts = [] then w else w\<lparr>w_probe_outstanding := True\<rparr>)"
  using assms
proof (induction ts arbitrary: w)
  case Nil
  then show ?case by simp
next
  case (Cons t ts)
  then have e: "gw_event w (EvTick t) = (w\<lparr>w_probe_outstanding := True\<rparr>, no_action\<lparr>start_probe := True\<rparr>)"
    by (intro held_tick) simp_all
  then have "gw_step w (EvTick t) = w\<lparr>w_probe_outstanding := True\<rparr>"
    and "gw_action w (EvTick t) = no_action\<lparr>start_probe := True\<rparr>"
    by (simp_all add: gw_step_def gw_action_def)
  with Cons show ?case using Cons.IH [of "w\<lparr>w_probe_outstanding := True\<rparr>"]
    by (simp add: no_action_def)
qed

lemma held_ticks_are_inert_witness:
  "w_missed_probes (run gw_step (gw_step (gw_init default_config) (EvJudgeable False 0))
     (map EvTick [5000, 10000, 15000])) = 0"
proof -
  let ?w = "gw_step (gw_init default_config) (EvJudgeable False 0)"
  have "list_all (\<lambda>t. gw_judgement_held t ?w) [5000, 10000, 15000]" and "\<not> w_disabled ?w"
    and "w_missed_probes ?w = 0"
    by (simp_all add: gw_event_simps gw_init_def default_config_def gw_judgement_held_def elapsed_since_def)
  then show ?thesis using held_ticks_are_inert [of ?w "[5000, 10000, 15000]"] by simp
qed

lemma note_episode_hold:
  "gw_note_episode t (w\<lparr>w_judgement_holding := h, w_judgement_hold_since_ms := s, w_judgement_hold_expired := x\<rparr>)
   = (gw_note_episode t w)\<lparr>w_judgement_holding := h, w_judgement_hold_since_ms := s, w_judgement_hold_expired := x\<rparr>"
  by (simp add: gw_note_episode_def Let_def)

lemma declare_hold_action:
  "snd (gw_DeclareLoss cause t
      (w\<lparr>w_judgement_holding := h, w_judgement_hold_since_ms := s, w_judgement_hold_expired := x\<rparr>))
   = snd (gw_DeclareLoss cause t w)"
  unfolding gw_DeclareLoss_def note_episode_hold Let_def
  by (simp add: if_distrib [of snd] cong: if_cong) (auto simp: gw_BackoffMs_def)

text \<open>The hold masks silence only: a positive report that the renderer is gone asks for exactly
  the same action with the hold requested, released or expired.\<close>

theorem hold_does_not_mask_evidence:
  "snd (gw_OnRendererLost cause t (gw_SetJudgeable b u w)) = snd (gw_OnRendererLost cause t w)"
  by (simp add: gw_OnRendererLost_def gw_SetJudgeable_def declare_hold_action)

section \<open>Silence condemns after exactly the configured number of ticks\<close>

lemma tick_below:
  "\<not> w_disabled w \<Longrightarrow> \<not> w_judgement_holding w \<Longrightarrow> w_probe_outstanding w \<Longrightarrow>
   w_missed_probes w + 1 < missed_probes_before_recovery (w_config w) \<Longrightarrow>
   gw_event w (EvTick t) = (w\<lparr>w_missed_probes := w_missed_probes w + 1\<rparr>, no_action\<lparr>start_probe := True\<rparr>)"
  by (cases w) (simp add: tick_eq gw_condemned_def gw_judgement_held_def gw_judged_def)

lemma ticks_below_threshold:
  assumes "\<not> w_disabled w" and "\<not> w_judgement_holding w" and "w_probe_outstanding w"
    and "w_missed_probes w + int (length ts) < missed_probes_before_recovery (w_config w)"
  shows "run gw_step w (map EvTick ts) = w\<lparr>w_missed_probes := w_missed_probes w + int (length ts)\<rparr> \<and>
    count_along gw_step (\<lambda>w e. report_loss (gw_action w e)) w (map EvTick ts) = 0"
  using assms
proof (induction ts arbitrary: w)
  case Nil
  then show ?case by simp
next
  case (Cons t ts)
  let ?w = "w\<lparr>w_missed_probes := w_missed_probes w + 1\<rparr>"
  have "gw_event w (EvTick t) = (?w, no_action\<lparr>start_probe := True\<rparr>)"
    using Cons.prems by (intro tick_below) simp_all
  then have "gw_step w (EvTick t) = ?w" "\<not> report_loss (gw_action w (EvTick t))"
    by (simp_all add: gw_step_def gw_action_def no_action_def)
  then show ?case using Cons.IH [of ?w] Cons.prems by (simp add: add.assoc add.commute)
qed

text \<open>An engine that never presents a frame is judged dead on the N-th tick after the start, N
  being \<open>missed_probes_before_recovery\<close>, not earlier and not later, and the cause given is the
  inferred one.\<close>

theorem silent_engine_condemned:
  assumes "0 < missed_probes_before_recovery c"
    and "length ts = nat (missed_probes_before_recovery c) - 1"
  shows "let w = run gw_step (gw_init c) (EvStarted t0 # map EvTick ts) in
    count_along gw_step (\<lambda>w e. report_loss (gw_action w e)) (gw_init c) (EvStarted t0 # map EvTick ts) = 0 \<and>
    report_loss (gw_action w (EvTick t)) \<and> act_cause (gw_action w (EvTick t)) = kNoFramesPresented"
proof -
  define s where "s = gw_step (gw_init c) (EvStarted t0)"
  define w where "w = run gw_step s (map EvTick ts)"
  have s: "\<not> w_disabled s" "\<not> w_judgement_holding s" "w_probe_outstanding s" "w_missed_probes s = 0"
    "w_config s = c" "\<not> w_reported_loss s"
    by (simp_all add: s_def gw_event_simps gw_init_def)
  have n: "int (length ts) = missed_probes_before_recovery c - 1" using assms by simp
  have w: "w = s\<lparr>w_missed_probes := int (length ts)\<rparr>"
    and "count_along gw_step (\<lambda>w e. report_loss (gw_action w e)) s (map EvTick ts) = 0"
    using ticks_below_threshold [of s ts] n by (simp_all add: s w_def)
  moreover have "gw_condemned w" "\<not> gw_judgement_held t w" "\<not> w_disabled w" "\<not> w_reported_loss w"
    using s n by (simp_all add: w gw_condemned_def gw_judgement_held_def)
  then have "report_loss (gw_action w (EvTick t))" "act_cause (gw_action w (EvTick t)) = kNoFramesPresented"
    by (simp_all add: gw_action_def tick_eq)
  moreover have "\<not> report_loss (gw_action (gw_init c) (EvStarted t0))"
    by (simp add: gw_event_simps)
  ultimately show ?thesis by (simp add: Let_def s_def [symmetric] w_def [symmetric])
qed

lemma silent_engine_condemned_witness:
  "report_loss (gw_action (run gw_step (gw_init default_config) [EvStarted 0, EvTick 5000]) (EvTick 10000))"
  using silent_engine_condemned [of default_config "[5000]" 0 10000]
  by (simp add: default_config_def Let_def)

section \<open>Environment\<close>

text \<open>Whatever the environment holds, the probe interval is the fallback or at least one second
  and at most the largest 32-bit \<open>long\<close>; a decimal number in that range is taken as it is.\<close>

theorem probe_interval_sane:
  "(ParseProbeIntervalMs raw d = d \<or>
     (1000 \<le> unat (ParseProbeIntervalMs raw d) \<and> unat (ParseProbeIntervalMs raw d) < 2 ^ 31)) \<and>
   (1000 \<le> n \<and> n < 2 ^ 31 \<longrightarrow> ParseProbeIntervalMs (Some (show_nat n)) d = of_nat n)"
proof (intro conjI impI)
  have u: "unat (word_of_int v :: u32) = nat v" if "0 \<le> v" "v \<le> long_max" for v
    using that by (simp add: long_max_def unsigned_of_int take_bit_int_eq_self)
  show "ParseProbeIntervalMs raw d = d \<or>
     (1000 \<le> unat (ParseProbeIntervalMs raw d) \<and> unat (ParseProbeIntervalMs raw d) < 2 ^ 31)"
  proof (cases raw)
    case None
    then show ?thesis by (simp add: ParseProbeIntervalMs_def)
  next
    case (Some s)
    have "fst (strtol10 s) \<le> long_max" using strtol10_range by simp
    then show ?thesis using Some u [of "fst (strtol10 s)"]
      by (auto simp: ParseProbeIntervalMs_def kMinProbeIntervalMs_def long_max_def split: prod.split)
  qed
next
  assume n: "1000 \<le> n \<and> n < 2 ^ 31"
  then have "strtol10 (show_nat n) = (int n, [])"
    by (intro strtol10_show_nat) (simp add: long_max_def)
  with n show "ParseProbeIntervalMs (Some (show_nat n)) d = of_nat n"
    using show_nat_nonempty [of n] by (simp add: ParseProbeIntervalMs_def kMinProbeIntervalMs_def del: show_nat_nonempty)
qed

lemma probe_interval_sane_witness: "ParseProbeIntervalMs (Some (show_nat 5000)) 1 = 5000"
  using probe_interval_sane [of None 1 5000] by simp

end
