(* ===== verification/Dart_Liveness.thy ===== *)
theory Dart_Liveness
  imports Text_Format
begin

text \<open>
  The liveness monitor of the UI isolate (\<open>dart_liveness.h\<close>, \<open>dart_liveness.cpp\<close>): the stamp the isolate
  sends, the monitor's state, its three operations and the two log lines. Epochs are \<open>long long\<close>, only
  compared and printed, hence integers; time stamps and counters are 64-bit words. The lemmas show
  that a stamp of another engine generation changes nothing, when silence is reported and how far apart
  the reports are, and that a raster loss is declared once per episode, at the configured count.
\<close>

section \<open>Data\<close>

record DartLivenessStamp =
  st_epoch :: int
  st_uptime_ms :: u64
  st_ticks :: u64
  st_frames :: u64
  st_lag_ms :: u64
  st_startup_complete :: bool
  st_raster_probed :: bool
  st_raster_ok :: bool

definition default_stamp :: DartLivenessStamp where
  "default_stamp = \<lparr> st_epoch = -1, st_uptime_ms = 0, st_ticks = 0, st_frames = 0, st_lag_ms = 0,
     st_startup_complete = False, st_raster_probed = False, st_raster_ok = False \<rparr>"

record LivenessConfig =
  expected_interval_ms :: u64
  silent_after_ms :: u64
  repeat_ms :: u64
  startup_grace_ms :: u64
  raster_failures_before_loss :: int

definition default_liveness_config :: LivenessConfig where
  "default_liveness_config = \<lparr> expected_interval_ms = 10000, silent_after_ms = 30000,
     repeat_ms = 60000, startup_grace_ms = 60000, raster_failures_before_loss = 3 \<rparr>"

datatype Verdict = kNothingToSay | kFirstStamp | kSilent | kStillSilent | kRecovered | kNeverArrived

record LivenessDecision =
  ld_verdict :: Verdict
  ld_silence_ms :: u64
  ld_last :: DartLivenessStamp
  ld_ever_stamped :: bool
  ld_raster_lost :: bool
  ld_raster_recovered :: bool
  ld_raster_failures :: int

definition default_decision :: LivenessDecision where
  "default_decision = \<lparr> ld_verdict = kNothingToSay, ld_silence_ms = 0, ld_last = default_stamp,
     ld_ever_stamped = False, ld_raster_lost = False, ld_raster_recovered = False,
     ld_raster_failures = 0 \<rparr>"

record DartLiveness =
  l_config :: LivenessConfig
  l_watching :: bool
  l_epoch :: int
  l_epoch_started_ms :: u64
  l_last_stamp_ms :: u64
  l_last_report_ms :: u64
  l_ever_stamped :: bool
  l_silent :: bool
  l_last :: DartLivenessStamp
  l_raster_failures :: int
  l_raster_lost :: bool

definition dl_init :: "LivenessConfig \<Rightarrow> DartLiveness" where
  "dl_init config = \<lparr> l_config = config, l_watching = False, l_epoch = -1, l_epoch_started_ms = 0,
     l_last_stamp_ms = 0, l_last_report_ms = 0, l_ever_stamped = False, l_silent = False,
     l_last = default_stamp, l_raster_failures = 0, l_raster_lost = False \<rparr>"

section \<open>Operations\<close>

definition dl_EpochStarted :: "int \<Rightarrow> u64 \<Rightarrow> DartLiveness \<Rightarrow> DartLiveness" where
  "dl_EpochStarted epoch now_ms l =
     l\<lparr>l_epoch := epoch, l_watching := True, l_epoch_started_ms := now_ms, l_last_stamp_ms := 0,
       l_last_report_ms := 0, l_ever_stamped := False, l_silent := False, l_last := default_stamp,
       l_raster_failures := 0, l_raster_lost := False\<rparr>"

definition dl_reference :: "DartLiveness \<Rightarrow> u64" where
  "dl_reference l = (if l_ever_stamped l then l_last_stamp_ms l else l_epoch_started_ms l)"

definition dl_Snapshot :: "Verdict \<Rightarrow> u64 \<Rightarrow> DartLiveness \<Rightarrow> LivenessDecision" where
  "dl_Snapshot verdict now_ms l =
     default_decision\<lparr>ld_verdict := verdict, ld_silence_ms := elapsed_since now_ms (dl_reference l),
       ld_last := l_last l, ld_ever_stamped := l_ever_stamped l,
       ld_raster_failures := l_raster_failures l\<rparr>"

definition dl_foreign :: "DartLivenessStamp \<Rightarrow> DartLiveness \<Rightarrow> bool" where
  "dl_foreign stamp l \<longleftrightarrow> 0 \<le> st_epoch stamp \<and> 0 \<le> l_epoch l \<and> st_epoch stamp \<noteq> l_epoch l"

text \<open>The raster verdict at the end of \<open>OnStamp\<close>.\<close>

definition dl_raster ::
  "DartLivenessStamp \<Rightarrow> DartLiveness \<times> LivenessDecision \<Rightarrow> DartLiveness \<times> LivenessDecision" where
  "dl_raster stamp = (\<lambda>(l, d).
     if \<not> st_raster_probed stamp then (l, d)
     else
       let (l1, d1) =
         (if st_raster_ok stamp then
            (l\<lparr>l_raster_failures := 0, l_raster_lost := False\<rparr>,
             if l_raster_lost l then d\<lparr>ld_raster_recovered := True\<rparr> else d)
          else
            let n = l_raster_failures l + 1; k = raster_failures_before_loss (l_config l)
            in if \<not> l_raster_lost l \<and> 0 < k \<and> k \<le> n
               then (l\<lparr>l_raster_failures := n, l_raster_lost := True\<rparr>, d\<lparr>ld_raster_lost := True\<rparr>)
               else (l\<lparr>l_raster_failures := n\<rparr>, d))
       in (l1, d1\<lparr>ld_raster_failures := l_raster_failures l1\<rparr>))"

definition dl_OnStamp ::
  "DartLivenessStamp \<Rightarrow> u64 \<Rightarrow> DartLiveness \<Rightarrow> DartLiveness \<times> LivenessDecision" where
  "dl_OnStamp stamp now_ms l =
     (if dl_foreign stamp l then (l, (dl_Snapshot kNothingToSay now_ms l)\<lparr>ld_last := stamp\<rparr>)
      else
        let first = (\<not> l_ever_stamped l);
            was_silent = l_silent l;
            closed_gap = ld_silence_ms (dl_Snapshot kNothingToSay now_ms l);
            l1 = l\<lparr>l_last := stamp, l_last_stamp_ms := now_ms, l_ever_stamped := True,
                   l_silent := False, l_last_report_ms := 0\<rparr>;
            verdict = (if first then kFirstStamp else if was_silent then kRecovered else kNothingToSay);
            d = (dl_Snapshot verdict now_ms l1)\<lparr>ld_silence_ms := closed_gap\<rparr>
        in dl_raster stamp (l1, d))"

definition dl_Evaluate :: "u64 \<Rightarrow> DartLiveness \<Rightarrow> DartLiveness \<times> LivenessDecision" where
  "dl_Evaluate now_ms l =
     (if \<not> l_watching l then (l, default_decision)
      else
        let threshold = (if l_ever_stamped l then silent_after_ms (l_config l)
                         else startup_grace_ms (l_config l));
            silence = elapsed_since now_ms (dl_reference l)
        in if silence \<le> threshold then (l, dl_Snapshot kNothingToSay now_ms l)
           else if \<not> l_silent l then
             let l1 = l\<lparr>l_silent := True, l_last_report_ms := now_ms\<rparr>
             in (l1, dl_Snapshot (if l_ever_stamped l then kSilent else kNeverArrived) now_ms l1)
           else if repeat_ms (l_config l) \<le> now_ms - l_last_report_ms l then
             let l1 = l\<lparr>l_last_report_ms := now_ms\<rparr>
             in (l1, dl_Snapshot kStillSilent now_ms l1)
           else (l, dl_Snapshot kNothingToSay now_ms l))"

section \<open>Log lines\<close>

definition DescribeLiveness :: "LivenessDecision \<Rightarrow> LivenessConfig \<Rightarrow> string" where
  "DescribeLiveness decision config =
     (let stamp = ld_last decision in
      case ld_verdict decision of
        kNothingToSay \<Rightarrow> []
      | kFirstStamp \<Rightarrow>
          ''UI isolate is ALIVE: first liveness stamp for epoch '' @ show_int (st_epoch stamp) @
          '' after '' @ Seconds (ld_silence_ms decision) @ '' s, uptime '' @
          Seconds (st_uptime_ms stamp) @ '' s, startup '' @
          (if st_startup_complete stamp then ''complete'' else ''still in progress'')
      | kSilent \<Rightarrow>
          ''UI isolate has gone SILENT: no liveness stamp for '' @ Seconds (ld_silence_ms decision) @
          '' s (one is due every '' @ Seconds (expected_interval_ms config) @
          '' s). Last stamp: epoch '' @ show_int (st_epoch stamp) @ '', tick '' @
          show_u64 (st_ticks stamp) @ '', uptime '' @ Seconds (st_uptime_ms stamp) @ '' s, lag '' @
          show_u64 (st_lag_ms stamp) @
          '' ms. The Dart side has stopped running its own clock -- this is '' @
          ''the freeze, and it is NOT visible to the frame probe, which '' @
          ''counts the frames the watchdog itself forces.''
      | kStillSilent \<Rightarrow>
          ''UI isolate STILL silent: '' @ Seconds (ld_silence_ms decision) @
          '' s since the last stamp (epoch '' @ show_int (st_epoch stamp) @ '', tick '' @
          show_u64 (st_ticks stamp) @ '')''
      | kRecovered \<Rightarrow>
          ''UI isolate is stamping again after '' @ Seconds (ld_silence_ms decision) @
          '' s of silence -- the stall reported above has ENDED (epoch '' @
          show_int (st_epoch stamp) @ '', tick '' @ show_u64 (st_ticks stamp) @ '')''
      | kNeverArrived \<Rightarrow>
          ''UI isolate NEVER stamped: '' @ Seconds (ld_silence_ms decision) @
          '' s since this engine generation was created and no liveness '' @
          ''stamp has arrived at all. Dart main() did not reach the point '' @
          ''where it arms its timer -- the engine started but the app did '' @
          ''not.'')"

definition DescribeRaster :: "LivenessDecision \<Rightarrow> LivenessConfig \<Rightarrow> string" where
  "DescribeRaster decision config =
     (let stamp = ld_last decision in
      if ld_raster_lost decision then
        ''the engine CANNOT RASTERISE: '' @ show_int (ld_raster_failures decision) @
        '' consecutive liveness stamps ('' @
        Seconds (word_of_int (ld_raster_failures decision) * expected_interval_ms config) @
        '' s) reported that a 1 x 1 snapshot came back empty or did not '' @
        ''come back at all, while the UI isolate itself is alive (epoch '' @
        show_int (st_epoch stamp) @ '', tick '' @ show_u64 (st_ticks stamp) @ '', '' @
        show_u64 (st_frames stamp) @
        '' frame(s) it built since the last stamp that nobody could see). '' @
        ''This is the 2026-09-12 freeze: the next-frame probe is answered, '' @
        ''the sentinel adapter is healthy and the engine writes no errors. '' @
        ''Declaring the renderer lost.''
      else if ld_raster_recovered decision then
        ''the engine is rasterising again on its own (epoch '' @ show_int (st_epoch stamp) @
        '', tick '' @ show_u64 (st_ticks stamp) @
        '') -- the raster loss reported above has ENDED without a rebuild''
      else [])"

section \<open>The monitor as a machine\<close>

datatype LivenessEvent = LvEpoch int u64 | LvStamp DartLivenessStamp u64 | LvEvaluate u64

fun dl_event :: "DartLiveness \<Rightarrow> LivenessEvent \<Rightarrow> DartLiveness \<times> LivenessDecision" where
  "dl_event l (LvEpoch epoch t) = (dl_EpochStarted epoch t l, default_decision)"
| "dl_event l (LvStamp stamp t) = dl_OnStamp stamp t l"
| "dl_event l (LvEvaluate t) = dl_Evaluate t l"

definition dl_step :: "DartLiveness \<Rightarrow> LivenessEvent \<Rightarrow> DartLiveness" where
  "dl_step l e = fst (dl_event l e)"

definition dl_decision :: "DartLiveness \<Rightarrow> LivenessEvent \<Rightarrow> LivenessDecision" where
  "dl_decision l e = snd (dl_event l e)"

lemmas dl_defs = dl_step_def dl_decision_def dl_EpochStarted_def dl_OnStamp_def dl_Evaluate_def
  dl_raster_def dl_Snapshot_def default_decision_def Let_def

section \<open>Stamps of another generation\<close>

text \<open>A stamp that names another engine generation than the one being watched leaves the monitor
  exactly as it was, and its decision gives the host nothing to log and no raster verdict.\<close>

theorem foreign_stamp_is_inert:
  assumes "dl_foreign stamp l"
  shows "dl_step l (LvStamp stamp t) = l \<and>
    DescribeLiveness (dl_decision l (LvStamp stamp t)) (l_config l) = [] \<and>
    DescribeRaster (dl_decision l (LvStamp stamp t)) (l_config l) = []"
  using assms by (simp add: dl_defs DescribeLiveness_def DescribeRaster_def)

lemma foreign_stamp_is_inert_witness:
  "dl_step (dl_EpochStarted 2 1000 (dl_init default_liveness_config)) (LvStamp (default_stamp\<lparr>st_epoch := 1\<rparr>) 2000)
     = dl_EpochStarted 2 1000 (dl_init default_liveness_config)"
  using foreign_stamp_is_inert
    [of "default_stamp\<lparr>st_epoch := 1\<rparr>" "dl_EpochStarted 2 1000 (dl_init default_liveness_config)" 2000]
  by (simp add: dl_foreign_def dl_EpochStarted_def default_stamp_def)

section \<open>The raster verdict\<close>

lemma dl_config_step [simp]: "l_config (dl_step l e) = l_config l"
  by (cases e) (simp_all add: dl_defs)

lemma raster_lost_opens:
  "ld_raster_lost (dl_decision l e) \<Longrightarrow> \<not> l_raster_lost l \<and> l_raster_lost (dl_step l e)"
  by (cases e) (auto simp: dl_defs split: if_splits)

text \<open>What ends a raster episode: a probe that succeeds, or a new engine generation.\<close>

fun ends_raster_episode :: "DartLiveness \<Rightarrow> LivenessEvent \<Rightarrow> bool" where
  "ends_raster_episode l (LvEpoch epoch t) \<longleftrightarrow> True"
| "ends_raster_episode l (LvStamp stamp t) \<longleftrightarrow>
     \<not> dl_foreign stamp l \<and> st_raster_probed stamp \<and> st_raster_ok stamp"
| "ends_raster_episode l (LvEvaluate t) \<longleftrightarrow> False"

lemma raster_lost_kept: "l_raster_lost l \<Longrightarrow> \<not> ends_raster_episode l e \<Longrightarrow> l_raster_lost (dl_step l e)"
  by (cases e) (auto simp: dl_defs)

interpretation dl_raster_latch: once_latch dl_step "\<lambda>l e. ld_raster_lost (dl_decision l e)"
  l_raster_lost ends_raster_episode
  by unfold_locales (use raster_lost_opens raster_lost_kept in auto)

text \<open>A raster loss is declared once per episode: over any history there is at most one declaration
  more than there are successful probes and new engine generations.\<close>

theorem raster_loss_once_per_episode:
  "count_along dl_step (\<lambda>l e. ld_raster_lost (dl_decision l e)) l es
     \<le> Suc (count_along dl_step ends_raster_episode l es)"
  by (rule dl_raster_latch.fire_count_le)

text \<open>A failed probe of the watched generation, the threshold not being reached yet.\<close>

definition failed_probe :: "DartLiveness \<Rightarrow> DartLivenessStamp \<Rightarrow> bool" where
  "failed_probe l stamp \<longleftrightarrow> \<not> dl_foreign stamp l \<and> st_raster_probed stamp \<and> \<not> st_raster_ok stamp"

lemma failed_probe_step:
  assumes "failed_probe l stamp" and "\<not> l_raster_lost l"
  shows "l_raster_failures (dl_step l (LvStamp stamp t)) = l_raster_failures l + 1 \<and>
    l_epoch (dl_step l (LvStamp stamp t)) = l_epoch l \<and>
    l_raster_lost (dl_step l (LvStamp stamp t)) = ld_raster_lost (dl_decision l (LvStamp stamp t)) \<and>
    (ld_raster_lost (dl_decision l (LvStamp stamp t)) \<longleftrightarrow>
       0 < raster_failures_before_loss (l_config l) \<and>
       raster_failures_before_loss (l_config l) \<le> l_raster_failures l + 1)"
  using assms by (auto simp: dl_defs failed_probe_def)

lemma unprobed_keeps_raster:
  assumes "\<not> st_raster_probed stamp"
  shows "l_raster_failures (dl_step l (LvStamp stamp t)) = l_raster_failures l \<and>
    l_raster_lost (dl_step l (LvStamp stamp t)) = l_raster_lost l \<and>
    l_epoch (dl_step l (LvStamp stamp t)) = l_epoch l \<and>
    \<not> ld_raster_lost (dl_decision l (LvStamp stamp t))"
  using assms by (auto simp: dl_defs)

text \<open>Stamps of the watched generation, none of which carries a successful probe.\<close>

definition no_good_probe :: "int \<Rightarrow> DartLivenessStamp \<Rightarrow> bool" where
  "no_good_probe epoch s \<longleftrightarrow> (st_epoch s = epoch \<or> st_epoch s < 0) \<and> (st_raster_probed s \<longrightarrow> \<not> st_raster_ok s)"

definition stamp_events :: "(DartLivenessStamp \<times> u64) list \<Rightarrow> LivenessEvent list" where
  "stamp_events sts = map (\<lambda>(s, t). LvStamp s t) sts"

definition failures_among :: "(DartLivenessStamp \<times> u64) list \<Rightarrow> nat" where
  "failures_among sts = length (filter (\<lambda>(s, t). st_raster_probed s) sts)"

lemma raster_count_run:
  assumes "\<not> l_raster_lost l" and "list_all (\<lambda>(s, t). no_good_probe (l_epoch l) s) sts"
    and "l_raster_failures l + int (failures_among sts) < raster_failures_before_loss (l_config l)"
  shows "l_raster_failures (run dl_step l (stamp_events sts)) =
      l_raster_failures l + int (failures_among sts) \<and>
    \<not> l_raster_lost (run dl_step l (stamp_events sts)) \<and>
    l_epoch (run dl_step l (stamp_events sts)) = l_epoch l \<and>
    l_config (run dl_step l (stamp_events sts)) = l_config l \<and>
    count_along dl_step (\<lambda>l e. ld_raster_lost (dl_decision l e)) l (stamp_events sts) = 0"
  using assms
proof (induction sts arbitrary: l)
  case Nil
  then show ?case by (simp add: stamp_events_def failures_among_def)
next
  case (Cons p sts)
  obtain s t where p: "p = (s, t)" by (cases p)
  let ?l = "dl_step l (LvStamp s t)"
  have nf: "\<not> dl_foreign s l" and ok: "no_good_probe (l_epoch l) s"
    using Cons.prems(2) p by (auto simp: no_good_probe_def dl_foreign_def)
  show ?case
  proof (cases "st_raster_probed s")
    case True
    with ok nf have f: "failed_probe l s" by (simp add: failed_probe_def no_good_probe_def)
    have lt: "l_raster_failures l + 1 + int (failures_among sts) < raster_failures_before_loss (l_config l)"
      using Cons.prems(3) True p by (simp add: failures_among_def)
    with failed_probe_step [OF f Cons.prems(1), of t] have
      "\<not> l_raster_lost ?l" "l_raster_failures ?l = l_raster_failures l + 1" "l_epoch ?l = l_epoch l"
      "\<not> ld_raster_lost (dl_decision l (LvStamp s t))" by auto
    with Cons.IH [of ?l] Cons.prems(2) lt p True show ?thesis
      by (simp add: stamp_events_def failures_among_def)
  next
    case False
    with unprobed_keeps_raster [OF False, of l t] Cons.IH [of ?l] Cons.prems p show ?thesis
      by (simp add: stamp_events_def failures_among_def)
  qed
qed

text \<open>In a fresh generation the raster loss is declared by exactly the N-th failed probe, N being the
  configured count: stamps that did not probe in between neither bring it closer nor put it off, and
  nothing is declared before.\<close>

theorem raster_loss_at_threshold:
  assumes "0 \<le> epoch" and "0 < raster_failures_before_loss (l_config l)"
    and "list_all (\<lambda>(s, t). no_good_probe epoch s) (sts @ [(s, t)])" and "st_raster_probed s"
    and "int (failures_among sts) = raster_failures_before_loss (l_config l) - 1"
  shows "let l0 = dl_EpochStarted epoch t0 l; l1 = run dl_step l0 (stamp_events sts) in
    count_along dl_step (\<lambda>l e. ld_raster_lost (dl_decision l e)) l0 (stamp_events sts) = 0 \<and>
    ld_raster_lost (dl_decision l1 (LvStamp s t))"
proof -
  define l0 where "l0 = dl_EpochStarted epoch t0 l"
  define l1 where "l1 = run dl_step l0 (stamp_events sts)"
  have l0: "l_epoch l0 = epoch" "\<not> l_raster_lost l0" "l_raster_failures l0 = 0" "l_config l0 = l_config l"
    by (simp_all add: l0_def dl_EpochStarted_def)
  with assms raster_count_run [of l0 sts] have l1: "l_raster_failures l1 = int (failures_among sts)"
    "\<not> l_raster_lost l1" "l_epoch l1 = epoch" "l_config l1 = l_config l"
    and none: "count_along dl_step (\<lambda>l e. ld_raster_lost (dl_decision l e)) l0 (stamp_events sts) = 0"
    by (simp_all add: l1_def)
  have "failed_probe l1 s" using assms l1 by (auto simp: failed_probe_def dl_foreign_def no_good_probe_def)
  with failed_probe_step [of l1 s t] l1 assms have "ld_raster_lost (dl_decision l1 (LvStamp s t))" by simp
  with none show ?thesis by (simp add: l0_def [symmetric] l1_def [symmetric] Let_def)
qed

definition bad_stamp :: DartLivenessStamp where
  "bad_stamp = default_stamp\<lparr>st_epoch := 7, st_raster_probed := True\<rparr>"

lemma raster_loss_at_threshold_witness:
  "ld_raster_lost (dl_decision (run dl_step (dl_EpochStarted 7 0 (dl_init default_liveness_config))
      [LvStamp bad_stamp 10, LvStamp default_stamp 20, LvStamp bad_stamp 30]) (LvStamp bad_stamp 40))"
  using raster_loss_at_threshold [of 7 "dl_init default_liveness_config"
      "[(bad_stamp, 10), (default_stamp, 20), (bad_stamp, 30)]" bad_stamp 40 0]
  by (simp add: dl_init_def default_liveness_config_def no_good_probe_def bad_stamp_def
      default_stamp_def failures_among_def stamp_events_def Let_def)

section \<open>Silence\<close>

text \<open>The verdicts that put a line about silence into the log.\<close>

definition silence_report :: "Verdict \<Rightarrow> bool" where
  "silence_report v \<longleftrightarrow> v = kSilent \<or> v = kStillSilent \<or> v = kNeverArrived"

text \<open>A tick reports silence only past the threshold that applies (the grace before the first stamp,
  the silence limit after it), the first report says which of the two it was, and a repeated one comes
  no sooner than \<open>repeat_ms\<close> after the report before it.\<close>

theorem silence_reported_when_due:
  "(silence_report (ld_verdict (snd (dl_Evaluate now l))) \<longleftrightarrow>
      l_watching l \<and>
      (if l_ever_stamped l then silent_after_ms (l_config l) else startup_grace_ms (l_config l))
        < elapsed_since now (dl_reference l) \<and>
      (\<not> l_silent l \<or> repeat_ms (l_config l) \<le> now - l_last_report_ms l)) \<and>
   (ld_verdict (snd (dl_Evaluate now l)) = kNeverArrived \<longrightarrow> \<not> l_ever_stamped l) \<and>
   (ld_verdict (snd (dl_Evaluate now l)) = kSilent \<longrightarrow> l_ever_stamped l) \<and>
   (silence_report (ld_verdict (snd (dl_Evaluate now l))) \<longrightarrow>
      l_silent (fst (dl_Evaluate now l)) \<and> l_last_report_ms (fst (dl_Evaluate now l)) = now)"
  by (auto simp: dl_Evaluate_def dl_Snapshot_def default_decision_def silence_report_def Let_def)

lemma silence_reported_when_due_witness:
  "silence_report (ld_verdict (snd (dl_Evaluate 60001
     (dl_EpochStarted 0 0 (dl_init default_liveness_config)))))"
  using silence_reported_when_due [of 60001 "dl_EpochStarted 0 0 (dl_init default_liveness_config)"]
  by (simp add: dl_EpochStarted_def dl_init_def default_liveness_config_def dl_reference_def elapsed_since_def)

text \<open>Over ticks alone, the reports stay \<open>repeat_ms\<close> apart, so their number is bounded by the time that
  passed: the count of further reports times \<open>repeat_ms\<close> fits between the last report and the last tick.\<close>

lemma silent_tick:
  assumes "l_silent l" and "l_last_report_ms l \<le> t"
  shows "l_silent (dl_step l (LvEvaluate t)) \<and>
    l_last_report_ms (dl_step l (LvEvaluate t)) \<le> t \<and>
    l_last_report_ms l \<le> l_last_report_ms (dl_step l (LvEvaluate t)) \<and>
    (silence_report (ld_verdict (dl_decision l (LvEvaluate t))) \<longrightarrow>
       unat (l_last_report_ms l) + unat (repeat_ms (l_config l))
         \<le> unat (l_last_report_ms (dl_step l (LvEvaluate t))))"
  using assms
  by (auto simp: dl_defs silence_report_def word_le_nat_alt unat_sub)

lemma silence_spacing_run:
  assumes "l_silent l" and "sorted ts" and "list_all (\<lambda>t. l_last_report_ms l \<le> t) ts"
  shows "unat (l_last_report_ms l) + unat (repeat_ms (l_config l)) *
      count_along dl_step (\<lambda>l e. silence_report (ld_verdict (dl_decision l e))) l (map LvEvaluate ts)
    \<le> unat (l_last_report_ms (run dl_step l (map LvEvaluate ts)))"
  using assms
proof (induction ts arbitrary: l)
  case Nil
  then show ?case by simp
next
  case (Cons t ts)
  let ?l = "dl_step l (LvEvaluate t)"
  have s: "l_silent ?l" "l_last_report_ms ?l \<le> t" "l_last_report_ms l \<le> l_last_report_ms ?l"
    "silence_report (ld_verdict (dl_decision l (LvEvaluate t))) \<Longrightarrow>
       unat (l_last_report_ms l) + unat (repeat_ms (l_config l)) \<le> unat (l_last_report_ms ?l)"
    using silent_tick [of l t] Cons.prems by auto
  have "list_all (\<lambda>t. l_last_report_ms ?l \<le> t) ts"
    using Cons.prems(2) s(2) by (auto simp: list_all_iff intro: order_trans)
  with Cons.IH [of ?l] Cons.prems(2) s(1) have IH:
    "unat (l_last_report_ms ?l) + unat (repeat_ms (l_config l)) *
       count_along dl_step (\<lambda>l e. silence_report (ld_verdict (dl_decision l e))) ?l (map LvEvaluate ts)
     \<le> unat (l_last_report_ms (run dl_step ?l (map LvEvaluate ts)))" by simp
  show ?case
  proof (cases "silence_report (ld_verdict (dl_decision l (LvEvaluate t)))")
    case True
    with IH s(4) show ?thesis by simp
  next
    case False
    moreover have "unat (l_last_report_ms l) \<le> unat (l_last_report_ms ?l)"
      using s(3) by (simp add: word_le_nat_alt)
    ultimately show ?thesis using IH by simp
  qed
qed

end
