(* ===== verification/Egl_Storm.thy ===== *)
theory Egl_Storm
  imports Text_Format
begin

text \<open>
  The context-loss storm detector (\<open>egl_storm_detector.h\<close>, \<open>egl_storm_detector.cpp\<close>) and the reader loop
  that feeds it the process's own stderr (\<open>stderr_interposer.cpp\<close>). Bytes are characters. The loops over
  indices are written with the same bounds; the byte loop of \<open>OnBytes\<close> becomes a recursion over the
  bytes that keeps the current segment. The lemmas show that the bounded search is substring search,
  that splitting the stream into reads does not matter, that a storm is backed by the configured number
  of matching lines inside one window, that it stays quiet for the cooldown, and what count the host is
  handed.
\<close>

section \<open>Data\<close>

record StormConfig =
  min_matches :: u32
  window_ms :: u64
  refire_cooldown_ms :: u64

definition default_storm_config :: StormConfig where
  "default_storm_config = \<lparr> min_matches = 10, window_ms = 5000, refire_cooldown_ms = 10000 \<rparr>"

record EglStormDetector =
  s_config :: StormConfig
  s_matches :: u32
  s_window_start_ms :: u64
  s_quiet_until_ms :: u64
  s_carry :: string

definition es_init :: "StormConfig \<Rightarrow> EglStormDetector" where
  "es_init config = \<lparr> s_config = config, s_matches = 0, s_window_start_ms = 0,
     s_quiet_until_ms = 0, s_carry = [] \<rparr>"

definition kNeedles :: "string list" where
  "kNeedles = [''EGL Error: Context Lost'', ''Could not make the context current'']"

definition kMaxCarryBytes :: nat where "kMaxCarryBytes = 4096"

section \<open>Matching a line\<close>

text \<open>The inner loop: how far the needle agrees with the haystack at offset \<open>i\<close>, from \<open>j\<close> on.\<close>

function match_len :: "string \<Rightarrow> nat \<Rightarrow> string \<Rightarrow> nat \<Rightarrow> nat" where
  "match_len haystack i needle j =
     (if j < length needle \<and> haystack ! (i + j) = needle ! j
      then match_len haystack i needle (Suc j) else j)"
  by auto
termination by (relation "measure (\<lambda>(h, i, n, j). length n - j)") auto

declare match_len.simps [simp del]

definition Contains :: "string \<Rightarrow> string \<Rightarrow> bool" where
  "Contains haystack needle =
     (if needle = [] \<or> length haystack < length needle then False
      else list_ex (\<lambda>i. match_len haystack i needle 0 = length needle)
             [0..<length haystack - length needle + 1])"

definition LineMatches :: "string \<Rightarrow> bool" where
  "LineMatches line = list_ex (Contains line) kNeedles"

section \<open>Feeding lines and bytes\<close>

definition es_OnLine :: "string \<Rightarrow> u64 \<Rightarrow> EglStormDetector \<Rightarrow> EglStormDetector \<times> bool" where
  "es_OnLine line now_ms d =
     (if now_ms < s_quiet_until_ms d then (d, False)
      else if \<not> LineMatches line then (d, False)
      else
        let d1 = (if s_matches d = 0 \<or> window_ms (s_config d) < now_ms - s_window_start_ms d
                  then d\<lparr>s_window_start_ms := now_ms, s_matches := 0\<rparr> else d);
            d2 = d1\<lparr>s_matches := s_matches d1 + 1\<rparr>
        in if min_matches (s_config d2) \<le> s_matches d2
           then (d2\<lparr>s_matches := 0, s_window_start_ms := 0,
                    s_quiet_until_ms := now_ms + refire_cooldown_ms (s_config d2)\<rparr>, True)
           else (d2, False))"

text \<open>The byte loop: \<open>seg\<close> is \<open>data + start .. data + i\<close>, \<open>fired\<close> the accumulated result.\<close>

fun es_bytes :: "u64 \<Rightarrow> EglStormDetector \<Rightarrow> string \<Rightarrow> bool \<Rightarrow> string \<Rightarrow> EglStormDetector \<times> bool" where
  "es_bytes now_ms d seg fired [] =
     (if seg = [] then (d, fired)
      else
        let d1 = d\<lparr>s_carry := s_carry d @ seg\<rparr>
        in if kMaxCarryBytes < length (s_carry d1)
           then let (d2, f) = es_OnLine (s_carry d1) now_ms d1
                in (d2\<lparr>s_carry := []\<rparr>, fired \<or> f)
           else (d1, fired))"
| "es_bytes now_ms d seg fired (c # cs) =
     (if c \<noteq> newline then es_bytes now_ms d (seg @ [c]) fired cs
      else if s_carry d = [] then
        let (d1, f) = es_OnLine seg now_ms d in es_bytes now_ms d1 [] (fired \<or> f) cs
      else
        let d0 = d\<lparr>s_carry := s_carry d @ seg\<rparr>;
            (d1, f) = es_OnLine (s_carry d0) now_ms d0
        in es_bytes now_ms (d1\<lparr>s_carry := []\<rparr>) [] (fired \<or> f) cs)"

definition es_OnBytes :: "string \<Rightarrow> u64 \<Rightarrow> EglStormDetector \<Rightarrow> EglStormDetector \<times> bool" where
  "es_OnBytes data now_ms d = es_bytes now_ms d [] False data"

section \<open>The reader loop of the interposer\<close>

text \<open>
  One read: its bytes, its time, and \<open>None\<close> for the end of the pipe or an error. The loop forwards
  every byte to the original stderr, when there is one, and hands the callback the detector's match
  count when a line of the read crossed the threshold. The result is the detector, the forwarded bytes
  and the callbacks made, in order.
\<close>

fun ReaderLoop ::
  "bool \<Rightarrow> (string \<times> u64) option list \<Rightarrow> EglStormDetector \<Rightarrow> EglStormDetector \<times> string \<times> u32 list" where
  "ReaderLoop has_stderr [] d = (d, [], [])"
| "ReaderLoop has_stderr (None # reads) d = (d, [], [])"
| "ReaderLoop has_stderr (Some (bytes, now_ms) # reads) d =
     (if bytes = [] then (d, [], [])
      else
        let (d1, fired) = es_OnBytes bytes now_ms d;
            (d2, out, storms) = ReaderLoop has_stderr reads d1
        in (d2, (if has_stderr then bytes else []) @ out,
            (if fired then [s_matches d1] else []) @ storms))"

section \<open>The search is substring search\<close>

lemma match_len_full:
  assumes "i + length needle \<le> length haystack" and "j \<le> length needle"
  shows "match_len haystack i needle j = length needle \<longleftrightarrow>
    (\<forall>k. j \<le> k \<and> k < length needle \<longrightarrow> haystack ! (i + k) = needle ! k)"
  using assms
proof (induction haystack i needle j rule: match_len.induct)
  case (1 haystack i needle j)
  show ?case
  proof (cases "j < length needle \<and> haystack ! (i + j) = needle ! j")
    case True
    then have "match_len haystack i needle j = match_len haystack i needle (Suc j)"
      by (subst match_len.simps) simp
    with "1.IH" True "1.prems" show ?thesis by (metis Suc_leI le_Suc_eq le_eq_less_or_eq Suc_le_eq)
  next
    case False
    then have "match_len haystack i needle j = j" by (subst match_len.simps) auto
    with False "1.prems" show ?thesis by auto
  qed
qed

lemma take_drop_eq_nth:
  "i + length n \<le> length h \<Longrightarrow> take (length n) (drop i h) = n \<longleftrightarrow> (\<forall>k < length n. h ! (i + k) = n ! k)"
  by (auto simp: list_eq_iff_nth_eq)

lemma sublist_take_drop:
  "sublist n h \<longleftrightarrow> (\<exists>i. i + length n \<le> length h \<and> take (length n) (drop i h) = n)"
proof
  assume "sublist n h"
  then obtain p s where "h = p @ n @ s" by (auto simp: sublist_def)
  then show "\<exists>i. i + length n \<le> length h \<and> take (length n) (drop i h) = n"
    by (intro exI [of _ "length p"]) simp
next
  assume "\<exists>i. i + length n \<le> length h \<and> take (length n) (drop i h) = n"
  then obtain i where "take (length n) (drop i h) = n" by blast
  then have "h = take i h @ n @ drop (length n) (drop i h)" by (metis append_take_drop_id)
  then show "sublist n h" by (auto simp: sublist_def)
qed

lemma set_offsets:
  "\<not> length h < length n \<Longrightarrow>
   set [0..<length h - length n + 1] = {i. i + length n \<le> length h}"
  by auto

lemma Contains_sublist:
  assumes "n \<noteq> []"
  shows "Contains line n \<longleftrightarrow> sublist n line"
proof (cases "length line < length n")
  case True
  then show ?thesis by (auto simp: Contains_def dest: sublist_length_le)
next
  case False
  have "Contains line n \<longleftrightarrow>
      (\<exists>i. i + length n \<le> length line \<and> match_len line i n 0 = length n)"
    using assms False by (simp only: Contains_def list_ex_iff set_offsets [OF False]) simp
  also have "\<dots> \<longleftrightarrow> (\<exists>i. i + length n \<le> length line \<and> take (length n) (drop i line) = n)"
    by (intro ex_cong1 conj_cong refl) (simp add: match_len_full take_drop_eq_nth)
  also have "\<dots> \<longleftrightarrow> sublist n line" by (simp add: sublist_take_drop)
  finally show ?thesis .
qed

text \<open>The hand-written bounded search finds exactly the substrings: on an unterminated buffer of the
  given length a line matches iff it contains one of the two engine messages.\<close>

theorem LineMatches_sublist:
  "LineMatches line \<longleftrightarrow>
     sublist ''EGL Error: Context Lost'' line \<or> sublist ''Could not make the context current'' line"
  by (simp add: LineMatches_def kNeedles_def Contains_sublist)

section \<open>Splitting the stream into reads does not matter\<close>

lemma OnLine_carry:
  "es_OnLine line t (d\<lparr>s_carry := x\<rparr>) =
     ((fst (es_OnLine line t d))\<lparr>s_carry := x\<rparr>, snd (es_OnLine line t d))"
  by (simp add: es_OnLine_def Let_def)

lemma OnLine_keeps_carry [simp]: "s_carry (fst (es_OnLine line t d)) = s_carry d"
  by (simp add: es_OnLine_def Let_def)

text \<open>No line of the stream outgrows the carry buffer, \<open>n\<close> bytes of the first one being there already.\<close>

fun lines_short :: "nat \<Rightarrow> string \<Rightarrow> bool" where
  "lines_short n [] \<longleftrightarrow> n \<le> kMaxCarryBytes"
| "lines_short n (c # cs) \<longleftrightarrow>
     n \<le> kMaxCarryBytes \<and> (if c = newline then lines_short 0 cs else lines_short (Suc n) cs)"

lemma lines_short_start: "lines_short n cs \<Longrightarrow> n \<le> kMaxCarryBytes"
  by (cases cs) simp_all

text \<open>A line ends the same way whether its bytes are in the carry or in the current segment.\<close>

lemma bytes_newline:
  "es_bytes t d seg f (newline # cs) =
     (let (d1, g) = es_OnLine (s_carry d @ seg) t d in es_bytes t (d1\<lparr>s_carry := []\<rparr>) [] (f \<or> g) cs)"
proof (cases "s_carry d = []")
  case True
  have "x\<lparr>s_carry := []\<rparr> = x" if "s_carry x = []" for x :: EglStormDetector
    using that by (cases x) simp
  then have "(fst (es_OnLine seg t d))\<lparr>s_carry := []\<rparr> = fst (es_OnLine seg t d)" by (simp add: True)
  note same = this
  from True show ?thesis by (simp add: split_beta Let_def same)
next
  case False
  then show ?thesis by (simp add: OnLine_carry split_beta Let_def)
qed

lemma bytes_seg_carry:
  assumes "lines_short (length (s_carry d) + length seg + length s) cs"
  shows "es_bytes t d (seg @ s) f cs = es_bytes t (d\<lparr>s_carry := s_carry d @ seg\<rparr>) s f cs"
  using assms
proof (induction cs arbitrary: s)
  case Nil
  then show ?case by (cases "seg = []"; cases "s = []") (simp_all add: OnLine_carry split_beta Let_def)
next
  case (Cons c cs)
  show ?case
  proof (cases "c = newline")
    case True
    show ?thesis unfolding True bytes_newline by (simp add: OnLine_carry split_beta Let_def)
  next
    case False
    with Cons.prems have "lines_short (length (s_carry d) + length seg + length (s @ [c])) cs" by simp
    from Cons.IH [OF this] False show ?thesis by simp
  qed
qed

lemma bytes_append:
  assumes "lines_short (length (s_carry d) + length seg) (a @ b)"
  shows "es_bytes t d seg f (a @ b) =
    (let (d1, f1) = es_bytes t d seg f a in es_bytes t d1 [] f1 b)"
  using assms
proof (induction a arbitrary: d seg f)
  case Nil
  then have "length (s_carry d) + length seg \<le> kMaxCarryBytes"
    by (simp add: lines_short_start)
  with Nil bytes_seg_carry [of d seg "[]" b t f] show ?case by (simp add: Let_def)
next
  case (Cons c a)
  show ?case
  proof (cases "c = newline")
    case True
    with Cons have "es_bytes t (d1\<lparr>s_carry := []\<rparr>) [] g (a @ b) =
        (let (d2, f1) = es_bytes t (d1\<lparr>s_carry := []\<rparr>) [] g a in es_bytes t d2 [] f1 b)" for d1 g
      by simp
    then show ?thesis unfolding True append_Cons bytes_newline by (simp add: split_beta Let_def)
  next
    case False
    with Cons.prems Cons.IH [of d "seg @ [c]" f] show ?thesis by simp
  qed
qed

lemma bytes_carry_length:
  assumes "lines_short (length (s_carry d) + length seg) (a @ b)"
  shows "lines_short (length (s_carry (fst (es_bytes t d seg f a)))) b"
  using assms
proof (induction a arbitrary: d seg f)
  case Nil
  then show ?case using lines_short_start [OF Nil] by (cases "seg = []") (simp_all add: Let_def)
next
  case (Cons c a)
  show ?case
  proof (cases "c = newline")
    case True
    with Cons show ?thesis unfolding True bytes_newline by (simp add: split_beta Let_def)
  next
    case False
    with Cons.prems Cons.IH [of d "seg @ [c]" f] show ?thesis by simp
  qed
qed

lemma bytes_fired:
  "es_bytes t d seg f a = (fst (es_bytes t d seg False a), f \<or> snd (es_bytes t d seg False a))"
proof (induction a arbitrary: d seg f)
  case Nil
  then show ?case by (simp add: Let_def split_beta)
next
  case (Cons c a)
  show ?case
  proof (cases "c = newline")
    case True
    let ?d = "(fst (es_OnLine (s_carry d @ seg) t d))\<lparr>s_carry := []\<rparr>"
    let ?g = "snd (es_OnLine (s_carry d @ seg) t d)"
    show ?thesis unfolding True bytes_newline
      using Cons.IH [of ?d "[]" "f \<or> ?g"] Cons.IH [of ?d "[]" "?g"] by (simp add: split_beta Let_def)
  next
    case False
    then show ?thesis using Cons.IH [of d "seg @ [c]" f] by simp
  qed
qed

text \<open>Several reads, one after the other, at one time.\<close>

fun es_feed :: "u64 \<Rightarrow> EglStormDetector \<Rightarrow> string list \<Rightarrow> EglStormDetector \<times> bool" where
  "es_feed t d [] = (d, False)"
| "es_feed t d (c # cs) =
     (let (d1, f) = es_OnBytes c t d; (d2, g) = es_feed t d1 cs in (d2, f \<or> g))"

text \<open>However the stream is cut into reads, the detector ends in the same state and fires on the
  same input: a partial line is carried over, as long as no line outgrows the carry buffer.\<close>

theorem reads_do_not_matter:
  assumes "lines_short (length (s_carry d)) (concat chunks)"
  shows "es_feed t d chunks = es_OnBytes (concat chunks) t d"
  using assms
proof (induction chunks arbitrary: d)
  case Nil
  then show ?case by (simp add: es_OnBytes_def)
next
  case (Cons c cs)
  let ?d = "fst (es_OnBytes c t d)"
  have short: "lines_short (length (s_carry d) + length ([] :: string)) (c @ concat cs)"
    using Cons.prems by simp
  from Cons.IH [of ?d] bytes_carry_length [OF short, of t False]
  have IH: "es_feed t ?d cs = es_OnBytes (concat cs) t ?d" by (simp add: es_OnBytes_def)
  have "es_OnBytes (c @ concat cs) t d =
      es_bytes t ?d [] (snd (es_OnBytes c t d)) (concat cs)"
    using bytes_append [OF short, of t False] by (simp add: es_OnBytes_def split_beta)
  then show ?case
    using IH bytes_fired [of t ?d "[]" "snd (es_OnBytes c t d)" "concat cs"]
    by (simp add: es_OnBytes_def split_beta)
qed

lemma reads_do_not_matter_witness:
  "es_feed 5 (es_init default_storm_config)
     [''EGL Error: Con'', ''text Lost'' @ [newline] @ ''E'', ''GL''] =
   es_OnBytes (''EGL Error: Context Lost'' @ [newline] @ ''EGL'') 5 (es_init default_storm_config)"
  using reads_do_not_matter [of "es_init default_storm_config"
      "[''EGL Error: Con'', ''text Lost'' @ [newline] @ ''E'', ''GL'']" 5]
  by (simp add: es_init_def kMaxCarryBytes_def newline_def)

section \<open>What a storm is backed by\<close>

text \<open>Lines fed one by one, with their times.\<close>

definition es_step :: "EglStormDetector \<Rightarrow> string \<times> u64 \<Rightarrow> EglStormDetector" where
  "es_step d e = fst (es_OnLine (fst e) (snd e) d)"

definition es_fires :: "EglStormDetector \<Rightarrow> string \<times> u64 \<Rightarrow> bool" where
  "es_fires d e = snd (es_OnLine (fst e) (snd e) d)"

text \<open>The matching lines of a history that lie in the window opened at \<open>t0\<close>.\<close>

definition matches_since :: "u64 \<Rightarrow> u64 \<Rightarrow> (string \<times> u64) list \<Rightarrow> nat" where
  "matches_since win t0 es = length (filter (\<lambda>(l, t). LineMatches l \<and> t - t0 \<le> win) es)"

text \<open>What the counter stands for: a matching line opened the window at its own time, and at least as
  many matching lines as counted have come inside that window since.\<close>

definition backed :: "(string \<times> u64) list \<Rightarrow> EglStormDetector \<Rightarrow> bool" where
  "backed es d \<longleftrightarrow>
     s_matches d = 0 \<or>
     (\<exists>es1 l0 es2. es = es1 @ (l0, s_window_start_ms d) # es2 \<and> LineMatches l0 \<and>
        unat (s_matches d) \<le> matches_since (window_ms (s_config d)) (s_window_start_ms d)
                               ((l0, s_window_start_ms d) # es2))"

lemma unat_inc_le: "unat (x + 1) \<le> Suc (unat x)" for x :: "'a::len word"
  by (simp add: unat_word_ariths)

lemma OnLine_cases:
  obtains (skip) "es_OnLine line t d = (d, False)"
  | (hit) d1 where "LineMatches line" "\<not> t < s_quiet_until_ms d"
      "d1 = (if s_matches d = 0 \<or> window_ms (s_config d) < t - s_window_start_ms d
             then d\<lparr>s_window_start_ms := t, s_matches := 1\<rparr> else d\<lparr>s_matches := s_matches d + 1\<rparr>)"
      "es_OnLine line t d =
         (if min_matches (s_config d) \<le> s_matches d1
          then (d1\<lparr>s_matches := 0, s_window_start_ms := 0,
                   s_quiet_until_ms := t + refire_cooldown_ms (s_config d)\<rparr>, True)
          else (d1, False))"
  by (cases "t < s_quiet_until_ms d \<or> \<not> LineMatches line") (auto simp: es_OnLine_def Let_def)

text \<open>The counter after a matching line, before the threshold is looked at, is backed by the history.\<close>

lemma hit_backed:
  assumes "backed es d" and "LineMatches line"
    and d1: "d1 = (if s_matches d = 0 \<or> window_ms (s_config d) < t - s_window_start_ms d
             then d\<lparr>s_window_start_ms := t, s_matches := 1\<rparr> else d\<lparr>s_matches := s_matches d + 1\<rparr>)"
  shows "\<exists>es1 l0 es2. es @ [(line, t)] = es1 @ (l0, s_window_start_ms d1) # es2 \<and> LineMatches l0 \<and>
      unat (s_matches d1) \<le> matches_since (window_ms (s_config d)) (s_window_start_ms d1)
                              ((l0, s_window_start_ms d1) # es2)"
proof (cases "s_matches d = 0 \<or> window_ms (s_config d) < t - s_window_start_ms d")
  case True
  then show ?thesis using assms
    by (intro exI [of _ es] exI [of _ line] exI [of _ "[]"]) (simp add: matches_since_def)
next
  case False
  with assms(1) obtain es1 l0 es2 where
    es: "es = es1 @ (l0, s_window_start_ms d) # es2" "LineMatches l0"
    and le: "unat (s_matches d) \<le> matches_since (window_ms (s_config d)) (s_window_start_ms d)
               ((l0, s_window_start_ms d) # es2)"
    by (auto simp: backed_def)
  from False have "matches_since (window_ms (s_config d)) (s_window_start_ms d)
      ((l0, s_window_start_ms d) # es2 @ [(line, t)]) =
    Suc (matches_since (window_ms (s_config d)) (s_window_start_ms d) ((l0, s_window_start_ms d) # es2))"
    using assms(2) by (simp add: matches_since_def not_less)
  with es le False d1 unat_inc_le [of "s_matches d"] show ?thesis
    by (intro exI [of _ es1] exI [of _ l0] exI [of _ "es2 @ [(line, t)]"]) simp
qed

lemma backed_more: "backed es d \<Longrightarrow> backed (es @ [e]) d"
  unfolding backed_def matches_since_def
  by (elim disjE exE conjE) (simp, rule disjI2, rule exI, rule exI, rule_tac x = "es2 @ [e]" in exI, auto)

lemma backed_step: "backed es d \<Longrightarrow> backed (es @ [e]) (es_step d e)"
proof -
  assume b: "backed es d"
  obtain line t where e: "e = (line, t)" by (cases e)
  show ?thesis
  proof (cases rule: OnLine_cases [of line t d])
    case skip
    with backed_more [OF b, of e] e show ?thesis by (simp add: es_step_def)
  next
    case (hit d1)
    have "s_config d1 = s_config d" using hit(3) by simp
    with hit_backed [OF b hit(1,3)] have "backed (es @ [e]) d1" by (simp add: backed_def e)
    moreover have "es_step d e = d1 \<or> s_matches (es_step d e) = 0"
      using hit(4) by (simp add: es_step_def e)
    ultimately show ?thesis by (auto simp: backed_def)
  qed
qed

lemma backed_run: "backed es (run es_step (es_init c) es)"
proof (induction es rule: rev_induct)
  case Nil
  then show ?case by (simp add: backed_def es_init_def)
next
  case (snoc e es)
  then show ?case by (simp add: backed_step)
qed

lemma es_config_step [simp]: "s_config (es_step d e) = s_config d"
  by (simp add: es_step_def es_OnLine_def Let_def)

lemma es_config_run [simp]: "s_config (run es_step d es) = s_config d"
  by (induction es arbitrary: d) simp_all

text \<open>A storm is never declared on a handful of lines: when the detector fires on a line, some
  matching line of the history opened a window, and from it on at least \<open>min_matches\<close> matching lines
  arrived inside that window, the last one included.\<close>

theorem storm_is_backed:
  assumes "es_fires (run es_step (es_init c) es) (line, t)"
  shows "\<exists>es1 l0 t0 es2. es @ [(line, t)] = es1 @ (l0, t0) # es2 \<and> LineMatches l0 \<and>
    unat (min_matches c) \<le> matches_since (window_ms c) t0 ((l0, t0) # es2)"
proof -
  define d where "d = run es_step (es_init c) es"
  have c: "s_config d = c" by (simp add: d_def) (simp add: es_init_def)
  have fires: "snd (es_OnLine line t d)" using assms by (simp add: es_fires_def d_def)
  show ?thesis
  proof (cases rule: OnLine_cases [of line t d])
    case skip
    with fires show ?thesis by simp
  next
    case (hit d1)
    with fires have "min_matches c \<le> s_matches d1" using c by (auto split: if_splits)
    then have "unat (min_matches c) \<le> unat (s_matches d1)" by (simp add: word_le_nat_alt)
    moreover have "backed es d" unfolding d_def by (rule backed_run)
    ultimately show ?thesis using hit_backed [OF _ hit(1,3)] c by (meson order_trans)
  qed
qed

definition lost_line :: string where
  "lost_line = ''EGL Error: Context Lost (12302)''"

lemma lost_line_matches: "LineMatches lost_line"
proof -
  have "lost_line = [] @ ''EGL Error: Context Lost'' @ '' (12302)''" by (simp add: lost_line_def)
  then have "sublist ''EGL Error: Context Lost'' lost_line" unfolding sublist_def by blast
  then show ?thesis by (simp add: LineMatches_def kNeedles_def Contains_sublist)
qed

lemma storm_is_backed_witness:
  "\<exists>es1 l0 t0 es2. [(lost_line, 10), (lost_line, 20)] = es1 @ (l0, t0) # es2 \<and> LineMatches l0 \<and>
    2 \<le> matches_since 5000 t0 ((l0, t0) # es2)"
proof -
  have "es_fires (run es_step (es_init (default_storm_config\<lparr>min_matches := 2\<rparr>)) [(lost_line, 10)]) (lost_line, 20)"
    by (simp add: es_fires_def es_step_def es_OnLine_def es_init_def default_storm_config_def
        lost_line_matches Let_def word_le_nat_alt)
  from storm_is_backed [OF this] show ?thesis by (simp add: default_storm_config_def)
qed

section \<open>The cooldown\<close>

lemma quiet_step: "snd e < s_quiet_until_ms d \<Longrightarrow> es_step d e = d \<and> \<not> es_fires d e"
  by (simp add: es_step_def es_fires_def es_OnLine_def)

lemma quiet_run: "list_all (\<lambda>e. snd e < s_quiet_until_ms d) es \<Longrightarrow>
    run es_step d es = d \<and> count_along es_step es_fires d es = 0"
  by (induction es) (simp_all add: quiet_step)

text \<open>After a storm the detector is silent for the cooldown and remembers nothing of the lines that
  arrive in it: whatever comes before the cooldown is over, it neither fires nor counts.\<close>

theorem quiet_for_the_cooldown:
  assumes "es_fires d (line, t)"
    and "list_all (\<lambda>e. snd e < t + refire_cooldown_ms (s_config d)) es"
  shows "run es_step (es_step d (line, t)) es = es_step d (line, t) \<and>
    count_along es_step es_fires (es_step d (line, t)) es = 0 \<and> s_matches (es_step d (line, t)) = 0"
proof -
  have "s_quiet_until_ms (es_step d (line, t)) = t + refire_cooldown_ms (s_config d) \<and>
      s_matches (es_step d (line, t)) = 0"
    using assms(1) by (auto simp: es_fires_def es_step_def es_OnLine_def Let_def split: if_splits)
  with assms(2) quiet_run [of "es_step d (line, t)" es] show ?thesis by simp
qed

lemma quiet_for_the_cooldown_witness:
  "count_along es_step es_fires (es_step (es_init (default_storm_config\<lparr>min_matches := 1\<rparr>)) (lost_line, 20))
     [(lost_line, 30), (lost_line, 10019)] = 0"
proof -
  let ?d = "es_init (default_storm_config\<lparr>min_matches := 1\<rparr>)"
  have "es_fires ?d (lost_line, 20)"
    by (simp add: es_fires_def es_OnLine_def es_init_def default_storm_config_def lost_line_matches Let_def)
  moreover have "list_all (\<lambda>e. snd e < 20 + refire_cooldown_ms (s_config ?d))
      [(lost_line, 30), (lost_line, 10019)]"
    by (simp add: es_init_def default_storm_config_def)
  ultimately show ?thesis using quiet_for_the_cooldown [of ?d lost_line 20] by blast
qed

section \<open>What the host is told\<close>

text \<open>Once fired within a read, the rest of the read finds the detector quiet and its counter at zero.\<close>

definition spent :: "u64 \<Rightarrow> bool \<Rightarrow> EglStormDetector \<Rightarrow> bool" where
  "spent t f d \<longleftrightarrow> t < t + refire_cooldown_ms (s_config d) \<and>
     (f \<longrightarrow> s_matches d = 0 \<and> t < s_quiet_until_ms d)"

lemma spent_OnLine: "spent t f d \<Longrightarrow> spent t (f \<or> snd (es_OnLine l t d)) (fst (es_OnLine l t d))"
  by (auto simp: spent_def es_OnLine_def Let_def)

lemma spent_carry [simp]: "spent t f (d\<lparr>s_carry := x\<rparr>) = spent t f d"
  by (simp add: spent_def)

lemma spent_bytes: "spent t f d \<Longrightarrow> spent t (snd (es_bytes t d seg f cs)) (fst (es_bytes t d seg f cs))"
proof (induction cs arbitrary: d seg f)
  case Nil
  then show ?case using spent_OnLine [of t f d] by (simp add: Let_def split_beta OnLine_carry)
next
  case (Cons c cs)
  show ?case
  proof (cases "c = newline")
    case True
    show ?thesis unfolding True bytes_newline
      using Cons.IH spent_OnLine [OF Cons.prems] by (simp add: split_beta Let_def)
  next
    case False
    with Cons show ?thesis by simp
  qed
qed

lemma bytes_config [simp]: "s_config (fst (es_bytes t d seg f cs)) = s_config d"
proof (induction cs arbitrary: d seg f)
  case Nil
  then show ?case by (simp add: es_OnLine_def Let_def split_beta)
next
  case (Cons c cs)
  have "s_config (fst (es_OnLine l t d)) = s_config d" for l d
    by (simp add: es_OnLine_def Let_def)
  with Cons show ?case
    by (cases "c = newline") (simp_all only: bytes_newline, simp_all add: split_beta Let_def)
qed

text \<open>A read that returned something, at a time the cooldown can be added to.\<close>

fun read_ok :: "u64 \<Rightarrow> (string \<times> u64) option \<Rightarrow> bool" where
  "read_ok cooldown None \<longleftrightarrow> True"
| "read_ok cooldown (Some (bytes, t)) \<longleftrightarrow> bytes \<noteq> [] \<and> t < t + cooldown"

text \<open>The match count the interposer posts to the window is always zero: \<open>OnLine\<close> resets the counter
  before it reports the crossing, and the callback reads it afterwards. Every byte read is forwarded
  to the original stderr.\<close>

theorem storm_callback_counts_zero:
  assumes "list_all (read_ok (refire_cooldown_ms (s_config d))) reads"
  shows "list_all (\<lambda>n. n = 0) (snd (snd (ReaderLoop b reads d))) \<and>
    (None \<notin> set reads \<longrightarrow>
       fst (snd (ReaderLoop True reads d)) = concat (map (fst \<circ> the) reads))"
  using assms
proof (induction reads arbitrary: d)
  case Nil
  then show ?case by simp
next
  case (Cons r reads)
  show ?case
  proof (cases r)
    case None
    then show ?thesis by simp
  next
    case (Some p)
    obtain bytes t where p: "p = (bytes, t)" by (cases p)
    let ?d = "fst (es_OnBytes bytes t d)"
    have c: "s_config ?d = s_config d" by (simp add: es_OnBytes_def)
    have "spent t False d" using Cons.prems Some p by (simp add: spent_def)
    from spent_bytes [OF this] have "snd (es_OnBytes bytes t d) \<Longrightarrow> s_matches ?d = 0"
      by (simp add: es_OnBytes_def spent_def)
    with Cons.IH [of ?d] Cons.prems c Some p show ?thesis by (simp add: split_beta Let_def)
  qed
qed

lemma storm_callback_counts_zero_witness:
  "list_all (\<lambda>n. n = 0) (snd (snd (ReaderLoop True
     [Some (lost_line @ [newline], 5), None] (es_init (default_storm_config\<lparr>min_matches := 1\<rparr>)))))"
  using storm_callback_counts_zero [of "es_init (default_storm_config\<lparr>min_matches := 1\<rparr>)"
      "[Some (lost_line @ [newline], 5), None]" True]
  by (simp add: es_init_def default_storm_config_def)

end
