(* ===== verification/Session_Policy.thy ===== *)
theory Session_Policy
  imports Text_Format
begin

text \<open>
  What a remote session change does to the renderer (\<open>session_rebuild_policy.h\<close>,
  \<open>session_rebuild_policy.cpp\<close>): a disconnect marks the context suspect, a connect opens a bounded
  probation, a frame ends it in the renderer's favour, its deadline or positive evidence asks for a
  rebuild. The lemmas show that a disconnect never rebuilds, when a connect does, that duplicates are
  silent, and that a probation ends in exactly one of its two ways.
\<close>

section \<open>Data\<close>

datatype AdapterCheck = kAdapterUnknown | kSame | kChanged

definition ClassifyAdapterCheck :: "bool \<Rightarrow> u64 \<Rightarrow> bool \<Rightarrow> u64 \<Rightarrow> AdapterCheck" where
  "ClassifyAdapterCheck engine_known engine_luid current_known current_luid =
     (if \<not> engine_known \<or> \<not> current_known then kAdapterUnknown
      else if engine_luid = current_luid then kSame else kChanged)"

fun DescribeAdapterCheck :: "AdapterCheck \<Rightarrow> string" where
  "DescribeAdapterCheck kAdapterUnknown =
     ''the render adapter could not be compared (the engine or DXGI '' @
     ''did not report one -- measured to happen in a third of '' @
     ''session-change windows, so this is not evidence)''"
| "DescribeAdapterCheck kSame = ''the engine still renders on the session's display adapter''"
| "DescribeAdapterCheck kChanged =
     ''the engine renders on an adapter that is NO LONGER the '' @ ''session's display adapter''"

record SessionConfig =
  reconnect_probation_ms :: u64
  storm_detector_available :: bool

definition default_session_config :: SessionConfig where
  "default_session_config = \<lparr> reconnect_probation_ms = 15000, storm_detector_available = True \<rparr>"

datatype SessionVerdict = kNone | kDeferred | kProbe | kKeptRenderer | kSessionRebuildNow

record SessionDecision =
  sd_verdict :: SessionVerdict
  sd_reason :: string
  sd_adapter :: AdapterCheck
  sd_waited_ms :: u64

definition no_session_decision :: SessionDecision where
  "no_session_decision =
     \<lparr> sd_verdict = kNone, sd_reason = [], sd_adapter = kAdapterUnknown, sd_waited_ms = 0 \<rparr>"

record SessionRebuildPolicy =
  p_config :: SessionConfig
  p_suspect :: bool
  p_probation :: bool
  p_probation_since_ms :: u64

definition sp_init :: "SessionConfig \<Rightarrow> SessionRebuildPolicy" where
  "sp_init config =
     \<lparr> p_config = config, p_suspect = False, p_probation = False, p_probation_since_ms = 0 \<rparr>"

section \<open>Operations\<close>

definition sp_set_storm_detector_available :: "bool \<Rightarrow> SessionRebuildPolicy \<Rightarrow> SessionRebuildPolicy" where
  "sp_set_storm_detector_available available p =
     p\<lparr>p_config := (p_config p)\<lparr>storm_detector_available := available\<rparr>\<rparr>"

definition sp_EngineCreated :: "u64 \<Rightarrow> SessionRebuildPolicy \<Rightarrow> SessionRebuildPolicy" where
  "sp_EngineCreated now_ms p = p\<lparr>p_suspect := False, p_probation := False, p_probation_since_ms := 0\<rparr>"

definition sp_OnRemoteDisconnect ::
  "u64 \<Rightarrow> SessionRebuildPolicy \<Rightarrow> SessionRebuildPolicy \<times> SessionDecision" where
  "sp_OnRemoteDisconnect now_ms p =
     (let was_probing = p_probation p;
          p1 = p\<lparr>p_probation := False, p_probation_since_ms := 0\<rparr>
      in if p_suspect p \<and> \<not> was_probing then (p1, no_session_decision)
         else (p1\<lparr>p_suspect := True\<rparr>, no_session_decision\<lparr>sd_verdict := kDeferred\<rparr>))"

definition sp_OnRemoteConnect ::
  "u64 \<Rightarrow> AdapterCheck \<Rightarrow> SessionRebuildPolicy \<Rightarrow> SessionRebuildPolicy \<times> SessionDecision" where
  "sp_OnRemoteConnect now_ms adapter p =
     (let d = no_session_decision\<lparr>sd_adapter := adapter\<rparr> in
      if adapter = kChanged then
        (p\<lparr>p_suspect := False, p_probation := False\<rparr>,
         d\<lparr>sd_verdict := kSessionRebuildNow,
           sd_reason := ''session change: remote connect (render adapter changed)''\<rparr>)
      else if \<not> storm_detector_available (p_config p) then
        (p\<lparr>p_suspect := False, p_probation := False\<rparr>,
         d\<lparr>sd_verdict := kSessionRebuildNow,
           sd_reason := ''session change: remote connect (no context-loss detector installed)''\<rparr>)
      else if p_probation p then (p, d)
      else
        (p\<lparr>p_probation := True, p_probation_since_ms := now_ms\<rparr>,
         d\<lparr>sd_verdict := kProbe, sd_waited_ms := reconnect_probation_ms (p_config p)\<rparr>))"

definition sp_OnFramePresented ::
  "u64 \<Rightarrow> SessionRebuildPolicy \<Rightarrow> SessionRebuildPolicy \<times> SessionDecision" where
  "sp_OnFramePresented now_ms p =
     (if \<not> p_probation p then (p, no_session_decision)
      else
        (p\<lparr>p_probation := False, p_probation_since_ms := 0, p_suspect := False\<rparr>,
         no_session_decision\<lparr>sd_verdict := kKeptRenderer,
           sd_waited_ms := elapsed_since now_ms (p_probation_since_ms p)\<rparr>))"

definition sp_OnTick :: "u64 \<Rightarrow> SessionRebuildPolicy \<Rightarrow> SessionRebuildPolicy \<times> SessionDecision" where
  "sp_OnTick now_ms p =
     (if \<not> p_probation p then (p, no_session_decision)
      else
        let waited = elapsed_since now_ms (p_probation_since_ms p) in
        if waited < reconnect_probation_ms (p_config p) then (p, no_session_decision)
        else
          (p\<lparr>p_probation := False, p_probation_since_ms := 0, p_suspect := False\<rparr>,
           no_session_decision\<lparr>sd_verdict := kSessionRebuildNow, sd_waited_ms := waited,
             sd_reason := ''session change: remote connect (no frame within '' @
               Seconds (reconnect_probation_ms (p_config p)) @ '' s)''\<rparr>))"

definition DescribeSessionRebuild :: "SessionDecision \<Rightarrow> string" where
  "DescribeSessionRebuild decision =
     (case sd_verdict decision of
        kNone \<Rightarrow> []
      | kDeferred \<Rightarrow>
          ''session change (remote disconnect) -- NOT rebuilding: nobody is '' @
          ''viewing this session and no frames are owed. The context is '' @
          ''marked suspect and the next remote connect decides. The '' @
          ''sentinel device and the stderr storm detector stay armed, so a '' @
          ''loss that is actually observed while disconnected is still '' @
          ''recovered -- and the operator's page and pending proposals now '' @
          ''survive that recovery.''
      | kProbe \<Rightarrow>
          ''session change (remote connect) -- PROBING before '' @ ''rebuilding: '' @
          DescribeAdapterCheck (sd_adapter decision) @
          ''. The renderer has '' @ Seconds (sd_waited_ms decision) @
          '' s to present a frame; the storm detector is watching for a '' @
          ''context the frame probe cannot see. Until the 2026-09-12 change '' @
          ''this connect rebuilt the engine unconditionally.''
      | kKeptRenderer \<Rightarrow>
          ''remote connect: the renderer presented a frame '' @ Seconds (sd_waited_ms decision) @
          '' s after the reconnect -- KEPT, no rebuild. The operator is '' @
          ''still on their page with their proposals.''
      | kSessionRebuildNow \<Rightarrow>
          ''session change -- REBUILDING: '' @
          (if sd_reason decision = [] then ''unspecified'' else sd_reason decision) @
          (if sd_adapter decision = kChanged
           then ''. '' @ DescribeAdapterCheck (sd_adapter decision) else []))"

section \<open>The policy as a machine\<close>

datatype SessionEvent =
    SpEngine u64
  | SpDisconnect u64
  | SpConnect u64 AdapterCheck
  | SpFrame u64
  | SpTick u64
  | SpDetector bool

fun sp_event :: "SessionRebuildPolicy \<Rightarrow> SessionEvent \<Rightarrow> SessionRebuildPolicy \<times> SessionDecision" where
  "sp_event p (SpEngine t) = (sp_EngineCreated t p, no_session_decision)"
| "sp_event p (SpDisconnect t) = sp_OnRemoteDisconnect t p"
| "sp_event p (SpConnect t a) = sp_OnRemoteConnect t a p"
| "sp_event p (SpFrame t) = sp_OnFramePresented t p"
| "sp_event p (SpTick t) = sp_OnTick t p"
| "sp_event p (SpDetector b) = (sp_set_storm_detector_available b p, no_session_decision)"

definition sp_step :: "SessionRebuildPolicy \<Rightarrow> SessionEvent \<Rightarrow> SessionRebuildPolicy" where
  "sp_step p e = fst (sp_event p e)"

definition sp_verdict :: "SessionRebuildPolicy \<Rightarrow> SessionEvent \<Rightarrow> SessionVerdict" where
  "sp_verdict p e = sd_verdict (snd (sp_event p e))"

lemmas sp_defs = sp_step_def sp_verdict_def sp_set_storm_detector_available_def sp_EngineCreated_def
  sp_OnRemoteDisconnect_def sp_OnRemoteConnect_def sp_OnFramePresented_def sp_OnTick_def
  no_session_decision_def Let_def

text \<open>Exactly these things make the policy ask for a rebuild: a connect on an adapter that positively
  changed, a connect with no context-loss detector installed, and a tick past the deadline of an open
  probation. In particular a disconnect never does, and neither does a frame.\<close>

theorem session_rebuild_iff:
  "sp_verdict p e = kSessionRebuildNow \<longleftrightarrow>
     (\<exists>t. e = SpConnect t kChanged) \<or>
     (\<exists>t a. e = SpConnect t a \<and> \<not> storm_detector_available (p_config p)) \<or>
     (\<exists>t. e = SpTick t \<and> p_probation p \<and>
        reconnect_probation_ms (p_config p) \<le> elapsed_since t (p_probation_since_ms p))"
  by (cases e) (auto simp: sp_defs not_less)

section \<open>Duplicates\<close>

text \<open>Windows sends several messages for one session change. After a disconnect, further disconnects
  say nothing and change nothing; after the connect that opened a probation, further connects on an
  adapter not known to have changed do neither.\<close>

theorem session_duplicates_silent:
  "(let p' = run sp_step (sp_step p (SpDisconnect t)) (map SpDisconnect ts)
    in p' = sp_step p (SpDisconnect t) \<and> sp_verdict p' (SpDisconnect t') = kNone) \<and>
   (sp_verdict p (SpConnect t a) = kProbe \<and> b \<noteq> kChanged \<longrightarrow>
      sp_step (sp_step p (SpConnect t a)) (SpConnect t' b) = sp_step p (SpConnect t a) \<and>
      sp_verdict (sp_step p (SpConnect t a)) (SpConnect t' b) = kNone)"
proof -
  have d: "sp_step (sp_step p (SpDisconnect t)) (SpDisconnect u) = sp_step p (SpDisconnect t)" for u
    by (cases p) (simp add: sp_defs)
  have "run sp_step (sp_step p (SpDisconnect t)) (map SpDisconnect ts) = sp_step p (SpDisconnect t)"
    by (induction ts) (simp_all add: d)
  moreover have "sp_verdict (sp_step p (SpDisconnect t)) (SpDisconnect t') = kNone"
    by (simp add: sp_defs)
  ultimately show ?thesis by (auto simp: sp_defs split: if_splits)
qed

lemma session_duplicates_silent_witness:
  "sp_verdict (sp_step (sp_init default_session_config) (SpConnect 10 kSame)) (SpConnect 11 kSame) = kNone"
proof -
  have "sp_verdict (sp_init default_session_config) (SpConnect 10 kSame) = kProbe"
    by (simp add: sp_defs sp_init_def default_session_config_def)
  with session_duplicates_silent [of "sp_init default_session_config" 10 "[]" 11 kSame kSame]
  show ?thesis by simp
qed

section \<open>The probation\<close>

text \<open>Events that leave an open probation running: ticks before its deadline, duplicate connects.\<close>

definition keeps_probation :: "SessionRebuildPolicy \<Rightarrow> u64 \<Rightarrow> SessionEvent \<Rightarrow> bool" where
  "keeps_probation p t0 e \<longleftrightarrow>
     (case e of
        SpTick t \<Rightarrow> elapsed_since t t0 < reconnect_probation_ms (p_config p)
      | SpConnect t a \<Rightarrow> a \<noteq> kChanged
      | _ \<Rightarrow> False)"

lemma probation_step:
  assumes "p_probation p" and "storm_detector_available (p_config p)"
    and "keeps_probation p (p_probation_since_ms p) e"
  shows "sp_step p e = p \<and> sp_verdict p e = kNone"
  using assms by (cases e) (auto simp: sp_defs keeps_probation_def)

lemma probation_run:
  assumes "p_probation p" and "storm_detector_available (p_config p)"
    and "list_all (keeps_probation p (p_probation_since_ms p)) es"
  shows "run sp_step p es = p \<and> count_along sp_step (\<lambda>p e. sp_verdict p e \<noteq> kNone) p es = 0"
  using assms(3)
proof (induction es)
  case (Cons e es)
  then show ?case using probation_step [OF assms(1,2), of e] by simp
qed simp

text \<open>A probation ends in exactly one of two ways. Opened at \<open>t0\<close>, it is left alone by ticks before the
  deadline and by duplicate connects; then the first frame keeps the renderer, and the first tick at
  or past the deadline rebuilds it, and after either no tick can rebuild for it again.\<close>

theorem probation_outcome:
  assumes "sp_verdict p (SpConnect t0 a) = kProbe" and "p1 = sp_step p (SpConnect t0 a)"
    and "list_all (keeps_probation p t0) es" and "p2 = run sp_step p1 es"
    and "reconnect_probation_ms (p_config p) \<le> elapsed_since t t0"
  shows "count_along sp_step (\<lambda>p e. sp_verdict p e \<noteq> kNone) p1 es = 0 \<and>
    sp_verdict p2 (SpFrame f) = kKeptRenderer \<and> sp_verdict (sp_step p2 (SpFrame f)) (SpTick u) = kNone \<and>
    sp_verdict p2 (SpTick t) = kSessionRebuildNow \<and> sp_verdict (sp_step p2 (SpTick t)) (SpTick u) = kNone"
proof -
  have p1: "p_probation p1" "p_probation_since_ms p1 = t0" "p_config p1 = p_config p"
    "storm_detector_available (p_config p1)"
    using assms(1,2) by (auto simp: sp_defs split: if_splits)
  then have "keeps_probation p1 = keeps_probation p" by (intro ext) (simp only: keeps_probation_def)
  with probation_run [OF p1(1,4), of es] p1(2) assms(3,4)
  have "p2 = p1" "count_along sp_step (\<lambda>p e. sp_verdict p e \<noteq> kNone) p1 es = 0" by simp_all
  with p1 assms(5) show ?thesis by (simp add: sp_defs not_less [symmetric])
qed

lemma probation_outcome_witness:
  "sp_verdict (run sp_step (sp_step (sp_init default_session_config) (SpConnect 100 kSame))
     [SpTick 5000, SpConnect 5001 kSame]) (SpTick 15100) = kSessionRebuildNow"
proof -
  have "sp_verdict (sp_init default_session_config) (SpConnect 100 kSame) = kProbe"
    and "list_all (keeps_probation (sp_init default_session_config) 100) [SpTick 5000, SpConnect 5001 kSame]"
    and "reconnect_probation_ms (p_config (sp_init default_session_config)) \<le> elapsed_since 15100 100"
    by (simp_all add: sp_defs sp_init_def default_session_config_def keeps_probation_def elapsed_since_def)
  from probation_outcome [OF this(1) refl this(2) refl this(3)] show ?thesis by blast
qed

end
