(* ===== verification/Log_Throttle.thy ===== *)
theory Log_Throttle
  imports Text_Format
begin

text \<open>
  The throttle that keeps a repeating event from flooding the log (\<open>log_throttle.h\<close>,
  \<open>log_throttle.cpp\<close>). \<open>int\<close> settings are integers, counters and times 64-bit words. The lemmas show
  that no occurrence is lost from the accounting, that the burst is printed in full, and how many lines
  a history can print at most.
\<close>

section \<open>Data and operations\<close>

record ThrottleConfig =
  burst :: int
  every_nth :: int
  summary_interval_ms :: u64

record LogThrottle =
  t_config :: ThrottleConfig
  t_total :: u64
  t_suppressed :: u64
  t_last_emit_ms :: u64
  t_ever_emitted :: bool

record ThrottleDecision =
  td_emit :: bool
  td_suppressed :: u64
  td_total :: u64

definition default_throttle_config :: ThrottleConfig where
  "default_throttle_config = \<lparr> burst = 5, every_nth = 100, summary_interval_ms = 60000 \<rparr>"

text \<open>The constructor repairs settings that would divide by zero.\<close>

definition lt_init :: "ThrottleConfig \<Rightarrow> LogThrottle" where
  "lt_init config =
     (let c1 = (if every_nth config < 1 then config\<lparr>every_nth := 1\<rparr> else config);
          c2 = (if burst c1 < 0 then c1\<lparr>burst := 0\<rparr> else c1)
      in \<lparr> t_config = c2, t_total = 0, t_suppressed = 0, t_last_emit_ms = 0, t_ever_emitted = False \<rparr>)"

definition lt_Record :: "u64 \<Rightarrow> LogThrottle \<Rightarrow> LogThrottle \<times> ThrottleDecision" where
  "lt_Record now_ms s0 =
     (let s = s0\<lparr>t_total := t_total s0 + 1\<rparr>;
          c = t_config s;
          in_burst = (t_total s \<le> word_of_int (burst c));
          since_burst = (if in_burst then 0 else t_total s - word_of_int (burst c));
          sampled = (\<not> in_burst \<and> since_burst mod word_of_int (every_nth c) = 0);
          interval_elapsed =
            (summary_interval_ms c = 0 \<or> \<not> t_ever_emitted s \<or>
             t_last_emit_ms s + summary_interval_ms c \<le> now_ms)
      in if in_burst \<or> (sampled \<and> interval_elapsed) then
           (s\<lparr>t_suppressed := 0, t_last_emit_ms := now_ms, t_ever_emitted := True\<rparr>,
            \<lparr> td_emit = True, td_suppressed = t_suppressed s, td_total = t_total s \<rparr>)
         else
           (s\<lparr>t_suppressed := t_suppressed s + 1\<rparr>,
            \<lparr> td_emit = False, td_suppressed = 0, td_total = t_total s \<rparr>))"

definition lt_Reset :: "LogThrottle \<Rightarrow> LogThrottle" where
  "lt_Reset s = s\<lparr>t_total := 0, t_suppressed := 0, t_last_emit_ms := 0, t_ever_emitted := False\<rparr>"

definition DescribeSuppression :: "ThrottleDecision \<Rightarrow> string" where
  "DescribeSuppression decision =
     (if td_suppressed decision = 0 then []
      else '' (+'' @ show_u64 (td_suppressed decision) @ '' suppressed, '' @
           show_u64 (td_total decision) @ '' total)'')"

section \<open>One episode: occurrences recorded one after the other\<close>

definition lt_step :: "LogThrottle \<Rightarrow> u64 \<Rightarrow> LogThrottle" where
  "lt_step s t = fst (lt_Record t s)"

definition lt_decision :: "LogThrottle \<Rightarrow> u64 \<Rightarrow> ThrottleDecision" where
  "lt_decision s t = snd (lt_Record t s)"

lemma lt_config_step [simp]: "t_config (lt_step s t) = t_config s"
  by (simp add: lt_step_def lt_Record_def Let_def)

lemma lt_total_step [simp]: "t_total (lt_step s t) = t_total s + 1"
  by (simp add: lt_step_def lt_Record_def Let_def)

lemma lt_config_run [simp]: "t_config (run lt_step s ts) = t_config s"
  by (induction ts arbitrary: s) simp_all

lemma lt_total_run: "t_total (run lt_step s ts) = t_total s + of_nat (length ts)"
  by (induction ts arbitrary: s) (simp_all add: add.assoc)

text \<open>What a printed line accounts for: itself and what it says was suppressed before it.\<close>

definition accounted :: "LogThrottle \<Rightarrow> u64 \<Rightarrow> nat" where
  "accounted s t = (if td_emit (lt_decision s t) then Suc (unat (td_suppressed (lt_decision s t))) else 0)"

lemma accounted_step:
  "t_suppressed s + 1 = of_nat (accounted s t) + t_suppressed (lt_step s t)"
  by (simp add: accounted_def lt_decision_def lt_step_def lt_Record_def Let_def)

lemma accounted_run:
  "t_suppressed s + of_nat (length ts) =
     of_nat (sum_along lt_step accounted s ts) + t_suppressed (run lt_step s ts)"
proof (induction ts arbitrary: s)
  case Nil
  then show ?case by simp
next
  case (Cons t ts)
  have "t_suppressed s + of_nat (length (t # ts)) = (t_suppressed s + 1) + of_nat (length ts)" by simp
  also have "\<dots> = of_nat (accounted s t) + (t_suppressed (lt_step s t) + of_nat (length ts))"
    by (simp add: accounted_step [of s t])
  also have "\<dots> = of_nat (accounted s t) + (of_nat (sum_along lt_step accounted (lt_step s t) ts) +
      t_suppressed (run lt_step (lt_step s t) ts))" by (simp only: Cons.IH)
  finally show ?case by simp
qed

text \<open>Nothing is lost from the accounting: in an episode every occurrence is counted by exactly one
  printed line (as itself or as one of the suppressed ones the line admits to) or is still pending.\<close>

theorem every_occurrence_accounted:
  "of_nat (length ts) =
     (of_nat (sum_along lt_step accounted (lt_Reset s) ts) :: u64) + t_suppressed (run lt_step (lt_Reset s) ts) \<and>
   t_total (run lt_step (lt_Reset s) ts) = of_nat (length ts)"
  using accounted_run [of "lt_Reset s" ts] lt_total_run [of "lt_Reset s" ts] by (simp add: lt_Reset_def)

section \<open>How loud an episode can be\<close>

text \<open>Settings as the constructor leaves them.\<close>

definition sane_config :: "ThrottleConfig \<Rightarrow> bool" where
  "sane_config c \<longleftrightarrow> 0 \<le> burst c \<and> burst c < 2 ^ 31 \<and> 0 < every_nth c \<and> every_nth c < 2 ^ 31"

lemma sane_init: "burst c < 2 ^ 31 \<Longrightarrow> every_nth c < 2 ^ 31 \<Longrightarrow> sane_config (t_config (lt_init c))"
  by (simp add: lt_init_def sane_config_def Let_def)

lemma unat_setting: "0 \<le> v \<Longrightarrow> v < 2 ^ 31 \<Longrightarrow> unat (word_of_int v :: u64) = nat v"
  by (simp add: unsigned_of_int take_bit_int_eq_self)

text \<open>The decision in terms of the occurrence's number within the episode.\<close>

lemma emit_number:
  assumes "sane_config (t_config s)" and "t_total s = of_nat n" and "Suc n < 2 ^ 64"
  shows "(Suc n \<le> nat (burst (t_config s)) \<longrightarrow> td_emit (lt_decision s t)) \<and>
    (td_emit (lt_decision s t) \<longrightarrow>
       Suc n \<le> nat (burst (t_config s)) \<or> nat (every_nth (t_config s)) dvd Suc n - nat (burst (t_config s)))"
proof -
  let ?b = "word_of_int (burst (t_config s)) :: u64" and ?e = "word_of_int (every_nth (t_config s)) :: u64"
  have ub: "unat ?b = nat (burst (t_config s))" and ue: "unat ?e = nat (every_nth (t_config s))"
    using assms(1) by (simp_all add: unat_setting sane_config_def)
  have un: "unat (t_total s + 1) = Suc n"
  proof -
    have "t_total s + 1 = of_nat (Suc n)" using assms(2) by simp
    then show ?thesis using assms(3) by (simp only: unat_of_nat) simp
  qed
  have le: "t_total s + 1 \<le> ?b \<longleftrightarrow> Suc n \<le> nat (burst (t_config s))"
    by (simp only: word_le_nat_alt un ub)
  have "nat (every_nth (t_config s)) dvd Suc n - nat (burst (t_config s))"
    if "(t_total s + 1 - ?b) mod ?e = 0" and "\<not> Suc n \<le> nat (burst (t_config s))"
  proof -
    have "?b \<le> t_total s + 1" using that(2) le by (simp add: not_le)
    then have "unat (t_total s + 1 - ?b) = Suc n - nat (burst (t_config s))"
      using un ub unat_minus_le [of ?b "t_total s + 1"] by simp
    moreover have "unat ((t_total s + 1 - ?b) mod ?e) = 0" using that(1) by simp
    ultimately show ?thesis by (simp add: unat_mod ue dvd_eq_mod_eq_0)
  qed
  then show ?thesis using le by (auto simp: lt_decision_def lt_Record_def Let_def)
qed

fun emitted_upto :: "nat \<Rightarrow> nat \<Rightarrow> nat \<Rightarrow> nat" where
  "emitted_upto b e n = min n b + (n - b) div e"

lemma emitted_upto_mono:
  assumes "0 < e" and "Suc n \<le> b \<or> e dvd Suc n - b"
  shows "Suc (emitted_upto b e n) \<le> emitted_upto b e (Suc n)"
proof (cases "Suc n \<le> b")
  case True
  then show ?thesis by simp
next
  case False
  with assms obtain k where k: "Suc n - b = e * k" by (auto simp: dvd_def)
  with False have "0 < k" by (cases k) auto
  then obtain j where j: "k = Suc j" by (cases k) auto
  from False k j have "n - b = e * j + (e - 1)" using assms(1) by (simp add: algebra_simps)
  with assms(1) have "(n - b) div e = j" by (simp only: div_mult_self4) simp
  moreover have "(Suc n - b) div e = Suc j" using k j assms(1) by simp
  ultimately show ?thesis using False by simp
qed

lemma emitted_upto_le: "emitted_upto b e n \<le> emitted_upto b e (Suc n)"
  by (simp add: add_mono div_le_mono)

lemma emit_count:
  assumes "sane_config (t_config s)" and "t_total s = of_nat n" and "n + length ts < 2 ^ 64"
  shows "emitted_upto (nat (burst (t_config s))) (nat (every_nth (t_config s))) n +
      count_along lt_step (\<lambda>s t. td_emit (lt_decision s t)) s ts
    \<le> emitted_upto (nat (burst (t_config s))) (nat (every_nth (t_config s))) (n + length ts)"
  using assms
proof (induction ts arbitrary: s n)
  case Nil
  then show ?case by simp
next
  case (Cons t ts)
  let ?b = "nat (burst (t_config s))" and ?e = "nat (every_nth (t_config s))"
  have "t_total (lt_step s t) = of_nat (Suc n)" using Cons.prems(2) by simp
  with Cons.IH [of "lt_step s t" "Suc n"] Cons.prems have IH:
    "emitted_upto ?b ?e (Suc n) + count_along lt_step (\<lambda>s t. td_emit (lt_decision s t)) (lt_step s t) ts
      \<le> emitted_upto ?b ?e (Suc n + length ts)" by simp
  have "0 < ?e" using Cons.prems(1) by (simp add: sane_config_def)
  then have "(if td_emit (lt_decision s t) then 1 else 0) + emitted_upto ?b ?e n \<le> emitted_upto ?b ?e (Suc n)"
    using emit_number [OF Cons.prems(1,2), of t] Cons.prems(3) emitted_upto_mono [of ?e n ?b]
      emitted_upto_le [of ?b ?e n] by (auto simp del: emitted_upto.simps)
  with IH show ?case by (simp del: emitted_upto.simps)
qed

text \<open>An episode of \<open>n\<close> occurrences, whatever their times, prints at most the burst and one line in
  every \<open>every_nth\<close> after it.\<close>

theorem episode_line_bound:
  assumes "burst c < 2 ^ 31" and "every_nth c < 2 ^ 31" and "length ts < 2 ^ 64"
  shows "count_along lt_step (\<lambda>s t. td_emit (lt_decision s t)) (lt_init c) ts
    \<le> min (length ts) (nat (burst c)) + (length ts - nat (burst c)) div nat (max 1 (every_nth c))"
proof -
  have c: "nat (burst (t_config (lt_init c))) = nat (burst c)"
    "nat (every_nth (t_config (lt_init c))) = nat (max 1 (every_nth c))"
    by (auto simp: lt_init_def Let_def max_def)
  have "t_total (lt_init c) = of_nat 0" by (simp add: lt_init_def Let_def)
  from emit_count [OF sane_init [OF assms(1,2)] this, of ts] assms(3) show ?thesis
    unfolding c by simp
qed

lemma episode_line_bound_witness:
  "count_along lt_step (\<lambda>s t. td_emit (lt_decision s t)) (lt_init default_throttle_config)
     (replicate 205 7) \<le> 7"
  using episode_line_bound [of default_throttle_config "replicate 205 7"]
  by (simp add: default_throttle_config_def)

text \<open>The start of an episode is printed in full: as long as the burst lasts, every occurrence is
  emitted.\<close>

theorem burst_printed_in_full:
  assumes "sane_config (t_config s)" and "length ts < nat (burst (t_config s))"
  shows "td_emit (lt_decision (run lt_step (lt_Reset s) ts) t)"
proof -
  have "t_total (run lt_step (lt_Reset s) ts) = of_nat (length ts)"
    by (simp add: lt_total_run) (simp add: lt_Reset_def)
  moreover have "t_config (run lt_step (lt_Reset s) ts) = t_config s" by simp (simp add: lt_Reset_def)
  moreover have "Suc (length ts) < 2 ^ 64"
  proof -
    have "nat (burst (t_config s)) < 2 ^ 31" using assms(1) by (simp add: sane_config_def nat_less_iff)
    with assms(2) show ?thesis by simp
  qed
  ultimately show ?thesis using emit_number [of "run lt_step (lt_Reset s) ts" "length ts" t] assms by simp
qed

lemma burst_printed_in_full_witness:
  "td_emit (lt_decision (run lt_step (lt_Reset (lt_init default_throttle_config)) [1, 1, 1, 2]) 2)"
  by (rule burst_printed_in_full) (simp_all add: lt_init_def default_throttle_config_def sane_config_def Let_def)

text \<open>After the burst, a line is printed no sooner than the summary interval after the one before it.\<close>

theorem lines_spaced_after_burst:
  assumes "td_emit (lt_decision s t)" and "t_ever_emitted s" and "summary_interval_ms (t_config s) \<noteq> 0"
    and "word_of_int (burst (t_config s)) < t_total s + 1"
  shows "t_last_emit_ms s + summary_interval_ms (t_config s) \<le> t \<and>
    (t_total s + 1 - word_of_int (burst (t_config s))) mod word_of_int (every_nth (t_config s)) = 0"
  using assms by (auto simp: lt_decision_def lt_Record_def Let_def split: if_splits)

lemma lines_spaced_after_burst_witness:
  "let s = \<lparr> t_config = \<lparr> burst = 1, every_nth = 2, summary_interval_ms = 100 \<rparr>, t_total = 2,
       t_suppressed = 1, t_last_emit_ms = 10, t_ever_emitted = True \<rparr>
   in t_last_emit_ms s + summary_interval_ms (t_config s) \<le> 200"
proof -
  let ?s = "\<lparr> t_config = \<lparr> burst = 1, every_nth = 2, summary_interval_ms = 100 \<rparr>, t_total = 2,
       t_suppressed = 1, t_last_emit_ms = 10, t_ever_emitted = True \<rparr>"
  have "td_emit (lt_decision ?s 200)"
    by (simp add: lt_decision_def lt_Record_def Let_def word_le_nat_alt)
  from lines_spaced_after_burst [OF this] show ?thesis by (simp add: Let_def)
qed

end
