(* ===== verification/Log_Files.thy ===== *)
theory Log_Files
  imports Text_Format
begin

text \<open>
  The log files: path helpers (\<open>path_utils.cpp\<close>), the rotation plan (\<open>log_rotation.h\<close>,
  \<open>log_rotation.cpp\<close>) and its execution (\<open>RotateLogs\<close> in \<open>utils.cpp\<close>), the default path, and the
  runner's own sidecar log (\<open>runner_log.cpp\<close>). The file system is a map from path to contents: a
  path names its file, and the Win32 calls act on the map (\<open>DeleteFileW\<close> and \<open>MoveFileExW\<close> of a missing
  file fail and change nothing, a move replaces its destination, \<open>FILE_APPEND_DATA\<close> writes at the end).
  The UTF-16 round trip of a path is taken as the identity. The lemmas show that the generation paths
  are distinct, that a rotation moves every generation up by one and touches nothing else, and that
  the sidecar is append-only.
\<close>

section \<open>Paths\<close>

definition is_slash :: "char \<Rightarrow> bool" where
  "is_slash c \<longleftrightarrow> c = CHR ''/'' \<or> c = backslash"

text \<open>\<open>find_last_of\<close>: the offset of the last character with the property, \<open>None\<close> for \<open>npos\<close>.\<close>

fun find_last :: "(char \<Rightarrow> bool) \<Rightarrow> string \<Rightarrow> nat option" where
  "find_last p [] = None"
| "find_last p (c # cs) =
     (case find_last p cs of Some i \<Rightarrow> Some (Suc i) | None \<Rightarrow> if p c then Some 0 else None)"

definition DirectoryOf :: "string \<Rightarrow> string" where
  "DirectoryOf path = (case find_last is_slash path of None \<Rightarrow> [] | Some slash \<Rightarrow> take slash path)"

definition Utf8LengthWithoutNul :: "int \<Rightarrow> nat" where
  "Utf8LengthWithoutNul wide_to_utf8_result =
     (if wide_to_utf8_result \<le> 1 then 0 else nat wide_to_utf8_result - 1)"

definition ExtensionDot :: "string \<Rightarrow> nat option" where
  "ExtensionDot path =
     (let slash = find_last is_slash path; dot = find_last (\<lambda>c. c = CHR ''.'') path
      in case dot of
           None \<Rightarrow> None
         | Some d \<Rightarrow> (case slash of
               None \<Rightarrow> Some d
             | Some s \<Rightarrow> if d < s then None else Some d))"

definition GenerationPath :: "string \<Rightarrow> int \<Rightarrow> string" where
  "GenerationPath base generation =
     (if generation \<le> 0 then base
      else
        let suffix = ''.'' @ show_int generation
        in case ExtensionDot base of
             None \<Rightarrow> base @ suffix
           | Some dot \<Rightarrow> take dot base @ suffix @ drop dot base)"

section \<open>Rotation\<close>

record LogRotationPlan =
  deletes :: "string list"
  renames :: "(string \<times> string) list"

definition PlanRotation :: "string \<Rightarrow> int \<Rightarrow> LogRotationPlan" where
  "PlanRotation base max_archives =
     (if max_archives \<le> 0 then \<lparr> deletes = [base], renames = [] \<rparr>
      else \<lparr> deletes = [GenerationPath base max_archives],
             renames = map (\<lambda>generation. (GenerationPath base generation, GenerationPath base (generation + 1)))
                         (rev (map int [0..<nat max_archives])) \<rparr>)"

type_synonym files = "string \<Rightarrow> string option"

definition DeleteFileW :: "string \<Rightarrow> files \<Rightarrow> files" where
  "DeleteFileW path fs = fs(path := None)"

definition MoveFileExW :: "string \<times> string \<Rightarrow> files \<Rightarrow> files" where
  "MoveFileExW r fs =
     (case fs (fst r) of
        None \<Rightarrow> fs
      | Some contents \<Rightarrow> fs(fst r := None, snd r := Some contents))"

definition RotateLogs :: "string \<Rightarrow> int \<Rightarrow> files \<Rightarrow> files" where
  "RotateLogs path max_archives fs =
     (if path = [] then fs
      else
        let plan = PlanRotation path max_archives
        in fold MoveFileExW (renames plan) (fold DeleteFileW (deletes plan) fs))"

section \<open>The default log path\<close>

text \<open>
  \<open>LOCALAPPDATA\<close> is an argument, and so is what the file system answers for the directory's
  attributes. The directories created on the way are part of the result.
\<close>

definition DefaultLogPath :: "string option \<Rightarrow> (string \<Rightarrow> bool) \<Rightarrow> string \<times> string list" where
  "DefaultLogPath local_app_data is_directory =
     (case local_app_data of
        None \<Rightarrow> ([], [])
      | Some root \<Rightarrow>
          let dir1 = root @ [backslash] @ ''centroid-hmi'';
              dir2 = dir1 @ [backslash] @ ''logs''
          in if \<not> is_directory dir2 then ([], [dir1, dir2])
             else (dir2 @ [backslash] @ ''hmi.log'', [dir1, dir2]))"

section \<open>The runner's own log\<close>

record SYSTEMTIME =
  wYear :: nat
  wMonth :: nat
  wDay :: nat
  wHour :: nat
  wMinute :: nat
  wSecond :: nat
  wMilliseconds :: nat

definition Timestamp :: "SYSTEMTIME \<Rightarrow> string" where
  "Timestamp now =
     snprintf_buf 32
       (pad_zero 4 (show_nat (wYear now)) @ ''-'' @ pad_zero 2 (show_nat (wMonth now)) @ ''-'' @
        pad_zero 2 (show_nat (wDay now)) @ '' '' @ pad_zero 2 (show_nat (wHour now)) @ '':'' @
        pad_zero 2 (show_nat (wMinute now)) @ '':'' @ pad_zero 2 (show_nat (wSecond now)) @ ''.'' @
        pad_zero 3 (show_nat (wMilliseconds now)))"

definition kMaxSidecarBytes :: nat where "kMaxSidecarBytes = 8 * 1024 * 1024"

definition SidecarPathFor :: "string \<Rightarrow> string" where
  "SidecarPathFor log_path =
     (case find_last is_slash log_path of
        None \<Rightarrow> ''hmi-runner.log''
      | Some slash \<Rightarrow> take (Suc slash) log_path @ ''hmi-runner.log'')"

text \<open>\<open>LogHandle\<close> and \<open>LogPathStorage\<close>, the file system and what went to stderr.\<close>

record RunnerLog =
  rl_handle :: bool
  rl_path :: string
  rl_files :: files
  rl_stderr :: string

definition WriteToFileLocked :: "string \<Rightarrow> RunnerLog \<Rightarrow> RunnerLog" where
  "WriteToFileLocked bytes r =
     (if \<not> rl_handle r then r
      else r\<lparr>rl_files := (rl_files r)(rl_path r :=
               Some ((case rl_files r (rl_path r) of None \<Rightarrow> [] | Some old \<Rightarrow> old) @ bytes))\<rparr>)"

text \<open>\<open>can_open\<close>: whether \<open>CreateFileW\<close> gives a handle for the sidecar.\<close>

definition InitRunnerLog :: "string \<Rightarrow> SYSTEMTIME \<Rightarrow> bool \<Rightarrow> RunnerLog \<Rightarrow> RunnerLog" where
  "InitRunnerLog log_path now can_open r =
     (if rl_handle r \<or> log_path = [] then r
      else
        let sidecar = SidecarPathFor log_path;
            fs1 = (case rl_files r sidecar of
                     None \<Rightarrow> rl_files r
                   | Some contents \<Rightarrow>
                       if kMaxSidecarBytes < length contents
                       then MoveFileExW (sidecar, sidecar @ ''.prev'') (rl_files r) else rl_files r)
        in if \<not> can_open then r\<lparr>rl_files := fs1\<rparr>
           else
             let fs2 = (case fs1 sidecar of None \<Rightarrow> fs1(sidecar := Some []) | Some _ \<Rightarrow> fs1)
             in WriteToFileLocked
                  ([newline] @ Timestamp now @
                   '' [startup] ---- runner started; this file is written ONLY by the '' @
                   ''runner, so nothing else can overwrite it ----'' @ [newline])
                  (r\<lparr>rl_handle := True, rl_path := sidecar, rl_files := fs2\<rparr>))"

definition RunnerLogBlock :: "string \<Rightarrow> RunnerLog \<Rightarrow> RunnerLog" where
  "RunnerLogBlock block r = WriteToFileLocked block (r\<lparr>rl_stderr := rl_stderr r @ block\<rparr>)"

definition runner_line :: "SYSTEMTIME \<Rightarrow> string \<Rightarrow> string \<Rightarrow> string" where
  "runner_line now tag message = Timestamp now @ '' '' @ tag @ '' '' @ message @ [newline]"

definition RunnerLogLine :: "SYSTEMTIME \<Rightarrow> string \<Rightarrow> string \<Rightarrow> RunnerLog \<Rightarrow> RunnerLog" where
  "RunnerLogLine now tag message r =
     (let line = runner_line now tag message
      in WriteToFileLocked line (r\<lparr>rl_stderr := rl_stderr r @ line\<rparr>))"

section \<open>Generation paths\<close>

lemma show_int_pos: "0 < g \<Longrightarrow> show_int g = show_nat (nat g)"
  by (simp add: show_int_def)

lemma GenerationPath_pos:
  "0 < g \<Longrightarrow> GenerationPath base g =
     (case ExtensionDot base of None \<Rightarrow> base @ ''.'' @ show_nat (nat g)
      | Some d \<Rightarrow> take d base @ (''.'' @ show_nat (nat g)) @ drop d base)"
  by (simp add: GenerationPath_def show_int_pos Let_def split: option.split)

lemma length_GenerationPath_pos: "0 < g \<Longrightarrow> length base < length (GenerationPath base g)"
  by (cases "ExtensionDot base") (simp_all add: GenerationPath_pos)

lemma GenerationPath_inj:
  assumes "0 \<le> g" and "0 \<le> h" and "GenerationPath base g = GenerationPath base h"
  shows "g = h"
proof (cases "g = 0 \<or> h = 0")
  case True
  have "GenerationPath base 0 = base" by (simp add: GenerationPath_def)
  with True assms length_GenerationPath_pos [of g base] length_GenerationPath_pos [of h base]
  show ?thesis by (cases "g = 0"; cases "h = 0") auto
next
  case False
  with assms have "0 < g" "0 < h" by auto
  with assms(3) have "nat g = nat h" by (auto simp: GenerationPath_pos split: option.splits)
  with \<open>0 < g\<close> \<open>0 < h\<close> show ?thesis by simp
qed

section \<open>Rotation shifts the generations\<close>

text \<open>Generation \<open>g\<close> as a function of a natural number, the loop variable.\<close>

abbreviation gen :: "string \<Rightarrow> nat \<Rightarrow> string" where "gen base g \<equiv> GenerationPath base (int g)"

lemma gen_eq [simp]: "gen base g = gen base h \<longleftrightarrow> g = h"
  using GenerationPath_inj [of "int g" "int h" base] by auto

definition rename_steps :: "string \<Rightarrow> nat list \<Rightarrow> files \<Rightarrow> files" where
  "rename_steps base gs = fold MoveFileExW (map (\<lambda>g. (gen base g, gen base (Suc g))) gs)"

lemma RotateLogs_eq:
  "base \<noteq> [] \<Longrightarrow> 0 < n \<Longrightarrow>
   RotateLogs base (int n) fs = rename_steps base (rev [0..<n]) (fs(gen base n := None))"
proof -
  assume "base \<noteq> []" "0 < n"
  moreover have "int (Suc g) = int g + 1" for g by simp
  ultimately show ?thesis
    by (simp add: RotateLogs_def PlanRotation_def rename_steps_def DeleteFileW_def rev_map comp_def
        add.commute)
qed

text \<open>The loop, walking down from \<open>k\<close> with the slot above it free.\<close>

lemma rename_steps_Suc:
  "rename_steps base (rev [0..<Suc k]) fs =
     rename_steps base (rev [0..<k]) (MoveFileExW (gen base k, gen base (Suc k)) fs)"
  by (simp add: rename_steps_def)

lemma move_up:
  "fs (gen base (Suc k)) = None \<Longrightarrow>
   MoveFileExW (gen base k, gen base (Suc k)) fs = fs(gen base (Suc k) := fs (gen base k), gen base k := None)"
  using gen_eq [of base k "Suc k"]
  by (auto simp: MoveFileExW_def fun_eq_iff simp del: of_nat_Suc split: option.split)

lemma rename_steps_shift:
  assumes "fs (gen base k) = None"
  shows "(g < k \<longrightarrow> rename_steps base (rev [0..<k]) fs (gen base (Suc g)) = fs (gen base g)) \<and>
    rename_steps base (rev [0..<k]) fs (gen base 0) = None \<and>
    ((\<forall>g \<le> k. p \<noteq> gen base g) \<longrightarrow> rename_steps base (rev [0..<k]) fs p = fs p) \<and>
    (k < h \<longrightarrow> rename_steps base (rev [0..<k]) fs (gen base h) = fs (gen base h))"
  using assms
proof (induction k arbitrary: fs g h p)
  case 0
  then show ?case by (auto simp: rename_steps_def)
next
  case (Suc k)
  let ?fs = "fs(gen base (Suc k) := fs (gen base k), gen base k := None)"
  have eq: "rename_steps base (rev [0..<Suc k]) fs = rename_steps base (rev [0..<k]) ?fs"
    unfolding rename_steps_Suc using move_up [of fs base k] Suc.prems by simp
  have IH: "(g < k \<longrightarrow> rename_steps base (rev [0..<k]) ?fs (gen base (Suc g)) = ?fs (gen base g)) \<and>
    rename_steps base (rev [0..<k]) ?fs (gen base 0) = None \<and>
    ((\<forall>g \<le> k. p \<noteq> gen base g) \<longrightarrow> rename_steps base (rev [0..<k]) ?fs p = ?fs p) \<and>
    (k < h \<longrightarrow> rename_steps base (rev [0..<k]) ?fs (gen base h) = ?fs (gen base h))" for g h p
    by (rule Suc.IH) simp
  show ?case unfolding eq
  proof (intro conjI impI)
    assume "g < Suc k"
    then show "rename_steps base (rev [0..<k]) ?fs (gen base (Suc g)) = fs (gen base g)"
      using IH [where g = g and h = "Suc k"] by (cases "g = k") (auto simp del: of_nat_Suc)
  next
    show "rename_steps base (rev [0..<k]) ?fs (gen base 0) = None" using IH by blast
  next
    assume "\<forall>g \<le> Suc k. p \<noteq> gen base g"
    then show "rename_steps base (rev [0..<k]) ?fs p = fs p"
      using IH [where p = p] by (auto simp del: of_nat_Suc)
  next
    assume "Suc k < h"
    then show "rename_steps base (rev [0..<k]) ?fs (gen base h) = fs (gen base h)"
      using IH [where h = h] by (auto simp del: of_nat_Suc)
  qed
qed

text \<open>Rotating a log that keeps \<open>n\<close> archives moves each generation's contents up by one, frees the
  live path, drops the oldest generation, and leaves every other file as it was. No archive is
  overwritten before it has been moved, because the generation paths are distinct.\<close>

theorem rotation_shifts_generations:
  assumes "base \<noteq> []" and "0 < n"
  shows "(\<forall>g. g < n \<longrightarrow> RotateLogs base (int n) fs (gen base (Suc g)) = fs (gen base g)) \<and>
    RotateLogs base (int n) fs base = None \<and>
    (\<forall>p. (\<forall>g \<le> n. p \<noteq> gen base g) \<longrightarrow> RotateLogs base (int n) fs p = fs p)"
proof -
  have "gen base 0 = base" by (simp add: GenerationPath_def)
  moreover have "(fs(gen base n := None)) (gen base n) = None" by simp
  note shift = rename_steps_shift [where fs = "fs(gen base n := None)" and base = base and k = n, OF this]
  have "g < n \<Longrightarrow> rename_steps base (rev [0..<n]) (fs(gen base n := None)) (gen base (Suc g)) = fs (gen base g)" for g
    using shift [of g] by (auto simp del: of_nat_Suc)
  moreover have "\<forall>g \<le> n. p \<noteq> gen base g \<Longrightarrow>
      rename_steps base (rev [0..<n]) (fs(gen base n := None)) p = fs p" for p
    using shift [where p = p] by auto
  ultimately show ?thesis using shift unfolding RotateLogs_eq [OF assms] by (metis (no_types, lifting))
qed

lemma rotation_witness:
  "RotateLogs ''hmi.log'' 2 [''hmi.log'' \<mapsto> ''b'', ''hmi.1.log'' \<mapsto> ''a''] ''hmi.2.log'' = Some ''a''"
proof -
  let ?fs = "[''hmi.log'' \<mapsto> ''b'', ''hmi.1.log'' \<mapsto> ''a'']"
  have "gen ''hmi.log'' 1 = ''hmi.1.log''" "gen ''hmi.log'' (Suc 1) = ''hmi.2.log''"
    by code_simp+
  moreover have "\<forall>g. g < 2 \<longrightarrow> RotateLogs ''hmi.log'' (int 2) ?fs (gen ''hmi.log'' (Suc g)) = ?fs (gen ''hmi.log'' g)"
    by (rule conjunct1 [OF rotation_shifts_generations]) simp_all
  then have "RotateLogs ''hmi.log'' (int 2) ?fs (gen ''hmi.log'' (Suc 1)) = ?fs (gen ''hmi.log'' 1)"
    by (elim allE [of _ 1]) simp
  ultimately show ?thesis by simp
qed

section \<open>The sidecar is append-only\<close>

definition rl_contents :: "RunnerLog \<Rightarrow> string" where
  "rl_contents r = (case rl_files r (rl_path r) of None \<Rightarrow> [] | Some c \<Rightarrow> c)"

datatype LogCall = LogLine SYSTEMTIME string string | LogBlock string | LogInit string SYSTEMTIME bool

fun rl_step :: "RunnerLog \<Rightarrow> LogCall \<Rightarrow> RunnerLog" where
  "rl_step r (LogLine now tag message) = RunnerLogLine now tag message r"
| "rl_step r (LogBlock block) = RunnerLogBlock block r"
| "rl_step r (LogInit path now can_open) = InitRunnerLog path now can_open r"

text \<open>What a call adds to an open log.\<close>

fun log_text :: "LogCall \<Rightarrow> string" where
  "log_text (LogLine now tag message) = runner_line now tag message"
| "log_text (LogBlock block) = block"
| "log_text (LogInit path now can_open) = []"

lemma open_step:
  "rl_handle r \<Longrightarrow> rl_handle (rl_step r e) \<and> rl_path (rl_step r e) = rl_path r \<and>
     rl_contents (rl_step r e) = rl_contents r @ log_text e \<and>
     rl_stderr (rl_step r e) = rl_stderr r @ log_text e \<and>
     (p \<noteq> rl_path r \<longrightarrow> rl_files (rl_step r e) p = rl_files r p)"
  by (cases e) (simp_all add: RunnerLogLine_def RunnerLogBlock_def InitRunnerLog_def
      WriteToFileLocked_def rl_contents_def Let_def)

text \<open>Once the sidecar is open it is append-only: after any sequence of calls its contents are what it
  held followed by the lines and blocks in the order they were written, stderr received the same
  text, and no other file changed.\<close>

theorem sidecar_append_only:
  assumes "rl_handle r"
  shows "rl_contents (run rl_step r es) = rl_contents r @ concat (map log_text es) \<and>
    rl_stderr (run rl_step r es) = rl_stderr r @ concat (map log_text es) \<and>
    (p \<noteq> rl_path r \<longrightarrow> rl_files (run rl_step r es) p = rl_files r p)"
  using assms
proof (induction es arbitrary: r)
  case Nil
  then show ?case by simp
next
  case (Cons e es)
  have s: "rl_handle (rl_step r e)" "rl_path (rl_step r e) = rl_path r"
    "rl_contents (rl_step r e) = rl_contents r @ log_text e"
    "rl_stderr (rl_step r e) = rl_stderr r @ log_text e"
    "p \<noteq> rl_path r \<Longrightarrow> rl_files (rl_step r e) p = rl_files r p"
    using open_step [OF Cons.prems, of e p] by auto
  from Cons.IH [OF s(1)] s(2-5) show ?case by simp
qed

definition empty_log :: RunnerLog where
  "empty_log = \<lparr> rl_handle = True, rl_path = ''hmi-runner.log'', rl_files = (\<lambda>_. None), rl_stderr = [] \<rparr>"

lemma sidecar_append_only_witness:
  "rl_contents (run rl_step empty_log [LogBlock ''a'', LogBlock ''bc'']) = ''abc''"
  using sidecar_append_only [of empty_log "[LogBlock ''a'', LogBlock ''bc'']"]
  by (simp add: empty_log_def rl_contents_def)

end
