(* ===== verification/Crash_Record.thy ===== *)
theory Crash_Record
  imports Log_Files
begin

text \<open>
  Crash records (\<open>crash_record.h\<close>, \<open>crash_record.cpp\<close>) and the handlers that write them
  (\<open>crash_handler.cpp\<close>). The formatters write into a buffer of a given length and are modelled by what
  the buffer holds afterwards; an optional string is a pointer that may be null. A handler is a
  function from the process's crash state and what the operating system answers to the new state and
  the list of outputs in order, the last of which ends the process. The lemmas show that a dump path is
  complete or refused, that a compiler-made type name is decoded exactly, that at most one crash
  is recorded, and that whatever happens every handler ends the process with its own code.
\<close>

section \<open>Formatters\<close>

record CrashTime =
  ct_year :: nat
  ct_month :: nat
  ct_day :: nat
  ct_hour :: nat
  ct_minute :: nat
  ct_second :: nat

definition FormatTimestamp :: "nat \<Rightarrow> CrashTime \<Rightarrow> string" where
  "FormatTimestamp out_len t =
     snprintf_buf out_len
       (pad_zero 4 (show_nat (ct_year t)) @ pad_zero 2 (show_nat (ct_month t)) @
        pad_zero 2 (show_nat (ct_day t)) @ ''-'' @ pad_zero 2 (show_nat (ct_hour t)) @
        pad_zero 2 (show_nat (ct_minute t)) @ pad_zero 2 (show_nat (ct_second t)))"

definition FormatCrashRecord :: "nat \<Rightarrow> string \<Rightarrow> u32 \<Rightarrow> string \<Rightarrow> string option \<Rightarrow> string" where
  "FormatCrashRecord out_len kind thread_id timestamp detail =
     snprintf_buf out_len
       (''[crash] '' @ kind @ ''  thread='' @ show_u32 thread_id @ ''  time='' @ timestamp @
        ''  detail='' @ (case detail of None \<Rightarrow> ''(none)'' | Some d \<Rightarrow> d))"

text \<open>\<open>None\<close> is the refusal; the buffer is then empty.\<close>

definition FormatMinidumpPath :: "nat \<Rightarrow> string option \<Rightarrow> string \<Rightarrow> u32 \<Rightarrow> string option" where
  "FormatMinidumpPath out_len dump_dir timestamp pid =
     (if out_len = 0 then None
      else case dump_dir of
        None \<Rightarrow> None
      | Some dir \<Rightarrow>
          if dir = [] then None
          else
            let full = dir @ [backslash] @ ''hmi-crash-'' @ timestamp @ ''-'' @ show_u32 pid @ ''.dmp''
            in if length full < out_len then Some (snprintf_buf out_len full) else None)"

definition FormatSehDetail :: "nat \<Rightarrow> bool \<Rightarrow> u32 \<Rightarrow> u64 \<Rightarrow> string" where
  "FormatSehDetail out_len has_record code address =
     (if \<not> has_record then snprintf_buf out_len ''(no record)''
      else snprintf_buf out_len
        (''code=0x'' @ pad_zero 8 (show_hex True (unat code)) @
         '' address=0x'' @ show_hex False (unat address)))"

definition FormatCppExceptionDetail :: "nat \<Rightarrow> string option \<Rightarrow> u64 \<Rightarrow> string" where
  "FormatCppExceptionDetail out_len type_name address =
     snprintf_buf out_len
       (''code=0xE06D7363 (C++ throw) type='' @
        (case type_name of None \<Rightarrow> ''(not recoverable)'' | Some n \<Rightarrow> n) @
        '' address=0x'' @ show_hex False (unat address))"

text \<open>The wide strings come with what \<open>%ls\<close> makes of them; \<open>None\<close> for all of them when one cannot be
  encoded, which is \<open>snprintf\<close>'s negative return.\<close>

definition FormatInvalidParameterDetail ::
  "nat \<Rightarrow> (string option \<times> string option \<times> string option) option \<Rightarrow> u32 \<Rightarrow> string" where
  "FormatInvalidParameterDetail out_len encoded line =
     (let str = (\<lambda>s. case s of None \<Rightarrow> ''(null)'' | Some x \<Rightarrow> x) in
      case encoded of
        Some (expression, func, file) \<Rightarrow>
          snprintf_buf out_len
            (''expression='' @ str expression @ '' function='' @ str func @
             '' file='' @ str file @ '' line='' @ show_u32 line)
      | None \<Rightarrow>
          if 0 < out_len then snprintf_buf out_len (''expression=(unprintable) line='' @ show_u32 line)
          else [])"

definition FormatFrameLine :: "nat \<Rightarrow> nat \<Rightarrow> string option \<Rightarrow> u64 \<Rightarrow> u64 \<Rightarrow> string" where
  "FormatFrameLine out_len index modname offset address =
     (case modname of
        None \<Rightarrow> snprintf_buf out_len
          (''[crash]   #'' @ pad_zero 2 (show_nat index) @ '' <no module> (0x'' @
           show_hex False (unat address) @ '')'')
      | Some m \<Rightarrow> snprintf_buf out_len
          (''[crash]   #'' @ pad_zero 2 (show_nat index) @ '' '' @ m @ ''+0x'' @
           show_hex False (unat offset) @ '' (0x'' @ show_hex False (unat address) @ '')''))"

definition SIGABRT :: int where "SIGABRT = 22"

definition SignalKind :: "int \<Rightarrow> string" where
  "SignalKind signal_number = (if signal_number = SIGABRT then ''abort()'' else ''signal'')"

datatype ActiveException = NoException | StdException string string | OtherException

fun DescribeActiveException :: "nat \<Rightarrow> ActiveException \<Rightarrow> string" where
  "DescribeActiveException buffer_len (StdException name what) =
     snprintf_buf buffer_len (''uncaught '' @ name @ '': '' @ what)"
| "DescribeActiveException buffer_len OtherException =
     ''uncaught exception not derived from std::exception''"
| "DescribeActiveException buffer_len NoException =
     ''no active exception (explicit terminate, or an exception escaping a '' @ ''noexcept function)''"

section \<open>Type names\<close>

text \<open>The inner loop: the start of the scope that ends before offset \<open>n\<close>.\<close>

fun scope_start :: "string \<Rightarrow> nat \<Rightarrow> nat" where
  "scope_start body 0 = 0"
| "scope_start body (Suc n) = (if body ! n = CHR ''@'' then Suc n else scope_start body n)"

lemma scope_start_le: "scope_start body n \<le> n"
  by (induction n) auto

lemma scope_start_pred: "e \<noteq> 0 \<Longrightarrow> scope_start body e - Suc 0 < e"
  using scope_start_le [of body e] by linarith

text \<open>The outer loop; \<open>None\<close> is a return of the raw name.\<close>

function clean_loop :: "nat \<Rightarrow> string \<Rightarrow> nat \<Rightarrow> string \<Rightarrow> string option" where
  "clean_loop out_len body e out =
     (if e = 0 then (if out = [] then None else Some out)
      else
        let start = scope_start body e; part = take (e - start) (drop start body);
            sep = (if out = [] then [] else ''::'')
        in if e - start = 0 then None
           else if out_len < length out + length sep + (e - start) + 1 then None
           else clean_loop out_len body (if 0 < start then start - 1 else 0) (out @ sep @ part))"
  by auto
termination
  by (relation "measure (\<lambda>(n, body, e, out). e)") (auto simp: scope_start_pred)

declare clean_loop.simps [simp del]

definition CleanTypeName :: "nat option \<Rightarrow> string option \<Rightarrow> string option" where
  "CleanTypeName out raw =
     (case raw of
        None \<Rightarrow> None
      | Some r \<Rightarrow>
          case out of
            None \<Rightarrow> Some r
          | Some out_len \<Rightarrow>
              if out_len = 0 then Some r
              else if take 4 r \<noteq> ''.?AV'' \<and> take 4 r \<noteq> ''.?AU'' then Some r
              else
                let body = drop 4 r; body_len = length body in
                if body_len < 2 \<or> body ! (body_len - 2) \<noteq> CHR ''@'' \<or> body ! (body_len - 1) \<noteq> CHR ''@''
                then Some r
                else
                  let scopes_len = body_len - 2 in
                  if list_ex (\<lambda>i. body ! i = CHR ''?'') [0..<scopes_len] then Some r
                  else case clean_loop out_len body scopes_len [] of
                         None \<Rightarrow> Some r
                       | Some name \<Rightarrow> Some name)"

section \<open>The handlers\<close>

definition MAX_PATH :: nat where "MAX_PATH = 260"
definition kCppExceptionCode :: u32 where "kCppExceptionCode = 0xE06D7363"

text \<open>The globals: the latch and the two paths captured at install time.\<close>

record CrashState =
  cs_latch :: bool
  cs_dump_dir :: string
  cs_log_path :: string

text \<open>\<open>CrashLatch::Enter\<close>: an atomic exchange, true for the first caller only.\<close>

definition latch_Enter :: "CrashState \<Rightarrow> CrashState \<times> bool" where
  "latch_Enter s = (s\<lparr>cs_latch := True\<rparr>, \<not> cs_latch s)"

text \<open>What the operating system answers during one crash.\<close>

record CrashEnv =
  ce_thread_id :: u32
  ce_process_id :: u32
  ce_now :: CrashTime
  ce_log_opens :: bool
  ce_event_source :: bool
  ce_frames :: "(u64 \<times> (u64 \<times> string) option) list"
  ce_dump_file :: "u32 option"
  ce_dump_result :: "u32 option"

text \<open>\<open>None\<close> in \<open>ce_dump_file\<close> and \<open>ce_dump_result\<close> is success, otherwise the error code; a frame carries
  its address and the base and path of the module that owns it.\<close>

datatype CrashOutput =
    OutStderr string
  | OutLogFile string string
  | OutDebug string
  | OutEventLog string
  | OutMinidump string
  | OutTerminate int

definition AppendToLogFile :: "CrashState \<Rightarrow> CrashEnv \<Rightarrow> string \<Rightarrow> CrashOutput list" where
  "AppendToLogFile s env line =
     (if cs_log_path s = [] then [] else if \<not> ce_log_opens env then []
      else [OutLogFile (cs_log_path s) (line @ [CHR 0x0D, CHR 0x0A])])"

definition ReportToEventLog :: "CrashEnv \<Rightarrow> string \<Rightarrow> CrashOutput list" where
  "ReportToEventLog env line = (if \<not> ce_event_source env then [] else [OutEventLog line])"

definition WriteRecord :: "CrashState \<Rightarrow> CrashEnv \<Rightarrow> string \<Rightarrow> CrashOutput list" where
  "WriteRecord s env line =
     [OutStderr (line @ [newline])] @ AppendToLogFile s env line @ [OutDebug (line @ [newline])]"

text \<open>\<open>strrchr(module_name, '\')\<close>: the part after the last backslash.\<close>

definition module_basename :: "string \<Rightarrow> string" where
  "module_basename path =
     (case find_last (\<lambda>c. c = backslash) path of None \<Rightarrow> path | Some i \<Rightarrow> drop (Suc i) path)"

definition WriteStackTrace :: "CrashState \<Rightarrow> CrashEnv \<Rightarrow> CrashOutput list" where
  "WriteStackTrace s env =
     (let frames = take 32 (ce_frames env) in
      if frames = [] then WriteRecord s env ''[crash]   <no stack captured>''
      else concat (map (\<lambda>(i, (address, owner)).
             let basename = (case owner of None \<Rightarrow> None
                   | Some (base, path) \<Rightarrow> if path = [] then None else Some (module_basename (take (MAX_PATH - 1) path)));
                 offset = (case owner of None \<Rightarrow> 0 | Some (base, path) \<Rightarrow> address - base)
             in WriteRecord s env (FormatFrameLine (MAX_PATH + 96) i basename offset address))
           (zip [0..<length frames] frames)))"

definition WriteMinidump :: "CrashState \<Rightarrow> CrashEnv \<Rightarrow> string \<Rightarrow> CrashOutput list" where
  "WriteMinidump s env timestamp =
     (case FormatMinidumpPath MAX_PATH (Some (cs_dump_dir s)) timestamp (ce_process_id env) of
        None \<Rightarrow> WriteRecord s env (''[crash] no usable dump path '' @ [CHR 0xE2, CHR 0x80, CHR 0x94] @
                  '' minidump skipped'')
      | Some path \<Rightarrow>
          (case ce_dump_file env of
             Some err \<Rightarrow> WriteRecord s env (snprintf_buf (MAX_PATH + 64)
               (''[crash] could not create minidump '' @ path @ '' (error '' @ show_u32 err @ '')''))
           | None \<Rightarrow>
               [OutMinidump path] @
               WriteRecord s env (snprintf_buf (MAX_PATH + 64)
                 (case ce_dump_result env of
                    None \<Rightarrow> ''[crash] minidump written: '' @ path
                  | Some err \<Rightarrow> ''[crash] MiniDumpWriteDump failed (error '' @ show_u32 err @ '')''))))"

definition ReportAndDie ::
  "string \<Rightarrow> string option \<Rightarrow> int \<Rightarrow> CrashEnv \<Rightarrow> CrashState \<Rightarrow> CrashState \<times> CrashOutput list" where
  "ReportAndDie kind detail exit_code env s0 =
     (let (s, first) = latch_Enter s0;
          timestamp = FormatTimestamp 32 (ce_now env);
          line = FormatCrashRecord 1024 kind (ce_thread_id env) timestamp detail
      in (s, (if first
              then WriteRecord s env line @ ReportToEventLog env line @ WriteStackTrace s env @
                   WriteMinidump s env timestamp
              else []) @ [OutTerminate exit_code]))"

text \<open>The crash that reached a handler: an exception record may be missing; for a C++ throw the type name
  is what the walk through the throw information recovered, \<open>None\<close> where it gave up or faulted.\<close>

datatype CrashCause =
    SehCrash "(u32 \<times> u64 \<times> string option) option"
  | TerminateCrash ActiveException
  | SignalCrash int
  | InvalidParameterCrash "(string option \<times> string option \<times> string option) option" u32
  | PureCallCrash

fun crash_handler :: "CrashCause \<Rightarrow> CrashEnv \<Rightarrow> CrashState \<Rightarrow> CrashState \<times> CrashOutput list" where
  "crash_handler (SehCrash None) env s =
     ReportAndDie ''structured exception'' (Some (FormatSehDetail 256 False 0 0)) 1 env s"
| "crash_handler (SehCrash (Some (code, address, type_descriptor))) env s =
     (if code = kCppExceptionCode then
        ReportAndDie ''unhandled C++ exception''
          (Some (FormatCppExceptionDetail 256 (CleanTypeName (Some 192) type_descriptor) address)) 1 env s
      else
        ReportAndDie ''structured exception'' (Some (FormatSehDetail 256 True code address)) 1 env s)"
| "crash_handler (TerminateCrash active) env s =
     ReportAndDie ''std::terminate'' (Some (DescribeActiveException 512 active)) 3 env s"
| "crash_handler (SignalCrash n) env s =
     ReportAndDie (SignalKind n) (Some (snprintf_buf 64 (''signal='' @ show_int n))) 3 env s"
| "crash_handler (InvalidParameterCrash encoded line) env s =
     ReportAndDie ''CRT invalid parameter'' (Some (FormatInvalidParameterDetail 768 encoded line)) 3 env s"
| "crash_handler PureCallCrash env s = ReportAndDie ''pure virtual call'' None 3 env s"

definition InstallCrashHandlers :: "string \<Rightarrow> string \<Rightarrow> CrashState \<Rightarrow> CrashState" where
  "InstallCrashHandlers dump_dir log_path s =
     s\<lparr>cs_dump_dir := snprintf_buf MAX_PATH dump_dir, cs_log_path := snprintf_buf MAX_PATH log_path\<rparr>"

section \<open>A dump path is complete or refused\<close>

text \<open>A minidump path is either the whole of directory, time stamp and process id, or refused; it is
  never a path cut short by the buffer.\<close>

theorem minidump_path_complete:
  "FormatMinidumpPath out_len dump_dir timestamp pid = Some path \<longleftrightarrow>
     (\<exists>dir. dump_dir = Some dir \<and> dir \<noteq> [] \<and> length path < out_len \<and>
        path = dir @ [backslash] @ ''hmi-crash-'' @ timestamp @ ''-'' @ show_u32 pid @ ''.dmp'')"
  by (auto simp: FormatMinidumpPath_def Let_def snprintf_buf_fits split: option.splits if_splits)

section \<open>Decoding a type name\<close>

text \<open>The compiler's encoding of a plain class: the scopes from the innermost out, separated by \<open>@\<close>.\<close>

fun join :: "string \<Rightarrow> string list \<Rightarrow> string" where
  "join sep [] = []"
| "join sep [s] = s"
| "join sep (s # t # ss) = s @ sep @ join sep (t # ss)"

definition encode_type :: "string list \<Rightarrow> string" where
  "encode_type scopes = ''.?AV'' @ join ''@'' scopes @ ''@@''"

definition plain_scope :: "string \<Rightarrow> bool" where
  "plain_scope s \<longleftrightarrow> s \<noteq> [] \<and> CHR ''@'' \<notin> set s \<and> CHR ''?'' \<notin> set s"

lemma join_snoc: "ss \<noteq> [] \<Longrightarrow> join sep (ss @ [s]) = join sep ss @ sep @ s"
  by (induction sep ss rule: join.induct) simp_all

lemma join_empty_iff: "list_all (\<lambda>s. s \<noteq> []) ss \<Longrightarrow> join sep ss = [] \<longleftrightarrow> ss = []"
  by (induction sep ss rule: join.induct) auto

lemma scope_start_skip:
  "CHR ''@'' \<notin> set s \<Longrightarrow> take (n + length s) body = p @ s \<Longrightarrow> length p = n \<Longrightarrow>
   scope_start body (n + length s) = scope_start body n"
proof (induction s arbitrary: n p)
  case Nil
  then show ?case by simp
next
  case (Cons c s)
  have a: "CHR ''@'' \<notin> set s" using Cons.prems(1) by simp
  have b: "take (Suc n + length s) body = (p @ [c]) @ s" using Cons.prems(2) by simp
  have c: "length (p @ [c]) = Suc n" by (simp only: length_append Cons.prems(3)) simp
  have "scope_start body (Suc n + length s) = scope_start body (Suc n)" by (rule Cons.IH [OF a b c])
  moreover have "body ! n = c"
  proof -
    have "take (n + length (c # s)) body ! n = c" using Cons.prems(2,3) by (simp add: nth_append)
    then show ?thesis by simp
  qed
  ultimately show ?case using Cons.prems(1) by auto
qed

lemma clean_loop_step:
  "scope_start body e = st \<Longrightarrow> st < e \<Longrightarrow>
   clean_loop out_len body e out =
     (if out_len < length out + (if out = [] then 0 else 2) + (e - st) + 1 then None
      else clean_loop out_len body (st - 1)
             (out @ (if out = [] then [] else ''::'') @ take (e - st) (drop st body)))"
  by (subst clean_loop.simps) (auto simp: Let_def)

lemma clean_loop_0: "clean_loop out_len body 0 out = (if out = [] then None else Some out)"
  by (subst clean_loop.simps) simp

lemma clean_loop_join:
  assumes "list_all plain_scope ss" and "ss \<noteq> []" and "take e body = join ''@'' ss"
    and "e = length (join ''@'' ss)"
  shows "clean_loop out_len body e out =
     (if length out + (if out = [] then 0 else 2) + length (join ''::'' (rev ss)) + 1 \<le> out_len
      then Some (out @ (if out = [] then [] else ''::'') @ join ''::'' (rev ss)) else None)"
  using assms
proof (induction ss arbitrary: e out rule: rev_induct)
  case Nil
  then show ?case by simp
next
  case (snoc s ss)
  from snoc.prems(1) have s: "s \<noteq> []" "CHR ''@'' \<notin> set s" by (auto simp: plain_scope_def)
  show ?case
  proof (cases "ss = []")
    case True
    with snoc.prems have e: "take e body = s" "e = length s" by simp_all
    then have "scope_start body e = 0" using scope_start_skip [OF s(2), of 0 body "[]"] by simp
    with clean_loop_step [of body e 0] e s True show ?thesis by (simp add: clean_loop_0)
  next
    case False
    let ?p = "join ''@'' ss"
    have j: "join ''@'' (ss @ [s]) = (?p @ ''@'') @ s" using False by (simp add: join_snoc)
    with snoc.prems have e: "e = length (?p @ ''@'') + length s" "take e body = (?p @ ''@'') @ s" by simp_all
    then have "scope_start body e = scope_start body (length (?p @ ''@''))"
      using scope_start_skip [OF s(2), of "length (?p @ ''@'')" body "?p @ ''@''"] by simp
    moreover have at: "body ! length ?p = CHR ''@''"
    proof -
      have "take e body ! length ?p = CHR ''@''" unfolding e(2) by (simp add: nth_append)
      then show ?thesis using e(1) by simp
    qed
    ultimately have start: "scope_start body e = Suc (length ?p)" by simp
    have len: "e - Suc (length ?p) = length s" using e(1) by simp
    have part: "take (e - Suc (length ?p)) (drop (Suc (length ?p)) body) = s"
    proof -
      have "take (e - Suc (length ?p)) (drop (Suc (length ?p)) body) = drop (Suc (length ?p)) (take e body)"
        by (simp add: drop_take)
      then show ?thesis unfolding e(2) by simp
    qed
    have pre: "take (length ?p) body = ?p"
    proof -
      have "take (length ?p) (take e body) = ?p" unfolding e(2) by simp
      then show ?thesis using e(1) by (simp add: min_def)
    qed
    let ?out = "out @ (if out = [] then [] else ''::'') @ s"
    have IH: "clean_loop out_len body (length ?p) ?out =
       (if length ?out + (if ?out = [] then 0 else 2) + length (join ''::'' (rev ss)) + 1 \<le> out_len
        then Some (?out @ (if ?out = [] then [] else ''::'') @ join ''::'' (rev ss)) else None)"
      using snoc.prems(1) False pre by (intro snoc.IH) simp_all
    obtain r rs where rev: "rev ss = r # rs" using False by (cases "rev ss") auto
    have "clean_loop out_len body e out =
       (if out_len < length out + (if out = [] then 0 else 2) + length s + 1 then None
        else clean_loop out_len body (length ?p) ?out)"
      using clean_loop_step [OF start, of out_len out] e(1) s(1) part [unfolded len] by (simp add: len)
    then show ?thesis unfolding IH using s(1) by (auto simp: rev)
  qed
qed

text \<open>The decoder inverts the compiler's encoding: the name of a class with plain scopes comes back
  outermost first and joined by \<open>::\<close> whenever the buffer holds all of it, and otherwise the raw name
  comes back whole; a shortened name is never produced.\<close>

theorem type_name_decoded:
  assumes "list_all plain_scope scopes" and "scopes \<noteq> []" and "0 < out_len"
  shows "CleanTypeName (Some out_len) (Some (encode_type scopes)) =
    Some (if length (join ''::'' (rev scopes)) < out_len then join ''::'' (rev scopes)
          else encode_type scopes)"
proof -
  let ?b = "join ''@'' scopes @ ''@@''" and ?n = "length (join ''@'' scopes)"
  have clean: "CHR ''?'' \<notin> set (join ''@'' scopes)"
    using assms(1) by (induction "''@''" scopes rule: join.induct) (auto simp: plain_scope_def)
  have "\<not> list_ex (\<lambda>i. ?b ! i = CHR ''?'') [0..<?n]"
    using clean by (auto simp: list_ex_iff nth_append) (metis nth_mem)
  moreover have "clean_loop out_len ?b ?n [] =
     (if length (join ''::'' (rev scopes)) + 1 \<le> out_len then Some (join ''::'' (rev scopes)) else None)"
    using clean_loop_join [OF assms(1,2), of ?n ?b out_len "[]"] by simp
  ultimately show ?thesis using assms(3)
    by (simp add: CleanTypeName_def encode_type_def Let_def nth_append)
qed

lemma type_name_decoded_witness:
  "CleanTypeName (Some 192) (Some ''.?AVbad_alloc@std@@'') = Some ''std::bad_alloc''"
  using type_name_decoded [of "[''bad_alloc'', ''std'']" 192]
  by (simp add: plain_scope_def encode_type_def)

section \<open>One record per process, and every crash ends it\<close>

definition crash_step :: "CrashState \<Rightarrow> CrashCause \<times> CrashEnv \<Rightarrow> CrashState" where
  "crash_step s c = fst (crash_handler (fst c) (snd c) s)"

definition crash_outputs :: "CrashState \<Rightarrow> CrashCause \<times> CrashEnv \<Rightarrow> CrashOutput list" where
  "crash_outputs s c = snd (crash_handler (fst c) (snd c) s)"

definition crash_records :: "CrashState \<Rightarrow> CrashCause \<times> CrashEnv \<Rightarrow> bool" where
  "crash_records s c \<longleftrightarrow> list_ex (\<lambda>out. case out of OutTerminate _ \<Rightarrow> False | _ \<Rightarrow> True) (crash_outputs s c)"

fun exit_code_of :: "CrashCause \<Rightarrow> int" where
  "exit_code_of (SehCrash r) = 1"
| "exit_code_of _ = 3"

lemma ReportAndDie_cases:
  "fst (ReportAndDie kind detail code env s) = s\<lparr>cs_latch := True\<rparr> \<and>
   (if cs_latch s then snd (ReportAndDie kind detail code env s) = [OutTerminate code]
    else \<exists>line outs. snd (ReportAndDie kind detail code env s) =
           OutStderr (line @ [newline]) # outs @ [OutTerminate code] \<and>
         line = FormatCrashRecord 1024 kind (ce_thread_id env) (FormatTimestamp 32 (ce_now env)) detail)"
  by (auto simp: ReportAndDie_def latch_Enter_def WriteRecord_def Let_def)

lemma crash_handler_is_ReportAndDie:
  "\<exists>kind detail. crash_handler c env s = ReportAndDie kind detail (exit_code_of c) env s"
  by (cases "(c, env, s)" rule: crash_handler.cases) auto

lemma crash_step_cases:
  "crash_step s c = s\<lparr>cs_latch := True\<rparr> \<and>
   (crash_records s c \<longleftrightarrow> \<not> cs_latch s) \<and> last (crash_outputs s c) = OutTerminate (exit_code_of (fst c))"
proof -
  obtain kind detail where
    "crash_handler (fst c) (snd c) s = ReportAndDie kind detail (exit_code_of (fst c)) (snd c) s"
    using crash_handler_is_ReportAndDie by blast
  with ReportAndDie_cases [of kind detail "exit_code_of (fst c)" "snd c" s] show ?thesis
    by (auto simp: crash_step_def crash_outputs_def crash_records_def split: if_splits)
qed

interpretation crash_latch: process_latch crash_step crash_records cs_latch
  by unfold_locales (simp_all add: crash_step_cases)

text \<open>However many threads crash, and a crash inside a handler included, at most one crash is
  recorded, and every handler's last act is to end the process with its own code: 1 for a structured
  exception, 3 for the others.\<close>

theorem one_crash_record:
  "count_along crash_step crash_records s cs \<le> 1 \<and>
   last (crash_outputs s c) = OutTerminate (exit_code_of (fst c))"
  using crash_latch.fires_at_most_once [of s cs] crash_step_cases [of s c] by simp

end
