(* ===== verification/Drag_Drop.thy ===== *)
theory Drag_Drop
  imports Runner_Prelude
begin

text \<open>
  The reference-count model of the drag-and-drop target (\<open>drag_drop_lifetime.h\<close>,
  \<open>drag_drop_lifetime.cpp\<close>): targets live in a vector and are named by their index, the registration
  slot of the child window and the plugin's target are indices or empty (the code's -1). The lemmas
  show that with the revocation every lifecycle is balanced (a simulation by a two-field abstract
  machine), what the lifecycle without it does in closed form, and that the model never reaches its
  own use-after-free flag.
\<close>

section \<open>Data and operations\<close>

record Target =
  refcount :: int
  freed :: bool

record DragDropModel =
  d_revokes :: bool
  d_up :: bool
  d_use_after_free :: bool
  d_collision :: bool
  d_leaked :: int
  d_targets :: "Target list"
  d_registered :: "nat option"
  d_plugin :: "nat option"

definition dd_init :: "bool \<Rightarrow> DragDropModel" where
  "dd_init runner_revokes = \<lparr> d_revokes = runner_revokes, d_up = False, d_use_after_free = False,
     d_collision = False, d_leaked = 0, d_targets = [], d_registered = None, d_plugin = None \<rparr>"

definition dd_NewTarget :: "DragDropModel \<Rightarrow> DragDropModel \<times> nat" where
  "dd_NewTarget m = (m\<lparr>d_targets := d_targets m @ [\<lparr> refcount = 0, freed = False \<rparr>]\<rparr>, length (d_targets m))"

definition dd_AddRef :: "nat option \<Rightarrow> DragDropModel \<Rightarrow> DragDropModel" where
  "dd_AddRef index m =
     (case index of
        None \<Rightarrow> m
      | Some i \<Rightarrow> m\<lparr>d_targets := (d_targets m)[i := (d_targets m ! i)\<lparr>refcount := refcount (d_targets m ! i) + 1\<rparr>]\<rparr>)"

text \<open>
  \<open>Release\<close> may release the occupant of the slot in turn; the slot is emptied first, so the
  recursion is at most one level deep.
\<close>

function dd_Release :: "nat option \<Rightarrow> DragDropModel \<Rightarrow> DragDropModel" where
  "dd_Release None m = m"
| "dd_Release (Some i) m =
     (if freed (d_targets m ! i) then m\<lparr>d_use_after_free := True\<rparr>
      else
        let n = refcount (d_targets m ! i) - 1;
            m1 = m\<lparr>d_targets := (d_targets m)[i := (d_targets m ! i)\<lparr>refcount := n\<rparr>]\<rparr>
        in if 0 < n then m1
           else
             let m2 = m1\<lparr>d_targets := (d_targets m1)[i := (d_targets m1 ! i)\<lparr>freed := True\<rparr>]\<rparr>
             in case d_registered m of
                  None \<Rightarrow> m2
                | Some occupant \<Rightarrow>
                    if occupant = i then m2\<lparr>d_registered := None\<rparr>
                    else dd_Release (Some occupant) (m2\<lparr>d_registered := None\<rparr>))"
  by pat_completeness auto
termination
  by (relation "measure (\<lambda>(i, m). if d_registered m = None then 0 else 1)") auto

declare dd_Release.simps(2) [simp del]

definition dd_Revoke :: "DragDropModel \<Rightarrow> DragDropModel" where
  "dd_Revoke m =
     (case d_registered m of
        None \<Rightarrow> m
      | Some occupant \<Rightarrow> dd_Release (Some occupant) (m\<lparr>d_registered := None\<rparr>))"

definition dd_CreateController :: "DragDropModel \<Rightarrow> DragDropModel" where
  "dd_CreateController m0 =
     (let m = m0\<lparr>d_up := True\<rparr>;
          (m1, target) = dd_NewTarget m;
          m2 = (if d_registered m1 = None
                then dd_AddRef (Some target) (m1\<lparr>d_registered := Some target\<rparr>)
                else m1\<lparr>d_collision := True\<rparr>);
          m3 = dd_AddRef (Some target) m2
      in m3\<lparr>d_plugin := Some target\<rparr>)"

definition dd_DestroyController :: "DragDropModel \<Rightarrow> DragDropModel" where
  "dd_DestroyController m =
     (if \<not> d_up m then m
      else
        let m1 = (if d_revokes m then dd_Revoke m else m);
            m2 = dd_Release (d_plugin m1) m1;
            m3 = m2\<lparr>d_plugin := None, d_up := False\<rparr>
        in if d_registered m3 \<noteq> None then m3\<lparr>d_leaked := d_leaked m3 + 1\<rparr> else m3)"

definition dd_live_targets :: "DragDropModel \<Rightarrow> nat" where
  "dd_live_targets m = length (filter (\<lambda>t. \<not> freed t) (d_targets m))"

datatype DragDropOp = DdCreate | DdDestroy

fun dd_step :: "DragDropModel \<Rightarrow> DragDropOp \<Rightarrow> DragDropModel" where
  "dd_step m DdCreate = dd_CreateController m"
| "dd_step m DdDestroy = dd_DestroyController m"

section \<open>The use-after-free flag is never reached\<close>

text \<open>A reference held on target \<open>i\<close> by \<open>k\<close> holders: it exists, is not freed and counts them all.\<close>

definition holds :: "DragDropModel \<Rightarrow> nat \<Rightarrow> int \<Rightarrow> bool" where
  "holds m i k \<longleftrightarrow> i < length (d_targets m) \<and> \<not> freed (d_targets m ! i) \<and> k \<le> refcount (d_targets m ! i)"

definition dd_safe :: "DragDropModel \<Rightarrow> bool" where
  "dd_safe m \<longleftrightarrow> \<not> d_use_after_free m \<and>
     (\<forall>i. d_registered m = Some i \<longrightarrow> holds m i (if d_plugin m = Some i then 2 else 1)) \<and>
     (\<forall>i. d_plugin m = Some i \<longrightarrow> holds m i 1)"

lemma release_last_slot:
  assumes "holds m i 1" and "d_registered m = None"
  shows "d_use_after_free (dd_Release (Some i) m) = d_use_after_free m \<and>
    d_registered (dd_Release (Some i) m) = None \<and> d_plugin (dd_Release (Some i) m) = d_plugin m \<and>
    (\<forall>j k. j \<noteq> i \<longrightarrow> holds (dd_Release (Some i) m) j k = holds m j k) \<and>
    (\<forall>k. 1 \<le> k \<and> holds m i (k + 1) \<longrightarrow> holds (dd_Release (Some i) m) i k)"
  using assms by (auto simp: dd_Release.simps(2) holds_def Let_def)

lemma safe_release_plugin:
  assumes "dd_safe m" and "d_plugin m = Some i"
  shows "dd_safe ((dd_Release (Some i) m)\<lparr>d_plugin := None, d_up := u\<rparr>)"
proof (cases "d_registered m")
  case None
  with assms release_last_slot [of m i] show ?thesis by (simp add: dd_safe_def)
next
  case (Some r)
  show ?thesis
  proof (cases "r = i")
    case True
    with assms Some show ?thesis
      by (auto simp: dd_safe_def holds_def dd_Release.simps(2) Let_def)
  next
    case False
    from assms Some False have i: "holds m i 1" and r: "holds m r 1"
      unfolding dd_safe_def by (auto dest!: spec [of _ r])
    show ?thesis
    proof (cases "0 < refcount (d_targets m ! i) - 1")
      case True
      with i r Some False assms(1) show ?thesis
        by (auto simp: dd_safe_def holds_def dd_Release.simps(2) [of i] Let_def)
    next
      case nz: False
      let ?m2 = "m\<lparr>d_targets := (d_targets m)[i := \<lparr> refcount = refcount (d_targets m ! i) - 1, freed = True \<rparr>],
                   d_registered := None\<rparr>"
      have "holds ?m2 r 1" using r False by (simp add: holds_def)
      moreover have "dd_Release (Some i) m = dd_Release (Some r) ?m2"
        using i nz Some False
        by (cases "d_targets m ! i") (simp add: dd_Release.simps(2) [of i] holds_def Let_def)
      ultimately show ?thesis using release_last_slot [of ?m2 r] assms(1) by (simp add: dd_safe_def)
    qed
  qed
qed

lemma safe_revoke: "dd_safe m \<Longrightarrow> dd_safe (dd_Revoke m)"
proof (cases "d_registered m")
  case None
  assume "dd_safe m"
  with None show ?thesis by (simp add: dd_Revoke_def)
next
  case (Some r)
  assume safe: "dd_safe m"
  let ?m = "m\<lparr>d_registered := None\<rparr>"
  have h: "holds ?m j k = holds m j k" for j k by (simp add: holds_def)
  have r: "holds m r 1" and two: "d_plugin m = Some r \<Longrightarrow> holds m r 2"
    using safe Some by (cases "d_plugin m = Some r"; force simp: dd_safe_def holds_def)+
  from release_last_slot [of ?m r] r have
    s: "d_use_after_free (dd_Release (Some r) ?m) = d_use_after_free m"
    "d_registered (dd_Release (Some r) ?m) = None" "d_plugin (dd_Release (Some r) ?m) = d_plugin m"
    "\<And>j k. j \<noteq> r \<Longrightarrow> holds (dd_Release (Some r) ?m) j k = holds m j k"
    "holds m r 2 \<Longrightarrow> holds (dd_Release (Some r) ?m) r 1"
    by (auto simp: h)
  have "holds (dd_Release (Some r) ?m) i 1" if "d_plugin m = Some i" for i
    using safe that s(4) [of i 1] s(5) two by (cases "i = r") (auto simp: dd_safe_def)
  with s safe Some show ?thesis by (simp add: dd_Revoke_def dd_safe_def)
qed

lemma safe_create: "dd_safe m \<Longrightarrow> dd_safe (dd_CreateController m)"
  by (cases "d_registered m")
     (auto simp: dd_safe_def holds_def dd_CreateController_def dd_NewTarget_def dd_AddRef_def
       Let_def nth_append nth_list_update split: if_splits)

lemma safe_leak: "dd_safe (m\<lparr>d_leaked := n\<rparr>) = dd_safe m"
  by (simp add: dd_safe_def holds_def)

lemma safe_destroy: "dd_safe m \<Longrightarrow> dd_safe (dd_DestroyController m)"
proof -
  assume safe: "dd_safe m"
  define m1 where "m1 = (if d_revokes m then dd_Revoke m else m)"
  have s1: "dd_safe m1" using safe by (simp add: m1_def safe_revoke)
  define m3 where "m3 = (dd_Release (d_plugin m1) m1)\<lparr>d_plugin := None, d_up := False\<rparr>"
  have "dd_safe m3"
  proof (cases "d_plugin m1")
    case None
    with s1 show ?thesis by (auto simp: m3_def dd_safe_def holds_def)
  next
    case (Some i)
    with safe_release_plugin [OF s1 Some, of False] show ?thesis by (simp add: m3_def)
  qed
  then show ?thesis using safe
    by (simp add: dd_DestroyController_def m1_def [symmetric] m3_def [symmetric] safe_leak Let_def)
qed

lemma safe_step: "dd_safe m \<Longrightarrow> dd_safe (dd_step m op)"
  by (cases op) (simp_all add: safe_create safe_destroy)

interpretation dd_safety: invariant_machine dd_step dd_safe
  by unfold_locales (rule safe_step)

text \<open>The model that is meant to reproduce the use-after-free cannot: with the revocation or without
  it, whatever sequence of creations and teardowns is run, no release ever touches a freed target.\<close>

theorem use_after_free_unreachable:
  "\<not> d_use_after_free (run dd_step (dd_init revokes) ops)"
proof -
  have "dd_safe (dd_init revokes)" by (simp add: dd_safe_def dd_init_def)
  then have "dd_safe (run dd_step (dd_init revokes) ops)" by (rule dd_safety.run_inv)
  then show ?thesis by (simp add: dd_safe_def)
qed

section \<open>With the revocation every lifecycle is balanced\<close>

text \<open>The runner builds a controller only when none is up (it destroys the old one first).\<close>

fun runner_step :: "DragDropModel \<Rightarrow> DragDropOp \<Rightarrow> DragDropModel" where
  "runner_step m DdCreate = (if d_up m then m else dd_CreateController m)"
| "runner_step m DdDestroy = dd_DestroyController m"

text \<open>The abstract machine: whether a controller is up, and how many there have been.\<close>

fun lifecycle_step :: "bool \<times> nat \<Rightarrow> DragDropOp \<Rightarrow> bool \<times> nat" where
  "lifecycle_step (up, n) DdCreate = (if up then (up, n) else (True, Suc n))"
| "lifecycle_step (up, n) DdDestroy = (False, n)"

definition dd_abs :: "DragDropModel \<Rightarrow> bool \<times> nat" where
  "dd_abs m = (d_up m, length (d_targets m))"

definition dd_balanced :: "DragDropModel \<Rightarrow> bool" where
  "dd_balanced m \<longleftrightarrow> d_revokes m \<and> \<not> d_use_after_free m \<and> \<not> d_collision m \<and> d_leaked m = 0 \<and>
     (if d_up m
      then (\<exists>ts. d_targets m = ts @ [\<lparr> refcount = 2, freed = False \<rparr>] \<and> list_all freed ts \<and>
              d_registered m = Some (length ts) \<and> d_plugin m = Some (length ts))
      else list_all freed (d_targets m) \<and> d_registered m = None \<and> d_plugin m = None)"

lemma balanced_create:
  "dd_balanced m \<Longrightarrow> \<not> d_up m \<Longrightarrow> dd_balanced (dd_CreateController m) \<and>
     dd_abs (dd_CreateController m) = (True, Suc (length (d_targets m)))"
  by (auto simp: dd_balanced_def dd_abs_def dd_CreateController_def dd_NewTarget_def dd_AddRef_def
      Let_def nth_append list_update_append)

lemma balanced_destroy:
  "dd_balanced m \<Longrightarrow> dd_balanced (dd_DestroyController m) \<and>
     dd_abs (dd_DestroyController m) = (False, length (d_targets m))"
  by (auto simp: dd_balanced_def dd_abs_def dd_DestroyController_def dd_Revoke_def
      dd_Release.simps(2) Let_def nth_append list_update_append split: if_splits)

interpretation dd_lifecycle: simulation runner_step lifecycle_step dd_abs dd_balanced
proof
  fix m e assume b: "dd_balanced m"
  show "dd_balanced (runner_step m e)"
    using b balanced_create [of m] balanced_destroy [of m] by (cases e) auto
  show "dd_abs (runner_step m e) = lifecycle_step (dd_abs m) e"
    using b balanced_create [of m] balanced_destroy [of m] by (cases e) (auto simp: dd_abs_def)
qed

lemma live_all_freed: "list_all freed ts \<Longrightarrow> filter (\<lambda>t. \<not> freed t) ts = []"
  by (induction ts) auto

text \<open>With the revocation, any lifecycle of controllers is balanced: the model is simulated by the
  machine that only knows whether a controller is up and how many there were; no registration
  collides or leaks, and exactly the live controller's target is allocated.\<close>

theorem revocation_balances:
  assumes "m = run runner_step (dd_init True) ops"
  shows "(d_up m, length (d_targets m)) = run lifecycle_step (False, 0) ops \<and>
    \<not> d_collision m \<and> d_leaked m = 0 \<and> dd_live_targets m = (if d_up m then 1 else 0)"
proof -
  have b: "dd_balanced (dd_init True)" by (simp add: dd_balanced_def dd_init_def)
  have "dd_abs m = run lifecycle_step (dd_abs (dd_init True)) ops"
    unfolding assms by (rule dd_lifecycle.sim_run [OF b])
  moreover have "dd_abs (dd_init True) = (False, 0)" by (simp add: dd_abs_def dd_init_def)
  moreover have "dd_balanced m" unfolding assms by (rule dd_lifecycle.run_inv [OF b])
  ultimately show ?thesis
    by (auto simp: dd_balanced_def dd_abs_def dd_live_targets_def live_all_freed split: if_splits)
qed

lemma revocation_balances_witness:
  "dd_live_targets (run runner_step (dd_init True) [DdCreate, DdDestroy, DdCreate]) = 1"
  using revocation_balances [OF refl, of "[DdCreate, DdDestroy, DdCreate]"]
  by (auto split: if_splits)

section \<open>Without it, every second rebuild leaks\<close>

text \<open>At rest between two cycles: nothing up, nothing registered, every target freed.\<close>

definition dd_rest :: "int \<Rightarrow> bool \<Rightarrow> DragDropModel \<Rightarrow> bool" where
  "dd_rest k c m \<longleftrightarrow> \<not> d_revokes m \<and> \<not> d_up m \<and> d_registered m = None \<and> d_plugin m = None \<and>
     list_all freed (d_targets m) \<and> d_leaked m = k \<and> d_collision m = c"

text \<open>After an odd number of cycles: one target survives, still registered, with one reference.\<close>

definition dd_stale :: "int \<Rightarrow> bool \<Rightarrow> DragDropModel \<Rightarrow> bool" where
  "dd_stale k c m \<longleftrightarrow> \<not> d_revokes m \<and> \<not> d_up m \<and> d_plugin m = None \<and> d_leaked m = k \<and> d_collision m = c \<and>
     (\<exists>ts. d_targets m = ts @ [\<lparr> refcount = 1, freed = False \<rparr>] \<and> list_all freed ts \<and>
        d_registered m = Some (length ts))"

definition dd_cycle :: "DragDropModel \<Rightarrow> DragDropModel" where
  "dd_cycle m = dd_DestroyController (dd_CreateController m)"

lemma cycle_from_rest: "dd_rest k c m \<Longrightarrow> dd_stale (k + 1) c (dd_cycle m)"
  by (auto simp: dd_rest_def dd_stale_def dd_cycle_def dd_CreateController_def dd_DestroyController_def
      dd_NewTarget_def dd_AddRef_def dd_Release.simps(2) Let_def nth_append list_update_append)

lemma cycle_from_stale: "dd_stale k c m \<Longrightarrow> dd_rest k True (dd_cycle m)"
  by (auto simp: dd_rest_def dd_stale_def dd_cycle_def dd_CreateController_def dd_DestroyController_def
      dd_NewTarget_def dd_AddRef_def dd_Release.simps(2) Let_def nth_append list_update_append)

lemma cycles_without_fix:
  "(even n \<longrightarrow> dd_rest (int (n div 2)) (2 \<le> n) ((dd_cycle ^^ n) (dd_init False))) \<and>
   (odd n \<longrightarrow> dd_stale (int (n div 2) + 1) (2 \<le> n) ((dd_cycle ^^ n) (dd_init False)))"
proof (induction n)
  case 0
  then show ?case by (simp add: dd_rest_def dd_init_def)
next
  case (Suc n)
  show ?case
  proof (cases "even n")
    case True
    with Suc have r: "dd_rest (int (n div 2)) (2 \<le> n) ((dd_cycle ^^ n) (dd_init False))" by simp
    have "(2 \<le> n) = (2 \<le> Suc n)" using True by presburger
    with cycle_from_rest [OF r] True show ?thesis by simp
  next
    case False
    with Suc have r: "dd_stale (int (n div 2) + 1) (2 \<le> n) ((dd_cycle ^^ n) (dd_init False))" by simp
    have "2 \<le> Suc n" using False by presburger
    with cycle_from_stale [OF r] False show ?thesis by (simp add: add.commute)
  qed
qed

text \<open>Without the revocation, \<open>n\<close> rebuild cycles leak every second time, not every time: \<open>(n + 1) div 2\<close>
  registrations outlive their controller, a target is left allocated exactly when \<open>n\<close> is odd, and
  the registration collides from the second cycle on.\<close>

theorem leak_without_revocation:
  "let m = (dd_cycle ^^ n) (dd_init False) in
     d_leaked m = int ((n + 1) div 2) \<and> dd_live_targets m = n mod 2 \<and> (d_collision m \<longleftrightarrow> 2 \<le> n)"
proof (cases "even n")
  case True
  then show ?thesis using cycles_without_fix [of n]
    by (auto simp: dd_rest_def dd_live_targets_def live_all_freed Let_def)
next
  case False
  then obtain k where n: "n = 2 * k + 1" by (auto elim: oddE)
  show ?thesis using cycles_without_fix [of n] unfolding n
    by (auto simp: dd_stale_def dd_live_targets_def live_all_freed Let_def)
qed

end
