(* ===== verification/Startup_Shutdown.thy ===== *)
theory Startup_Shutdown
  imports Log_Files Complex_Main
begin

text \<open>
  The decisions at the two ends of the process: where stdout goes (\<open>output_target.cpp\<close>) and what
  \<open>wWinMain\<close> does with the log before anything else runs (\<open>main.cpp\<close>), where the window opens
  (\<open>window_placement.cpp\<close>), and how the process leaves (\<open>shutdown_policy.h\<close>, \<open>shutdown_policy.cpp\<close>).
  The calls \<open>wWinMain\<close> makes are a list of effects in order. The double arithmetic of the placement is
  exact rational arithmetic rounded to 53 bits. The lemmas show that a connected stdout is never taken
  away, that a log is rotated before it is truncated, that the restored window fits the work area and
  is centred, and that crash-restart is withdrawn at most once and only for a window that existed.
\<close>

section \<open>Output target\<close>

datatype OutputTarget = kInherited | kFile

record OutputTargetInputs =
  explicit_log_file :: bool
  console_requested :: bool
  stdout_connected :: bool

definition ChooseOutputTarget :: "OutputTargetInputs \<Rightarrow> OutputTarget" where
  "ChooseOutputTarget inputs =
     (if stdout_connected inputs then kInherited
      else if console_requested inputs then kInherited
      else if explicit_log_file inputs then kFile
      else kFile)"

section \<open>Shutdown policy\<close>

record ShutdownPolicy =
  restart_withdrawn :: bool

record ExitPlan =
  xp_exit_code :: int
  xp_skip_module_teardown :: bool
  xp_description :: string

definition sh_init :: ShutdownPolicy where "sh_init = \<lparr> restart_withdrawn = False \<rparr>"

text \<open>The second component is the step's \<open>withdraw_restart\<close>.\<close>

definition sh_WindowDestroyed :: "bool \<Rightarrow> ShutdownPolicy \<Rightarrow> ShutdownPolicy \<times> bool" where
  "sh_WindowDestroyed window_existed s =
     (if window_existed \<and> \<not> restart_withdrawn s then (s\<lparr>restart_withdrawn := True\<rparr>, True)
      else (s, False))"

definition sh_LoopEnded :: "int \<Rightarrow> ShutdownPolicy \<Rightarrow> ExitPlan" where
  "sh_LoopEnded exit_code s =
     \<lparr> xp_exit_code = exit_code, xp_skip_module_teardown = True,
       xp_description =
         ''message loop ended, exit code '' @ show_int exit_code @ '', '' @
         (if restart_withdrawn s then ''crash-restart withdrawn (the window was closed)''
          else ''crash-restart still registered (the window was not closed)'') @
         ''. Ending with TerminateProcess: module teardown would release '' @
         ''flutter_inappwebview's static Compositor after COM is gone, which is '' @
         ''the dcomp.dll fail-fast every close hit on 2026-09-11.'' \<rparr>"

definition sh_step :: "ShutdownPolicy \<Rightarrow> bool \<Rightarrow> ShutdownPolicy" where
  "sh_step s existed = fst (sh_WindowDestroyed existed s)"

definition sh_withdraws :: "ShutdownPolicy \<Rightarrow> bool \<Rightarrow> bool" where
  "sh_withdraws s existed = snd (sh_WindowDestroyed existed s)"

interpretation sh_latch: process_latch sh_step sh_withdraws restart_withdrawn
  by unfold_locales (auto simp: sh_step_def sh_withdraws_def sh_WindowDestroyed_def)

lemma sh_withdrawn_iff:
  "restart_withdrawn (run sh_step s ws) \<longleftrightarrow> restart_withdrawn s \<or> True \<in> set ws"
  by (induction ws arbitrary: s) (auto simp: sh_step_def sh_WindowDestroyed_def)

text \<open>Crash-restart is withdrawn at most once, and is withdrawn at the end exactly when a window that
  existed was destroyed; the startup's own \<open>Destroy\<close> of a window that never was does not count. The exit
  code reaches the plan unchanged.\<close>

theorem restart_withdrawn_once:
  "count_along sh_step sh_withdraws sh_init ws \<le> 1 \<and>
   (restart_withdrawn (run sh_step sh_init ws) \<longleftrightarrow> True \<in> set ws) \<and>
   xp_exit_code (sh_LoopEnded code (run sh_step sh_init ws)) = code \<and>
   xp_skip_module_teardown (sh_LoopEnded code (run sh_step sh_init ws))"
  using sh_latch.fires_at_most_once [of sh_init ws] sh_withdrawn_iff [of sh_init ws]
  by (simp add: sh_LoopEnded_def sh_init_def)

section \<open>Window placement\<close>

record PixelRect =
  px_left :: int
  px_top :: int
  px_right :: int
  px_bottom :: int

definition px_width :: "PixelRect \<Rightarrow> int" where "px_width r = px_right r - px_left r"
definition px_height :: "PixelRect \<Rightarrow> int" where "px_height r = px_bottom r - px_top r"

text \<open>A product of doubles: the exact product rounded to 53 bits, ties to even.\<close>

definition round_rat :: "rat \<Rightarrow> int" where
  "round_rat x = (let f = floor x; d = x - of_int f in
     if d < 1 / 2 \<or> (d = 1 / 2 \<and> even f) then f else f + 1)"

definition pow2 :: "int \<Rightarrow> rat" where
  "pow2 k = (if 0 \<le> k then 2 ^ nat k else 1 / 2 ^ nat (- k))"

definition double_of_rat :: "rat \<Rightarrow> rat" where
  "double_of_rat r =
     (if r \<le> 0 then r
      else
        let (n, d) = quotient_of r;
            k0 = 53 + int (bit_len (nat d)) - int (bit_len (nat n));
            k = (if 2 ^ 53 \<le> r * pow2 k0 then k0 - 1 else k0)
        in of_int (round_rat (r * pow2 k)) / pow2 k)"

definition double_mult :: "rat \<Rightarrow> rat \<Rightarrow> rat" where
  "double_mult a b = double_of_rat (a * b)"

text \<open>\<open>static_cast<int>\<close> truncates; the factor is positive here.\<close>

definition RestoredWindowBounds :: "PixelRect \<Rightarrow> u32 \<Rightarrow> u32 \<Rightarrow> rat \<Rightarrow> PixelRect" where
  "RestoredWindowBounds work_area logical_width logical_height scale_factor =
     (let scale = (if scale_factor \<le> 0 then 1 else scale_factor);
          available_width = max (px_width work_area) 0;
          available_height = max (px_height work_area) 0;
          width = min (floor (double_mult (of_nat (unat logical_width)) scale)) available_width;
          height = min (floor (double_mult (of_nat (unat logical_height)) scale)) available_height;
          left = px_left work_area + (available_width - width) div 2;
          top = px_top work_area + (available_height - height) div 2
      in \<lparr> px_left = left, px_top = top, px_right = left + width, px_bottom = top + height \<rparr>)"

lemma round_rat_nonneg: "0 \<le> x \<Longrightarrow> 0 \<le> round_rat x"
  by (auto simp: round_rat_def Let_def)

lemma pow2_pos: "0 < pow2 k"
  by (simp add: pow2_def)

lemma double_of_rat_nonneg: "0 \<le> r \<Longrightarrow> 0 \<le> double_of_rat r"
  using pow2_pos by (auto simp: double_of_rat_def Let_def less_imp_le intro!: divide_nonneg_pos round_rat_nonneg
      mult_nonneg_nonneg split: prod.split)

text \<open>On a display that is not empty the restored window always lies inside the work area, whatever
  size and scale were asked for, is never larger than asked, and is centred to within a pixel.\<close>

theorem restored_window_fits:
  assumes "0 \<le> px_width wa" and "0 \<le> px_height wa"
  shows "let b = RestoredWindowBounds wa w h s in
    px_left wa \<le> px_left b \<and> px_left b \<le> px_right b \<and> px_right b \<le> px_right wa \<and>
    px_top wa \<le> px_top b \<and> px_top b \<le> px_bottom b \<and> px_bottom b \<le> px_bottom wa \<and>
    \<bar>(px_left b - px_left wa) - (px_right wa - px_right b)\<bar> \<le> 1 \<and>
    \<bar>(px_top b - px_top wa) - (px_bottom wa - px_bottom b)\<bar> \<le> 1"
proof -
  define sc where "sc = (if s \<le> 0 then 1 else s)"
  have sc: "0 < sc" by (simp add: sc_def)
  define W where "W = min (floor (double_mult (of_nat (unat w)) sc)) (px_width wa)"
  define H where "H = min (floor (double_mult (of_nat (unat h)) sc)) (px_height wa)"
  have nn: "0 \<le> floor (double_mult (of_nat n) sc)" for n :: nat
    using sc by (simp add: double_mult_def double_of_rat_nonneg)
  have W: "0 \<le> W" "W \<le> px_width wa" and H: "0 \<le> H" "H \<le> px_height wa"
    using nn [of "unat w"] nn [of "unat h"] assms unfolding W_def H_def by simp_all
  have b: "RestoredWindowBounds wa w h s =
      \<lparr> px_left = px_left wa + (px_width wa - W) div 2, px_top = px_top wa + (px_height wa - H) div 2,
        px_right = px_left wa + (px_width wa - W) div 2 + W,
        px_bottom = px_top wa + (px_height wa - H) div 2 + H \<rparr>"
    using assms by (simp add: RestoredWindowBounds_def W_def H_def sc_def Let_def)
  have "\<bar>2 * ((px_width wa - W) div 2) - (px_width wa - W)\<bar> \<le> 1"
    and "\<bar>2 * ((px_height wa - H) div 2) - (px_height wa - H)\<bar> \<le> 1"
    by presburger+
  with W H show ?thesis unfolding b Let_def px_width_def px_height_def by simp linarith
qed

lemma restored_window_fits_witness:
  "px_right (RestoredWindowBounds \<lparr> px_left = 0, px_top = 0, px_right = 1920, px_bottom = 1040 \<rparr> 1920 1080 (5 / 4))
     \<le> 1920"
  using restored_window_fits [of "\<lparr> px_left = 0, px_top = 0, px_right = 1920, px_bottom = 1040 \<rparr>" 1920 1080 "5 / 4"]
  by (simp add: px_width_def px_height_def Let_def)

section \<open>What wWinMain does with the log\<close>

record StartupEnv =
  se_stdout :: "string option"
  se_log_file :: "string option"
  se_archives :: "string option"
  se_default_log_path :: string
  se_stdout_connected :: bool
  se_attach_console :: bool
  se_debugger :: bool
  se_redirect_follows :: bool

datatype StartupEffect =
    StCreateConsole
  | StRedirectToConsole
  | StInstallCrashHandlers string string
  | StRotateLogs string int
  | StRedirectToFile string
  | StSetEnv string string
  | StStderr string
  | StInitRunnerLog string

text \<open>\<open>atoi\<close>: the value \<open>strtol\<close> reads, without an error.\<close>

definition max_archives_of :: "string option \<Rightarrow> int" where
  "max_archives_of archives_env =
     (case archives_env of
        None \<Rightarrow> 5
      | Some s \<Rightarrow> if s = [] then 5 else let parsed = fst (strtol10 s) in if 0 \<le> parsed then parsed else 5)"

definition explicit_log :: "StartupEnv \<Rightarrow> bool" where
  "explicit_log env \<longleftrightarrow> (case se_log_file env of None \<Rightarrow> False | Some s \<Rightarrow> s \<noteq> [])"

definition startup_log_path :: "StartupEnv \<Rightarrow> string" where
  "startup_log_path env = (if explicit_log env then the (se_log_file env) else se_default_log_path env)"

definition startup_debug_mode :: "StartupEnv \<Rightarrow> bool" where
  "startup_debug_mode env \<longleftrightarrow> se_stdout env = Some ''1'' \<or> se_stdout env = Some ''true''"

definition startup_target :: "StartupEnv \<Rightarrow> OutputTarget" where
  "startup_target env = ChooseOutputTarget
     \<lparr> explicit_log_file = explicit_log env, console_requested = startup_debug_mode env,
       stdout_connected = se_stdout_connected env \<rparr>"

definition startup_console :: "StartupEnv \<Rightarrow> StartupEffect list" where
  "startup_console env =
     (if startup_debug_mode env then
        (if \<not> se_attach_console env then [StCreateConsole] else [StRedirectToConsole])
      else if \<not> se_attach_console env \<and> se_debugger env then [StCreateConsole] else [])"

definition startup_logging :: "StartupEnv \<Rightarrow> StartupEffect list" where
  "startup_logging env =
     (let log_path = startup_log_path env; max_archives = max_archives_of (se_archives env) in
      startup_console env @
      (if startup_target env = kInherited then
         [StInstallCrashHandlers (DirectoryOf (se_default_log_path env)) [],
          StStderr (''[startup] logging to the attached console/pipe'' @ [newline])]
       else if log_path \<noteq> [] then
         [StRotateLogs log_path max_archives, StRedirectToFile log_path,
          StSetEnv ''CENTROID_LOG_FILE'' log_path] @
         (if se_redirect_follows env then [StSetEnv ''CENTROID_LOG_REDIRECTED'' ''1''] else []) @
         [StInstallCrashHandlers (DirectoryOf log_path) log_path,
          StStderr (''[startup] logging to '' @ log_path @ '' (keeping '' @ show_int max_archives @
            '' previous runs)'' @ [newline])]
       else []) @
      [StInitRunnerLog log_path])"

text \<open>A stdout somebody reads is never redirected to a file and the log it would have gone to is
  neither rotated nor claimed. When nobody reads it and a log path exists, the log is rotated before the
  redirect truncates it, and the Dart side is told the file is taken only when the redirect also
  took the engine's streams. The runner's own log is opened in every case.\<close>

theorem startup_log_routing:
  "(se_stdout_connected env \<or> startup_debug_mode env \<longrightarrow>
      (\<forall>e \<in> set (startup_logging env). \<forall>p n v.
         e \<noteq> StRedirectToFile p \<and> e \<noteq> StRotateLogs p n \<and> e \<noteq> StSetEnv p v)) \<and>
   (\<not> se_stdout_connected env \<and> \<not> startup_debug_mode env \<and> startup_log_path env \<noteq> [] \<longrightarrow>
      (\<exists>pre post. startup_logging env =
         pre @ [StRotateLogs (startup_log_path env) (max_archives_of (se_archives env)),
                StRedirectToFile (startup_log_path env)] @ post)) \<and>
   (StSetEnv ''CENTROID_LOG_REDIRECTED'' ''1'' \<in> set (startup_logging env) \<longrightarrow> se_redirect_follows env) \<and>
   last (startup_logging env) = StInitRunnerLog (startup_log_path env)"
proof (intro conjI impI)
  assume "se_stdout_connected env \<or> startup_debug_mode env"
  then have "startup_target env = kInherited" by (auto simp: startup_target_def ChooseOutputTarget_def)
  then show "\<forall>e \<in> set (startup_logging env). \<forall>p n v.
         e \<noteq> StRedirectToFile p \<and> e \<noteq> StRotateLogs p n \<and> e \<noteq> StSetEnv p v"
    by (auto simp: startup_logging_def startup_console_def Let_def)
next
  assume a: "\<not> se_stdout_connected env \<and> \<not> startup_debug_mode env \<and> startup_log_path env \<noteq> []"
  then have "startup_target env = kFile" by (simp add: startup_target_def ChooseOutputTarget_def)
  with a show "\<exists>pre post. startup_logging env =
         pre @ [StRotateLogs (startup_log_path env) (max_archives_of (se_archives env)),
                StRedirectToFile (startup_log_path env)] @ post"
    unfolding startup_logging_def Let_def by - (rule exI [of _ "startup_console env"], simp)
next
  assume "StSetEnv ''CENTROID_LOG_REDIRECTED'' ''1'' \<in> set (startup_logging env)"
  then show "se_redirect_follows env" by (auto simp: startup_logging_def startup_console_def Let_def split: if_splits)
next
  show "last (startup_logging env) = StInitRunnerLog (startup_log_path env)"
    by (simp add: startup_logging_def Let_def)
qed

definition packaged_launch :: StartupEnv where
  "packaged_launch = \<lparr> se_stdout = None, se_log_file = None, se_archives = None,
     se_default_log_path = ''hmi.log'', se_stdout_connected = False, se_attach_console = False,
     se_debugger = False, se_redirect_follows = False \<rparr>"

lemma startup_log_routing_witness:
  "\<exists>pre post. startup_logging packaged_launch =
     pre @ [StRotateLogs ''hmi.log'' 5, StRedirectToFile ''hmi.log''] @ post"
proof -
  have "\<not> se_stdout_connected packaged_launch \<and> \<not> startup_debug_mode packaged_launch \<and>
      startup_log_path packaged_launch \<noteq> []"
    and "startup_log_path packaged_launch = ''hmi.log''" "max_archives_of (se_archives packaged_launch) = 5"
    by (simp_all add: packaged_launch_def startup_debug_mode_def startup_log_path_def explicit_log_def
        max_archives_of_def)
  with startup_log_routing [of packaged_launch] show ?thesis by simp
qed

end
