(* ===== verification/Output_Redirection.thy ===== *)
theory Output_Redirection
  imports Log_Files
begin

text \<open>
  Where the runner's output goes (\<open>utils.cpp\<close>): the redirection of the standard streams into the log file, which
  keeps a connected console or pipe supplied through a pipe and a pump thread, and the other calls of Windows
  that \<open>wWinMain\<close> makes before its window. The handles of the process, the descriptors of the C runtime and the
  standard handles are state; the calls act on it as documented, and whether they succeed is a parameter.
\<close>

section \<open>Handles and descriptors\<close>

text \<open>A handle is an index of the table. Windows and the runtime hand out the lowest that is free.\<close>

definition entry :: "'a option list \<Rightarrow> nat \<Rightarrow> 'a option" where
  "entry xs i = (if i < length xs then xs ! i else None)"

definition first_free :: "'a option list \<Rightarrow> nat" where
  "first_free xs = length (takeWhile (\<lambda>x. x \<noteq> None) xs)"

definition fill :: "'a option list \<Rightarrow> nat \<Rightarrow> 'a option \<Rightarrow> 'a option list" where
  "fill xs i x = (if i < length xs then xs[i := x] else xs @ replicate (i - length xs) None @ [x])"

lemma entry_first_free [simp]: "entry xs (first_free xs) = None"
  by (auto simp: entry_def first_free_def dest!: nth_length_takeWhile)

lemma entry_fill: "entry (fill xs i x) = (entry xs)(i := x)"
  by (rule ext) (auto simp: entry_def fill_def nth_append)

datatype KernelObject = Inherited nat | LogFile string | PipeRead nat | PipeWrite nat

text \<open>The thread that copies what it reads from a pipe to the console, if it has one, and to the file.\<close>

record Pump =
  pump_read :: nat
  pump_console :: "nat option"
  pump_file :: nat

record IoState =
  io_handles :: "KernelObject option list"
  io_fds :: "nat option list"
  std_output :: "nat option"
  std_error :: "nat option"
  io_pipes :: nat
  io_pumps :: "Pump list"
  engine_resyncs :: nat

definition object :: "IoState \<Rightarrow> nat \<Rightarrow> KernelObject option" where
  "object s = entry (io_handles s)"

definition descriptor :: "IoState \<Rightarrow> nat \<Rightarrow> nat option" where
  "descriptor s = entry (io_fds s)"

definition new_handle :: "KernelObject \<Rightarrow> IoState \<Rightarrow> nat \<times> IoState" where
  "new_handle obj s =
     (let h = first_free (io_handles s) in (h, s\<lparr>io_handles := fill (io_handles s) h (Some obj)\<rparr>))"

definition CloseHandle :: "nat \<Rightarrow> IoState \<Rightarrow> IoState" where
  "CloseHandle h s = s\<lparr>io_handles := fill (io_handles s) h None\<rparr>"

text \<open>The first three descriptors are the runtime's own. A descriptor owns its handle.\<close>

definition open_osfhandle :: "nat \<Rightarrow> IoState \<Rightarrow> nat \<times> IoState" where
  "open_osfhandle h s =
     (let fd = 3 + first_free (drop 3 (io_fds s)) in (fd, s\<lparr>io_fds := fill (io_fds s) fd (Some h)\<rparr>))"

definition close_fd :: "nat \<Rightarrow> IoState \<Rightarrow> IoState" where
  "close_fd fd s =
     (case descriptor s fd of
        None \<Rightarrow> s
      | Some h \<Rightarrow> (CloseHandle h s)\<lparr>io_fds := fill (io_fds s) fd None\<rparr>)"

text \<open>\<open>_dup2\<close> closes the descriptor it replaces and then duplicates the handle.\<close>

definition dup2 :: "nat \<Rightarrow> nat \<Rightarrow> IoState \<Rightarrow> IoState" where
  "dup2 source target s =
     (case Option.bind (descriptor s source) (object s) of
        None \<Rightarrow> s
      | Some obj \<Rightarrow>
          if source = target then s
          else let (h, s) = new_handle obj (close_fd target s)
               in s\<lparr>io_fds := fill (io_fds s) target (Some h)\<rparr>)"

section \<open>The redirection\<close>

text \<open>Which calls succeed, and whether the process has a console window.\<close>

record RedirectHost =
  path_converts :: bool
  file_opens :: bool
  duplicates :: bool
  pipe_created :: bool
  pipe_descriptor :: bool
  pipe_stream :: bool
  file_descriptor :: bool
  file_stream :: bool
  console_window :: bool

text \<open>The handle of a standard output that leads somewhere.\<close>

definition connected :: "IoState \<Rightarrow> nat option" where
  "connected s = (case std_output s of None \<Rightarrow> None | Some h \<Rightarrow> if object s h = None then None else Some h)"

definition StdoutIsConnected :: "IoState \<Rightarrow> bool" where
  "StdoutIsConnected s \<longleftrightarrow> connected s \<noteq> None"

definition set_std_handles :: "nat \<Rightarrow> IoState \<Rightarrow> IoState" where
  "set_std_handles h s = s\<lparr>std_output := Some h, std_error := Some h\<rparr>"

definition resync :: "IoState \<Rightarrow> IoState" where
  "resync s = s\<lparr>engine_resyncs := Suc (engine_resyncs s)\<rparr>"

text \<open>The console's own reference, and the thread; the answer is whether the streams now go through the pipe.\<close>

definition own_console :: "RedirectHost \<Rightarrow> nat \<Rightarrow> IoState \<Rightarrow> nat option \<times> IoState" where
  "own_console env hConsole s =
     (case (duplicates env, object s hConsole) of
        (True, Some obj) \<Rightarrow> (case new_handle obj s of (h, s) \<Rightarrow> (Some h, s))
      | _ \<Rightarrow> (None, s))"

definition close_console :: "nat option \<Rightarrow> IoState \<Rightarrow> IoState" where
  "close_console owned s = (case owned of None \<Rightarrow> s | Some h \<Rightarrow> CloseHandle h s)"

definition start_pump :: "nat option \<Rightarrow> nat \<Rightarrow> IoState \<Rightarrow> nat \<times> nat \<times> IoState" where
  "start_pump owned hFile s =
     (let k = io_pipes s;
          (readEnd, s) = new_handle (PipeRead k) s;
          (writeEnd, s) = new_handle (PipeWrite k) s
      in (readEnd, writeEnd,
          s\<lparr>io_pipes := Suc k,
            io_pumps := io_pumps s @ [\<lparr>pump_read = readEnd, pump_console = owned, pump_file = hFile\<rparr>]\<rparr>))"

definition tee :: "RedirectHost \<Rightarrow> nat \<Rightarrow> nat \<Rightarrow> IoState \<Rightarrow> bool \<times> IoState" where
  "tee env hConsole hFile s =
     (let (hConsoleOwned, s) = own_console env hConsole s
      in if pipe_created env
         then let (readEnd, writeEnd, s) = start_pump hConsoleOwned hFile s
              in if pipe_descriptor env
                 then let (pipeFd, s) = open_osfhandle writeEnd s
                      in if pipe_stream env
                         then (True, resync (set_std_handles writeEnd (dup2 pipeFd 2 (dup2 pipeFd 1 s))))
                         else (False, close_console hConsoleOwned (CloseHandle readEnd (close_fd pipeFd s)))
                 else (False, close_console hConsoleOwned (CloseHandle readEnd s))
         else (False, close_console hConsoleOwned s))"

definition redirect_to_file :: "RedirectHost \<Rightarrow> nat \<Rightarrow> IoState \<Rightarrow> bool \<times> IoState" where
  "redirect_to_file env hFile s =
     (if \<not> file_descriptor env then (False, CloseHandle hFile s)
      else let (fd, s) = open_osfhandle hFile s
           in if \<not> file_stream env then (False, close_fd fd s)
              else let s = set_std_handles hFile (dup2 fd 2 (dup2 fd 1 s))
                   in if console_window env then (True, resync s) else (False, s))"

definition RedirectIOToFile :: "RedirectHost \<Rightarrow> string \<Rightarrow> IoState \<Rightarrow> bool \<times> IoState" where
  "RedirectIOToFile env path s =
     (if \<not> path_converts env \<or> \<not> file_opens env then (False, s)
      else let (hFile, s) = new_handle (LogFile path) s
           in case connected s of
                None \<Rightarrow> redirect_to_file env hFile s
              | Some hConsole \<Rightarrow>
                  (case tee env hConsole hFile s of
                     (True, s) \<Rightarrow> (True, s)
                   | (False, s) \<Rightarrow> redirect_to_file env hFile s))"

section \<open>Command line and process\<close>

text \<open>
  \<open>WideCharToMultiByte\<close> is a parameter: the bytes of a text with its terminating NUL, or without when it is given
  a length, and \<open>None\<close> where it fails.
\<close>

definition Utf8FromUtf16 :: "(16 word list \<Rightarrow> string option) \<Rightarrow> 16 word list option \<Rightarrow> string" where
  "Utf8FromUtf16 to_utf8 utf16_string =
     (case utf16_string of
        None \<Rightarrow> []
      | Some s \<Rightarrow>
          if Utf8LengthWithoutNul (case to_utf8 s of None \<Rightarrow> 0 | Some t \<Rightarrow> int (length t) + 1) = 0 then []
          else case to_utf8 s of None \<Rightarrow> [] | Some t \<Rightarrow> t)"

definition GetCommandLineArguments :: "(16 word list \<Rightarrow> string option) \<Rightarrow> 16 word list list option \<Rightarrow> string list" where
  "GetCommandLineArguments to_utf8 argv =
     (case argv of None \<Rightarrow> [] | Some argv \<Rightarrow> map (\<lambda>s. Utf8FromUtf16 to_utf8 (Some s)) (drop 1 argv))"

record StationHost =
  stays_awake :: bool
  has_kernel32 :: bool
  has_set_process_information :: bool
  unthrottled :: bool
  last_error :: u32
  restart_result :: u32

datatype StationEffect = RequestAwake | OptOutOfThrottling | RegisterRestart | StationStderr string

definition ConfigureUnattendedOperation :: "StationHost \<Rightarrow> StationEffect list" where
  "ConfigureUnattendedOperation env =
     RequestAwake
     # (if stays_awake env then []
        else [StationStderr (''[startup] SetThreadExecutionState declined; the machine may still sleep under the app'' @ [newline])])
     @ (if has_kernel32 env \<and> has_set_process_information env
        then OptOutOfThrottling
             # (if unthrottled env then []
                else [StationStderr (''[startup] could not opt out of power throttling (error '' @ show_u32 (last_error env) @ '')'' @ [newline])])
        else [])
     @ RegisterRestart
     # (if bit (restart_result env) 31
        then [StationStderr (''[startup] RegisterApplicationRestart failed (hr=0x'' @ show_hex False (unat (restart_result env)) @ '')'' @ [newline])]
        else [])"


section \<open>The tables\<close>

lemma new_handle_fields:
  assumes "new_handle obj s = (h, s')"
  shows "object s h = None" and "object s' = (object s)(h \<mapsto> obj)" and "descriptor s' = descriptor s"
    and "std_output s' = std_output s" and "io_pipes s' = io_pipes s" and "io_pumps s' = io_pumps s"
  using assms by (auto simp: new_handle_def object_def descriptor_def Let_def entry_fill)

lemma close_handle_fields [simp]:
  "object (CloseHandle h s) = (object s)(h := None)" "descriptor (CloseHandle h s) = descriptor s"
  "std_output (CloseHandle h s) = std_output s" "io_pipes (CloseHandle h s) = io_pipes s" "io_pumps (CloseHandle h s) = io_pumps s"
  by (simp_all add: CloseHandle_def object_def descriptor_def entry_fill)

lemma open_osfhandle_fields:
  assumes "open_osfhandle h s = (fd, s')"
  shows "descriptor s fd = None" and "3 \<le> fd" and "descriptor s' = (descriptor s)(fd \<mapsto> h)" and "object s' = object s"
    and "std_output s' = std_output s" and "io_pipes s' = io_pipes s" and "io_pumps s' = io_pumps s"
proof -
  have "entry xs (3 + first_free (drop 3 xs)) = None" for xs :: "nat option list"
    using entry_first_free [of "drop 3 xs"] by (auto simp: entry_def split: if_splits)
  with assms show "descriptor s fd = None" by (auto simp: open_osfhandle_def descriptor_def Let_def)
qed (use assms in \<open>auto simp: open_osfhandle_def descriptor_def object_def Let_def entry_fill\<close>)

lemma close_fd_fields [simp]:
  "object (close_fd fd s) = (case descriptor s fd of None \<Rightarrow> object s | Some h \<Rightarrow> (object s)(h := None))"
  "descriptor (close_fd fd s) = (descriptor s)(fd := None)"
  "std_output (close_fd fd s) = std_output s" "io_pipes (close_fd fd s) = io_pipes s" "io_pumps (close_fd fd s) = io_pumps s"
  by (auto simp: close_fd_def CloseHandle_def object_def descriptor_def entry_fill fun_upd_idem split: option.split)

text \<open>Every descriptor owns a handle of its own, and that handle is open.\<close>

definition descriptors_ok :: "IoState \<Rightarrow> bool" where
  "descriptors_ok s \<longleftrightarrow> (\<forall>f h. descriptor s f = Some h \<longrightarrow> object s h \<noteq> None)
     \<and> (\<forall>f g h. descriptor s f = Some h \<longrightarrow> descriptor s g = Some h \<longrightarrow> f = g)"

text \<open>An open handle that no descriptor owns.\<close>

definition free_standing :: "IoState \<Rightarrow> nat \<Rightarrow> KernelObject \<Rightarrow> bool" where
  "free_standing s h obj \<longleftrightarrow> object s h = Some obj \<and> (\<forall>f. descriptor s f \<noteq> Some h)"

definition leads_to :: "IoState \<Rightarrow> nat \<Rightarrow> KernelObject \<Rightarrow> bool" where
  "leads_to s fd obj \<longleftrightarrow> (\<exists>h. descriptor s fd = Some h \<and> object s h = Some obj)"

lemma new_handle_ok:
  assumes "new_handle obj s = (h, s')" and "descriptors_ok s"
  shows "descriptors_ok s'" and "free_standing s' h obj" and "free_standing s x o' \<Longrightarrow> free_standing s' x o' \<and> x \<noteq> h"
    and "leads_to s fd o' \<Longrightarrow> leads_to s' fd o'"
  using assms new_handle_fields [OF assms(1)] by (fastforce simp: descriptors_ok_def free_standing_def leads_to_def)+

lemma open_osfhandle_ok:
  assumes "open_osfhandle h s = (fd, s')" and "descriptors_ok s" and "free_standing s h obj"
  shows "descriptors_ok s'" and "leads_to s' fd obj" and "3 \<le> fd" and "free_standing s x o' \<Longrightarrow> x \<noteq> h \<Longrightarrow> free_standing s' x o'"
    and "leads_to s f o' \<Longrightarrow> leads_to s' f o'"
  using assms open_osfhandle_fields [OF assms(1)] by (auto simp: descriptors_ok_def free_standing_def leads_to_def)

lemma dup2_ok:
  assumes ok: "descriptors_ok s" and source: "leads_to s source obj" and ne: "source \<noteq> target"
  shows "descriptors_ok (dup2 source target s)" and "leads_to (dup2 source target s) target obj"
    and "leads_to s f o' \<Longrightarrow> f \<noteq> target \<Longrightarrow> leads_to (dup2 source target s) f o'"
    and "free_standing s x o' \<Longrightarrow> free_standing (dup2 source target s) x o'"
    and "std_output (dup2 source target s) = std_output s" and "io_pipes (dup2 source target s) = io_pipes s"
    and "io_pumps (dup2 source target s) = io_pumps s"
proof -
  obtain h s1 where n: "new_handle obj (close_fd target s) = (h, s1)" by fastforce
  note f = new_handle_fields [OF n, simplified]
  let ?s = "s1\<lparr>io_fds := fill (io_fds s1) target (Some h)\<rparr>"
  from source ne n have d: "dup2 source target s = ?s"
    by (auto simp: dup2_def leads_to_def)
  let ?o = "\<lambda>x. if descriptor s target = Some x then None else object s x"
  have "(case descriptor s target of None \<Rightarrow> object s | Some g \<Rightarrow> (object s)(g := None)) = ?o"
    by (auto simp: fun_eq_iff split: option.split)
  with f(1,2) have h: "?o h = None" and new: "object ?s = (\<lambda>x. if x = h then Some obj else ?o x)"
    by (auto simp: fun_eq_iff object_def entry_fill)
  have fds: "descriptor ?s = (descriptor s)(target \<mapsto> h)"
    using f(3) by (simp add: descriptor_def entry_fill)
  have kept: "k \<noteq> h \<and> object ?s k = object s k" if "descriptor s g = Some k" "g \<noteq> target" for g k
  proof -
    from ok that have "descriptor s target \<noteq> Some k" "object s k \<noteq> None" unfolding descriptors_ok_def by blast+
    with h show ?thesis unfolding new by (auto split: if_splits)
  qed
  show "descriptors_ok (dup2 source target s)"
    unfolding d descriptors_ok_def
  proof (intro conjI allI impI)
    show "object ?s k \<noteq> None" if "descriptor ?s g = Some k" for g k
    proof (cases "g = target")
      case True
      with that have "k = h" by (simp add: fds)
      then show ?thesis unfolding new by simp
    next
      case False
      with that have "descriptor s g = Some k" by (simp add: fds)
      with kept [OF this False] ok show ?thesis unfolding descriptors_ok_def by metis
    qed
    show "a = b" if "descriptor ?s a = Some k" "descriptor ?s b = Some k" for a b k
      using that kept [of a k] kept [of b k] ok unfolding fds descriptors_ok_def by (auto split: if_splits)
  qed
  show "leads_to (dup2 source target s) target obj"
    by (simp add: d leads_to_def fds new)
  show "leads_to (dup2 source target s) f o'" if "leads_to s f o'" "f \<noteq> target"
    using that kept [of f] unfolding d leads_to_def fds by auto
  show "free_standing (dup2 source target s) x o'" if "free_standing s x o'"
  proof -
    from that h have "x \<noteq> h" by (auto simp: free_standing_def split: if_splits)
    with that show ?thesis by (auto simp: d free_standing_def fds new)
  qed
  show "std_output (dup2 source target s) = std_output s" "io_pipes (dup2 source target s) = io_pipes s"
    "io_pumps (dup2 source target s) = io_pumps s"
    by (simp_all add: d f(4-6))
qed

lemma close_handle_ok:
  assumes "descriptors_ok s" and "free_standing s h obj"
  shows "descriptors_ok (CloseHandle h s)" and "free_standing s x o' \<Longrightarrow> x \<noteq> h \<Longrightarrow> free_standing (CloseHandle h s) x o'"
    and "leads_to s f o' \<Longrightarrow> leads_to (CloseHandle h s) f o'"
  using assms by (auto simp: descriptors_ok_def free_standing_def leads_to_def)

lemma close_fd_ok:
  assumes "descriptors_ok s" and "leads_to s fd obj"
  shows "descriptors_ok (close_fd fd s)" and "free_standing s x o' \<Longrightarrow> free_standing (close_fd fd s) x o'"
    and "leads_to s f o' \<Longrightarrow> f \<noteq> fd \<Longrightarrow> leads_to (close_fd fd s) f o'"
proof -
  from assms(2) obtain h where h: "descriptor s fd = Some h" by (auto simp: leads_to_def)
  have "k \<noteq> h" if "descriptor s g = Some k" "g \<noteq> fd" for g k
    using assms(1) h that unfolding descriptors_ok_def by metis
  with h show "descriptors_ok (close_fd fd s)" and "leads_to s f o' \<Longrightarrow> f \<noteq> fd \<Longrightarrow> leads_to (close_fd fd s) f o'"
    using assms(1) by (auto simp: descriptors_ok_def leads_to_def split: if_splits)
  show "free_standing s x o' \<Longrightarrow> free_standing (close_fd fd s) x o'"
    using h by (auto simp: free_standing_def)
qed

section \<open>Where a write goes\<close>

text \<open>What the pumps of a pipe copy to, and the objects a write reaches in the end; \<open>None\<close> is a circle.\<close>

definition forwarded :: "IoState \<Rightarrow> nat \<Rightarrow> KernelObject list" where
  "forwarded s k =
     concat (map (\<lambda>p. if object s (pump_read p) = Some (PipeRead k)
                      then (case Option.bind (pump_console p) (object s) of None \<Rightarrow> [] | Some obj \<Rightarrow> [obj])
                           @ (case object s (pump_file p) of None \<Rightarrow> [] | Some obj \<Rightarrow> [obj])
                      else []) (io_pumps s))"

fun sinks :: "nat \<Rightarrow> IoState \<Rightarrow> KernelObject \<Rightarrow> KernelObject list option" where
  "sinks 0 s obj = None"
| "sinks (Suc n) s obj =
     (case obj of PipeWrite k \<Rightarrow> map_option concat (those (map (sinks n s) (forwarded s k))) | _ \<Rightarrow> Some [obj])"

definition reached :: "IoState \<Rightarrow> nat \<Rightarrow> KernelObject list option" where
  "reached s fd =
     (case Option.bind (descriptor s fd) (object s) of None \<Rightarrow> Some [] | Some obj \<Rightarrow> sinks (Suc (Suc (io_pipes s))) s obj)"

text \<open>The process as it starts: whatever it has it was given, and a standard output it has is open.\<close>

definition started :: "IoState \<Rightarrow> bool" where
  "started s \<longleftrightarrow> descriptors_ok s \<and> io_pipes s = 0 \<and> io_pumps s = []
     \<and> (\<forall>h obj. object s h = Some obj \<longrightarrow> (\<exists>i. obj = Inherited i))
     \<and> (\<forall>h. std_output s = Some h \<longrightarrow> object s h \<noteq> None)"

definition tee_works :: "RedirectHost \<Rightarrow> IoState \<Rightarrow> bool" where
  "tee_works env s \<longleftrightarrow> StdoutIsConnected s \<and> pipe_created env \<and> pipe_descriptor env \<and> pipe_stream env"

lemma reached_leads: "leads_to s fd obj \<Longrightarrow> reached s fd = sinks (Suc (Suc (io_pipes s))) s obj"
  by (auto simp: reached_def leads_to_def)

lemma reached_file: "leads_to s fd (LogFile path) \<Longrightarrow> reached s fd = Some [LogFile path]"
  by (simp add: reached_leads)

lemma both_descriptors:
  assumes "descriptors_ok s" and "leads_to s fd obj" and "3 \<le> fd"
  shows "descriptors_ok (dup2 fd 2 (dup2 fd 1 s))" and "leads_to (dup2 fd 2 (dup2 fd 1 s)) 1 obj"
    and "leads_to (dup2 fd 2 (dup2 fd 1 s)) 2 obj" and "free_standing s x o' \<Longrightarrow> free_standing (dup2 fd 2 (dup2 fd 1 s)) x o'"
    and "io_pipes (dup2 fd 2 (dup2 fd 1 s)) = io_pipes s" and "io_pumps (dup2 fd 2 (dup2 fd 1 s)) = io_pumps s"
proof -
  have ne: "fd \<noteq> 1" "fd \<noteq> 2" using assms(3) by simp_all
  note one = dup2_ok [OF assms(1,2) ne(1)]
  note two = dup2_ok [OF one(1) one(3) [OF assms(2) ne(1)] ne(2)]
  from one(2) two show "descriptors_ok (dup2 fd 2 (dup2 fd 1 s))" "leads_to (dup2 fd 2 (dup2 fd 1 s)) 1 obj"
    "leads_to (dup2 fd 2 (dup2 fd 1 s)) 2 obj" "free_standing s x o' \<Longrightarrow> free_standing (dup2 fd 2 (dup2 fd 1 s)) x o'"
    "io_pipes (dup2 fd 2 (dup2 fd 1 s)) = io_pipes s" "io_pumps (dup2 fd 2 (dup2 fd 1 s)) = io_pumps s"
    using one(4-) by simp_all
qed

lemma set_std_fields [simp]:
  "leads_to (set_std_handles h s) = leads_to s" "leads_to (resync s) = leads_to s"
  "object (set_std_handles h s) = object s" "object (resync s) = object s"
  "io_pipes (set_std_handles h s) = io_pipes s" "io_pipes (resync s) = io_pipes s"
  "io_pumps (set_std_handles h s) = io_pumps s" "io_pumps (resync s) = io_pumps s"
  by (simp_all add: set_std_handles_def resync_def leads_to_def object_def descriptor_def fun_eq_iff)

lemma file_redirected:
  assumes "descriptors_ok s" and "free_standing s hFile (LogFile path)"
  shows "file_descriptor env \<Longrightarrow> file_stream env \<Longrightarrow>
      \<exists>s'. redirect_to_file env hFile s = (console_window env, s') \<and> leads_to s' 1 (LogFile path) \<and> leads_to s' 2 (LogFile path)"
    and "\<not> (file_descriptor env \<and> file_stream env) \<Longrightarrow>
      \<exists>s'. redirect_to_file env hFile s = (False, s') \<and> (\<forall>fd obj. fd < 3 \<longrightarrow> leads_to s fd obj \<longrightarrow> leads_to s' fd obj)"
proof -
  obtain fd s1 where o: "open_osfhandle hFile s = (fd, s1)" by fastforce
  note opened = open_osfhandle_ok [OF o assms]
  note both = both_descriptors [OF opened(1-3)]
  show "file_descriptor env \<Longrightarrow> file_stream env \<Longrightarrow>
      \<exists>s'. redirect_to_file env hFile s = (console_window env, s') \<and> leads_to s' 1 (LogFile path) \<and> leads_to s' 2 (LogFile path)"
    using o both by (simp add: redirect_to_file_def Let_def)
  show "\<not> (file_descriptor env \<and> file_stream env) \<Longrightarrow>
      \<exists>s'. redirect_to_file env hFile s = (False, s') \<and> (\<forall>fd obj. fd < 3 \<longrightarrow> leads_to s fd obj \<longrightarrow> leads_to s' fd obj)"
    using o opened(3,5) close_handle_ok(3) [OF assms] close_fd_ok(3) [OF opened(1,2)]
    by (cases "file_descriptor env") (auto simp: redirect_to_file_def)
qed


lemma console_owned:
  assumes "own_console env hConsole s = (owned, s')" and "descriptors_ok s" and "object s hConsole = Some obj"
  shows "descriptors_ok s'" and "free_standing s x o' \<Longrightarrow> free_standing s' x o' \<and> owned \<noteq> Some x"
    and "leads_to s fd o' \<Longrightarrow> leads_to s' fd o'" and "io_pipes s' = io_pipes s" and "io_pumps s' = io_pumps s"
    and "case owned of None \<Rightarrow> \<not> duplicates env | Some h \<Rightarrow> duplicates env \<and> free_standing s' h obj"
proof -
  have "descriptors_ok s' \<and> (\<forall>x o'. free_standing s x o' \<longrightarrow> free_standing s' x o' \<and> owned \<noteq> Some x)
      \<and> (\<forall>fd o'. leads_to s fd o' \<longrightarrow> leads_to s' fd o') \<and> io_pipes s' = io_pipes s \<and> io_pumps s' = io_pumps s
      \<and> (case owned of None \<Rightarrow> \<not> duplicates env | Some h \<Rightarrow> duplicates env \<and> free_standing s' h obj)"
  proof (cases "duplicates env")
    case True
    obtain h s1 where n: "new_handle obj s = (h, s1)" by fastforce
    with True assms(1,3) have "owned = Some h" "s' = s1" by (auto simp: own_console_def)
    with True new_handle_ok [OF n assms(2)] new_handle_fields(5,6) [OF n] show ?thesis by auto
  qed (use assms in \<open>auto simp: own_console_def\<close>)
  then show "descriptors_ok s'" and "free_standing s x o' \<Longrightarrow> free_standing s' x o' \<and> owned \<noteq> Some x"
    and "leads_to s fd o' \<Longrightarrow> leads_to s' fd o'" and "io_pipes s' = io_pipes s" and "io_pumps s' = io_pumps s"
    and "case owned of None \<Rightarrow> \<not> duplicates env | Some h \<Rightarrow> duplicates env \<and> free_standing s' h obj"
    by blast+
qed

lemma pump_started:
  assumes "start_pump owned hFile s = (readEnd, writeEnd, s')" and "descriptors_ok s"
  shows "descriptors_ok s'" and "free_standing s x o' \<Longrightarrow> free_standing s' x o' \<and> x \<noteq> readEnd \<and> x \<noteq> writeEnd"
    and "leads_to s fd o' \<Longrightarrow> leads_to s' fd o'" and "readEnd \<noteq> writeEnd"
    and "free_standing s' readEnd (PipeRead (io_pipes s))" and "free_standing s' writeEnd (PipeWrite (io_pipes s))"
    and "io_pipes s' = Suc (io_pipes s)"
    and "io_pumps s' = io_pumps s @ [\<lparr>pump_read = readEnd, pump_console = owned, pump_file = hFile\<rparr>]"
proof -
  obtain r s1 where r: "new_handle (PipeRead (io_pipes s)) s = (r, s1)" by fastforce
  obtain w s2 where w: "new_handle (PipeWrite (io_pipes s)) s1 = (w, s2)" by fastforce
  note rok = new_handle_ok [OF r assms(2)]
  note wok = new_handle_ok [OF w rok(1)]
  from assms(1) r w have s': "readEnd = r" "writeEnd = w"
    "s' = s2\<lparr>io_pipes := Suc (io_pipes s), io_pumps := io_pumps s2 @ [\<lparr>pump_read = r, pump_console = owned, pump_file = hFile\<rparr>]\<rparr>"
    by (auto simp: start_pump_def Let_def)
  have same: "object s' = object s2" "descriptor s' = descriptor s2" by (simp_all add: s' object_def descriptor_def)
  then have preds: "descriptors_ok s' = descriptors_ok s2" "free_standing s' = free_standing s2" "leads_to s' = leads_to s2"
    by (simp_all add: descriptors_ok_def free_standing_def leads_to_def fun_eq_iff)
  show "descriptors_ok s'" "free_standing s x o' \<Longrightarrow> free_standing s' x o' \<and> x \<noteq> readEnd \<and> x \<noteq> writeEnd"
    "leads_to s fd o' \<Longrightarrow> leads_to s' fd o'" "readEnd \<noteq> writeEnd" "free_standing s' readEnd (PipeRead (io_pipes s))"
    "free_standing s' writeEnd (PipeWrite (io_pipes s))"
    unfolding preds s'(1,2) using wok rok(2-4) by blast+
  show "io_pipes s' = Suc (io_pipes s)" by (simp add: s')
  show "io_pumps s' = io_pumps s @ [\<lparr>pump_read = readEnd, pump_console = owned, pump_file = hFile\<rparr>]"
    using new_handle_fields(6) [OF r] new_handle_fields(6) [OF w] by (simp add: s')
qed

lemma console_closed:
  assumes "descriptors_ok s" and "case owned of None \<Rightarrow> True | Some h \<Rightarrow> free_standing s h obj"
  shows "descriptors_ok (close_console owned s)"
    and "free_standing s x o' \<Longrightarrow> owned \<noteq> Some x \<Longrightarrow> free_standing (close_console owned s) x o'"
    and "leads_to s f o' \<Longrightarrow> leads_to (close_console owned s) f o'"
  using assms close_handle_ok [of s "the owned" obj] by (auto simp: close_console_def split: option.splits)

lemma tee_fails:
  assumes "\<not> (pipe_created env \<and> pipe_descriptor env \<and> pipe_stream env)" and "descriptors_ok s"
    and "free_standing s hFile file" and "object s hConsole = Some obj"
  shows "\<exists>s'. tee env hConsole hFile s = (False, s') \<and> descriptors_ok s' \<and> free_standing s' hFile file
     \<and> (\<forall>fd o'. fd < 3 \<longrightarrow> leads_to s fd o' \<longrightarrow> leads_to s' fd o')"
proof -
  obtain owned s1 where o: "own_console env hConsole s = (owned, s1)" by fastforce
  note own = console_owned [OF o assms(2,4)]
  obtain r w s2 where p: "start_pump owned hFile s1 = (r, w, s2)" by (metis prod_cases3)
  note pump = pump_started [OF p own(1)]
  have owned1: "case owned of None \<Rightarrow> True | Some h \<Rightarrow> free_standing s1 h obj" and ne: "owned \<noteq> Some hFile"
    using own(6) own(2) [OF assms(3)] by (auto split: option.splits)
  have owned2: "case owned of None \<Rightarrow> True | Some h \<Rightarrow> free_standing s2 h obj \<and> h \<noteq> r \<and> h \<noteq> w"
    using owned1 pump(2) by (auto split: option.splits)
  have file1: "free_standing s1 hFile file" and file2: "free_standing s2 hFile file" "hFile \<noteq> r" "hFile \<noteq> w"
    using own(2) [OF assms(3)] pump(2) by auto
  have lead2: "leads_to s fd o' \<Longrightarrow> leads_to s2 fd o'" for fd o' using own(3) pump(3) by blast
  consider "\<not> pipe_created env" | "pipe_created env" "\<not> pipe_descriptor env"
    | "pipe_created env" "pipe_descriptor env" "\<not> pipe_stream env" using assms(1) by blast
  then show ?thesis
  proof cases
    case 1
    with o console_closed [OF own(1) owned1] file1 ne own(3) show ?thesis by (auto simp: tee_def)
  next
    case 2
    note closed = close_handle_ok [OF pump(1,5)]
    have "case owned of None \<Rightarrow> True | Some h \<Rightarrow> free_standing (CloseHandle r s2) h obj"
      using owned2 closed(2) by (auto split: option.splits)
    from console_closed [OF closed(1) this] closed(2) [OF file2(1,2)] closed(3) lead2 ne 2 o p show ?thesis
      by (auto simp: tee_def)
  next
    case 3
    obtain fd s3 where f: "open_osfhandle w s2 = (fd, s3)" by fastforce
    note opened = open_osfhandle_ok [OF f pump(1,6)]
    have r3: "free_standing s3 r (PipeRead (io_pipes s1))" using opened(4) [OF pump(5) pump(4)] .
    note fd_closed = close_fd_ok [OF opened(1,2)]
    note closed = close_handle_ok [OF fd_closed(1) fd_closed(2) [OF r3]]
    have "case owned of None \<Rightarrow> True | Some h \<Rightarrow> free_standing (CloseHandle r (close_fd fd s3)) h obj"
      using owned2 opened(4) fd_closed(2) closed(2) by (auto split: option.splits)
    note finish = console_closed [OF closed(1) this]
    have "free_standing (CloseHandle r (close_fd fd s3)) hFile file"
      using closed(2) [OF fd_closed(2) [OF opened(4) [OF file2(1,3)]] file2(2)] .
    moreover have "leads_to (CloseHandle r (close_fd fd s3)) f o'" if "f < 3" "leads_to s f o'" for f o'
      using that opened(3) closed(3) [OF fd_closed(3) [OF opened(5) [OF lead2]]] by auto
    ultimately show ?thesis using finish ne 3 o p f by (auto simp: tee_def)
  qed
qed


lemma resyncs_kept:
  "new_handle obj s = (h, s') \<Longrightarrow> engine_resyncs s' = engine_resyncs s"
  "own_console env hConsole s = (owned, s') \<Longrightarrow> engine_resyncs s' = engine_resyncs s"
  "start_pump owned hFile s = (r, w, s') \<Longrightarrow> engine_resyncs s' = engine_resyncs s"
  "open_osfhandle h s = (fd, s') \<Longrightarrow> engine_resyncs s' = engine_resyncs s"
  "engine_resyncs (dup2 a b s) = engine_resyncs s"
proof -
  show new: "new_handle obj s = (h, s') \<Longrightarrow> engine_resyncs s' = engine_resyncs s" for obj s h s'
    by (auto simp: new_handle_def Let_def)
  show "own_console env hConsole s = (owned, s') \<Longrightarrow> engine_resyncs s' = engine_resyncs s"
    using new by (fastforce simp: own_console_def split: bool.splits option.splits prod.splits)
  show "start_pump owned hFile s = (r, w, s') \<Longrightarrow> engine_resyncs s' = engine_resyncs s"
    by (auto simp: start_pump_def new_handle_def Let_def)
  show "open_osfhandle h s = (fd, s') \<Longrightarrow> engine_resyncs s' = engine_resyncs s"
    by (auto simp: open_osfhandle_def Let_def)
  show "engine_resyncs (dup2 a b s) = engine_resyncs s"
    by (simp add: dup2_def new_handle_def close_fd_def CloseHandle_def Let_def split: option.split)
qed

lemma tee_feeds_both:
  assumes "pipe_created env" and "pipe_descriptor env" and "pipe_stream env" and "descriptors_ok s" and "io_pumps s = []"
    and logs: "free_standing s hFile (LogFile path)" and console: "object s hConsole = Some (Inherited i)" and "fd = 1 \<or> fd = 2"
  shows "\<exists>s'. tee env hConsole hFile s = (True, s') \<and> engine_resyncs s' = Suc (engine_resyncs s)
     \<and> reached s' fd = Some ((if duplicates env then [Inherited i] else []) @ [LogFile path])"
proof -
  obtain owned s1 where o: "own_console env hConsole s = (owned, s1)" by fastforce
  note own = console_owned [OF o assms(4) console]
  obtain r w s2 where p: "start_pump owned hFile s1 = (r, w, s2)" by (metis prod_cases3)
  note pump = pump_started [OF p own(1)]
  obtain pipe s3 where f: "open_osfhandle w s2 = (pipe, s3)" by fastforce
  note opened = open_osfhandle_ok [OF f pump(1,6)]
  note both = both_descriptors [OF opened(1-3)]
  let ?s = "resync (set_std_handles w (dup2 pipe 2 (dup2 pipe 1 s3)))"
  have stay: "object ?s x = Some obj" if "free_standing s2 x obj" "x \<noteq> w" for x obj
    using both(4) [OF opened(4) [OF that]] by (simp add: free_standing_def)
  have file2: "free_standing s2 hFile (LogFile path)" "hFile \<noteq> w" using own(2) [OF logs] pump(2) by auto
  have owned2: "case owned of None \<Rightarrow> \<not> duplicates env | Some h \<Rightarrow> duplicates env \<and> free_standing s2 h (Inherited i) \<and> h \<noteq> w"
    using own(6) pump(2) by (auto split: option.splits)
  have "io_pumps ?s = [\<lparr>pump_read = r, pump_console = owned, pump_file = hFile\<rparr>]"
    using both(6) open_osfhandle_fields(7) [OF f] pump(8) own(5) assms(5) by simp
  moreover have "object ?s r = Some (PipeRead (io_pipes s1))" using stay pump(4,5) by blast
  moreover have "object ?s hFile = Some (LogFile path)" using stay file2 by blast
  moreover have "(case Option.bind owned (object ?s) of None \<Rightarrow> [] | Some obj \<Rightarrow> [obj]) = (if duplicates env then [Inherited i] else [])"
    using owned2 stay by (auto split: option.splits)
  ultimately have "forwarded ?s (io_pipes s1) = (if duplicates env then [Inherited i] else []) @ [LogFile path]"
    by (simp add: forwarded_def)
  then have "sinks (Suc (Suc n)) ?s (PipeWrite (io_pipes s1)) = Some ((if duplicates env then [Inherited i] else []) @ [LogFile path])" for n
    by simp
  moreover have "leads_to ?s fd (PipeWrite (io_pipes s1))" using both(2,3) assms(8) by auto
  ultimately have "reached ?s fd = Some ((if duplicates env then [Inherited i] else []) @ [LogFile path])"
    by (simp only: reached_leads)
  moreover have "engine_resyncs ?s = Suc (engine_resyncs s)"
    using o p f by (simp add: resyncs_kept) (simp add: resync_def set_std_handles_def resyncs_kept)
  ultimately show ?thesis using assms(1-3) o p f by (simp add: tee_def)
qed

lemma log_opened:
  assumes "started s" and "new_handle (LogFile path) s = (hFile, s1)"
  shows "connected s1 = std_output s" and "StdoutIsConnected s \<longleftrightarrow> std_output s \<noteq> None"
    and "std_output s = Some h \<Longrightarrow> \<exists>i. object s h = Some (Inherited i) \<and> object s1 h = Some (Inherited i)"
    and "descriptors_ok s" and "io_pumps s1 = []"
proof -
  from assms(1) show "descriptors_ok s" by (simp add: started_def)
  note fields = new_handle_fields [OF assms(2)]
  have std: "\<And>h. std_output s = Some h \<Longrightarrow> object s h \<noteq> None" using assms(1) by (simp add: started_def)
  with fields show "connected s1 = std_output s" "StdoutIsConnected s \<longleftrightarrow> std_output s \<noteq> None"
    by (auto simp: connected_def StdoutIsConnected_def split: option.split)
  show "std_output s = Some h \<Longrightarrow> \<exists>i. object s h = Some (Inherited i) \<and> object s1 h = Some (Inherited i)"
    using std [of h] assms(1) fields(1,2) by (auto simp: started_def)
  show "io_pumps s1 = []" using assms(1) fields(6) by (simp add: started_def)
qed

lemma redirected_through_pipe:
  assumes start: "started s" and "path_converts env" and "file_opens env" and tee: "tee_works env s"
  shows "\<exists>s'. RedirectIOToFile env path s = (True, s')
    \<and> (\<forall>fd\<in>{1, 2}. reached s' fd = Some ((if duplicates env then [the (object s (the (std_output s)))] else []) @ [LogFile path]))"
proof -
  obtain hFile s1 where n: "new_handle (LogFile path) s = (hFile, s1)" by fastforce
  note log = log_opened [OF start n]
  note opened = new_handle_ok [OF n log(4)]
  from tee obtain h where h: "std_output s = Some h" using log(2) by (auto simp: tee_works_def)
  with log(3) obtain i where i: "object s h = Some (Inherited i)" "object s1 h = Some (Inherited i)" by blast
  from tee have pipes: "pipe_created env" "pipe_descriptor env" "pipe_stream env" by (simp_all add: tee_works_def)
  have both: "\<exists>s'. tee env h hFile s1 = (True, s') \<and> engine_resyncs s' = Suc (engine_resyncs s1)
      \<and> reached s' fd = Some ((if duplicates env then [Inherited i] else []) @ [LogFile path])" if "fd = 1 \<or> fd = 2" for fd
    by (rule tee_feeds_both [OF pipes opened(1) _ opened(2) i(2) that]) (simp add: log(5))
  from both [of 1] obtain s' where s': "tee env h hFile s1 = (True, s')"
    "reached s' 1 = Some ((if duplicates env then [Inherited i] else []) @ [LogFile path])" by auto
  from both [of 2] s'(1) have "reached s' 2 = Some ((if duplicates env then [Inherited i] else []) @ [LogFile path])" by auto
  with s' assms(2,3) h i(1) show ?thesis by (simp add: RedirectIOToFile_def n log(1))
qed

lemma redirected_without_pipe:
  assumes start: "started s" and "path_converts env" and "file_opens env" and not_tee: "\<not> tee_works env s"
  shows "\<exists>hFile s2. RedirectIOToFile env path s = redirect_to_file env hFile s2 \<and> descriptors_ok s2
    \<and> free_standing s2 hFile (LogFile path) \<and> (\<forall>fd obj. fd < 3 \<longrightarrow> leads_to s fd obj \<longrightarrow> leads_to s2 fd obj)"
proof -
  obtain hFile s1 where n: "new_handle (LogFile path) s = (hFile, s1)" by fastforce
  note log = log_opened [OF start n]
  note opened = new_handle_ok [OF n log(4)]
  note unfolded = RedirectIOToFile_def n log(1)
  show ?thesis
  proof (cases "std_output s")
    case None
    with assms(2,3) opened show ?thesis by (simp add: unfolded) blast
  next
    case (Some h)
    with log(3) obtain i where "object s1 h = Some (Inherited i)" by blast
    moreover from not_tee Some log(2) have "\<not> (pipe_created env \<and> pipe_descriptor env \<and> pipe_stream env)" by (simp add: tee_works_def)
    ultimately obtain s2 where s2: "tee env h hFile s1 = (False, s2)" "descriptors_ok s2" "free_standing s2 hFile (LogFile path)"
      "\<forall>fd o'. fd < 3 \<longrightarrow> leads_to s1 fd o' \<longrightarrow> leads_to s2 fd o'"
      using tee_fails [OF _ opened(1,2)] by blast
    from s2(1) Some assms(2,3) have "RedirectIOToFile env path s = redirect_to_file env hFile s2" by (simp add: unfolded)
    with s2 opened(4) show ?thesis by blast
  qed
qed



definition sample_streams :: IoState where
  "sample_streams =
     \<lparr>io_handles = [Some (Inherited 7), Some (Inherited 8)], io_fds = [None, Some 0, Some 1], std_output = Some 0,
      std_error = Some 1, io_pipes = 0, io_pumps = [], engine_resyncs = 0\<rparr>"

definition all_succeed :: RedirectHost where
  "all_succeed =
     \<lparr>path_converts = True, file_opens = True, duplicates = True, pipe_created = True, pipe_descriptor = True,
      pipe_stream = True, file_descriptor = True, file_stream = True, console_window = False\<rparr>"

lemma sample_started: "started sample_streams"
  by (auto simp: started_def sample_streams_def descriptors_ok_def object_def descriptor_def entry_def nth_Cons' numeral_2_eq_2
      split: if_splits)


text \<open>The way through the pipe tells the engine to reopen its streams whether or not there is a console, which the
other way makes sure of.\<close>

lemma tee_resyncs_without_console:
  "\<not> console_window all_succeed \<and> (case RedirectIOToFile all_succeed ''hmi.log'' sample_streams of (r, s') \<Rightarrow> r \<and> engine_resyncs s' = 1)"
  by code_simp

text \<open>Where the pipe is set up and then given up, the pump is left running with handles that are closed under it. In a
process whose standard output came with a console after the start, the log file takes their places: the pump
reads, and copies to the console, what is now the log file.\<close>

lemma abandoned_pump_gets_the_log_file:
  "case RedirectIOToFile (all_succeed\<lparr>pipe_descriptor := False\<rparr>) ''hmi.log''
      (sample_streams\<lparr>io_handles := [Some (Inherited 7)], io_fds := [None, None, None], std_error := None\<rparr>) of
     (r, s') \<Rightarrow> map (\<lambda>p. (object s' (pump_read p), Option.bind (pump_console p) (object s'))) (io_pumps s')
       = [(Some (LogFile ''hmi.log''), Some (LogFile ''hmi.log''))]"
  by code_simp

end
