(* ===== verification/Win32_Windows.thy ===== *)
theory Win32_Windows
  imports Startup_Shutdown "HOL-Library.AList" "HOL-Library.Monad_Syntax"
begin

text \<open>
  The base class of the runner's window (\<open>win32_window.cpp\<close>, \<open>win32_window.h\<close>) for any number of its objects: the
  count of objects, the registration of the window class, the user data that leads from a window to its object,
  and the messages Windows sends while a window is created and destroyed. The windows of the class and whether
  Windows knows the class are state; the calls act on it as documented. \<open>None\<close> is what must not happen: a
  method of an object that is gone, or a rectangle that no call has filled. The methods a subclass overrides
  are calls of the list; their own code is that of the runner window.
\<close>

section \<open>Objects and windows\<close>

record Win32Window =
  window_handle :: "nat option"
  child_content :: "nat option"
  quit_on_close :: bool

definition Win32Window_init :: Win32Window where
  "Win32Window_init = \<lparr>window_handle = None, child_content = None, quit_on_close = False\<rparr>"

text \<open>\<open>NcCreate\<close> carries the object given to \<open>CreateWindow\<close>, \<open>DpiChanged\<close> the rectangle Windows suggests.\<close>

datatype Message =
    NcCreate nat
  | NcDestroy
  | DestroyMessage
  | CloseMessage
  | DpiChanged PixelRect
  | SizeMessage
  | ActivateMessage
  | ColorizationChanged
  | OtherMessage nat

datatype WindowsCall =
    DefaultProc "nat option" Message
  | RegisterClass
  | UnregisterClass
  | CreateWindow "16 word list" PixelRect nat
  | CallDestroyWindow nat
  | EnableNonClientDpiScaling nat
  | SetDarkMode nat bool
  | SetWindowPos nat int int int int
  | MoveWindow nat int int int int
  | SetFocus nat
  | SetParent nat "nat option"
  | ShowMaximized "nat option"
  | PostQuitMessage
  | OnCreateHook nat
  | OnDestroyHook nat

text \<open>The windows of the class with their user data, which is null until \<open>WM_NCCREATE\<close>.\<close>

record Desktop =
  objects :: "nat \<rightharpoonup> Win32Window"
  hwnds :: "(nat \<times> nat option) list"
  active_window_count :: int
  registrar :: "bool option"
  class_known :: bool
  calls :: "WindowsCall list"

definition desktop_init :: Desktop where
  "desktop_init = \<lparr>objects = Map.empty, hwnds = [], active_window_count = 0, registrar = None, class_known = False, calls = []\<rparr>"

text \<open>
  How Windows answers. A window is not made at all, or made and taken back because the default procedure
  refuses \<open>WM_NCCREATE\<close>, or made.
\<close>

datatype CreateAnswer = NotMade | Refused nat | Made nat

record Monitor =
  monitor_dpi :: u32
  monitor_work :: "PixelRect option"

record WindowsHost =
  nearest_monitor :: "int \<Rightarrow> int \<Rightarrow> Monitor"
  creates :: CreateAnswer
  creation_messages :: "Message list"
  has_dpi_scaling :: bool
  light_mode :: "u32 option"
  client_rect :: "nat \<Rightarrow> PixelRect"
  on_create :: bool

definition windows_call :: "WindowsCall \<Rightarrow> Desktop \<Rightarrow> Desktop" where
  "windows_call c s = s\<lparr>calls := calls s @ [c]\<rparr>"

definition on_object :: "nat \<Rightarrow> (Win32Window \<Rightarrow> Win32Window) \<Rightarrow> Desktop \<Rightarrow> Desktop option" where
  "on_object a f s = map_option (\<lambda>w. s\<lparr>objects := (objects s)(a \<mapsto> f w)\<rparr>) (objects s a)"

section \<open>The window class\<close>

definition GetWindowClass :: "Desktop \<Rightarrow> Desktop" where
  "GetWindowClass s =
     (if registrar s = Some True then s
      else (windows_call RegisterClass s)\<lparr>registrar := Some True, class_known := True\<rparr>)"

text \<open>Windows refuses to forget a class that still has a window; the flag is cleared all the same.\<close>

definition UnregisterWindowClass :: "Desktop \<Rightarrow> Desktop" where
  "UnregisterWindowClass s =
     (windows_call UnregisterClass s)\<lparr>registrar := Some False, class_known := class_known s \<and> hwnds s \<noteq> []\<rparr>"

section \<open>The messages\<close>

definition GetThisFromHandle :: "Desktop \<Rightarrow> nat \<Rightarrow> nat option" where
  "GetThisFromHandle s h = Option.bind (map_of (hwnds s) h) (\<lambda>d. d)"

definition EnableFullDpiSupportIfAvailable :: "WindowsHost \<Rightarrow> nat \<Rightarrow> Desktop \<Rightarrow> Desktop" where
  "EnableFullDpiSupportIfAvailable env h s =
     (if has_dpi_scaling env then windows_call (EnableNonClientDpiScaling h) s else s)"

definition UpdateTheme :: "WindowsHost \<Rightarrow> nat \<Rightarrow> Desktop \<Rightarrow> Desktop" where
  "UpdateTheme env h s = (case light_mode env of None \<Rightarrow> s | Some v \<Rightarrow> windows_call (SetDarkMode h (v = 0)) s)"

definition GetClientArea :: "WindowsHost \<Rightarrow> Win32Window \<Rightarrow> PixelRect option" where
  "GetClientArea env w = map_option (client_rect env) (window_handle w)"

definition place_child :: "nat \<Rightarrow> PixelRect \<Rightarrow> Desktop \<Rightarrow> Desktop" where
  "place_child c r s = windows_call (MoveWindow c (px_left r) (px_top r) (px_width r) (px_height r)) s"

text \<open>
  The calls back into the class go through Windows: what \<open>DestroyWindow\<close> does is an argument of the handlers.
  The default procedure destroys a window that is asked to close.
\<close>

definition DefWindowProc :: "(nat \<Rightarrow> Desktop \<Rightarrow> Desktop option) \<Rightarrow> nat option \<Rightarrow> Message \<Rightarrow> Desktop \<Rightarrow> Desktop option" where
  "DefWindowProc destroy_window target m s =
     (let s = windows_call (DefaultProc target m) s
      in case (m, target) of (CloseMessage, Some h) \<Rightarrow> destroy_window h s | _ \<Rightarrow> Some s)"

definition Window_Destroy :: "(nat \<Rightarrow> Desktop \<Rightarrow> Desktop option) \<Rightarrow> nat \<Rightarrow> Desktop \<Rightarrow> Desktop option" where
  "Window_Destroy destroy_window a s =
     do { w \<leftarrow> objects s a;
          s \<leftarrow> (let s = windows_call (OnDestroyHook a) s
                in case window_handle w of
                     None \<Rightarrow> Some s
                   | Some h \<Rightarrow> Option.bind (destroy_window h s) (on_object a (\<lambda>w. w\<lparr>window_handle := None\<rparr>)));
          Some (if active_window_count s = 0 then UnregisterWindowClass s else s) }"

definition on_destroy_message :: "(nat \<Rightarrow> Desktop \<Rightarrow> Desktop option) \<Rightarrow> nat \<Rightarrow> Desktop \<Rightarrow> Desktop option" where
  "on_destroy_message destroy_window a s =
     do { s \<leftarrow> on_object a (\<lambda>w. w\<lparr>window_handle := None\<rparr>) s;
          s \<leftarrow> Window_Destroy destroy_window a s;
          w \<leftarrow> objects s a;
          Some (if quit_on_close w then windows_call PostQuitMessage s else s) }"

fun Window_MessageHandler ::
    "(nat \<Rightarrow> Desktop \<Rightarrow> Desktop option) \<Rightarrow> WindowsHost \<Rightarrow> nat \<Rightarrow> nat \<Rightarrow> Message \<Rightarrow> Desktop \<Rightarrow> Desktop option" where
  "Window_MessageHandler destroy_window env a h DestroyMessage s = on_destroy_message destroy_window a s"
| "Window_MessageHandler destroy_window env a h (DpiChanged r) s =
     Some (windows_call (SetWindowPos h (px_left r) (px_top r) (px_width r) (px_height r)) s)"
| "Window_MessageHandler destroy_window env a h SizeMessage s =
     do { w \<leftarrow> objects s a;
          r \<leftarrow> GetClientArea env w;
          Some (case child_content w of None \<Rightarrow> s | Some c \<Rightarrow> place_child c r s) }"
| "Window_MessageHandler destroy_window env a h ActivateMessage s =
     do { w \<leftarrow> objects s a;
          Some (case child_content w of None \<Rightarrow> s | Some c \<Rightarrow> windows_call (SetFocus c) s) }"
| "Window_MessageHandler destroy_window env a h ColorizationChanged s = Some (UpdateTheme env h s)"
| "Window_MessageHandler destroy_window env a h m s =
     do { w \<leftarrow> objects s a;
          DefWindowProc destroy_window (window_handle w) m s }"

fun WndProc :: "(nat \<Rightarrow> Desktop \<Rightarrow> Desktop option) \<Rightarrow> WindowsHost \<Rightarrow> nat \<Rightarrow> Message \<Rightarrow> Desktop \<Rightarrow> Desktop option" where
  "WndProc destroy_window env h (NcCreate a) s =
     do { s \<leftarrow> on_object a (\<lambda>w. w\<lparr>window_handle := Some h\<rparr>)
                (EnableFullDpiSupportIfAvailable env h (s\<lparr>hwnds := AList.update h (Some a) (hwnds s)\<rparr>));
          DefWindowProc destroy_window (Some h) (NcCreate a) s }"
| "WndProc destroy_window env h m s =
     (case GetThisFromHandle s h of
        Some a \<Rightarrow> Window_MessageHandler destroy_window env a h m s
      | None \<Rightarrow> DefWindowProc destroy_window (Some h) m s)"

text \<open>
  \<open>DestroyWindow\<close> sends its two messages to the procedure before it returns. The first argument bounds how deep
  the calls nest; one level is always enough.
\<close>

primrec DestroyWindow :: "nat \<Rightarrow> WindowsHost \<Rightarrow> nat \<Rightarrow> Desktop \<Rightarrow> Desktop option" where
  "DestroyWindow 0 env h s = None"
| "DestroyWindow (Suc n) env h s =
     (if map_of (hwnds s) h = None then Some s
      else do { s \<leftarrow> WndProc (DestroyWindow n env) env h DestroyMessage (windows_call (CallDestroyWindow h) s);
                s \<leftarrow> WndProc (DestroyWindow n env) env h NcDestroy s;
                Some (s\<lparr>hwnds := AList.delete h (hwnds s)\<rparr>) })"

abbreviation destroys :: "WindowsHost \<Rightarrow> nat \<Rightarrow> Desktop \<Rightarrow> Desktop option" where
  "destroys \<equiv> DestroyWindow 1"

primrec deliver :: "WindowsHost \<Rightarrow> nat \<Rightarrow> Message list \<Rightarrow> Desktop \<Rightarrow> Desktop option" where
  "deliver env h [] s = Some s"
| "deliver env h (m # ms) s = Option.bind (WndProc (destroys env) env h m s) (deliver env h ms)"

section \<open>The operations\<close>

definition construct :: "nat \<Rightarrow> Desktop \<Rightarrow> Desktop" where
  "construct a s =
     s\<lparr>objects := (objects s)(a \<mapsto> Win32Window_init), active_window_count := active_window_count s + 1\<rparr>"

definition destruct :: "WindowsHost \<Rightarrow> nat \<Rightarrow> Desktop \<Rightarrow> Desktop option" where
  "destruct env a s =
     map_option (\<lambda>s. s\<lparr>objects := (objects s)(a := None)\<rparr>)
       (Window_Destroy (destroys env) a (s\<lparr>active_window_count := active_window_count s - 1\<rparr>))"

text \<open>\<open>static_cast<int>\<close> of a product of doubles, truncated towards zero.\<close>

definition Scale :: "int \<Rightarrow> rat \<Rightarrow> int" where
  "Scale source scale_factor =
     (let x = double_mult (of_int source) scale_factor in if x < 0 then ceiling x else floor x)"

definition restored_bounds :: "WindowsHost \<Rightarrow> u32 \<times> u32 \<Rightarrow> u32 \<times> u32 \<Rightarrow> PixelRect" where
  "restored_bounds env origin extent =
     (let monitor = nearest_monitor env (sint (fst origin)) (sint (snd origin));
          scale_factor = double_of_rat (of_nat (unat (monitor_dpi monitor)) / 96);
          work_area = (case monitor_work monitor of
                         Some r \<Rightarrow> r
                       | None \<Rightarrow> \<lparr>px_left = 0, px_top = 0, px_right = Scale (sint (fst extent)) scale_factor,
                                  px_bottom = Scale (sint (snd extent)) scale_factor\<rparr>)
      in RestoredWindowBounds work_area (fst extent) (snd extent) scale_factor)"

text \<open>The messages Windows sends before \<open>CreateWindow\<close> returns, and what follows it.\<close>

definition window_begun :: "WindowsHost \<Rightarrow> nat \<Rightarrow> nat \<Rightarrow> Desktop \<Rightarrow> Desktop option" where
  "window_begun env a h s = WndProc (destroys env) env h (NcCreate a) (s\<lparr>hwnds := AList.update h None (hwnds s)\<rparr>)"

definition window_refused :: "WindowsHost \<Rightarrow> nat \<Rightarrow> nat \<Rightarrow> Desktop \<Rightarrow> (bool \<times> Desktop) option" where
  "window_refused env a h s =
     do { s \<leftarrow> window_begun env a h s;
          s \<leftarrow> WndProc (destroys env) env h NcDestroy s;
          Some (False, s\<lparr>hwnds := AList.delete h (hwnds s)\<rparr>) }"

definition window_made :: "WindowsHost \<Rightarrow> nat \<Rightarrow> nat \<Rightarrow> Desktop \<Rightarrow> (bool \<times> Desktop) option" where
  "window_made env a h s =
     do { s \<leftarrow> window_begun env a h s;
          s \<leftarrow> deliver env h (creation_messages env) s;
          Some (on_create env, windows_call (OnCreateHook a) (UpdateTheme env h s)) }"

definition Window_Create ::
    "WindowsHost \<Rightarrow> 16 word list \<Rightarrow> u32 \<times> u32 \<Rightarrow> u32 \<times> u32 \<Rightarrow> nat \<Rightarrow> Desktop \<Rightarrow> (bool \<times> Desktop) option" where
  "Window_Create env title origin extent a s =
     do { s \<leftarrow> Window_Destroy (destroys env) a s;
          let s = windows_call (CreateWindow title (restored_bounds env origin extent) a) (GetWindowClass s);
          (case (if class_known s then creates env else NotMade) of
             NotMade \<Rightarrow> Some (False, s)
           | Refused h \<Rightarrow> window_refused env a h s
           | Made h \<Rightarrow> window_made env a h s) }"

definition Window_Show :: "nat \<Rightarrow> Desktop \<Rightarrow> Desktop option" where
  "Window_Show a s = map_option (\<lambda>w. windows_call (ShowMaximized (window_handle w)) s) (objects s a)"

definition Window_SetQuitOnClose :: "nat \<Rightarrow> bool \<Rightarrow> Desktop \<Rightarrow> Desktop option" where
  "Window_SetQuitOnClose a b = on_object a (\<lambda>w. w\<lparr>quit_on_close := b\<rparr>)"

definition Window_GetHandle :: "nat \<Rightarrow> Desktop \<Rightarrow> nat option option" where
  "Window_GetHandle a s = map_option window_handle (objects s a)"

definition Window_SetChildContent :: "WindowsHost \<Rightarrow> nat \<Rightarrow> nat \<Rightarrow> Desktop \<Rightarrow> Desktop option" where
  "Window_SetChildContent env a content s =
     do { s \<leftarrow> on_object a (\<lambda>w. w\<lparr>child_content := Some content\<rparr>) s;
          w \<leftarrow> objects s a;
          frame \<leftarrow> GetClientArea env w;
          Some (windows_call (SetFocus content)
                 (place_child content frame (windows_call (SetParent content (window_handle w)) s))) }"

datatype WindowEvent =
    Construct nat
  | Destruct nat
  | DoCreate "16 word list" "u32 \<times> u32" "u32 \<times> u32" nat
  | DoShow nat
  | DoDestroy nat
  | DoSetChildContent nat nat
  | DoSetQuitOnClose nat bool
  | Arrives nat Message

fun desktop_step :: "Desktop \<Rightarrow> WindowsHost \<times> WindowEvent \<Rightarrow> Desktop option" where
  "desktop_step s (env, Construct a) = Some (construct a s)"
| "desktop_step s (env, Destruct a) = destruct env a s"
| "desktop_step s (env, DoCreate title origin extent a) = map_option snd (Window_Create env title origin extent a s)"
| "desktop_step s (env, DoShow a) = Window_Show a s"
| "desktop_step s (env, DoDestroy a) = Window_Destroy (destroys env) a s"
| "desktop_step s (env, DoSetChildContent a c) = Window_SetChildContent env a c s"
| "desktop_step s (env, DoSetQuitOnClose a b) = Window_SetQuitOnClose a b s"
| "desktop_step s (env, Arrives h m) = WndProc (destroys env) env h m s"

text \<open>
  What is asked of the program and of Windows. An object is built at a free address and used while it lives; a
  new window has a handle of its own and is not taken back; content is given to an open window; a message
  arrives at a window that exists, and the three that make and end a window only come from the calls that do.
\<close>

definition ordinary :: "Message \<Rightarrow> bool" where
  "ordinary m \<longleftrightarrow> m \<notin> {DestroyMessage, NcDestroy, CloseMessage} \<and> (\<forall>a. m \<noteq> NcCreate a)"

fun permitted :: "Desktop \<Rightarrow> WindowsHost \<times> WindowEvent \<Rightarrow> bool" where
  "permitted s (env, Construct a) \<longleftrightarrow> objects s a = None"
| "permitted s (env, Destruct a) \<longleftrightarrow> objects s a \<noteq> None"
| "permitted s (env, DoCreate title origin extent a) \<longleftrightarrow>
     objects s a \<noteq> None \<and> list_all ordinary (creation_messages env)
     \<and> (case creates env of NotMade \<Rightarrow> True | Refused h \<Rightarrow> False | Made h \<Rightarrow> map_of (hwnds s) h = None)"
| "permitted s (env, DoShow a) \<longleftrightarrow> objects s a \<noteq> None"
| "permitted s (env, DoDestroy a) \<longleftrightarrow> objects s a \<noteq> None"
| "permitted s (env, DoSetChildContent a c) \<longleftrightarrow> (\<exists>w. objects s a = Some w \<and> window_handle w \<noteq> None)"
| "permitted s (env, DoSetQuitOnClose a b) \<longleftrightarrow> objects s a \<noteq> None"
| "permitted s (env, Arrives h m) \<longleftrightarrow> map_of (hwnds s) h \<noteq> None \<and> (ordinary m \<or> m = CloseMessage)"

section \<open>The invariant\<close>

text \<open>A window of the class leads to a live object, and the object to the window.\<close>

definition linked :: "Desktop \<Rightarrow> bool" where
  "linked s \<longleftrightarrow>
     (\<forall>h d. map_of (hwnds s) h = Some d \<longrightarrow> (\<exists>a w. d = Some a \<and> objects s a = Some w \<and> window_handle w = Some h))
     \<and> (\<forall>a w h. objects s a = Some w \<longrightarrow> window_handle w = Some h \<longrightarrow> map_of (hwnds s) h = Some (Some a))"

definition counted :: "Desktop \<Rightarrow> bool" where
  "counted s \<longleftrightarrow> finite (dom (objects s)) \<and> active_window_count s = int (card (dom (objects s)))"

definition class_ok :: "Desktop \<Rightarrow> bool" where
  "class_ok s \<longleftrightarrow> (class_known s \<longleftrightarrow> registrar s = Some True) \<and> (hwnds s \<noteq> [] \<longrightarrow> class_known s)
     \<and> (class_known s \<longrightarrow> dom (objects s) \<noteq> {})"

definition desktop_ok :: "Desktop \<Rightarrow> bool" where
  "desktop_ok s \<longleftrightarrow> linked s \<and> counted s \<and> class_ok s"

section \<open>Destroying a window\<close>

lemma linked_window:
  "linked s \<Longrightarrow> map_of (hwnds s) h = Some d \<Longrightarrow> \<exists>a w. d = Some a \<and> objects s a = Some w \<and> window_handle w = Some h"
  unfolding linked_def by blast

lemma linked_object:
  "linked s \<Longrightarrow> objects s a = Some w \<Longrightarrow> window_handle w = Some h \<Longrightarrow> map_of (hwnds s) h = Some (Some a)"
  unfolding linked_def by blast

text \<open>What \<open>Destroy\<close> leaves, and the calls it makes, in order; \<open>final\<close> is whether no object is counted.\<close>

definition destroy_calls :: "bool \<Rightarrow> nat \<Rightarrow> Win32Window \<Rightarrow> WindowsCall list" where
  "destroy_calls final a w =
     (let forget = (if final then [UnregisterClass] else [])
      in case window_handle w of
           None \<Rightarrow> OnDestroyHook a # forget
         | Some h \<Rightarrow> [OnDestroyHook a, CallDestroyWindow h, OnDestroyHook a] @ forget
                     @ (if quit_on_close w then [PostQuitMessage] else []) @ [DefaultProc None NcDestroy] @ forget)"

definition after_destroy :: "nat \<Rightarrow> Win32Window \<Rightarrow> Desktop \<Rightarrow> Desktop" where
  "after_destroy a w s =
     (let final = (active_window_count s = 0);
          left = (case window_handle w of None \<Rightarrow> hwnds s | Some h \<Rightarrow> AList.delete h (hwnds s))
      in s\<lparr>objects := (objects s)(a \<mapsto> w\<lparr>window_handle := None\<rparr>), hwnds := left,
           registrar := (if final then Some False else registrar s),
           class_known := class_known s \<and> (final \<longrightarrow> left \<noteq> []),
           calls := calls s @ destroy_calls final a w\<rparr>)"

lemma windows_call_fields [simp]:
  "objects (windows_call c s) = objects s" "hwnds (windows_call c s) = hwnds s"
  "active_window_count (windows_call c s) = active_window_count s" "registrar (windows_call c s) = registrar s"
  "class_known (windows_call c s) = class_known s" "calls (windows_call c s) = calls s @ [c]"
  by (simp_all add: windows_call_def)

lemma unregister_fields [simp]:
  "objects (UnregisterWindowClass s) = objects s" "hwnds (UnregisterWindowClass s) = hwnds s"
  "active_window_count (UnregisterWindowClass s) = active_window_count s" "registrar (UnregisterWindowClass s) = Some False"
  "class_known (UnregisterWindowClass s) = (class_known s \<and> hwnds s \<noteq> [])"
  "calls (UnregisterWindowClass s) = calls s @ [UnregisterClass]"
  by (simp_all add: UnregisterWindowClass_def)

lemma nonempty_of_map: "map_of xs h = Some d \<Longrightarrow> xs \<noteq> []"
  by auto

text \<open>A window that goes is told so twice; the second time its object no longer has a handle to pass on.\<close>

lemma destroy_window_effect:
  assumes "linked s" and "objects s a = Some w" and "window_handle w = Some h"
  shows "DestroyWindow (Suc n) env h s = Some (s\<lparr>objects := (objects s)(a \<mapsto> w\<lparr>window_handle := None\<rparr>),
      hwnds := AList.delete h (hwnds s),
      registrar := (if active_window_count s = 0 then Some False else registrar s),
      calls := calls s @ [CallDestroyWindow h, OnDestroyHook a] @ (if active_window_count s = 0 then [UnregisterClass] else [])
                 @ (if quit_on_close w then [PostQuitMessage] else []) @ [DefaultProc None NcDestroy]\<rparr>)"
proof -
  have "map_of (hwnds s) h = Some (Some a)" using assms unfolding linked_def by blast
  with nonempty_of_map [OF this] assms(2) show ?thesis
    by (simp add: GetThisFromHandle_def on_destroy_message_def on_object_def Window_Destroy_def DefWindowProc_def
        UnregisterWindowClass_def windows_call_def)
qed

lemma destroy_effect:
  assumes "linked s" and "objects s a = Some w"
  shows "Window_Destroy (DestroyWindow (Suc n) env) a s = Some (after_destroy a w s)"
proof (cases "window_handle w")
  case None
  with assms(2) have "(objects s)(a \<mapsto> w\<lparr>window_handle := None\<rparr>) = objects s" by auto
  with None assms(2) show ?thesis
    by (simp add: Window_Destroy_def after_destroy_def destroy_calls_def UnregisterWindowClass_def windows_call_def Let_def)
next
  case (Some h)
  from assms(1) have "linked (windows_call (OnDestroyHook a) s)" by (simp add: linked_def)
  from destroy_window_effect [OF this, of a w h n env] Some assms(2) show ?thesis
    by (simp add: Window_Destroy_def after_destroy_def destroy_calls_def UnregisterWindowClass_def windows_call_def
        on_object_def Let_def)
qed

section \<open>Every event keeps the invariant\<close>

lemma linked_calls [simp]: "linked (s\<lparr>calls := c\<rparr>) = linked s"
  by (simp add: linked_def)

lemma linked_no_window:
  assumes "linked s" and "objects s a = Some w"
  shows "linked (s\<lparr>objects := (objects s)(a \<mapsto> w\<lparr>window_handle := None\<rparr>),
      hwnds := (case window_handle w of None \<Rightarrow> hwnds s | Some h \<Rightarrow> AList.delete h (hwnds s))\<rparr>)"
proof -
  let ?left = "case window_handle w of None \<Rightarrow> hwnds s | Some h \<Rightarrow> AList.delete h (hwnds s)"
  have left: "map_of ?left h = (if window_handle w = Some h then None else map_of (hwnds s) h)" for h
    by (auto simp: AList.delete_conv' split: option.split)
  have "\<exists>b v. d = Some b \<and> ((objects s)(a \<mapsto> w\<lparr>window_handle := None\<rparr>)) b = Some v \<and> window_handle v = Some h"
    if "map_of ?left h = Some d" for h d
  proof -
    from that have h: "window_handle w \<noteq> Some h" "map_of (hwnds s) h = Some d" by (auto simp: left split: if_splits)
    from linked_window [OF assms(1) h(2)] obtain b v where b: "d = Some b" "objects s b = Some v" "window_handle v = Some h"
      by blast
    with h(1) assms(2) have "b \<noteq> a" by auto
    with b show ?thesis by auto
  qed
  moreover have "map_of ?left h = Some (Some b)"
    if "((objects s)(a \<mapsto> w\<lparr>window_handle := None\<rparr>)) b = Some v" and "window_handle v = Some h" for b v h
    using that linked_object [OF assms(1), of b v h] linked_object [OF assms] by (auto simp: left split: if_splits)
  ultimately show ?thesis unfolding linked_def by simp
qed

lemma after_destroy_linked: "linked s \<Longrightarrow> objects s a = Some w \<Longrightarrow> linked (after_destroy a w s)"
  using linked_no_window [of s a w] by (simp add: after_destroy_def linked_def Let_def)

lemma counted_kept:
  "counted s \<Longrightarrow> dom (objects t) = dom (objects s) \<Longrightarrow> active_window_count t = active_window_count s \<Longrightarrow> counted t"
  by (simp add: counted_def)

lemma objects_counted: "counted s \<Longrightarrow> objects s a = Some w \<Longrightarrow> active_window_count s \<noteq> 0"
  by (auto simp: counted_def)

lemma after_destroy_ok:
  assumes "desktop_ok s" and "objects s a = Some w"
  shows "desktop_ok (after_destroy a w s)"
  using assms objects_counted [of s a w] after_destroy_linked [of s a w]
  by (auto simp: desktop_ok_def class_ok_def after_destroy_def Let_def insert_absorb counted_def domI split: option.splits)

lemma calls_nil [simp]: "\<exists>c. s = s\<lparr>calls := calls s @ c\<rparr>"
  by (rule exI [of _ "[]"]) simp

lemma message_effect:
  assumes "linked s" and "map_of (hwnds s) h \<noteq> None" and "ordinary m"
  shows "\<exists>c. WndProc (destroys env) env h m s = Some (s\<lparr>calls := calls s @ c\<rparr>)"
proof -
  from assms(2) obtain d where d: "map_of (hwnds s) h = Some d" by blast
  from linked_window [OF assms(1) d] d
  obtain a w where a: "GetThisFromHandle s h = Some a" "objects s a = Some w" "window_handle w = Some h"
    by (auto simp: GetThisFromHandle_def)
  with assms(3) show ?thesis
    by (cases m) (auto simp: ordinary_def DefWindowProc_def GetClientArea_def place_child_def UpdateTheme_def
        windows_call_def split: option.splits)
qed

lemma deliver_effect:
  assumes "linked s" and "map_of (hwnds s) h \<noteq> None" and "list_all ordinary ms"
  shows "\<exists>c. deliver env h ms s = Some (s\<lparr>calls := calls s @ c\<rparr>)"
  using assms
proof (induction ms arbitrary: s)
  case Nil
  then show ?case by (auto intro: exI [of _ "[]"])
next
  case (Cons m ms)
  then obtain c where c: "WndProc (destroys env) env h m s = Some (s\<lparr>calls := calls s @ c\<rparr>)"
    using message_effect [of s h m env] by auto
  from Cons.prems Cons.IH [of "s\<lparr>calls := calls s @ c\<rparr>"]
  obtain d where "deliver env h ms (s\<lparr>calls := calls s @ c\<rparr>) = Some (s\<lparr>calls := calls s @ c @ d\<rparr>)" by auto
  with c show ?case by auto
qed

text \<open>A window that is closed by its user goes as one that is destroyed, without the first call of \<open>OnDestroy\<close>.\<close>

lemma close_effect:
  assumes "desktop_ok s" and "objects s a = Some w" and "window_handle w = Some h"
  shows "\<exists>t. WndProc (destroys env) env h CloseMessage s = Some t \<and> desktop_ok t"
proof -
  have ok: "linked s" "counted s" "class_ok s" using assms(1) by (simp_all add: desktop_ok_def)
  then have this_: "GetThisFromHandle s h = Some a" using assms by (auto simp: linked_def GetThisFromHandle_def)
  let ?s = "windows_call (DefaultProc (Some h) CloseMessage) s"
  from ok(1) have "linked ?s" by (simp add: windows_call_def)
  from destroy_window_effect [OF this, of a w h 0 env] assms this_
  have "\<exists>c. WndProc (destroys env) env h CloseMessage s = Some ((after_destroy a w s)\<lparr>calls := c\<rparr>)"
    using objects_counted [OF ok(2) assms(2)] by (auto simp: DefWindowProc_def after_destroy_def windows_call_def Let_def)
  with after_destroy_ok [OF assms(1,2)] show ?thesis by (auto simp: desktop_ok_def class_ok_def counted_def)
qed

lemma new_window_linked:
  assumes "linked s" and "objects s a = Some w" and "window_handle w = None" and "map_of (hwnds s) h = None"
  shows "linked (s\<lparr>objects := (objects s)(a \<mapsto> w\<lparr>window_handle := Some h\<rparr>),
      hwnds := AList.update h (Some a) (hwnds s)\<rparr>)"
proof -
  let ?hwnds = "(map_of (hwnds s))(h \<mapsto> Some a)" and ?objects = "(objects s)(a \<mapsto> w\<lparr>window_handle := Some h\<rparr>)"
  have "\<exists>b v. d = Some b \<and> ?objects b = Some v \<and> window_handle v = Some k" if "?hwnds k = Some d" for k d
    using that linked_window [OF assms(1), of k d] assms(2,3) by (fastforce split: if_splits)
  moreover have "?hwnds k = Some (Some b)" if "?objects b = Some v" and "window_handle v = Some k" for b v k
    using that linked_object [OF assms(1), of b v k] assms(4) by (auto split: if_splits)
  ultimately show ?thesis unfolding linked_def by (simp add: AList.update_conv')
qed

lemma class_after_get: "class_ok s \<Longrightarrow> class_known (GetWindowClass s) \<and> registrar (GetWindowClass s) = Some True"
  by (auto simp: GetWindowClass_def class_ok_def)

lemma get_class_fields [simp]:
  "objects (GetWindowClass s) = objects s" "hwnds (GetWindowClass s) = hwnds s"
  "active_window_count (GetWindowClass s) = active_window_count s"
  by (simp_all add: GetWindowClass_def)

lemma update_not_nil: "AList.update k v xs \<noteq> []"
  by (cases xs) auto

lemma begun_effect:
  assumes "objects s a = Some w"
  shows "\<exists>c. window_begun env a h s = Some (s\<lparr>hwnds := AList.update h (Some a) (hwnds s),
      objects := (objects s)(a \<mapsto> w\<lparr>window_handle := Some h\<rparr>), calls := c\<rparr>)"
  using assms
  by (auto simp: window_begun_def on_object_def EnableFullDpiSupportIfAvailable_def DefWindowProc_def windows_call_def)

lemma made_effect:
  assumes "linked s" and "objects s a = Some w" and "window_handle w = None" and "map_of (hwnds s) h = None"
    and "list_all ordinary (creation_messages env)"
  shows "\<exists>c. window_made env a h s = Some (on_create env, s\<lparr>hwnds := AList.update h (Some a) (hwnds s),
      objects := (objects s)(a \<mapsto> w\<lparr>window_handle := Some h\<rparr>), calls := c\<rparr>)"
proof -
  let ?v = "\<lambda>c. s\<lparr>hwnds := AList.update h (Some a) (hwnds s),
      objects := (objects s)(a \<mapsto> w\<lparr>window_handle := Some h\<rparr>), calls := c\<rparr>"
  obtain c where c: "window_begun env a h s = Some (?v c)" using begun_effect [OF assms(2)] by blast
  have "linked (?v c)" using new_window_linked [OF assms(1-4)] by (simp add: linked_def)
  from deliver_effect [OF this _ assms(5), of h env]
  obtain e where "deliver env h (creation_messages env) (?v c) = Some (?v (c @ e))"
    by (auto simp: AList.update_conv')
  with c show ?thesis by (auto simp: window_made_def UpdateTheme_def windows_call_def split: option.split)
qed

lemma create_ok:
  assumes ok: "desktop_ok s" and a: "objects s a = Some w" and ms: "list_all ordinary (creation_messages env)"
    and fresh: "case creates env of NotMade \<Rightarrow> True | Refused h \<Rightarrow> False | Made h \<Rightarrow> map_of (hwnds s) h = None"
  shows "\<exists>b t. Window_Create env title origin extent a s = Some (b, t) \<and> desktop_ok t"
proof -
  let ?d = "after_destroy a w s" and ?w = "w\<lparr>window_handle := None\<rparr>"
  let ?u = "windows_call (CreateWindow title (restored_bounds env origin extent) a) (GetWindowClass ?d)"
  from ok a have d: "Window_Destroy (destroys env) a s = Some ?d"
    using destroy_effect [of s a w 0 env] by (simp add: desktop_ok_def)
  from after_destroy_ok [OF ok a] have okd: "linked ?d" "counted ?d" "class_ok ?d" by (simp_all add: desktop_ok_def)
  have w0: "objects ?u a = Some ?w" by (simp add: after_destroy_def Let_def)
  note known = class_after_get [OF okd(3)]
  have oku: "linked ?u" "counted ?u" "class_ok ?u"
    using okd w0 known by (auto simp: linked_def counted_def class_ok_def)
  have created: "Window_Create env title origin extent a s = (case creates env of
      NotMade \<Rightarrow> Some (False, ?u) | Refused h \<Rightarrow> window_refused env a h ?u | Made h \<Rightarrow> window_made env a h ?u)"
    using d known by (simp add: Window_Create_def Let_def)
  show ?thesis
  proof (cases "creates env")
    case NotMade
    with created oku show ?thesis by (intro exI [of _ False] exI [of _ ?u]) (simp add: desktop_ok_def)
  next
    case (Refused h)
    with fresh show ?thesis by simp
  next
    case (Made h)
    with fresh have new: "map_of (hwnds ?u) h = None"
      by (auto simp: after_destroy_def Let_def AList.delete_conv' split: option.split)
    let ?v = "\<lambda>c. ?u\<lparr>hwnds := AList.update h (Some a) (hwnds ?u),
        objects := (objects ?u)(a \<mapsto> ?w\<lparr>window_handle := Some h\<rparr>), calls := c\<rparr>"
    obtain c where "window_made env a h ?u = Some (on_create env, ?v c)"
      using made_effect [OF oku(1) w0 _ new ms] by auto
    moreover have "linked (?v c)" using new_window_linked [OF oku(1) w0 _ new] by (simp add: linked_def)
    moreover have "counted (?v c)" by (rule counted_kept [OF oku(2)]) (use w0 in \<open>auto simp: insert_absorb domI\<close>)
    moreover have "class_ok (?v c)" using known by (auto simp: class_ok_def)
    ultimately show ?thesis using created Made by (simp add: desktop_ok_def)
  qed
qed

lemma destruct_effect:
  assumes "desktop_ok s" and "objects s a = Some w"
  shows "destruct env a s
    = Some ((after_destroy a w (s\<lparr>active_window_count := active_window_count s - 1\<rparr>))\<lparr>objects := (objects s)(a := None)\<rparr>)"
proof -
  have "linked (s\<lparr>active_window_count := active_window_count s - 1\<rparr>)" using assms(1) by (simp add: desktop_ok_def linked_def)
  from destroy_effect [OF this, of a w 0 env] assms(2) show ?thesis by (simp add: destruct_def after_destroy_def Let_def)
qed

text \<open>With the only object of the count goes the only window there can be.\<close>

lemma only_window:
  assumes "desktop_ok s" and "objects s a = Some w" and "active_window_count s = 1"
  shows "dom (objects s) = {a}" and "(case window_handle w of None \<Rightarrow> hwnds s | Some h \<Rightarrow> AList.delete h (hwnds s)) = []"
proof -
  from assms have "card (dom (objects s)) = 1" by (simp add: desktop_ok_def counted_def)
  then obtain x where "dom (objects s) = {x}" by (auto simp: card_1_singleton_iff)
  moreover from assms(2) have "a \<in> dom (objects s)" by blast
  ultimately show dom: "dom (objects s) = {a}" by simp
  have "map_of (case window_handle w of None \<Rightarrow> hwnds s | Some h \<Rightarrow> AList.delete h (hwnds s)) k = None" for k
  proof (cases "map_of (hwnds s) k")
    case None
    then show ?thesis by (auto simp: AList.delete_conv' split: option.split)
  next
    case (Some d)
    with assms(1) obtain b v where "objects s b = Some v" "window_handle v = Some k"
      using linked_window [of s k d] by (auto simp: desktop_ok_def)
    moreover from this(1) dom have "b = a" by auto
    ultimately show ?thesis using assms(2) by (auto simp: AList.delete_conv')
  qed
  then show "(case window_handle w of None \<Rightarrow> hwnds s | Some h \<Rightarrow> AList.delete h (hwnds s)) = []"
    by (metis map_of_eq_empty_iff ext)
qed

text \<open>An object without a window may come, go and change.\<close>

lemma linked_without_window:
  assumes "linked s" and "\<And>w. objects s a = Some w \<Longrightarrow> window_handle w = None"
    and "\<And>w. x = Some w \<Longrightarrow> window_handle w = None"
  shows "linked (s\<lparr>objects := (objects s)(a := x)\<rparr>)"
proof -
  have "\<exists>b v. d = Some b \<and> ((objects s)(a := x)) b = Some v \<and> window_handle v = Some h" if "map_of (hwnds s) h = Some d" for h d
  proof -
    from linked_window [OF assms(1) that] obtain b v where b: "d = Some b" "objects s b = Some v" "window_handle v = Some h"
      by blast
    with assms(2) have "b \<noteq> a" by auto
    with b show ?thesis by auto
  qed
  moreover have "map_of (hwnds s) h = Some (Some b)" if "((objects s)(a := x)) b = Some v" "window_handle v = Some h" for b v h
    using that linked_object [OF assms(1), of b v h] assms(3) by (auto split: if_splits)
  ultimately show ?thesis unfolding linked_def by simp
qed

lemma destruct_ok:
  assumes "desktop_ok s" and "objects s a = Some w"
  shows "\<exists>t. destruct env a s = Some t \<and> desktop_ok t"
proof -
  let ?r = "s\<lparr>active_window_count := active_window_count s - 1\<rparr>"
  let ?t = "(after_destroy a w ?r)\<lparr>objects := (objects s)(a := None)\<rparr>"
  have ok: "linked s" "counted s" "class_ok s" using assms(1) by (simp_all add: desktop_ok_def)
  have "linked (after_destroy a w ?r)" using after_destroy_linked [of ?r a w] ok(1) assms(2) by (simp add: linked_def)
  from linked_without_window [OF this, of a None] have "linked ?t"
    by (simp add: after_destroy_def Let_def)
  moreover have "counted ?t"
    using ok(2) assms(2) card_gt_0_iff [of "dom (objects s)"]
    by (auto simp: counted_def after_destroy_def Let_def card_Diff_singleton domI of_nat_diff)
  moreover have "class_ok ?t"
  proof (cases "active_window_count s = 1")
    case True
    with only_window [OF assms True] show ?thesis
      by (simp add: class_ok_def after_destroy_def Let_def split: option.splits)
  next
    case False
    with ok(2) have "card (dom (objects s)) \<noteq> 1" by (auto simp: counted_def)
    then have "dom (objects s) - {a} \<noteq> {}" using assms(2) by (auto simp: card_1_singleton_iff)
    with ok(3) False show ?thesis by (auto simp: class_ok_def after_destroy_def Let_def split: option.splits)
  qed
  ultimately show ?thesis using destruct_effect [OF assms] by (simp add: desktop_ok_def)
qed

lemma changed_ok:
  assumes "desktop_ok s" and "objects s a = Some w" and "window_handle v = window_handle w"
  shows "desktop_ok (s\<lparr>objects := (objects s)(a \<mapsto> v), calls := c\<rparr>)"
proof -
  let ?objects = "(objects s)(a \<mapsto> v)"
  have link: "linked s" using assms(1) by (simp add: desktop_ok_def)
  have "\<exists>b u. d = Some b \<and> ?objects b = Some u \<and> window_handle u = Some h" if "map_of (hwnds s) h = Some d" for h d
    using linked_window [OF link that] assms(2,3) by (metis fun_upd_apply option.inject)
  moreover have "map_of (hwnds s) h = Some (Some b)" if "?objects b = Some u" "window_handle u = Some h" for b u h
    using that linked_object [OF link, of b] assms(2,3) by (auto split: if_splits)
  ultimately have "linked (s\<lparr>objects := ?objects, calls := c\<rparr>)" unfolding linked_def by simp
  with assms(1,2) show ?thesis by (auto simp: desktop_ok_def counted_def class_ok_def insert_absorb domI)
qed

lemma desktop_step_ok: "desktop_ok s \<Longrightarrow> permitted s (env, e) \<Longrightarrow> \<exists>t. desktop_step s (env, e) = Some t \<and> desktop_ok t"
proof -
  assume ok: "desktop_ok s" and e: "permitted s (env, e)"
  then have link: "linked s" and count: "counted s" and cls: "class_ok s" by (simp_all add: desktop_ok_def)
  show ?thesis
  proof (cases e)
    case (Construct a)
    from linked_without_window [OF link, of a "Some Win32Window_init"] e Construct
    have "linked (construct a s)" by (simp add: construct_def linked_def Win32Window_init_def)
    with e count cls Construct show ?thesis
      by (auto simp: desktop_ok_def counted_def class_ok_def construct_def card_insert_if domIff)
  next
    case (Destruct a)
    with ok e destruct_ok [of s a] show ?thesis by auto
  next
    case (DoCreate title origin extent a)
    with ok e create_ok [of s a _ env title origin extent] show ?thesis by fastforce
  next
    case (DoShow a)
    with ok e show ?thesis by (auto simp: Window_Show_def windows_call_def desktop_ok_def counted_def class_ok_def)
  next
    case (DoDestroy a)
    with e obtain w where "objects s a = Some w" by auto
    with ok after_destroy_ok [OF ok this] destroy_effect [OF link this, of 0 env] DoDestroy show ?thesis by simp
  next
    case (DoSetChildContent a c)
    with e obtain w h where "objects s a = Some w" "window_handle w = Some h" by auto
    with changed_ok [OF ok, of a w "w\<lparr>child_content := Some c\<rparr>"] DoSetChildContent show ?thesis
      by (auto simp: Window_SetChildContent_def on_object_def GetClientArea_def place_child_def windows_call_def)
  next
    case (DoSetQuitOnClose a b)
    with e changed_ok [OF ok, of a _ "_\<lparr>quit_on_close := b\<rparr>" "calls s"] show ?thesis
      by (auto simp: Window_SetQuitOnClose_def on_object_def)
  next
    case (Arrives h m)
    with e obtain d where "map_of (hwnds s) h = Some d" by auto
    with link linked_window obtain a w where a: "objects s a = Some w" "window_handle w = Some h" by blast
    show ?thesis
    proof (cases "m = CloseMessage")
      case True
      with close_effect [OF ok a] Arrives show ?thesis by simp
    next
      case False
      with message_effect [OF link, of h m env] Arrives e ok show ?thesis
        by (auto simp: desktop_ok_def counted_def class_ok_def)
    qed
  qed
qed

interpretation desktop: guarded_machine desktop_step permitted desktop_ok
  by unfold_locales (metis desktop_step_ok surj_pair)

lemma desktop_init_ok: "desktop_ok desktop_init"
  by (simp add: desktop_init_def desktop_ok_def linked_def counted_def class_ok_def)

section \<open>Histories\<close>

text \<open>A host that makes the window it is asked for and sends it its size.\<close>

definition sample_windows :: "CreateAnswer \<Rightarrow> WindowsHost" where
  "sample_windows answer =
     \<lparr>nearest_monitor = (\<lambda>x y. \<lparr>monitor_dpi = 96, monitor_work = None\<rparr>), creates = answer,
      creation_messages = [OtherMessage 1, SizeMessage], has_dpi_scaling = True, light_mode = Some 0,
      client_rect = (\<lambda>h. \<lparr>px_left = 0, px_top = 0, px_right = 800, px_bottom = 600\<rparr>), on_create = True\<rparr>"

lemmas desktop_eval = sample_windows_def desktop_init_def construct_def Win32Window_init_def destruct_def Window_Create_def
  Window_Destroy_def window_begun_def window_made_def window_refused_def GetWindowClass_def on_object_def
  EnableFullDpiSupportIfAvailable_def DefWindowProc_def GetThisFromHandle_def UpdateTheme_def GetClientArea_def
  place_child_def on_destroy_message_def UnregisterWindowClass_def Window_SetQuitOnClose_def
  Window_SetChildContent_def windows_call_def ordinary_def Let_def


text \<open>Two objects with their windows; the first window is closed by its user, the second goes with its object.\<close>

definition sample_history :: "(WindowsHost \<times> WindowEvent) list" where
  "sample_history =
     (let w = sample_windows in
      [(w NotMade, Construct 1), (w NotMade, DoSetQuitOnClose 1 True), (w (Made 7), DoCreate [] (10, 10) (1280, 720) 1),
       (w NotMade, DoSetChildContent 1 9), (w NotMade, Construct 2), (w (Made 8), DoCreate [] (10, 10) (1280, 720) 2),
       (w NotMade, Arrives 8 SizeMessage), (w NotMade, Arrives 7 CloseMessage), (w NotMade, Destruct 2)])"




section \<open>A window that Windows takes back\<close>

text \<open>
  When the default procedure refuses \<open>WM_NCCREATE\<close> the window is gone and \<open>Create\<close> answers false, but the object
  keeps its handle; deleting the object then destroys whatever window has been given that handle since.
\<close>

lemma refused_window_keeps_handle:
  assumes "objects s a = Some w" and "map_of (hwnds s) h = None"
  shows "\<exists>t. window_refused env a h s = Some (False, t) \<and> Window_GetHandle a t = Some (Some h) \<and> map_of (hwnds t) h = None"
  using assms
  by (auto simp: window_refused_def window_begun_def on_object_def EnableFullDpiSupportIfAvailable_def DefWindowProc_def
      windows_call_def GetThisFromHandle_def AList.update_conv' AList.delete_conv' Window_GetHandle_def)

lemma refused_handle_takes_another_window:
  "\<exists>s t. run_option desktop_step desktop_init
       [(sample_windows NotMade, Construct 1), (sample_windows (Refused 7), DoCreate [] (10, 10) (1280, 720) 1),
        (sample_windows NotMade, Construct 2), (sample_windows (Made 7), DoCreate [] (10, 10) (1280, 720) 2)] = Some s
     \<and> Window_GetHandle 2 s = Some (Some 7)
     \<and> desktop_step s (sample_windows NotMade, Destruct 1) = Some t \<and> Window_GetHandle 2 t = Some None \<and> hwnds t = []"
  by (simp add: desktop_eval Window_GetHandle_def)

end
