(* ===== verification/Window_State.thy ===== *)
theory Window_State
  imports Rebuild_Gate Gpu_Watchdog Dart_Liveness Session_Policy Log_Throttle Startup_Shutdown
begin

text \<open>
  The state of the runner's window (\<open>FlutterWindow\<close> in \<open>flutter_window.h\<close>), what the window does to the
  world, and what the world answers.

  Every call into Windows or into the Flutter engine that the window makes for its effect is a
  constructor of \<open>WindowEffect\<close>, appended to the field \<open>f_out\<close> in the order the code makes the calls.
  Every call it makes for its answer (the clock, whether an engine came up, the sentinel device, the
  timer queue) is a function of \<open>HostEnv\<close>, indexed by the number of questions asked so far: each
  question gets an answer of its own, two clock readings in one handler may differ, and a statement
  for every \<open>HostEnv\<close> holds for every sequence of answers. The engine's and the device's own behaviour
  is not modelled beyond these answers.
\<close>

section \<open>Effects\<close>

datatype RunnerMessage = kWatchdogTickMessage | kEglStormMessage | kEngineRebuildDueMessage | kRasterLossMessage

datatype WindowEffect =
    FxLog string string
  | FxLogBlock string
  | FxEntrypointArguments "string list"
  | FxCreateEngine int string
  | FxEngineFailed
  | FxRegisterPlugins
  | FxSetChildContent
  | FxOpenChannel
  | FxCloseChannel
  | FxSetNextFrameCallback
  | FxFrameAnswered
  | FxForceRedraw
  | FxRevokeDragDrop
  | FxDestroyEngine
  | FxPostMessage RunnerMessage u64
  | FxShow
  | FxReloadSystemFonts
  | FxPostQuitMessage int
  | FxExitProcess int
  | FxKillTimer
  | FxRegisterSessionNotification
  | FxUnRegisterSessionNotification
  | FxInstallStderrInterposer
  | FxCreateTimerQueue
  | FxCreateTimer u32
  | FxChangeTimer u32
  | FxDeleteTimer
  | FxDeleteTimerQueue
  | FxWithdrawCrashRestart
  | FxReplySuccess
  | FxReplyNotImplemented
  | FxMoveChild
  | FxFocusChild
  | FxSetWindowPos
  | FxUpdateTheme

section \<open>What the host answers\<close>

text \<open>The sentinel device of \<open>gpu_device_probe.h\<close>: present with its description, or absent.\<close>

record GpuProbe =
  gp_description :: string
  gp_vendor :: u32
  gp_device :: u32

text \<open>
  \<open>engine_adapter\<close>: \<open>None\<close> when \<open>GetGraphicsAdapter\<close> gives no adapter, \<open>Some None\<close> when the adapter
  cannot be described, \<open>Some (Some (luid, vendor, device))\<close> otherwise.
\<close>

record HostEnv =
  clock :: "nat \<Rightarrow> u64"
  window_created :: "nat \<Rightarrow> bool"
  engine_starts :: "nat \<Rightarrow> bool"
  view_window :: "nat \<Rightarrow> bool"
  engine_adapter :: "nat \<Rightarrow> (u64 \<times> u32 \<times> u32) option option"
  session_adapter :: "nat \<Rightarrow> u64 option"
  sentinel_created :: "nat \<Rightarrow> GpuProbe option"
  removed_reason :: "nat \<Rightarrow> u32"
  remote_session :: "nat \<Rightarrow> bool"
  session_registered :: "nat \<Rightarrow> bool"
  interposer_installed :: "nat \<Rightarrow> bool"
  timer_queue_created :: "nat \<Rightarrow> bool"
  timer_created :: "nat \<Rightarrow> bool"
  timer_changed :: "nat \<Rightarrow> bool"
  restart_unregistered :: "nat \<Rightarrow> bool"
  send_answered :: "nat \<Rightarrow> bool"
  last_error :: "nat \<Rightarrow> u32"
  engine_consumes :: "nat \<Rightarrow> int option"
  default_proc :: "nat \<Rightarrow> int"
  hwnd_text :: "bool \<Rightarrow> string"
  loss_policy :: "string option"
  runner_log_path :: "string option"

section \<open>The window\<close>

record FlutterWindow =
  f_controller :: bool
  f_channel :: bool
  f_epoch :: int
  f_epoch_started :: u64
  f_startup_complete :: bool
  f_main_seen :: bool
  f_liveness :: DartLiveness
  f_gate :: EngineRebuildGate
  f_policy :: SessionRebuildPolicy
  f_adapter_known :: bool
  f_adapter_luid :: u64
  f_shutdown :: ShutdownPolicy
  f_liveness_log :: LogThrottle
  f_watchdog :: GpuWatchdog
  f_enabled :: bool
  f_first_frame_shown :: bool
  f_notifications :: bool
  f_probe_armed :: bool
  f_probe :: "GpuProbe option"
  f_sentinel_logged :: bool
  f_tick_log :: LogThrottle
  f_frame_log :: LogThrottle
  f_hint_log :: LogThrottle
  f_send_failure_log :: LogThrottle
  f_timer_thread_log :: LogThrottle
  f_last_hint :: LossHint
  f_last_hint_tick :: u64
  f_session_code :: u32
  f_start_tick :: u64
  f_last_frame_tick :: u64
  f_watchdog_hwnd :: bool
  f_stopping :: bool
  f_unanswered :: int
  f_timer_queue :: bool
  f_timer :: bool
  f_period :: u32
  f_window_handle :: bool
  f_child_content :: bool
  f_quit_on_close :: bool
  f_asked :: nat
  f_out :: "WindowEffect list"

text \<open>The environment variables read once at startup.\<close>

record RunnerSettings =
  rs_watchdog :: "string option"
  rs_interval :: "string option"
  rs_on_loss :: "string option"

definition WatchdogConfigFromEnvironment :: "RunnerSettings \<Rightarrow> WatchdogConfig" where
  "WatchdogConfigFromEnvironment s =
     default_config\<lparr>probe_interval_ms :=
         ParseProbeIntervalMs (rs_interval s) (probe_interval_ms default_config),
       on_loss := ParseLossAction (rs_on_loss s) (on_loss default_config)\<rparr>"

definition WatchdogEnabledFromEnvironment :: "RunnerSettings \<Rightarrow> bool" where
  "WatchdogEnabledFromEnvironment s = ParseWatchdogEnabled (rs_watchdog s) True"

definition throttle :: "int \<Rightarrow> int \<Rightarrow> u64 \<Rightarrow> LogThrottle" where
  "throttle b n ms = lt_init \<lparr> burst = b, every_nth = n, summary_interval_ms = ms \<rparr>"

text \<open>The constructor, with the members' own initialisers.\<close>

definition fw_init :: "RunnerSettings \<Rightarrow> FlutterWindow" where
  "fw_init s = \<lparr>
     f_controller = False, f_channel = False, f_epoch = 0, f_epoch_started = 0,
     f_startup_complete = False, f_main_seen = False,
     f_liveness = dl_init default_liveness_config, f_gate = gate_init default_gate_config,
     f_policy = sp_init default_session_config, f_adapter_known = False, f_adapter_luid = 0,
     f_shutdown = sh_init, f_liveness_log = throttle 3 60 600000,
     f_watchdog = gw_init (WatchdogConfigFromEnvironment s),
     f_enabled = WatchdogEnabledFromEnvironment s, f_first_frame_shown = False,
     f_notifications = False, f_probe_armed = False, f_probe = None, f_sentinel_logged = False,
     f_tick_log = throttle 8 12 60000, f_frame_log = throttle 3 600 300000,
     f_hint_log = throttle 10 20 30000, f_send_failure_log = throttle 5 10 30000,
     f_timer_thread_log = throttle 3 60 300000, f_last_hint = kHintNone, f_last_hint_tick = 0,
     f_session_code = 0, f_start_tick = 0, f_last_frame_tick = 0, f_watchdog_hwnd = False,
     f_stopping = False, f_unanswered = 0, f_timer_queue = False, f_timer = False, f_period = 0,
     f_window_handle = False, f_child_content = False, f_quit_on_close = False,
     f_asked = 0, f_out = [] \<rparr>"

section \<open>Asking and acting\<close>

definition ask :: "(nat \<Rightarrow> 'a) \<Rightarrow> FlutterWindow \<Rightarrow> 'a \<times> FlutterWindow" where
  "ask answer f = (answer (f_asked f), f\<lparr>f_asked := Suc (f_asked f)\<rparr>)"

definition emit :: "WindowEffect \<Rightarrow> FlutterWindow \<Rightarrow> FlutterWindow" where
  "emit e f = f\<lparr>f_out := f_out f @ [e]\<rparr>"

definition kWatchdogTag :: string where "kWatchdogTag = ''[gpu-watchdog]''"
definition kEngineTag :: string where "kEngineTag = ''[engine]''"
definition kDartTag :: string where "kDartTag = ''[dart]''"
definition kShutdownTag :: string where "kShutdownTag = ''[shutdown]''"

definition LogWatchdog :: "string \<Rightarrow> FlutterWindow \<Rightarrow> FlutterWindow" where
  "LogWatchdog message = emit (FxLog kWatchdogTag message)"

definition LogEngine :: "string \<Rightarrow> FlutterWindow \<Rightarrow> FlutterWindow" where
  "LogEngine message = emit (FxLog kEngineTag message)"

definition LogDart :: "string \<Rightarrow> FlutterWindow \<Rightarrow> FlutterWindow" where
  "LogDart message = emit (FxLog kDartTag message)"

definition SecondsSince :: "u64 \<Rightarrow> u64 \<Rightarrow> string" where
  "SecondsSince since now = Seconds (elapsed_since now since)"

definition kGpuLossExitCode :: int where "kGpuLossExitCode = 109"
definition kUnansweredSendsBeforeWedged :: int where "kUnansweredSendsBeforeWedged = 12"
definition kTickSendTimeoutMs :: u32 where "kTickSendTimeoutMs = 4000"
definition kLegacyWatchdogTimerId :: u64 where "kLegacyWatchdogTimerId = 1"

section \<open>Arguments of a channel call\<close>

text \<open>
  A map argument as a map from its string keys (a key of another type is never found by a string),
  \<open>None\<close> when the argument is not a map. \<open>EncOther\<close> stands for the alternatives nothing here reads.
\<close>

datatype EncodableValue = EncBool bool | EncInt32 u32 | EncInt64 u64 | EncString string | EncOther

type_synonym EncodableMap = "string \<rightharpoonup> EncodableValue"

definition find_arg :: "EncodableMap option \<Rightarrow> string \<Rightarrow> EncodableValue option" where
  "find_arg args name = (case args of None \<Rightarrow> None | Some m \<Rightarrow> m name)"

definition IntArg :: "EncodableMap option \<Rightarrow> string \<Rightarrow> int \<Rightarrow> int" where
  "IntArg args name fallback =
     (case find_arg args name of
        Some (EncInt64 wide) \<Rightarrow> sint wide
      | Some (EncInt32 narrow) \<Rightarrow> sint narrow
      | _ \<Rightarrow> fallback)"

definition UnsignedArg :: "EncodableMap option \<Rightarrow> string \<Rightarrow> u64" where
  "UnsignedArg args name =
     (let value = IntArg args name 0 in if value < 0 then 0 else word_of_int value)"

definition BoolArg :: "EncodableMap option \<Rightarrow> string \<Rightarrow> bool" where
  "BoolArg args name = (case find_arg args name of Some (EncBool b) \<Rightarrow> b | _ \<Rightarrow> False)"

definition StringArg :: "EncodableMap option \<Rightarrow> string \<Rightarrow> string" where
  "StringArg args name = (case find_arg args name of Some (EncString s) \<Rightarrow> s | _ \<Rightarrow> [])"

text \<open>The stamp a \<open>liveness\<close> call carries.\<close>

definition stamp_of :: "EncodableMap option \<Rightarrow> DartLivenessStamp" where
  "stamp_of args = \<lparr>
     st_epoch = IntArg args ''epoch'' (-1), st_uptime_ms = UnsignedArg args ''uptimeMs'',
     st_ticks = UnsignedArg args ''ticks'', st_frames = UnsignedArg args ''frames'',
     st_lag_ms = UnsignedArg args ''lagMs'', st_startup_complete = BoolArg args ''startupComplete'',
     st_raster_probed = BoolArg args ''rasterProbed'', st_raster_ok = BoolArg args ''rasterOk'' \<rparr>"

end
