(* ===== verification/Flutter_Window.thy ===== *)
theory Flutter_Window
  imports Window_State
begin

text \<open>
  The operations of the runner's window (\<open>flutter_window.cpp\<close>) in the order the handlers compose them:
  building and tearing down the engine, the rebuild gate's client, the tick timer, carrying out what
  the watchdog asks for, the channel the UI isolate reports on, the engine's frame callback, the
  window procedure and the timer thread. A C++ exception thrown by an engine call inside \<open>Dispatch\<close>
  is not modelled; everything else a handler does is.
\<close>

section \<open>Building and tearing down the engine\<close>

definition UpdateWatchdogJudgeable :: "HostEnv \<Rightarrow> FlutterWindow \<Rightarrow> FlutterWindow" where
  "UpdateWatchdogJudgeable env f0 =
     (let judgeable = (f_main_seen f0 \<and> \<not> g_queued (f_gate f0));
          (now, f) = ask (clock env) f0
      in f\<lparr>f_watchdog := gw_SetJudgeable judgeable now (f_watchdog f)\<rparr>)"

definition line_adapter :: "u32 \<Rightarrow> u32 \<Rightarrow> string" where
  "line_adapter vendor device =
     snprintf_buf 160
       (''engine renders on adapter [vendor 0x'' @ pad_zero 4 (show_hex False (unat vendor)) @
        '' device 0x'' @ pad_zero 4 (show_hex False (unat device)) @ '']'')"

definition NoteEngineAdapter :: "bool \<Rightarrow> HostEnv \<Rightarrow> FlutterWindow \<Rightarrow> FlutterWindow" where
  "NoteEngineAdapter verbose env f0 =
     (if \<not> f_controller f0 then f0
      else
        let (answer, f) = ask (engine_adapter env) f0 in
        case answer of
          None \<Rightarrow> if verbose then LogWatchdog ''the engine did not report a graphics adapter'' f else f
        | Some None \<Rightarrow> f
        | Some (Some (luid, vendor, device)) \<Rightarrow>
            let f1 = f\<lparr>f_adapter_known := True, f_adapter_luid := luid\<rparr>
            in if verbose then LogWatchdog (line_adapter vendor device) f1 else f1)"

definition CheckRenderAdapter :: "HostEnv \<Rightarrow> FlutterWindow \<Rightarrow> FlutterWindow \<times> AdapterCheck" where
  "CheckRenderAdapter env f0 =
     (let f1 = NoteEngineAdapter False env f0;
          (session, f2) = ask (session_adapter env) f1
      in (f2, ClassifyAdapterCheck (f_adapter_known f2) (f_adapter_luid f2)
                (session \<noteq> None) (case session of Some luid \<Rightarrow> luid | None \<Rightarrow> 0)))"

definition line_starting :: "int \<Rightarrow> string \<Rightarrow> string" where
  "line_starting epoch reason =
     ''epoch '' @ show_int epoch @ '' STARTING, reason='' @ reason @
     ''. A new engine is a new Dart isolate: everything the app was '' @
     ''doing is gone and main() runs again from the top.''"

definition line_not_started :: "int \<Rightarrow> string" where
  "line_not_started epoch =
     ''epoch '' @ show_int epoch @
     '' did NOT start: FlutterViewController came back without an '' @ ''engine or a view''"

text \<open>The part of \<open>CreateController\<close> before the engine exists.\<close>

definition begin_epoch :: "string \<Rightarrow> HostEnv \<Rightarrow> FlutterWindow \<Rightarrow> FlutterWindow" where
  "begin_epoch reason env f0 =
     (let f1 = f0\<lparr>f_epoch := f_epoch f0 + 1\<rparr>;
          (now, f2) = ask (clock env) f1;
          f3 = f2\<lparr>f_epoch_started := now, f_gate := gate_EngineCreated now (f_gate f2),
                  f_startup_complete := False, f_main_seen := False\<rparr>;
          f4 = UpdateWatchdogJudgeable env f3;
          f5 = f4\<lparr>f_liveness := dl_EpochStarted (f_epoch f4) (f_epoch_started f4) (f_liveness f4),
                  f_liveness_log := lt_Reset (f_liveness_log f4)\<rparr>;
          f6 = LogEngine (line_starting (f_epoch f5) reason) f5
      in emit (FxEntrypointArguments
                 [''--engine-epoch='' @ show_int (f_epoch f6), ''--engine-reason='' @ reason]) f6)"

definition engine_up :: "HostEnv \<Rightarrow> FlutterWindow \<Rightarrow> FlutterWindow" where
  "engine_up env f0 =
     (let f1 = emit FxSetChildContent (emit FxRegisterPlugins (f0\<lparr>f_controller := True\<rparr>));
          f2 = emit FxOpenChannel (f1\<lparr>f_child_content := True, f_channel := True\<rparr>);
          f3 = emit FxSetNextFrameCallback (f2\<lparr>f_probe_armed := True\<rparr>);
          f4 = emit FxForceRedraw f3;
          f5 = f4\<lparr>f_sentinel_logged := False,
                  f_policy := sp_EngineCreated (f_epoch_started f4) (f_policy f4),
                  f_adapter_known := False\<rparr>
      in NoteEngineAdapter True env f5)"

definition CreateController :: "string \<Rightarrow> HostEnv \<Rightarrow> FlutterWindow \<Rightarrow> FlutterWindow \<times> bool" where
  "CreateController reason env f0 =
     (let f1 = begin_epoch reason env f0;
          (started, f2) = ask (engine_starts env) (emit (FxCreateEngine (f_epoch f1) reason) f1)
      in if \<not> started then
           (LogWatchdog
              (''engine did NOT start: FlutterViewController came back without an '' @
               ''engine or a view'')
              (LogEngine (line_not_started (f_epoch f2))
                 (emit FxEngineFailed (f2\<lparr>f_controller := False\<rparr>))), False)
         else (engine_up env f2, True))"

definition line_stopping :: "string \<Rightarrow> u64 \<Rightarrow> FlutterWindow \<Rightarrow> string" where
  "line_stopping reason now f =
     ''epoch '' @ show_int (f_epoch f) @ '' STOPPING after '' @
     SecondsSince (f_epoch_started f) now @ '' s, reason='' @ reason @ ''; Dart main() '' @
     (if f_main_seen f then ''had started'' else ''was NEVER seen'') @ '', app startup '' @
     (if f_startup_complete f then ''had completed''
      else ''was STILL IN FLIGHT -- this teardown interrupts it'') @
     ''. Everything this isolate opened, including its OPC UA clients, goes '' @
     ''with it; whatever it had not finished opening is orphaned.''"

definition DestroyController :: "string \<Rightarrow> HostEnv \<Rightarrow> FlutterWindow \<Rightarrow> FlutterWindow" where
  "DestroyController reason env f0 =
     (let f1 = (if f_controller f0 then
                  let (now, f) = ask (clock env) f0 in LogEngine (line_stopping reason now f) f
                else f0);
          f2 = (if f_channel f1 then emit FxCloseChannel (f1\<lparr>f_channel := False\<rparr>) else f1);
          f3 = f2\<lparr>f_probe_armed := False\<rparr>
      in if \<not> f_controller f3 then f3
         else
           let (has_window, f4) = ask (view_window env) f3;
               f5 = (if has_window then emit FxRevokeDragDrop f4 else f4)
           in emit FxDestroyEngine (f5\<lparr>f_controller := False\<rparr>))"

section \<open>Asking the gate for a rebuild\<close>

definition PerformEngineRebuild :: "string \<Rightarrow> HostEnv \<Rightarrow> FlutterWindow \<Rightarrow> FlutterWindow" where
  "PerformEngineRebuild reason env f0 =
     (if \<not> f_controller f0 then f0
      else
        let f1 = DestroyController reason env f0;
            (f2, created) = CreateController reason env f1;
            f3 = (if \<not> created then
                    LogWatchdog
                      (''session-change rebuild FAILED -- the window has no renderer; the '' @
                       ''tick will keep trying and the loss path can still escalate'') f2
                  else
                    let f = LogWatchdog
                              (''renderer rebuilt ('' @ reason @
                               ''); waiting for it to present a frame before calling this a '' @
                               ''recovery'') f2;
                        (sentinel, f') = ask (sentinel_created env) (f\<lparr>f_probe := None\<rparr>)
                    in f'\<lparr>f_probe := sentinel\<rparr>)
        in UpdateWatchdogJudgeable env f3)"

definition log_nonempty :: "(string \<Rightarrow> FlutterWindow \<Rightarrow> FlutterWindow) \<Rightarrow> string \<Rightarrow> FlutterWindow \<Rightarrow> FlutterWindow" where
  "log_nonempty put line f = (if line = [] then f else put line f)"

definition RequestEngineRebuild :: "string \<Rightarrow> HostEnv \<Rightarrow> FlutterWindow \<Rightarrow> FlutterWindow" where
  "RequestEngineRebuild why env f0 =
     (if \<not> f_enabled f0 \<or> \<not> f_controller f0 then f0
      else
        let (now, f1) = ask (clock env) f0;
            (gate, decision) = gate_Request why now (f_gate f1);
            f2 = log_nonempty LogWatchdog (DescribeEngineRebuild decision) (f1\<lparr>f_gate := gate\<rparr>)
        in if gd_verdict decision \<noteq> kGateRebuildNow then UpdateWatchdogJudgeable env f2
           else PerformEngineRebuild (gd_reason decision) env f2)"

definition HandleSessionDecision :: "SessionDecision \<Rightarrow> HostEnv \<Rightarrow> FlutterWindow \<Rightarrow> FlutterWindow" where
  "HandleSessionDecision decision env f0 =
     (let f1 = log_nonempty LogWatchdog (DescribeSessionRebuild decision) f0
      in if sd_verdict decision = kSessionRebuildNow
         then RequestEngineRebuild (sd_reason decision) env f1 else f1)"

section \<open>The tick timer\<close>

definition line_error :: "string \<Rightarrow> u32 \<Rightarrow> string \<Rightarrow> string" where
  "line_error call code rest = call @ '' failed (error '' @ show_u32 code @ '')'' @ rest"

definition SetWatchdogPeriod :: "u32 \<Rightarrow> HostEnv \<Rightarrow> FlutterWindow \<Rightarrow> FlutterWindow" where
  "SetWatchdogPeriod period_ms env f0 =
     (if \<not> f_timer f0 \<or> period_ms = 0 \<or> period_ms = f_period f0 then f0
      else
        let (changed, f1) = ask (timer_changed env) (emit (FxChangeTimer period_ms) f0) in
        if changed then
          (LogWatchdog (''tick period now '' @ show_u32 period_ms @ '' ms (was '' @
             show_u32 (f_period f1) @ '' ms)'') f1)\<lparr>f_period := period_ms\<rparr>
        else
          let (code, f2) = ask (last_error env) f1
          in LogWatchdog (line_error ''ChangeTimerQueueTimer'' code
               (''; keeping '' @ show_u32 (f_period f2) @ '' ms'')) f2)"

text \<open>The last step of \<open>StartWatchdogTimer\<close>, once there is a queue.\<close>

definition arm_timer :: "u32 \<Rightarrow> HostEnv \<Rightarrow> FlutterWindow \<Rightarrow> FlutterWindow \<times> bool" where
  "arm_timer period_ms env f0 =
     (if f_timer f0 then (SetWatchdogPeriod period_ms env f0, True)
      else
        let (created, f1) = ask (timer_created env) (emit (FxCreateTimer period_ms) f0) in
        if \<not> created then
          let (code, f2) = ask (last_error env) f1
          in (LogWatchdog (line_error ''CreateTimerQueueTimer'' code
                '' -- the watchdog cannot tick and is disabling itself'') f2, False)
        else
          (LogWatchdog (''tick armed on a timer-queue thread, every '' @ show_u32 period_ms @
             '' ms (not WM_TIMER: that is starved by exactly the failure this '' @ ''watches for)'')
             (f1\<lparr>f_timer := True, f_period := period_ms\<rparr>), True))"

definition StartWatchdogTimer :: "u32 \<Rightarrow> HostEnv \<Rightarrow> FlutterWindow \<Rightarrow> FlutterWindow \<times> bool" where
  "StartWatchdogTimer period_ms env f0 =
     (let f1 = f0\<lparr>f_stopping := False\<rparr> in
      if f_timer_queue f1 then arm_timer period_ms env f1
      else
        let (created, f2) = ask (timer_queue_created env) (emit FxCreateTimerQueue f1) in
        if \<not> created then
          let (code, f3) = ask (last_error env) f2
          in (LogWatchdog (line_error ''CreateTimerQueue'' code
                '' -- the watchdog cannot tick and is disabling itself'') f3, False)
        else arm_timer period_ms env (f2\<lparr>f_timer_queue := True\<rparr>))"

definition StopWatchdogTimer :: "FlutterWindow \<Rightarrow> FlutterWindow" where
  "StopWatchdogTimer f0 =
     (if \<not> f_timer f0 \<and> \<not> f_timer_queue f0 then f0
      else
        let f1 = f0\<lparr>f_stopping := True\<rparr>;
            f2 = (if f_timer f1 then emit FxDeleteTimer (f1\<lparr>f_timer := False\<rparr>) else f1)
        in if f_timer_queue f2 then emit FxDeleteTimerQueue (f2\<lparr>f_timer_queue := False\<rparr>) else f2)"

definition DisableWatchdog :: "string \<Rightarrow> FlutterWindow \<Rightarrow> FlutterWindow" where
  "DisableWatchdog why f0 =
     (let f1 = LogWatchdog
                 (''DISARMED -- from here on a lost render context will freeze the UI and '' @
                  ''NOTHING will detect it. Cause: '' @ why) f0;
          f2 = StopWatchdogTimer (f1\<lparr>f_watchdog := gw_Disable (f_watchdog f1)\<rparr>)
      in if f_watchdog_hwnd f2 then emit FxKillTimer f2 else f2)"

section \<open>Carrying out what the watchdog asks for\<close>

definition GetRemovedReason :: "HostEnv \<Rightarrow> FlutterWindow \<Rightarrow> u32 \<times> FlutterWindow" where
  "GetRemovedReason env f = (if f_probe f = None then (0, f) else ask (removed_reason env) f)"

definition probe_evidence :: "GpuProbe option \<Rightarrow> u32 \<Rightarrow> LossEvidence \<Rightarrow> LossEvidence" where
  "probe_evidence probe reason ev =
     ev\<lparr>ev_sentinel_available := (probe \<noteq> None), ev_device_removed_reason := reason,
        ev_adapter_description := (case probe of Some p \<Rightarrow> gp_description p | None \<Rightarrow> []),
        ev_adapter_vendor_id := (case probe of Some p \<Rightarrow> gp_vendor p | None \<Rightarrow> 0),
        ev_adapter_device_id := (case probe of Some p \<Rightarrow> gp_device p | None \<Rightarrow> 0)\<rparr>"

definition default_evidence :: LossEvidence where
  "default_evidence = \<lparr> ev_cause = kNoFramesPresented, ev_escalation = kNotEscalated,
     ev_sentinel_available = False, ev_device_removed_reason = kDxgiOk, ev_losses_in_window = 0,
     ev_max_losses_in_window = 0, ev_recovery_attempts = 0, ev_last_hint = kHintNone,
     ev_ms_since_last_hint = 0, ev_session_change_code = 0, ev_ms_since_start = 0,
     ev_ms_since_last_frame = 0, ev_missed_probes = 0, ev_remote_session = False,
     ev_adapter_description = [], ev_adapter_vendor_id = 0, ev_adapter_device_id = 0 \<rparr>"

definition ReportDeviceLoss :: "LossCause \<Rightarrow> LossEscalation \<Rightarrow> HostEnv \<Rightarrow> FlutterWindow \<Rightarrow> FlutterWindow" where
  "ReportDeviceLoss cause escalation env f0 =
     (let (now, f1) = ask (clock env) f0;
          (reason, f2) = GetRemovedReason env f1;
          (remote, f3) = ask (remote_session env) f2;
          w = f_watchdog f3;
          evidence = probe_evidence (f_probe f3) reason (default_evidence\<lparr>
            ev_cause := cause, ev_escalation := escalation,
            ev_last_hint := f_last_hint f3, ev_session_change_code := f_session_code f3,
            ev_ms_since_last_hint := (if f_last_hint_tick f3 = 0 then 0 else now - f_last_hint_tick f3),
            ev_ms_since_start := now - f_start_tick f3,
            ev_ms_since_last_frame := now - f_last_frame_tick f3,
            ev_missed_probes := w_missed_probes w, ev_losses_in_window := w_losses_in_window w,
            ev_max_losses_in_window := max_losses_in_window (w_config w),
            ev_recovery_attempts := w_recovery_attempts w, ev_remote_session := remote\<rparr>)
      in emit (FxLogBlock (FormatLossReport evidence)) f3)"

definition ExitAfterDeviceLoss :: "HostEnv \<Rightarrow> FlutterWindow \<Rightarrow> FlutterWindow" where
  "ExitAfterDeviceLoss env f0 =
     (let f1 = LogWatchdog
                 (''ending the process so the report above is the last thing in '' @
                  ''this log; exit code '' @ show_int kGpuLossExitCode @
                  ''. This is a clean exit, which RegisterApplicationRestart does '' @
                  ''NOT restart (it covers crashes and hangs) -- a supervisor has '' @
                  ''to bring the app back.'') f0;
          f2 = DestroyController ''exiting after gpu loss'' env (StopWatchdogTimer f1)
      in emit (FxPostQuitMessage kGpuLossExitCode) f2)"

definition NoteLossHint :: "LossHint \<Rightarrow> u32 \<Rightarrow> HostEnv \<Rightarrow> FlutterWindow \<Rightarrow> FlutterWindow" where
  "NoteLossHint hint session_code env f0 =
     (let (now, f1) = ask (clock env) f0
      in f1\<lparr>f_last_hint := hint, f_last_hint_tick := now, f_session_code := session_code\<rparr>)"

definition StartProbe :: "FlutterWindow \<Rightarrow> FlutterWindow" where
  "StartProbe f0 =
     (if \<not> f_controller f0 then f0
      else
        let f1 = (if \<not> f_probe_armed f0
                  then emit FxSetNextFrameCallback (f0\<lparr>f_probe_armed := True\<rparr>) else f0)
        in emit FxForceRedraw f1)"

definition apply_report :: "WatchdogAction \<Rightarrow> HostEnv \<Rightarrow> FlutterWindow \<Rightarrow> FlutterWindow" where
  "apply_report action env f =
     (if report_loss action then ReportDeviceLoss (act_cause action) (act_escalation action) env f else f)"

definition apply_exit :: "WatchdogAction \<Rightarrow> HostEnv \<Rightarrow> FlutterWindow \<Rightarrow> FlutterWindow" where
  "apply_exit action env f0 =
     (let f1 = (if act_escalation action \<noteq> kNotEscalated then
                  LogWatchdog (''ESCALATING to exit although the policy is to '' @
                    DescribeLossAction (on_loss (w_config (f_watchdog f0))) @ '' -- '' @
                    DescribeEscalation (act_escalation action)) f0
                else f0)
      in ExitAfterDeviceLoss env f1)"

definition apply_restart :: "WatchdogAction \<Rightarrow> HostEnv \<Rightarrow> FlutterWindow \<Rightarrow> FlutterWindow" where
  "apply_restart action env f0 =
     (if \<not> restart_engine action then f0
      else RequestEngineRebuild ''gpu loss recovery'' env
        (LogWatchdog (''RECOVERING in place: '' @ DescribeLossCause (act_cause action) @
           '' Rebuilding the Flutter engine, attempt '' @
           show_int (w_recovery_attempts (f_watchdog f0)) @ '' (loss episode '' @
           show_int (w_losses_in_window (f_watchdog f0)) @ '' in the guard window).'') f0))"

definition apply_timer :: "WatchdogAction \<Rightarrow> HostEnv \<Rightarrow> FlutterWindow \<Rightarrow> FlutterWindow" where
  "apply_timer action env f0 =
     (if set_timer_ms action = 0 then f0
      else if \<not> f_timer f0 then
        let (f1, started) = StartWatchdogTimer (set_timer_ms action) env f0
        in if \<not> started then DisableWatchdog ''the tick timer could not be created'' f1 else f1
      else SetWatchdogPeriod (set_timer_ms action) env f0)"

definition ApplyAction :: "WatchdogAction \<Rightarrow> HostEnv \<Rightarrow> FlutterWindow \<Rightarrow> FlutterWindow" where
  "ApplyAction action env f0 =
     (let f1 = apply_report action env f0 in
      if exit_process action then apply_exit action env f1
      else
        let f2 = apply_restart action env f1;
            f3 = (if start_probe action then StartProbe f2 else f2)
        in apply_timer action env f3)"

text \<open>The events \<open>Dispatch\<close> knows, each read at the time it takes for itself.\<close>

datatype DispatchEvent = DpStarted | DpTick | DpFramePresented | DpDeviceLossHint | DpRendererLost LossCause

fun watchdog_event :: "DispatchEvent \<Rightarrow> u64 \<Rightarrow> WatchdogEvent" where
  "watchdog_event DpStarted now = EvStarted now"
| "watchdog_event DpTick now = EvTick now"
| "watchdog_event DpFramePresented now = EvFrame now"
| "watchdog_event DpDeviceLossHint now = EvHint now"
| "watchdog_event (DpRendererLost cause) now = EvLost cause now"

definition Dispatch :: "DispatchEvent \<Rightarrow> HostEnv \<Rightarrow> FlutterWindow \<Rightarrow> FlutterWindow" where
  "Dispatch event env f0 =
     (if \<not> f_enabled f0 \<or> gw_has_given_up (f_watchdog f0) then f0
      else
        let (now, f1) = ask (clock env) f0;
            (w, action) = gw_event (f_watchdog f1) (watchdog_event event now)
        in ApplyAction action env (f1\<lparr>f_watchdog := w\<rparr>))"

definition RenderDeviceIsLost :: "HostEnv \<Rightarrow> FlutterWindow \<Rightarrow> FlutterWindow \<times> bool" where
  "RenderDeviceIsLost env f0 =
     (if f_probe f0 = None then (f0, False)
      else
        let (reason, f1) = GetRemovedReason env f0 in
        if reason = kDxgiOk then (f1, False)
        else
          (if \<not> f_sentinel_logged f1 then
             LogWatchdog (''the render adapter reports itself REMOVED: '' @
               DescribeRemovedReason reason (Some 96) @
               ''. Asked directly, not inferred -- declaring the loss now instead of '' @
               ''waiting two probe intervals for the frames to stop.'')
               (f1\<lparr>f_sentinel_logged := True\<rparr>)
           else f1, True))"

section \<open>What Dart tells the runner\<close>

definition line_main_starting :: "EncodableMap option \<Rightarrow> int \<Rightarrow> string" where
  "line_main_starting args current =
     (let epoch = IntArg args ''epoch'' (-1); reason = StringArg args ''reason'';
          version = StringArg args ''version'' in
      ''main() STARTING, epoch '' @ show_int epoch @ '', reason='' @
      (if reason = [] then ''unspecified'' else reason) @
      (if version = [] then [] else '', build '' @ version) @
      (if epoch = current then []
       else '' -- WARNING: the runner is on epoch '' @ show_int current @
            '', so this isolate belongs to an engine that is '' @ ''already gone''))"

definition OnMainStarting :: "EncodableMap option \<Rightarrow> HostEnv \<Rightarrow> FlutterWindow \<Rightarrow> FlutterWindow" where
  "OnMainStarting args env f0 =
     (let f1 = UpdateWatchdogJudgeable env (f0\<lparr>f_main_seen := True\<rparr>)
      in emit FxReplySuccess (LogDart (line_main_starting args (f_epoch f1)) f1))"

definition OnStartupComplete :: "EncodableMap option \<Rightarrow> u64 \<Rightarrow> FlutterWindow \<Rightarrow> FlutterWindow" where
  "OnStartupComplete args now f0 =
     (let epoch = IntArg args ''epoch'' (-1);
          f1 = (if epoch = f_epoch f0 then
                  let f = f0\<lparr>f_startup_complete := True,
                             f_gate := gate_StartupComplete now (f_gate f0)\<rparr>
                  in if g_queued (f_gate f) then emit (FxPostMessage kEngineRebuildDueMessage 0) f else f
                else f0)
      in emit FxReplySuccess
           (LogDart (''app startup COMPLETE for epoch '' @ show_int epoch @ '' after '' @
              SecondsSince (f_epoch_started f1) now @
              '' s (runner clock). Until this line, a rebuild of this engine '' @
              ''interrupts an unfinished startup.'') f1))"

definition line_alive :: "DartLivenessStamp \<Rightarrow> int \<Rightarrow> ThrottleDecision \<Rightarrow> string" where
  "line_alive stamp failures throttled =
     ''alive: epoch '' @ show_int (st_epoch stamp) @ '', tick '' @ show_u64 (st_ticks stamp) @
     '', uptime '' @ SecondsSince 0 (st_uptime_ms stamp) @ '' s, '' @ show_u64 (st_frames stamp) @
     '' frame(s) since the last stamp, timer lag '' @ show_u64 (st_lag_ms stamp) @ '' ms, raster '' @
     (if \<not> st_raster_probed stamp then ''not probed''
      else if st_raster_ok stamp then ''ok'' else ''FAILED x'' @ show_int failures) @
     DescribeSuppression throttled"

definition OnLivenessStamp :: "EncodableMap option \<Rightarrow> u64 \<Rightarrow> FlutterWindow \<Rightarrow> FlutterWindow" where
  "OnLivenessStamp args now f0 =
     (let stamp = stamp_of args;
          (liveness, decision) = dl_OnStamp stamp now (f_liveness f0);
          f1 = f0\<lparr>f_liveness := liveness\<rparr>;
          line = DescribeLiveness decision (l_config liveness);
          f2 = (if line \<noteq> [] then (LogDart line f1)\<lparr>f_liveness_log := lt_Reset (f_liveness_log f1)\<rparr>
                else if ld_verdict decision = kNothingToSay then
                  let (counter, throttled) = lt_Record now (f_liveness_log f1);
                      f = f1\<lparr>f_liveness_log := counter\<rparr>
                  in if td_emit throttled
                     then LogDart (line_alive stamp (ld_raster_failures decision) throttled) f else f
                else f1);
          raster_line = DescribeRaster decision (l_config liveness);
          f3 = (if raster_line \<noteq> []
                then (LogDart raster_line f2)\<lparr>f_liveness_log := lt_Reset (f_liveness_log f2)\<rparr> else f2);
          f4 = (if ld_raster_lost decision
                then emit (FxPostMessage kRasterLossMessage (word_of_int (ld_raster_failures decision))) f3
                else f3)
      in emit FxReplySuccess f4)"

definition OnRunnerChannelCall ::
  "string \<Rightarrow> EncodableMap option \<Rightarrow> HostEnv \<Rightarrow> FlutterWindow \<Rightarrow> FlutterWindow" where
  "OnRunnerChannelCall method args env f0 =
     (let (now, f1) = ask (clock env) f0 in
      if method = ''mainStarting'' then OnMainStarting args env f1
      else if method = ''startupComplete'' then OnStartupComplete args now f1
      else if method = ''liveness'' then OnLivenessStamp args now f1
      else emit FxReplyNotImplemented f1)"

definition EvaluateDartLiveness :: "u64 \<Rightarrow> FlutterWindow \<Rightarrow> FlutterWindow" where
  "EvaluateDartLiveness now_ms f0 =
     (let (liveness, decision) = dl_Evaluate now_ms (f_liveness f0)
      in log_nonempty LogDart (DescribeLiveness decision (l_config liveness))
           (f0\<lparr>f_liveness := liveness\<rparr>))"

section \<open>The engine's frame callback\<close>

definition line_frame :: "GpuWatchdog \<Rightarrow> ThrottleDecision \<Rightarrow> string" where
  "line_frame w throttled =
     ''frame presented; missed-probe count reset from '' @ show_int (w_missed_probes w) @ ''/'' @
     show_int (missed_probes_before_recovery (w_config w)) @ DescribeSuppression throttled"

text \<open>The lines written once the frame has been dispatched, and the first frame's \<open>Show\<close>.\<close>

definition after_frame :: "bool \<Rightarrow> int \<Rightarrow> FlutterWindow \<Rightarrow> FlutterWindow" where
  "after_frame was_reported attempts_before f0 =
     (let f1 = (if was_reported then
                  (LogWatchdog
                    (''renderer is presenting frames again -- the loss episode reported '' @
                     ''above has ENDED'') f0)
                  \<lparr>f_frame_log := lt_Reset (f_frame_log f0), f_tick_log := lt_Reset (f_tick_log f0)\<rparr>
                else f0);
          f2 = (if 0 < attempts_before \<and> \<not> gw_has_given_up (f_watchdog f1) then
                  LogWatchdog (''renderer healthy again after '' @ show_int attempts_before @
                    '' recovery attempt(s)'') f1
                else f1)
      in if \<not> f_first_frame_shown f2 then emit FxShow (f2\<lparr>f_first_frame_shown := True\<rparr>) else f2)"

definition OnFramePresented :: "HostEnv \<Rightarrow> FlutterWindow \<Rightarrow> FlutterWindow" where
  "OnFramePresented env f0 =
     (let (now, f1) = ask (clock env) (f0\<lparr>f_probe_armed := False\<rparr>);
          f2 = f1\<lparr>f_last_frame_tick := now\<rparr>;
          attempts_before = w_recovery_attempts (f_watchdog f2);
          was_reported = gw_has_reported_loss (f_watchdog f2);
          (counter, throttled) = lt_Record now (f_frame_log f2);
          f3 = f2\<lparr>f_frame_log := counter\<rparr>;
          f4 = (if td_emit throttled then LogWatchdog (line_frame (f_watchdog f3) throttled) f3 else f3);
          f5 = Dispatch DpFramePresented env f4;
          (policy, decision) = sp_OnFramePresented (f_last_frame_tick f5) (f_policy f5);
          f6 = HandleSessionDecision decision env (f5\<lparr>f_policy := policy\<rparr>)
      in after_frame was_reported attempts_before f6)"

section \<open>The watchdog tick\<close>

definition line_tick :: "u64 \<Rightarrow> ThrottleDecision \<Rightarrow> FlutterWindow \<Rightarrow> string" where
  "line_tick now throttled f =
     (let w = f_watchdog f in
      ''tick: missed '' @ show_int (w_missed_probes w) @ ''/'' @
      show_int (missed_probes_before_recovery (w_config w)) @ '', probe outstanding='' @
      (if w_probe_outstanding w then ''yes'' else ''no'') @ '', last frame '' @
      show_u64 (now - f_last_frame_tick f) @ '' ms ago, sentinel '' @
      (if f_probe f \<noteq> None then ''watched'' else ''UNAVAILABLE'') @
      (if gw_judgement_held now w then
         '', judgement HELD ('' @
         (if f_main_seen f then ''a rebuild is queued'' else ''Dart main() not seen yet'') @
         '', so missing frames are not counted)''
       else []) @
      DescribeSuppression throttled)"

text \<open>The tick's own line and the expiry of the judgement hold.\<close>

definition tick_lines :: "u64 \<Rightarrow> FlutterWindow \<Rightarrow> FlutterWindow" where
  "tick_lines now f0 =
     (let (counter, throttled) = lt_Record now (f_tick_log f0);
          f1 = (if td_emit throttled then LogWatchdog (line_tick now throttled f0) f0 else f0)
                 \<lparr>f_tick_log := counter\<rparr>;
          (w, expired) = gw_ConsumeJudgementHoldExpired (f_watchdog f1);
          f2 = f1\<lparr>f_watchdog := w\<rparr>
      in if expired then
           LogWatchdog
             (''judgement hold EXPIRED -- this engine was given the full grace and '' @
              ''still never reported Dart main() or presented a frame. Resuming '' @
              ''normal judgement, which means the loss path can rebuild it again. '' @
              ''If this line repeats, the app is not starting and the fault is in '' @
              ''Dart, not the GPU.'') f2
         else f2)"

text \<open>The last part of the tick: the isolate's silence, then the device, then the missing frames.\<close>

definition tick_judge :: "u64 \<Rightarrow> HostEnv \<Rightarrow> FlutterWindow \<Rightarrow> FlutterWindow" where
  "tick_judge now env f0 =
     (let (f1, lost) = RenderDeviceIsLost env (EvaluateDartLiveness now f0)
      in if lost then Dispatch (DpRendererLost kContextLost) env f1 else Dispatch DpTick env f1)"

definition OnWatchdogTick :: "HostEnv \<Rightarrow> FlutterWindow \<Rightarrow> FlutterWindow" where
  "OnWatchdogTick env f0 =
     (let (now, f1) = ask (clock env) f0;
          f2 = tick_lines now f1;
          (gate, released) = gate_Poll now (f_gate f2);
          f3 = f2\<lparr>f_gate := gate\<rparr>
      in if gd_verdict released = kGateRebuildNow then
           PerformEngineRebuild (gd_reason released) env (LogWatchdog (DescribeEngineRebuild released) f3)
         else
           let (policy, session) = sp_OnTick now (f_policy f3);
               f4 = f3\<lparr>f_policy := policy\<rparr>
           in if sd_verdict session = kSessionRebuildNow then HandleSessionDecision session env f4
              else tick_judge now env f4)"

section \<open>The window procedure\<close>

datatype WindowMessage =
    WmDestroy
  | WmWatchdogTick
  | WmEngineRebuildDue
  | WmRasterLoss u64
  | WmEglStorm u64
  | WmTimer u64
  | WmFontChange
  | WmPowerBroadcast u64
  | WmDisplayChange
  | WmSessionChange u64
  | WmDpiChanged
  | WmSize
  | WmActivate
  | WmColorizationChanged
  | WmOther u32

definition PBT_APMRESUMESUSPEND :: u64 where "PBT_APMRESUMESUSPEND = 7"
definition PBT_APMRESUMEAUTOMATIC :: u64 where "PBT_APMRESUMEAUTOMATIC = 18"
definition WTS_REMOTE_CONNECT :: u64 where "WTS_REMOTE_CONNECT = 3"
definition WTS_REMOTE_DISCONNECT :: u64 where "WTS_REMOTE_DISCONNECT = 4"

text \<open>Console connect and disconnect, remote connect and disconnect, session unlock.\<close>

definition handled_session_codes :: "u64 list" where "handled_session_codes = [1, 2, 3, 4, 8]"

definition OnRebuildDue :: "HostEnv \<Rightarrow> FlutterWindow \<Rightarrow> FlutterWindow" where
  "OnRebuildDue env f0 =
     (let (now, f1) = ask (clock env) f0;
          (gate, released) = gate_Poll now (f_gate f1);
          f2 = f1\<lparr>f_gate := gate\<rparr>
      in if gd_verdict released = kGateRebuildNow
         then PerformEngineRebuild (gd_reason released) env (LogWatchdog (DescribeEngineRebuild released) f2)
         else f2)"

definition OnRasterLoss :: "u64 \<Rightarrow> HostEnv \<Rightarrow> FlutterWindow \<Rightarrow> FlutterWindow" where
  "OnRasterLoss wparam env f0 =
     (if f_enabled f0 \<and> f_controller f0 then
        Dispatch (DpRendererLost kRasterFailed) env
          (LogWatchdog (''the UI isolate reports the engine CANNOT RASTERISE ('' @
             show_u32 (ucast wparam) @
             '' consecutive failed 1 x 1 snapshots) -- Dart is alive and building '' @
             ''frames nobody can see, and no native probe can tell. Declaring '' @
             ''the renderer lost.'') f0)
      else f0)"

definition OnEglStorm :: "u64 \<Rightarrow> HostEnv \<Rightarrow> FlutterWindow \<Rightarrow> FlutterWindow" where
  "OnEglStorm wparam env f0 =
     (if f_enabled f0 \<and> f_controller f0 then
        Dispatch (DpRendererLost kContextLost) env
          (LogWatchdog (''EGL context-lost STORM on the engine's stderr ('' @
             show_u32 (ucast wparam) @
             '' matching lines inside the detector window) -- the engine says '' @
             ''its context is gone, whatever the probes say. Declaring the '' @
             ''renderer lost.'') f0)
      else f0)"

text \<open>The throttled line a hint writes.\<close>

definition log_hint :: "string \<Rightarrow> HostEnv \<Rightarrow> FlutterWindow \<Rightarrow> FlutterWindow" where
  "log_hint text env f0 =
     (let (now, f1) = ask (clock env) f0;
          (counter, throttled) = lt_Record now (f_hint_log f1);
          f2 = f1\<lparr>f_hint_log := counter\<rparr>
      in if td_emit throttled then LogWatchdog (text @ DescribeSuppression throttled) f2 else f2)"

definition OnPowerBroadcast :: "u64 \<Rightarrow> HostEnv \<Rightarrow> FlutterWindow \<Rightarrow> FlutterWindow" where
  "OnPowerBroadcast wparam env f0 =
     (if (wparam = PBT_APMRESUMEAUTOMATIC \<or> wparam = PBT_APMRESUMESUSPEND) \<and>
         f_enabled f0 \<and> f_controller f0
      then RequestEngineRebuild ''power resume'' env
             (Dispatch DpDeviceLossHint env
                (NoteLossHint kPowerResume 0 env
                   (log_hint ''hint: power resume -- rebuilding the renderer'' env f0)))
      else f0)"

definition OnDisplayChange :: "HostEnv \<Rightarrow> FlutterWindow \<Rightarrow> FlutterWindow" where
  "OnDisplayChange env f0 =
     (if f_enabled f0 \<and> f_controller f0
      then Dispatch DpDeviceLossHint env
             (NoteLossHint kDisplayChange 0 env
                (log_hint ''hint: WM_DISPLAYCHANGE -- probing'' env f0))
      else f0)"

definition OnSessionChange :: "u64 \<Rightarrow> HostEnv \<Rightarrow> FlutterWindow \<Rightarrow> FlutterWindow" where
  "OnSessionChange wparam env f0 =
     (if List.member handled_session_codes wparam \<and> f_enabled f0 \<and> f_controller f0 then
        let f1 = log_hint (''hint: session change -- '' @
                   DescribeSessionChange (ucast wparam) (Some 64) @ '' -- probing'') env f0;
            f2 = Dispatch DpDeviceLossHint env (NoteLossHint kSessionChange (ucast wparam) env f1);
            (now, f3) = ask (clock env) f2
        in if wparam = WTS_REMOTE_CONNECT then
             let (f4, adapter) = CheckRenderAdapter env f3;
                 (policy, decision) = sp_OnRemoteConnect now adapter (f_policy f4)
             in HandleSessionDecision decision env (f4\<lparr>f_policy := policy\<rparr>)
           else if wparam = WTS_REMOTE_DISCONNECT then
             let (policy, decision) = sp_OnRemoteDisconnect now (f_policy f3)
             in HandleSessionDecision decision env (f3\<lparr>f_policy := policy\<rparr>)
           else f3
      else f0)"

definition OnDestroy :: "HostEnv \<Rightarrow> FlutterWindow \<Rightarrow> FlutterWindow" where
  "OnDestroy env f0 =
     (let f1 = StopWatchdogTimer f0;
          f2 = (if f_watchdog_hwnd f1 then
                  let f = emit FxKillTimer (f1\<lparr>f_watchdog_hwnd := False\<rparr>)
                  in if f_notifications f
                     then emit FxUnRegisterSessionNotification (f\<lparr>f_notifications := False\<rparr>) else f
                else f1)
      in DestroyController ''window destroyed'' env f2)"

text \<open>
  \<open>Win32Window::Destroy\<close>. Its call of \<open>DestroyWindow\<close> is unreachable from the two callers modelled: the
  handle is null before the window exists, and \<open>WM_DESTROY\<close> clears it first.
\<close>

definition Win32_Destroy :: "HostEnv \<Rightarrow> FlutterWindow \<Rightarrow> FlutterWindow" where
  "Win32_Destroy env f0 = (OnDestroy env f0)\<lparr>f_window_handle := False\<rparr>"

text \<open>\<open>Win32Window::MessageHandler\<close>, with the result the window procedure returns.\<close>

fun Win32_MessageHandler :: "WindowMessage \<Rightarrow> HostEnv \<Rightarrow> FlutterWindow \<Rightarrow> FlutterWindow \<times> int" where
  "Win32_MessageHandler WmDestroy env f0 =
     (let f1 = Win32_Destroy env (f0\<lparr>f_window_handle := False\<rparr>)
      in (if f_quit_on_close f1 then emit (FxPostQuitMessage 0) f1 else f1, 0))"
| "Win32_MessageHandler WmDpiChanged env f0 = (emit FxSetWindowPos f0, 0)"
| "Win32_MessageHandler WmSize env f0 = (if f_child_content f0 then emit FxMoveChild f0 else f0, 0)"
| "Win32_MessageHandler WmActivate env f0 = (if f_child_content f0 then emit FxFocusChild f0 else f0, 0)"
| "Win32_MessageHandler WmColorizationChanged env f0 = (emit FxUpdateTheme f0, 0)"
| "Win32_MessageHandler message env f0 = (let (r, f1) = ask (default_proc env) f0 in (f1, r))"

text \<open>The last switch of the window procedure: what the runner does with a message it does not consume.\<close>

fun on_message :: "WindowMessage \<Rightarrow> HostEnv \<Rightarrow> FlutterWindow \<Rightarrow> FlutterWindow" where
  "on_message WmFontChange env f = (if f_controller f then emit FxReloadSystemFonts f else f)"
| "on_message (WmPowerBroadcast wparam) env f = OnPowerBroadcast wparam env f"
| "on_message WmDisplayChange env f = OnDisplayChange env f"
| "on_message (WmSessionChange wparam) env f = OnSessionChange wparam env f"
| "on_message message env f = f"

definition WithdrawOnClose :: "HostEnv \<Rightarrow> FlutterWindow \<Rightarrow> FlutterWindow" where
  "WithdrawOnClose env f0 =
     (let (shutdown, withdraw) = sh_WindowDestroyed True (f_shutdown f0);
          f1 = f0\<lparr>f_shutdown := shutdown\<rparr>
      in if \<not> withdraw then f1
         else
           let (ok, f2) = ask (restart_unregistered env) (emit FxWithdrawCrashRestart f1)
           in emit (FxLog kShutdownTag
                (if ok then ''window closed; crash-restart withdrawn, so nothing that '' @
                            ''fails from here on relaunches the app''
                 else ''window closed, but UnregisterApplicationRestart FAILED -- a '' @
                      ''crash during teardown may still relaunch the app'')) f2)"

text \<open>What is left of the window procedure once the runner's own messages are dealt with.\<close>

definition pass_on :: "WindowMessage \<Rightarrow> HostEnv \<Rightarrow> FlutterWindow \<Rightarrow> FlutterWindow \<times> int" where
  "pass_on message env f0 =
     (let (consumed, f1) = (if f_controller f0 then ask (engine_consumes env) f0 else (None, f0)) in
      case consumed of
        Some result \<Rightarrow> (f1, result)
      | None \<Rightarrow> Win32_MessageHandler message env (on_message message env f1))"

fun MessageHandler :: "WindowMessage \<Rightarrow> HostEnv \<Rightarrow> FlutterWindow \<Rightarrow> FlutterWindow \<times> int" where
  "MessageHandler WmDestroy env f = pass_on WmDestroy env (WithdrawOnClose env f)"
| "MessageHandler WmWatchdogTick env f = (OnWatchdogTick env f, 0)"
| "MessageHandler WmEngineRebuildDue env f = (OnRebuildDue env f, 0)"
| "MessageHandler (WmRasterLoss wparam) env f = (OnRasterLoss wparam env f, 0)"
| "MessageHandler (WmEglStorm wparam) env f = (OnEglStorm wparam env f, 0)"
| "MessageHandler (WmTimer wparam) env f =
     (if wparam = kLegacyWatchdogTimerId then (emit FxKillTimer f, 0) else pass_on (WmTimer wparam) env f)"
| "MessageHandler message env f = pass_on message env f"

section \<open>Creating the window\<close>

definition line_policy :: "HostEnv \<Rightarrow> FlutterWindow \<Rightarrow> string" where
  "line_policy env f =
     ''policy: CENTROID_GPU_ON_LOSS='' @
     (case loss_policy env of Some s \<Rightarrow> [dquote] @ s @ [dquote] | None \<Rightarrow> ''<unset>'') @
     '' -> on loss will '' @ DescribeLossAction (on_loss (w_config (f_watchdog f))) @
     ''; escalates to exit after repeated losses. Durable log: '' @
     (case runner_log_path env of Some path \<Rightarrow> path | None \<Rightarrow> ''<stderr only>'')"

definition create_sentinel :: "HostEnv \<Rightarrow> FlutterWindow \<Rightarrow> FlutterWindow" where
  "create_sentinel env f0 =
     (let (sentinel, f1) = ask (sentinel_created env) f0;
          f2 = f1\<lparr>f_probe := sentinel\<rparr>
      in case sentinel of
           Some p \<Rightarrow>
             LogWatchdog (''sentinel D3D11 device created on '' @
               (if gp_description p = [] then ''an unnamed adapter'' else gp_description p)) f2
         | None \<Rightarrow>
             LogWatchdog
               (''sentinel D3D11 device could NOT be created -- a device loss will be '' @
                ''detected but its reason will be unavailable'') f2)"

definition register_session :: "HostEnv \<Rightarrow> FlutterWindow \<Rightarrow> FlutterWindow" where
  "register_session env f0 =
     (let (ok, f1) = ask (session_registered env)
                       (emit FxRegisterSessionNotification (f0\<lparr>f_watchdog_hwnd := f_window_handle f0\<rparr>));
          f3 = (if ok then LogWatchdog ''registered for RDP/console session change notifications''
                             (f1\<lparr>f_notifications := True\<rparr>)
                else let (code, f2) = ask (last_error env) f1
                     in LogWatchdog (line_error ''WTSRegisterSessionNotification'' code
                          ''; relying on the periodic probe only'') f2);
          (remote, f4) = ask (remote_session env) f3
      in LogWatchdog (''session at startup: '' @
           (if remote then ''remote (RDP/terminal services)'' else ''console (local)'')) f4)"

definition install_interposer :: "HostEnv \<Rightarrow> FlutterWindow \<Rightarrow> FlutterWindow" where
  "install_interposer env f0 =
     (let (installed, f1) = ask (interposer_installed env) (emit FxInstallStderrInterposer f0);
          f2 = f1\<lparr>f_policy := sp_set_storm_detector_available installed (f_policy f1)\<rparr>
      in if installed then
           LogWatchdog
             (''stderr storm detector installed -- a burst of engine context-lost '' @
              ''errors now declares the renderer lost even when every probe '' @
              ''answers; a remote reconnect therefore probes before it rebuilds'') f2
         else
           LogWatchdog
             (''stderr storm detector could NOT be installed -- an EGL context '' @
              ''loss is only caught by rebuilding on remote reconnect, which is '' @
              ''what will happen'') f2)"

definition OnCreate :: "HostEnv \<Rightarrow> FlutterWindow \<Rightarrow> FlutterWindow \<times> bool" where
  "OnCreate env f0 =
     (let (f1, created) = CreateController ''initial start'' env f0 in
      if \<not> created then (f1, False)
      else
        let (now, f2) = ask (clock env) f1;
            f3 = f2\<lparr>f_start_tick := now, f_last_frame_tick := now\<rparr>;
            f4 = LogWatchdog (line_policy env f3) f3
        in if \<not> f_enabled f4 then
             (LogWatchdog
               (''DISABLED via CENTROID_GPU_WATCHDOG. A lost render context will '' @
                ''freeze the UI and nothing will notice.'') f4, True)
           else
             (Dispatch DpStarted env
                (install_interposer env (register_session env (create_sentinel env f4))), True))"

text \<open>\<open>Win32Window::Create\<close>: it begins by destroying a window that does not exist yet.\<close>

definition Create :: "HostEnv \<Rightarrow> FlutterWindow \<Rightarrow> FlutterWindow \<times> bool" where
  "Create env f0 =
     (let (created, f1) = ask (window_created env) (Win32_Destroy env f0) in
      if \<not> created then (f1, False)
      else OnCreate env (emit FxUpdateTheme (f1\<lparr>f_window_handle := True\<rparr>)))"

section \<open>The timer thread\<close>

definition wedged_evidence :: "HostEnv \<Rightarrow> FlutterWindow \<Rightarrow> LossEvidence \<times> FlutterWindow" where
  "wedged_evidence env f0 =
     (let (reason, f1) = GetRemovedReason env f0;
          (remote, f2) = ask (remote_session env) f1;
          (t1, f3) = ask (clock env) f2;
          (t2, f4) = ask (clock env) f3
      in (probe_evidence (f_probe f4) reason (default_evidence\<lparr>
            ev_cause := kPlatformThreadWedged, ev_remote_session := remote,
            ev_ms_since_start := t1 - f_start_tick f4,
            ev_ms_since_last_frame := t2 - f_last_frame_tick f4\<rparr>), f4))"

text \<open>A sent tick the platform thread did not take.\<close>

definition OnTickUnanswered :: "HostEnv \<Rightarrow> FlutterWindow \<Rightarrow> FlutterWindow" where
  "OnTickUnanswered env f0 =
     (let f1 = f0\<lparr>f_unanswered := f_unanswered f0 + 1\<rparr>;
          unanswered = f_unanswered f1;
          (now, f2) = ask (clock env) f1;
          (counter, throttled) = lt_Record now (f_send_failure_log f2);
          f3 = f2\<lparr>f_send_failure_log := counter\<rparr>;
          f4 = (if td_emit throttled then
                  let (code, f) = ask (last_error env) f3
                  in LogWatchdog (''the platform thread did NOT answer a sent tick within '' @
                       show_u32 kTickSendTimeoutMs @ '' ms (GetLastError '' @ show_u32 code @ ''); '' @
                       show_int unanswered @ '' consecutive, wedged at '' @
                       show_int kUnansweredSendsBeforeWedged @ DescribeSuppression throttled) f
                else f3)
      in if unanswered < kUnansweredSendsBeforeWedged then f4
         else
           let f5 = LogWatchdog
                      (''the platform thread is WEDGED -- it has refused sent messages for '' @
                       ''long enough that the message loop cannot be assumed alive. Reporting '' @
                       ''from the watchdog thread and ending the process.'') (f4\<lparr>f_unanswered := 0\<rparr>);
               (evidence, f6) = wedged_evidence env f5
           in emit (FxExitProcess kGpuLossExitCode) (emit (FxLogBlock (FormatLossReport evidence)) f6))"

text \<open>The line the thread writes first, with whether it was printed.\<close>

definition timer_fired :: "HostEnv \<Rightarrow> FlutterWindow \<Rightarrow> FlutterWindow \<times> bool" where
  "timer_fired env f0 =
     (let (now, f1) = ask (clock env) f0;
          (counter, fired) = lt_Record now (f_timer_thread_log f1);
          f2 = f1\<lparr>f_timer_thread_log := counter\<rparr>
      in (if td_emit fired then
            LogWatchdog (''timer thread fired; '' @
              snprintf_buf 128 (''hwnd=0x'' @ hwnd_text env (f_watchdog_hwnd f2) @
                '' stopping='' @ (if f_stopping f2 then ''yes'' else ''no'')) @
              DescribeSuppression fired) f2
          else f2, td_emit fired))"

text \<open>
  One firing of the timer. A sent message that is answered has been handled by the platform thread
  before the call returns, so the tick runs inside it.
\<close>

definition OnWatchdogTimerThread :: "HostEnv \<Rightarrow> FlutterWindow \<Rightarrow> FlutterWindow" where
  "OnWatchdogTimerThread env f0 =
     (let (f1, spoke) = timer_fired env f0
      in if f_stopping f1 \<or> \<not> f_watchdog_hwnd f1 then f1
         else
           let (answered, f2) = ask (send_answered env) f1 in
           if answered then
             let (f3, result) = MessageHandler WmWatchdogTick env f2;
                 f4 = f3\<lparr>f_unanswered := 0\<rparr>
             in if spoke
                then LogWatchdog (''...and the platform thread answered the tick (result '' @
                       show_int result @ '')'') f4
                else f4
           else OnTickUnanswered env f2)"

section \<open>The window as a machine over what happens to it\<close>

datatype HostEvent =
    HvMessage WindowMessage
  | HvChannelCall string "EncodableMap option"
  | HvFrame
  | HvTimerThread

text \<open>
  How many next-frame callbacks the engine holds, read off the calls: a new engine holds none, a
  registration adds one, an answer takes one.
\<close>

fun callback_after :: "nat \<Rightarrow> WindowEffect \<Rightarrow> nat" where
  "callback_after n FxSetNextFrameCallback = Suc n"
| "callback_after n FxFrameAnswered = n - 1"
| "callback_after n FxDestroyEngine = 0"
| "callback_after n (FxCreateEngine epoch reason) = 0"
| "callback_after n _ = n"

definition pending_callbacks :: "WindowEffect list \<Rightarrow> nat" where
  "pending_callbacks = foldl callback_after 0"

text \<open>
  A channel call needs an open channel, and a frame callback needs one that is registered; without
  them the event cannot happen and the step does nothing.
\<close>

fun fw_step :: "HostEnv \<Rightarrow> FlutterWindow \<Rightarrow> HostEvent \<Rightarrow> FlutterWindow" where
  "fw_step env f (HvMessage message) = fst (MessageHandler message env f)"
| "fw_step env f (HvChannelCall method args) =
     (if f_channel f then OnRunnerChannelCall method args env f else f)"
| "fw_step env f HvFrame =
     (if 0 < pending_callbacks (f_out f) then OnFramePresented env (emit FxFrameAnswered f) else f)"
| "fw_step env f HvTimerThread = (if f_timer f then OnWatchdogTimerThread env f else f)"

text \<open>\<open>wWinMain\<close>: create the window, ask it to quit on close, then the message loop.\<close>

definition fw_start :: "HostEnv \<Rightarrow> RunnerSettings \<Rightarrow> FlutterWindow" where
  "fw_start env s = (fst (Create env (fw_init s)))\<lparr>f_quit_on_close := True\<rparr>"

definition fw_run :: "HostEnv \<Rightarrow> RunnerSettings \<Rightarrow> HostEvent list \<Rightarrow> FlutterWindow" where
  "fw_run env s es = run (fw_step env) (fw_start env s) es"

end
