(* ===== verification/Window_Invariant.thy ===== *)
theory Window_Invariant
  imports Flutter_Window Drag_Drop "HOL-Library.Sublist"
begin

text \<open>
  The invariant of the runner's window: what holds of its state and of everything it has done, after
  any history and for any answers of the host. It is proved operation by operation, in the order of
  the operations' definitions, and closed under the machine's steps by the interpretation at the end.
\<close>

named_theorems fw_ops \<open>definitions of the window's operations\<close>

text \<open>The text of a log line plays no part in a proof: the simplifier leaves it alone.\<close>

lemma FxLog_cong [cong]: "t = t' \<Longrightarrow> FxLog t m = FxLog t' m" by simp
lemma FxLogBlock_cong [cong]: "FxLogBlock m = FxLogBlock m" by simp
lemma LogWatchdog_cong [cong]: "f = f' \<Longrightarrow> LogWatchdog m f = LogWatchdog m f'" by simp
lemma LogEngine_cong [cong]: "f = f' \<Longrightarrow> LogEngine m f = LogEngine m f'" by simp
lemma LogDart_cong [cong]: "f = f' \<Longrightarrow> LogDart m f = LogDart m f'" by simp
lemma log_hint_cong [cong]: "f = f' \<Longrightarrow> log_hint m env f = log_hint m env f'" by simp
lemma FxEntrypointArguments_cong [cong]: "FxEntrypointArguments m = FxEntrypointArguments m" by simp

lemmas act_defs = emit_def ask_def LogWatchdog_def LogEngine_def LogDart_def log_nonempty_def

section \<open>What a trace says\<close>

text \<open>Never two callbacks at once, at any point of the trace.\<close>

fun safe_from :: "nat \<Rightarrow> WindowEffect list \<Rightarrow> bool" where
  "safe_from n [] \<longleftrightarrow> n \<le> 1"
| "safe_from n (e # es) \<longleftrightarrow> n \<le> 1 \<and> safe_from (callback_after n e) es"

definition callbacks_safe :: "WindowEffect list \<Rightarrow> bool" where
  "callbacks_safe = safe_from 0"

lemma safe_from_prefix: "safe_from n es \<longleftrightarrow> (\<forall>p. prefix p es \<longrightarrow> foldl callback_after n p \<le> 1)"
proof (induction es arbitrary: n)
  case Nil
  then show ?case by simp
next
  case (Cons e es)
  have "(\<forall>p. prefix p (e # es) \<longrightarrow> foldl callback_after n p \<le> 1) \<longleftrightarrow>
      n \<le> 1 \<and> (\<forall>p. prefix p es \<longrightarrow> foldl callback_after (callback_after n e) p \<le> 1)"
    by (auto simp: prefix_Cons)
  with Cons.IH show ?case by simp
qed

lemma callbacks_safe_prefix: "callbacks_safe es \<longleftrightarrow> (\<forall>p. prefix p es \<longrightarrow> pending_callbacks p \<le> 1)"
  by (simp add: callbacks_safe_def safe_from_prefix pending_callbacks_def)

text \<open>
  The drag-and-drop model driven by what the window does: the engine's plugins register when they are
  loaded, the runner's own revocation stands in the trace, and the plugins release when the engine goes.
\<close>

fun dd_effect :: "DragDropModel \<Rightarrow> WindowEffect \<Rightarrow> DragDropModel" where
  "dd_effect m FxRegisterPlugins = dd_CreateController m"
| "dd_effect m FxRevokeDragDrop = dd_Revoke m"
| "dd_effect m FxDestroyEngine = dd_DestroyController m"
| "dd_effect m _ = m"

definition drop_model :: "WindowEffect list \<Rightarrow> DragDropModel" where
  "drop_model = foldl dd_effect (dd_init False)"

lemma safe_from_append:
  "safe_from n (out @ es) \<longleftrightarrow> safe_from n out \<and> safe_from (foldl callback_after n out) es"
  by (induction out arbitrary: n) (auto, (cases es; simp)+)

lemma pending_append [simp]:
  "pending_callbacks (out @ es) = foldl callback_after (pending_callbacks out) es"
  by (simp add: pending_callbacks_def)

lemma callbacks_safe_append [simp]:
  "callbacks_safe (out @ es) \<longleftrightarrow> callbacks_safe out \<and> safe_from (pending_callbacks out) es"
  by (simp add: callbacks_safe_def safe_from_append pending_callbacks_def)

lemma callbacks_safe_le: "callbacks_safe out \<Longrightarrow> pending_callbacks out \<le> 1"
  unfolding callbacks_safe_prefix by blast

lemma drop_append [simp]: "drop_model (out @ es) = foldl dd_effect (drop_model out) es"
  by (simp add: drop_model_def)

lemma trace_empty [simp]: "pending_callbacks [] = 0" "callbacks_safe []" "drop_model [] = dd_init False"
  by (simp_all add: pending_callbacks_def callbacks_safe_def drop_model_def)

text \<open>The drag-and-drop model is balanced; \<open>d_revokes\<close> is off because the revocation is in the trace.\<close>

definition drop_ok :: "bool \<Rightarrow> DragDropModel \<Rightarrow> bool" where
  "drop_ok up m \<longleftrightarrow> \<not> d_revokes m \<and> d_up m = up \<and> dd_balanced (m\<lparr>d_revokes := True\<rparr>)"

lemma drop_ok_init: "drop_ok False (dd_init False)"
  by (simp add: drop_ok_def dd_balanced_def dd_init_def)

lemma drop_ok_create: "drop_ok False m \<Longrightarrow> drop_ok True (dd_CreateController m)"
  by (auto simp: drop_ok_def dd_balanced_def dd_CreateController_def dd_NewTarget_def dd_AddRef_def
      Let_def nth_append list_update_append)

lemma drop_ok_destroy: "drop_ok True m \<Longrightarrow> drop_ok False (dd_DestroyController (dd_Revoke m))"
  by (auto simp: drop_ok_def dd_balanced_def dd_DestroyController_def dd_Revoke_def
      dd_Release.simps(2) Let_def nth_append list_update_append split: if_splits)

lemma drop_ok_live: "drop_ok up m \<Longrightarrow> dd_live_targets m = (if up then 1 else 0)"
  by (auto simp: drop_ok_def dd_balanced_def dd_live_targets_def live_all_freed split: if_splits)

section \<open>The invariant\<close>

definition epoch_ok :: "FlutterWindow \<Rightarrow> bool" where
  "epoch_ok f \<longleftrightarrow> 0 \<le> f_epoch f \<and> (f_controller f \<longrightarrow> 0 < f_epoch f) \<and>
     (0 < f_epoch f \<longrightarrow> l_epoch (f_liveness f) = f_epoch f \<and> l_watching (f_liveness f) \<and>
        g_startup_started_ms (f_gate f) = f_epoch_started f)"

definition callback_ok :: "FlutterWindow \<Rightarrow> bool" where
  "callback_ok f \<longleftrightarrow> f_channel f = f_controller f \<and> (f_probe_armed f \<longrightarrow> f_controller f) \<and>
     pending_callbacks (f_out f) = (if f_probe_armed f then 1 else 0) \<and> callbacks_safe (f_out f)"

definition exit_ok :: "FlutterWindow \<Rightarrow> bool" where
  "exit_ok f \<longleftrightarrow>
     count_list (f_out f) FxWithdrawCrashRestart = (if restart_withdrawn (f_shutdown f) then 1 else 0) \<and>
     count_list (f_out f) (FxPostQuitMessage kGpuLossExitCode)
       \<le> (if w_disabled (f_watchdog f) then 1 else 0) \<and>
     (f_controller f \<longrightarrow> count_list (f_out f) (FxPostQuitMessage kGpuLossExitCode) = 0)"

definition fw_ok :: "HostEnv \<Rightarrow> FlutterWindow \<Rightarrow> bool" where
  "fw_ok env f \<longleftrightarrow> epoch_ok f \<and> callback_ok f \<and> exit_ok f \<and> (f_timer f \<longrightarrow> f_timer_queue f) \<and>
     ((\<forall>i. view_window env i) \<longrightarrow> drop_ok (f_controller f) (drop_model (f_out f)))"

lemmas fw_ok_defs = fw_ok_def epoch_ok_def callback_ok_def exit_ok_def

lemma quit_code [simp]: "kGpuLossExitCode \<noteq> 0" "0 \<noteq> kGpuLossExitCode"
  by (simp_all add: kGpuLossExitCode_def)

text \<open>An effect that says nothing about callbacks, registrations or the end of the process.\<close>

fun neutral :: "WindowEffect \<Rightarrow> bool" where
  "neutral FxSetNextFrameCallback \<longleftrightarrow> False"
| "neutral FxFrameAnswered \<longleftrightarrow> False"
| "neutral FxDestroyEngine \<longleftrightarrow> False"
| "neutral (FxCreateEngine epoch reason) \<longleftrightarrow> False"
| "neutral FxRegisterPlugins \<longleftrightarrow> False"
| "neutral FxRevokeDragDrop \<longleftrightarrow> False"
| "neutral FxWithdrawCrashRestart \<longleftrightarrow> False"
| "neutral (FxPostQuitMessage code) \<longleftrightarrow> code \<noteq> kGpuLossExitCode"
| "neutral _ \<longleftrightarrow> True"

lemma neutral_simps:
  assumes "neutral e"
  shows "callback_after n e = n" "dd_effect m e = m" "e \<noteq> FxWithdrawCrashRestart"
    "e \<noteq> FxPostQuitMessage kGpuLossExitCode"
  using assms by (cases e; simp)+

lemma fw_ok_emit: "neutral e \<Longrightarrow> fw_ok env (emit e f) = fw_ok env f"
  by (auto simp: fw_ok_defs emit_def neutral_simps dest: callbacks_safe_le)

lemma fw_ok_log [simp]:
  "fw_ok env (LogWatchdog m f) = fw_ok env f"
  "fw_ok env (LogEngine m f) = fw_ok env f"
  "fw_ok env (LogDart m f) = fw_ok env f"
  "fw_ok env (log_nonempty LogWatchdog m f) = fw_ok env f"
  "fw_ok env (log_nonempty LogDart m f) = fw_ok env f"
  by (simp_all add: fw_ok_emit LogWatchdog_def LogEngine_def LogDart_def log_nonempty_def)

text \<open>The fields the invariant does not read.\<close>

lemma fw_ok_update [simp]:
  "fw_ok env (f\<lparr>f_startup_complete := v1\<rparr>) = fw_ok env f"
  "fw_ok env (f\<lparr>f_main_seen := v1\<rparr>) = fw_ok env f"
  "fw_ok env (f\<lparr>f_policy := v2\<rparr>) = fw_ok env f"
  "fw_ok env (f\<lparr>f_adapter_known := v1\<rparr>) = fw_ok env f"
  "fw_ok env (f\<lparr>f_adapter_luid := v3\<rparr>) = fw_ok env f"
  "fw_ok env (f\<lparr>f_liveness_log := v4\<rparr>) = fw_ok env f"
  "fw_ok env (f\<lparr>f_first_frame_shown := v1\<rparr>) = fw_ok env f"
  "fw_ok env (f\<lparr>f_notifications := v1\<rparr>) = fw_ok env f"
  "fw_ok env (f\<lparr>f_probe := v5\<rparr>) = fw_ok env f"
  "fw_ok env (f\<lparr>f_sentinel_logged := v1\<rparr>) = fw_ok env f"
  "fw_ok env (f\<lparr>f_tick_log := v4\<rparr>) = fw_ok env f"
  "fw_ok env (f\<lparr>f_frame_log := v4\<rparr>) = fw_ok env f"
  "fw_ok env (f\<lparr>f_hint_log := v4\<rparr>) = fw_ok env f"
  "fw_ok env (f\<lparr>f_send_failure_log := v4\<rparr>) = fw_ok env f"
  "fw_ok env (f\<lparr>f_timer_thread_log := v4\<rparr>) = fw_ok env f"
  "fw_ok env (f\<lparr>f_last_hint := v6\<rparr>) = fw_ok env f"
  "fw_ok env (f\<lparr>f_last_hint_tick := v3\<rparr>) = fw_ok env f"
  "fw_ok env (f\<lparr>f_session_code := v7\<rparr>) = fw_ok env f"
  "fw_ok env (f\<lparr>f_start_tick := v3\<rparr>) = fw_ok env f"
  "fw_ok env (f\<lparr>f_last_frame_tick := v3\<rparr>) = fw_ok env f"
  "fw_ok env (f\<lparr>f_watchdog_hwnd := v1\<rparr>) = fw_ok env f"
  "fw_ok env (f\<lparr>f_stopping := v1\<rparr>) = fw_ok env f"
  "fw_ok env (f\<lparr>f_unanswered := v8\<rparr>) = fw_ok env f"
  "fw_ok env (f\<lparr>f_period := v7\<rparr>) = fw_ok env f"
  "fw_ok env (f\<lparr>f_window_handle := v1\<rparr>) = fw_ok env f"
  "fw_ok env (f\<lparr>f_child_content := v1\<rparr>) = fw_ok env f"
  "fw_ok env (f\<lparr>f_quit_on_close := v1\<rparr>) = fw_ok env f"
  "fw_ok env (f\<lparr>f_asked := v9\<rparr>) = fw_ok env f"
  by (simp_all add: fw_ok_defs)

lemma fw_ok_ask [simp]: "fw_ok env (snd (ask answer f)) = fw_ok env f"
  by (simp add: ask_def)

lemma fw_ok_watchdog:
  "w_disabled w = w_disabled (f_watchdog f) \<Longrightarrow> fw_ok env (f\<lparr>f_watchdog := w\<rparr>) = fw_ok env f"
  by (simp add: fw_ok_defs)

lemma fw_ok_gate:
  "g_startup_started_ms g = g_startup_started_ms (f_gate f) \<Longrightarrow> fw_ok env (f\<lparr>f_gate := g\<rparr>) = fw_ok env f"
  by (simp add: fw_ok_defs)

lemma fw_ok_liveness:
  "l_epoch l = l_epoch (f_liveness f) \<Longrightarrow> l_watching l = l_watching (f_liveness f) \<Longrightarrow>
   fw_ok env (f\<lparr>f_liveness := l\<rparr>) = fw_ok env f"
  by (simp add: fw_ok_defs)

lemmas fw_ok_field = fw_ok_watchdog fw_ok_gate fw_ok_liveness fw_ok_emit

section \<open>The operations keep it\<close>

lemma judgeable_frame [simp]:
  "f_controller (UpdateWatchdogJudgeable env f) = f_controller f"
  "f_epoch (UpdateWatchdogJudgeable env f) = f_epoch f"
  "f_epoch_started (UpdateWatchdogJudgeable env f) = f_epoch_started f"
  "f_liveness (UpdateWatchdogJudgeable env f) = f_liveness f"
  "f_out (UpdateWatchdogJudgeable env f) = f_out f"
  "f_gate (UpdateWatchdogJudgeable env f) = f_gate f"
  "f_enabled (UpdateWatchdogJudgeable env f) = f_enabled f"
  "w_disabled (f_watchdog (UpdateWatchdogJudgeable env f)) = w_disabled (f_watchdog f)"
  by (simp_all add: UpdateWatchdogJudgeable_def act_defs gw_SetJudgeable_def)

lemma judgeable_ok [simp]: "fw_ok env (UpdateWatchdogJudgeable env f) = fw_ok env f"
  by (simp add: UpdateWatchdogJudgeable_def fw_ok_field ask_def Let_def gw_SetJudgeable_def)

lemma adapter_ok [simp]: "fw_ok env (NoteEngineAdapter verbose env f) = fw_ok env f"
  by (simp add: NoteEngineAdapter_def ask_def Let_def split: option.split)

lemma adapter_frame [simp]:
  "f_controller (NoteEngineAdapter verbose env f) = f_controller f"
  "f_enabled (NoteEngineAdapter verbose env f) = f_enabled f"
  by (simp_all add: NoteEngineAdapter_def act_defs Let_def split: option.split)

lemma check_adapter_ok [simp]: "fw_ok env (fst (CheckRenderAdapter env f)) = fw_ok env f"
  by (simp add: CheckRenderAdapter_def ask_def Let_def)

definition quits_for_loss :: "FlutterWindow \<Rightarrow> nat" where
  "quits_for_loss f = count_list (f_out f) (FxPostQuitMessage kGpuLossExitCode)"

lemma quits_ask [simp]: "quits_for_loss (snd (ask a f)) = quits_for_loss f"
  by (simp add: quits_for_loss_def ask_def)

lemma quits_judgeable [simp]: "quits_for_loss (UpdateWatchdogJudgeable env f) = quits_for_loss f"
  by (simp add: quits_for_loss_def UpdateWatchdogJudgeable_def ask_def Let_def)

lemma begin_epoch_quits [simp]: "quits_for_loss (begin_epoch reason env f) = quits_for_loss f"
  by (simp add: quits_for_loss_def begin_epoch_def UpdateWatchdogJudgeable_def act_defs Let_def)

text \<open>Building an engine in a window that has none, and tearing one down.\<close>

lemma begin_epoch_ok:
  assumes "fw_ok env f" and "\<not> f_controller f"
  shows "fw_ok env (begin_epoch reason env f)" "\<not> f_controller (begin_epoch reason env f)"
    "f_epoch (begin_epoch reason env f) = f_epoch f + 1"
  using assms
  by (auto simp: begin_epoch_def UpdateWatchdogJudgeable_def fw_ok_defs act_defs Let_def
      gw_SetJudgeable_def gate_EngineCreated_def dl_EpochStarted_def dest: callbacks_safe_le)

lemma engine_up_ok:
  assumes "fw_ok env f" and "\<not> f_controller f" and "0 < f_epoch f" and "quits_for_loss f = 0"
  shows "fw_ok env (engine_up env f)" "f_controller (engine_up env f)"
  using assms by (simp_all add: engine_up_def act_defs Let_def) (auto simp: fw_ok_defs quits_for_loss_def drop_ok_create)

lemma CreateController_ok:
  assumes "fw_ok env f" and "\<not> f_controller f" and "quits_for_loss f = 0"
  shows "fw_ok env (fst (CreateController reason env f))"
    "f_controller (fst (CreateController reason env f)) = snd (CreateController reason env f)"
proof -
  let ?g = "begin_epoch reason env f"
  let ?h = "snd (ask (engine_starts env) (emit (FxCreateEngine (f_epoch ?g) reason) ?g))"
  have g: "fw_ok env ?g" "\<not> f_controller ?g" "0 < f_epoch ?g" "quits_for_loss ?g = 0"
    using begin_epoch_ok [OF assms(1,2)] assms by (auto simp: fw_ok_defs)
  then have h: "fw_ok env ?h" "\<not> f_controller ?h" "0 < f_epoch ?h" "quits_for_loss ?h = 0"
    by (auto simp: fw_ok_defs quits_for_loss_def act_defs)
  then have "fw_ok env (?h\<lparr>f_controller := False\<rparr>)" by (auto simp: fw_ok_defs)
  with h engine_up_ok [of env ?h] show "fw_ok env (fst (CreateController reason env f))"
    "f_controller (fst (CreateController reason env f)) = snd (CreateController reason env f)"
    by (simp_all add: CreateController_def ask_def Let_def fw_ok_emit)
      (simp add: act_defs)
qed

lemma DestroyController_frame [simp]:
  "f_epoch (DestroyController reason env f) = f_epoch f"
  "f_gate (DestroyController reason env f) = f_gate f"
  "f_watchdog (DestroyController reason env f) = f_watchdog f"
  "f_enabled (DestroyController reason env f) = f_enabled f"
  "\<not> f_controller (DestroyController reason env f)"
  by (simp_all add: DestroyController_def act_defs Let_def)

lemma DestroyController_quits [simp]:
  "quits_for_loss (DestroyController reason env f) = quits_for_loss f"
  by (simp add: quits_for_loss_def DestroyController_def act_defs Let_def)

lemma DestroyController_ok:
  assumes "fw_ok env f"
  shows "fw_ok env (DestroyController reason env f)"
proof (cases "f_controller f")
  case False
  then have "\<not> f_channel f" "\<not> f_probe_armed f" using assms by (auto simp: fw_ok_defs)
  then show ?thesis using assms False by (simp add: DestroyController_def fw_ok_defs)
next
  case True
  have "f_channel f" using assms True by (simp add: fw_ok_defs)
  then show ?thesis using assms True
    by (simp add: DestroyController_def act_defs Let_def fw_ok_defs)
      (auto simp: drop_ok_destroy dest: callbacks_safe_le)
qed

lemma gate_started [simp]:
  "g_startup_started_ms (fst (gate_Request why t g)) = g_startup_started_ms g"
  "g_startup_started_ms (fst (gate_Poll t g)) = g_startup_started_ms g"
  "g_startup_started_ms (gate_StartupComplete t g) = g_startup_started_ms g"
  by (simp_all add: gate_Request_def gate_Poll_def gate_Release_def gate_StartupComplete_def Let_def)

lemma PerformEngineRebuild_ok:
  assumes "fw_ok env f"
  shows "fw_ok env (PerformEngineRebuild reason env f)"
proof (cases "f_controller f")
  case True
  let ?d = "DestroyController reason env f"
  have "fw_ok env ?d" by (rule DestroyController_ok [OF assms])
  then have "fw_ok env (fst (CreateController reason env ?d))"
    by (rule CreateController_ok) (use assms True in \<open>simp_all add: fw_ok_defs quits_for_loss_def [of f]\<close>)
  then show ?thesis using assms
    by (simp add: PerformEngineRebuild_def ask_def Let_def case_prod_beta)
qed (use assms in \<open>simp add: PerformEngineRebuild_def\<close>)

lemma log_nonempty_frame [simp]:
  "f_controller (log_nonempty LogWatchdog m f) = f_controller f"
  "f_enabled (log_nonempty LogWatchdog m f) = f_enabled f"
  "f_gate (log_nonempty LogWatchdog m f) = f_gate f"
  "f_policy (log_nonempty LogWatchdog m f) = f_policy f"
  "f_watchdog (log_nonempty LogWatchdog m f) = f_watchdog f"
  "f_epoch (log_nonempty LogWatchdog m f) = f_epoch f"
  "f_asked (log_nonempty LogWatchdog m f) = f_asked f"
  by (simp_all add: act_defs)

lemma RequestEngineRebuild_ok:
  assumes "fw_ok env f"
  shows "fw_ok env (RequestEngineRebuild why env f)"
  using assms
  by (simp add: RequestEngineRebuild_def ask_def Let_def case_prod_beta fw_ok_gate PerformEngineRebuild_ok)

lemma HandleSessionDecision_ok:
  "fw_ok env f \<Longrightarrow> fw_ok env (HandleSessionDecision decision env f)"
  by (simp add: HandleSessionDecision_def Let_def RequestEngineRebuild_ok)

lemma SetWatchdogPeriod_ok [simp]: "fw_ok env (SetWatchdogPeriod ms env f) = fw_ok env f"
  by (simp add: SetWatchdogPeriod_def ask_def Let_def fw_ok_emit)

lemma arm_timer_ok: "fw_ok env f \<Longrightarrow> f_timer_queue f \<Longrightarrow> fw_ok env (fst (arm_timer ms env f))"
  by (simp add: arm_timer_def ask_def Let_def fw_ok_emit) (simp add: fw_ok_defs act_defs)

lemma StartWatchdogTimer_ok:
  assumes "fw_ok env f"
  shows "fw_ok env (fst (StartWatchdogTimer ms env f))"
proof -
  have "fw_ok env f \<Longrightarrow> fw_ok env (f\<lparr>f_timer_queue := True\<rparr>)" for f by (simp add: fw_ok_defs)
  then show ?thesis using assms
    by (simp add: StartWatchdogTimer_def ask_def Let_def fw_ok_emit arm_timer_ok)
qed

lemma StopWatchdogTimer_ok: "fw_ok env f \<Longrightarrow> fw_ok env (StopWatchdogTimer f)"
  by (simp add: StopWatchdogTimer_def Let_def) (simp add: fw_ok_defs act_defs)

lemma StopWatchdogTimer_frame [simp]:
  "f_controller (StopWatchdogTimer f) = f_controller f"
  "f_watchdog (StopWatchdogTimer f) = f_watchdog f"
  "f_enabled (StopWatchdogTimer f) = f_enabled f"
  "f_shutdown (StopWatchdogTimer f) = f_shutdown f"
  "f_epoch (StopWatchdogTimer f) = f_epoch f"
  "f_gate (StopWatchdogTimer f) = f_gate f"
  "\<not> f_timer (StopWatchdogTimer f)"
  by (simp_all add: StopWatchdogTimer_def act_defs Let_def)

lemma DisableWatchdog_ok:
  assumes "fw_ok env f"
  shows "fw_ok env (DisableWatchdog why f)"
proof -
  have "fw_ok env g \<Longrightarrow> fw_ok env (g\<lparr>f_watchdog := gw_Disable (f_watchdog g)\<rparr>)" for g
    by (auto simp: fw_ok_defs gw_Disable_def split: if_splits)
  then show ?thesis using assms
    by (simp add: DisableWatchdog_def Let_def fw_ok_emit StopWatchdogTimer_ok)
qed

lemma removed_reason_ok [simp]: "fw_ok env (snd (GetRemovedReason env f)) = fw_ok env f"
  by (simp add: GetRemovedReason_def)

lemma ReportDeviceLoss_ok [simp]: "fw_ok env (ReportDeviceLoss cause escalation env f) = fw_ok env f"
  by (simp add: ReportDeviceLoss_def ask_def Let_def case_prod_beta fw_ok_emit)

lemma NoteLossHint_ok [simp]: "fw_ok env (NoteLossHint hint code env f) = fw_ok env f"
  by (simp add: NoteLossHint_def ask_def Let_def)

lemma StartProbe_ok: "fw_ok env f \<Longrightarrow> fw_ok env (StartProbe f)"
  by (auto simp: StartProbe_def fw_ok_defs act_defs Let_def)

lemma StopWatchdogTimer_quits [simp]: "quits_for_loss (StopWatchdogTimer f) = quits_for_loss f"
  by (simp add: quits_for_loss_def StopWatchdogTimer_def act_defs Let_def)

lemma LogWatchdog_quits [simp]: "quits_for_loss (LogWatchdog m f) = quits_for_loss f"
  by (simp add: quits_for_loss_def act_defs)

lemma LogWatchdog_frame [simp]:
  "f_controller (LogWatchdog m f) = f_controller f"
  "f_channel (LogWatchdog m f) = f_channel f"
  "f_enabled (LogWatchdog m f) = f_enabled f"
  "f_gate (LogWatchdog m f) = f_gate f"
  "f_policy (LogWatchdog m f) = f_policy f"
  "f_watchdog (LogWatchdog m f) = f_watchdog f"
  "f_liveness (LogWatchdog m f) = f_liveness f"
  "f_epoch (LogWatchdog m f) = f_epoch f"
  "f_asked (LogWatchdog m f) = f_asked f"
  "f_timer (LogWatchdog m f) = f_timer f"
  "f_shutdown (LogWatchdog m f) = f_shutdown f"
  "f_probe (LogWatchdog m f) = f_probe f"
  "f_stopping (LogWatchdog m f) = f_stopping f"
  "f_unanswered (LogWatchdog m f) = f_unanswered f"
  by (simp_all add: act_defs)

lemma fw_ok_quit:
  "fw_ok env f \<Longrightarrow> quits_for_loss f = 0 \<Longrightarrow> w_disabled (f_watchdog f) \<Longrightarrow> \<not> f_controller f \<Longrightarrow>
   fw_ok env (emit (FxPostQuitMessage kGpuLossExitCode) f)"
  by (auto simp: fw_ok_defs quits_for_loss_def emit_def dest: callbacks_safe_le)

lemma ExitAfterDeviceLoss_ok:
  assumes "fw_ok env f" and "quits_for_loss f = 0" and "w_disabled (f_watchdog f)"
  shows "fw_ok env (ExitAfterDeviceLoss env f)"
  unfolding ExitAfterDeviceLoss_def Let_def using assms
  by (intro fw_ok_quit DestroyController_ok StopWatchdogTimer_ok) simp_all

lemma apply_report_ok [simp]: "fw_ok env (apply_report action env f) = fw_ok env f"
  by (simp add: apply_report_def)

lemma apply_report_frame [simp]:
  "f_controller (apply_report action env f) = f_controller f"
  "f_enabled (apply_report action env f) = f_enabled f"
  "f_watchdog (apply_report action env f) = f_watchdog f"
  "f_gate (apply_report action env f) = f_gate f"
  "f_epoch (apply_report action env f) = f_epoch f"
  "quits_for_loss (apply_report action env f) = quits_for_loss f"
  by (simp_all add: apply_report_def ReportDeviceLoss_def GetRemovedReason_def quits_for_loss_def
      act_defs Let_def)

lemma apply_exit_ok:
  assumes "fw_ok env f" and "quits_for_loss f = 0" and "w_disabled (f_watchdog f)"
  shows "fw_ok env (apply_exit action env f)"
  unfolding apply_exit_def Let_def using assms by (simp add: ExitAfterDeviceLoss_ok)

lemma apply_restart_ok: "fw_ok env f \<Longrightarrow> fw_ok env (apply_restart action env f)"
  by (simp add: apply_restart_def RequestEngineRebuild_ok)

lemma apply_timer_ok: "fw_ok env f \<Longrightarrow> fw_ok env (apply_timer action env f)"
  by (simp add: apply_timer_def case_prod_beta StartWatchdogTimer_ok DisableWatchdog_ok)

lemma ApplyAction_ok:
  assumes "fw_ok env f"
    and "exit_process action \<longrightarrow> quits_for_loss f = 0 \<and> w_disabled (f_watchdog f)"
  shows "fw_ok env (ApplyAction action env f)"
  using assms
  by (simp add: ApplyAction_def Let_def apply_exit_ok apply_restart_ok StartProbe_ok apply_timer_ok)

lemma Dispatch_ok:
  assumes "fw_ok env f"
  shows "fw_ok env (Dispatch event env f)"
proof (cases "f_enabled f \<and> \<not> gw_has_given_up (f_watchdog f)")
  case True
  let ?e = "watchdog_event event (clock env (f_asked f))"
  let ?g = "f\<lparr>f_asked := Suc (f_asked f), f_watchdog := gw_step (f_watchdog f) ?e\<rparr>"
  have q: "quits_for_loss f = 0"
    using assms True by (simp add: fw_ok_defs quits_for_loss_def gw_has_given_up_def)
  then have "fw_ok env ?g" using assms by (simp add: fw_ok_defs quits_for_loss_def)
  moreover have "exit_process (gw_action (f_watchdog f) ?e) \<longrightarrow> w_disabled (f_watchdog ?g)"
    using exit_disables [of "f_watchdog f" ?e] by simp
  ultimately have "fw_ok env (ApplyAction (gw_action (f_watchdog f) ?e) env ?g)"
    using q by (intro ApplyAction_ok) (simp_all add: quits_for_loss_def)
  then show ?thesis using True
    by (simp add: Dispatch_def ask_def Let_def case_prod_beta gw_step_def gw_action_def)
qed (use assms in \<open>simp add: Dispatch_def\<close>)

lemma RenderDeviceIsLost_ok [simp]: "fw_ok env (fst (RenderDeviceIsLost env f)) = fw_ok env f"
  using removed_reason_ok [of env f]
  by (simp add: RenderDeviceIsLost_def case_prod_beta)

lemma liveness_kept [simp]:
  "l_epoch (fst (dl_OnStamp stamp t l)) = l_epoch l"
  "l_watching (fst (dl_OnStamp stamp t l)) = l_watching l"
  "l_epoch (fst (dl_Evaluate t l)) = l_epoch l"
  "l_watching (fst (dl_Evaluate t l)) = l_watching l"
  by (auto simp: dl_OnStamp_def dl_Evaluate_def dl_raster_def Let_def)

lemma OnMainStarting_ok [simp]: "fw_ok env (OnMainStarting args env f) = fw_ok env f"
  by (simp add: OnMainStarting_def Let_def fw_ok_emit)

lemma OnStartupComplete_ok [simp]: "fw_ok env (OnStartupComplete args t f) = fw_ok env f"
  by (simp add: OnStartupComplete_def Let_def fw_ok_emit fw_ok_gate)

lemma OnLivenessStamp_ok [simp]: "fw_ok env (OnLivenessStamp args t f) = fw_ok env f"
  by (simp add: OnLivenessStamp_def Let_def fw_ok_emit fw_ok_liveness case_prod_beta)

lemma OnRunnerChannelCall_ok [simp]: "fw_ok env (OnRunnerChannelCall name args env f) = fw_ok env f"
  by (simp add: OnRunnerChannelCall_def ask_def Let_def fw_ok_emit)

lemma EvaluateDartLiveness_ok [simp]: "fw_ok env (EvaluateDartLiveness t f) = fw_ok env f"
  by (simp add: EvaluateDartLiveness_def case_prod_beta fw_ok_liveness)

lemma after_frame_ok [simp]: "fw_ok env (after_frame was n f) = fw_ok env f"
  by (simp add: after_frame_def Let_def fw_ok_emit)

text \<open>A frame callback that is pending is the armed one; answering it leaves none.\<close>

lemma frame_answered_ok:
  assumes "fw_ok env f" and "0 < pending_callbacks (f_out f)"
  shows "fw_ok env ((emit FxFrameAnswered f)\<lparr>f_probe_armed := False\<rparr>)"
  using assms by (auto simp: fw_ok_defs emit_def split: if_splits dest: callbacks_safe_le)

lemma OnFramePresented_ok:
  assumes "fw_ok env (f\<lparr>f_probe_armed := False\<rparr>)"
  shows "fw_ok env (OnFramePresented env f)"
  using assms
  by (simp add: OnFramePresented_def ask_def Let_def case_prod_beta HandleSessionDecision_ok Dispatch_ok)

lemma tick_lines_ok [simp]: "fw_ok env (tick_lines t f) = fw_ok env f"
  by (simp add: tick_lines_def case_prod_beta Let_def fw_ok_watchdog gw_ConsumeJudgementHoldExpired_def)

lemma tick_judge_ok: "fw_ok env f \<Longrightarrow> fw_ok env (tick_judge t env f)"
  by (simp add: tick_judge_def case_prod_beta Dispatch_ok)

lemma OnWatchdogTick_ok: "fw_ok env f \<Longrightarrow> fw_ok env (OnWatchdogTick env f)"
  by (simp add: OnWatchdogTick_def ask_def Let_def case_prod_beta fw_ok_gate PerformEngineRebuild_ok
      HandleSessionDecision_ok tick_judge_ok)

lemma OnRebuildDue_ok: "fw_ok env f \<Longrightarrow> fw_ok env (OnRebuildDue env f)"
  by (simp add: OnRebuildDue_def ask_def Let_def case_prod_beta fw_ok_gate PerformEngineRebuild_ok)

lemma OnRasterLoss_ok: "fw_ok env f \<Longrightarrow> fw_ok env (OnRasterLoss n env f)"
  by (simp add: OnRasterLoss_def Dispatch_ok)

lemma OnEglStorm_ok: "fw_ok env f \<Longrightarrow> fw_ok env (OnEglStorm n env f)"
  by (simp add: OnEglStorm_def Dispatch_ok)

lemma log_hint_ok [simp]: "fw_ok env (log_hint m env f) = fw_ok env f"
  by (simp add: log_hint_def ask_def Let_def case_prod_beta)

lemma OnPowerBroadcast_ok: "fw_ok env f \<Longrightarrow> fw_ok env (OnPowerBroadcast n env f)"
  by (simp add: OnPowerBroadcast_def RequestEngineRebuild_ok Dispatch_ok)

lemma OnDisplayChange_ok: "fw_ok env f \<Longrightarrow> fw_ok env (OnDisplayChange env f)"
  by (simp add: OnDisplayChange_def Dispatch_ok)

lemma OnSessionChange_ok: "fw_ok env f \<Longrightarrow> fw_ok env (OnSessionChange n env f)"
  by (simp add: OnSessionChange_def ask_def Let_def case_prod_beta HandleSessionDecision_ok Dispatch_ok)

lemma OnDestroy_ok: "fw_ok env f \<Longrightarrow> fw_ok env (OnDestroy env f)"
  by (simp add: OnDestroy_def Let_def DestroyController_ok StopWatchdogTimer_ok fw_ok_emit)

lemma Win32_Destroy_ok: "fw_ok env f \<Longrightarrow> fw_ok env (Win32_Destroy env f)"
  by (simp add: Win32_Destroy_def OnDestroy_ok)

lemma Win32_MessageHandler_ok: "fw_ok env f \<Longrightarrow> fw_ok env (fst (Win32_MessageHandler m env f))"
  by (cases m) (simp_all add: Let_def ask_def fw_ok_emit Win32_Destroy_ok)

lemma on_message_ok: "fw_ok env f \<Longrightarrow> fw_ok env (on_message m env f)"
  by (cases m) (simp_all add: fw_ok_emit OnPowerBroadcast_ok OnDisplayChange_ok OnSessionChange_ok)

lemma pass_on_ok: "fw_ok env f \<Longrightarrow> fw_ok env (fst (pass_on m env f))"
  by (simp add: pass_on_def ask_def Let_def Win32_MessageHandler_ok on_message_ok split: option.split)

lemma WithdrawOnClose_ok: "fw_ok env f \<Longrightarrow> fw_ok env (WithdrawOnClose env f)"
  by (auto simp: WithdrawOnClose_def sh_WindowDestroyed_def fw_ok_defs act_defs Let_def
      dest: callbacks_safe_le split: if_splits)

lemma MessageHandler_ok: "fw_ok env f \<Longrightarrow> fw_ok env (fst (MessageHandler m env f))"
  by (cases m) (simp_all add: pass_on_ok WithdrawOnClose_ok OnWatchdogTick_ok OnRebuildDue_ok
      OnRasterLoss_ok OnEglStorm_ok fw_ok_emit)

lemma wedged_evidence_ok [simp]: "fw_ok env (snd (wedged_evidence env f)) = fw_ok env f"
  by (simp add: wedged_evidence_def ask_def Let_def case_prod_beta)

lemma OnTickUnanswered_ok [simp]: "fw_ok env (OnTickUnanswered env f) = fw_ok env f"
  by (simp add: OnTickUnanswered_def ask_def Let_def case_prod_beta fw_ok_emit)

lemma OnWatchdogTimerThread_ok: "fw_ok env f \<Longrightarrow> fw_ok env (OnWatchdogTimerThread env f)"
  by (simp add: OnWatchdogTimerThread_def timer_fired_def ask_def Let_def case_prod_beta OnWatchdogTick_ok)

interpretation fw: invariant_machine "fw_step env" "fw_ok env"
proof
  fix f e
  assume "fw_ok env f"
  then show "fw_ok env (fw_step env f e)"
    by (cases e) (simp_all add: MessageHandler_ok OnFramePresented_ok frame_answered_ok
        OnWatchdogTimerThread_ok)
qed

lemma fw_ok_init: "fw_ok env (fw_init s)"
  by (simp add: fw_ok_defs fw_init_def gw_init_def sh_init_def drop_ok_init)

lemma start_parts_ok [simp]:
  "fw_ok env (create_sentinel env f) = fw_ok env f"
  "fw_ok env (register_session env f) = fw_ok env f"
  "fw_ok env (install_interposer env f) = fw_ok env f"
  by (simp_all add: create_sentinel_def register_session_def install_interposer_def ask_def Let_def
      fw_ok_emit split: option.split)

lemma OnCreate_ok:
  assumes "fw_ok env f" and "\<not> f_controller f" and "quits_for_loss f = 0"
  shows "fw_ok env (fst (OnCreate env f))"
  using CreateController_ok [OF assms, of "''initial start''"]
  by (simp add: OnCreate_def ask_def Let_def case_prod_beta Dispatch_ok)

lemma OnDestroy_gone [simp]: "\<not> f_controller (OnDestroy env f)"
  by (simp add: OnDestroy_def Let_def)

lemma fw_ok_start: "fw_ok env (fw_start env s)"
proof -
  let ?d = "Win32_Destroy env (fw_init s)"
  let ?g = "emit FxUpdateTheme ((snd (ask (window_created env) ?d))\<lparr>f_window_handle := True\<rparr>)"
  have "fw_ok env ?d" by (rule Win32_Destroy_ok [OF fw_ok_init])
  moreover from this have "fw_ok env ?g" by (simp add: fw_ok_emit)
  moreover have "\<not> f_controller ?g" by (simp add: act_defs Win32_Destroy_def)
  moreover have "quits_for_loss ?g = 0"
    by (simp add: quits_for_loss_def act_defs Win32_Destroy_def OnDestroy_def DestroyController_def
        StopWatchdogTimer_def fw_init_def Let_def)
  ultimately show ?thesis
    using OnCreate_ok [of env ?g]
    by (simp add: fw_start_def Create_def case_prod_beta ask_def)
qed

lemma fw_ok_run: "fw_ok env (fw_run env s es)"
  unfolding fw_run_def by (rule fw.run_inv [OF fw_ok_start])

end
