(* ===== verification/Window_Epoch.thy ===== *)
theory Window_Epoch
  imports Window_Invariant
begin

text \<open>
  When the window builds a new engine, and when it never does again: the engine generation changes by
  at most one per event, only in a window that has an engine and only when the gate blocks nothing;
  a window without an engine stays without one.
\<close>

section \<open>Questions only ever go on\<close>

lemma asked_update_ops [simp]:
  "f_asked f \<le> f_asked (UpdateWatchdogJudgeable env f)"
  "f_asked f \<le> f_asked (NoteEngineAdapter verbose env f)"
  "f_asked f \<le> f_asked (SetWatchdogPeriod ms env f)"
  "f_asked f \<le> f_asked (StopWatchdogTimer f)"
  "f_asked f \<le> f_asked (StartProbe f)"
  "f_asked f \<le> f_asked (NoteLossHint h c env f)"
  "f_asked f \<le> f_asked (DestroyController reason env f)"
  "f_asked f \<le> f_asked (snd (GetRemovedReason env f))"
  by (simp_all add: UpdateWatchdogJudgeable_def NoteEngineAdapter_def SetWatchdogPeriod_def
      StopWatchdogTimer_def StartProbe_def NoteLossHint_def DestroyController_def GetRemovedReason_def
      act_defs Let_def split: option.split)

lemma asked_composite [simp]:
  "f_asked f \<le> f_asked (fst (CheckRenderAdapter env f))"
  "f_asked f \<le> f_asked (fst (arm_timer ms env f))"
  "f_asked f \<le> f_asked (fst (RenderDeviceIsLost env f))"
  "f_asked f \<le> f_asked (EvaluateDartLiveness t f)"
  "f_asked f \<le> f_asked (after_frame b n f)"
  "f_asked f \<le> f_asked (log_hint m env f)"
  "f_asked f \<le> f_asked (WithdrawOnClose env f)"
  "f_asked f \<le> f_asked (apply_report action env f)"
  by (simp_all add: le_SucI CheckRenderAdapter_def arm_timer_def RenderDeviceIsLost_def EvaluateDartLiveness_def
      after_frame_def log_hint_def WithdrawOnClose_def tick_lines_def apply_report_def ReportDeviceLoss_def
      GetRemovedReason_def act_defs Let_def case_prod_beta)

lemma asked_tick_lines [simp]: "f_asked (tick_lines t f) = f_asked f"
  by (simp add: tick_lines_def act_defs Let_def case_prod_beta)

lemma asked_le_trans: "f_asked f \<le> f_asked g \<Longrightarrow> f_asked g \<le> f_asked h \<Longrightarrow> f_asked f \<le> f_asked h"
  by simp

lemma asked_begin_epoch [simp]: "f_asked f \<le> f_asked (begin_epoch reason env f)"
  by (simp add: begin_epoch_def UpdateWatchdogJudgeable_def act_defs Let_def)

lemma asked_engine_up [simp]: "f_asked f \<le> f_asked (engine_up env f)"
  by (simp add: engine_up_def NoteEngineAdapter_def act_defs Let_def split: option.split)

lemma asked_create [simp]: "f_asked f \<le> f_asked (fst (CreateController reason env f))"
proof -
  let ?b = "begin_epoch reason env f"
  have *: "f_asked f \<le> f_asked g" "f_asked f \<le> f_asked (engine_up env g)" if "f_asked ?b \<le> f_asked g" for g
    using that asked_begin_epoch [of f reason env] asked_engine_up [of g env] by linarith+
  show ?thesis
    by (simp add: CreateController_def ask_def Let_def emit_def LogWatchdog_def LogEngine_def * le_SucI)
qed

lemma asked_perform [simp]: "f_asked f \<le> f_asked (PerformEngineRebuild reason env f)"
proof -
  let ?c = "fst (CreateController reason env (DestroyController reason env f))"
  have c: "f_asked f \<le> f_asked ?c"
    using asked_update_ops(7) asked_create by (rule asked_le_trans)
  have "f_asked f \<le> f_asked (UpdateWatchdogJudgeable env g)" if "f_asked ?c \<le> f_asked g" for g
    using c that asked_update_ops(1) [of g env] by linarith
  then show ?thesis
    by (simp add: PerformEngineRebuild_def ask_def emit_def LogWatchdog_def Let_def case_prod_beta)
qed

lemma asked_timer [simp]: "f_asked f \<le> f_asked (apply_timer action env f)"
proof -
  have s: "f_asked f \<le> f_asked (fst (StartWatchdogTimer ms env f))" for ms
  proof -
    have "f_asked f \<le> f_asked (fst (arm_timer ms env g))" if "f_asked f \<le> f_asked g" for g
      using that asked_composite(2) [of g ms env] by linarith
    then show ?thesis by (simp add: StartWatchdogTimer_def ask_def emit_def LogWatchdog_def Let_def le_SucI)
  qed
  have "f_asked g = f_asked (DisableWatchdog why g)" for why g
    by (simp add: DisableWatchdog_def StopWatchdogTimer_def act_defs Let_def)
  with s show ?thesis by (simp add: apply_timer_def case_prod_beta)
qed

lemmas asked_on [simp] = le_trans [OF _ asked_timer] le_trans [OF _ asked_update_ops(5)]
  le_trans [OF _ asked_update_ops(6)] le_trans [OF _ asked_composite(3)] le_trans [OF _ asked_composite(4)]
  le_trans [OF _ asked_composite(5)] le_trans [OF _ asked_composite(6)] le_trans [OF _ asked_composite(8)]


section \<open>When the engine generation changes\<close>

text \<open>The operations below never build an engine.\<close>

lemma SetWatchdogPeriod_frame [simp]:
  "f_controller (SetWatchdogPeriod ms env f) = f_controller f"
  "f_epoch (SetWatchdogPeriod ms env f) = f_epoch f"
  by (simp_all add: SetWatchdogPeriod_def act_defs Let_def)

lemma StartWatchdogTimer_frame [simp]:
  "f_controller (fst (StartWatchdogTimer ms env f)) = f_controller f"
  "f_epoch (fst (StartWatchdogTimer ms env f)) = f_epoch f"
  by (simp_all add: StartWatchdogTimer_def arm_timer_def act_defs Let_def)

lemma DisableWatchdog_frame [simp]:
  "f_controller (DisableWatchdog why f) = f_controller f"
  "f_epoch (DisableWatchdog why f) = f_epoch f"
  by (simp_all add: DisableWatchdog_def Let_def emit_def)

lemma apply_timer_frame [simp]:
  "f_controller (apply_timer action env f) = f_controller f"
  "f_epoch (apply_timer action env f) = f_epoch f"
  by (simp_all add: apply_timer_def case_prod_beta)

lemma StartProbe_frame [simp]:
  "f_controller (StartProbe f) = f_controller f"
  "f_epoch (StartProbe f) = f_epoch f"
  by (simp_all add: StartProbe_def act_defs Let_def)

lemma apply_exit_frame [simp]:
  "\<not> f_controller (apply_exit action env f)"
  "f_epoch (apply_exit action env f) = f_epoch f"
  by (simp_all add: apply_exit_def ExitAfterDeviceLoss_def Let_def emit_def)

lemma NoteLossHint_frame [simp]:
  "f_controller (NoteLossHint h c env f) = f_controller f"
  "f_epoch (NoteLossHint h c env f) = f_epoch f"
  "f_gate (NoteLossHint h c env f) = f_gate f"
  "f_enabled (NoteLossHint h c env f) = f_enabled f"
  by (simp_all add: NoteLossHint_def act_defs Let_def)

lemma log_hint_frame [simp]:
  "f_controller (log_hint m env f) = f_controller f"
  "f_epoch (log_hint m env f) = f_epoch f"
  "f_gate (log_hint m env f) = f_gate f"
  "f_enabled (log_hint m env f) = f_enabled f"
  by (simp_all add: log_hint_def act_defs Let_def case_prod_beta)

lemma RenderDeviceIsLost_frame [simp]:
  "f_controller (fst (RenderDeviceIsLost env f)) = f_controller f"
  "f_epoch (fst (RenderDeviceIsLost env f)) = f_epoch f"
  "f_gate (fst (RenderDeviceIsLost env f)) = f_gate f"
  by (simp_all add: RenderDeviceIsLost_def GetRemovedReason_def act_defs case_prod_beta)

lemma EvaluateDartLiveness_frame [simp]:
  "f_controller (EvaluateDartLiveness t f) = f_controller f"
  "f_epoch (EvaluateDartLiveness t f) = f_epoch f"
  "f_gate (EvaluateDartLiveness t f) = f_gate f"
  by (simp_all add: EvaluateDartLiveness_def act_defs case_prod_beta)

lemma CheckRenderAdapter_frame [simp]:
  "f_controller (fst (CheckRenderAdapter env f)) = f_controller f"
  "f_epoch (fst (CheckRenderAdapter env f)) = f_epoch f"
  "f_gate (fst (CheckRenderAdapter env f)) = f_gate f"
  by (simp_all add: CheckRenderAdapter_def NoteEngineAdapter_def act_defs Let_def case_prod_beta
      split: option.split)

lemma after_frame_frame [simp]:
  "f_controller (after_frame b n f) = f_controller f"
  "f_epoch (after_frame b n f) = f_epoch f"
  by (simp_all add: after_frame_def act_defs Let_def)

lemma tick_lines_frame [simp]:
  "f_controller (tick_lines t f) = f_controller f"
  "f_epoch (tick_lines t f) = f_epoch f"
  "f_gate (tick_lines t f) = f_gate f"
  by (simp_all add: tick_lines_def act_defs Let_def case_prod_beta)

lemma channel_frame [simp]:
  "f_controller (OnRunnerChannelCall name args env f) = f_controller f"
  "f_epoch (OnRunnerChannelCall name args env f) = f_epoch f"
  by (simp_all add: OnRunnerChannelCall_def OnMainStarting_def OnStartupComplete_def
      OnLivenessStamp_def act_defs Let_def case_prod_beta)

lemma engine_up_epoch [simp]: "f_epoch (engine_up env f) = f_epoch f"
  by (simp add: engine_up_def NoteEngineAdapter_def act_defs Let_def split: option.split)

lemma begin_epoch_epoch [simp]: "f_epoch (begin_epoch reason env f) = f_epoch f + 1"
  by (simp add: begin_epoch_def act_defs Let_def UpdateWatchdogJudgeable_def)

lemma CreateController_epoch [simp]: "f_epoch (fst (CreateController reason env f)) = f_epoch f + 1"
  by (simp add: CreateController_def ask_def Let_def emit_def LogWatchdog_def LogEngine_def)

lemma PerformEngineRebuild_epoch:
  "f_epoch (PerformEngineRebuild reason env f) = f_epoch f + (if f_controller f then 1 else 0)"
  by (simp add: PerformEngineRebuild_def Let_def case_prod_beta ask_def)

text \<open>
  How an operation may change the generation: not at all, or by one, for a window that has an engine
  and at a clock reading, among the ones the operation makes, at which the gate blocked nothing.
\<close>

definition gated :: "HostEnv \<Rightarrow> FlutterWindow \<Rightarrow> FlutterWindow \<Rightarrow> bool" where
  "gated env f f' \<longleftrightarrow> f_epoch f' = f_epoch f \<and> (f_controller f' \<longrightarrow> f_controller f) \<or>
     f_epoch f' = f_epoch f + 1 \<and> f_controller f \<and>
       (\<exists>i. f_asked f \<le> i \<and> i < f_asked f' \<and> \<not> gate_StartupBlocking (clock env i) (f_gate f))"

lemma gated_same:
  "f_epoch f' = f_epoch f \<Longrightarrow> f_controller f' = f_controller f \<Longrightarrow> gated env f f'"
  by (simp add: gated_def)

lemma gated_after:
  assumes "gated env g h" and "f_epoch g = f_epoch f" and "f_controller g \<longrightarrow> f_controller f"
    and "f_gate g = f_gate f" and "f_asked f \<le> f_asked g"
  shows "gated env f h"
  using assms unfolding gated_def by (metis le_trans)

lemma gated_before:
  assumes "gated env f g" and "f_epoch h = f_epoch g" and "f_controller h \<longrightarrow> f_controller g"
    and "f_asked g \<le> f_asked h"
  shows "gated env f h"
  using assms unfolding gated_def by (metis less_le_trans)

lemma request_rebuilds:
  "gd_verdict (snd (gate_Request why t g)) = kGateRebuildNow \<Longrightarrow> \<not> gate_StartupBlocking t g"
  by (auto simp: gate_Request_def gate_Release_def idle_decision_def Let_def split: if_splits)

lemma poll_rebuilds:
  "gd_verdict (snd (gate_Poll t g)) = kGateRebuildNow \<Longrightarrow> \<not> gate_StartupBlocking t g"
  by (auto simp: gate_Poll_def gate_Release_def idle_decision_def Let_def split: if_splits)

lemma gated_perform:
  "f_controller f \<Longrightarrow> \<not> gate_StartupBlocking (clock env (f_asked f)) (f_gate f) \<Longrightarrow>
   f_epoch h = f_epoch f + 1 \<Longrightarrow> f_asked f < f_asked h \<Longrightarrow> gated env f h"
  by (auto simp: gated_def)

lemma gated_request: "gated env f (RequestEngineRebuild why env f)"
proof (cases "f_enabled f \<and> f_controller f \<and>
    gd_verdict (snd (gate_Request why (clock env (f_asked f)) (f_gate f))) = kGateRebuildNow")
  case True
  then have "f_epoch (RequestEngineRebuild why env f) = f_epoch f + 1"
    by (simp add: RequestEngineRebuild_def ask_def Let_def case_prod_beta PerformEngineRebuild_epoch)
  moreover have "f_asked f < f_asked (PerformEngineRebuild r env g)" if "f_asked g = Suc (f_asked f)" for r g
    using asked_perform [of g r env] that by linarith
  then have "f_asked f < f_asked (RequestEngineRebuild why env f)" using True
    by (simp add: RequestEngineRebuild_def ask_def Let_def case_prod_beta)
  ultimately show ?thesis using True request_rebuilds by (blast intro: gated_perform)
next
  case False
  then show ?thesis
    by (intro gated_same) (auto simp: RequestEngineRebuild_def ask_def Let_def case_prod_beta)
qed

lemma gated_decision: "gated env f (HandleSessionDecision d env f)"
proof -
  have "gated env f (RequestEngineRebuild why env (log_nonempty LogWatchdog m f))" for why m
    by (rule gated_after [OF gated_request]) simp_all
  then show ?thesis
    by (simp add: HandleSessionDecision_def Let_def gated_same)
qed

lemma timer_gate [simp]:
  "f_gate (SetWatchdogPeriod ms env f) = f_gate f"
  "f_gate (fst (StartWatchdogTimer ms env f)) = f_gate f"
  "f_gate (DisableWatchdog why f) = f_gate f"
  "f_gate (StartProbe f) = f_gate f"
  by (simp_all add: StartWatchdogTimer_def arm_timer_def SetWatchdogPeriod_def
      StartProbe_def act_defs Let_def DisableWatchdog_def)

lemma apply_timer_gate [simp]: "f_gate (apply_timer action env f) = f_gate f"
  by (simp add: apply_timer_def case_prod_beta)

lemma gated_apply: "gated env f (ApplyAction action env f)"
proof -
  have exit: "gated env f (apply_exit action env (apply_report action env f))"
    by (simp add: gated_def)
  have "gated env g (apply_restart action env g)" for g
  proof -
    have "gated env g (RequestEngineRebuild why env (LogWatchdog m g))" for why m
      by (rule gated_after [OF gated_request]) simp_all
    then show ?thesis by (simp add: apply_restart_def gated_same)
  qed
  then have "gated env f (apply_restart action env (apply_report action env f))"
    by (rule gated_after) simp_all
  then have "gated env f (apply_timer action env
      (if start_probe action then StartProbe (apply_restart action env (apply_report action env f))
       else apply_restart action env (apply_report action env f)))"
    by (rule gated_before) simp_all
  with exit show ?thesis by (simp add: ApplyAction_def Let_def)
qed

lemma gated_dispatch: "gated env f (Dispatch event env f)"
proof -
  have "gated env f (ApplyAction action env (f\<lparr>f_asked := Suc (f_asked f), f_watchdog := w\<rparr>))" for action w
    by (rule gated_after [OF gated_apply]) simp_all
  then show ?thesis by (simp add: Dispatch_def ask_def Let_def case_prod_beta gated_same)
qed

text \<open>A hint and a presented frame only ever probe and set the timer.\<close>

definition probes_only :: "FlutterWindow \<Rightarrow> FlutterWindow \<Rightarrow> bool" where
  "probes_only f f' \<longleftrightarrow> f_controller f' = f_controller f \<and> f_epoch f' = f_epoch f \<and> f_gate f' = f_gate f \<and>
     f_asked f \<le> f_asked f'"

lemma apply_probes_only:
  "\<not> exit_process action \<Longrightarrow> \<not> restart_engine action \<Longrightarrow> probes_only f (ApplyAction action env f)"
  by (simp add: probes_only_def ApplyAction_def Let_def apply_restart_def)

lemma mild_action:
  assumes "event = DpDeviceLossHint \<or> event = DpFramePresented \<or> event = DpStarted"
  shows "\<not> exit_process (snd (gw_event w (watchdog_event event t)))"
    "\<not> restart_engine (snd (gw_event w (watchdog_event event t)))"
  using assms by (auto simp: gw_event_simps split: if_splits)

lemma dispatch_probes_only:
  assumes "event = DpDeviceLossHint \<or> event = DpFramePresented \<or> event = DpStarted"
  shows "probes_only f (Dispatch event env f)"
proof -
  have "probes_only f (ApplyAction (snd (gw_event w (watchdog_event event t))) env
      (f\<lparr>f_asked := Suc (f_asked f), f_watchdog := w'\<rparr>))" for w t w'
    using apply_probes_only [OF mild_action [OF assms, of w t], where env = env
        and f = "f\<lparr>f_asked := Suc (f_asked f), f_watchdog := w'\<rparr>"]
    by (simp add: probes_only_def)
  then show ?thesis by (simp add: Dispatch_def ask_def Let_def case_prod_beta) (simp add: probes_only_def)
qed

lemma gated_tick_judge: "gated env f (tick_judge t env f)"
proof -
  have "gated env f (Dispatch event env (fst (RenderDeviceIsLost env (EvaluateDartLiveness t f))))" for event
    by (rule gated_after [OF gated_dispatch]) simp_all
  then show ?thesis by (simp add: tick_judge_def case_prod_beta)
qed

lemma poll_keeps: "gd_verdict (snd (gate_Poll t g)) \<noteq> kGateRebuildNow \<Longrightarrow> fst (gate_Poll t g) = g"
  by (auto simp: gate_Poll_def gate_Release_def split: if_splits)

lemma gated_poll:
  assumes "f_controller g = f_controller f" and "f_epoch g = f_epoch f" and "f_asked f < f_asked g"
    and "gd_verdict (snd (gate_Poll (clock env (f_asked f)) (f_gate f))) = kGateRebuildNow"
  shows "gated env f (PerformEngineRebuild reason env g)"
proof (cases "f_controller f")
  case True
  with assms poll_rebuilds [OF assms(4)] show ?thesis
    using PerformEngineRebuild_epoch [of reason env g] less_le_trans [OF assms(3) asked_perform]
    by (intro gated_perform) simp_all
next
  case False
  with assms(1,2) show ?thesis by (simp add: PerformEngineRebuild_def gated_same)
qed

lemma gated_tick: "gated env f (OnWatchdogTick env f)"
proof -
  let ?t = "clock env (f_asked f)"
  let ?p = "gate_Poll ?t (f_gate f)"
  let ?g = "(tick_lines ?t (f\<lparr>f_asked := Suc (f_asked f)\<rparr>))\<lparr>f_gate := fst ?p\<rparr>"
  show ?thesis
  proof (cases "gd_verdict (snd ?p) = kGateRebuildNow")
    case True
    then have "gated env f (PerformEngineRebuild r env (LogWatchdog m ?g))" for r m
      by (intro gated_poll) simp_all
    with True show ?thesis by (simp add: OnWatchdogTick_def ask_def Let_def case_prod_beta)
  next
    case False
    then have g: "f_gate ?g = f_gate f" by (simp add: poll_keeps)
    have "gated env f (HandleSessionDecision d env (?g\<lparr>f_policy := p\<rparr>))" for d p
      by (rule gated_after [OF gated_decision]) (use g in simp_all)
    moreover have "gated env f (tick_judge ?t env (?g\<lparr>f_policy := p\<rparr>))" for p
      by (rule gated_after [OF gated_tick_judge]) (use g in simp_all)
    ultimately show ?thesis using False
      by (simp add: OnWatchdogTick_def ask_def Let_def case_prod_beta)
  qed
qed

lemma gated_rebuild_due: "gated env f (OnRebuildDue env f)"
proof -
  let ?p = "gate_Poll (clock env (f_asked f)) (f_gate f)"
  let ?g = "f\<lparr>f_asked := Suc (f_asked f), f_gate := fst ?p\<rparr>"
  have "gd_verdict (snd ?p) = kGateRebuildNow \<Longrightarrow> gated env f (PerformEngineRebuild r env (LogWatchdog m ?g))" for r m
    by (rule gated_poll) simp_all
  then show ?thesis by (simp add: OnRebuildDue_def ask_def Let_def case_prod_beta gated_same)
qed

lemma gated_frame: "gated env f (OnFramePresented env f)"
proof -
  have *: "gated env f (after_frame b k (HandleSessionDecision d env
      ((Dispatch DpFramePresented env h)\<lparr>f_policy := p\<rparr>)))"
    if "f_controller h = f_controller f" "f_epoch h = f_epoch f" "f_gate h = f_gate f"
      "f_asked f \<le> f_asked h" for b k d h p
  proof (rule gated_before [where g = "HandleSessionDecision d env
      ((Dispatch DpFramePresented env h)\<lparr>f_policy := p\<rparr>)"])
    show "gated env f (HandleSessionDecision d env ((Dispatch DpFramePresented env h)\<lparr>f_policy := p\<rparr>))"
      using that dispatch_probes_only [of DpFramePresented h env]
      by (intro gated_after [OF gated_decision]) (auto simp: probes_only_def)
  qed simp_all
  show ?thesis
    by (simp add: OnFramePresented_def ask_def Let_def case_prod_beta)
      (intro conjI impI *; simp)
qed

lemma gated_display: "gated env f (OnDisplayChange env f)"
proof -
  have "gated env f (Dispatch e env (NoteLossHint h c env (log_hint m env f)))" for e h c m
    by (rule gated_after [OF gated_dispatch]) simp_all
  then show ?thesis by (simp add: OnDisplayChange_def gated_same)
qed

lemma probes_only_trans: "probes_only f g \<Longrightarrow> probes_only g h \<Longrightarrow> probes_only f h"
  unfolding probes_only_def by (metis le_trans)

lemma hint_probes_only:
  "probes_only f (Dispatch DpDeviceLossHint env (NoteLossHint h c env (log_hint m env f)))"
proof (rule probes_only_trans)
  show "probes_only f (NoteLossHint h c env (log_hint m env f))" by (simp add: probes_only_def)
qed (rule dispatch_probes_only, simp)

lemma gated_power: "gated env f (OnPowerBroadcast n env f)"
proof -
  have "gated env f (RequestEngineRebuild why env g)" if "probes_only f g" for why g
    using that by (intro gated_after [OF gated_request]) (simp_all add: probes_only_def)
  from this [OF hint_probes_only] show ?thesis by (simp add: OnPowerBroadcast_def gated_same)
qed

lemma gated_session: "gated env f (OnSessionChange n env f)"
proof -
  have *: "gated env f (HandleSessionDecision d env (h\<lparr>f_policy := p\<rparr>))"
    if "probes_only f h" for d h p
    using that by (intro gated_after [OF gated_decision]) (simp_all add: probes_only_def)
  have a: "probes_only f (h\<lparr>f_asked := Suc (f_asked h)\<rparr>)"
    "probes_only f (fst (CheckRenderAdapter env (h\<lparr>f_asked := Suc (f_asked h)\<rparr>)))"
    if "probes_only f h" for h
    using that asked_composite(1) [of "h\<lparr>f_asked := Suc (f_asked h)\<rparr>" env] by (auto simp: probes_only_def)
  have g: "gated env f h" if "probes_only f h" for h
    using that by (simp add: probes_only_def gated_same)
  show ?thesis
    by (simp add: OnSessionChange_def ask_def Let_def case_prod_beta)
      (intro conjI impI * a hint_probes_only g gated_same; simp)
qed

lemma OnDestroy_frame [simp]: "f_epoch (OnDestroy env f) = f_epoch f"
  by (simp add: OnDestroy_def emit_def Let_def)

lemma Win32_frame:
  "f_epoch (fst (Win32_MessageHandler m env f)) = f_epoch f"
  "f_controller (fst (Win32_MessageHandler m env f)) \<longleftrightarrow> f_controller f \<and> m \<noteq> WmDestroy"
  by (cases m; simp add: act_defs Let_def Win32_Destroy_def)+

lemma OnDestroy_asked: "f_asked f \<le> f_asked (OnDestroy env f)"
proof -
  have "f_asked f \<le> f_asked (DestroyController reason env g)" if "f_asked g = f_asked (StopWatchdogTimer f)" for reason g
    using that asked_update_ops(4) [of f] asked_update_ops(7) [of g reason env] by linarith
  then show ?thesis by (simp add: OnDestroy_def Let_def emit_def)
qed

lemma Win32_asked [simp]: "f_asked f \<le> f_asked (fst (Win32_MessageHandler m env f))"
  using OnDestroy_asked [of "f\<lparr>f_window_handle := False\<rparr>" env]
  by (cases m) (simp_all add: act_defs Let_def Win32_Destroy_def)

lemma gated_on_message: "gated env f (on_message m env f)"
  by (cases m) (simp_all add: gated_power gated_display gated_session gated_same emit_def)

lemma gated_pass_on: "gated env f (fst (pass_on m env f))"
proof -
  have "gated env f (on_message m env (f\<lparr>f_asked := Suc (f_asked f)\<rparr>))"
    by (rule gated_after [OF gated_on_message]) simp_all
  then have "gated env f (fst (Win32_MessageHandler m env
      (on_message m env (f\<lparr>f_asked := Suc (f_asked f)\<rparr>))))"
    by (rule gated_before) (auto simp: Win32_frame)
  moreover have "gated env f (fst (Win32_MessageHandler m env (on_message m env f)))"
    by (rule gated_before [OF gated_on_message]) (auto simp: Win32_frame)
  ultimately show ?thesis
    by (simp add: pass_on_def ask_def Let_def gated_same split: option.split)
qed

lemma WithdrawOnClose_frame [simp]:
  "f_controller (WithdrawOnClose env f) = f_controller f"
  "f_epoch (WithdrawOnClose env f) = f_epoch f"
  "f_gate (WithdrawOnClose env f) = f_gate f"
  by (simp_all add: WithdrawOnClose_def act_defs Let_def case_prod_beta)

lemma gated_message: "gated env f (fst (MessageHandler m env f))"
proof -
  have "gated env f (fst (pass_on WmDestroy env (WithdrawOnClose env f)))"
    by (rule gated_after [OF gated_pass_on]) simp_all
  moreover have "gated env f (Dispatch e env (LogWatchdog s f))" for e s
    by (rule gated_after [OF gated_dispatch]) simp_all
  ultimately show ?thesis
    by (cases m) (simp_all add: gated_pass_on gated_tick gated_rebuild_due OnRasterLoss_def OnEglStorm_def
        gated_same emit_def)
qed

lemma OnTickUnanswered_frame [simp]:
  "f_controller (OnTickUnanswered env f) = f_controller f"
  "f_epoch (OnTickUnanswered env f) = f_epoch f"
  by (simp_all add: OnTickUnanswered_def wedged_evidence_def GetRemovedReason_def ask_def emit_def
      Let_def case_prod_beta)

lemma gated_thread: "gated env f (OnWatchdogTimerThread env f)"
proof -
  have *: "gated env f (OnWatchdogTick env h)"
    if "probes_only f h" for h
    using that by (intro gated_after [OF gated_tick]) (simp_all add: probes_only_def)
  have "gated env f ((OnWatchdogTick env h)\<lparr>f_unanswered := 0\<rparr>)"
    "gated env f (LogWatchdog s ((OnWatchdogTick env h)\<lparr>f_unanswered := 0\<rparr>))"
    if "probes_only f h" for h s
    by (rule gated_before [OF * [OF that]]; simp)+
  then show ?thesis
    by (simp add: OnWatchdogTimerThread_def timer_fired_def ask_def Let_def case_prod_beta gated_same
        probes_only_def)
qed

lemma gated_step: "gated env f (fw_step env f e)"
proof -
  have "gated env f (OnFramePresented env (emit FxFrameAnswered f))"
    by (rule gated_after [OF gated_frame]) (simp_all add: emit_def)
  then show ?thesis by (cases e) (simp_all add: gated_message gated_thread gated_same)
qed

lemma no_engine_step:
  assumes "\<not> f_controller f"
  shows "\<not> f_controller (fw_step env f e) \<and> f_epoch (fw_step env f e) = f_epoch f"
  using gated_step [of env f e] assms by (auto simp: gated_def)

lemma no_engine_run:
  "\<not> f_controller f \<Longrightarrow>
   \<not> f_controller (run (fw_step env) f es) \<and> f_epoch (run (fw_step env) f es) = f_epoch f"
  by (induction es arbitrary: f) (simp_all add: no_engine_step)

end
