(* ===== verification/Window_Watchdog.thy ===== *)
theory Window_Watchdog
  imports Window_Invariant
begin

text \<open>
  The watchdog inside the window: whatever happens to the window, its watchdog has only ever been
  driven through the watchdog's own events, and the device-loss reports in the log are exactly the ones
  the watchdog asked for, plus one for each time the timer thread found the platform thread wedged.
  What is proved of the watchdog's histories therefore holds of the window's.
\<close>

section \<open>Reports in a trace\<close>

fun is_report :: "WindowEffect \<Rightarrow> bool" where
  "is_report (FxLogBlock text) \<longleftrightarrow> True"
| "is_report _ \<longleftrightarrow> False"

fun is_kill :: "WindowEffect \<Rightarrow> bool" where
  "is_kill (FxExitProcess code) \<longleftrightarrow> True"
| "is_kill _ \<longleftrightarrow> False"

definition loss_reports :: "WindowEffect list \<Rightarrow> nat" where
  "loss_reports out = length (filter is_report out)"

definition process_kills :: "WindowEffect list \<Rightarrow> nat" where
  "process_kills out = length (filter is_kill out)"

lemma trace_counts [simp]:
  "loss_reports [] = 0" "process_kills [] = 0"
  "loss_reports (out @ [e]) = loss_reports out + (if is_report e then 1 else 0)"
  "process_kills (out @ [e]) = process_kills out + (if is_kill e then 1 else 0)"
  by (simp_all add: loss_reports_def process_kills_def)

text \<open>The part of the window this theory is about.\<close>

definition view :: "FlutterWindow \<Rightarrow> GpuWatchdog \<times> nat \<times> nat" where
  "view f = (f_watchdog f, loss_reports (f_out f), process_kills (f_out f))"

lemma view_update [simp]:
  "view (f\<lparr>f_controller := a0\<rparr>) = view f"
  "view (f\<lparr>f_channel := a1\<rparr>) = view f"
  "view (f\<lparr>f_epoch := a2\<rparr>) = view f"
  "view (f\<lparr>f_epoch_started := a3\<rparr>) = view f"
  "view (f\<lparr>f_startup_complete := a4\<rparr>) = view f"
  "view (f\<lparr>f_main_seen := a5\<rparr>) = view f"
  "view (f\<lparr>f_liveness := a6\<rparr>) = view f"
  "view (f\<lparr>f_gate := a7\<rparr>) = view f"
  "view (f\<lparr>f_policy := a8\<rparr>) = view f"
  "view (f\<lparr>f_adapter_known := a9\<rparr>) = view f"
  "view (f\<lparr>f_adapter_luid := a10\<rparr>) = view f"
  "view (f\<lparr>f_shutdown := a11\<rparr>) = view f"
  "view (f\<lparr>f_liveness_log := a12\<rparr>) = view f"
  "view (f\<lparr>f_enabled := a13\<rparr>) = view f"
  "view (f\<lparr>f_first_frame_shown := a14\<rparr>) = view f"
  "view (f\<lparr>f_notifications := a15\<rparr>) = view f"
  "view (f\<lparr>f_probe_armed := a16\<rparr>) = view f"
  "view (f\<lparr>f_probe := a17\<rparr>) = view f"
  "view (f\<lparr>f_sentinel_logged := a18\<rparr>) = view f"
  "view (f\<lparr>f_tick_log := a19\<rparr>) = view f"
  "view (f\<lparr>f_frame_log := a20\<rparr>) = view f"
  "view (f\<lparr>f_hint_log := a21\<rparr>) = view f"
  "view (f\<lparr>f_send_failure_log := a22\<rparr>) = view f"
  "view (f\<lparr>f_timer_thread_log := a23\<rparr>) = view f"
  "view (f\<lparr>f_last_hint := a24\<rparr>) = view f"
  "view (f\<lparr>f_last_hint_tick := a25\<rparr>) = view f"
  "view (f\<lparr>f_session_code := a26\<rparr>) = view f"
  "view (f\<lparr>f_start_tick := a27\<rparr>) = view f"
  "view (f\<lparr>f_last_frame_tick := a28\<rparr>) = view f"
  "view (f\<lparr>f_watchdog_hwnd := a29\<rparr>) = view f"
  "view (f\<lparr>f_stopping := a30\<rparr>) = view f"
  "view (f\<lparr>f_unanswered := a31\<rparr>) = view f"
  "view (f\<lparr>f_timer_queue := a32\<rparr>) = view f"
  "view (f\<lparr>f_timer := a33\<rparr>) = view f"
  "view (f\<lparr>f_period := a34\<rparr>) = view f"
  "view (f\<lparr>f_window_handle := a35\<rparr>) = view f"
  "view (f\<lparr>f_child_content := a36\<rparr>) = view f"
  "view (f\<lparr>f_quit_on_close := a37\<rparr>) = view f"
  "view (f\<lparr>f_asked := a38\<rparr>) = view f"
  by (simp_all add: view_def)

lemma view_emit [simp]:
  "\<not> is_report e \<Longrightarrow> \<not> is_kill e \<Longrightarrow> view (emit e f) = view f"
  by (simp add: view_def emit_def)

lemma view_log [simp]:
  "view (LogWatchdog m f) = view f" "view (LogEngine m f) = view f" "view (LogDart m f) = view f"
  "view (log_nonempty LogWatchdog m f) = view f" "view (log_nonempty LogDart m f) = view f"
  by (simp_all add: LogWatchdog_def LogEngine_def LogDart_def log_nonempty_def)

lemma view_ask [simp]: "view (snd (ask answer f)) = view f"
  by (simp add: ask_def)

section \<open>Operations that leave the watchdog alone\<close>

lemma view_ops [simp]:
  "view (NoteEngineAdapter verbose env f) = view f"
  "view (SetWatchdogPeriod ms env f) = view f"
  "view (StopWatchdogTimer f) = view f"
  "view (StartProbe f) = view f"
  "view (NoteLossHint hint code env f) = view f"
  "view (DestroyController reason env f) = view f"
  "view (snd (GetRemovedReason env f)) = view f"
  by (simp_all add: NoteEngineAdapter_def SetWatchdogPeriod_def StopWatchdogTimer_def StartProbe_def
      NoteLossHint_def DestroyController_def GetRemovedReason_def ask_def Let_def split: option.split)

lemma view_ops2 [simp]:
  "view (fst (CheckRenderAdapter env f)) = view f"
  "view (fst (arm_timer ms env f)) = view f"
  "view (engine_up env f) = view f"
  "view (fst (RenderDeviceIsLost env f)) = view f"
  "view (EvaluateDartLiveness t f) = view f"
  "view (after_frame b n f) = view f"
  "view (log_hint m env f) = view f"
  "view (WithdrawOnClose env f) = view f"
  "view (OnStartupComplete args t f) = view f"
  "view (OnLivenessStamp args t f) = view f"
  by (simp_all add: CheckRenderAdapter_def arm_timer_def engine_up_def RenderDeviceIsLost_def
      EvaluateDartLiveness_def after_frame_def log_hint_def WithdrawOnClose_def OnStartupComplete_def
      OnLivenessStamp_def ask_def Let_def case_prod_beta)

lemma view_ops3 [simp]:
  "view (fst (StartWatchdogTimer ms env f)) = view f"
  "view (OnDestroy env f) = view f"
  "view (create_sentinel env f) = view f"
  "view (register_session env f) = view f"
  "view (install_interposer env f) = view f"
  by (simp_all add: StartWatchdogTimer_def OnDestroy_def create_sentinel_def register_session_def
      install_interposer_def ask_def Let_def case_prod_beta split: option.split)

lemma view_Win32 [simp]: "view (fst (Win32_MessageHandler m env f)) = view f"
  by (cases m) (simp_all add: Win32_Destroy_def ask_def Let_def)

section \<open>Operations that drive it\<close>

definition reports_along :: "GpuWatchdog \<Rightarrow> WatchdogEvent list \<Rightarrow> nat" where
  "reports_along = count_along gw_step (\<lambda>w e. report_loss (gw_action w e))"

definition frames_along :: "GpuWatchdog \<Rightarrow> WatchdogEvent list \<Rightarrow> nat" where
  "frames_along = count_along gw_step (\<lambda>w. is_frame)"

text \<open>
  \<open>drives k r v v'\<close>: the watchdog of \<open>v'\<close> is that of \<open>v\<close> after events among which at most \<open>k\<close> presented
  frames, and the log has the reports these events asked for and \<open>r\<close> more.
\<close>

type_synonym watchdog_view = "GpuWatchdog \<times> nat \<times> nat"

definition drives :: "nat \<Rightarrow> nat \<Rightarrow> watchdog_view \<Rightarrow> watchdog_view \<Rightarrow> bool" where
  "drives k r = (\<lambda>(w, reports, kills) (w', reports', kills').
     \<exists>ws. w' = run gw_step w ws \<and> frames_along w ws \<le> k \<and>
       reports' + kills = reports + kills' + r + reports_along w ws)"

lemma drives_refl [simp]: "drives k 0 v v"
  by (cases v) (auto simp: drives_def reports_along_def frames_along_def intro!: exI [of _ "[]"])

lemma drives_trans:
  assumes "drives k r u v" and "drives k' r' v w"
  shows "drives (k + k') (r + r') u w"
proof -
  obtain wu ru ku wv rv kv ww rw kw where
    e: "u = (wu, ru, ku)" "v = (wv, rv, kv)" "w = (ww, rw, kw)" by (metis prod_cases3)
  obtain ws where ws: "wv = run gw_step wu ws" "frames_along wu ws \<le> k"
    "rv + ku = ru + kv + r + reports_along wu ws"
    using assms(1) unfolding drives_def e by auto
  obtain vs where vs: "ww = run gw_step wv vs" "frames_along wv vs \<le> k'"
    "rw + kv = rv + kw + r' + reports_along wv vs"
    using assms(2) unfolding drives_def e by auto
  have "ww = run gw_step wu (ws @ vs)" "frames_along wu (ws @ vs) \<le> k + k'"
    "rw + ku = ru + kw + (r + r') + reports_along wu (ws @ vs)"
    using ws vs by (simp_all add: reports_along_def frames_along_def count_along_append)
  then show ?thesis unfolding drives_def e by blast
qed

lemma drives_then: "drives 0 0 u v \<Longrightarrow> drives k r v w \<Longrightarrow> drives k r u w"
  using drives_trans [of 0 0 u v k r w] by simp

lemma drives_event:
  assumes "is_frame e \<longrightarrow> 0 < k" and "report_loss (gw_action (f_watchdog f) e) \<longleftrightarrow> r = 1" and "r \<le> 1"
    and "f_watchdog f' = gw_step (f_watchdog f) e" and "loss_reports (f_out f') = loss_reports (f_out f) + r"
    and "process_kills (f_out f') = process_kills (f_out f)"
  shows "drives k 0 (view f) (view f')"
proof -
  have "reports_along (f_watchdog f) [e] = r" "frames_along (f_watchdog f) [e] \<le> k"
    using assms(1-3) by (auto simp: reports_along_def frames_along_def)
  with assms(4-6) show ?thesis
    by (auto simp: drives_def view_def intro!: exI [of _ "[e]"])
qed

lemma drives_one:
  assumes "f_watchdog f' = gw_step (f_watchdog f) e" and "\<not> is_frame e"
    and "\<not> report_loss (gw_action (f_watchdog f) e)" and "f_out f' = f_out f"
  shows "drives 0 0 (view f) (view f')"
  by (rule drives_event [where e = e and r = 0]) (use assms in auto)

lemma drives_judgeable: "drives 0 0 (view f) (view (UpdateWatchdogJudgeable env f))"
  by (rule drives_one [where e = "EvJudgeable (f_main_seen f \<and> \<not> g_queued (f_gate f)) (clock env (f_asked f))"])
    (simp_all add: UpdateWatchdogJudgeable_def ask_def gw_step_def gw_action_def no_action_def)

lemma drives_after_judgeable:
  "drives 0 0 u (view g) \<Longrightarrow> drives 0 0 u (view (UpdateWatchdogJudgeable env g))"
  by (rule drives_then [OF _ drives_judgeable])

lemma drives_begin_epoch: "drives 0 0 (view f) (view (begin_epoch reason env f))"
  by (simp add: begin_epoch_def Let_def ask_def drives_after_judgeable)

lemma drives_create: "drives 0 0 (view f) (view (fst (CreateController reason env f)))"
  using drives_begin_epoch [of f reason env]
  by (simp add: CreateController_def ask_def Let_def)

lemma drives_perform: "drives 0 0 (view f) (view (PerformEngineRebuild reason env f))"
  using drives_create [of "DestroyController reason env f" reason env]
  by (simp add: PerformEngineRebuild_def ask_def Let_def case_prod_beta drives_after_judgeable)

lemma drives_perform': "view g = u \<Longrightarrow> drives 0 0 u (view (PerformEngineRebuild reason env g))"
  using drives_perform by blast

lemma drives_request: "drives 0 0 (view f) (view (RequestEngineRebuild why env f))"
  by (simp add: RequestEngineRebuild_def ask_def Let_def case_prod_beta drives_after_judgeable
      drives_perform')

lemma drives_request': "view g = u \<Longrightarrow> drives 0 0 u (view (RequestEngineRebuild why env g))"
  using drives_request by blast

lemma drives_decision: "view g = u \<Longrightarrow> drives 0 0 u (view (HandleSessionDecision d env g))"
  by (auto simp: HandleSessionDecision_def Let_def intro: drives_request')

lemma drives_disable: "drives 0 0 (view f) (view (DisableWatchdog why f))"
proof -
  have "drives 0 0 (view g) (view (g\<lparr>f_watchdog := gw_Disable (f_watchdog g)\<rparr>))" for g
    by (rule drives_one [where e = EvDisable]) (simp_all add: gw_step_def gw_action_def no_action_def)
  from this [of "LogWatchdog m f" for m] show ?thesis
    by (simp add: DisableWatchdog_def Let_def del: LogWatchdog_frame)
qed

lemma drives_disable': "view g = u \<Longrightarrow> drives 0 0 u (view (DisableWatchdog why g))"
  using drives_disable by blast

lemma view_exit [simp]: "view (apply_exit action env f) = view f"
  by (simp add: apply_exit_def ExitAfterDeviceLoss_def Let_def)

lemma drives_restart: "drives 0 0 (view f) (view (apply_restart action env f))"
  by (simp add: apply_restart_def drives_request')

lemma drives_timer: "drives 0 0 (view f) (view (apply_timer action env f))"
  by (simp add: apply_timer_def case_prod_beta drives_disable')

text \<open>Carrying out an action writes the report it asks for and otherwise only drives the watchdog.\<close>

lemma drives_rest: 
  "drives 0 0 (view f) (view (apply_timer action env
     (if start_probe action then StartProbe (apply_restart action env f) else apply_restart action env f)))"
  by (rule drives_then [OF _ drives_timer]) (simp add: drives_restart)

lemma view_report:
  "view (apply_report action env f) =
     (f_watchdog f, loss_reports (f_out f) + (if report_loss action then 1 else 0), process_kills (f_out f))"
  by (simp add: apply_report_def ReportDeviceLoss_def GetRemovedReason_def view_def act_defs Let_def)

lemma drives_apply:
  "drives 0 0 (view (apply_report action env f)) (view (ApplyAction action env f))"
  by (simp add: ApplyAction_def Let_def drives_rest)

lemma drives_dispatch:
  "drives (if event = DpFramePresented then 1 else 0) 0 (view f) (view (Dispatch event env f))"
proof (cases "f_enabled f \<and> \<not> gw_has_given_up (f_watchdog f)")
  case True
  let ?e = "watchdog_event event (clock env (f_asked f))"
  let ?a = "gw_action (f_watchdog f) ?e"
  let ?g = "f\<lparr>f_asked := Suc (f_asked f), f_watchdog := gw_step (f_watchdog f) ?e\<rparr>"
  have "drives (if event = DpFramePresented then 1 else 0) 0 (view f) (view (apply_report ?a env ?g))"
    by (rule drives_event [where e = ?e and r = "if report_loss ?a then 1 else 0"])
      (cases event; auto simp: apply_report_def ReportDeviceLoss_def GetRemovedReason_def act_defs Let_def)+
  from drives_trans [OF this drives_apply] show ?thesis using True
    by (simp add: Dispatch_def ask_def Let_def case_prod_beta gw_step_def gw_action_def)
qed (simp add: Dispatch_def)

lemma drives_weaken: "drives 0 r u v \<Longrightarrow> drives k r u v"
  using drives_trans [of 0 r u v k 0 v] by simp

lemma drives_dispatch_other:
  "event \<noteq> DpFramePresented \<Longrightarrow> view g = u \<Longrightarrow> drives 0 0 u (view (Dispatch event env g))"
  using drives_dispatch [of event g env] by auto

lemma drives_frame: "drives (Suc 0) 0 (view f) (view (OnFramePresented env f))"
proof -
  have *: "drives (Suc 0) 0 (view f) (view (HandleSessionDecision d env ((Dispatch DpFramePresented env g)\<lparr>f_policy := p\<rparr>)))"
    if "view g = view f" for d g p
  proof -
    have "drives (Suc 0) 0 (view f) (view (Dispatch DpFramePresented env g))"
      using drives_dispatch [of DpFramePresented g env] that by simp
    from drives_trans [OF this drives_decision [OF view_update(9)]] show ?thesis by simp
  qed
  show ?thesis
    by (simp add: OnFramePresented_def ask_def Let_def case_prod_beta) (intro conjI impI *; simp)
qed

lemma drives_tick_lines: "drives 0 0 (view f) (view (tick_lines t f))"
proof -
  have "drives 0 0 (view g) (view (g\<lparr>f_watchdog := fst (gw_ConsumeJudgementHoldExpired (f_watchdog g))\<rparr>))" for g
    by (rule drives_one [where e = EvConsumeExpired]) (simp_all add: gw_step_def gw_action_def no_action_def)
  then have *: "drives 0 0 u (view (g\<lparr>f_watchdog := fst (gw_ConsumeJudgementHoldExpired (f_watchdog g))\<rparr>))"
    if "view g = u" for g u using that by blast
  have c: "gw_ConsumeJudgementHoldExpired (f_watchdog f) =
      (fst (gw_ConsumeJudgementHoldExpired (f_watchdog f)), snd (gw_ConsumeJudgementHoldExpired (f_watchdog f)))"
    by simp
  show ?thesis
    using * [of "(if b then LogWatchdog m f else f)\<lparr>f_tick_log := c\<rparr>" "view f" for b m c]
    by (simp add: tick_lines_def Let_def case_prod_beta)
qed

lemma drives_tick_judge: "drives 0 0 (view f) (view (tick_judge t env f))"
  by (simp add: tick_judge_def case_prod_beta drives_dispatch_other)

lemma drives_tick_judge': "view g = u \<Longrightarrow> drives 0 0 u (view (tick_judge t env g))"
  using drives_tick_judge by blast

lemma drives_tick: "drives 0 0 (view f) (view (OnWatchdogTick env f))"
proof -
  have "drives 0 0 (view f) (view (tick_lines t (f\<lparr>f_asked := n\<rparr>)))" for t n
    using drives_tick_lines [of "f\<lparr>f_asked := n\<rparr>"] by simp
  note * = drives_then [OF this]
  show ?thesis
    by (simp add: OnWatchdogTick_def ask_def Let_def case_prod_beta)
      (intro conjI impI * drives_perform' drives_decision drives_tick_judge'; simp)
qed

lemma drives_rebuild_due: "drives 0 0 (view f) (view (OnRebuildDue env f))"
  by (simp add: OnRebuildDue_def ask_def Let_def case_prod_beta drives_perform')

lemma drives_loss_messages:
  "drives 0 0 (view f) (view (OnRasterLoss n env f))"
  "drives 0 0 (view f) (view (OnEglStorm n env f))"
  "drives 0 0 (view f) (view (OnDisplayChange env f))"
  by (simp_all add: OnRasterLoss_def OnEglStorm_def OnDisplayChange_def drives_dispatch_other)

lemma drives_power: "drives 0 0 (view f) (view (OnPowerBroadcast n env f))"
  by (auto simp: OnPowerBroadcast_def intro!: drives_then [OF drives_dispatch_other drives_request])

lemma drives_session: "drives 0 0 (view f) (view (OnSessionChange n env f))"
proof -
  have "drives 0 0 (view f) (view (Dispatch DpDeviceLossHint env (NoteLossHint k c env (log_hint m env f))))" for k c m
    by (rule drives_dispatch_other) simp_all
  note * = drives_then [OF this drives_decision] this
  show ?thesis
    by (simp add: OnSessionChange_def ask_def Let_def case_prod_beta) (intro conjI impI *; simp)
qed

lemma drives_on_message: "drives 0 0 (view f) (view (on_message m env f))"
  by (cases m) (simp_all add: drives_power drives_loss_messages drives_session)

lemma drives_pass_on: "drives 0 0 (view f) (view (fst (pass_on m env f)))"
  using drives_on_message [of "f\<lparr>f_asked := n\<rparr>" m env for n] drives_on_message [of f m env]
  by (simp add: pass_on_def ask_def Let_def split: option.split)

lemma drives_message: "drives 0 0 (view f) (view (fst (MessageHandler m env f)))"
  using drives_pass_on [of "WithdrawOnClose env f"]
  by (cases m) (simp_all add: drives_pass_on drives_tick drives_rebuild_due drives_loss_messages)

text \<open>A wedged platform thread is reported once, and the process ends with it.\<close>

lemma wedged_view [simp]: "view (snd (wedged_evidence env f)) = view f"
  by (simp add: wedged_evidence_def ask_def Let_def case_prod_beta)

lemma drives_wedge: "view g = u \<Longrightarrow> drives 0 0 u (view (emit (FxExitProcess c) (emit (FxLogBlock m) g)))"
  by (auto simp: drives_def view_def emit_def reports_along_def frames_along_def loss_reports_def
      process_kills_def intro!: exI [of _ "[]"])

lemma drives_unanswered: "drives 0 0 (view f) (view (OnTickUnanswered env f))"
  by (simp add: OnTickUnanswered_def ask_def Let_def case_prod_beta drives_wedge)

lemma drives_tick': "view g = u \<Longrightarrow> drives 0 0 u (view (OnWatchdogTick env g))"
  using drives_tick by blast

lemma drives_unanswered': "view g = u \<Longrightarrow> drives 0 0 u (view (OnTickUnanswered env g))"
  using drives_unanswered by blast

lemma drives_thread: "drives 0 0 (view f) (view (OnWatchdogTimerThread env f))"
  by (simp add: OnWatchdogTimerThread_def timer_fired_def ask_def Let_def case_prod_beta drives_tick' drives_unanswered')

lemma drives_step: "drives (if e = HvFrame then 1 else 0) 0 (view f) (view (fw_step env f e))"
proof -
  have "drives (Suc 0) 0 (view f) (view (OnFramePresented env (emit FxFrameAnswered f)))"
    using drives_frame [of "emit FxFrameAnswered f"] by simp
  then show ?thesis
    by (cases e) (simp_all add: drives_message drives_thread OnRunnerChannelCall_def OnMainStarting_def
        ask_def Let_def drives_after_judgeable)
qed

lemma drives_run:
  "drives (count_list es HvFrame) 0 (view f) (view (run (fw_step env) f es))"
proof (induction es arbitrary: f)
  case Nil
  then show ?case by simp
next
  case (Cons e es)
  from drives_trans [OF drives_step [of e f env] Cons.IH] show ?case by (simp split: if_splits)
qed

lemma drives_OnCreate: "drives 0 0 (view f) (view (fst (OnCreate env f)))"
proof -
  note * = drives_then [OF drives_create [of f "''initial start''" env]]
  show ?thesis
    by (simp add: OnCreate_def ask_def Let_def case_prod_beta drives_create)
      (intro conjI impI * drives_dispatch_other; simp)
qed

lemma drives_OnCreate': "view g = u \<Longrightarrow> drives 0 0 u (view (fst (OnCreate env g)))"
  using drives_OnCreate by blast

lemma drives_start: "drives 0 0 (view (fw_init s)) (view (fw_start env s))"
  by (simp add: fw_start_def Create_def case_prod_beta Win32_Destroy_def drives_OnCreate')

end
