(* ===== verification/Window_Properties.thy ===== *)
theory Window_Properties
  imports Window_Epoch Window_Watchdog
begin

text \<open>
  What the runner's window promises as a whole: how its components, each correct on its own, behave
  when the handlers of \<open>flutter_window.cpp\<close> drive them. The statements are about every history of
  messages, channel calls, frame callbacks and timer firings, and every answer of the host.
\<close>

section \<open>A host to run the window against\<close>

text \<open>A host on which everything works: the clock advances by 250 ms per reading.\<close>

definition calm_host :: HostEnv where
  "calm_host = \<lparr> clock = (\<lambda>i. 250 * of_nat i), window_created = (\<lambda>i. True),
     engine_starts = (\<lambda>i. True), view_window = (\<lambda>i. True), engine_adapter = (\<lambda>i. None),
     session_adapter = (\<lambda>i. None), sentinel_created = (\<lambda>i. None), removed_reason = (\<lambda>i. 0),
     remote_session = (\<lambda>i. False), session_registered = (\<lambda>i. True),
     interposer_installed = (\<lambda>i. True), timer_queue_created = (\<lambda>i. True), timer_created = (\<lambda>i. True),
     timer_changed = (\<lambda>i. True), restart_unregistered = (\<lambda>i. True), send_answered = (\<lambda>i. True),
     last_error = (\<lambda>i. 0), engine_consumes = (\<lambda>i. None), default_proc = (\<lambda>i. 0),
     hwnd_text = (\<lambda>b. []), loss_policy = None, runner_log_path = None \<rparr>"

definition default_settings :: RunnerSettings where
  "default_settings = \<lparr> rs_watchdog = None, rs_interval = None, rs_on_loss = None \<rparr>"

text \<open>A window with an engine whose startup has completed.\<close>

definition settled_window :: FlutterWindow where
  "settled_window = (fw_init default_settings)
     \<lparr>f_controller := True, f_channel := True, f_epoch := 1, f_main_seen := True,
      f_startup_complete := True, f_liveness := dl_EpochStarted 1 0 (dl_init default_liveness_config),
      f_out := [FxRegisterPlugins]\<rparr>"

lemma settled_window_ok: "fw_ok env settled_window"
proof -
  have "drop_ok True (drop_model [FxRegisterPlugins])"
    by (simp add: drop_model_def drop_ok_create drop_ok_init)
  then show ?thesis
    by (simp add: settled_window_def fw_ok_defs fw_init_def sh_init_def dl_EpochStarted_def gate_init_def
        pending_callbacks_def callbacks_safe_def)
qed

section \<open>One frame callback at a time\<close>

text \<open>C2. The engine never holds two of the runner's next-frame callbacks, at any point of any history
  (a second one would be called through an emptied \<open>std::function\<close> and end the process), and between two
  events it holds one exactly when \<open>probe_armed_\<close> says so.\<close>

theorem single_frame_callback:
  "callbacks_safe (f_out (fw_run env s es)) \<and>
   pending_callbacks (f_out (fw_run env s es)) = (if f_probe_armed (fw_run env s es) then 1 else 0)"
  using fw_ok_run [of env s es] by (simp add: fw_ok_def callback_ok_def)

section \<open>Drag and drop across rebuilds\<close>

text \<open>C5. If the engine's view always has a window handle, then over any history of rebuilds, losses and
  closes the drop targets stay balanced: nothing is used after free, no registration collides or leaks,
  and exactly the live engine's target is allocated.\<close>

theorem rebuilds_keep_drop_targets_balanced:
  assumes "\<forall>i. view_window env i"
  shows "\<not> d_use_after_free (drop_model (f_out (fw_run env s es))) \<and>
    \<not> d_collision (drop_model (f_out (fw_run env s es))) \<and>
    d_leaked (drop_model (f_out (fw_run env s es))) = 0 \<and>
    dd_live_targets (drop_model (f_out (fw_run env s es))) = (if f_controller (fw_run env s es) then 1 else 0)"
proof -
  have "drop_ok (f_controller (fw_run env s es)) (drop_model (f_out (fw_run env s es)))"
    using fw_ok_run [of env s es] assms by (simp add: fw_ok_def)
  with drop_ok_live [OF this] show ?thesis by (simp add: drop_ok_def dd_balanced_def)
qed

lemma rebuilds_keep_drop_targets_balanced_witness:
  "d_leaked (drop_model (f_out (fw_run calm_host default_settings
     [HvFrame, HvMessage (WmPowerBroadcast 7), HvMessage WmDestroy]))) = 0"
  using rebuilds_keep_drop_targets_balanced [of calm_host] by (simp add: calm_host_def)

section \<open>When an engine is rebuilt\<close>

text \<open>C1. Whatever happens to the window, it builds at most one engine per event, only when it has one to
  replace, and only at a clock reading, among the ones this event makes, at which the gate sees no startup in flight: no path (session
  change, power resume, watchdog, queued request) interrupts a startup.\<close>

theorem window_rebuilds_only_through_the_gate:
  assumes "f_epoch (fw_step env f e) \<noteq> f_epoch f"
  shows "f_epoch (fw_step env f e) = f_epoch f + 1 \<and> f_controller f \<and>
    (\<exists>i. f_asked f \<le> i \<and> i < f_asked (fw_step env f e) \<and> \<not> gate_StartupBlocking (clock env i) (f_gate f))"
  using gated_step [of env f e] assms by (auto simp: gated_def)

text \<open>A queued rebuild that is due, as the posted message carries it out.\<close>

definition due_window :: FlutterWindow where
  "due_window = settled_window\<lparr>f_gate := (gate_init default_gate_config)
     \<lparr>g_queued := True, g_queued_count := 1, g_queued_reason := ''resume''\<rparr>\<rparr>"

lemma window_rebuilds_only_through_the_gate_witness:
  "f_epoch (fw_step calm_host due_window (HvMessage WmEngineRebuildDue)) = 2 \<and> f_controller due_window"
proof -
  have 2: "f_epoch (fw_step calm_host due_window (HvMessage WmEngineRebuildDue)) = 2"
    by (simp add: due_window_def settled_window_def OnRebuildDue_def ask_def Let_def gate_Poll_def
        gate_StartupBlocking_def gate_Release_def gate_init_def fw_init_def PerformEngineRebuild_epoch)
  then have "f_epoch (fw_step calm_host due_window (HvMessage WmEngineRebuildDue)) \<noteq> f_epoch due_window"
    by (simp add: due_window_def settled_window_def)
  from window_rebuilds_only_through_the_gate [OF this] 2 show ?thesis by simp
qed

section \<open>A rebuild that fails\<close>

text \<open>C7. When the rebuild's new engine does not start, the window has no renderer and never gets one
  again: every path that builds an engine starts from a window that has one. The log line the code writes
  at that point, that the tick will keep trying, is not what happens.\<close>

theorem failed_rebuild_is_never_retried:
  assumes "\<not> snd (CreateController reason env (DestroyController reason env f))"
    and "fw_ok env f" and "f_controller f"
  shows "\<not> f_controller (run (fw_step env) (PerformEngineRebuild reason env f) es) \<and>
    f_epoch (run (fw_step env) (PerformEngineRebuild reason env f) es) = f_epoch f + 1"
proof -
  let ?d = "DestroyController reason env f"
  have "fw_ok env ?d" "quits_for_loss ?d = 0"
    using DestroyController_ok [OF assms(2)] assms(2,3) by (auto simp: fw_ok_defs quits_for_loss_def [of f])
  then have "\<not> f_controller (fst (CreateController reason env ?d))"
    using CreateController_ok(2) [of env ?d reason] assms(1) by simp
  then have "\<not> f_controller (PerformEngineRebuild reason env f)"
    using assms(1,3) by (simp add: PerformEngineRebuild_def Let_def case_prod_beta)
  from no_engine_run [OF this, of env es] assms(3) show ?thesis
    by (simp add: PerformEngineRebuild_epoch)
qed

text \<open>A host on which no further engine starts.\<close>

definition failing_host :: HostEnv where
  "failing_host = calm_host\<lparr>engine_starts := \<lambda>i. False\<rparr>"

lemma failed_rebuild_is_never_retried_witness:
  "\<not> f_controller (run (fw_step failing_host) (PerformEngineRebuild ''resume'' failing_host settled_window)
     [HvMessage WmWatchdogTick, HvTimerThread, HvMessage (WmPowerBroadcast 7)])"
proof -
  have "\<not> snd (CreateController ''resume'' failing_host (DestroyController ''resume'' failing_host settled_window))"
    by (simp add: CreateController_def ask_def Let_def failing_host_def)
  moreover have "f_controller settled_window" by (simp add: settled_window_def)
  ultimately show ?thesis using failed_rebuild_is_never_retried [OF _ settled_window_ok] by blast
qed

section \<open>Closing the window\<close>

lemma stop_timer_out: "\<exists>r. f_out (StopWatchdogTimer f) = f_out f @ r \<and> FxWithdrawCrashRestart \<notin> set r"
  by (auto simp: StopWatchdogTimer_def act_defs Let_def)

lemma destroy_out:
  "\<exists>r. f_out (DestroyController reason env f) = f_out f @ r \<and> FxWithdrawCrashRestart \<notin> set r"
  by (auto simp: DestroyController_def act_defs Let_def)

lemma on_destroy_out: "\<exists>r. f_out (OnDestroy env f) = f_out f @ r \<and> FxWithdrawCrashRestart \<notin> set r"
proof -
  obtain r1 where r1: "f_out (StopWatchdogTimer f) = f_out f @ r1" "FxWithdrawCrashRestart \<notin> set r1"
    using stop_timer_out by blast
  have "\<exists>r. f_out (DestroyController reason env g) = f_out f @ r \<and> FxWithdrawCrashRestart \<notin> set r"
    if "f_out g = f_out (StopWatchdogTimer f) @ r2" "FxWithdrawCrashRestart \<notin> set r2" for reason g r2
    using destroy_out [of reason env g] r1 that by auto
  then show ?thesis by (simp add: OnDestroy_def emit_def Let_def)
qed

lemma close_out:
  "\<exists>r. f_out (fst (pass_on WmDestroy env f)) = f_out f @ r \<and> FxWithdrawCrashRestart \<notin> set r"
proof -
  have "\<exists>r. f_out (OnDestroy env g) = f_out f @ r \<and> FxWithdrawCrashRestart \<notin> set r"
    "\<exists>r. f_out (OnDestroy env g) @ [FxPostQuitMessage 0] = f_out f @ r \<and> FxWithdrawCrashRestart \<notin> set r"
    if "f_out g = f_out f" for g
    using on_destroy_out [of env g] that by auto
  then show ?thesis
    by (simp add: pass_on_def ask_def Let_def Win32_Destroy_def emit_def split: option.split)
qed

text \<open>Closing the window withdraws crash-restart before anything else happens, in particular before the
  teardown that used to crash, and over the whole life of the process it is withdrawn at most once.\<close>

theorem close_withdraws_restart_first:
  "(\<exists>m rest. f_out (fw_step env f (HvMessage WmDestroy)) = f_out f @
      (if restart_withdrawn (f_shutdown f) then [] else [FxWithdrawCrashRestart, FxLog kShutdownTag m]) @ rest \<and>
      FxWithdrawCrashRestart \<notin> set rest) \<and>
   restart_withdrawn (f_shutdown (WithdrawOnClose env f)) \<and>
   count_list (f_out (fw_run env s es)) FxWithdrawCrashRestart \<le> 1"
proof -
  obtain rest where "f_out (fst (pass_on WmDestroy env (WithdrawOnClose env f))) =
      f_out (WithdrawOnClose env f) @ rest" "FxWithdrawCrashRestart \<notin> set rest"
    using close_out by blast
  moreover have "\<exists>m. f_out (WithdrawOnClose env f) = f_out f @
      (if restart_withdrawn (f_shutdown f) then [] else [FxWithdrawCrashRestart, FxLog kShutdownTag m])"
    by (auto simp: WithdrawOnClose_def sh_WindowDestroyed_def act_defs Let_def)
  moreover have "restart_withdrawn (f_shutdown (WithdrawOnClose env f))"
    by (auto simp: WithdrawOnClose_def sh_WindowDestroyed_def act_defs Let_def)
  ultimately show ?thesis
    using fw_ok_run [of env s es] by (auto simp: fw_ok_def exit_ok_def)
qed

section \<open>Ending the process after a loss\<close>

text \<open>C4. Over the whole life of the process the window asks at most once to end it after a device loss;
  once it has, the watchdog is disabled, there is no engine, and whatever happens next builds none.\<close>

theorem loss_exit_is_final:
  "count_list (f_out (fw_run env s es)) (FxPostQuitMessage kGpuLossExitCode) \<le> 1 \<and>
   (count_list (f_out (fw_run env s es)) (FxPostQuitMessage kGpuLossExitCode) = 0 \<or>
    w_disabled (f_watchdog (fw_run env s es)) \<and>
    \<not> f_controller (run (fw_step env) (fw_run env s es) later) \<and>
    f_epoch (run (fw_step env) (fw_run env s es) later) = f_epoch (fw_run env s es))"
  using fw_ok_run [of env s es] no_engine_run [of "fw_run env s es" env later]
  by (auto simp: fw_ok_def exit_ok_def split: if_splits)

section \<open>The watchdog inside the window\<close>

text \<open>C3. The window is faithful to its watchdog: after any history the watchdog is in a state its own
  events lead to, with no more presented frames among them than the engine answered; the loss reports in
  the log are exactly the ones it asked for plus one per process end by the timer thread; and there is at
  most one report more than there were frames.\<close>

theorem window_drives_watchdog:
  "\<exists>ws. f_watchdog (fw_run env s es) = run gw_step (gw_init (WatchdogConfigFromEnvironment s)) ws \<and>
     frames_along (gw_init (WatchdogConfigFromEnvironment s)) ws \<le> count_list es HvFrame \<and>
     loss_reports (f_out (fw_run env s es)) =
       process_kills (f_out (fw_run env s es)) + reports_along (gw_init (WatchdogConfigFromEnvironment s)) ws \<and>
     reports_along (gw_init (WatchdogConfigFromEnvironment s)) ws \<le> Suc (count_list es HvFrame)"
proof -
  let ?w = "gw_init (WatchdogConfigFromEnvironment s)"
  have "drives (count_list es HvFrame) 0 (view (fw_init s)) (view (fw_run env s es))"
    unfolding fw_run_def by (rule drives_then [OF drives_start drives_run])
  moreover have "view (fw_init s) = (?w, 0, 0)" by (simp add: view_def fw_init_def)
  ultimately obtain ws where ws: "f_watchdog (fw_run env s es) = run gw_step ?w ws"
    "frames_along ?w ws \<le> count_list es HvFrame"
    "loss_reports (f_out (fw_run env s es)) = process_kills (f_out (fw_run env s es)) + reports_along ?w ws"
    by (auto simp: drives_def view_def)
  have "reports_along ?w ws \<le> Suc (frames_along ?w ws)"
    unfolding reports_along_def frames_along_def by (rule gw_report.fire_count_le)
  with ws show ?thesis by auto
qed

section \<open>A wedged platform thread\<close>

definition ticking :: "FlutterWindow \<Rightarrow> bool" where
  "ticking f \<longleftrightarrow> f_timer f \<and> \<not> f_stopping f \<and> f_watchdog_hwnd f"

lemma wedged_frame [simp]:
  "f_timer (snd (wedged_evidence env f)) = f_timer f"
  "f_stopping (snd (wedged_evidence env f)) = f_stopping f"
  "f_watchdog_hwnd (snd (wedged_evidence env f)) = f_watchdog_hwnd f"
  "f_unanswered (snd (wedged_evidence env f)) = f_unanswered f"
  "f_out (snd (wedged_evidence env f)) = f_out f"
  by (simp_all add: wedged_evidence_def GetRemovedReason_def ask_def Let_def case_prod_beta)

lemma unanswered_effect:
  "ticking (OnTickUnanswered env f) = ticking f"
  "f_unanswered (OnTickUnanswered env f) = (if f_unanswered f + 1 < 12 then f_unanswered f + 1 else 0)"
  "process_kills (f_out (OnTickUnanswered env f)) =
     process_kills (f_out f) + (if f_unanswered f + 1 < 12 then 0 else 1)"
  by (simp_all add: OnTickUnanswered_def ticking_def kUnansweredSendsBeforeWedged_def act_defs
      case_prod_beta process_kills_def Let_def)

lemma wedge_step:
  assumes "\<forall>i. \<not> send_answered env i" and "ticking f"
  shows "ticking (fw_step env f HvTimerThread)"
    "f_unanswered (fw_step env f HvTimerThread) =
      (if f_unanswered f + 1 < 12 then f_unanswered f + 1 else 0)"
    "process_kills (f_out (fw_step env f HvTimerThread)) =
      process_kills (f_out f) + (if f_unanswered f + 1 < 12 then 0 else 1)"
proof -
  let ?g = "fst (timer_fired env f)"
  have g: "f_timer ?g = f_timer f" "f_stopping ?g = f_stopping f" "f_watchdog_hwnd ?g = f_watchdog_hwnd f"
    "f_unanswered ?g = f_unanswered f" "process_kills (f_out ?g) = process_kills (f_out f)"
    by (simp_all add: timer_fired_def act_defs case_prod_beta process_kills_def Let_def)
  then have "ticking (?g\<lparr>f_asked := n\<rparr>)" for n using assms(2) by (simp add: ticking_def)
  moreover have "fw_step env f HvTimerThread = OnTickUnanswered env (?g\<lparr>f_asked := Suc (f_asked ?g)\<rparr>)"
    using assms g by (simp add: ticking_def OnWatchdogTimerThread_def ask_def case_prod_beta)
  ultimately show "ticking (fw_step env f HvTimerThread)"
    "f_unanswered (fw_step env f HvTimerThread) =
      (if f_unanswered f + 1 < 12 then f_unanswered f + 1 else 0)"
    "process_kills (f_out (fw_step env f HvTimerThread)) =
      process_kills (f_out f) + (if f_unanswered f + 1 < 12 then 0 else 1)"
    using g by (simp_all add: unanswered_effect)
qed

lemma wedge_run:
  assumes "\<forall>i. \<not> send_answered env i" and "ticking f" and "f_unanswered f = int k" and "k < 12"
  shows "process_kills (f_out (run (fw_step env) f (replicate n HvTimerThread))) =
    process_kills (f_out f) + (k + n) div 12"
  using assms(2-4)
proof (induction n arbitrary: f k)
  case 0
  then show ?case by simp
next
  case (Suc n)
  let ?g = "fw_step env f HvTimerThread"
  note s = wedge_step [OF assms(1) Suc.prems(1)]
  show ?case
  proof (cases "k + 1 < 12")
    case True
    then have "f_unanswered ?g = int (k + 1)" using s(2) Suc.prems(2) by simp
    from Suc.IH [OF s(1) this True] s(3) Suc.prems(2) True show ?thesis by simp
  next
    case False
    then have k: "k = 11" "f_unanswered ?g = int 0" using s(2) Suc.prems by simp_all
    from Suc.IH [OF s(1) k(2)] s(3) Suc.prems(2) k(1) show ?thesis by simp
  qed
qed

text \<open>C6. While the platform thread takes no sent message, the timer thread ends the process on exactly
  every twelfth firing: not before eleven more have failed, and never later.\<close>

theorem wedged_thread_ends_process:
  assumes "\<forall>i. \<not> send_answered env i" and "ticking f" and "f_unanswered f = 0"
  shows "process_kills (f_out (run (fw_step env) f (replicate n HvTimerThread))) =
    process_kills (f_out f) + n div 12"
  using wedge_run [OF assms(1,2), of 0 n] assms(3) by simp

definition deaf_host :: HostEnv where
  "deaf_host = calm_host\<lparr>send_answered := \<lambda>i. False\<rparr>"

lemma wedged_thread_ends_process_witness:
  "process_kills (f_out (run (fw_step deaf_host)
     (settled_window\<lparr>f_timer := True, f_watchdog_hwnd := True\<rparr>) (replicate 25 HvTimerThread))) = 2"
  using wedged_thread_ends_process [of deaf_host "settled_window\<lparr>f_timer := True, f_watchdog_hwnd := True\<rparr>" 25]
  by (simp add: ticking_def settled_window_def fw_init_def process_kills_def deaf_host_def)

section \<open>A report from an engine that is already gone\<close>

text \<open>The three channel calls do not treat an isolate of another generation alike: its
  \<open>startupComplete\<close> leaves the gate and the startup flag alone and its \<open>liveness\<close> stamp leaves the monitor
  alone, but its \<open>mainStarting\<close> marks the current engine's main as seen and ends the judgement hold the
  current engine was granted, although the line it logs says the isolate belongs to an engine that is gone.\<close>

theorem stale_main_releases_hold:
  assumes "f_channel f" and "IntArg args ''epoch'' (-1) \<noteq> f_epoch f" and "0 \<le> IntArg args ''epoch'' (-1)"
    and "0 \<le> f_epoch f" and "l_epoch (f_liveness f) = f_epoch f" and "\<not> g_queued (f_gate f)"
  shows "f_gate (fw_step env f (HvChannelCall ''startupComplete'' args)) = f_gate f \<and>
    f_startup_complete (fw_step env f (HvChannelCall ''startupComplete'' args)) = f_startup_complete f \<and>
    f_liveness (fw_step env f (HvChannelCall ''liveness'' args)) = f_liveness f \<and>
    f_main_seen (fw_step env f (HvChannelCall ''mainStarting'' args)) \<and>
    \<not> w_judgement_holding (f_watchdog (fw_step env f (HvChannelCall ''mainStarting'' args)))"
proof -
  have "dl_foreign (stamp_of args) (f_liveness f)"
    using assms(2-5) by (simp add: dl_foreign_def stamp_of_def)
  then have "fst (dl_OnStamp (stamp_of args) t (f_liveness f)) = f_liveness f" for t
    by (simp add: dl_OnStamp_def)
  then have "f_liveness (fw_step env f (HvChannelCall ''liveness'' args)) = f_liveness f"
    using assms(1) by (simp add: OnRunnerChannelCall_def OnLivenessStamp_def act_defs Let_def case_prod_beta)
  moreover have "f_gate (fw_step env f (HvChannelCall ''startupComplete'' args)) = f_gate f"
    "f_startup_complete (fw_step env f (HvChannelCall ''startupComplete'' args)) = f_startup_complete f"
    using assms(1,2) by (simp_all add: OnRunnerChannelCall_def OnStartupComplete_def act_defs Let_def)
  moreover have "f_main_seen (fw_step env f (HvChannelCall ''mainStarting'' args))"
    "\<not> w_judgement_holding (f_watchdog (fw_step env f (HvChannelCall ''mainStarting'' args)))"
    using assms(1,6) by (simp_all add: OnRunnerChannelCall_def OnMainStarting_def
        UpdateWatchdogJudgeable_def gw_SetJudgeable_def act_defs Let_def)
  ultimately show ?thesis by simp
qed

text \<open>An engine that has just been built, its judgement held, and a report of generation 1.\<close>

definition fresh_window :: FlutterWindow where
  "fresh_window = settled_window\<lparr>f_epoch := 2, f_main_seen := False,
     f_liveness := dl_EpochStarted 2 0 (dl_init default_liveness_config),
     f_watchdog := gw_SetJudgeable False 0 (gw_init default_config)\<rparr>"

lemma stale_main_releases_hold_witness:
  "w_judgement_holding (f_watchdog fresh_window) \<and>
   \<not> w_judgement_holding (f_watchdog (fw_step calm_host fresh_window
       (HvChannelCall ''mainStarting'' (Some [''epoch'' \<mapsto> EncInt64 1]))))"
proof -
  have "IntArg (Some [''epoch'' \<mapsto> EncInt64 1]) ''epoch'' (-1) = 1"
    by (simp add: IntArg_def find_arg_def)
  with stale_main_releases_hold [of fresh_window "Some [''epoch'' \<mapsto> EncInt64 1]" calm_host]
  show ?thesis
    by (simp add: fresh_window_def settled_window_def fw_init_def gate_init_def dl_EpochStarted_def
        gw_SetJudgeable_def gw_init_def)
qed

end
