(* ===== verification/Webview_Value.thy ===== *)
theory Webview_Value
  imports Text_Format
begin

text \<open>
  The reference-counted values of the webview plugin
  (\<open>packages/webview_cef/common/webview_value.cc\<close>), the data type every plugin call and every answer
  is made of.

  A \<open>WValue*\<close> is an optional address; the heap is the list of the cells \<open>webview_value_new\<close> has handed
  out, \<open>None\<close> where a cell has been freed. Every operation answers an option: \<open>None\<close> is undefined
  behaviour, which for this code is reading or freeing a freed cell, writing past the end of a
  buffer, overflowing the reference count, freeing with \<open>free\<close> what \<open>new[]\<close> allocated, and recursion
  that never ends. The pointer arrays of a list or a map belong to that one value and are held in its
  cell. \<open>malloc\<close> is taken to succeed; the \<open>n\<close>-th \<open>realloc\<close>, whose failure the code handles, succeeds
  when \<open>wh_grants n\<close> holds. Strings are C strings: the bytes before the first null byte.
\<close>

section \<open>Values and their cells\<close>

type_synonym addr = nat
type_synonym WPtr = "addr option"

datatype WValueType =
    Webview_Value_Type_Null | Webview_Value_Type_Bool | Webview_Value_Type_Int
  | Webview_Value_Type_Float | Webview_Value_Type_Double | Webview_Value_Type_String
  | Webview_Value_Type_Uint8_List | Webview_Value_Type_Int32_List | Webview_Value_Type_Int64_List
  | Webview_Value_Type_Float_List | Webview_Value_Type_Double_List | Webview_Value_Type_List
  | Webview_Value_Type_Map

datatype CAllocator = by_malloc | by_new

record WPtrArray =
  pdata :: "addr list"
  capacity :: nat

datatype WPayload =
    WNull
  | WBool bool
  | WInt u64
  | WFloat u32
  | WDouble u64
  | WString CAllocator string
  | WUint8List "8 word list"
  | WInt32List "u32 list"
  | WInt64List "u64 list"
  | WFloatList "u32 list"
  | WDoubleList "u64 list"
  | WList WPtrArray
  | WMap WPtrArray WPtrArray

fun type_of_payload :: "WPayload \<Rightarrow> WValueType" where
  "type_of_payload WNull = Webview_Value_Type_Null"
| "type_of_payload (WBool _) = Webview_Value_Type_Bool"
| "type_of_payload (WInt _) = Webview_Value_Type_Int"
| "type_of_payload (WFloat _) = Webview_Value_Type_Float"
| "type_of_payload (WDouble _) = Webview_Value_Type_Double"
| "type_of_payload (WString _ _) = Webview_Value_Type_String"
| "type_of_payload (WUint8List _) = Webview_Value_Type_Uint8_List"
| "type_of_payload (WInt32List _) = Webview_Value_Type_Int32_List"
| "type_of_payload (WInt64List _) = Webview_Value_Type_Int64_List"
| "type_of_payload (WFloatList _) = Webview_Value_Type_Float_List"
| "type_of_payload (WDoubleList _) = Webview_Value_Type_Double_List"
| "type_of_payload (WList _) = Webview_Value_Type_List"
| "type_of_payload (WMap _ _) = Webview_Value_Type_Map"

record WCell =
  wv_refs :: int
  wv_data :: WPayload

record WHeap =
  wh_cells :: "WCell option list"
  wh_grants :: "nat \<Rightarrow> bool"
  wh_asked :: nat

definition deref :: "WHeap \<Rightarrow> addr \<Rightarrow> WCell option" where
  "deref h a = (if a < length (wh_cells h) then wh_cells h ! a else None)"

definition put_cell :: "WHeap \<Rightarrow> addr \<Rightarrow> WCell option \<Rightarrow> WHeap" where
  "put_cell h a c = h\<lparr>wh_cells := (wh_cells h)[a := c]\<rparr>"

definition c_str :: "string \<Rightarrow> string" where
  "c_str s = takeWhile (\<lambda>c. c \<noteq> CHR 0x00) s"

section \<open>Pointer arrays\<close>

definition webview_ptr_array_new_with_free_func :: WPtrArray where
  "webview_ptr_array_new_with_free_func = \<lparr>pdata = [], capacity = 0\<rparr>"

definition webview_ptr_array_add :: "WHeap \<Rightarrow> WPtrArray \<Rightarrow> addr \<Rightarrow> WPtrArray \<times> WHeap" where
  "webview_ptr_array_add h array d =
     (if length (pdata array) = capacity array
      then let new_capacity = (if capacity array = 0 then 16 else capacity array * 2);
               h' = h\<lparr>wh_asked := Suc (wh_asked h)\<rparr>
           in if wh_grants h (wh_asked h)
              then (array\<lparr>pdata := pdata array @ [d], capacity := new_capacity\<rparr>, h')
              else (array, h')
      else (array\<lparr>pdata := pdata array @ [d]\<rparr>, h))"

definition webview_ptr_array_index :: "WPtrArray \<Rightarrow> nat \<Rightarrow> WPtr" where
  "webview_ptr_array_index array index =
     (if length (pdata array) \<le> index then None else Some (pdata array ! index))"

section \<open>Constructors\<close>

definition webview_value_new :: "WHeap \<Rightarrow> WPayload \<Rightarrow> addr \<times> WHeap" where
  "webview_value_new h p =
     (length (wh_cells h), h\<lparr>wh_cells := wh_cells h @ [Some \<lparr>wv_refs = 1, wv_data = p\<rparr>]\<rparr>)"

definition webview_value_new_null :: "WHeap \<Rightarrow> addr \<times> WHeap" where
  "webview_value_new_null h = webview_value_new h WNull"

definition webview_value_new_bool :: "WHeap \<Rightarrow> bool \<Rightarrow> addr \<times> WHeap" where
  "webview_value_new_bool h b = webview_value_new h (WBool b)"

definition webview_value_new_int :: "WHeap \<Rightarrow> u64 \<Rightarrow> addr \<times> WHeap" where
  "webview_value_new_int h i = webview_value_new h (WInt i)"

definition webview_value_new_float :: "WHeap \<Rightarrow> u32 \<Rightarrow> addr \<times> WHeap" where
  "webview_value_new_float h f = webview_value_new h (WFloat f)"

definition webview_value_new_double :: "WHeap \<Rightarrow> u64 \<Rightarrow> addr \<times> WHeap" where
  "webview_value_new_double h d = webview_value_new h (WDouble d)"

definition webview_value_new_string :: "WHeap \<Rightarrow> string \<Rightarrow> addr \<times> WHeap" where
  "webview_value_new_string h s = webview_value_new h (WString by_malloc (c_str s))"

definition webview_value_new_string_len :: "WHeap \<Rightarrow> string \<Rightarrow> nat \<Rightarrow> addr \<times> WHeap" where
  "webview_value_new_string_len h s n =
     (if n = 0 then webview_value_new h (WString by_malloc [])
      else webview_value_new h (WString by_new (c_str (take n s))))"

text \<open>The typed lists copy \<open>n\<close> elements: asking for more than the source holds reads past its end.\<close>

definition copy_list :: "'a list \<Rightarrow> nat \<Rightarrow> 'a list option" where
  "copy_list xs n = (if n \<le> length xs then Some (take n xs) else None)"

definition webview_value_new_uint8_list :: "WHeap \<Rightarrow> 8 word list \<Rightarrow> nat \<Rightarrow> (addr \<times> WHeap) option" where
  "webview_value_new_uint8_list h xs n =
     map_option (\<lambda>ys. webview_value_new h (WUint8List ys)) (copy_list xs n)"

definition webview_value_new_int32_list :: "WHeap \<Rightarrow> u32 list \<Rightarrow> nat \<Rightarrow> (addr \<times> WHeap) option" where
  "webview_value_new_int32_list h xs n =
     map_option (\<lambda>ys. webview_value_new h (WInt32List ys)) (copy_list xs n)"

definition webview_value_new_int64_list :: "WHeap \<Rightarrow> u64 list \<Rightarrow> nat \<Rightarrow> (addr \<times> WHeap) option" where
  "webview_value_new_int64_list h xs n =
     map_option (\<lambda>ys. webview_value_new h (WInt64List ys)) (copy_list xs n)"

definition webview_value_new_float_list :: "WHeap \<Rightarrow> u32 list \<Rightarrow> nat \<Rightarrow> (addr \<times> WHeap) option" where
  "webview_value_new_float_list h xs n =
     map_option (\<lambda>ys. webview_value_new h (WFloatList ys)) (copy_list xs n)"

definition webview_value_new_double_list :: "WHeap \<Rightarrow> u64 list \<Rightarrow> nat \<Rightarrow> (addr \<times> WHeap) option" where
  "webview_value_new_double_list h xs n =
     map_option (\<lambda>ys. webview_value_new h (WDoubleList ys)) (copy_list xs n)"

definition webview_value_new_list :: "WHeap \<Rightarrow> addr \<times> WHeap" where
  "webview_value_new_list h = webview_value_new h (WList webview_ptr_array_new_with_free_func)"

definition webview_value_new_map :: "WHeap \<Rightarrow> addr \<times> WHeap" where
  "webview_value_new_map h =
     webview_value_new h
       (WMap webview_ptr_array_new_with_free_func webview_ptr_array_new_with_free_func)"

section \<open>Reference counting\<close>

definition int32_max :: int where "int32_max = 2147483647"

definition webview_value_ref :: "WHeap \<Rightarrow> WPtr \<Rightarrow> (WPtr \<times> WHeap) option" where
  "webview_value_ref h self =
     (case self of
        None \<Rightarrow> Some (None, h)
      | Some a \<Rightarrow>
          (case deref h a of
             None \<Rightarrow> None
           | Some c \<Rightarrow>
               if int32_max \<le> wv_refs c then None
               else Some (Some a, put_cell h a (Some (c\<lparr>wv_refs := wv_refs c + 1\<rparr>)))))"

fun children :: "WPayload \<Rightarrow> addr list" where
  "children (WList vs) = pdata vs"
| "children (WMap ks vs) = pdata ks @ pdata vs"
| "children _ = []"

fun frees_new :: "WPayload \<Rightarrow> bool" where
  "frees_new (WString by_new _) = True"
| "frees_new _ = False"

text \<open>
  \<open>webview_value_unref\<close> recurses through the arrays of a value whose count has reached zero, and frees
  the value after them. The recursion is written over its own stack: \<open>Unref\<close> is a call still to make,
  \<open>Free\<close> the end of a call, after the children. A value on its way out keeps a count of zero, at which
  a further call returns.
\<close>

datatype UnrefTask = Unref WPtr | Free addr

definition dead_count :: "WHeap \<Rightarrow> nat" where
  "dead_count h = sum_list (map (case_option 0 (nat \<circ> wv_refs)) (wh_cells h))"

lemma dead_count_update:
  assumes "deref h a = Some c"
  shows "dead_count (put_cell h a d)
           = dead_count h + case_option 0 (nat \<circ> wv_refs) d - nat (wv_refs c)"
  using assms
  by (auto simp: dead_count_def put_cell_def deref_def map_update sum_list_update split: if_splits)

lemma dead_count_ge: "deref h a = Some c \<Longrightarrow> nat (wv_refs c) \<le> dead_count h"
  by (auto simp: dead_count_def deref_def split: if_splits
      intro!: elem_le_sum_list [of a "map _ (wh_cells h)", simplified, THEN order_trans [rotated]])

lemma dead_count_decrement:
  assumes "deref h a = Some c" and "0 < wv_refs c"
  shows "dead_count (put_cell h a (Some (c\<lparr>wv_refs := wv_refs c - 1\<rparr>))) < dead_count h"
  using dead_count_ge [OF assms(1)] assms(2) by (simp add: dead_count_update [OF assms(1)])

lemma dead_count_free: "deref h a = Some c \<Longrightarrow> dead_count (put_cell h a None) \<le> dead_count h"
  by (simp add: dead_count_update)

function unref_tasks :: "WHeap \<Rightarrow> UnrefTask list \<Rightarrow> WHeap option" where
  "unref_tasks h [] = Some h"
| "unref_tasks h (Unref None # ts) = unref_tasks h ts"
| "unref_tasks h (Unref (Some a) # ts) =
     (case deref h a of
        None \<Rightarrow> None
      | Some c \<Rightarrow>
          if wv_refs c \<le> 0 then unref_tasks h ts
          else let h' = put_cell h a (Some (c\<lparr>wv_refs := wv_refs c - 1\<rparr>))
               in if wv_refs c - 1 \<noteq> 0 then unref_tasks h' ts
                  else unref_tasks h' (map (Unref \<circ> Some) (children (wv_data c)) @ Free a # ts))"
| "unref_tasks h (Free a # ts) =
     (case deref h a of
        None \<Rightarrow> None
      | Some c \<Rightarrow>
          if frees_new (wv_data c) then None
          else unref_tasks (put_cell h a None) ts)"
  by pat_completeness auto

termination
proof (relation "measures [\<lambda>(h, ts). dead_count h, \<lambda>(h, ts). length ts]", goal_cases)
  case 1
  then show ?case by simp
next
  case (2 h ts)
  then show ?case by simp
next
  case (3 h a ts c)
  then show ?case by simp
next
  case (4 h a ts c h')
  then show ?case by (simp add: dead_count_decrement)
next
  case (5 h a ts c h')
  with dead_count_decrement [OF 5(1)] show ?case by simp
next
  case (6 h a ts c)
  with dead_count_free [OF 6(1)] show ?case by auto
qed

definition webview_value_unref :: "WHeap \<Rightarrow> WPtr \<Rightarrow> WHeap option" where
  "webview_value_unref h self = unref_tasks h [Unref self]"


section \<open>Reading a value\<close>

definition webview_value_get_type :: "WHeap \<Rightarrow> WPtr \<Rightarrow> WValueType option" where
  "webview_value_get_type h self =
     (case self of None \<Rightarrow> Some Webview_Value_Type_Null
      | Some a \<Rightarrow> map_option (\<lambda>c. type_of_payload (wv_data c)) (deref h a))"

text \<open>
  The getters share one shape: the default for a null pointer and for a value of another type, the
  field otherwise.
\<close>

definition getter :: "'a \<Rightarrow> (WPayload \<Rightarrow> 'a option) \<Rightarrow> WHeap \<Rightarrow> WPtr \<Rightarrow> 'a option" where
  "getter dflt field h self =
     (case self of None \<Rightarrow> Some dflt
      | Some a \<Rightarrow>
          map_option (\<lambda>c. case field (wv_data c) of None \<Rightarrow> dflt | Some v \<Rightarrow> v) (deref h a))"

definition webview_value_get_bool :: "WHeap \<Rightarrow> WPtr \<Rightarrow> bool option" where
  "webview_value_get_bool = getter False (\<lambda>p. case p of WBool b \<Rightarrow> Some b | _ \<Rightarrow> None)"

definition webview_value_get_int :: "WHeap \<Rightarrow> WPtr \<Rightarrow> u64 option" where
  "webview_value_get_int = getter 0 (\<lambda>p. case p of WInt i \<Rightarrow> Some i | _ \<Rightarrow> None)"

definition webview_value_get_float :: "WHeap \<Rightarrow> WPtr \<Rightarrow> u32 option" where
  "webview_value_get_float = getter 0 (\<lambda>p. case p of WFloat f \<Rightarrow> Some f | _ \<Rightarrow> None)"

definition webview_value_get_double :: "WHeap \<Rightarrow> WPtr \<Rightarrow> u64 option" where
  "webview_value_get_double = getter 0 (\<lambda>p. case p of WDouble d \<Rightarrow> Some d | _ \<Rightarrow> None)"

definition webview_value_get_string :: "WHeap \<Rightarrow> WPtr \<Rightarrow> string option option" where
  "webview_value_get_string =
     getter None (\<lambda>p. case p of WString _ s \<Rightarrow> Some (Some s) | _ \<Rightarrow> None)"

definition webview_value_get_uint8_list :: "WHeap \<Rightarrow> WPtr \<Rightarrow> 8 word list option option" where
  "webview_value_get_uint8_list =
     getter None (\<lambda>p. case p of WUint8List xs \<Rightarrow> Some (Some xs) | _ \<Rightarrow> None)"

definition webview_value_get_int32_list :: "WHeap \<Rightarrow> WPtr \<Rightarrow> u32 list option option" where
  "webview_value_get_int32_list =
     getter None (\<lambda>p. case p of WInt32List xs \<Rightarrow> Some (Some xs) | _ \<Rightarrow> None)"

definition webview_value_get_int64_list :: "WHeap \<Rightarrow> WPtr \<Rightarrow> u64 list option option" where
  "webview_value_get_int64_list =
     getter None (\<lambda>p. case p of WInt64List xs \<Rightarrow> Some (Some xs) | _ \<Rightarrow> None)"

definition webview_value_get_float_list :: "WHeap \<Rightarrow> WPtr \<Rightarrow> u32 list option option" where
  "webview_value_get_float_list =
     getter None (\<lambda>p. case p of WFloatList xs \<Rightarrow> Some (Some xs) | _ \<Rightarrow> None)"

definition webview_value_get_double_list :: "WHeap \<Rightarrow> WPtr \<Rightarrow> u64 list option option" where
  "webview_value_get_double_list =
     getter None (\<lambda>p. case p of WDoubleList xs \<Rightarrow> Some (Some xs) | _ \<Rightarrow> None)"

fun payload_len :: "WPayload \<Rightarrow> nat" where
  "payload_len (WUint8List xs) = length xs"
| "payload_len (WInt32List xs) = length xs"
| "payload_len (WInt64List xs) = length xs"
| "payload_len (WFloatList xs) = length xs"
| "payload_len (WDoubleList xs) = length xs"
| "payload_len (WList vs) = length (pdata vs)"
| "payload_len (WMap ks vs) = length (pdata ks)"
| "payload_len _ = 0"

definition webview_value_get_len :: "WHeap \<Rightarrow> WPtr \<Rightarrow> nat option" where
  "webview_value_get_len = getter 0 (\<lambda>p. Some (payload_len p))"

definition webview_value_get_list_value :: "WHeap \<Rightarrow> WPtr \<Rightarrow> nat \<Rightarrow> WPtr option" where
  "webview_value_get_list_value h self index =
     getter None (\<lambda>p. case p of WList vs \<Rightarrow> Some (webview_ptr_array_index vs index) | _ \<Rightarrow> None) h self"

definition webview_value_get_key :: "WHeap \<Rightarrow> WPtr \<Rightarrow> nat \<Rightarrow> WPtr option" where
  "webview_value_get_key h self index =
     getter None (\<lambda>p. case p of WMap ks vs \<Rightarrow> Some (webview_ptr_array_index ks index) | _ \<Rightarrow> None) h self"

definition webview_value_get_value :: "WHeap \<Rightarrow> WPtr \<Rightarrow> nat \<Rightarrow> WPtr option" where
  "webview_value_get_value h self index =
     getter None (\<lambda>p. case p of WMap ks vs \<Rightarrow> Some (webview_ptr_array_index vs index) | _ \<Rightarrow> None) h self"

definition webview_value_get_map_key :: "WHeap \<Rightarrow> WPtr \<Rightarrow> nat \<Rightarrow> WPtr option" where
  "webview_value_get_map_key h self index =
     getter None (\<lambda>p. case p of WMap ks vs \<Rightarrow> Some (webview_ptr_array_index ks index) | _ \<Rightarrow> None) h self"

definition webview_value_get_map_value :: "WHeap \<Rightarrow> WPtr \<Rightarrow> nat \<Rightarrow> WPtr option" where
  "webview_value_get_map_value h self index =
     getter None (\<lambda>p. case p of WMap ks vs \<Rightarrow> Some (webview_ptr_array_index vs index) | _ \<Rightarrow> None) h self"

section \<open>Equality\<close>

text \<open>
  Floats and doubles compare as IEEE values over their bits: a NaN equals nothing, the two zeros are
  equal, everything else is equal when its bits are.
\<close>

definition float_is_nan :: "u32 \<Rightarrow> bool" where
  "float_is_nan w \<longleftrightarrow> 0x7F800000 < unat w mod 0x80000000"

definition float_eq :: "u32 \<Rightarrow> u32 \<Rightarrow> bool" where
  "float_eq a b \<longleftrightarrow> \<not> float_is_nan a \<and> \<not> float_is_nan b
     \<and> (a = b \<or> unat a mod 0x80000000 = 0 \<and> unat b mod 0x80000000 = 0)"

definition double_is_nan :: "u64 \<Rightarrow> bool" where
  "double_is_nan w \<longleftrightarrow> 0x7FF0000000000000 < unat w mod 0x8000000000000000"

definition double_eq :: "u64 \<Rightarrow> u64 \<Rightarrow> bool" where
  "double_eq a b \<longleftrightarrow> \<not> double_is_nan a \<and> \<not> double_is_nan b
     \<and> (a = b \<or> unat a mod 0x8000000000000000 = 0 \<and> unat b mod 0x8000000000000000 = 0)"

text \<open>The two loops of the code: every element, and the first element, for which a call answers.\<close>

fun all_of :: "('a \<Rightarrow> bool option) \<Rightarrow> 'a list \<Rightarrow> bool option" where
  "all_of f [] = Some True"
| "all_of f (x # xs) =
     (case f x of None \<Rightarrow> None | Some False \<Rightarrow> Some False | Some True \<Rightarrow> all_of f xs)"

fun index_of :: "('a \<Rightarrow> bool option) \<Rightarrow> nat \<Rightarrow> 'a list \<Rightarrow> nat option option" where
  "index_of f i [] = Some None"
| "index_of f i (x # xs) =
     (case f x of None \<Rightarrow> None | Some True \<Rightarrow> Some (Some i) | Some False \<Rightarrow> index_of f (Suc i) xs)"

text \<open>
  \<open>webview_value_equals\<close>, with the depth of the recursion as fuel. A call compares two cells and the
  heap does not change, so a recursion deeper than the number of pairs of cells has met a pair twice
  and never ends: \<open>webview_value_equals\<close> allows exactly that many, and \<open>None\<close> from it is undefined
  behaviour. The value of an entry of \<open>a\<close> is read with \<open>webview_value_get_key\<close>, as in the code.
\<close>

fun equals_depth :: "nat \<Rightarrow> WHeap \<Rightarrow> WPtr \<Rightarrow> WPtr \<Rightarrow> bool option" where
  "equals_depth 0 h a b = None"
| "equals_depth (Suc n) h None b = Some False"
| "equals_depth (Suc n) h (Some a) None = Some False"
| "equals_depth (Suc n) h (Some a) (Some b) =
     (case (deref h a, deref h b) of
        (Some ca, Some cb) \<Rightarrow>
          (case (wv_data ca, wv_data cb) of
             (WNull, WNull) \<Rightarrow> Some True
           | (WBool x, WBool y) \<Rightarrow> Some (x = y)
           | (WInt x, WInt y) \<Rightarrow> Some (x = y)
           | (WFloat x, WFloat y) \<Rightarrow> Some (float_eq x y)
           | (WDouble x, WDouble y) \<Rightarrow> Some (double_eq x y)
           | (WString _ x, WString _ y) \<Rightarrow> Some (x = y)
           | (WUint8List xs, WUint8List ys) \<Rightarrow> Some (list_all2 (=) xs ys)
           | (WInt32List xs, WInt32List ys) \<Rightarrow> Some (list_all2 (=) xs ys)
           | (WInt64List xs, WInt64List ys) \<Rightarrow> Some (list_all2 (=) xs ys)
           | (WFloatList xs, WFloatList ys) \<Rightarrow> Some (list_all2 float_eq xs ys)
           | (WDoubleList xs, WDoubleList ys) \<Rightarrow> Some (list_all2 double_eq xs ys)
           | (WList xs, WList ys) \<Rightarrow>
               if length (pdata xs) \<noteq> length (pdata ys) then Some False
               else all_of (\<lambda>(x, y). equals_depth n h (Some x) (Some y)) (zip (pdata xs) (pdata ys))
           | (WMap ks vs, WMap ks' vs') \<Rightarrow>
               if length (pdata ks) \<noteq> length (pdata ks') then Some False
               else all_of (\<lambda>k. case index_of (\<lambda>k'. equals_depth n h (Some k') (Some k)) 0 (pdata ks') of
                                  None \<Rightarrow> None
                                | Some None \<Rightarrow> Some False
                                | Some (Some i) \<Rightarrow>
                                    (case webview_ptr_array_index vs' i of
                                       None \<Rightarrow> Some False
                                     | Some v \<Rightarrow> equals_depth n h (Some k) (Some v)))
                           (pdata ks)
           | _ \<Rightarrow> Some False)
      | _ \<Rightarrow> None)"

definition webview_value_equals :: "WHeap \<Rightarrow> WPtr \<Rightarrow> WPtr \<Rightarrow> bool option" where
  "webview_value_equals h = equals_depth (Suc (length (wh_cells h) * length (wh_cells h))) h"

section \<open>Lists and maps\<close>

text \<open>
  \<open>webview_value_lookup_index\<close>: the index of the first key equal to \<open>key\<close>, or \<open>-1\<close> (here \<open>None\<close>), also
  for a value that is not a map.
\<close>

definition webview_value_lookup_index :: "WHeap \<Rightarrow> addr \<Rightarrow> WPtr \<Rightarrow> nat option option" where
  "webview_value_lookup_index h self key =
     (case deref h self of
        None \<Rightarrow> None
      | Some c \<Rightarrow>
          (case wv_data c of
             WMap ks vs \<Rightarrow> index_of (\<lambda>k. webview_value_equals h (Some k) key) 0 (pdata ks)
           | _ \<Rightarrow> Some None))"

definition webview_value_get_by_key :: "WHeap \<Rightarrow> WPtr \<Rightarrow> WPtr \<Rightarrow> WPtr option" where
  "webview_value_get_by_key h self key =
     (case self of None \<Rightarrow> Some None
      | Some a \<Rightarrow>
          (case deref h a of
             None \<Rightarrow> None
           | Some c \<Rightarrow>
               if type_of_payload (wv_data c) \<noteq> Webview_Value_Type_Map then Some None
               else (case webview_value_lookup_index h a key of
                       None \<Rightarrow> None
                     | Some None \<Rightarrow> Some None
                     | Some (Some index) \<Rightarrow> webview_value_get_map_value h (Some a) index)))"

definition webview_value_get_by_string :: "WHeap \<Rightarrow> WPtr \<Rightarrow> string \<Rightarrow> (WPtr \<times> WHeap) option" where
  "webview_value_get_by_string h self key =
     (case self of None \<Rightarrow> Some (None, h)
      | Some a \<Rightarrow>
          (case webview_value_new_string h key of
             (string_key, h) \<Rightarrow>
               (case webview_value_get_by_key h (Some a) (Some string_key) of
                  None \<Rightarrow> None
                | Some v \<Rightarrow>
                    (case webview_value_unref h (Some string_key) of
                       None \<Rightarrow> None
                     | Some h \<Rightarrow> Some (v, h)))))"

definition put_payload :: "WHeap \<Rightarrow> addr \<Rightarrow> (WPayload \<Rightarrow> WPayload) \<Rightarrow> WHeap" where
  "put_payload h a f =
     put_cell h a (map_option (\<lambda>c. c\<lparr>wv_data := f (wv_data c)\<rparr>) (deref h a))"

definition webview_value_append_take :: "WHeap \<Rightarrow> WPtr \<Rightarrow> WPtr \<Rightarrow> WHeap option" where
  "webview_value_append_take h self v =
     (case self of None \<Rightarrow> Some h
      | Some a \<Rightarrow>
          (case deref h a of
             None \<Rightarrow> None
           | Some c \<Rightarrow>
               (case (wv_data c, v) of
                  (WList vs, Some x) \<Rightarrow>
                    (case webview_ptr_array_add h vs x of
                       (vs, h) \<Rightarrow> Some (put_payload h a (\<lambda>_. WList vs)))
                | _ \<Rightarrow> Some h)))"

definition webview_value_append :: "WHeap \<Rightarrow> WPtr \<Rightarrow> WPtr \<Rightarrow> WHeap option" where
  "webview_value_append h self v =
     (case self of None \<Rightarrow> Some h
      | Some a \<Rightarrow>
          (case deref h a of
             None \<Rightarrow> None
           | Some c \<Rightarrow>
               if type_of_payload (wv_data c) \<noteq> Webview_Value_Type_List \<or> v = None then Some h
               else (case webview_value_ref h v of
                       None \<Rightarrow> None
                     | Some (v, h) \<Rightarrow> webview_value_append_take h self v)))"

text \<open>
  Replacing an entry drops the old key, stores the new one, drops the old value, stores the new one.
  While the old ones are dropped the arrays still hold them.
\<close>

definition map_add :: "WHeap \<Rightarrow> addr \<Rightarrow> WPtrArray \<Rightarrow> WPtrArray \<Rightarrow> addr \<Rightarrow> addr \<Rightarrow> WHeap" where
  "map_add h a ks vs key v =
     (case webview_ptr_array_add h ks key of
        (ks, h) \<Rightarrow>
          (case webview_ptr_array_add h vs v of
             (vs, h) \<Rightarrow> put_payload h a (\<lambda>_. WMap ks vs)))"

fun set_key :: "nat \<Rightarrow> addr \<Rightarrow> WPayload \<Rightarrow> WPayload" where
  "set_key i key (WMap ks vs) = WMap (ks\<lparr>pdata := (pdata ks)[i := key]\<rparr>) vs"
| "set_key i key p = p"

fun set_value :: "nat \<Rightarrow> addr \<Rightarrow> WPayload \<Rightarrow> WPayload" where
  "set_value i v (WMap ks vs) = WMap ks (vs\<lparr>pdata := (pdata vs)[i := v]\<rparr>)"
| "set_value i v p = p"

definition replace_entry :: "WHeap \<Rightarrow> addr \<Rightarrow> WPtrArray \<Rightarrow> WPtrArray \<Rightarrow> nat \<Rightarrow> addr \<Rightarrow> addr \<Rightarrow> WHeap option" where
  "replace_entry h a ks vs i key v =
     (case webview_value_unref h (Some (pdata ks ! i)) of
        None \<Rightarrow> None
      | Some h \<Rightarrow>
          (case deref h a of
             None \<Rightarrow> None
           | Some _ \<Rightarrow>
               if length (pdata vs) \<le> i then None
               else (case webview_value_unref (put_payload h a (set_key i key)) (Some (pdata vs ! i)) of
                       None \<Rightarrow> None
                     | Some h \<Rightarrow>
                         (case deref h a of
                            None \<Rightarrow> None
                          | Some _ \<Rightarrow> Some (put_payload h a (set_value i v))))))"

definition webview_value_set_take :: "WHeap \<Rightarrow> WPtr \<Rightarrow> WPtr \<Rightarrow> WPtr \<Rightarrow> WHeap option" where
  "webview_value_set_take h self key v =
     (case self of None \<Rightarrow> Some h
      | Some a \<Rightarrow>
          (case deref h a of
             None \<Rightarrow> None
           | Some c \<Rightarrow>
               (case (wv_data c, key, v) of
                  (WMap ks vs, Some k, Some x) \<Rightarrow>
                    (case webview_value_lookup_index h a key of
                       None \<Rightarrow> None
                     | Some None \<Rightarrow> Some (map_add h a ks vs k x)
                     | Some (Some i) \<Rightarrow> replace_entry h a ks vs i k x)
                | _ \<Rightarrow> Some h)))"

definition settable :: "WHeap \<Rightarrow> WPtr \<Rightarrow> bool \<Rightarrow> bool option" where
  "settable h self args =
     (case self of None \<Rightarrow> Some False
      | Some a \<Rightarrow>
          map_option (\<lambda>c. type_of_payload (wv_data c) = Webview_Value_Type_Map \<and> args) (deref h a))"

definition webview_value_set :: "WHeap \<Rightarrow> WPtr \<Rightarrow> WPtr \<Rightarrow> WPtr \<Rightarrow> WHeap option" where
  "webview_value_set h self key v =
     (case settable h self (key \<noteq> None \<and> v \<noteq> None) of
        None \<Rightarrow> None
      | Some False \<Rightarrow> Some h
      | Some True \<Rightarrow>
          (case webview_value_ref h key of
             None \<Rightarrow> None
           | Some (key, h) \<Rightarrow>
               (case webview_value_ref h v of
                  None \<Rightarrow> None
                | Some (v, h) \<Rightarrow> webview_value_set_take h self key v)))"

definition webview_value_set_string :: "WHeap \<Rightarrow> WPtr \<Rightarrow> string \<Rightarrow> WPtr \<Rightarrow> WHeap option" where
  "webview_value_set_string h self key v =
     (case settable h self (v \<noteq> None) of
        None \<Rightarrow> None
      | Some False \<Rightarrow> Some h
      | Some True \<Rightarrow>
          (case webview_value_new_string h key of
             (k, h) \<Rightarrow>
               (case webview_value_ref h v of
                  None \<Rightarrow> None
                | Some (v, h) \<Rightarrow> webview_value_set_take h self (Some k) v)))"

section \<open>Text\<close>

text \<open>
  A heap string is its capacity and its contents: \<open>strdup\<close> allocates what the text needs, \<open>strcat\<close>
  writes past the end when the result does not fit.
\<close>

definition str_dup :: "string \<Rightarrow> nat \<times> string" where
  "str_dup s = (Suc (length s), s)"

definition str_cat :: "nat \<times> string \<Rightarrow> string \<Rightarrow> (nat \<times> string) option" where
  "str_cat buf s =
     (if length (snd buf) + length s < fst buf then Some (fst buf, snd buf @ s) else None)"

fun cat_items :: "string \<Rightarrow> string option list \<Rightarrow> nat \<times> string \<Rightarrow> (nat \<times> string) option" where
  "cat_items close [] buf = str_cat buf close"
| "cat_items close (x # xs) buf =
     (case x of None \<Rightarrow> None
      | Some s \<Rightarrow>
          (case str_cat buf s of None \<Rightarrow> None
           | Some buf \<Rightarrow>
               (case (if xs = [] then Some buf else str_cat buf '','') of
                  None \<Rightarrow> None
                | Some buf \<Rightarrow> cat_items close xs buf)))"

text \<open>
  \<open>%f\<close> prints the exact value of the double rounded to six decimals, ties to even; \<open>snprintf\<close> keeps
  the first 31 bytes of it. A float is promoted to a double of the same value.
\<close>

definition fixed6 :: "bool \<Rightarrow> nat \<Rightarrow> int \<Rightarrow> string" where
  "fixed6 negative m e =
     (let t = (if 0 \<le> e then m * 2 ^ nat e * 1000000
               else round_half_even (m * 1000000) (2 ^ nat (- e)))
      in (if negative then ''-'' else []) @ show_nat (t div 1000000) @ ''.''
           @ pad_zero 6 (show_nat (t mod 1000000)))"

definition format_ieee :: "nat \<Rightarrow> nat \<Rightarrow> nat \<Rightarrow> string" where
  "format_ieee frac_bits exp_bits w =
     (let negative = (w div 2 ^ (frac_bits + exp_bits) mod 2 = 1);
          e = w div 2 ^ frac_bits mod 2 ^ exp_bits;
          m = w mod 2 ^ frac_bits;
          bias = 2 ^ (exp_bits - 1) - 1
      in if e = 2 ^ exp_bits - 1
         then (if negative then ''-'' else []) @ (if m = 0 then ''inf'' else ''nan'')
         else if e = 0 then fixed6 negative m (1 - bias - int frac_bits)
         else fixed6 negative (m + 2 ^ frac_bits) (int e - bias - int frac_bits))"

definition format_float :: "u32 \<Rightarrow> string" where
  "format_float w = snprintf_buf 32 (format_ieee 23 8 (unat w))"

definition format_double :: "u64 \<Rightarrow> string" where
  "format_double w = snprintf_buf 32 (format_ieee 52 11 (unat w))"

text \<open>
  \<open>webview_value_to_string\<close>, fuelled like the equality by the depth of the recursion; the outer
  option is the behaviour, the inner one the pointer it returns.
\<close>

fun to_string_depth :: "nat \<Rightarrow> WHeap \<Rightarrow> WPtr \<Rightarrow> string option option" where
  "to_string_depth 0 h v = None"
| "to_string_depth (Suc n) h None = Some None"
| "to_string_depth (Suc n) h (Some a) =
     (case deref h a of
        None \<Rightarrow> None
      | Some c \<Rightarrow>
          map_option (Some \<circ> snd)
          (case wv_data c of
             WNull \<Rightarrow> Some (str_dup ''null'')
           | WBool b \<Rightarrow> Some (str_dup (if b then ''true'' else ''false''))
           | WString _ s \<Rightarrow> Some (str_dup s)
           | WInt i \<Rightarrow> Some (str_dup (snprintf_buf 32 (show_int (sint i))))
           | WFloat f \<Rightarrow> Some (str_dup (format_float f))
           | WDouble d \<Rightarrow> Some (str_dup (format_double d))
           | WUint8List xs \<Rightarrow>
               cat_items '']'' (map (\<lambda>x. Some (snprintf_buf 32 (show_int (uint x)))) xs) (str_dup ''['')
           | WInt32List xs \<Rightarrow>
               cat_items '']'' (map (\<lambda>x. Some (snprintf_buf 32 (show_int (sint x)))) xs) (str_dup ''['')
           | WInt64List xs \<Rightarrow>
               cat_items '']'' (map (\<lambda>x. Some (snprintf_buf 32 (show_int (sint x)))) xs) (str_dup ''['')
           | WFloatList xs \<Rightarrow> cat_items '']'' (map (Some \<circ> format_float) xs) (str_dup ''['')
           | WDoubleList xs \<Rightarrow> cat_items '']'' (map (Some \<circ> format_double) xs) (str_dup ''['')
           | WList vs \<Rightarrow>
               cat_items '']'' (map (\<lambda>x. case to_string_depth n h (Some x) of Some r \<Rightarrow> r | None \<Rightarrow> None)
                                    (pdata vs)) (str_dup ''['')
           | WMap ks vs \<Rightarrow>
               cat_items ''}''
                 (map (\<lambda>i. case (to_string_depth n h (webview_ptr_array_index ks i),
                                    to_string_depth n h (webview_ptr_array_index vs i)) of
                              (Some (Some k), Some (Some x)) \<Rightarrow> Some (k @ '':'' @ x)
                            | _ \<Rightarrow> None)
                      [0..<length (pdata ks)]) (str_dup ''{'')))"

definition webview_value_to_string :: "WHeap \<Rightarrow> WPtr \<Rightarrow> string option option" where
  "webview_value_to_string h = to_string_depth (Suc (length (wh_cells h))) h"

end
