(* ===== verification/Webview_Ownership.thy ===== *)
theory Webview_Ownership
  imports Webview_Value
begin

text \<open>
  The ownership discipline of the webview values: the reference counts are right, so a client that
  releases only what it holds never reaches undefined behaviour, nothing is freed while it is
  referred to, and the last release of an acyclic value frees all of it. A map of string keys is an
  association list, of which \<open>webview_value_set_string\<close> and \<open>webview_value_get_by_string\<close> are update
  and lookup.
\<close>

section \<open>Cells after an update\<close>

lemma deref_put [simp]:
  "deref (put_cell h a c) b = (if b = a \<and> a < length (wh_cells h) then c else deref h b)"
  by (auto simp: deref_def put_cell_def)

lemma deref_put_live [simp]: "deref h a = Some c \<Longrightarrow> deref (put_cell h a d) a = d"
  by (auto simp: deref_def put_cell_def split: if_splits)

lemma deref_lt: "deref h a = Some c \<Longrightarrow> a < length (wh_cells h)"
  by (auto simp: deref_def split: if_splits)

lemma deref_asked [simp]: "deref (h\<lparr>wh_asked := n\<rparr>) a = deref h a"
  by (simp add: deref_def)

lemma deref_new [simp]:
  "deref (snd (webview_value_new h p)) a
     = (if a = length (wh_cells h) then Some \<lparr>wv_refs = 1, wv_data = p\<rparr> else deref h a)"
  by (auto simp: deref_def webview_value_new_def nth_append)

section \<open>Who refers to a cell\<close>

definition cell_refs :: "WCell option \<Rightarrow> addr \<Rightarrow> nat" where
  "cell_refs c a =
     (case c of None \<Rightarrow> 0
      | Some c \<Rightarrow> if wv_refs c = 0 then 0 else count_list (children (wv_data c)) a)"

definition refs_in :: "WHeap \<Rightarrow> addr \<Rightarrow> nat" where
  "refs_in h a = (\<Sum>c\<leftarrow>wh_cells h. cell_refs c a)"

lemma cell_refs_simps [simp]:
  "cell_refs None a = 0"
  "wv_refs c = 0 \<Longrightarrow> cell_refs (Some c) a = 0"
  "wv_refs c \<noteq> 0 \<Longrightarrow> cell_refs (Some c) a = count_list (children (wv_data c)) a"
  by (auto simp: cell_refs_def)

lemma refs_in_put:
  assumes "deref h a = Some c"
  shows "refs_in (put_cell h a d) x + cell_refs (Some c) x = refs_in h x + cell_refs d x"
proof -
  from assms have a: "a < length (wh_cells h)" and c: "wh_cells h ! a = Some c"
    by (auto simp: deref_def split: if_splits)
  from a have *: "wh_cells h = take a (wh_cells h) @ wh_cells h ! a # drop (Suc a) (wh_cells h)"
    by (simp add: id_take_nth_drop)
  have "refs_in h x = (\<Sum>c\<leftarrow>take a (wh_cells h). cell_refs c x) + cell_refs (Some c) x
                        + (\<Sum>c\<leftarrow>drop (Suc a) (wh_cells h). cell_refs c x)"
    unfolding refs_in_def by (subst *) (simp add: c)
  moreover from a have "refs_in (put_cell h a d) x
      = (\<Sum>c\<leftarrow>take a (wh_cells h). cell_refs c x) + cell_refs d x
          + (\<Sum>c\<leftarrow>drop (Suc a) (wh_cells h). cell_refs c x)"
    by (simp add: refs_in_def put_cell_def upd_conv_take_nth_drop)
  ultimately show ?thesis by simp
qed

lemma refs_in_asked [simp]: "refs_in (h\<lparr>wh_asked := n\<rparr>) a = refs_in h a"
  by (simp add: refs_in_def)

lemma refs_in_new [simp]:
  "refs_in (snd (webview_value_new h p)) a = refs_in h a + count_list (children p) a"
  by (simp add: refs_in_def webview_value_new_def)

text \<open>The same facts for the two changes the operations make: a count, and a payload.\<close>

lemma refs_in_count:
  assumes "deref h a = Some c" and "wv_refs c \<noteq> 0" and "n \<noteq> 0"
  shows "refs_in (put_cell h a (Some (c\<lparr>wv_refs := n\<rparr>))) x = refs_in h x"
  using refs_in_put [OF assms(1), of "Some (c\<lparr>wv_refs := n\<rparr>)" x] assms by simp

lemma refs_in_zero:
  assumes "deref h a = Some c" and "wv_refs c \<noteq> 0"
  shows "refs_in (put_cell h a (Some (c\<lparr>wv_refs := 0\<rparr>))) x + count_list (children (wv_data c)) x
           = refs_in h x"
  using refs_in_put [OF assms(1), of "Some (c\<lparr>wv_refs := 0\<rparr>)" x] assms by simp

lemma refs_in_free:
  assumes "deref h a = Some c" and "wv_refs c = 0"
  shows "refs_in (put_cell h a None) x = refs_in h x"
  using refs_in_put [OF assms(1), of None x] assms by simp

section \<open>The ownership invariant\<close>

text \<open>
  Every live cell's count is the number of references to it: those in the arrays of the live values,
  the calls of \<open>webview_value_unref\<close> still to make, and those held outside (\<open>ext\<close>). A freed cell has
  none. A cell is waiting to be freed exactly when its count has reached zero.
\<close>

fun aligned :: "WPayload \<Rightarrow> bool" where
  "aligned (WMap ks vs) \<longleftrightarrow> length (pdata ks) = length (pdata vs)"
| "aligned _ \<longleftrightarrow> True"

definition owned_cell :: "WHeap \<Rightarrow> UnrefTask list \<Rightarrow> (addr \<Rightarrow> nat) \<Rightarrow> addr \<Rightarrow> bool" where
  "owned_cell h ts ext a =
     (let n = refs_in h a + count_list ts (Unref (Some a)) + ext a
      in case deref h a of
           None \<Rightarrow> n = 0 \<and> count_list ts (Free a) = 0
         | Some c \<Rightarrow> wv_refs c = int n
             \<and> count_list ts (Free a) = (if wv_refs c = 0 then 1 else 0)
             \<and> \<not> frees_new (wv_data c) \<and> aligned (wv_data c))"

definition owned_tasks :: "WHeap \<Rightarrow> UnrefTask list \<Rightarrow> (addr \<Rightarrow> nat) \<Rightarrow> bool" where
  "owned_tasks h ts ext \<longleftrightarrow> (\<forall>a. owned_cell h ts ext a)"

definition owned :: "WHeap \<Rightarrow> (addr \<Rightarrow> nat) \<Rightarrow> bool" where
  "owned h ext \<longleftrightarrow> owned_tasks h [] ext"

lemma count_list_map_Unref [simp]:
  "count_list (map (Unref \<circ> Some) xs) (Unref (Some a)) = count_list xs a"
  "count_list (map (Unref \<circ> Some) xs) (Free a) = 0"
  by (induction xs) auto

lemma owned_unref_live:
  assumes "owned_tasks h (Unref (Some a) # ts) ext"
  obtains c where "deref h a = Some c" and "0 < wv_refs c"
  using assms unfolding owned_tasks_def owned_cell_def
  by (cases "deref h a") (auto dest!: spec [of _ a])

lemma owned_unref_step:
  assumes own: "owned_tasks h (Unref (Some a) # ts) ext" and c: "deref h a = Some c"
    and n: "wv_refs c \<noteq> 1"
  shows "owned_tasks (put_cell h a (Some (c\<lparr>wv_refs := wv_refs c - 1\<rparr>))) ts ext"
  unfolding owned_tasks_def
proof
  fix x
  from own have "owned_cell h (Unref (Some a) # ts) ext x" and "owned_cell h (Unref (Some a) # ts) ext a"
    by (simp_all add: owned_tasks_def)
  with c n show "owned_cell (put_cell h a (Some (c\<lparr>wv_refs := wv_refs c - 1\<rparr>))) ts ext x"
    by (cases "x = a") (auto simp: owned_cell_def Let_def refs_in_count deref_lt split: option.splits)
qed

lemma owned_unref_last:
  assumes own: "owned_tasks h (Unref (Some a) # ts) ext" and c: "deref h a = Some c"
    and n: "wv_refs c = 1"
  shows "owned_tasks (put_cell h a (Some (c\<lparr>wv_refs := 0\<rparr>)))
           (map (Unref \<circ> Some) (children (wv_data c)) @ Free a # ts) ext"
  unfolding owned_tasks_def
proof
  fix x
  let ?h = "put_cell h a (Some (c\<lparr>wv_refs := 0\<rparr>))"
  from n have "refs_in ?h x + count_list (children (wv_data c)) x = refs_in h x"
    by (intro refs_in_zero c) simp
  moreover from own have "owned_cell h (Unref (Some a) # ts) ext x"
    by (simp add: owned_tasks_def)
  ultimately show "owned_cell ?h (map (Unref \<circ> Some) (children (wv_data c)) @ Free a # ts) ext x"
    using c n by (cases "x = a") (auto simp: owned_cell_def Let_def deref_lt split: option.splits)
qed

lemma owned_free_live:
  assumes "owned_tasks h (Free a # ts) ext"
  obtains c where "deref h a = Some c" and "wv_refs c = 0" and "\<not> frees_new (wv_data c)"
  using assms unfolding owned_tasks_def owned_cell_def
  by (cases "deref h a") (auto dest!: spec [of _ a] split: if_splits)

lemma owned_free_step:
  assumes own: "owned_tasks h (Free a # ts) ext" and c: "deref h a = Some c" and n: "wv_refs c = 0"
  shows "owned_tasks (put_cell h a None) ts ext"
  unfolding owned_tasks_def
proof
  fix x
  from own have "owned_cell h (Free a # ts) ext x" by (simp add: owned_tasks_def)
  with c n show "owned_cell (put_cell h a None) ts ext x"
    by (cases "x = a") (auto simp: owned_cell_def Let_def refs_in_free deref_lt split: option.splits)
qed

lemma owned_unref_null: "owned_tasks h (Unref None # ts) ext \<longleftrightarrow> owned_tasks h ts ext"
  by (simp add: owned_tasks_def owned_cell_def cong: option.case_cong)

lemma unref_tasks_owned:
  "owned_tasks h ts ext \<Longrightarrow> \<exists>h'. unref_tasks h ts = Some h' \<and> owned h' ext"
proof (induction h ts rule: unref_tasks.induct)
  case (1 h)
  then show ?case by (simp add: owned_def)
next
  case (2 h ts)
  then show ?case by (simp add: owned_unref_null)
next
  case (3 h a ts)
  from 3 obtain c where c: "deref h a = Some c" "0 < wv_refs c" by (elim owned_unref_live)
  show ?case
  proof (cases "wv_refs c = 1")
    case True
    from owned_unref_last [OF 3(4) c(1) True] 3(3) [OF c(1) _ refl] c True show ?thesis by simp
  next
    case False
    from owned_unref_step [OF 3(4) c(1) False] 3(2) [OF c(1) _ refl] c False show ?thesis by simp
  qed
next
  case (4 h a ts)
  from 4 obtain c where c: "deref h a = Some c" "wv_refs c = 0" "\<not> frees_new (wv_data c)"
    by (elim owned_free_live)
  with owned_free_step [OF 4(2) c(1,2)] 4(1) [OF c(1,3)] show ?case by simp
qed

section \<open>What a release leaves alone\<close>

lemma put_cell_fields [simp]:
  "wh_grants (put_cell h a c) = wh_grants h" "wh_asked (put_cell h a c) = wh_asked h"
  "length (wh_cells (put_cell h a c)) = length (wh_cells h)"
  by (simp_all add: put_cell_def)

lemma put_payload_fields [simp]:
  "wh_grants (put_payload h a f) = wh_grants h" "wh_asked (put_payload h a f) = wh_asked h"
  "length (wh_cells (put_payload h a f)) = length (wh_cells h)"
  by (simp_all add: put_payload_def)

text \<open>A property that lowering a count and freeing a cell keep is kept by a release.\<close>

lemma unref_tasks_keeps:
  assumes count: "\<And>h a c n. P h \<Longrightarrow> deref h a = Some c \<Longrightarrow> P (put_cell h a (Some (c\<lparr>wv_refs := n\<rparr>)))"
    and free: "\<And>h a. P h \<Longrightarrow> P (put_cell h a None)"
  shows "unref_tasks h ts = Some h' \<Longrightarrow> P h \<Longrightarrow> P h'"
proof (induction h ts rule: unref_tasks.induct)
  case (3 h b ts)
  from 3(4) obtain c where b: "deref h b = Some c" by (auto split: option.splits)
  show ?case
  proof (cases "wv_refs c \<le> 0")
    case True
    with 3 b show ?thesis by simp
  next
    case False
    from 3(2) [OF b False refl] 3(3) [OF b False refl] 3(4) b False count [OF 3(5) b]
    show ?thesis by (simp add: Let_def split: if_splits)
  qed
next
  case (4 h b ts)
  then show ?case by (auto split: option.splits if_splits intro: free)
qed auto

lemma unref_tasks_fields:
  assumes "unref_tasks h ts = Some h'"
  shows "wh_grants h' = wh_grants h \<and> wh_asked h' = wh_asked h \<and> length (wh_cells h') = length (wh_cells h)"
  by (rule unref_tasks_keeps [OF _ _ assms]) simp_all

lemma unref_tasks_data:
  assumes "unref_tasks h ts = Some h'" and "deref h' a = Some c'"
  shows "\<exists>c. deref h a = Some c \<and> wv_data c = wv_data c'"
proof -
  have "\<forall>a c'. deref h' a = Some c' \<longrightarrow> (\<exists>c. deref h a = Some c \<and> wv_data c = wv_data c')"
    by (rule unref_tasks_keeps [OF _ _ assms(1)]) (auto split: if_splits)
  with assms(2) show ?thesis by blast
qed

lemma unref_tasks_freed:
  "unref_tasks h ts = Some h' \<Longrightarrow> deref h a = None \<Longrightarrow> deref h' a = None"
  using unref_tasks_data by (cases "deref h' a") fastforce+

lemma unref_tasks_frees:
  "unref_tasks h ts = Some h' \<Longrightarrow> Free a \<in> set ts \<Longrightarrow> deref h' a = None"
proof (induction h ts arbitrary: h' rule: unref_tasks.induct)
  case (4 h b ts)
  then obtain c where c: "deref h b = Some c" "\<not> frees_new (wv_data c)"
      and u: "unref_tasks (put_cell h b None) ts = Some h'"
    by (auto split: option.splits if_splits)
  show ?case
  proof (cases "a = b")
    case True
    with u c(1) show ?thesis by (auto intro: unref_tasks_freed simp: deref_lt)
  next
    case False
    with 4 c u show ?thesis by simp
  qed
qed (auto simp: Let_def split: option.splits if_splits)

lemma put_cell_commute: "a \<noteq> b \<Longrightarrow> put_cell (put_cell h a c) b d = put_cell (put_cell h b d) a c"
  by (simp add: put_cell_def list_update_swap)

lemma put_cell_twice [simp]: "put_cell (put_cell h a c) a d = put_cell h a d"
  by (simp add: put_cell_def)

lemma deref_put_payload [simp]:
  "deref (put_payload h a f) b
     = (if b = a then map_option (\<lambda>c. c\<lparr>wv_data := f (wv_data c)\<rparr>) (deref h a) else deref h b)"
  by (auto simp: put_payload_def) (auto simp: deref_def)

lemma put_payload_other:
  "a \<noteq> b \<Longrightarrow> put_payload (put_cell h b c) a f = put_cell (put_payload h a f) b c"
  by (simp add: put_payload_def put_cell_commute)

lemma put_payload_same:
  "deref h a = Some c \<Longrightarrow>
     put_payload (put_cell h a (Some (c\<lparr>wv_refs := n\<rparr>))) a f
       = put_cell (put_payload h a f) a (Some (c\<lparr>wv_data := f (wv_data c), wv_refs := n\<rparr>))"
  by (cases c) (simp add: put_payload_def deref_lt)

text \<open>A value that survives a release may have its arrays changed before it or after it.\<close>

lemma unref_tasks_put_payload:
  "unref_tasks h ts = Some h' \<Longrightarrow> deref h' m \<noteq> None \<Longrightarrow>
     unref_tasks (put_payload h m f) ts = Some (put_payload h' m f)"
proof (induction h ts arbitrary: h' rule: unref_tasks.induct)
  case (3 h b ts)
  from 3(4) obtain c where b: "deref h b = Some c" by (auto split: option.splits)
  show ?case
  proof (cases "wv_refs c \<le> 0")
    case True
    with 3 b show ?thesis by (cases "b = m") simp_all
  next
    case pos: False
    let ?h = "put_cell h b (Some (c\<lparr>wv_refs := wv_refs c - 1\<rparr>))"
    show ?thesis
    proof (cases "wv_refs c - 1 = 0")
      case True
      with 3(4) b pos have u: "unref_tasks ?h (map (Unref \<circ> Some) (children (wv_data c)) @ Free b # ts) = Some h'"
        by simp
      with 3(5) have "b \<noteq> m" by (auto dest: unref_tasks_frees [where a = b])
      with 3(3) [OF b pos refl _ u 3(5)] True b pos show ?thesis
        by (simp add: put_payload_other)
    next
      case False
      with 3(4) b pos have u: "unref_tasks ?h ts = Some h'" by simp
      with 3(2) [OF b pos refl False u 3(5)] False b pos show ?thesis
        by (cases "b = m") (simp_all add: put_payload_other put_payload_same)
    qed
  qed
next
  case (4 h b ts)
  have "b \<noteq> m" using unref_tasks_frees [OF 4(2), of b] 4(3) by auto
  with 4 show ?case by (auto simp: put_payload_other split: option.splits if_splits)
qed auto

section \<open>The operations keep the counts right\<close>

definition holding :: "(addr \<Rightarrow> nat) \<Rightarrow> addr list \<Rightarrow> addr \<Rightarrow> nat" where
  "holding e as = (\<lambda>a. e a + count_list as a)"

lemma holding_simps [simp]:
  "holding e [] = e"
  "holding (holding e as) bs = holding e (as @ bs)"
  by (auto simp: holding_def)

lemma owned_live:
  assumes "owned h e" and "deref h a = Some c"
  shows "wv_refs c = int (refs_in h a + e a)" and "0 < wv_refs c"
    and "\<not> frees_new (wv_data c)" and "aligned (wv_data c)"
proof -
  from assms have "owned_cell h [] e a" by (simp add: owned_def owned_tasks_def)
  with assms(2) show "wv_refs c = int (refs_in h a + e a)" and "0 < wv_refs c"
    and "\<not> frees_new (wv_data c)" and "aligned (wv_data c)"
    by (auto simp: owned_cell_def split: if_splits)
qed

lemma owned_freed:
  assumes "owned h e" and "deref h a = None"
  shows "refs_in h a = 0" and "e a = 0"
  using assms by (auto simp: owned_def owned_tasks_def owned_cell_def dest!: spec [of _ a])

lemma ownedI:
  assumes "\<And>a c. deref h a = Some c \<Longrightarrow> wv_refs c = int (refs_in h a + e a) \<and> 0 < wv_refs c
             \<and> \<not> frees_new (wv_data c) \<and> aligned (wv_data c)"
    and "\<And>a. deref h a = None \<Longrightarrow> refs_in h a + e a = 0"
  shows "owned h e"
  unfolding owned_def owned_tasks_def owned_cell_def
  using assms by (auto simp: Let_def split: option.splits) fastforce+

lemma owned_held_live: "owned h e \<Longrightarrow> 0 < e a \<Longrightarrow> \<exists>c. deref h a = Some c"
  using owned_freed(2) by (cases "deref h a") fastforce+

lemma owned_child_live:
  assumes own: "owned h e" and p: "deref h p = Some c" and a: "a \<in> set (children (wv_data c))"
  shows "\<exists>d. deref h a = Some d"
proof (rule ccontr)
  assume "\<not> ?thesis"
  then have "deref h a = None" by auto
  with own have "refs_in h a = 0" by (rule owned_freed)
  moreover from p have "Some c \<in> set (wh_cells h)"
    by (auto simp: deref_def split: if_splits) (metis nth_mem)
  ultimately have "cell_refs (Some c) a = 0" by (auto simp: refs_in_def)
  with a owned_live(2) [OF own p] show False by (simp add: count_list_0_iff)
qed

lemma owned_new:
  assumes own: "owned h e" and p: "children p = []" "\<not> frees_new p" "aligned p"
    and new: "webview_value_new h p = (a, h')"
  shows "owned h' (holding e [a])"
proof -
  from new have h': "h' = snd (webview_value_new h p)" and a: "a = length (wh_cells h)"
    by (simp_all add: webview_value_new_def)
  from a have "deref h a = None" by (simp add: deref_def)
  from owned_freed [OF own this] p a show ?thesis unfolding h'
    by (intro ownedI) (auto simp: holding_def dest: owned_live [OF own] owned_freed [OF own] split: if_splits)
qed

lemma owned_ref:
  assumes own: "owned h e" and c: "deref h a = Some c" "wv_refs c < int32_max"
  obtains h' where "webview_value_ref h (Some a) = Some (Some a, h')" and "owned h' (holding e [a])"
    and "h' = put_cell h a (Some (c\<lparr>wv_refs := wv_refs c + 1\<rparr>))"
proof
  show "webview_value_ref h (Some a) = Some (Some a, put_cell h a (Some (c\<lparr>wv_refs := wv_refs c + 1\<rparr>)))"
    using c by (simp add: webview_value_ref_def)
  from owned_live [OF own c(1)]
  have "refs_in (put_cell h a (Some (c\<lparr>wv_refs := wv_refs c + 1\<rparr>))) x = refs_in h x" for x
    by (intro refs_in_count c) auto
  with owned_live [OF own c(1)] c(1)
  show "owned (put_cell h a (Some (c\<lparr>wv_refs := wv_refs c + 1\<rparr>))) (holding e [a])"
    by (intro ownedI) (auto simp: holding_def deref_lt dest: owned_live [OF own] owned_freed [OF own] split: if_splits)
qed simp

lemma owned_unref:
  assumes "owned h (holding e [a])"
  obtains h' where "webview_value_unref h (Some a) = Some h'" and "owned h' e"
proof -
  have "owned_cell h [Unref (Some a)] e x" for x
  proof -
    from assms have "owned_cell h [] (holding e [a]) x" by (simp add: owned_def owned_tasks_def)
    then show ?thesis
      by (cases "deref h x") (auto simp: owned_cell_def holding_def split: if_splits)
  qed
  then have "owned_tasks h [Unref (Some a)] e" by (simp add: owned_tasks_def)
  then show thesis by (auto dest!: unref_tasks_owned simp: webview_value_unref_def that)
qed

lemma owned_put_payload:
  assumes own: "owned h e" and c: "deref h a = Some c"
    and p: "\<not> frees_new (f (wv_data c))" "aligned (f (wv_data c))"
    and sum: "\<And>x. count_list (children (f (wv_data c))) x + e' x = count_list (children (wv_data c)) x + e x"
  shows "owned (put_payload h a f) e'"
proof (rule ownedI)
  have refs: "refs_in (put_payload h a f) x + e' x = refs_in h x + e x" for x
    using refs_in_put [OF c, of "Some (c\<lparr>wv_data := f (wv_data c)\<rparr>)" x] sum [of x] owned_live(2) [OF own c] c
    by (simp add: put_payload_def)
  show "wv_refs d = int (refs_in (put_payload h a f) x + e' x) \<and> 0 < wv_refs d
           \<and> \<not> frees_new (wv_data d) \<and> aligned (wv_data d)"
    if "deref (put_payload h a f) x = Some d" for x d
    using that c p owned_live [OF own] unfolding refs by (auto split: if_splits)
  show "refs_in (put_payload h a f) x + e' x = 0" if "deref (put_payload h a f) x = None" for x
    using that owned_freed [OF own] unfolding refs by (auto split: if_splits)
qed

section \<open>Appending\<close>

definition granted :: "WHeap \<Rightarrow> bool" where
  "granted h \<longleftrightarrow> (\<forall>n. wh_grants h n)"

lemma ptr_array_add_granted:
  assumes "granted h"
  obtains xs' h' where "webview_ptr_array_add h xs d = (xs', h')" and "pdata xs' = pdata xs @ [d]"
    and "wh_cells h' = wh_cells h" and "granted h'"
proof -
  from assms obtain xs' h' where "webview_ptr_array_add h xs d = (xs', h')" by fastforce
  with assms that show thesis
    by (auto simp: webview_ptr_array_add_def granted_def Let_def split: if_splits)
qed

lemma granted_put [simp]:
  "granted (put_cell h a c) = granted h" "granted (put_payload h a f) = granted h"
  by (simp_all add: granted_def)

lemma deref_cells: "wh_cells h = wh_cells g \<Longrightarrow> deref h = deref g"
  by (rule ext) (simp add: deref_def)

lemma refs_in_cells: "wh_cells h = wh_cells g \<Longrightarrow> refs_in h = refs_in g"
  by (rule ext) (simp add: refs_in_def)

lemma owned_cells: "wh_cells h = wh_cells g \<Longrightarrow> owned h e \<longleftrightarrow> owned g e"
  by (simp add: owned_def owned_tasks_def owned_cell_def deref_cells [of h g] refs_in_cells [of h g])

lemma owned_append_take:
  assumes own: "owned h (holding e [x])" and g: "granted h"
    and c: "deref h l = Some c" "wv_data c = WList vs"
  obtains h' vs' where "webview_value_append_take h (Some l) (Some x) = Some h'" and "owned h' e"
    and "granted h'" and "map_option wv_data (deref h' l) = Some (WList vs')"
    and "pdata vs' = pdata vs @ [x]"
proof -
  from g obtain vs1 h1 where add: "webview_ptr_array_add h vs x = (vs1, h1)" "pdata vs1 = pdata vs @ [x]"
      "wh_cells h1 = wh_cells h" "granted h1"
    by (rule ptr_array_add_granted)
  let ?h = "put_payload h1 l (\<lambda>_. WList vs1)"
  have d: "deref h1 = deref h" by (rule deref_cells) (rule add)
  from own have "owned h1 (holding e [x])" using owned_cells [OF add(3)] by simp
  then have "owned ?h e"
    by (rule owned_put_payload) (use c add d in \<open>auto simp: holding_def\<close>)
  moreover from c add have "webview_value_append_take h (Some l) (Some x) = Some ?h"
    by (simp add: webview_value_append_take_def)
  ultimately show thesis using add c d by (intro that [of ?h vs1]) auto
qed

section \<open>Keys\<close>

text \<open>A key that is neither a list nor a map compares without recursion.\<close>

fun flat :: "WPayload \<Rightarrow> bool" where
  "flat (WList _) \<longleftrightarrow> False"
| "flat (WMap _ _) \<longleftrightarrow> False"
| "flat _ \<longleftrightarrow> True"

definition string_of :: "WHeap \<Rightarrow> addr \<Rightarrow> string option" where
  "string_of h a =
     (case deref h a of
        None \<Rightarrow> None
      | Some c \<Rightarrow> (case wv_data c of WString _ s \<Rightarrow> Some s | _ \<Rightarrow> None))"

lemma equals_flat:
  assumes "deref h a = Some ca" and "deref h b = Some cb" and "flat (wv_data cb)"
  shows "webview_value_equals h (Some a) (Some b) \<noteq> None"
  using assms by (cases "wv_data cb"; cases "wv_data ca") (simp_all add: webview_value_equals_def)

lemma equals_string:
  assumes "deref h a = Some ca" and "deref h b = Some cb" and "wv_data cb = WString al s"
  shows "webview_value_equals h (Some a) (Some b) = Some (string_of h a = Some s)"
  using assms by (cases "wv_data ca") (simp_all add: webview_value_equals_def string_of_def)

lemma index_of_defined: "(\<And>x. x \<in> set xs \<Longrightarrow> f x \<noteq> None) \<Longrightarrow> index_of f i xs \<noteq> None"
  by (induction xs arbitrary: i) (auto split: option.splits bool.splits)

lemma index_of_bound: "index_of f i xs = Some (Some j) \<Longrightarrow> i \<le> j \<and> j < i + length xs"
  by (induction xs arbitrary: i) (fastforce split: option.splits bool.splits)+

lemma index_of_Some:
  "(\<And>x. x \<in> set xs \<Longrightarrow> f x = Some (P x)) \<Longrightarrow>
     index_of f i xs = Some (if \<exists>x\<in>set xs. P x then Some (i + length (takeWhile (\<lambda>x. \<not> P x) xs)) else None)"
  by (induction xs arbitrary: i) auto

lemma takeWhile_first: "(\<exists>x\<in>set xs. P x) \<longleftrightarrow> length (takeWhile (\<lambda>x. \<not> P x) xs) < length xs"
  by (induction xs) auto

lemma lookup_index_defined:
  assumes own: "owned h e" and m: "deref h m = Some c" and k: "deref h k = Some ck" "flat (wv_data ck)"
  shows "webview_value_lookup_index h m (Some k) \<noteq> None"
proof (cases "wv_data c")
  case (WMap ks vs)
  have "webview_value_equals h (Some x) (Some k) \<noteq> None" if "x \<in> set (pdata ks)" for x
    using owned_child_live [OF own m, of x] that WMap equals_flat [OF _ k] by fastforce
  then show ?thesis using m WMap
    by (simp add: webview_value_lookup_index_def index_of_defined)
qed (use m in \<open>simp_all add: webview_value_lookup_index_def\<close>)

lemma lookup_index_string:
  assumes own: "owned h e" and m: "deref h m = Some c" "wv_data c = WMap ks vs"
    and k: "deref h k = Some ck" "wv_data ck = WString al s"
  shows "webview_value_lookup_index h m (Some k)
           = Some (let i = length (takeWhile (\<lambda>x. string_of h x \<noteq> Some s) (pdata ks))
                   in if i < length (pdata ks) then Some i else None)"
proof -
  have "webview_value_equals h (Some x) (Some k) = Some (string_of h x = Some s)" if "x \<in> set (pdata ks)" for x
    using owned_child_live [OF own m(1), of x] that m k by (auto intro: equals_string)
  then have "webview_value_lookup_index h m (Some k)
      = Some (if \<exists>x\<in>set (pdata ks). string_of h x = Some s
              then Some (length (takeWhile (\<lambda>x. string_of h x \<noteq> Some s) (pdata ks))) else None)"
    using m by (simp add: webview_value_lookup_index_def index_of_Some [where P = "\<lambda>x. string_of h x = Some s"])
  moreover have "(\<exists>x\<in>set (pdata ks). string_of h x = Some s)
      \<longleftrightarrow> length (takeWhile (\<lambda>x. string_of h x \<noteq> Some s) (pdata ks)) < length (pdata ks)"
    by (rule takeWhile_first)
  ultimately show ?thesis by (simp add: Let_def)
qed

section \<open>Setting\<close>

lemma put_payload_comp: "put_payload (put_payload h a f) a g = put_payload h a (g \<circ> f)"
  by (cases "deref h a") (simp_all add: put_payload_def deref_lt)

lemma put_payload_const:
  assumes "deref h a = Some c"
  shows "put_payload h a f = put_payload h a (\<lambda>_. f (wv_data c))"
  using assms by (simp add: put_payload_def)

lemma put_payload_same_data:
  assumes "deref h a = Some c" and "wv_data c = d"
  shows "put_payload h a (\<lambda>_. d) = h"
  using assms
  by (cases h) (auto simp: put_payload_def put_cell_def deref_def split: if_splits
      intro: list_update_same_conv [THEN iffD2])

text \<open>
  The release of a reference to a value other than the map, run with the map's arrays as they are
  (\<open>old\<close>) or as they will be (\<open>new\<close>): the counts are right for the second.
\<close>

lemma unref_beside:
  assumes own: "owned (put_payload h m (\<lambda>_. new)) (holding e [x])" and m: "0 < e m"
    and c: "deref h m = Some c" "wv_data c = old"
  obtains g d where "webview_value_unref h (Some x) = Some (put_payload g m (\<lambda>_. old))" and "owned g e"
    and "deref g m = Some d" and "wv_data d = new"
    and "unref_tasks (put_payload h m (\<lambda>_. new)) [Unref (Some x)] = Some g"
proof -
  let ?h = "put_payload h m (\<lambda>_. new)"
  from own obtain g where u: "webview_value_unref ?h (Some x) = Some g" and g: "owned g e"
    by (rule owned_unref)
  from owned_held_live [OF g m] obtain d where d: "deref g m = Some d" by auto
  from u have t: "unref_tasks ?h [Unref (Some x)] = Some g" by (simp add: webview_value_unref_def)
  from unref_tasks_data [OF t d] c have "wv_data d = new" by auto
  moreover from unref_tasks_put_payload [OF t, of m "\<lambda>_. old"] d put_payload_same_data [OF c]
  have "webview_value_unref h (Some x) = Some (put_payload g m (\<lambda>_. old))"
    by (simp add: webview_value_unref_def put_payload_comp comp_def)
  ultimately show thesis using g d t by (intro that)
qed

lemma count_list_update:
  "i < length xs \<Longrightarrow> count_list (xs[i := y]) x + (if xs ! i = x then 1 else 0)
     = count_list xs x + (if y = x then 1 else 0)"
proof (induction xs arbitrary: i)
  case (Cons z zs)
  show ?case
  proof (cases i)
    case (Suc j)
    with Cons.prems Cons.IH [of j] show ?thesis by (auto split: if_splits)
  qed simp
qed simp

lemma owned_replace_entry:
  assumes own: "owned h (holding e [k, v])" and m: "0 < e m"
    and c: "deref h m = Some c" "wv_data c = WMap ks vs" and i: "i < length (pdata ks)"
  obtains h' d where "replace_entry h m ks vs i k v = Some h'" and "owned h' e"
    and "deref h' m = Some d"
    and "wv_data d = WMap (ks\<lparr>pdata := (pdata ks)[i := k]\<rparr>) (vs\<lparr>pdata := (pdata vs)[i := v]\<rparr>)"
    and "\<forall>a c'. deref h' a = Some c' \<longrightarrow> a \<noteq> m \<longrightarrow> (\<exists>c. deref h a = Some c \<and> wv_data c = wv_data c')"
    and "granted h' = granted h"
proof -
  let ?ks = "ks\<lparr>pdata := (pdata ks)[i := k]\<rparr>" and ?vs = "vs\<lparr>pdata := (pdata vs)[i := v]\<rparr>"
  let ?new = "WMap ?ks ?vs"
  from owned_live(4) [OF own c(1)] c i have i': "i < length (pdata vs)" by simp
  have "count_list (children ?new) x + holding e [pdata vs ! i, pdata ks ! i] x
      = count_list (children (wv_data c)) x + holding e [k, v] x" for x
    using count_list_update [OF i, of k x] count_list_update [OF i', of v x] c
    by (simp add: holding_def split: if_splits)
  then have "owned (put_payload h m (\<lambda>_. ?new)) (holding e [pdata vs ! i, pdata ks ! i])"
    using owned_live(4) [OF own c(1)] c by (intro owned_put_payload [OF own c(1)]) auto
  then have "owned (put_payload h m (\<lambda>_. ?new)) (holding (holding e [pdata vs ! i]) [pdata ks ! i])"
    by simp
  moreover from m have "0 < holding e [pdata vs ! i] m" by (simp add: holding_def)
  ultimately obtain g d where
      u1: "webview_value_unref h (Some (pdata ks ! i)) = Some (put_payload g m (\<lambda>_. WMap ks vs))"
      and g: "owned g (holding e [pdata vs ! i])" and d: "deref g m = Some d" "wv_data d = ?new"
      and t1: "unref_tasks (put_payload h m (\<lambda>_. ?new)) [Unref (Some (pdata ks ! i))] = Some g"
    using c by (rule unref_beside)
  let ?g = "put_payload g m (\<lambda>_. WMap ?ks vs)"
  have restored: "put_payload ?g m (\<lambda>_. ?new) = g"
    using put_payload_same_data [OF d] by (simp add: put_payload_comp comp_def)
  from d(1) have c2: "deref ?g m = Some (d\<lparr>wv_data := WMap ?ks vs\<rparr>)" by simp
  have "wv_data (d\<lparr>wv_data := WMap ?ks vs\<rparr>) = WMap ?ks vs" by simp
  from unref_beside [of ?g m ?new e "pdata vs ! i", OF _ m c2 this] restored g
  obtain g2 d2 where
      u2: "webview_value_unref ?g (Some (pdata vs ! i)) = Some (put_payload g2 m (\<lambda>_. WMap ?ks vs))"
      and g2: "owned g2 e" and d2: "deref g2 m = Some d2" "wv_data d2 = ?new"
      and t2: "unref_tasks g [Unref (Some (pdata vs ! i))] = Some g2"
    by auto
  have "put_payload (put_payload g m (\<lambda>_. WMap ks vs)) m (set_key i k) = ?g"
    by (simp add: put_payload_comp comp_def)
  moreover have "put_payload (put_payload g2 m (\<lambda>_. WMap ?ks vs)) m (set_value i v) = g2"
    using put_payload_same_data [OF d2] by (simp add: put_payload_comp comp_def)
  ultimately have "replace_entry h m ks vs i k v = Some g2"
    using u1 u2 i' d d2 by (simp add: replace_entry_def)
  moreover have "\<exists>c. deref h a = Some c \<and> wv_data c = wv_data c'" if "deref g2 a = Some c'" "a \<noteq> m" for a c'
    using unref_tasks_data [OF t2 that(1)] unref_tasks_data [OF t1] that(2) by fastforce
  moreover have "granted g2 = granted h"
    using unref_tasks_fields [OF t1] unref_tasks_fields [OF t2] by (simp add: granted_def)
  ultimately show thesis using g2 d2 by (intro that) blast+
qed

lemma owned_map_add:
  assumes own: "owned h (holding e [k, v])" and g: "granted h"
    and c: "deref h m = Some c" "wv_data c = WMap ks vs"
  obtains h' d ks' vs' where "map_add h m ks vs k v = h'" and "owned h' e"
    and "deref h' m = Some d" and "wv_data d = WMap ks' vs'"
    and "pdata ks' = pdata ks @ [k]" and "pdata vs' = pdata vs @ [v]"
    and "\<And>a. a \<noteq> m \<Longrightarrow> deref h' a = deref h a" and "granted h'"
proof -
  from g obtain ks1 h1 where k: "webview_ptr_array_add h ks k = (ks1, h1)" "pdata ks1 = pdata ks @ [k]"
      "wh_cells h1 = wh_cells h" "granted h1"
    by (rule ptr_array_add_granted)
  from k(4) obtain vs1 h2 where v: "webview_ptr_array_add h1 vs v = (vs1, h2)" "pdata vs1 = pdata vs @ [v]"
      "wh_cells h2 = wh_cells h1" "granted h2"
    by (rule ptr_array_add_granted)
  from k v have d: "deref h2 = deref h" by (intro deref_cells) simp
  from own k v have "owned h2 (holding e [k, v])" using owned_cells [of h2 h] by simp
  then have "owned (put_payload h2 m (\<lambda>_. WMap ks1 vs1)) e"
    by (rule owned_put_payload) (use owned_live(4) [OF own c(1)] c k v d in \<open>auto simp: holding_def\<close>)
  then show thesis using c k v d
    by (intro that [of "put_payload h2 m (\<lambda>_. WMap ks1 vs1)" _ ks1 vs1]) (auto simp: map_add_def)
qed

section \<open>A map of strings as an association\<close>

definition map_view :: "WHeap \<Rightarrow> addr \<Rightarrow> string \<Rightarrow> addr option" where
  "map_view h m =
     (case deref h m of
        None \<Rightarrow> Map.empty
      | Some c \<Rightarrow>
          (case wv_data c of
             WMap ks vs \<Rightarrow> (\<lambda>s. map_of (zip (map (string_of h) (pdata ks)) (pdata vs)) (Some s))
           | _ \<Rightarrow> Map.empty))"

lemma map_of_zip_index:
  "length ks = length vs \<Longrightarrow>
     map_of (zip ks vs) k
       = (let i = length (takeWhile (\<lambda>x. x \<noteq> k) ks) in if i < length ks then Some (vs ! i) else None)"
  by (induction ks vs rule: list_induct2) auto

lemma map_of_zip_replace:
  "length ks = length vs \<Longrightarrow> i = length (takeWhile (\<lambda>x. x \<noteq> k) ks) \<Longrightarrow> i < length ks \<Longrightarrow>
     map_of (zip (ks[i := k]) (vs[i := v])) = (map_of (zip ks vs))(k \<mapsto> v)"
  by (induction ks vs arbitrary: i rule: list_induct2) (auto split: if_splits)

lemma map_of_zip_append:
  "length ks = length vs \<Longrightarrow> length (takeWhile (\<lambda>x. x \<noteq> k) ks) = length ks \<Longrightarrow>
     map_of (zip (ks @ [k]) (vs @ [v])) = (map_of (zip ks vs))(k \<mapsto> v)"
  by (induction ks vs rule: list_induct2) (auto split: if_splits)

lemma takeWhile_map_Some:
  "length (takeWhile (\<lambda>x. x \<noteq> Some s) (map f xs)) = length (takeWhile (\<lambda>x. f x \<noteq> Some s) xs)"
  by (induction xs) auto

lemma string_of_kept:
  assumes kept: "\<forall>a c'. deref h' a = Some c' \<longrightarrow> a \<noteq> m \<longrightarrow> (\<exists>c. deref h a = Some c \<and> wv_data c = wv_data c')"
    and m: "deref h m = Some c" "wv_data c = WMap ks vs" "deref h' m = Some d" "wv_data d = WMap ks' vs'"
    and x: "deref h' x = Some cx"
  shows "string_of h' x = string_of h x"
  using m x spec [OF kept, of x] by (cases "x = m") (auto simp: string_of_def)

text \<open>Storing takes over the references to the key and the value, and updates the association.\<close>

lemma owned_set_take:
  assumes own: "owned h (holding e [k, v])" and m: "0 < e m" and g: "granted h"
    and c: "deref h m = Some c" "wv_data c = WMap ks vs"
    and k: "deref h k = Some ck" "flat (wv_data ck)"
  obtains h' where "webview_value_set_take h (Some m) (Some k) (Some v) = Some h'" and "owned h' e"
    and "granted h'"
proof -
  from lookup_index_defined [OF own c(1) k] obtain r
    where r: "webview_value_lookup_index h m (Some k) = Some r" by auto
  show thesis
  proof (cases r)
    case None
    from owned_map_add [OF own g c] obtain h' where "map_add h m ks vs k v = h'" "owned h' e" "granted h'"
      by metis
    with r None c show thesis by (intro that) (auto simp: webview_value_set_take_def)
  next
    case (Some i)
    with r c have "i < length (pdata ks)"
      by (auto simp: webview_value_lookup_index_def dest: index_of_bound)
    from owned_replace_entry [OF own m c this] g obtain h'
      where "replace_entry h m ks vs i k v = Some h'" "owned h' e" "granted h'"
      by metis
    with r Some c show thesis by (intro that) (auto simp: webview_value_set_take_def)
  qed
qed

lemma set_take_view:
  assumes own: "owned h (holding e [k, v])" and m: "0 < e m" and g: "granted h"
    and c: "deref h m = Some c" "wv_data c = WMap ks vs"
    and k: "deref h k = Some ck" "wv_data ck = WString al s"
    and set: "webview_value_set_take h (Some m) (Some k) (Some v) = Some h'"
  shows "map_view h' m = (map_view h m)(s \<mapsto> v)"
proof -
  let ?keys = "map (string_of h) (pdata ks)"
  let ?i = "length (takeWhile (\<lambda>x. x \<noteq> Some s) ?keys)"
  from k have sk: "string_of h k = Some s" by (simp add: string_of_def)
  from owned_live(4) [OF own c(1)] c have len: "length ?keys = length (pdata vs)" by simp
  have view: "map_view h m = (\<lambda>t. map_of (zip ?keys (pdata vs)) (Some t))"
    using c by (simp add: map_view_def)
  have look: "webview_value_lookup_index h m (Some k) = Some (if ?i < length ?keys then Some ?i else None)"
    using lookup_index_string [OF own c k] by (simp add: Let_def takeWhile_map_Some)
  have step: "map_view h' m = (\<lambda>t. map_of (zip (map (string_of h) (pdata ks')) (pdata vs')) (Some t))"
    if "owned h' e" and d: "deref h' m = Some d" "wv_data d = WMap ks' vs'"
      and kept: "\<forall>a c'. deref h' a = Some c' \<longrightarrow> a \<noteq> m \<longrightarrow> (\<exists>c. deref h a = Some c \<and> wv_data c = wv_data c')"
    for d ks' vs'
  proof -
    have "string_of h' x = string_of h x" if "x \<in> set (pdata ks')" for x
    proof -
      from that d obtain cx where "deref h' x = Some cx"
        using owned_child_live [OF \<open>owned h' e\<close> d(1), of x] by auto
      with string_of_kept [OF kept c d] show ?thesis by blast
    qed
    then show ?thesis using d by (simp add: map_view_def cong: map_cong)
  qed
  show ?thesis
  proof (cases "?i < length ?keys")
    case True
    with look set c have r: "replace_entry h m ks vs ?i k v = Some h'"
      by (simp add: webview_value_set_take_def)
    from True have i: "?i < length (pdata ks)" by simp
    obtain h1 d where
        r1: "replace_entry h m ks vs ?i k v = Some h1" and o1: "owned h1 e" and d: "deref h1 m = Some d"
        and dd: "wv_data d = WMap (ks\<lparr>pdata := (pdata ks)[?i := k]\<rparr>) (vs\<lparr>pdata := (pdata vs)[?i := v]\<rparr>)"
        and kept: "\<forall>a c'. deref h1 a = Some c' \<longrightarrow> a \<noteq> m \<longrightarrow> (\<exists>c. deref h a = Some c \<and> wv_data c = wv_data c')"
        and "granted h1 = granted h"
      by (rule owned_replace_entry [OF own m c i])
    with r r1 have eq: "h1 = h'" by simp
    from step [OF o1 [unfolded eq] d [unfolded eq] dd kept [unfolded eq]] have "map_view h' m
        = (\<lambda>t. map_of (zip (map (string_of h) ((pdata ks)[?i := k])) ((pdata vs)[?i := v])) (Some t))"
      by simp
    with map_of_zip_replace [OF len refl True, of v] sk show ?thesis
      by (auto simp: view map_update fun_eq_iff)
  next
    case False
    with look set c have "map_add h m ks vs k v = h'"
      by (simp add: webview_value_set_take_def)
    with owned_map_add [OF own g c] obtain d ks' vs' where "owned h' e" and "deref h' m = Some d"
        and "wv_data d = WMap ks' vs'" and "pdata ks' = pdata ks @ [k]" and "pdata vs' = pdata vs @ [v]"
        and "\<And>a. a \<noteq> m \<Longrightarrow> deref h' a = deref h a"
      by metis
    moreover from this have "\<forall>a c'. deref h' a = Some c' \<longrightarrow> a \<noteq> m \<longrightarrow> (\<exists>c. deref h a = Some c \<and> wv_data c = wv_data c')"
      by auto
    ultimately have "map_view h' m
        = (\<lambda>t. map_of (zip (map (string_of h) (pdata ks @ [k])) (pdata vs @ [v])) (Some t))"
      using step [of d ks' vs'] by simp
    moreover from False have "?i = length ?keys"
      by (metis length_takeWhile_le le_neq_implies_less)
    ultimately show ?thesis using map_of_zip_append [OF len, of "Some s" v] sk
      by (auto simp: view fun_eq_iff)
  qed
qed

lemma string_of_deref: "map_option wv_data (deref g a) = map_option wv_data (deref h a) \<Longrightarrow> string_of g a = string_of h a"
  by (cases "deref g a"; cases "deref h a") (simp_all add: string_of_def)

lemma map_view_kept:
  assumes own: "owned h e" and m: "deref h m = Some c"
    and kept: "\<And>a c. deref h a = Some c \<Longrightarrow> map_option wv_data (deref g a) = Some (wv_data c)"
  shows "map_view g m = map_view h m"
proof (cases "wv_data c")
  case (WMap ks vs)
  have "string_of g x = string_of h x" if "x \<in> set (pdata ks)" for x
    using owned_child_live [OF own m, of x] that WMap kept by (fastforce intro: string_of_deref)
  moreover from kept [OF m] obtain d where "deref g m = Some d" "wv_data d = wv_data c" by auto
  ultimately show ?thesis using WMap m by (simp add: map_view_def cong: map_cong)
qed (use kept [OF m] m in \<open>auto simp: map_view_def\<close>)

lemma owned_set_string:
  assumes own: "owned h e" and m: "0 < e m" and g: "granted h"
    and c: "deref h m = Some c" "wv_data c = WMap ks vs"
    and v: "deref h v = Some cv" "wv_refs cv < int32_max"
  obtains h' where "webview_value_set_string h (Some m) s (Some v) = Some h'" and "owned h' e"
    and "granted h'" and "map_view h' m = (map_view h m)(c_str s \<mapsto> v)"
proof -
  obtain k h1 where new: "webview_value_new h (WString by_malloc (c_str s)) = (k, h1)" by fastforce
  from owned_new [OF own _ _ _ new] have o1: "owned h1 (holding e [k])" by simp
  from new have h1: "h1 = snd (webview_value_new h (WString by_malloc (c_str s)))"
      and k: "k = length (wh_cells h)"
    by (simp_all add: webview_value_new_def)
  from g have g1: "granted h1" by (simp add: h1 granted_def webview_value_new_def)
  from deref_lt [OF v(1)] deref_lt [OF c(1)] k have "v \<noteq> k" "m \<noteq> k" by auto
  with v h1 k have v1: "deref h1 v = Some cv" by simp
  obtain h2 where ref: "webview_value_ref h1 (Some v) = Some (Some v, h2)"
      and o2: "owned h2 (holding (holding e [k]) [v])"
      and h2: "h2 = put_cell h1 v (Some (cv\<lparr>wv_refs := wv_refs cv + 1\<rparr>))"
    by (rule owned_ref [OF o1 v1 v(2)])
  from o2 have o2: "owned h2 (holding e [k, v])" by simp
  from g1 h2 have g2: "granted h2" by simp
  have kept: "map_option wv_data (deref h2 a) = Some (wv_data d)" if "deref h a = Some d" for a d
    using that v1 deref_lt [OF that] by (auto simp: h2 h1)
  from kept [OF c(1)] c obtain c2 where c2: "deref h2 m = Some c2" "wv_data c2 = WMap ks vs" by auto
  from v1 \<open>v \<noteq> k\<close> k have k2: "deref h2 k = Some \<lparr>wv_refs = 1, wv_data = WString by_malloc (c_str s)\<rparr>"
    by (simp add: h2 h1)
  obtain h' where set: "webview_value_set_take h2 (Some m) (Some k) (Some v) = Some h'"
      and h': "owned h' e" "granted h'"
    by (rule owned_set_take [OF o2 m g2 c2 k2]) simp
  from set_take_view [OF o2 m g2 c2 k2 _ set] map_view_kept [OF own c(1) kept]
  have "map_view h' m = (map_view h m)(c_str s \<mapsto> v)" by simp
  moreover from set new ref c have "webview_value_set_string h (Some m) s (Some v) = Some h'"
    by (simp add: webview_value_set_string_def settable_def webview_value_new_string_def)
  ultimately show thesis using h' by (intro that)
qed

lemma get_by_string_view:
  assumes own: "owned h e" and c: "deref h m = Some c" "wv_data c = WMap ks vs"
  shows "webview_value_get_by_string h (Some m) s
           = Some (map_view h m (c_str s), h\<lparr>wh_cells := wh_cells h @ [None]\<rparr>)"
proof -
  let ?p = "WString by_malloc (c_str s)" and ?k = "length (wh_cells h)"
  obtain h1 where new: "webview_value_new h ?p = (?k, h1)" by (simp add: webview_value_new_def)
  from owned_new [OF own _ _ _ new] have o1: "owned h1 (holding e [?k])" by simp
  from new have h1: "h1 = snd (webview_value_new h ?p)" by simp
  have kept: "deref h1 a = Some d" if "deref h a = Some d" for a d
    using that deref_lt [OF that] by (simp add: h1)
  have k1: "deref h1 ?k = Some \<lparr>wv_refs = 1, wv_data = ?p\<rparr>" by (simp add: h1)
  note c1 = kept [OF c(1)]
  from map_view_kept [OF own c(1), of h1] kept have view: "map_view h1 m = map_view h m" by simp
  let ?keys = "map (string_of h1) (pdata ks)"
  let ?i = "length (takeWhile (\<lambda>x. x \<noteq> Some (c_str s)) ?keys)"
  from owned_live(4) [OF own c(1)] c have len: "length ?keys = length (pdata vs)" by simp
  have "webview_value_get_by_key h1 (Some m) (Some ?k)
      = Some (map_of (zip ?keys (pdata vs)) (Some (c_str s)))"
    using lookup_index_string [OF o1 c1 c(2) k1] c1 c(2) len
    by (auto simp: webview_value_get_by_key_def map_of_zip_index Let_def takeWhile_map_Some
        webview_value_get_map_value_def getter_def webview_ptr_array_index_def)
  also have "map_of (zip ?keys (pdata vs)) (Some (c_str s)) = map_view h m (c_str s)"
    unfolding view [symmetric] using c1 c(2) by (simp add: map_view_def)
  finally have "webview_value_get_by_key h1 (Some m) (Some ?k) = Some (map_view h m (c_str s))" .
  moreover have "webview_value_unref h1 (Some ?k) = Some (h\<lparr>wh_cells := wh_cells h @ [None]\<rparr>)"
    using k1 by (simp add: webview_value_unref_def h1 put_cell_def webview_value_new_def deref_def Let_def)
  ultimately show ?thesis
    using new by (simp add: webview_value_get_by_string_def webview_value_new_string_def)
qed

section \<open>Acyclic heaps\<close>

definition ranked :: "WHeap \<Rightarrow> (addr \<Rightarrow> nat) \<Rightarrow> bool" where
  "ranked h r \<longleftrightarrow> (\<forall>a c. deref h a = Some c \<longrightarrow> (\<forall>k \<in> set (children (wv_data c)). r k < r a))"

definition acyclic_heap :: "WHeap \<Rightarrow> bool" where
  "acyclic_heap h \<longleftrightarrow> (\<exists>r. ranked h r)"

lemma acyclic_unref:
  assumes "unref_tasks h ts = Some h'" and "acyclic_heap h"
  shows "acyclic_heap h'"
  using unref_tasks_data [OF assms(1)] assms(2) unfolding acyclic_heap_def ranked_def by metis

lemma unowned_acyclic_empty:
  assumes own: "owned h (\<lambda>_. 0)" and acyc: "acyclic_heap h"
  shows "deref h a = None"
proof (rule ccontr)
  from acyc obtain r where r: "ranked h r" by (auto simp: acyclic_heap_def)
  let ?L = "{b. deref h b \<noteq> None}"
  have fin: "finite ?L" by (rule finite_subset [of _ "{..<length (wh_cells h)}"]) (auto simp: deref_lt)
  assume "deref h a \<noteq> None"
  then have "?L \<noteq> {}" by auto
  with fin have "Max (r ` ?L) \<in> r ` ?L" by (intro Max_in) auto
  then obtain b where b: "b \<in> ?L" "r b = Max (r ` ?L)" by (metis (lifting) imageE)
  then obtain c where c: "deref h b = Some c" by auto
  from owned_live(1,2) [OF own c] have "refs_in h b > 0" by simp
  then obtain x where x: "x \<in> set (wh_cells h)" "cell_refs x b \<noteq> 0"
    by (metis (no_types, lifting) elem_le_sum_list less_irrefl map_eq_conv refs_in_def sum_list_0)
  then obtain d where d: "x = Some d" by (metis cell_refs_simps(1) not_None_eq)
  with x obtain p where "p < length (wh_cells h)" "wh_cells h ! p = Some d" by (metis in_set_conv_nth)
  then have "deref h p = Some d" by (simp add: deref_def)
  moreover from x d have "count_list (children (wv_data d)) b \<noteq> 0"
    by (auto simp: cell_refs_def split: if_splits)
  then have "b \<in> set (children (wv_data d))" by (metis count_notin)
  ultimately have p: "deref h p = Some d" and "b \<in> set (children (wv_data d))" by auto
  with r have "r b < r p" by (auto simp: ranked_def)
  moreover from fin p have "r p \<le> Max (r ` ?L)" by (intro Max_ge) auto
  ultimately show False using b by simp
qed


text \<open>The recursion of the equality ends on an acyclic heap, within the depth it is given.\<close>

lemma ranked_bounded:
  assumes own: "owned h e" and r: "ranked h r"
  obtains r' where "ranked h r'" and "\<forall>a. deref h a \<noteq> None \<longrightarrow> r' a < length (wh_cells h)"
proof
  let ?L = "{..<length (wh_cells h)}"
  let ?r = "\<lambda>a. card {b \<in> ?L. r b < r a}"
  show "ranked h ?r"
    unfolding ranked_def
  proof (intro allI impI ballI)
    fix a c k assume a: "deref h a = Some c" and k: "k \<in> set (children (wv_data c))"
    from r a k have "r k < r a" by (auto simp: ranked_def)
    moreover from owned_child_live [OF own a k] have "k \<in> ?L" by (auto dest: deref_lt)
    ultimately have "{b \<in> ?L. r b < r k} \<subset> {b \<in> ?L. r b < r a}" by auto
    then show "?r k < ?r a" by (intro psubset_card_mono) auto
  qed
  show "\<forall>a. deref h a \<noteq> None \<longrightarrow> ?r a < length (wh_cells h)"
  proof (intro allI impI)
    fix a assume "deref h a \<noteq> None"
    then have "a \<in> ?L" by (auto dest: deref_lt)
    then have "{b \<in> ?L. r b < r a} \<subset> ?L" by auto
    then have "?r a < card ?L" by (intro psubset_card_mono) auto
    then show "?r a < length (wh_cells h)" by simp
  qed
qed

lemma all_of_defined: "(\<And>x. x \<in> set xs \<Longrightarrow> f x \<noteq> None) \<Longrightarrow> all_of f xs \<noteq> None"
  by (induction xs) (auto split: option.splits bool.splits)

lemma equals_depth_defined:
  assumes own: "owned h e" and r: "ranked h r"
  shows "deref h a = Some ca \<Longrightarrow> deref h b = Some cb \<Longrightarrow> r a + r b < n \<Longrightarrow>
           equals_depth n h (Some a) (Some b) \<noteq> None"
proof (induction n arbitrary: a b ca cb)
  case 0
  then show ?case by simp
next
  case (Suc n)
  have child: "equals_depth n h (Some x) (Some y) \<noteq> None"
    if "x \<in> set (children (wv_data ca))" and "y \<in> set (children (wv_data cb))" for x y
  proof -
    from that r Suc.prems(1,2) have "r x < r a" "r y < r b" by (auto simp: ranked_def)
    with Suc.prems(3) have "r x + r y < n" by simp
    with that Suc show ?thesis by (metis own owned_child_live)
  qed
  have child': "equals_depth n h (Some y) (Some x) \<noteq> None"
    if "x \<in> set (children (wv_data ca))" and "y \<in> set (children (wv_data cb))" for x y
  proof -
    from that r Suc.prems(1,2) have "r x < r a" "r y < r b" by (auto simp: ranked_def)
    with Suc.prems(3) have "r y + r x < n" by simp
    with that Suc show ?thesis by (metis own owned_child_live)
  qed
  show ?case
  proof (cases "\<exists>xs ys. wv_data ca = WList xs \<and> wv_data cb = WList ys")
    case True
    then obtain xs ys where "wv_data ca = WList xs" "wv_data cb = WList ys" by auto
    moreover from this child
    have "all_of (\<lambda>(x, y). equals_depth n h (Some x) (Some y)) (zip (pdata xs) (pdata ys)) \<noteq> None"
      by (intro all_of_defined) (auto dest: set_zip_leftD set_zip_rightD)
    ultimately show ?thesis using Suc.prems by auto
  next
    case nolist: False
    show ?thesis
    proof (cases "\<exists>ks vs ks' vs'. wv_data ca = WMap ks vs \<and> wv_data cb = WMap ks' vs'")
      case True
      then obtain ks vs ks' vs' where d: "wv_data ca = WMap ks vs" "wv_data cb = WMap ks' vs'" by auto
      have idx: "index_of (\<lambda>k'. equals_depth n h (Some k') (Some k)) 0 (pdata ks') \<noteq> None"
        if "k \<in> set (pdata ks)" for k
        using child' d that by (intro index_of_defined) auto
      have val: "equals_depth n h (Some k) (Some v) \<noteq> None"
        if "k \<in> set (pdata ks)" and "webview_ptr_array_index vs' i = Some v" for k i v
        using child d that by (auto simp: webview_ptr_array_index_def split: if_splits)
      have "all_of (\<lambda>k. case index_of (\<lambda>k'. equals_depth n h (Some k') (Some k)) 0 (pdata ks') of
                          None \<Rightarrow> None
                        | Some None \<Rightarrow> Some False
                        | Some (Some i) \<Rightarrow>
                            (case webview_ptr_array_index vs' i of
                               None \<Rightarrow> Some False
                             | Some v \<Rightarrow> equals_depth n h (Some k) (Some v))) (pdata ks) \<noteq> None"
        by (intro all_of_defined) (use idx val in \<open>auto split: option.splits\<close>)
      then show ?thesis using Suc.prems d by auto
    next
      case False
      with nolist Suc.prems show ?thesis
        by (cases "wv_data ca"; cases "wv_data cb") auto
    qed
  qed
qed

end
