(* ===== verification/Webview_Client.thy ===== *)
theory Webview_Client
  imports Webview_Ownership
begin

text \<open>
  A client of the webview values: any sequence of calls of the interface of \<open>webview_value.h\<close> that
  create, share, release and combine values, with the references the client holds as ghost state.
\<close>

section \<open>Calls\<close>

datatype ClientOp =
    OpNull
  | OpBool bool
  | OpInt u64
  | OpFloat u32
  | OpDouble u64
  | OpString string
  | OpUint8s "8 word list" nat
  | OpInt32s "u32 list" nat
  | OpInt64s "u64 list" nat
  | OpFloats "u32 list" nat
  | OpDoubles "u64 list" nat
  | OpList
  | OpMap
  | OpRef addr
  | OpUnref addr
  | OpAppend addr addr
  | OpSet addr addr addr
  | OpSetString addr string addr
  | OpGetByString addr string

type_synonym Client = "WHeap \<times> (addr \<Rightarrow> nat)"

definition gain :: "(addr \<Rightarrow> nat) \<Rightarrow> addr \<times> WHeap \<Rightarrow> Client" where
  "gain e = (\<lambda>(a, h). (h, holding e [a]))"

fun client_step :: "Client \<Rightarrow> ClientOp \<Rightarrow> Client option" where
  "client_step (h, e) OpNull = Some (gain e (webview_value_new_null h))"
| "client_step (h, e) (OpBool b) = Some (gain e (webview_value_new_bool h b))"
| "client_step (h, e) (OpInt i) = Some (gain e (webview_value_new_int h i))"
| "client_step (h, e) (OpFloat f) = Some (gain e (webview_value_new_float h f))"
| "client_step (h, e) (OpDouble d) = Some (gain e (webview_value_new_double h d))"
| "client_step (h, e) (OpString s) = Some (gain e (webview_value_new_string h s))"
| "client_step (h, e) (OpUint8s xs n) = map_option (gain e) (webview_value_new_uint8_list h xs n)"
| "client_step (h, e) (OpInt32s ys n) = map_option (gain e) (webview_value_new_int32_list h ys n)"
| "client_step (h, e) (OpInt64s zs n) = map_option (gain e) (webview_value_new_int64_list h zs n)"
| "client_step (h, e) (OpFloats ys n) = map_option (gain e) (webview_value_new_float_list h ys n)"
| "client_step (h, e) (OpDoubles zs n) = map_option (gain e) (webview_value_new_double_list h zs n)"
| "client_step (h, e) OpList = Some (gain e (webview_value_new_list h))"
| "client_step (h, e) OpMap = Some (gain e (webview_value_new_map h))"
| "client_step (h, e) (OpRef a) =
     map_option (\<lambda>(_, h). (h, holding e [a])) (webview_value_ref h (Some a))"
| "client_step (h, e) (OpUnref a) =
     map_option (\<lambda>h. (h, e(a := e a - 1))) (webview_value_unref h (Some a))"
| "client_step (h, e) (OpAppend l x) =
     map_option (\<lambda>h. (h, e)) (webview_value_append h (Some l) (Some x))"
| "client_step (h, e) (OpSet m k v) =
     map_option (\<lambda>h. (h, e)) (webview_value_set h (Some m) (Some k) (Some v))"
| "client_step (h, e) (OpSetString m s v) =
     map_option (\<lambda>h. (h, e)) (webview_value_set_string h (Some m) s (Some v))"
| "client_step (h, e) (OpGetByString m s) =
     map_option (\<lambda>(_, h). (h, e)) (webview_value_get_by_string h (Some m) s)"

text \<open>
  The discipline: a client passes values that are alive, releases only what it holds, changes only a
  map it holds, uses no list or map as a key, reads no more elements than the source of a typed list
  has, and keeps the counts within an \<open>int\<close>.
\<close>

definition alive :: "WHeap \<Rightarrow> addr \<Rightarrow> int \<Rightarrow> (WPayload \<Rightarrow> bool) \<Rightarrow> bool" where
  "alive h a extra p =
     (case deref h a of None \<Rightarrow> False | Some c \<Rightarrow> wv_refs c + extra \<le> int32_max \<and> p (wv_data c))"

fun allowed_op :: "Client \<Rightarrow> ClientOp \<Rightarrow> bool" where
  "allowed_op (h, e) (OpUint8s xs n) \<longleftrightarrow> n \<le> length xs"
| "allowed_op (h, e) (OpInt32s ys n) \<longleftrightarrow> n \<le> length ys"
| "allowed_op (h, e) (OpInt64s zs n) \<longleftrightarrow> n \<le> length zs"
| "allowed_op (h, e) (OpFloats ys n) \<longleftrightarrow> n \<le> length ys"
| "allowed_op (h, e) (OpDoubles zs n) \<longleftrightarrow> n \<le> length zs"
| "allowed_op (h, e) (OpRef a) \<longleftrightarrow> alive h a 1 (\<lambda>_. True)"
| "allowed_op (h, e) (OpUnref a) \<longleftrightarrow> 0 < e a"
| "allowed_op (h, e) (OpAppend l x) \<longleftrightarrow> alive h l 0 (\<lambda>_. True) \<and> alive h x 1 (\<lambda>_. True)"
| "allowed_op (h, e) (OpSet m k v) \<longleftrightarrow> 0 < e m \<and> alive h k 2 flat \<and> alive h v 2 (\<lambda>_. True)"
| "allowed_op (h, e) (OpSetString m s v) \<longleftrightarrow> 0 < e m \<and> alive h v 1 (\<lambda>_. True)"
| "allowed_op (h, e) (OpGetByString m s) \<longleftrightarrow> alive h m 0 (\<lambda>_. True)"
| "allowed_op (h, e) _ \<longleftrightarrow> True"

definition client_ok :: "Client \<Rightarrow> bool" where
  "client_ok s \<longleftrightarrow> owned (fst s) (snd s) \<and> granted (fst s)"

lemma client_new:
  assumes ok: "client_ok (h, e)" and p: "children p = []" "\<not> frees_new p" "aligned p"
  shows "client_ok (gain e (webview_value_new h p))"
proof -
  obtain a h' where n: "webview_value_new h p = (a, h')" by fastforce
  with ok owned_new [OF _ p n, of e] show ?thesis
    by (auto simp: client_ok_def gain_def granted_def webview_value_new_def)
qed

lemma holding_drop: "0 < e a \<Longrightarrow> holding (e(a := e a - 1)) [a] = e"
  by (rule ext) (auto simp: holding_def)

lemma unref_granted: "webview_value_unref h a = Some h' \<Longrightarrow> granted h' = granted h"
  unfolding webview_value_unref_def by (drule unref_tasks_fields) (simp add: granted_def)

lemma client_append:
  assumes ok: "client_ok (h, e)" and l: "deref h l = Some cl" and x: "deref h x = Some cx" "wv_refs cx < int32_max"
  shows "\<exists>h'. webview_value_append h (Some l) (Some x) = Some h' \<and> client_ok (h', e)"
proof (cases "\<exists>vs. wv_data cl = WList vs")
  case False
  then have "type_of_payload (wv_data cl) \<noteq> Webview_Value_Type_List" by (cases "wv_data cl") auto
  with ok l show ?thesis by (simp add: webview_value_append_def)
next
  case True
  then obtain vs where vs: "wv_data cl = WList vs" by auto
  from ok have own: "owned h e" and g: "granted h" by (simp_all add: client_ok_def)
  obtain h1 where r: "webview_value_ref h (Some x) = Some (Some x, h1)" "owned h1 (holding e [x])"
      and h1: "h1 = put_cell h x (Some (cx\<lparr>wv_refs := wv_refs cx + 1\<rparr>))"
    by (rule owned_ref [OF own x])
  from l x h1 obtain cl1 where l1: "deref h1 l = Some cl1" "wv_data cl1 = WList vs"
    using vs by (cases "x = l") (auto simp: deref_lt)
  from g h1 have "granted h1" by simp
  from owned_append_take [OF r(2) this l1] r l vs show ?thesis
    by (auto simp: webview_value_append_def client_ok_def)
qed

lemma client_set:
  assumes ok: "client_ok (h, e)" and m: "0 < e m"
    and k: "deref h k = Some ck" "wv_refs ck + 2 \<le> int32_max" "flat (wv_data ck)"
    and v: "deref h v = Some cv" "wv_refs cv + 2 \<le> int32_max"
  shows "\<exists>h'. webview_value_set h (Some m) (Some k) (Some v) = Some h' \<and> client_ok (h', e)"
proof -
  from ok have own: "owned h e" and g: "granted h" by (simp_all add: client_ok_def)
  from owned_held_live [OF own m] obtain c where c: "deref h m = Some c" by auto
  show ?thesis
  proof (cases "\<exists>ks vs. wv_data c = WMap ks vs")
    case False
    then have "type_of_payload (wv_data c) \<noteq> Webview_Value_Type_Map" by (cases "wv_data c") auto
    with ok c show ?thesis by (simp add: webview_value_set_def settable_def)
  next
    case True
    then obtain ks vs where d: "wv_data c = WMap ks vs" by auto
    from k(2) have "wv_refs ck < int32_max" by simp
    obtain h1 where r1: "webview_value_ref h (Some k) = Some (Some k, h1)" "owned h1 (holding e [k])"
        and h1: "h1 = put_cell h k (Some (ck\<lparr>wv_refs := wv_refs ck + 1\<rparr>))"
      by (rule owned_ref [OF own k(1) \<open>wv_refs ck < int32_max\<close>])
    from v k h1 obtain cv1 where v1: "deref h1 v = Some cv1" "wv_refs cv1 < int32_max"
        and "wv_data cv1 = wv_data cv"
      by (cases "v = k") (auto simp: deref_lt)
    obtain h2 where r2: "webview_value_ref h1 (Some v) = Some (Some v, h2)"
        and o2: "owned h2 (holding (holding e [k]) [v])"
        and h2: "h2 = put_cell h1 v (Some (cv1\<lparr>wv_refs := wv_refs cv1 + 1\<rparr>))"
      by (rule owned_ref [OF r1(2) v1])
    from o2 have o2: "owned h2 (holding e [k, v])" by simp
    from g h1 h2 have g2: "granted h2" by simp
    have data: "\<exists>d. deref h2 a = Some d \<and> wv_data d = wv_data c" if "deref h a = Some c" for a c
      using that k v v1 h1 h2 by (cases "a = v"; cases "a = k"; cases "v = k") auto
    from data [OF c] d obtain c2 where c2: "deref h2 m = Some c2" "wv_data c2 = WMap ks vs" by auto
    from data [OF k(1)] k(3) obtain k2 where k2: "deref h2 k = Some k2" "flat (wv_data k2)" by auto
    obtain h' where "webview_value_set_take h2 (Some m) (Some k) (Some v) = Some h'"
        and "owned h' e" and "granted h'"
      by (rule owned_set_take [OF o2 m g2 c2 k2])
    with r1 r2 c d show ?thesis
      by (auto simp: webview_value_set_def settable_def client_ok_def)
  qed
qed

lemma client_set_string:
  assumes ok: "client_ok (h, e)" and m: "0 < e m" and v: "deref h v = Some cv" "wv_refs cv < int32_max"
  shows "\<exists>h'. webview_value_set_string h (Some m) s (Some v) = Some h' \<and> client_ok (h', e)"
proof -
  from ok have own: "owned h e" and g: "granted h" by (simp_all add: client_ok_def)
  from owned_held_live [OF own m] obtain c where c: "deref h m = Some c" by auto
  show ?thesis
  proof (cases "\<exists>ks vs. wv_data c = WMap ks vs")
    case False
    then have "type_of_payload (wv_data c) \<noteq> Webview_Value_Type_Map" by (cases "wv_data c") auto
    with ok c show ?thesis by (simp add: webview_value_set_string_def settable_def)
  next
    case True
    then obtain ks vs where "wv_data c = WMap ks vs" by auto
    from owned_set_string [OF own m g c this v] show ?thesis by (metis client_ok_def fst_conv snd_conv)
  qed
qed

lemma client_get_by_string:
  assumes ok: "client_ok (h, e)" and m: "deref h m = Some c"
  shows "\<exists>v h'. webview_value_get_by_string h (Some m) s = Some (v, h') \<and> client_ok (h', e)"
proof -
  from ok have own: "owned h e" and g: "granted h" by (simp_all add: client_ok_def)
  obtain k h1 where new: "webview_value_new h (WString by_malloc (c_str s)) = (k, h1)" by fastforce
  from owned_new [OF own _ _ _ new] have o1: "owned h1 (holding e [k])" by simp
  from new have h1: "h1 = snd (webview_value_new h (WString by_malloc (c_str s)))"
      and k: "k = length (wh_cells h)"
    by (simp_all add: webview_value_new_def)
  from m deref_lt [OF m] h1 have m1: "deref h1 m = Some c" by simp
  have k1: "deref h1 k = Some \<lparr>wv_refs = 1, wv_data = WString by_malloc (c_str s)\<rparr>" by (simp add: h1 k)
  from lookup_index_defined [OF o1 m1 k1] obtain r
    where "webview_value_lookup_index h1 m (Some k) = Some r" by auto
  with m1 have "webview_value_get_by_key h1 (Some m) (Some k) \<noteq> None"
    by (cases r) (auto simp: webview_value_get_by_key_def webview_value_get_map_value_def getter_def)
  then obtain v where "webview_value_get_by_key h1 (Some m) (Some k) = Some v" by auto
  moreover from o1 obtain h2 where "webview_value_unref h1 (Some k) = Some h2" "owned h2 e"
    by (rule owned_unref)
  moreover from g have "granted h1" by (simp add: h1 granted_def webview_value_new_def)
  ultimately show ?thesis using new
    by (auto simp: webview_value_get_by_string_def webview_value_new_string_def client_ok_def dest: unref_granted)
qed

interpretation client: guarded_machine client_step allowed_op client_ok
proof
  fix s req
  assume ok: "client_ok s" and al: "allowed_op s req"
  obtain h e where s: "s = (h, e)" by fastforce
  note ok = ok [unfolded s] and al = al [unfolded s]
  note new = client_new [OF ok]
  show "\<exists>t. client_step s req = Some t \<and> client_ok t"
  proof (cases req)
    case (OpUnref a)
    from ok al OpUnref have "owned h (holding (e(a := e a - 1)) [a])"
      by (simp add: client_ok_def holding_drop del: One_nat_def)
    then obtain h' where "webview_value_unref h (Some a) = Some h'" "owned h' (e(a := e a - 1))"
      by (rule owned_unref)
    with ok OpUnref s show ?thesis by (auto simp: client_ok_def dest: unref_granted)
  next
    case (OpRef a)
    with al ok obtain c where c: "deref h a = Some c" "wv_refs c < int32_max" and own: "owned h e"
      by (auto simp: alive_def client_ok_def split: option.splits)
    from owned_ref [OF own c] obtain h' where "webview_value_ref h (Some a) = Some (Some a, h')"
        "owned h' (holding e [a])" "h' = put_cell h a (Some (c\<lparr>wv_refs := wv_refs c + 1\<rparr>))" by metis
    with ok OpRef s show ?thesis by (auto simp: client_ok_def)
  next
    case (OpAppend l x)
    with al client_append [OF ok] s show ?thesis
      by (fastforce simp: alive_def split: option.splits)
  next
    case (OpSet m k v)
    with al client_set [OF ok] s show ?thesis
      by (fastforce simp: alive_def split: option.splits)
  next
    case (OpSetString m t v)
    with al client_set_string [OF ok] s show ?thesis
      by (fastforce simp: alive_def split: option.splits)
  next
    case (OpGetByString m t)
    with al client_get_by_string [OF ok] s show ?thesis
      by (fastforce simp: alive_def split: option.splits)
  qed (use al new s in \<open>auto simp: webview_value_new_null_def webview_value_new_bool_def
        webview_value_new_int_def webview_value_new_float_def webview_value_new_double_def
        webview_value_new_string_def webview_value_new_list_def webview_value_new_map_def
        webview_ptr_array_new_with_free_func_def webview_value_new_uint8_list_def webview_value_new_int32_list_def
        webview_value_new_int64_list_def webview_value_new_float_list_def webview_value_new_double_list_def
        copy_list_def\<close>)
qed

section \<open>Types of the live values\<close>

definition types_kept :: "WHeap \<Rightarrow> WHeap \<Rightarrow> bool" where
  "types_kept h h' \<longleftrightarrow> length (wh_cells h) \<le> length (wh_cells h')
     \<and> (\<forall>a c'. a < length (wh_cells h) \<longrightarrow> deref h' a = Some c' \<longrightarrow>
          (\<exists>c. deref h a = Some c \<and> type_of_payload (wv_data c) = type_of_payload (wv_data c')))"

lemma types_kept_refl [simp]: "types_kept h h"
  by (simp add: types_kept_def)

lemma types_kept_trans [trans]: "types_kept h g \<Longrightarrow> types_kept g f \<Longrightarrow> types_kept h f"
  unfolding types_kept_def by (metis order_less_le_trans order_trans)

lemma types_kept_cells: "wh_cells g = wh_cells f \<Longrightarrow> types_kept h g = types_kept h f"
  by (simp add: types_kept_def deref_cells [of g f])

lemma types_kept_new: "types_kept h (snd (webview_value_new h p))"
  by (auto simp: types_kept_def webview_value_new_def deref_def nth_append split: if_splits)

lemma types_kept_put:
  "deref h a = Some c \<Longrightarrow> type_of_payload (wv_data d) = type_of_payload (wv_data c) \<Longrightarrow>
     types_kept h (put_cell h a (Some d))"
  by (auto simp: types_kept_def split: if_splits)

lemma types_kept_payload:
  "(\<And>c. deref h a = Some c \<Longrightarrow> type_of_payload (f (wv_data c)) = type_of_payload (wv_data c)) \<Longrightarrow>
     types_kept h (put_payload h a f)"
  by (auto simp: types_kept_def split: if_splits)

lemma types_kept_unref: "webview_value_unref h a = Some h' \<Longrightarrow> types_kept h h'"
  using unref_tasks_fields unref_tasks_data
  unfolding webview_value_unref_def types_kept_def by fastforce

lemma types_kept_ref: "webview_value_ref h p = Some (q, h') \<Longrightarrow> types_kept h h'"
  by (auto simp: webview_value_ref_def intro: types_kept_put split: option.splits if_splits)

lemma ptr_array_add_cells:
  "webview_ptr_array_add h xs d = (xs', h') \<Longrightarrow> wh_cells h' = wh_cells h"
  by (auto simp: webview_ptr_array_add_def Let_def split: if_splits)

lemma ptr_array_add_deref:
  "webview_ptr_array_add h xs d = (xs', h') \<Longrightarrow>
     deref h' = deref h \<and> length (wh_cells h') = length (wh_cells h)"
  by (auto dest: ptr_array_add_cells deref_cells)

lemma types_kept_append_take:
  "webview_value_append_take h self v = Some h' \<Longrightarrow> types_kept h h'"
  by (auto simp: webview_value_append_take_def types_kept_def split: option.splits WPayload.splits prod.splits if_splits
      dest!: ptr_array_add_deref)

lemma types_kept_map_add:
  "deref h a = Some c \<Longrightarrow> wv_data c = WMap ks vs \<Longrightarrow> types_kept h (map_add h a ks vs k v)"
  by (auto simp: map_add_def types_kept_def split: prod.splits if_splits dest!: ptr_array_add_deref)

lemma type_set_key [simp]:
  "type_of_payload (set_key i k p) = type_of_payload p"
  "type_of_payload (set_value i v p) = type_of_payload p"
  by (cases p; simp)+

lemma types_kept_entry:
  "types_kept h (put_payload h a (set_key i k))" "types_kept h (put_payload h a (set_value i v))"
  by (simp_all add: types_kept_payload)

lemma types_kept_replace:
  "replace_entry h a ks vs i k v = Some h' \<Longrightarrow> types_kept h h'"
  by (auto simp: replace_entry_def split: option.splits if_splits dest!: types_kept_unref)
     (metis types_kept_trans types_kept_entry)

lemma types_kept_set_take:
  "webview_value_set_take h self k v = Some h' \<Longrightarrow> types_kept h h'"
  by (auto simp: webview_value_set_take_def split: option.splits WPayload.splits
      dest: types_kept_replace intro: types_kept_map_add)

lemma types_kept_append:
  "webview_value_append h self v = Some h' \<Longrightarrow> types_kept h h'"
  by (auto simp: webview_value_append_def split: option.splits if_splits
      dest!: types_kept_ref types_kept_append_take intro: types_kept_trans)

lemma types_kept_set:
  "webview_value_set h self k v = Some h' \<Longrightarrow> types_kept h h'"
  by (auto simp: webview_value_set_def split: option.splits bool.splits
      dest!: types_kept_ref types_kept_set_take) (metis types_kept_trans)

lemma types_kept_set_string:
  assumes "webview_value_set_string h self s v = Some h'"
  shows "types_kept h h'"
proof -
  obtain k h1 where n: "webview_value_new_string h s = (k, h1)" by fastforce
  have "types_kept h h1"
    using types_kept_new [of h "WString by_malloc (c_str s)"] n
    by (simp add: webview_value_new_string_def)
  with n assms show ?thesis
    by (auto simp: webview_value_set_string_def split: option.splits bool.splits
        dest!: types_kept_ref types_kept_set_take intro: types_kept_trans)
qed

lemma types_kept_get_by_string:
  assumes "webview_value_get_by_string h self s = Some (v, h')"
  shows "types_kept h h'"
proof -
  obtain k h1 where n: "webview_value_new_string h s = (k, h1)" by fastforce
  have "types_kept h h1"
    using types_kept_new [of h "WString by_malloc (c_str s)"] n
    by (simp add: webview_value_new_string_def)
  with n assms show ?thesis
    by (auto simp: webview_value_get_by_string_def split: option.splits
        dest!: types_kept_unref intro: types_kept_trans)
qed

lemma types_kept_newD: "webview_value_new h p = (a, h') \<Longrightarrow> types_kept h h'"
  using types_kept_new [of h p] by simp

lemma fst_gain [simp]: "fst (gain e p) = snd p"
  by (simp add: gain_def split: prod.split)

interpretation types: step_preorder client_step "\<lambda>s t. types_kept (fst s) (fst t)"
proof
  fix s t u :: Client and req
  show "types_kept (fst s) (fst s)" by simp
  show "types_kept (fst s) (fst t) \<Longrightarrow> types_kept (fst t) (fst u) \<Longrightarrow> types_kept (fst s) (fst u)"
    by (rule types_kept_trans)
  assume st: "client_step s req = Some t"
  obtain h e where "s = (h, e)" by fastforce
  with st show "types_kept (fst s) (fst t)"
    by (cases req) (auto simp: types_kept_new webview_value_new_null_def webview_value_new_bool_def
        webview_value_new_int_def webview_value_new_float_def webview_value_new_double_def
        webview_value_new_string_def webview_value_new_list_def webview_value_new_map_def
        webview_value_new_uint8_list_def webview_value_new_int32_list_def
        webview_value_new_int64_list_def webview_value_new_float_list_def webview_value_new_double_list_def
        dest: types_kept_newD types_kept_ref types_kept_unref types_kept_append types_kept_set types_kept_set_string
        types_kept_get_by_string)
qed

section \<open>Properties\<close>

definition empty_client :: "(nat \<Rightarrow> bool) \<Rightarrow> Client" where
  "empty_client grants = (\<lparr>wh_cells = [], wh_grants = grants, wh_asked = 0\<rparr>, \<lambda>_. 0)"

lemma empty_client_ok: "(\<And>n. grants n) \<Longrightarrow> client_ok (empty_client grants)"
  by (simp add: empty_client_def client_ok_def granted_def owned_def owned_tasks_def owned_cell_def
      deref_def refs_in_def)


definition sample_ops :: "ClientOp list" where
  "sample_ops = [OpMap, OpInt 7, OpSetString 0 ''a'' 1, OpString ''b'', OpSet 0 3 1, OpList,
     OpAppend 4 0, OpSetString 0 ''a'' 3, OpGetByString 0 ''a'', OpUnref 1, OpUnref 3, OpUnref 0, OpUnref 4]"


text \<open>C14. Releasing the last reference of an acyclic value frees all of it. When a disciplined client
  holds exactly one reference and no value contains itself, the release of that reference leaves no
  live cell.\<close>

theorem last_release_frees_all:
  assumes "\<And>n. grants n" and "disciplined client_step allowed_op (empty_client grants) ops"
    and run: "run_option client_step (empty_client grants) ops = Some (h, holding (\<lambda>_. 0) [a])"
    and acyc: "acyclic_heap h"
  shows "\<exists>h'. webview_value_unref h (Some a) = Some h' \<and> (\<forall>b. deref h' b = None)"
proof -
  from client.guarded_run [OF empty_client_ok assms(2)] assms(1) run
  have "owned h (holding (\<lambda>_. 0) [a])" by (auto simp: client_ok_def)
  then obtain h' where u: "webview_value_unref h (Some a) = Some h'" and "owned h' (\<lambda>_. 0)"
    by (rule owned_unref)
  moreover from u acyc have "acyclic_heap h'" unfolding webview_value_unref_def by (rule acyclic_unref)
  ultimately show ?thesis by (auto intro: unowned_acyclic_empty)
qed

text \<open>A value keeps its type for as long as it lives. Whatever calls are made, a cell that existed
  before and is alive after was alive before with the same type: no call changes the type of a value,
  and a freed value does not come back.\<close>

theorem live_values_keep_type:
  assumes "run_option client_step s ops = Some t"
    and "a < length (wh_cells (fst s))" and "deref (fst t) a = Some c'"
  shows "\<exists>c. deref (fst s) a = Some c \<and> type_of_payload (wv_data c) = type_of_payload (wv_data c')"
  using types.le_run [OF assms(1)] assms(2,3) by (simp add: types_kept_def)

text \<open>Storing a string key and looking it up. After \<open>webview_value_set_string\<close> the lookup of the same
  key answers the stored value, and the lookup of any other key answers what it answered before,
  whether the key was new or replaced an entry (whose old key and value are released on the way).\<close>

theorem set_string_then_get:
  assumes ok: "client_ok (h, e)" and m: "0 < e m"
    and c: "deref h m = Some c" "type_of_payload (wv_data c) = Webview_Value_Type_Map"
    and v: "deref h v = Some cv" "wv_refs cv < int32_max"
  shows "\<exists>h'. webview_value_set_string h (Some m) s (Some v) = Some h' \<and> client_ok (h', e)
           \<and> (\<forall>t. map_option fst (webview_value_get_by_string h' (Some m) t)
                  = (if c_str t = c_str s then Some (Some v)
                     else map_option fst (webview_value_get_by_string h (Some m) t)))"
proof -
  from ok have own: "owned h e" and g: "granted h" by (simp_all add: client_ok_def)
  from c(2) obtain ks vs where d: "wv_data c = WMap ks vs" by (cases "wv_data c") auto
  obtain h' where set: "webview_value_set_string h (Some m) s (Some v) = Some h'" and own': "owned h' e"
      and g': "granted h'" and view: "map_view h' m = (map_view h m)(c_str s \<mapsto> v)"
    by (rule owned_set_string [OF own m g c(1) d v])
  from owned_held_live [OF own' m] obtain c' where c': "deref h' m = Some c'" by auto
  moreover have "type_of_payload (wv_data c') = Webview_Value_Type_Map"
    using types_kept_set_string [OF set] deref_lt [OF c(1)] c c' by (fastforce simp: types_kept_def)
  then obtain ks' vs' where "wv_data c' = WMap ks' vs'" by (cases "wv_data c'") auto
  ultimately have "webview_value_get_by_string h' (Some m) t
      = Some (map_view h' m (c_str t), h'\<lparr>wh_cells := wh_cells h' @ [None]\<rparr>)" for t
    by (intro get_by_string_view [OF own'])
  with set own' g' view show ?thesis
    by (simp add: client_ok_def get_by_string_view [OF own c(1) d])
qed


definition nested_ops :: "ClientOp list" where
  "nested_ops = [OpMap, OpInt 7, OpSetString 0 ''a'' 1, OpUnref 1]"

definition nested_heap :: WHeap where
  "nested_heap = \<lparr>wh_cells = [Some \<lparr>wv_refs = 1, wv_data = WMap \<lparr>pdata = [2], capacity = 16\<rparr> \<lparr>pdata = [1], capacity = 16\<rparr>\<rparr>,
       Some \<lparr>wv_refs = 1, wv_data = WInt 7\<rparr>, Some \<lparr>wv_refs = 1, wv_data = WString by_malloc ''a''\<rparr>],
     wh_grants = \<lambda>_. True, wh_asked = 2\<rparr>"

lemma nested_run:
  "run_option client_step (empty_client (\<lambda>_. True)) nested_ops = Some (nested_heap, holding (\<lambda>_. 0) [0])"
  by (simp add: nested_ops_def nested_heap_def empty_client_def gain_def webview_value_new_map_def
      webview_value_new_int_def webview_value_new_def webview_value_set_string_def settable_def
      webview_value_new_string_def c_str_def webview_value_ref_def deref_def put_cell_def int32_max_def
      webview_value_set_take_def webview_value_lookup_index_def webview_ptr_array_new_with_free_func_def
      map_add_def webview_ptr_array_add_def put_payload_def webview_value_unref_def Let_def holding_def
      fun_eq_iff)

lemma nested_disciplined: "disciplined client_step allowed_op (empty_client (\<lambda>_. True)) nested_ops"
  by code_simp

lemma nested_ok: "client_ok (nested_heap, holding (\<lambda>_. 0) [0])"
  using client.guarded_run [OF empty_client_ok nested_disciplined] nested_run by auto

lemma nested_acyclic: "acyclic_heap nested_heap"
  unfolding acyclic_heap_def
proof
  show "ranked nested_heap (\<lambda>a. if a = 0 then 1 else 0)"
    by (auto simp: ranked_def nested_heap_def deref_def nth_Cons less_Suc_eq split: if_splits nat.splits)
qed

theorem last_release_frees_all_witness:
  "\<exists>h'. webview_value_unref nested_heap (Some 0) = Some h' \<and> (\<forall>b. deref h' b = None)"
  using last_release_frees_all [OF _ nested_disciplined nested_run nested_acyclic] by simp

theorem live_values_keep_type_witness:
  "\<exists>c. deref nested_heap 1 = Some c \<and> type_of_payload (wv_data c) = Webview_Value_Type_Int"
proof -
  obtain h e where r: "run_option client_step (nested_heap, holding (\<lambda>_. 0) [0]) [OpSetString 0 ''b'' 1] = Some (h, e)"
      and d: "deref h 1 = Some \<lparr>wv_refs = 2, wv_data = WInt 7\<rparr>"
    by (simp add: nested_heap_def webview_value_set_string_def settable_def webview_value_new_def
      webview_value_new_string_def c_str_def webview_value_ref_def deref_def put_cell_def int32_max_def
      webview_value_set_take_def webview_value_lookup_index_def webview_value_equals_def
      map_add_def webview_ptr_array_add_def put_payload_def Let_def)
  have "1 < length (wh_cells nested_heap)" by (simp add: nested_heap_def)
  with live_values_keep_type [OF r, of 1] d show ?thesis by simp
qed

theorem set_string_then_get_witness:
  "\<exists>h'. webview_value_set_string nested_heap (Some 0) ''b'' (Some 1) = Some h'
     \<and> map_option fst (webview_value_get_by_string h' (Some 0) ''b'') = Some (Some 1)"
proof -
  have held: "0 < holding (\<lambda>_. 0) [0] 0" by (simp add: holding_def)
  have m: "deref nested_heap 0 = Some \<lparr>wv_refs = 1,
      wv_data = WMap \<lparr>pdata = [2], capacity = 16\<rparr> \<lparr>pdata = [1], capacity = 16\<rparr>\<rparr>"
    and v: "deref nested_heap 1 = Some \<lparr>wv_refs = 1, wv_data = WInt 7\<rparr>"
    by (simp_all add: nested_heap_def deref_def)
  obtain h' where "webview_value_set_string nested_heap (Some 0) ''b'' (Some 1) = Some h'"
      and "\<forall>t. map_option fst (webview_value_get_by_string h' (Some 0) t)
             = (if c_str t = c_str ''b'' then Some (Some 1)
                else map_option fst (webview_value_get_by_string nested_heap (Some 0) t))"
    using set_string_then_get [OF nested_ok held m _ v, of "''b''"] by (auto simp: int32_max_def)
  then show ?thesis by metis
qed

text \<open>Comparing two values ends when no value contains itself: on an acyclic heap with correct
  counts \<open>webview_value_equals\<close> answers for any two live values, however they share their parts.\<close>

theorem equality_ends:
  assumes own: "owned h e" and acyc: "acyclic_heap h"
    and a: "deref h a = Some ca" and b: "deref h b = Some cb"
  shows "\<exists>r. webview_value_equals h (Some a) (Some b) = Some r"
proof -
  from acyc obtain r0 where "ranked h r0" by (auto simp: acyclic_heap_def)
  with own obtain r where r: "ranked h r" and bound: "\<forall>a. deref h a \<noteq> None \<longrightarrow> r a < length (wh_cells h)"
    by (rule ranked_bounded)
  let ?n = "length (wh_cells h)"
  from bound a b have "r a < ?n" "r b < ?n" by auto
  then have "r a + r b < Suc (?n * ?n)"
    by (cases ?n) (auto simp: less_Suc_eq_le algebra_simps)
  from equals_depth_defined [OF own r a b this] show ?thesis
    by (auto simp: webview_value_equals_def)
qed

theorem equality_ends_witness: "\<exists>r. webview_value_equals nested_heap (Some 0) (Some 0) = Some r"
  by (rule equality_ends [OF _ nested_acyclic, of "holding (\<lambda>_. 0) [0]"])
     (use nested_ok in \<open>auto simp: client_ok_def nested_heap_def deref_def\<close>)

lemma cat_items_overflow:
  "fst buf = Suc (length (snd buf)) \<Longrightarrow> close \<noteq> [] \<Longrightarrow> cat_items close xs buf = None"
  by (induction close xs buf rule: cat_items.induct)
     (auto simp: str_cat_def split: option.splits if_splits)

text \<open>C15. Printing a list or a map writes past the end of its buffer. The buffer is made by \<open>strdup\<close> of the
  opening bracket and never grows, so there is no room for the closing one: for every list, typed list
  and map, empty ones included, \<open>webview_value_to_string\<close> is undefined behaviour.\<close>

theorem printing_lists_overflows:
  assumes "deref h a = Some c"
    and "type_of_payload (wv_data c) \<in> {Webview_Value_Type_Uint8_List, Webview_Value_Type_Int32_List,
      Webview_Value_Type_Int64_List, Webview_Value_Type_Float_List, Webview_Value_Type_Double_List,
      Webview_Value_Type_List, Webview_Value_Type_Map}"
  shows "webview_value_to_string h (Some a) = None"
  using assms by (cases "wv_data c") (simp_all add: webview_value_to_string_def str_dup_def cat_items_overflow)

theorem printing_lists_overflows_witness: "webview_value_to_string nested_heap (Some 0) = None"
  by (rule printing_lists_overflows [where c = "\<lparr>wv_refs = 1,
        wv_data = WMap \<lparr>pdata = [2], capacity = 16\<rparr> \<lparr>pdata = [1], capacity = 16\<rparr>\<rparr>"])
     (simp_all add: nested_heap_def deref_def)

lemma equals_depth_string:
  assumes "deref h a = Some ca" and "deref h b = Some cb" and "wv_data cb = WString al s"
  shows "equals_depth (Suc n) h (Some a) (Some b) = Some (string_of h a = Some s)"
  using assms by (cases "wv_data ca") (simp_all add: string_of_def)

lemma equals_depth_types:
  assumes "deref h a = Some ca" and "deref h b = Some cb"
    and "type_of_payload (wv_data ca) \<noteq> type_of_payload (wv_data cb)"
  shows "equals_depth (Suc n) h (Some a) (Some b) = Some False"
  using assms by (cases "wv_data ca"; cases "wv_data cb") simp_all

lemma getter_Some:
  "getter dflt field h (Some a) = Some v \<longleftrightarrow>
     (\<exists>c. deref h a = Some c \<and> v = (case field (wv_data c) of None \<Rightarrow> dflt | Some x \<Rightarrow> x))"
  by (auto simp: getter_def)

text \<open>A map is not equal to itself. The comparison of two maps compares the stored value with the
  key of the entry instead of with its value: a map whose first key is a string and whose first value
  is not a string compares unequal to itself.\<close>

theorem map_differs_from_itself:
  assumes k: "webview_value_get_key h (Some m) 0 = Some (Some k)"
    and v: "webview_value_get_value h (Some m) 0 = Some (Some v)"
    and tk: "webview_value_get_type h (Some k) = Some Webview_Value_Type_String"
    and tv: "webview_value_get_type h (Some v) = Some t" "t \<noteq> Webview_Value_Type_String"
  shows "webview_value_equals h (Some m) (Some m) = Some False"
proof -
  from k obtain c where dc: "deref h m = Some c" by (auto simp: webview_value_get_key_def getter_Some)
  with k obtain ks vs where "wv_data c = WMap ks vs" and "webview_ptr_array_index ks 0 = Some k"
    by (cases "wv_data c") (auto simp: webview_value_get_key_def getter_Some)
  with dc have c: "deref h m = Some c" "wv_data c = WMap ks vs" by simp_all
  note \<open>webview_ptr_array_index ks 0 = Some k\<close>
  then obtain rest where ks: "pdata ks = k # rest"
    by (cases "pdata ks") (auto simp: webview_ptr_array_index_def)
  from v c have vs: "webview_ptr_array_index vs 0 = Some v"
    by (auto simp: webview_value_get_value_def getter_Some)
  from tk obtain ck al s where ck: "deref h k = Some ck" "wv_data ck = WString al s"
    by (auto simp: webview_value_get_type_def elim: type_of_payload.elims)
  from tv obtain cv where cv: "deref h v = Some cv" "type_of_payload (wv_data cv) \<noteq> Webview_Value_Type_String"
    by (auto simp: webview_value_get_type_def)
  let ?n = "length (wh_cells h) * length (wh_cells h)"
  from deref_lt [OF c(1)] obtain n where n: "?n = Suc n" by (cases ?n) auto
  from ck have "equals_depth (Suc n) h (Some k) (Some k) = Some True"
    by (simp add: equals_depth_string [OF ck(1) ck] string_of_def del: equals_depth.simps)
  moreover from ck cv have "equals_depth (Suc n) h (Some k) (Some v) = Some False"
    by (intro equals_depth_types) auto
  ultimately have "equals_depth (Suc (Suc n)) h (Some m) (Some m) = Some False"
    by (subst equals_depth.simps) (simp add: c ks vs del: equals_depth.simps)
  with n show ?thesis by (simp add: webview_value_equals_def del: equals_depth.simps)
qed

theorem map_differs_from_itself_witness:
  "webview_value_equals nested_heap (Some 0) (Some 0) = Some False"
  by (rule map_differs_from_itself [where k = 2 and v = 1 and t = Webview_Value_Type_Int])
     (simp_all add: webview_value_get_key_def webview_value_get_value_def webview_value_get_type_def
       getter_def nested_heap_def deref_def webview_ptr_array_index_def)

text \<open>Releasing a string made with a length frees with \<open>free\<close> what \<open>new[]\<close> allocated: unless the length
  is zero, the release of a value of \<open>webview_value_new_string_len\<close> is undefined behaviour.\<close>

theorem string_len_release_undefined:
  "webview_value_unref (snd (webview_value_new_string_len h s n)) (Some (fst (webview_value_new_string_len h s n)))
     = None \<longleftrightarrow> n \<noteq> 0"
  by (simp add: webview_value_new_string_len_def webview_value_new_def webview_value_unref_def deref_def
      put_cell_def Let_def)

text \<open>An append that the allocator refuses is dropped in silence and leaks. When the array of the list
  is full and \<open>realloc\<close> fails, the call returns, the list is as it was, and the reference taken on the
  value is never given back.\<close>

theorem refused_append_leaks:
  assumes l: "deref h l = Some cl" "wv_data cl = WList vs" and x: "deref h x = Some cx" "x \<noteq> l"
    and full: "length (pdata vs) = capacity vs" "\<not> wh_grants h (wh_asked h)"
    and n: "wv_refs cx < int32_max"
  shows "\<exists>h'. webview_value_append h (Some l) (Some x) = Some h' \<and> deref h' l = Some cl
           \<and> deref h' x = Some (cx\<lparr>wv_refs := wv_refs cx + 1\<rparr>)"
proof -
  have "cl\<lparr>wv_data := WList vs\<rparr> = cl" using l by (cases cl) simp
  with assms deref_lt [OF x(1)] show ?thesis
    by (simp add: webview_value_append_def webview_value_ref_def webview_value_append_take_def
        webview_ptr_array_add_def Let_def)
qed


definition full_heap :: WHeap where
  "full_heap = \<lparr>wh_cells = [Some \<lparr>wv_refs = 1, wv_data = WList \<lparr>pdata = [], capacity = 0\<rparr>\<rparr>,
     Some \<lparr>wv_refs = 1, wv_data = WNull\<rparr>], wh_grants = \<lambda>_. False, wh_asked = 0\<rparr>"

theorem refused_append_leaks_witness:
  "\<exists>h'. webview_value_append full_heap (Some 0) (Some 1) = Some h'
     \<and> deref h' 1 = Some \<lparr>wv_refs = 2, wv_data = WNull\<rparr>"
proof -
  have l: "deref full_heap 0 = Some \<lparr>wv_refs = 1, wv_data = WList \<lparr>pdata = [], capacity = 0\<rparr>\<rparr>"
    and x: "deref full_heap 1 = Some \<lparr>wv_refs = 1, wv_data = WNull\<rparr>"
    by (simp_all add: full_heap_def deref_def)
  from refused_append_leaks [OF l _ x] show ?thesis
    by (auto simp: full_heap_def int32_max_def)
qed

end
