(* ===== verification/Command_Options.thy ===== *)
theory Command_Options
  imports Text_Format
begin

text \<open>
  The command line of the embedded Linux runner: the option table and parser of
  \<open>elinux/runner/command_options.h\<close> and the options \<open>elinux/runner/flutter_embedder_options.h\<close>
  registers and reads. A thrown exception is the left side of a sum. The number readers are
  \<open>std::stoi\<close> and \<open>std::stod\<close> as the standard library defines them, over 32-bit integers and the bits
  of an IEEE double.
\<close>

section \<open>Numbers\<close>

datatype OptError =
    StdInvalidArgument
  | StdOutOfRange
  | OptException string
  | NullDereference

definition attempt :: "OptError + 'a \<Rightarrow> ('a \<Rightarrow> OptError + 'b) \<Rightarrow> OptError + 'b" where
  "attempt x f = (case x of Inl e \<Rightarrow> Inl e | Inr y \<Rightarrow> f y)"

definition skip_space :: "string \<Rightarrow> string" where
  "skip_space s = dropWhile is_space s"

definition read_sign :: "string \<Rightarrow> bool \<times> string" where
  "read_sign s =
     (case s of
        [] \<Rightarrow> (False, [])
      | c # cs \<Rightarrow> if c = CHR ''-'' then (True, cs) else if c = CHR ''+'' then (False, cs) else (False, s))"

definition stoi :: "string \<Rightarrow> OptError + int" where
  "stoi s =
     (let (neg, t) = read_sign (skip_space s); ds = takeWhile is_digit t;
          n = (if neg then - int (read_nat ds) else int (read_nat ds))
      in if ds = [] then Inl StdInvalidArgument
         else if n < - 2147483648 \<or> 2147483647 < n then Inl StdOutOfRange
         else Inr n)"

text \<open>
  \<open>std::stod\<close> reads an optional sign, then \<open>inf\<close>, \<open>nan\<close>, a hexadecimal or a decimal number, and ignores
  what follows. The value is rounded to the nearest double, ties to even; a value too large, and one
  that is not a normal double and not exact, is out of range.
\<close>

definition is_xdigit :: "char \<Rightarrow> bool" where
  "is_xdigit c \<longleftrightarrow> is_digit c \<or> ascii_lower c \<in> set ''abcdef''"

definition xdigit_value :: "char \<Rightarrow> nat" where
  "xdigit_value c = (if is_digit c then digit_value c else of_char (ascii_lower c) - 87)"

definition read_base :: "nat \<Rightarrow> string \<Rightarrow> nat" where
  "read_base b s = foldl (\<lambda>n c. n * b + xdigit_value c) 0 s"

definition read_exponent :: "char \<Rightarrow> string \<Rightarrow> int" where
  "read_exponent mark s =
     (case s of
        [] \<Rightarrow> 0
      | c # cs \<Rightarrow>
          if ascii_lower c = mark
          then (let (neg, t) = read_sign cs; n = int (read_nat (takeWhile is_digit t))
                in if neg then - n else n)
          else 0)"

text \<open>Digits with at most one point: the digits, how many stand after the point, and the rest.\<close>

definition read_digits :: "(char \<Rightarrow> bool) \<Rightarrow> string \<Rightarrow> string \<times> nat \<times> string" where
  "read_digits p s =
     (let i = takeWhile p s; r = dropWhile p s
      in case r of
           [] \<Rightarrow> (i, 0, [])
         | c # cs \<Rightarrow>
             if c = CHR ''.'' \<and> (i \<noteq> [] \<or> takeWhile p cs \<noteq> [])
             then (i @ takeWhile p cs, length (takeWhile p cs), dropWhile p cs)
             else (i, 0, r))"

definition round_double :: "nat \<Rightarrow> nat \<Rightarrow> OptError + nat" where
  "round_double num den =
     (if num = 0 then Inr 0
      else let e0 = int (bit_len num) - int (bit_len den) - 53;
               q0 = (num * 2 ^ nat (- e0)) div (den * 2 ^ nat e0);
               e = max (- 1074) (if 2 ^ 53 \<le> q0 then e0 + 1 else e0);
               n = num * 2 ^ nat (- e); d = den * 2 ^ nat e;
               q = round_half_even n d
           in if q < 2 ^ 52 then (if n mod d = 0 then Inr q else Inl StdOutOfRange)
              else let (q, e) = (if q = 2 ^ 53 then (2 ^ 52, e + 1) else (q, e))
                   in if 971 < e then Inl StdOutOfRange
                      else Inr (nat (e + 1075) * 2 ^ 52 + (q - 2 ^ 52)))"

definition scaled :: "nat \<Rightarrow> nat \<Rightarrow> int \<Rightarrow> OptError + nat" where
  "scaled m b e = round_double (m * b ^ nat e) (b ^ nat (- e))"

definition stod_magnitude :: "string \<Rightarrow> OptError + nat" where
  "stod_magnitude s =
     (if map ascii_lower (take 3 s) = ''inf'' then Inr 0x7FF0000000000000
      else if map ascii_lower (take 3 s) = ''nan'' then Inr 0x7FF8000000000000
      else let (xs, xf, xr) = read_digits is_xdigit (drop 2 s)
           in if map ascii_lower (take 2 s) = ''0x'' \<and> xs \<noteq> []
              then scaled (read_base 16 xs) 2 (read_exponent (CHR ''p'') xr - 4 * int xf)
              else let (ds, df, r) = read_digits is_digit s
                   in if ds = [] then Inl StdInvalidArgument
                      else scaled (read_base 10 ds) 10 (read_exponent (CHR ''e'') r - int df))"

definition stod :: "string \<Rightarrow> OptError + u64" where
  "stod s =
     (let (neg, t) = read_sign (skip_space s)
      in attempt (stod_magnitude t) (\<lambda>n. Inr (of_nat (n + (if neg then 2 ^ 63 else 0)))))"

section \<open>Options\<close>

datatype OptValue = VString string | VInt int | VDouble u64

record Option =
  o_name :: string
  o_short :: string
  o_description :: string
  o_required :: bool
  o_required_value :: bool
  o_value_set :: bool
  o_default :: OptValue
  o_value :: OptValue

record CommandOptions =
  co_command_name :: string
  co_options :: "string \<rightharpoonup> Option"
  co_lut_short :: "string \<rightharpoonup> string"
  co_order :: "string list"
  co_errors :: "string list"
  co_cerr :: "string list"

definition CommandOptions_init :: CommandOptions where
  "CommandOptions_init =
     \<lparr>co_command_name = [], co_options = Map.empty, co_lut_short = Map.empty, co_order = [],
      co_errors = [], co_cerr = []\<rparr>"

definition Add :: "string \<Rightarrow> string \<Rightarrow> string \<Rightarrow> OptValue \<Rightarrow> bool \<Rightarrow> bool \<Rightarrow> CommandOptions \<Rightarrow> CommandOptions" where
  "Add name short_name description dflt required required_value s =
     (if co_options s name \<noteq> None
      then s\<lparr>co_cerr := co_cerr s @ [''Already registered option: '' @ name]\<rparr>
      else if co_lut_short s short_name \<noteq> None
      then s\<lparr>co_cerr := co_cerr s @ [short_name @ ''is already registered'']\<rparr>
      else s\<lparr>co_lut_short := (co_lut_short s)(short_name \<mapsto> name),
             co_options := (co_options s)(name \<mapsto>
               \<lparr>o_name = name, o_short = short_name, o_description = description,
                o_required = required, o_required_value = required_value, o_value_set = False,
                o_default = dflt, o_value = dflt\<rparr>),
             co_order := co_order s @ [name]\<rparr>)"

definition AddWithoutValue :: "string \<Rightarrow> string \<Rightarrow> string \<Rightarrow> bool \<Rightarrow> CommandOptions \<Rightarrow> CommandOptions" where
  "AddWithoutValue name short_name description required =
     Add name short_name description (VString []) required False"

definition AddInt :: "string \<Rightarrow> string \<Rightarrow> string \<Rightarrow> int \<Rightarrow> bool \<Rightarrow> CommandOptions \<Rightarrow> CommandOptions" where
  "AddInt name short_name description d required =
     Add name short_name description (VInt d) required True"

definition AddDouble :: "string \<Rightarrow> string \<Rightarrow> string \<Rightarrow> u64 \<Rightarrow> bool \<Rightarrow> CommandOptions \<Rightarrow> CommandOptions" where
  "AddDouble name short_name description d required =
     Add name short_name description (VDouble d) required True"

definition AddString :: "string \<Rightarrow> string \<Rightarrow> string \<Rightarrow> string \<Rightarrow> bool \<Rightarrow> CommandOptions \<Rightarrow> CommandOptions" where
  "AddString name short_name description d required =
     Add name short_name description (VString d) required True"

definition Exist :: "string \<Rightarrow> CommandOptions \<Rightarrow> bool" where
  "Exist name s = (case co_options s name of None \<Rightarrow> False | Some v \<Rightarrow> o_value_set v)"

text \<open>The type of an option is fixed by the value it was registered with: \<open>GetValue<T>\<close> asks for one.\<close>

definition get_value :: "(OptValue \<Rightarrow> 'a option) \<Rightarrow> string \<Rightarrow> CommandOptions \<Rightarrow> OptError + 'a" where
  "get_value as_t name s =
     (case co_options s name of
        None \<Rightarrow> Inl (OptException (''Not found: '' @ name))
      | Some v \<Rightarrow>
          (case as_t (o_value v) of
             None \<Rightarrow> Inl (OptException (''Type mismatch: '' @ name))
           | Some x \<Rightarrow> Inr x))"

definition GetValue_string :: "string \<Rightarrow> CommandOptions \<Rightarrow> OptError + string" where
  "GetValue_string = get_value (\<lambda>v. case v of VString x \<Rightarrow> Some x | _ \<Rightarrow> None)"

definition GetValue_int :: "string \<Rightarrow> CommandOptions \<Rightarrow> OptError + int" where
  "GetValue_int = get_value (\<lambda>v. case v of VInt x \<Rightarrow> Some x | _ \<Rightarrow> None)"

definition GetValue_double :: "string \<Rightarrow> CommandOptions \<Rightarrow> OptError + u64" where
  "GetValue_double = get_value (\<lambda>v. case v of VDouble x \<Rightarrow> Some x | _ \<Rightarrow> None)"

section \<open>Parsing\<close>

definition push_error :: "string \<Rightarrow> CommandOptions \<Rightarrow> CommandOptions" where
  "push_error e s = s\<lparr>co_errors := co_errors s @ [e]\<rparr>"

text \<open>\<open>SetValue\<close> reads the text as the option's own type; it answers true or throws.\<close>

fun Read :: "OptValue \<Rightarrow> string \<Rightarrow> OptError + OptValue" where
  "Read (VString _) t = Inr (VString t)"
| "Read (VInt _) t = attempt (stoi t) (Inr \<circ> VInt)"
| "Read (VDouble _) t = attempt (stod t) (Inr \<circ> VDouble)"

definition SetOption :: "string \<Rightarrow> CommandOptions \<Rightarrow> CommandOptions" where
  "SetOption name s =
     (case co_options s name of
        None \<Rightarrow> push_error (''Unknown option: '' @ name) s
      | Some v \<Rightarrow> s\<lparr>co_options := (co_options s)(name \<mapsto> v\<lparr>o_value_set := True\<rparr>)\<rparr>)"

definition SetOptionValue :: "string \<Rightarrow> string \<Rightarrow> CommandOptions \<Rightarrow> OptError + CommandOptions" where
  "SetOptionValue name t s =
     (case co_options s name of
        None \<Rightarrow> Inr (push_error (''Unknown option: '' @ name) s)
      | Some v \<Rightarrow>
          (case Read (o_value v) t of
             Inl e \<Rightarrow> Inl e
           | Inr x \<Rightarrow>
               Inr (s\<lparr>co_options := (co_options s)(name \<mapsto> v\<lparr>o_value := x, o_value_set := True\<rparr>)\<rparr>)))"

definition find_eq :: "string \<Rightarrow> nat option" where
  "find_eq arg =
     (let n = length (takeWhile (\<lambda>c. c \<noteq> CHR ''='') arg) in if n < length arg then Some n else None)"

definition parse_normal :: "string \<Rightarrow> CommandOptions \<Rightarrow> OptError + CommandOptions" where
  "parse_normal arg s =
     (let option_value_len = (case find_eq arg of Some n \<Rightarrow> length arg - n | None \<Rightarrow> 0);
          has_value = (option_value_len \<noteq> 0);
          option_name = take (length arg - 2 - option_value_len) (drop 2 arg)
      in case co_options s option_name of
           None \<Rightarrow> Inr (push_error (''Not found option: '' @ option_name) s)
         | Some v \<Rightarrow>
             if \<not> has_value \<and> o_required_value v
             then Inr (push_error (option_name @ '' requres an option value'') s)
             else if has_value \<and> \<not> o_required_value v
             then Inr (push_error (option_name @ '' doesn'' @ [CHR 0x27] @ ''t requres an option value'') s)
             else if has_value
             then SetOptionValue option_name (drop (Suc (the (find_eq arg))) arg) s
             else Inr (SetOption option_name s))"

text \<open>The letters of a group of short options; the last one may take the next argument as its value.\<close>

fun parse_short :: "string \<Rightarrow> string list \<Rightarrow> CommandOptions \<Rightarrow> OptError + (CommandOptions \<times> string list)" where
  "parse_short [] rest s = Inr (s, rest)"
| "parse_short (c # cs) rest s =
     (case co_lut_short s [c] of
        None \<Rightarrow> Inr (push_error (''Not found short option: '' @ [c]) s, rest)
      | Some name \<Rightarrow>
          (case (cs, co_options s name) of
             ([], None) \<Rightarrow> Inl NullDereference
           | ([], Some v) \<Rightarrow>
               if o_required_value v
               then (case rest of
                       [] \<Rightarrow> Inr (push_error (''Invalid format option: '' @ [c]) s, [])
                     | t # rest' \<Rightarrow> attempt (SetOptionValue name t s) (\<lambda>s. Inr (s, rest')))
               else Inr (SetOption name s, rest)
           | _ \<Rightarrow> parse_short cs rest (SetOption name s)))"

lemma parse_short_rest: "parse_short cs rest s = Inr (s', rest') \<Longrightarrow> length rest' \<le> length rest"
  by (induction cs rest s rule: parse_short.induct)
     (auto split: option.splits list.splits if_splits sum.splits simp: attempt_def)

function parse_args :: "string list \<Rightarrow> CommandOptions \<Rightarrow> OptError + CommandOptions" where
  "parse_args [] s = Inr s"
| "parse_args (arg # rest) s =
     (if 2 < length arg \<and> take 2 arg = ''--''
      then (case parse_normal arg s of Inl e \<Rightarrow> Inl e | Inr s \<Rightarrow> parse_args rest s)
      else if 1 < length arg \<and> take 1 arg = ''-''
      then (case parse_short (tl arg) rest s of Inl e \<Rightarrow> Inl e | Inr (s, rest) \<Rightarrow> parse_args rest s)
      else parse_args rest (push_error (''Invalid format option: '' @ arg) s))"
  by pat_completeness auto

termination
  by (relation "measure (length \<circ> fst)") (auto dest: parse_short_rest)

definition check_mandatory :: "CommandOptions \<Rightarrow> string \<Rightarrow> CommandOptions" where
  "check_mandatory s name =
     (case co_options s name of
        None \<Rightarrow> s
      | Some v \<Rightarrow>
          if o_required v \<and> \<not> o_value_set v then push_error (o_name v @ '' option is mandatory.'') s else s)"

definition CommandOptions_Parse :: "string list \<Rightarrow> CommandOptions \<Rightarrow> OptError + (bool \<times> CommandOptions)" where
  "CommandOptions_Parse argv s =
     (case argv of
        [] \<Rightarrow> Inr (False, push_error ''No options'' s)
      | command # args \<Rightarrow>
          (case parse_args args (s\<lparr>co_command_name := command\<rparr>) of
             Inl e \<Rightarrow> Inl e
           | Inr s \<Rightarrow> let s = foldl check_mandatory s (co_order s) in Inr (co_errors s = [], s)))"

definition GetError :: "CommandOptions \<Rightarrow> string" where
  "GetError s = (case co_errors s of [] \<Rightarrow> [] | e # _ \<Rightarrow> e)"

section \<open>Help\<close>

definition GetHelpShortMessage :: "Option \<Rightarrow> string" where
  "GetHelpShortMessage v = ''--'' @ o_name v @ (if o_required_value v then ''=<value>'' else [])"

definition registered :: "CommandOptions \<Rightarrow> Option list" where
  "registered s = List.map_filter (co_options s) (co_order s)"

definition max_name_len :: "Option list \<Rightarrow> nat" where
  "max_name_len vs = foldl (\<lambda>m v. max m (length (o_name v))) 0 vs"

definition help_line :: "nat \<Rightarrow> Option \<Rightarrow> string" where
  "help_line width v =
     (if o_short v \<noteq> [] then ''-'' @ o_short v @ '', '' else replicate 4 (CHR '' ''))
     @ ''--'' @ o_name v
     @ (if o_required_value v then ''=<value>'' else [])
     @ replicate (width + 10 - (if o_required_value v then length ''=<value>'' else 0) - length (o_name v))
                 (CHR '' '')
     @ o_description v @ [newline]"

definition ShowHelp :: "CommandOptions \<Rightarrow> string" where
  "ShowHelp s =
     (let vs = registered s; width = max_name_len vs
      in ''Usage: '' @ co_command_name s @ '' ''
         @ concat (map (\<lambda>v. if o_required v then GetHelpShortMessage v @ '' '' else []) vs) @ [newline]
         @ ''Global options:'' @ [newline]
         @ concat (map (help_line width) vs))"

section \<open>The embedder's options\<close>

datatype Backend = Backend_GBM_EGLStream | Backend_X11 | Backend_Wayland

datatype ViewMode = kNormal | kFullscreen

datatype ViewRotation = kRotation_0 | kRotation_90 | kRotation_180 | kRotation_270

definition one_double :: u64 where "one_double = 0x3FF0000000000000"

definition window_options :: "CommandOptions \<Rightarrow> CommandOptions" where
  "window_options s =
     AddInt ''height'' ''h'' ''Window height'' 720 False
     (AddInt ''width'' ''w'' ''Window width'' 1280 False
     (AddWithoutValue ''fullscreen'' ''f'' ''Always full-screen display'' False s))"

definition FlutterEmbedderOptions_options :: "Backend \<Rightarrow> CommandOptions" where
  "FlutterEmbedderOptions_options backend =
     (let s = AddString ''bundle'' ''b'' ''Path to Flutter project bundle'' ''./bundle'' True CommandOptions_init;
          s = AddWithoutValue ''no-cursor'' ''n'' ''No mouse cursor/pointer'' False s;
          s = AddInt ''rotation'' ''r'' ''Window rotation(degree) [0(default)|90|180|270]'' 0 False s;
          s = AddDouble ''text-scaling-factor'' ''x'' ''Text scaling factor'' one_double False s;
          s = AddWithoutValue ''enable-high-contrast'' ''i''
                ''Request that UI be rendered with darker colors.'' False s;
          s = AddDouble ''force-scale-factor'' ''s''
                ''Force a scale factor instead using default value'' one_double False s;
          s = AddWithoutValue ''async-vblank'' ''v''
                (''Don'' @ [CHR 0x27] @ ''t sync to compositor redraw/vblank (eglSwapInterval 0)'') False s
      in case backend of
           Backend_GBM_EGLStream \<Rightarrow> s
         | Backend_X11 \<Rightarrow>
             window_options (AddString ''title'' ''t'' ''Window title'' ''Flutter'' False s)
         | Backend_Wayland \<Rightarrow>
             (let s = AddString ''title'' ''t'' ''Window title'' ''Flutter'' False s;
                  s = AddString ''app-id'' ''a'' ''XDG App ID'' ''dev.flutter.elinux'' False s;
                  s = AddWithoutValue ''onscreen-keyboard'' ''k'' ''Enable on-screen keyboard'' False s;
                  s = AddWithoutValue ''window-decoration'' ''d'' ''Enable window decorations'' False s
              in window_options s))"

record EmbedderOptions =
  bundle_path :: string
  window_title :: string
  window_app_id :: string
  use_mouse_cursor :: bool
  use_onscreen_keyboard :: bool
  use_window_decoration :: bool
  window_view_mode :: ViewMode
  window_width :: int
  window_height :: int
  window_view_rotation :: ViewRotation
  is_force_scale_factor :: bool
  scale_factor :: u64
  text_scale_factor :: u64
  enable_high_contrast :: bool
  enable_vsync :: bool

text \<open>
  The members without an initialiser (the scale factors and the two flags) are read only after a
  successful parse has set them; the model starts them at zero.
\<close>

definition EmbedderOptions_init :: EmbedderOptions where
  "EmbedderOptions_init =
     \<lparr>bundle_path = [], window_title = [], window_app_id = [], use_mouse_cursor = True,
      use_onscreen_keyboard = False, use_window_decoration = False, window_view_mode = kNormal,
      window_width = 1280, window_height = 720, window_view_rotation = kRotation_0,
      is_force_scale_factor = False, scale_factor = 0, text_scale_factor = 0,
      enable_high_contrast = False, enable_vsync = False\<rparr>"

definition rotation_of :: "int \<Rightarrow> ViewRotation" where
  "rotation_of n =
     (if n = 90 then kRotation_90 else if n = 180 then kRotation_180
      else if n = 270 then kRotation_270 else kRotation_0)"

definition view_mode_of :: "CommandOptions \<Rightarrow> ViewMode" where
  "view_mode_of s = (if Exist ''fullscreen'' s then kFullscreen else kNormal)"

definition read_common :: "CommandOptions \<Rightarrow> EmbedderOptions \<Rightarrow> OptError + EmbedderOptions" where
  "read_common s opts =
     attempt (GetValue_string ''bundle'' s) (\<lambda>path.
     attempt (if Exist ''rotation'' s then attempt (GetValue_int ''rotation'' s) (Inr \<circ> rotation_of)
          else Inr (window_view_rotation opts)) (\<lambda>rot.
     attempt (GetValue_double ''text-scaling-factor'' s) (\<lambda>text_scale.
     attempt (if Exist ''force-scale-factor'' s then GetValue_double ''force-scale-factor'' s
          else Inr one_double) (\<lambda>scale.
     Inr (opts\<lparr>bundle_path := path, use_mouse_cursor := \<not> Exist ''no-cursor'' s,
               window_view_rotation := rot, text_scale_factor := text_scale,
               enable_high_contrast := Exist ''enable-high-contrast'' s,
               is_force_scale_factor := Exist ''force-scale-factor'' s, scale_factor := scale,
               enable_vsync := \<not> Exist ''async-vblank'' s\<rparr>)))))"

definition read_size :: "CommandOptions \<Rightarrow> EmbedderOptions \<Rightarrow> OptError + EmbedderOptions" where
  "read_size s opts =
     attempt (GetValue_int ''width'' s) (\<lambda>w.
     attempt (GetValue_int ''height'' s) (\<lambda>h.
     Inr (opts\<lparr>window_view_mode := view_mode_of s, window_width := w, window_height := h\<rparr>)))"

definition read_backend :: "Backend \<Rightarrow> CommandOptions \<Rightarrow> EmbedderOptions \<Rightarrow> OptError + EmbedderOptions" where
  "read_backend backend s opts =
     (case backend of
        Backend_GBM_EGLStream \<Rightarrow>
          Inr (opts\<lparr>use_onscreen_keyboard := False, use_window_decoration := False,
                    window_view_mode := kFullscreen\<rparr>)
      | Backend_X11 \<Rightarrow>
          attempt (GetValue_string ''title'' s) (\<lambda>title.
          read_size s (opts\<lparr>use_onscreen_keyboard := False, use_window_decoration := False,
                            window_title := title\<rparr>))
      | Backend_Wayland \<Rightarrow>
          attempt (GetValue_string ''title'' s) (\<lambda>title.
          attempt (GetValue_string ''app-id'' s) (\<lambda>app.
          read_size s (opts\<lparr>window_title := title, window_app_id := app,
                            use_onscreen_keyboard := Exist ''onscreen-keyboard'' s,
                            use_window_decoration := Exist ''window-decoration'' s\<rparr>))))"

text \<open>
  \<open>Parse\<close> answers the options, or the first error and the help text it prints; an exception goes
  through it.
\<close>

datatype EmbedderParse = Parsed EmbedderOptions | Rejected string string

definition FlutterEmbedderOptions_Parse :: "Backend \<Rightarrow> string list \<Rightarrow> OptError + EmbedderParse" where
  "FlutterEmbedderOptions_Parse backend argv =
     attempt (CommandOptions_Parse argv (FlutterEmbedderOptions_options backend)) (\<lambda>(ok, s).
     if \<not> ok then Inr (Rejected (GetError s) (ShowHelp s))
     else attempt (read_common s EmbedderOptions_init) (\<lambda>opts.
          attempt (read_backend backend s opts) (Inr \<circ> Parsed)))"

section \<open>The option table\<close>

fun kind :: "OptValue \<Rightarrow> nat" where
  "kind (VString _) = 0" | "kind (VInt _) = 1" | "kind (VDouble _) = 2"

text \<open>What parsing leaves alone: the short names, the order, and of each option all but its value.\<close>

definition fixed_part :: "Option \<Rightarrow> Option \<times> nat" where
  "fixed_part v = (v\<lparr>o_value_set := False, o_value := o_default v\<rparr>, kind (o_value v))"

definition table :: "CommandOptions \<Rightarrow> (string \<rightharpoonup> Option \<times> nat) \<times> (string \<rightharpoonup> string) \<times> string list" where
  "table s = (map_option fixed_part \<circ> co_options s, co_lut_short s, co_order s)"

definition table_ok :: "CommandOptions \<Rightarrow> bool" where
  "table_ok s \<longleftrightarrow> (\<forall>short name. co_lut_short s short = Some name \<longrightarrow> co_options s name \<noteq> None)
     \<and> set (co_order s) = dom (co_options s)"

lemma attempt_simps [simp]:
  "attempt (Inl e) f = Inl e" "attempt (Inr x) f = f x"
  by (simp_all add: attempt_def)

lemma attempt_Inl: "attempt x f = Inl e \<longleftrightarrow> x = Inl e \<or> (\<exists>y. x = Inr y \<and> f y = Inl e)"
  by (cases x) auto

lemma attempt_Inr: "attempt x f = Inr z \<longleftrightarrow> (\<exists>y. x = Inr y \<and> f y = Inr z)"
  by (cases x) auto

lemma table_ok_cong: "table s = table t \<Longrightarrow> table_ok s \<Longrightarrow> table_ok t"
proof -
  assume eq: "table s = table t" and ok: "table_ok s"
  from eq have "map_option fixed_part (co_options s n) = map_option fixed_part (co_options t n)" for n
    by (auto simp: table_def dest: fun_cong [of _ _ n])
  then have none: "co_options s n = None \<longleftrightarrow> co_options t n = None" for n
    by (metis map_option_is_None)
  then have "dom (co_options s) = dom (co_options t)" by (auto simp: dom_def)
  moreover from eq have "co_lut_short s = co_lut_short t" "co_order s = co_order t" by (simp_all add: table_def)
  ultimately show "table_ok t" using ok none by (simp add: table_ok_def)
qed

lemma table_push_error [simp]: "table (push_error e s) = table s"
  by (simp add: table_def push_error_def)

lemma table_update:
  "co_options s name = Some v \<Longrightarrow> fixed_part w = fixed_part v \<Longrightarrow>
     table (s\<lparr>co_options := (co_options s)(name \<mapsto> w)\<rparr>) = table s"
  by (auto simp: table_def)

lemma table_SetOption [simp]: "table (SetOption name s) = table s"
  by (auto simp: SetOption_def fixed_part_def intro!: table_update split: option.split)

lemma kind_Read: "Read v t = Inr w \<Longrightarrow> kind w = kind v"
  by (cases v) (auto simp: attempt_Inr)

lemma round_double_error: "round_double num den = Inl e \<Longrightarrow> e = StdOutOfRange"
  by (simp only: round_double_def Let_def case_prod_beta sum.distinct sum.inject split: if_split_asm)

lemma stod_error: "stod t = Inl e \<Longrightarrow> e = StdInvalidArgument \<or> e = StdOutOfRange"
  by (auto simp only: attempt_Inl stod_def stod_magnitude_def scaled_def Let_def sum.distinct sum.inject
      dest!: round_double_error split: prod.splits if_split_asm)

lemma Read_error: "Read v t = Inl e \<Longrightarrow> e = StdInvalidArgument \<or> e = StdOutOfRange"
  by (cases v) (auto simp: attempt_Inl stoi_def Let_def dest: stod_error split: prod.splits if_splits)

lemma table_SetOptionValue: "SetOptionValue name t s = Inr s' \<Longrightarrow> table s' = table s"
  by (auto simp: SetOptionValue_def fixed_part_def dest: kind_Read intro!: table_update
      split: option.splits sum.splits)

lemma SetOptionValue_error:
  "SetOptionValue name t s = Inl e \<Longrightarrow> e = StdInvalidArgument \<or> e = StdOutOfRange"
  by (auto simp: SetOptionValue_def dest: Read_error split: option.splits sum.splits)

lemma table_parse_normal: "parse_normal arg s = Inr s' \<Longrightarrow> table s' = table s"
  by (auto simp: parse_normal_def Let_def dest: table_SetOptionValue split: option.splits if_splits)

lemma parse_normal_error: "parse_normal arg s = Inl e \<Longrightarrow> e = StdInvalidArgument \<or> e = StdOutOfRange"
  by (auto simp: parse_normal_def Let_def dest: SetOptionValue_error split: option.splits if_splits)

lemma table_parse_short: "parse_short cs rest s = Inr (s', rest') \<Longrightarrow> table s' = table s"
  by (induction cs rest s rule: parse_short.induct)
     (auto simp: attempt_Inr dest: table_SetOptionValue split: option.splits list.splits if_splits)

lemma parse_short_error:
  "parse_short cs rest s = Inl e \<Longrightarrow> table_ok s \<Longrightarrow> e = StdInvalidArgument \<or> e = StdOutOfRange"
proof (induction cs rest s rule: parse_short.induct)
  case (2 c cs rest s)
  show ?case
  proof (cases "co_lut_short s [c]")
    case None
    with 2 show ?thesis by simp
  next
    case (Some name)
    with 2(3) have "co_options s name \<noteq> None" unfolding table_ok_def by blast
    then obtain v where v: "co_options s name = Some v" by auto
    show ?thesis
    proof (cases cs)
      case Nil
      with 2 Some v show ?thesis
        by (auto simp: attempt_Inl dest: SetOptionValue_error split: list.splits if_splits)
    next
      case (Cons d ds)
      have "table_ok (SetOption name s)" using 2(3) by (rule table_ok_cong [rotated]) simp
      with 2 Some v Cons show ?thesis by simp
    qed
  qed
qed simp

lemma parse_args_table:
  "(parse_args args s = Inr s' \<longrightarrow> table s' = table s)
   \<and> (table_ok s \<longrightarrow> parse_args args s = Inl e \<longrightarrow> e = StdInvalidArgument \<or> e = StdOutOfRange)"
proof (induction args s rule: parse_args.induct)
  case (2 arg rest s)
  show ?case
  proof (cases "2 < length arg \<and> take 2 arg = ''--''")
    case True
    with 2(1) [OF True] show ?thesis
      by (auto dest: table_parse_normal parse_normal_error table_ok_cong [rotated] split: sum.splits)
         (metis table_ok_cong table_parse_normal)+
  next
    case False
    note normal = this
    show ?thesis
    proof (cases "1 < length arg \<and> take 1 arg = ''-''")
      case True
      with normal 2(2) [OF normal True] show ?thesis
        by (auto dest: table_parse_short parse_short_error split: sum.splits prod.splits)
           (metis table_ok_cong table_parse_short)+
    next
      case False
      have "table_ok s \<Longrightarrow> table_ok (push_error e s)" for e
        by (rule table_ok_cong [rotated]) simp_all
      with normal False 2(3) [OF normal False] show ?thesis by auto
    qed
  qed
qed simp

lemma table_check_mandatory [simp]: "table (check_mandatory s name) = table s"
  by (simp add: check_mandatory_def split: option.split)

lemma table_foldl_mandatory [simp]: "table (foldl check_mandatory s names) = table s"
  by (induction names arbitrary: s) simp_all

lemma Parse_table:
  "CommandOptions_Parse argv s = Inr (ok, s') \<Longrightarrow> table s' = table s"
  "CommandOptions_Parse argv s = Inl e \<Longrightarrow> table_ok s \<Longrightarrow> e = StdInvalidArgument \<or> e = StdOutOfRange"
proof -
  have cmd: "table (s\<lparr>co_command_name := c\<rparr>) = table s" for c by (simp add: table_def)
  show "CommandOptions_Parse argv s = Inr (ok, s') \<Longrightarrow> table s' = table s"
    using cmd by (auto simp: CommandOptions_Parse_def Let_def split: list.splits sum.splits
        dest!: parse_args_table [THEN conjunct1, THEN mp])
  show "CommandOptions_Parse argv s = Inl e \<Longrightarrow> table_ok s \<Longrightarrow> e = StdInvalidArgument \<or> e = StdOutOfRange"
    using parse_args_table [of "tl argv" "s\<lparr>co_command_name := hd argv\<rparr>" _ e] table_ok_cong [OF cmd [symmetric]]
    by (auto simp: CommandOptions_Parse_def Let_def split: list.splits sum.splits)
qed

definition reads :: "nat \<Rightarrow> CommandOptions \<Rightarrow> string \<Rightarrow> bool" where
  "reads k s name = (case co_options s name of None \<Rightarrow> False | Some v \<Rightarrow> kind (o_value v) = k)"

lemma reads_table:
  assumes "table s' = table s" and "reads k s name"
  obtains v where "co_options s' name = Some v" and "kind (o_value v) = k"
proof -
  from assms(1) have "map_option fixed_part (co_options s' name) = map_option fixed_part (co_options s name)"
    by (auto simp: table_def dest: fun_cong [of _ _ name])
  with assms(2) that show thesis by (auto simp: reads_def fixed_part_def split: option.splits)
qed

lemma reads_get:
  assumes "table s' = table s"
  shows "reads 0 s name \<Longrightarrow> \<exists>x. GetValue_string name s' = Inr x"
    and "reads 1 s name \<Longrightarrow> \<exists>x. GetValue_int name s' = Inr x"
    and "reads 2 s name \<Longrightarrow> \<exists>x. GetValue_double name s' = Inr x"
  by (erule reads_table [OF assms], case_tac "o_value v",
      auto simp: GetValue_string_def GetValue_int_def GetValue_double_def get_value_def)+

lemma embedder_reads:
  "reads 0 (FlutterEmbedderOptions_options b) ''bundle''"
  "reads 1 (FlutterEmbedderOptions_options b) ''rotation''"
  "reads 2 (FlutterEmbedderOptions_options b) ''text-scaling-factor''"
  "reads 2 (FlutterEmbedderOptions_options b) ''force-scale-factor''"
  by (induct b; code_simp)+

lemma embedder_reads_X11:
  "reads 0 (FlutterEmbedderOptions_options Backend_X11) ''title''"
  "reads 1 (FlutterEmbedderOptions_options Backend_X11) ''width''"
  "reads 1 (FlutterEmbedderOptions_options Backend_X11) ''height''"
  by code_simp+

lemma embedder_reads_Wayland:
  "reads 0 (FlutterEmbedderOptions_options Backend_Wayland) ''title''"
  "reads 0 (FlutterEmbedderOptions_options Backend_Wayland) ''app-id''"
  "reads 1 (FlutterEmbedderOptions_options Backend_Wayland) ''width''"
  "reads 1 (FlutterEmbedderOptions_options Backend_Wayland) ''height''"
  by code_simp+

lemma table_ok_Add:
  "table_ok s \<Longrightarrow> table_ok (Add name short_name description dflt required required_value s)"
  by (auto simp: table_ok_def Add_def)

lemma embedder_table_ok: "table_ok (FlutterEmbedderOptions_options b)"
proof -
  have "table_ok CommandOptions_init" by (simp add: table_ok_def CommandOptions_init_def)
  then show ?thesis
    by (cases b) (auto simp: FlutterEmbedderOptions_options_def window_options_def AddString_def AddInt_def
        AddDouble_def AddWithoutValue_def intro!: table_ok_Add)
qed

lemma read_common_defined:
  assumes t: "table s = table (FlutterEmbedderOptions_options b)"
  shows "\<exists>opts'. read_common s opts = Inr opts'"
proof -
  note [simp] = read_common_def
  from reads_get(1) [OF t embedder_reads(1)] reads_get(2) [OF t embedder_reads(2)]
    reads_get(3) [OF t embedder_reads(3)] reads_get(3) [OF t embedder_reads(4)]
  show ?thesis by auto
qed

lemma read_backend_defined:
  assumes t: "table s = table (FlutterEmbedderOptions_options b)"
  shows "\<exists>opts'. read_backend b s opts = Inr opts'"
proof (cases b)
  case Backend_GBM_EGLStream
  then show ?thesis by (simp add: read_backend_def)
next
  case Backend_X11
  note t = t [unfolded Backend_X11]
  from reads_get(1) [OF t embedder_reads_X11(1)] reads_get(2) [OF t embedder_reads_X11(2)]
    reads_get(2) [OF t embedder_reads_X11(3)] Backend_X11
  show ?thesis by (auto simp: read_backend_def read_size_def)
next
  case Backend_Wayland
  note t = t [unfolded Backend_Wayland]
  from reads_get(1) [OF t embedder_reads_Wayland(1)] reads_get(1) [OF t embedder_reads_Wayland(2)]
    reads_get(2) [OF t embedder_reads_Wayland(3)] reads_get(2) [OF t embedder_reads_Wayland(4)] Backend_Wayland
  show ?thesis by (auto simp: read_backend_def read_size_def)
qed

section \<open>Properties\<close>

text \<open>The embedder never asks its option table for a name it has not registered or for another type
  than it registered, and parsing never follows a null pointer. Whatever the command line and the
  back end, the only exceptions that leave the parse are the number readers' own; otherwise it answers
  the options or a rejection.\<close>

theorem embedder_types_match:
  "(\<exists>r. FlutterEmbedderOptions_Parse b argv = Inr r)
   \<or> FlutterEmbedderOptions_Parse b argv = Inl StdInvalidArgument
   \<or> FlutterEmbedderOptions_Parse b argv = Inl StdOutOfRange"
proof (cases "CommandOptions_Parse argv (FlutterEmbedderOptions_options b)")
  case (Inl e)
  with Parse_table(2) [OF Inl embedder_table_ok] show ?thesis
    by (auto simp: FlutterEmbedderOptions_Parse_def)
next
  case (Inr r)
  then obtain ok s where r: "CommandOptions_Parse argv (FlutterEmbedderOptions_options b) = Inr (ok, s)"
    by (cases r) auto
  from Parse_table(1) [OF r] have t: "table s = table (FlutterEmbedderOptions_options b)" .
  from read_common_defined [OF t] obtain opts where "read_common s EmbedderOptions_init = Inr opts" by auto
  moreover from read_backend_defined [OF t] obtain opts' where "read_backend b s opts = Inr opts'" by blast
  ultimately show ?thesis using r by (simp add: FlutterEmbedderOptions_Parse_def)
qed

definition print_option :: "string \<times> string \<Rightarrow> string" where
  "print_option nv = ''--'' @ fst nv @ ''='' @ snd nv"

lemma take_find_eq:
  assumes "CHR ''='' \<notin> set n"
  shows "takeWhile (\<lambda>c. c \<noteq> CHR ''='') (''--'' @ n @ ''='' @ v) = ''--'' @ n"
proof -
  have "takeWhile (\<lambda>c. c \<noteq> CHR ''='') (n @ ''='' @ v) = n"
    using assms by (induction n) auto
  then show ?thesis by simp
qed

lemma find_eq_print:
  assumes "CHR ''='' \<notin> set n"
  shows "find_eq (print_option (n, v)) = Some (2 + length n)"
  using take_find_eq [OF assms, of v] by (simp add: find_eq_def print_option_def)

lemma parse_normal_print:
  assumes n: "CHR ''='' \<notin> set n" and v: "co_options s n = Some w" "o_required_value w"
  shows "parse_normal (print_option (n, v)) s = SetOptionValue n v s"
proof -
  have "take (length n) (drop 2 (print_option (n, v))) = n"
    and "drop (Suc (2 + length n)) (print_option (n, v)) = v"
    by (simp_all add: print_option_def)
  moreover have "length (print_option (n, v)) - (2 + length n) = Suc (length v)"
    and "length (print_option (n, v)) - 2 - Suc (length v) = length n"
    by (simp_all add: print_option_def)
  ultimately show ?thesis
    using v by (simp add: parse_normal_def find_eq_print [OF n] Let_def)
qed

lemma parse_args_print:
  assumes "n \<noteq> []"
  shows "parse_args (print_option (n, v) # rest) s
           = (case parse_normal (print_option (n, v)) s of Inl e \<Rightarrow> Inl e | Inr s \<Rightarrow> parse_args rest s)"
  using assms by (cases n) (simp_all add: print_option_def)

definition string_option :: "CommandOptions \<Rightarrow> string \<Rightarrow> bool" where
  "string_option s n \<longleftrightarrow> n \<noteq> [] \<and> CHR ''='' \<notin> set n
     \<and> (case co_options s n of None \<Rightarrow> False
        | Some v \<Rightarrow> o_required_value v \<and> (case o_value v of VString _ \<Rightarrow> True | _ \<Rightarrow> False))"

text \<open>Printing and parsing string options. A command line made of \<open>--name=value\<close> for registered
  string options, in any order and with repetitions, is read back: every named option exists and has
  the last value given for it, whatever characters the value has, no other option changes, and no
  error is recorded.\<close>

theorem string_options_read_back:
  assumes "\<forall>nv \<in> set xs. string_option s (fst nv)"
  shows "\<exists>s'. parse_args (map print_option xs) s = Inr s' \<and> co_errors s' = co_errors s
           \<and> (\<forall>n v. map_of (rev xs) n = Some v \<longrightarrow> GetValue_string n s' = Inr v \<and> Exist n s')
           \<and> (\<forall>n. map_of (rev xs) n = None \<longrightarrow> co_options s' n = co_options s n)"
  using assms
proof (induction xs arbitrary: s)
  case Nil
  then show ?case by simp
next
  case (Cons nv xs)
  obtain n v where nv: "nv = (n, v)" by fastforce
  from Cons.prems nv obtain w t where n: "n \<noteq> []" "CHR ''='' \<notin> set n"
      and w: "co_options s n = Some w" "o_required_value w" "o_value w = VString t"
    by (auto simp: string_option_def split: option.splits OptValue.splits)
  let ?w = "w\<lparr>o_value := VString v, o_value_set := True\<rparr>"
  let ?s = "s\<lparr>co_options := (co_options s)(n \<mapsto> ?w)\<rparr>"
  have step: "parse_args (map print_option (nv # xs)) s = parse_args (map print_option xs) ?s"
    using w by (simp add: nv parse_args_print [OF n(1)] parse_normal_print [OF n(2) w(1,2)]
        SetOptionValue_def del: parse_args.simps)
  from Cons.prems w have "\<forall>nv \<in> set xs. string_option ?s (fst nv)"
    by (auto simp: string_option_def)
  from Cons.IH [OF this] obtain s' where s': "parse_args (map print_option xs) ?s = Inr s'"
      "co_errors s' = co_errors s"
      "\<And>m u. map_of (rev xs) m = Some u \<Longrightarrow> GetValue_string m s' = Inr u \<and> Exist m s'"
      "\<And>m. map_of (rev xs) m = None \<Longrightarrow> co_options s' m = co_options ?s m"
    by auto
  have "GetValue_string m s' = Inr u \<and> Exist m s'" if "map_of (rev (nv # xs)) m = Some u" for m u
  proof (cases "map_of (rev xs) m")
    case None
    with that nv s'(4) [OF None] show ?thesis
      by (auto simp: map_add_def GetValue_string_def get_value_def Exist_def split: if_splits)
  next
    case (Some x)
    with that nv s'(3) [of m] show ?thesis by (simp add: map_add_def)
  qed
  moreover have "co_options s' m = co_options s m" if "map_of (rev (nv # xs)) m = None" for m
    using that s'(4) [of m] nv by (auto simp: map_add_def split: option.splits if_splits)
  ultimately show ?case using step s' by auto
qed

theorem string_options_read_back_witness:
  "\<exists>s'. parse_args [''--bundle=/a=b'', ''--title='', ''--bundle=/c''] (FlutterEmbedderOptions_options Backend_X11) = Inr s'
     \<and> GetValue_string ''bundle'' s' = Inr ''/c'' \<and> GetValue_string ''title'' s' = Inr []"
proof -
  let ?s = "FlutterEmbedderOptions_options Backend_X11"
  let ?xs = "[(''bundle'', ''/a=b''), (''title'', []), (''bundle'', ''/c'')] :: (string \<times> string) list"
  have "\<forall>nv \<in> set ?xs. string_option ?s (fst nv)" by code_simp
  from string_options_read_back [OF this] show ?thesis
    by (auto simp: print_option_def)
qed

text \<open>A malformed number ends the program instead of being reported. When the value of an integer or
  double option does not read as a number, or is out of range, the exception of \<open>std::stoi\<close> or
  \<open>std::stod\<close> leaves the parse: no error is recorded and the help is not shown.\<close>

theorem malformed_number_escapes:
  assumes "n \<noteq> []" and "CHR ''='' \<notin> set n" and "co_options s n = Some w" and "o_required_value w"
    and "Read (o_value w) v = Inl e"
  shows "CommandOptions_Parse (command # print_option (n, v) # rest) s = Inl e"
  using assms
  by (simp add: CommandOptions_Parse_def parse_args_print parse_normal_print SetOptionValue_def
      del: parse_args.simps)

theorem malformed_number_escapes_witness:
  "FlutterEmbedderOptions_Parse Backend_X11 [''hmi'', ''--width=wide''] = Inl StdInvalidArgument"
proof -
  let ?s = "FlutterEmbedderOptions_options Backend_X11"
  obtain w where w: "co_options ?s ''width'' = Some w" "o_required_value w" "o_value w = VInt 1280"
  proof
    show "co_options ?s ''width'' = Some \<lparr>o_name = ''width'', o_short = ''w'', o_description = ''Window width'',
        o_required = False, o_required_value = True, o_value_set = False, o_default = VInt 1280, o_value = VInt 1280\<rparr>"
      by code_simp
  qed simp_all
  have "Read (o_value w) ''wide'' = Inl StdInvalidArgument" unfolding w(3) by code_simp
  from malformed_number_escapes [OF _ _ w(1,2) this, of "''hmi''" "[]"] show ?thesis
    by (simp add: print_option_def FlutterEmbedderOptions_Parse_def)
qed

text \<open>An accepted command line has given every mandatory option, and recorded no error.\<close>

theorem accepted_has_mandatory:
  assumes "CommandOptions_Parse argv s = Inr (True, s')"
  shows "co_errors s' = [] \<and> (\<forall>name v. name \<in> set (co_order s') \<longrightarrow> co_options s' name = Some v \<longrightarrow>
           o_required v \<longrightarrow> o_value_set v)"
proof -
  have errors: "co_errors (foldl check_mandatory s ns) = [] \<Longrightarrow>
      co_errors s = [] \<and> foldl check_mandatory s ns = s
      \<and> (\<forall>n \<in> set ns. \<forall>v. co_options s n = Some v \<longrightarrow> o_required v \<longrightarrow> o_value_set v)" for s ns
  proof (induction ns arbitrary: s)
    case (Cons n ns)
    from Cons.IH [of "check_mandatory s n"] Cons.prems
    have "co_errors (check_mandatory s n) = []" and same: "foldl check_mandatory (check_mandatory s n) ns = check_mandatory s n"
      and rest: "\<forall>m \<in> set ns. \<forall>v. co_options (check_mandatory s n) m = Some v \<longrightarrow> o_required v \<longrightarrow> o_value_set v"
      by auto
    then have "check_mandatory s n = s \<and> (\<forall>v. co_options s n = Some v \<longrightarrow> o_required v \<longrightarrow> o_value_set v)"
      by (auto simp: check_mandatory_def push_error_def split: option.splits if_splits)
    with same rest \<open>co_errors (check_mandatory s n) = []\<close> show ?case by simp
  qed simp
  from assms obtain t where "s' = foldl check_mandatory t (co_order t)" and "co_errors s' = []"
    by (auto simp: CommandOptions_Parse_def Let_def split: list.splits sum.splits)
  with errors [of t "co_order t"] show ?thesis by auto
qed

lemma short_group_run:
  "case FlutterEmbedderOptions_Parse b [command, ''-bn''] of
     Inr (Parsed opts) \<Rightarrow> bundle_path opts = ''./bundle'' \<and> \<not> use_mouse_cursor opts
   | _ \<Rightarrow> False"
  by (induct b; code_simp)

text \<open>A letter that needs a value, given in a group of short options before its last letter, counts as
  given but takes no value. So \<open>-bn\<close> satisfies the mandatory bundle option without naming a bundle:
  the embedder starts with the default path.\<close>

theorem short_group_satisfies_mandatory:
  "\<exists>opts. FlutterEmbedderOptions_Parse b [command, ''-bn''] = Inr (Parsed opts)
     \<and> bundle_path opts = ''./bundle'' \<and> \<not> use_mouse_cursor opts"
  using short_group_run [of b command] by (auto split: sum.splits EmbedderParse.splits)

lemma foldl_max_ge:
  "m \<le> foldl (\<lambda>m v. max m (f v)) m vs \<and> (\<forall>v \<in> set vs. f v \<le> foldl (\<lambda>m v. max m (f v)) m vs)" for m :: nat
proof (induction vs arbitrary: m)
  case (Cons a vs)
  from Cons.IH [of "max m (f a)"] show ?case by auto
qed simp

lemma max_name_len_ge: "v \<in> set vs \<Longrightarrow> length (o_name v) \<le> max_name_len vs"
  using foldl_max_ge [where f = "\<lambda>v. length (o_name v)" and m = 0 and vs = vs]
  by (simp add: max_name_len_def)

text \<open>The descriptions of the help text stand in one column. Every line of \<open>ShowHelp\<close> is as many
  characters before its description, whether or not the option has a one-letter name and takes a value;
  the padding is computed without wrapping below zero.\<close>

theorem help_descriptions_aligned:
  assumes "v \<in> set (registered s)" and "length (o_short v) \<le> 1"
  shows "\<exists>p. help_line (max_name_len (registered s)) v = p @ o_description v @ [newline]
           \<and> length p = max_name_len (registered s) + 16"
proof -
  let ?w = "max_name_len (registered s)"
  let ?p = "(if o_short v \<noteq> [] then ''-'' @ o_short v @ '', '' else replicate 4 (CHR '' ''))
     @ ''--'' @ o_name v @ (if o_required_value v then ''=<value>'' else [])
     @ replicate (?w + 10 - (if o_required_value v then length ''=<value>'' else 0) - length (o_name v)) (CHR '' '')"
  have "length (o_name v) \<le> ?w" using assms(1) by (rule max_name_len_ge)
  moreover from assms(2) have "o_short v = [] \<or> length (o_short v) = 1" by (cases "o_short v") auto
  ultimately have "length ?p = ?w + 16" by auto
  moreover have "help_line ?w v = ?p @ o_description v @ [newline]" by (simp add: help_line_def)
  ultimately show ?thesis by blast
qed

theorem help_descriptions_aligned_witness:
  "\<exists>v p. v \<in> set (registered (FlutterEmbedderOptions_options Backend_X11))
     \<and> help_line (max_name_len (registered (FlutterEmbedderOptions_options Backend_X11))) v
         = p @ o_description v @ [newline]"
proof -
  let ?s = "FlutterEmbedderOptions_options Backend_X11"
  let ?v = "hd (registered ?s)"
  have "?v \<in> set (registered ?s)" by code_simp
  moreover have "length (o_short ?v) \<le> 1" by code_simp
  ultimately show ?thesis using help_descriptions_aligned [of ?v ?s] by blast
qed

theorem accepted_has_mandatory_witness:
  "\<exists>s'. CommandOptions_Parse [''hmi'', ''--bundle=/x''] (FlutterEmbedderOptions_options Backend_X11) = Inr (True, s')
     \<and> co_errors s' = []"
proof -
  have "case CommandOptions_Parse [''hmi'', ''--bundle=/x''] (FlutterEmbedderOptions_options Backend_X11) of
      Inr (ok, s) \<Rightarrow> ok | _ \<Rightarrow> False" by code_simp
  then obtain s' where
      r: "CommandOptions_Parse [''hmi'', ''--bundle=/x''] (FlutterEmbedderOptions_options Backend_X11) = Inr (True, s')"
    by (auto split: sum.splits)
  from accepted_has_mandatory [OF r] r show ?thesis by auto
qed

end
