(* ===== verification/Js_Bridge.thy ===== *)
theory Js_Bridge
  imports Text_Format
begin

text \<open>
  The bridge between a page's JavaScript and the browser process
  (\<open>packages/webview_cef/common/webview_js_handler.cc\<close>): the native function the page calls, the two
  tables of callbacks that wait for an answer, and the conversion of JavaScript values.

  V8 and CEF are not part of the repository. A V8 value is of an abstract type \<open>'v\<close>, read through the
  record of the questions the code asks of it; contexts and frames are numbers, two of them the same
  object when the numbers are equal; what the code sends through CEF is the list of its effects.
  \<open>None\<close> is undefined behaviour: reading past the end of the argument vector, recursion that does not
  end, signed overflow.
\<close>

section \<open>What V8 answers\<close>

record 'v V8 =
  v8_IsString :: "'v \<Rightarrow> bool"
  v8_IsInt :: "'v \<Rightarrow> bool"
  v8_IsBool :: "'v \<Rightarrow> bool"
  v8_IsDouble :: "'v \<Rightarrow> bool"
  v8_IsArray :: "'v \<Rightarrow> bool"
  v8_IsFunction :: "'v \<Rightarrow> bool"
  v8_GetStringValue :: "'v \<Rightarrow> string"
  v8_GetIntValue :: "'v \<Rightarrow> int"
  v8_GetBoolValue :: "'v \<Rightarrow> bool"
  v8_GetDoubleValue :: "'v \<Rightarrow> u64"
  v8_GetArrayLength :: "'v \<Rightarrow> nat"
  v8_GetValue :: "'v \<Rightarrow> nat \<Rightarrow> 'v"
  wide_text :: "string \<Rightarrow> string"

text \<open>
  \<open>wide_text\<close> is what a byte stream writes for the \<open>c_str()\<close> of a \<open>CefString\<close>, which points to UTF-16
  units.
\<close>

datatype JSValue =
    JSString string
  | JSInt int
  | JSBool bool
  | JSDouble u64
  | JSArray "JSValue list"
  | JSUnknown

fun all_some :: "'a option list \<Rightarrow> 'a list option" where
  "all_some [] = Some []"
| "all_some (x # xs) =
     (case x of None \<Rightarrow> None | Some y \<Rightarrow> map_option ((#) y) (all_some xs))"

text \<open>The conversion recurses into arrays, which JavaScript lets contain themselves: fuel is the depth.\<close>

fun ConvertCefV8ValueToJSValue :: "'v V8 \<Rightarrow> nat \<Rightarrow> 'v \<Rightarrow> JSValue option" where
  "ConvertCefV8ValueToJSValue v8 0 x = None"
| "ConvertCefV8ValueToJSValue v8 (Suc n) x =
     (if v8_IsString v8 x then Some (JSString (v8_GetStringValue v8 x))
      else if v8_IsInt v8 x then Some (JSInt (v8_GetIntValue v8 x))
      else if v8_IsBool v8 x then Some (JSBool (v8_GetBoolValue v8 x))
      else if v8_IsDouble v8 x then Some (JSDouble (v8_GetDoubleValue v8 x))
      else if v8_IsArray v8 x
      then map_option JSArray
             (all_some (map (\<lambda>i. ConvertCefV8ValueToJSValue v8 n (v8_GetValue v8 x i))
                            [0..<v8_GetArrayLength v8 x]))
      else Some JSUnknown)"

section \<open>The bridge\<close>

text \<open>
  An entry of the table of function calls holds the context, the callback and the raw data; an entry
  of the table of requests the frame and the name of the callback. The keys are \<open>int\<close>.
\<close>

record 'v CefJSBridge =
  js_callback_id :: u32
  render_callback :: "int \<rightharpoonup> nat \<times> 'v option \<times> 'v option"
  startRequest_callback :: "int \<rightharpoonup> nat \<times> string"

definition CefJSBridge_init :: "'v CefJSBridge" where
  "CefJSBridge_init = \<lparr>js_callback_id = 0, render_callback = Map.empty, startRequest_callback = Map.empty\<rparr>"

datatype MessageArg = ArgString string | ArgInt int | ArgBool bool | ArgDouble u64 | ArgList "MessageArg option list"

datatype 'v BridgeEffect =
    SendToBrowser nat string "MessageArg option list"
  | ExecuteJavaScript nat string
  | ExecuteFunction nat 'v bool string "'v option"

text \<open>The current V8 context, and its frame.\<close>

type_synonym Current = "(nat \<times> nat option) option"

definition StartRequest ::
    "Current \<Rightarrow> int \<Rightarrow> string \<Rightarrow> string \<Rightarrow> string \<Rightarrow> 'v CefJSBridge \<Rightarrow> bool \<times> 'v CefJSBridge \<times> 'v BridgeEffect list"
  where
  "StartRequest cur reqId strCmd strCallback strArgs b =
     (let reqId = (if 0 < reqId then - reqId else reqId)
      in case (startRequest_callback b reqId, cur) of
           (None, Some (context, Some frame)) \<Rightarrow>
             (True,
              b\<lparr>startRequest_callback := (startRequest_callback b)(reqId \<mapsto> (frame, strCallback))\<rparr>,
              [SendToBrowser frame ''JSCallCppFunction''
                 [Some (ArgString strCmd), Some (ArgString strArgs), Some (ArgInt reqId)]])
         | _ \<Rightarrow> (False, b, []))"

text \<open>
  The argument of an answer: a nested array and an unknown value leave their place empty.
\<close>

fun scalar_arg :: "JSValue \<Rightarrow> MessageArg option" where
  "scalar_arg (JSString s) = Some (ArgString s)"
| "scalar_arg (JSInt i) = Some (ArgInt i)"
| "scalar_arg (JSBool x) = Some (ArgBool x)"
| "scalar_arg (JSDouble d) = Some (ArgDouble d)"
| "scalar_arg _ = None"

fun result_arg :: "JSValue \<Rightarrow> MessageArg option" where
  "result_arg (JSArray xs) = Some (ArgList (map scalar_arg xs))"
| "result_arg v = scalar_arg v"

definition EvaluateCallback :: "Current \<Rightarrow> string \<Rightarrow> JSValue \<Rightarrow> bool \<times> 'v BridgeEffect list" where
  "EvaluateCallback cur callbackId result =
     (case cur of
        Some (context, Some frame) \<Rightarrow>
          (True, [SendToBrowser frame ''EvaluateCallback'' [Some (ArgString callbackId), result_arg result]])
      | _ \<Rightarrow> (False, []))"

definition CallCppFunction ::
    "Current \<Rightarrow> string \<Rightarrow> string \<Rightarrow> 'v option \<Rightarrow> 'v option \<Rightarrow> 'v CefJSBridge
       \<Rightarrow> bool \<times> 'v CefJSBridge \<times> 'v BridgeEffect list"
  where
  "CallCppFunction cur function_name params callback rawdata b =
     (let key = sint (js_callback_id b)
      in case (render_callback b key, cur) of
           (None, Some (context, Some frame)) \<Rightarrow>
             (True,
              b\<lparr>render_callback := (render_callback b)(key \<mapsto> (context, callback, rawdata)),
                js_callback_id := js_callback_id b + 1\<rparr>,
              [SendToBrowser frame ''JSCallCppFunction''
                 [Some (ArgString function_name), Some (ArgString params), Some (ArgInt key)]])
         | _ \<Rightarrow> (False, b, []))"

text \<open>A frame goes: its requests by its identifier, its function calls by the context it has now.\<close>

definition RemoveCallbackFuncWithFrame :: "nat \<Rightarrow> nat \<Rightarrow> 'v CefJSBridge \<Rightarrow> 'v CefJSBridge" where
  "RemoveCallbackFuncWithFrame frame context b =
     b\<lparr>render_callback := (\<lambda>k. case render_callback b k of
                               None \<Rightarrow> None
                             | Some e \<Rightarrow> if fst e = context then None else Some e),
       startRequest_callback := (\<lambda>k. case startRequest_callback b k of
                                     None \<Rightarrow> None
                                   | Some e \<Rightarrow> if fst e = frame then None else Some e)\<rparr>"

definition callback_code :: "string \<Rightarrow> int \<Rightarrow> string \<Rightarrow> string" where
  "callback_code callback reqId result =
     ''window['' @ [CHR 0x27] @ callback @ [CHR 0x27] @ ''](''
       @ show_int reqId @ '', '' @ result @ '');''"

definition int_min :: int where "int_min = - 2147483648"

definition ExecuteJSCallbackFunc ::
    "int \<Rightarrow> bool \<Rightarrow> string \<Rightarrow> 'v CefJSBridge \<Rightarrow> (bool \<times> 'v CefJSBridge \<times> 'v BridgeEffect list) option"
  where
  "ExecuteJSCallbackFunc callbackId error result b =
     (if callbackId < 0
      then (case startRequest_callback b callbackId of
              None \<Rightarrow> Some (False, b, [])
            | Some (frame, callback) \<Rightarrow>
                if callback = [] then Some (False, b, [])
                else if callbackId = int_min then None
                else Some (True, b\<lparr>startRequest_callback := (startRequest_callback b)(callbackId := None)\<rparr>,
                           [ExecuteJavaScript frame (callback_code callback (- callbackId) result)]))
      else (case render_callback b callbackId of
              None \<Rightarrow> Some (False, b, [])
            | Some (context, None, rawdata) \<Rightarrow> Some (False, b, [])
            | Some (context, Some f, rawdata) \<Rightarrow>
                Some (True, b\<lparr>render_callback := (render_callback b)(callbackId := None)\<rparr>,
                      [ExecuteFunction context f error result rawdata])))"

section \<open>Request identifiers\<close>

text \<open>
  \<open>s_nReqID\<close> is an atomic \<open>long\<close>, which wraps; its width is the platform's. The result is converted to
  \<open>int\<close>. The loop runs at most once: it starts from a zero and stops at the next value, unless that
  one is zero, too.
\<close>

definition s_nReqID_init :: "'w::len word" where
  "s_nReqID_init = 1001"

definition GetNextReqID :: "'w::len word \<Rightarrow> int \<times> 'w word" where
  "GetNextReqID s =
     (let s = s + 1
      in if 0 < sint s then (sint (ucast s :: u32), s)
         else let s = s + 1
              in if s = 0 then (sint (ucast (s + 1) :: u32), s + 1)
                 else (sint (ucast s :: u32), s))"

section \<open>The native function\<close>

definition invalid_arguments :: string where "invalid_arguments = ''Invalid arguments.''"

definition failed_to_call :: "'v V8 \<Rightarrow> string \<Rightarrow> string" where
  "failed_to_call v8 name = ''Failed to call function:  '' @ wide_text v8 name @ ''.''"

definition failed_to_callback :: "'v V8 \<Rightarrow> string \<Rightarrow> string" where
  "failed_to_callback v8 name = ''Failed to callback:  '' @ wide_text v8 name @ ''.''"

definition arg :: "'v list \<Rightarrow> nat \<Rightarrow> 'v option" where
  "arg args i = (if i < length args then Some (args ! i) else None)"

text \<open>
  The arguments of \<open>jsCmd\<close>: a name, up to two parameters, a callback. The outer option is the
  behaviour; the inner one is empty when the arguments are invalid.
\<close>

definition jsCmd_arguments :: "'v V8 \<Rightarrow> 'v list \<Rightarrow> (string \<times> 'v \<times> 'v option) option option" where
  "jsCmd_arguments v8 args =
     (let s0 = v8_IsString v8 (args ! 0); s1 = v8_IsString v8 (args ! 1)
      in if s0 \<and> v8_IsFunction v8 (args ! 1) then Some (Some ([], args ! 1, None))
         else if \<not> (s0 \<and> s1) then Some None
         else case arg args 2 of
                None \<Rightarrow> None
              | Some a2 \<Rightarrow>
                  if v8_IsFunction v8 a2 then Some (Some (v8_GetStringValue v8 (args ! 1), a2, None))
                  else case arg args 3 of
                         None \<Rightarrow> None
                       | Some a3 \<Rightarrow>
                           if v8_IsFunction v8 a3
                           then Some (Some (v8_GetStringValue v8 (args ! 1), a3, Some a2))
                           else Some None)"

record 'v ExecuteResult =
  ex_retval :: "int option"
  ex_exception :: "string option"
  ex_bridge :: "'v CefJSBridge"
  ex_effects :: "'v BridgeEffect list"

definition result_of :: "string option \<Rightarrow> 'v CefJSBridge \<Rightarrow> 'v BridgeEffect list \<Rightarrow> 'v ExecuteResult" where
  "result_of ex b effects = \<lparr>ex_retval = None, ex_exception = ex, ex_bridge = b, ex_effects = effects\<rparr>"

definition Execute_jsCmd :: "'v V8 \<Rightarrow> Current \<Rightarrow> 'v list \<Rightarrow> 'v CefJSBridge \<Rightarrow> 'v ExecuteResult option" where
  "Execute_jsCmd v8 cur args b =
     (if length args < 2 then Some (result_of (Some invalid_arguments) b [])
      else case jsCmd_arguments v8 args of
             None \<Rightarrow> None
           | Some None \<Rightarrow> Some (result_of (Some invalid_arguments) b [])
           | Some (Some (params, callback, rawdata)) \<Rightarrow>
               let name = v8_GetStringValue v8 (args ! 0);
                   (ok, b, effects) = CallCppFunction cur name params (Some callback) rawdata b
               in Some (result_of (if ok then None else Some (failed_to_call v8 name)) b effects))"

definition Execute_StartRequest :: "'v V8 \<Rightarrow> Current \<Rightarrow> 'v list \<Rightarrow> 'v CefJSBridge \<Rightarrow> 'v ExecuteResult option" where
  "Execute_StartRequest v8 cur args b =
     (if length args < 5 then Some (result_of (Some invalid_arguments) b [])
      else let strCmd = v8_GetStringValue v8 (args ! 1);
               (ok, b, effects) = StartRequest cur (v8_GetIntValue v8 (args ! 0)) strCmd
                  (v8_GetStringValue v8 (args ! 2)) (v8_GetStringValue v8 (args ! 3)) b
           in Some (result_of (if ok then None else Some (failed_to_call v8 strCmd)) b effects))"

definition Execute_EvaluateCallback ::
    "'v V8 \<Rightarrow> nat \<Rightarrow> Current \<Rightarrow> 'v list \<Rightarrow> 'v CefJSBridge \<Rightarrow> 'v ExecuteResult option" where
  "Execute_EvaluateCallback v8 depth cur args b =
     (case (arg args 0, arg args 1) of
        (Some a0, Some a1) \<Rightarrow>
          (case ConvertCefV8ValueToJSValue v8 depth a1 of
             None \<Rightarrow> None
           | Some js \<Rightarrow>
               let name = v8_GetStringValue v8 a0; (ok, effects) = EvaluateCallback cur name js
               in Some (result_of (if ok then None else Some (failed_to_callback v8 name)) b effects))
      | _ \<Rightarrow> None)"

definition Execute ::
    "'v V8 \<Rightarrow> nat \<Rightarrow> Current \<Rightarrow> string \<Rightarrow> 'v list \<Rightarrow> 'w::len word \<Rightarrow> 'v CefJSBridge
       \<Rightarrow> ('v ExecuteResult \<times> 'w word) option"
  where
  "Execute v8 depth cur name args ids b =
     (if name = ''jsCmd'' then map_option (\<lambda>r. (r, ids)) (Execute_jsCmd v8 cur args b)
      else if name = ''StartRequest'' then map_option (\<lambda>r. (r, ids)) (Execute_StartRequest v8 cur args b)
      else if name = ''GetNextReqID''
      then (case GetNextReqID ids of (i, ids) \<Rightarrow> Some ((result_of None b [])\<lparr>ex_retval := Some i\<rparr>, ids))
      else if name = ''EvaluateCallback''
      then map_option (\<lambda>r. (r, ids)) (Execute_EvaluateCallback v8 depth cur args b)
      else Some (result_of (Some ''NativeHost no this fun.'') b [], ids))"

section \<open>Histories\<close>

datatype 'v BridgeEvent =
    EvStartRequest Current int string string string
  | EvCallCppFunction Current string string "'v option" "'v option"
  | EvAnswer int bool string
  | EvFrameGone nat nat

text \<open>The bridge with two counters: the callbacks it accepted, the answers it delivered.\<close>

record 'v BridgeLog =
  bl_bridge :: "'v CefJSBridge"
  bl_accepted :: nat
  bl_delivered :: nat

definition accept :: "'v BridgeLog \<Rightarrow> bool \<times> 'v CefJSBridge \<times> 'v BridgeEffect list \<Rightarrow> 'v BridgeLog" where
  "accept l = (\<lambda>(ok, b, _). l\<lparr>bl_bridge := b, bl_accepted := bl_accepted l + (if ok then 1 else 0)\<rparr>)"

definition deliver :: "'v BridgeLog \<Rightarrow> bool \<times> 'v CefJSBridge \<times> 'v BridgeEffect list \<Rightarrow> 'v BridgeLog" where
  "deliver l = (\<lambda>(ok, b, _). l\<lparr>bl_bridge := b, bl_delivered := bl_delivered l + (if ok then 1 else 0)\<rparr>)"

fun bridge_step :: "'v BridgeLog \<Rightarrow> 'v BridgeEvent \<Rightarrow> 'v BridgeLog option" where
  "bridge_step l (EvStartRequest cur i c f x) = Some (accept l (StartRequest cur i c f x (bl_bridge l)))"
| "bridge_step l (EvCallCppFunction cur n p f r) = Some (accept l (CallCppFunction cur n p f r (bl_bridge l)))"
| "bridge_step l (EvAnswer i e r) = map_option (deliver l) (ExecuteJSCallbackFunc i e r (bl_bridge l))"
| "bridge_step l (EvFrameGone f c) = Some (l\<lparr>bl_bridge := RemoveCallbackFuncWithFrame f c (bl_bridge l)\<rparr>)"

fun negatable :: "'v BridgeLog \<Rightarrow> 'v BridgeEvent \<Rightarrow> bool" where
  "negatable l (EvAnswer i e r) \<longleftrightarrow> i \<noteq> int_min"
| "negatable l _ \<longleftrightarrow> True"

definition waiting :: "'v CefJSBridge \<Rightarrow> nat" where
  "waiting b = card (dom (render_callback b)) + card (dom (startRequest_callback b))"

definition bridge_ok :: "'v BridgeLog \<Rightarrow> bool" where
  "bridge_ok l \<longleftrightarrow> finite (dom (render_callback (bl_bridge l)))
     \<and> finite (dom (startRequest_callback (bl_bridge l)))
     \<and> waiting (bl_bridge l) + bl_delivered l \<le> bl_accepted l"

lemma StartRequest_cases:
  obtains "StartRequest cur i c f x b = (False, b, [])"
  | k e s where "StartRequest cur i c f x b = (True, b\<lparr>startRequest_callback := (startRequest_callback b)(k \<mapsto> e)\<rparr>, s)"
      and "startRequest_callback b k = None"
proof -
  let ?k = "if 0 < i then - i else i"
  show thesis
    by (cases "startRequest_callback b ?k"; cases cur; cases "snd (the cur)")
       (auto simp: StartRequest_def Let_def split: if_splits intro: that)
qed

lemma CallCppFunction_cases:
  obtains "CallCppFunction cur n p f r b = (False, b, [])"
  | k e s where "CallCppFunction cur n p f r b
        = (True, b\<lparr>render_callback := (render_callback b)(k \<mapsto> e), js_callback_id := js_callback_id b + 1\<rparr>, s)"
      and "render_callback b k = None"
  by (cases "render_callback b (sint (js_callback_id b))"; cases cur; cases "snd (the cur)")
     (auto simp: CallCppFunction_def Let_def intro: that)

lemma ExecuteJSCallbackFunc_cases:
  assumes "i \<noteq> int_min"
  obtains "ExecuteJSCallbackFunc i e r b = Some (False, b, [])"
  | x s where "ExecuteJSCallbackFunc i e r b
        = Some (True, b\<lparr>startRequest_callback := (startRequest_callback b)(i := None)\<rparr>, s)"
      and "startRequest_callback b i = Some x"
  | x s where "ExecuteJSCallbackFunc i e r b
        = Some (True, b\<lparr>render_callback := (render_callback b)(i := None)\<rparr>, s)"
      and "render_callback b i = Some x"
proof (cases "i < 0")
  case True
  show thesis
  proof (cases "startRequest_callback b i")
    case None
    with True that(1) show thesis by (simp add: ExecuteJSCallbackFunc_def)
  next
    case (Some x)
    obtain f c where "x = (f, c)" by fastforce
    with True Some assms that(1) that(2) [OF _ Some] show thesis
      by (cases "c = []") (simp_all add: ExecuteJSCallbackFunc_def)
  qed
next
  case False
  show thesis
  proof (cases "render_callback b i")
    case None
    with False that(1) show thesis by (simp add: ExecuteJSCallbackFunc_def)
  next
    case (Some x)
    obtain c f r where "x = (c, f, r)" by (cases x) auto
    with False Some that(1) that(3) [OF _ Some] show thesis
      by (cases f) (simp_all add: ExecuteJSCallbackFunc_def)
  qed
qed

lemma card_dom_del: "finite (dom m) \<Longrightarrow> m k = Some e \<Longrightarrow> Suc (card (dom (m(k := None)))) = card (dom m)"
  using card_Suc_Diff1 [of "dom m" k] by (auto simp: domI)

lemma card_dom_filter:
  "finite (dom m) \<Longrightarrow>
     card (dom (\<lambda>k. case m k of None \<Rightarrow> None | Some e \<Rightarrow> if P e then None else Some e)) \<le> card (dom m)"
  by (rule card_mono) (auto split: option.splits)

lemma finite_dom_filter:
  "finite (dom m) \<Longrightarrow> finite (dom (\<lambda>k. case m k of None \<Rightarrow> None | Some e \<Rightarrow> if P e then None else Some e))"
  by (rule finite_subset [of _ "dom m"]) (auto split: option.splits)

interpretation bridge: guarded_machine bridge_step negatable bridge_ok
proof
  fix l :: "'v BridgeLog" and ev
  assume ok: "bridge_ok l" and n: "negatable l ev"
  show "\<exists>m. bridge_step l ev = Some m \<and> bridge_ok m"
  proof (cases ev)
    case (EvStartRequest cur i c f x)
    with ok show ?thesis
      by (cases rule: StartRequest_cases [of cur i c f x "bl_bridge l"])
         (auto simp: accept_def bridge_ok_def waiting_def card_insert_if domIff)
  next
    case (EvCallCppFunction cur n p f r)
    with ok show ?thesis
      by (cases rule: CallCppFunction_cases [of cur n p f r "bl_bridge l"])
         (auto simp: accept_def bridge_ok_def waiting_def card_insert_if domIff)
  next
    case (EvAnswer i e r)
    with n have "i \<noteq> int_min" by simp
    then show ?thesis
    proof (cases rule: ExecuteJSCallbackFunc_cases [of i e r "bl_bridge l"])
      case 1
      with ok EvAnswer show ?thesis by (simp add: deliver_def bridge_ok_def)
    next
      case (2 x s)
      from card_dom_del [where m = "startRequest_callback (bl_bridge l)", OF _ 2(2)] ok 2 EvAnswer show ?thesis
        by (auto simp: deliver_def bridge_ok_def waiting_def)
    next
      case (3 x s)
      from card_dom_del [where m = "render_callback (bl_bridge l)", OF _ 3(2)] ok 3 EvAnswer show ?thesis
        by (auto simp: deliver_def bridge_ok_def waiting_def)
    qed
  next
    case (EvFrameGone f c)
    with ok show ?thesis
      using card_dom_filter [of "render_callback (bl_bridge l)" "\<lambda>e. fst e = c"]
        card_dom_filter [of "startRequest_callback (bl_bridge l)" "\<lambda>e. fst e = f"]
      by (auto simp: bridge_ok_def waiting_def RemoveCallbackFuncWithFrame_def finite_dom_filter)
  qed
qed

definition bridge_start :: "'v BridgeLog" where
  "bridge_start = \<lparr>bl_bridge = CefJSBridge_init, bl_accepted = 0, bl_delivered = 0\<rparr>"

lemma bridge_start_ok: "bridge_ok bridge_start"
  by (simp add: bridge_start_def CefJSBridge_init_def bridge_ok_def waiting_def)

text \<open>C34. Every answer uses up a callback. Over any history of requests, function calls, answers and frames
  going away, in any order and with any identifiers but the one \<open>int\<close> that has no opposite, the bridge
  stays defined, and the answers delivered and the callbacks still waiting are together at most the
  callbacks accepted: no callback runs twice.\<close>

theorem answers_use_up_callbacks:
  assumes "disciplined bridge_step negatable bridge_start evs"
  shows "\<exists>l. run_option bridge_step bridge_start evs = Some l
           \<and> waiting (bl_bridge l) + bl_delivered l \<le> bl_accepted l"
  using bridge.guarded_run [OF bridge_start_ok assms] by (auto simp: bridge_ok_def)

theorem answers_use_up_callbacks_witness:
  "\<exists>l :: nat BridgeLog. run_option bridge_step bridge_start
      [EvStartRequest (Some (1, Some 2)) 7 ''c'' ''f'' ''x'', EvCallCppFunction (Some (1, Some 2)) ''n'' ''p'' (Some 3) None,
       EvAnswer (- 7) False ''r'', EvAnswer (- 7) False ''r'', EvAnswer 0 True ''r''] = Some l
     \<and> waiting (bl_bridge l) + bl_delivered l \<le> bl_accepted l"
proof -
  let ?evs = "[EvStartRequest (Some (1, Some 2)) 7 ''c'' ''f'' ''x'', EvCallCppFunction (Some (1, Some 2)) ''n'' ''p'' (Some 3) None,
       EvAnswer (- 7) False ''r'', EvAnswer (- 7) False ''r'', EvAnswer 0 True ''r''] :: nat BridgeEvent list"
  have "disciplined bridge_step negatable bridge_start ?evs" by code_simp
  then show ?thesis by (rule answers_use_up_callbacks)
qed

text \<open>The answer to a request runs the callback the page named, in the frame that asked, with the
  identifier the page chose, and only once. The request is sent under the opposite of its identifier;
  answering that identifier restores the bridge, and answering it again finds nothing.\<close>

theorem request_answered_once:
  assumes "0 < i" and "i \<le> 2147483647" and "f \<noteq> []" and "startRequest_callback b (- i) = None"
  shows "\<exists>b'. StartRequest (Some (c, Some frame)) i cmd f x b
               = (True, b', [SendToBrowser frame ''JSCallCppFunction''
                    [Some (ArgString cmd), Some (ArgString x), Some (ArgInt (- i))]])
           \<and> ExecuteJSCallbackFunc (- i) e r b' = Some (True, b, [ExecuteJavaScript frame (callback_code f i r)])
           \<and> ExecuteJSCallbackFunc (- i) e r b = Some (False, b, [])"
proof -
  have "(startRequest_callback b)(- i := None) = startRequest_callback b"
    using assms(4) by (simp add: fun_upd_idem)
  then show ?thesis using assms
    by (cases b) (simp add: StartRequest_def ExecuteJSCallbackFunc_def int_min_def Let_def)
qed

theorem request_answered_once_witness:
  "\<exists>b'. StartRequest (Some (1, Some 2)) 7 ''cmd'' ''f'' ''x'' (CefJSBridge_init :: nat CefJSBridge)
          = (True, b', [SendToBrowser 2 ''JSCallCppFunction''
               [Some (ArgString ''cmd''), Some (ArgString ''x''), Some (ArgInt (- 7))]])
      \<and> ExecuteJSCallbackFunc (- 7) False ''r'' b'
          = Some (True, CefJSBridge_init, [ExecuteJavaScript 2 (callback_code ''f'' 7 ''r'')])"
  using request_answered_once [of 7 "''f''" "CefJSBridge_init :: nat CefJSBridge" 1 2 "''cmd''" "''x''" False "''r''"]
  by (auto simp: CefJSBridge_init_def)

text \<open>A request with the identifier zero is never answered. It is accepted and kept under zero, but
  the answer to zero is looked up among the function calls: the request goes on waiting, and when the
  page's first \<open>jsCmd\<close> call is waiting, too, that call's callback gets the answer.\<close>

theorem zero_request_goes_astray:
  assumes "startRequest_callback b 0 = None"
  shows "\<exists>b'. StartRequest (Some (c, Some frame)) 0 cmd f x b
               = (True, b', [SendToBrowser frame ''JSCallCppFunction''
                    [Some (ArgString cmd), Some (ArgString x), Some (ArgInt 0)]])
           \<and> startRequest_callback b' 0 = Some (frame, f)
           \<and> (\<exists>ok b'' effects. ExecuteJSCallbackFunc 0 e r b' = Some (ok, b'', effects)
                \<and> startRequest_callback b'' 0 = Some (frame, f)
                \<and> effects = (case render_callback b 0 of
                               Some (context, Some g, raw) \<Rightarrow> [ExecuteFunction context g e r raw]
                             | _ \<Rightarrow> []))"
  using assms by (auto simp: StartRequest_def ExecuteJSCallbackFunc_def Let_def split: option.split prod.split)

theorem zero_request_goes_astray_witness:
  "\<exists>b'. StartRequest (Some (1, Some 2)) 0 ''cmd'' ''f'' ''x'' (CefJSBridge_init :: nat CefJSBridge)
          = (True, b', [SendToBrowser 2 ''JSCallCppFunction''
               [Some (ArgString ''cmd''), Some (ArgString ''x''), Some (ArgInt 0)]])
      \<and> startRequest_callback b' 0 = Some (2, ''f'')"
  using zero_request_goes_astray [of "CefJSBridge_init :: nat CefJSBridge" 1 2 "''cmd''" "''f''" "''x''"]
  by (fastforce simp: CefJSBridge_init_def)

text \<open>A \<open>jsCmd\<close> call with too few arguments reads past the end of the argument vector. The code checks
  for two; with two strings, and with three of which the third is no function, it looks at an argument
  that is not there.\<close>

theorem jsCmd_reads_past_end:
  assumes "v8_IsString v8 (args ! 0)" and "v8_IsString v8 (args ! 1)" and "\<not> v8_IsFunction v8 (args ! 1)"
    and "length args = 2 \<or> length args = 3 \<and> \<not> v8_IsFunction v8 (args ! 2)"
  shows "Execute v8 depth cur ''jsCmd'' args ids b = None"
  using assms by (auto simp: Execute_def Execute_jsCmd_def jsCmd_arguments_def arg_def Let_def)

definition sample_v8 :: "(nat \<times> string) V8" where
  "sample_v8 = \<lparr>v8_IsString = \<lambda>(k, _). k = 0, v8_IsInt = \<lambda>_. False, v8_IsBool = \<lambda>_. False, v8_IsDouble = \<lambda>_. False,
     v8_IsArray = \<lambda>(k, _). k = 1, v8_IsFunction = \<lambda>(k, _). k = 2, v8_GetStringValue = snd, v8_GetIntValue = \<lambda>_. 0,
     v8_GetBoolValue = \<lambda>_. False, v8_GetDoubleValue = \<lambda>_. 0, v8_GetArrayLength = \<lambda>_. 1,
     v8_GetValue = \<lambda>x _. x, wide_text = \<lambda>_. ''0x7f''\<rparr>"

theorem jsCmd_reads_past_end_witness:
  "Execute sample_v8 9 None ''jsCmd'' [(0, ''save''), (0, ''data'')] (s_nReqID_init :: 64 word) CefJSBridge_init = None"
  by (rule jsCmd_reads_past_end) (simp_all add: sample_v8_def)



text \<open>An array that contains itself is never converted: the page's call of \<open>EvaluateCallback\<close> with one
  recurses without end, whatever the depth the stack allows.\<close>

theorem self_containing_array_never_converts:
  assumes "v8_IsArray v8 x" and "i < v8_GetArrayLength v8 x" and "v8_GetValue v8 x i = x"
    and "\<not> v8_IsString v8 x" and "\<not> v8_IsInt v8 x" and "\<not> v8_IsBool v8 x" and "\<not> v8_IsDouble v8 x"
  shows "Execute v8 depth cur ''EvaluateCallback'' (name # x # rest) ids b = None"
proof -
  have none: "all_some xs = None" if "None \<in> set xs" for xs :: "JSValue option list"
    using that by (induction xs) (auto split: option.splits)
  have "ConvertCefV8ValueToJSValue v8 n x = None" for n
  proof (induction n)
    case (Suc n)
    have "None \<in> set (map (\<lambda>i. ConvertCefV8ValueToJSValue v8 n (v8_GetValue v8 x i)) [0..<v8_GetArrayLength v8 x])"
      using Suc assms(2,3) by (force simp: image_iff)
    from none [OF this] assms show ?case by simp
  qed simp
  then show ?thesis by (simp add: Execute_def Execute_EvaluateCallback_def arg_def)
qed

theorem self_containing_array_never_converts_witness:
  "Execute sample_v8 1000 None ''EvaluateCallback'' [(0, ''id''), (1, ''loop'')] (s_nReqID_init :: 64 word) CefJSBridge_init = None"
  by (rule self_containing_array_never_converts [where i = 0]) (simp_all add: sample_v8_def)

lemma sint_small:
  fixes w :: "'a::len word"
  assumes "uint w < 2 ^ (LENGTH('a) - 1)"
  shows "sint w = uint w"
proof -
  have "- (2 ^ (LENGTH('a) - 1)) \<le> (0 :: int)" by simp
  also have "0 \<le> uint w" by simp
  finally have "- (2 ^ (LENGTH('a) - 1)) \<le> uint w" .
  with assms show ?thesis by (simp add: sint_uint signed_take_bit_int_eq_self)
qed

text \<open>Request identifiers count up from the first: with a 64-bit counter, below the largest \<open>int\<close>,
  every call answers the next number. The call after the largest answers a negative one, although the
  code replaces negative values; so it does where \<open>long\<close> has 32 bits.\<close>

theorem request_ids_count_up:
  fixes s :: "64 word"
  shows "(unat s < 2147483647 \<longrightarrow> GetNextReqID s = (int (unat s) + 1, s + 1))
    \<and> fst (GetNextReqID (0x7FFFFFFF :: 64 word)) = - 2147483648
    \<and> fst (GetNextReqID (0x7FFFFFFF :: 32 word)) = - 2147483647"
proof -
  have "GetNextReqID s = (int (unat s) + 1, s + 1)" if "unat s < 2147483647"
  proof -
    have "uint s = int (unat s)" by (rule uint_nat)
    with that have l: "uint s < 2147483647" by linarith
    then have u: "uint (s + 1) = int (unat s) + 1"
      by (simp add: uint_word_ariths mod_pos_pos_trivial)
    with l have "sint (s + 1) = int (unat s) + 1" by (subst sint_small) simp_all
    moreover from u l have c: "uint (ucast (s + 1) :: u32) = int (unat s) + 1"
      by (simp add: unsigned_ucast_eq take_bit_int_eq_self)
    with l have "sint (ucast (s + 1) :: u32) = int (unat s) + 1" by (subst sint_small) simp_all
    ultimately show ?thesis by (simp add: GetNextReqID_def)
  qed
  moreover have "fst (GetNextReqID (0x7FFFFFFF :: 64 word)) = - 2147483648"
    by (simp add: GetNextReqID_def)
  moreover have "fst (GetNextReqID (0x7FFFFFFF :: 32 word)) = - 2147483647"
    by (simp add: GetNextReqID_def)
  ultimately show ?thesis by blast
qed

theorem request_ids_count_up_witness: "GetNextReqID (s_nReqID_init :: 64 word) = (1002, 1002)"
  using request_ids_count_up [of s_nReqID_init] by (simp add: s_nReqID_init_def)

end
