(* ===== verification/Webview_Handler.thy ===== *)
theory Webview_Handler
  imports Text_Format "HOL-Library.AList"
begin

text \<open>
  The browser side of the webview plugin: \<open>packages/webview_cef/common/webview_handler.cc\<close> and the
  cookie visitor it uses. The state is the table of browsers, the callbacks of evaluated JavaScript,
  and the one browser that has the keyboard. CEF is not part of the repository: a browser is known by
  its object, its identifier and whether it is a popup, and everything sent to it is an effect. The
  left side of a result is the way the code fails: a null browser that is dereferenced, an empty
  \<open>std::function\<close> that is called, a frame identifier that is no number.

  The table is an association list in the order of insertion; the code iterates an unordered map.
  \<open>WEBVIEW_CEF_GPU_TEXTURE\<close> and \<open>__APPLE__\<close> are the two flags of the build.
\<close>

section \<open>State\<close>

record CefBrowser =
  cb_object :: nat
  cb_identifier :: int
  cb_is_popup :: bool

record CefRect =
  r_x :: int
  r_y :: int
  r_width :: int
  r_height :: int

definition empty_rect :: CefRect where
  "empty_rect = \<lparr>r_x = 0, r_y = 0, r_width = 0, r_height = 0\<rparr>"

record browser_info =
  bi_browser :: "CefBrowser option"
  bi_width :: u32
  bi_height :: u32
  bi_dpi :: u32
  bi_is_dragging :: bool
  bi_prev_ime_position :: CefRect
  bi_is_ime_commit :: bool
  bi_wants_focus :: bool
  bi_focus_reasserted :: bool

text \<open>A float is its bits; the default scale is one.\<close>

definition browser_info_init :: browser_info where
  "browser_info_init =
     \<lparr>bi_browser = None, bi_width = 1, bi_height = 1, bi_dpi = 0x3F800000, bi_is_dragging = False,
      bi_prev_ime_position = empty_rect, bi_is_ime_commit = False, bi_wants_focus = False,
      bi_focus_reasserted = False\<rparr>"

datatype HandlerCallback =
    onPaintCallback | onAcceleratedPaintCallback | onUrlChangedEvent | onTitleChangedEvent
  | onCursorChangedEvent | onTooltipEvent | onConsoleMessageEvent | onFocusedNodeChangeMessage
  | onImeCompositionRangeChangedMessage | onJavaScriptChannelMessage | onLoadStart | onLoadEnd

record Build =
  gpu_texture :: bool
  apple :: bool

record WebviewHandler =
  browser_map :: "(int \<times> browser_info) list"
  js_callbacks :: "string \<rightharpoonup> nat"
  current_focused_browser :: "CefBrowser option"
  callback_set :: "HandlerCallback \<Rightarrow> bool"
  received_accelerated_frame :: bool
  gpu_warning_logged :: bool

definition WebviewHandler_init :: WebviewHandler where
  "WebviewHandler_init =
     \<lparr>browser_map = [], js_callbacks = Map.empty, current_focused_browser = None,
      callback_set = (\<lambda>_. False), received_accelerated_frame = False, gpu_warning_logged = False\<rparr>"

datatype HandlerError = NullBrowser | BadFunctionCall | InvalidFrameId

datatype MouseEvent = MouseEvent int int bool

record CefKeyEvent =
  key_type :: int
  windows_key_code :: int
  modifiers :: u32
  key_character :: "16 word"
  unmodified_character :: "16 word"
  native_key_code :: int
  is_system_key :: bool

text \<open>
  What is sent to a browser's host or main frame. \<open>ImeSetComposition t n k\<close> sets the text \<open>t\<close> with its first
  \<open>n\<close> units underlined (none for zero) and the caret after \<open>k\<close>.
\<close>

datatype HostCall =
    CloseBrowser bool
  | SendExternalBeginFrame
  | SendMouseWheel int int int int
  | WasResized
  | DragTargetDrop MouseEvent
  | DragSourceSystemDragEnded
  | SendMouseClick MouseEvent bool
  | DragTargetDragEnter MouseEvent
  | DragTargetDragOver MouseEvent
  | SendMouseMove MouseEvent
  | SendKeyEvent CefKeyEvent
  | LoadURL string
  | GoForward
  | GoBack
  | Reload
  | ShowDevTools
  | ImeSetComposition string nat nat
  | ImeCommitText string
  | ImeFinishComposingText
  | SetFocus bool
  | RunJavaScript string
  | SendCallbackMessage int bool string

datatype HandlerEffect =
    Host CefBrowser HostCall
  | Callback HandlerCallback int "string list" "int list"
  | RunJsCallback nat nat
  | PostToUi
  | Warn
  | SetCookie string string string string
  | DeleteCookies string string
  | VisitCookies "string option"
  | LoadDataURI string string
  | BrowserCreated int
  | PostDelayedWarning

type_synonym HandlerResult = "HandlerError + (WebviewHandler \<times> HandlerEffect list)"

abbreviation stay :: "WebviewHandler \<Rightarrow> HandlerResult" where
  "stay h \<equiv> Inr (h, [])"

section \<open>The table of browsers\<close>

definition find_browser :: "int \<Rightarrow> WebviewHandler \<Rightarrow> browser_info option" where
  "find_browser i h = map_of (browser_map h) i"

definition put_browser :: "int \<Rightarrow> browser_info \<Rightarrow> WebviewHandler \<Rightarrow> WebviewHandler" where
  "put_browser i b h = h\<lparr>browser_map := AList.update i b (browser_map h)\<rparr>"

definition erase_browser :: "int \<Rightarrow> WebviewHandler \<Rightarrow> WebviewHandler" where
  "erase_browser i h = h\<lparr>browser_map := AList.delete i (browser_map h)\<rparr>"

text \<open>\<open>it->second.browser->...\<close> for a browser that was found: a call on a null browser fails.\<close>

definition host_calls :: "browser_info \<Rightarrow> HostCall list \<Rightarrow> WebviewHandler \<Rightarrow> HandlerResult" where
  "host_calls b calls h =
     (case bi_browser b of None \<Rightarrow> Inl NullBrowser | Some c \<Rightarrow> Inr (h, map (Host c) calls))"

definition OnAfterCreated :: "CefBrowser \<Rightarrow> WebviewHandler \<Rightarrow> WebviewHandler" where
  "OnAfterCreated c h =
     (if cb_is_popup c then h
      else let b = (case find_browser (cb_identifier c) h of Some b \<Rightarrow> b | None \<Rightarrow> browser_info_init)
           in put_browser (cb_identifier c) (b\<lparr>bi_browser := Some c\<rparr>) h)"

definition closeBrowser :: "int \<Rightarrow> WebviewHandler \<Rightarrow> HandlerResult" where
  "closeBrowser i h =
     (case find_browser i h of
        None \<Rightarrow> stay h
      | Some b \<Rightarrow> host_calls b [CloseBrowser True] (erase_browser i h))"

fun close_each :: "bool \<Rightarrow> (int \<times> browser_info) list \<Rightarrow> HandlerError + HandlerEffect list" where
  "close_each force [] = Inr []"
| "close_each force ((i, b) # bs) =
     (case bi_browser b of
        None \<Rightarrow> Inl NullBrowser
      | Some c \<Rightarrow>
          (case close_each force bs of
             Inl e \<Rightarrow> Inl e
           | Inr effects \<Rightarrow> Inr (Host c (CloseBrowser force) # effects)))"

definition CloseAllBrowsers :: "bool \<Rightarrow> WebviewHandler \<Rightarrow> HandlerResult" where
  "CloseAllBrowsers force h =
     (case close_each force (browser_map h) of
        Inl e \<Rightarrow> Inl e
      | Inr effects \<Rightarrow> Inr (h\<lparr>browser_map := []\<rparr>, effects))"

definition with_browser :: "int \<Rightarrow> (browser_info \<Rightarrow> HandlerResult) \<Rightarrow> WebviewHandler \<Rightarrow> HandlerResult" where
  "with_browser i f h = (case find_browser i h of None \<Rightarrow> stay h | Some b \<Rightarrow> f b)"

section \<open>Events CEF delivers\<close>

definition call_back :: "HandlerCallback \<Rightarrow> int \<Rightarrow> string list \<Rightarrow> int list \<Rightarrow> WebviewHandler \<Rightarrow> HandlerResult" where
  "call_back c i ss ns h =
     (if callback_set h c then Inr (h, [Callback c i ss ns]) else Inl BadFunctionCall)"

definition call_back_if_set :: "HandlerCallback \<Rightarrow> int \<Rightarrow> string list \<Rightarrow> int list \<Rightarrow> WebviewHandler \<Rightarrow> bool \<times> HandlerResult" where
  "call_back_if_set c i ss ns h =
     (if callback_set h c then (True, Inr (h, [Callback c i ss ns])) else (False, stay h))"

definition OnTitleChange :: "CefBrowser \<Rightarrow> string \<Rightarrow> WebviewHandler \<Rightarrow> HandlerResult" where
  "OnTitleChange c title h = snd (call_back_if_set onTitleChangedEvent (cb_identifier c) [title] [] h)"

definition OnAddressChange :: "CefBrowser \<Rightarrow> string \<Rightarrow> WebviewHandler \<Rightarrow> HandlerResult" where
  "OnAddressChange c url h = snd (call_back_if_set onUrlChangedEvent (cb_identifier c) [url] [] h)"

definition OnCursorChange :: "CefBrowser \<Rightarrow> int \<Rightarrow> WebviewHandler \<Rightarrow> bool \<times> HandlerResult" where
  "OnCursorChange c type h = call_back_if_set onCursorChangedEvent (cb_identifier c) [] [type] h"

definition OnTooltip :: "CefBrowser \<Rightarrow> string \<Rightarrow> WebviewHandler \<Rightarrow> bool \<times> HandlerResult" where
  "OnTooltip c t h = call_back_if_set onTooltipEvent (cb_identifier c) [t] [] h"

definition OnConsoleMessage :: "CefBrowser \<Rightarrow> int \<Rightarrow> string \<Rightarrow> string \<Rightarrow> int \<Rightarrow> WebviewHandler \<Rightarrow> bool \<times> HandlerResult" where
  "OnConsoleMessage c level message source line h =
     (False, snd (call_back_if_set onConsoleMessageEvent (cb_identifier c) [message, source] [level, line] h))"

definition OnLoadStart :: "CefBrowser \<Rightarrow> string \<Rightarrow> WebviewHandler \<Rightarrow> HandlerResult" where
  "OnLoadStart c url h = snd (call_back_if_set onLoadStart (cb_identifier c) [url] [] h)"

definition OnLoadEnd :: "CefBrowser \<Rightarrow> string \<Rightarrow> WebviewHandler \<Rightarrow> HandlerResult" where
  "OnLoadEnd c url h = snd (call_back_if_set onLoadEnd (cb_identifier c) [url] [] h)"

definition after :: "HandlerResult \<Rightarrow> (WebviewHandler \<Rightarrow> HandlerResult) \<Rightarrow> HandlerResult" where
  "after r f =
     (case r of Inl e \<Rightarrow> Inl e
      | Inr (h, effects) \<Rightarrow> (case f h of Inl e \<Rightarrow> Inl e | Inr (h, more_effects) \<Rightarrow> Inr (h, effects @ more_effects)))"

text \<open>The three messages of the renderer process.\<close>

definition OnFocusedNodeChanged :: "CefBrowser \<Rightarrow> bool \<Rightarrow> int \<Rightarrow> int \<Rightarrow> int \<Rightarrow> WebviewHandler \<Rightarrow> HandlerResult" where
  "OnFocusedNodeChanged c editable x y height h =
     after (call_back onFocusedNodeChangeMessage (cb_identifier c) [] [of_bool editable]
              (h\<lparr>current_focused_browser := Some c\<rparr>))
       (\<lambda>h. if editable
            then call_back onImeCompositionRangeChangedMessage (cb_identifier c) [] [x, y, height] h
            else stay h)"

definition OnJSCallCppFunction ::
    "CefBrowser option \<Rightarrow> string \<Rightarrow> string \<Rightarrow> string \<Rightarrow> int \<Rightarrow> WebviewHandler \<Rightarrow> HandlerResult" where
  "OnJSCallCppFunction c frame fun_name param js_callback_id h =
     (case c of
        None \<Rightarrow> stay h
      | Some c \<Rightarrow>
          if fun_name = [] then stay h
          else call_back onJavaScriptChannelMessage (cb_identifier c)
                 [fun_name, param, show_int js_callback_id, frame] [] h)"

definition OnEvaluateCallback :: "string \<Rightarrow> nat \<Rightarrow> WebviewHandler \<Rightarrow> HandlerResult" where
  "OnEvaluateCallback callbackId param h =
     (if callbackId = [] then stay h
      else case js_callbacks h callbackId of
             None \<Rightarrow> stay h
           | Some f \<Rightarrow> Inr (h\<lparr>js_callbacks := (js_callbacks h)(callbackId := None)\<rparr>, [RunJsCallback f param]))"

section \<open>Life of a browser\<close>

text \<open>
  A popup is not opened: its address is loaded in the browser that asked. Taking the focus blurs the
  page. An aborted load is no error; any other one shows a page made of the failure.
\<close>

definition err_aborted :: int where "err_aborted = - 3"

definition loadUrl :: "int \<Rightarrow> string \<Rightarrow> WebviewHandler \<Rightarrow> HandlerResult" where
  "loadUrl i url h = with_browser i (\<lambda>b. host_calls b [LoadURL url] h) h"

definition OnBeforePopup :: "CefBrowser \<Rightarrow> string \<Rightarrow> WebviewHandler \<Rightarrow> bool \<times> HandlerResult" where
  "OnBeforePopup c target_url h = (True, loadUrl (cb_identifier c) target_url h)"

definition load_error_page :: "string \<Rightarrow> string \<Rightarrow> int \<Rightarrow> string" where
  "load_error_page failedUrl errorText errorCode =
     ''<html><body bgcolor='' @ [dquote] @ ''white'' @ [dquote] @ ''><h2>Failed to load URL '' @ failedUrl
     @ '' with error '' @ errorText @ '' ('' @ show_int errorCode @ '').</h2></body></html>''"

definition OnLoadError :: "int \<Rightarrow> string \<Rightarrow> string \<Rightarrow> WebviewHandler \<Rightarrow> HandlerResult" where
  "OnLoadError errorCode errorText failedUrl h =
     (if errorCode = err_aborted then stay h
      else Inr (h, [LoadDataURI ''text/html'' (load_error_page failedUrl errorText errorCode)]))"

text \<open>\<open>created\<close> is the browser \<open>CreateBrowserSync\<close> answers, null when it fails.\<close>

definition createBrowser :: "Build \<Rightarrow> bool \<Rightarrow> CefBrowser option \<Rightarrow> WebviewHandler \<Rightarrow> HandlerResult" where
  "createBrowser build on_ui created h =
     (if \<not> apple build \<and> \<not> on_ui then Inr (h, [PostToUi])
      else case created of
             None \<Rightarrow> Inl NullBrowser
           | Some c \<Rightarrow>
               Inr (h, BrowserCreated (cb_identifier c) # (if gpu_texture build then [PostDelayedWarning] else [])))"

definition warnIfNoAcceleratedFrame :: "Build \<Rightarrow> WebviewHandler \<Rightarrow> HandlerResult" where
  "warnIfNoAcceleratedFrame build h =
     (if gpu_texture build \<and> \<not> received_accelerated_frame h \<and> \<not> gpu_warning_logged h
      then Inr (h\<lparr>gpu_warning_logged := True\<rparr>, [Warn]) else stay h)"

definition sendExternalBeginFrame :: "Build \<Rightarrow> bool \<Rightarrow> WebviewHandler \<Rightarrow> HandlerResult" where
  "sendExternalBeginFrame build on_ui h =
     (if \<not> gpu_texture build then stay h
      else if \<not> on_ui then Inr (h, [PostToUi])
      else Inr (h, List.map_filter (\<lambda>(i, b). map_option (\<lambda>c. Host c SendExternalBeginFrame) (bi_browser b))
                     (browser_map h)))"

section \<open>Input\<close>

definition sendScrollEvent :: "Build \<Rightarrow> int \<Rightarrow> int \<Rightarrow> int \<Rightarrow> int \<Rightarrow> int \<Rightarrow> WebviewHandler \<Rightarrow> HandlerResult" where
  "sendScrollEvent build i x y deltaX deltaY h =
     with_browser i (\<lambda>b. host_calls b
       [if apple build then SendMouseWheel x y deltaX deltaY
        else SendMouseWheel x y (deltaX * 10) (- deltaY * 10)] h) h"

definition changeSize :: "int \<Rightarrow> u32 \<Rightarrow> int \<Rightarrow> int \<Rightarrow> WebviewHandler \<Rightarrow> HandlerResult" where
  "changeSize i a_dpi w he h =
     with_browser i (\<lambda>b.
       let b = b\<lparr>bi_dpi := a_dpi, bi_width := of_int w, bi_height := of_int he\<rparr>
       in host_calls b [WasResized] (put_browser i b h)) h"

definition cursorClick :: "int \<Rightarrow> int \<Rightarrow> int \<Rightarrow> bool \<Rightarrow> WebviewHandler \<Rightarrow> HandlerResult" where
  "cursorClick i x y up h =
     with_browser i (\<lambda>b.
       let ev = MouseEvent x y True
       in if up \<and> bi_is_dragging b
          then host_calls b [DragTargetDrop ev, DragSourceSystemDragEnded]
                 (put_browser i (b\<lparr>bi_is_dragging := False\<rparr>) h)
          else host_calls b [SendMouseClick ev up] h) h"

definition cursorMove :: "int \<Rightarrow> int \<Rightarrow> int \<Rightarrow> bool \<Rightarrow> WebviewHandler \<Rightarrow> HandlerResult" where
  "cursorMove i x y dragging h =
     with_browser i (\<lambda>b.
       let ev = MouseEvent x y dragging
       in host_calls b [if bi_is_dragging b \<and> dragging then DragTargetDragOver ev else SendMouseMove ev] h) h"

definition StartDragging :: "CefBrowser \<Rightarrow> int \<Rightarrow> int \<Rightarrow> WebviewHandler \<Rightarrow> HandlerResult" where
  "StartDragging c x y h =
     with_browser (cb_identifier c) (\<lambda>b.
       case bi_browser b of
         None \<Rightarrow> Inl NullBrowser
       | Some d \<Rightarrow>
           if cb_object d = cb_object c
           then host_calls b [DragTargetDragEnter (MouseEvent x y True)]
                  (put_browser (cb_identifier c) (b\<lparr>bi_is_dragging := True\<rparr>) h)
           else stay h) h"

definition goForward :: "int \<Rightarrow> WebviewHandler \<Rightarrow> HandlerResult" where
  "goForward i h = with_browser i (\<lambda>b. host_calls b [GoForward] h) h"

definition goBack :: "int \<Rightarrow> WebviewHandler \<Rightarrow> HandlerResult" where
  "goBack i h = with_browser i (\<lambda>b. host_calls b [GoBack] h) h"

definition reload :: "int \<Rightarrow> WebviewHandler \<Rightarrow> HandlerResult" where
  "reload i h = with_browser i (\<lambda>b. host_calls b [Reload] h) h"

definition openDevTools :: "int \<Rightarrow> WebviewHandler \<Rightarrow> HandlerResult" where
  "openDevTools i h = with_browser i (\<lambda>b. host_calls b [ShowDevTools] h) h"

section \<open>Keyboard and input methods\<close>

text \<open>A found browser that is null is passed over here. Lengths are in UTF-16 units.\<close>

definition live_calls :: "browser_info \<Rightarrow> HostCall list \<Rightarrow> WebviewHandler \<Rightarrow> WebviewHandler \<Rightarrow> HandlerResult" where
  "live_calls b calls h' h =
     (case bi_browser b of None \<Rightarrow> stay h | Some c \<Rightarrow> Inr (h', map (Host c) calls))"

definition focused_calls :: "HostCall list \<Rightarrow> WebviewHandler \<Rightarrow> HandlerResult" where
  "focused_calls calls h =
     (case current_focused_browser h of None \<Rightarrow> stay h | Some c \<Rightarrow> Inr (h, map (Host c) calls))"

definition sendKeyEvent :: "CefKeyEvent \<Rightarrow> WebviewHandler \<Rightarrow> HandlerResult" where
  "sendKeyEvent ev h = focused_calls [SendKeyEvent ev] h"

definition imeSetComposition :: "int \<Rightarrow> string \<Rightarrow> nat \<Rightarrow> WebviewHandler \<Rightarrow> HandlerResult" where
  "imeSetComposition i t len h =
     with_browser i (\<lambda>b. live_calls b [ImeSetComposition t len len] h h) h"

definition imeCommitText :: "int \<Rightarrow> string \<Rightarrow> nat \<Rightarrow> WebviewHandler \<Rightarrow> HandlerResult" where
  "imeCommitText i t len h =
     with_browser i (\<lambda>b.
       live_calls b [ImeSetComposition t 0 len, ImeCommitText t]
         (put_browser i (b\<lparr>bi_is_ime_commit := True\<rparr>) h) h) h"

definition setClientFocus :: "int \<Rightarrow> bool \<Rightarrow> WebviewHandler \<Rightarrow> HandlerResult" where
  "setClientFocus i focus h =
     with_browser i (\<lambda>b.
       live_calls b [SetFocus focus]
         (put_browser i (b\<lparr>bi_wants_focus := focus,
            bi_focus_reasserted := (if focus then False else bi_focus_reasserted b)\<rparr>) h) h) h"

definition on_ui_thread :: "bool \<Rightarrow> WebviewHandler \<Rightarrow> HandlerResult \<Rightarrow> HandlerResult" where
  "on_ui_thread on_ui h r = (if on_ui then r else Inr (h, [PostToUi]))"

definition imeSetCompositionNative :: "bool \<Rightarrow> string \<Rightarrow> nat \<Rightarrow> int \<Rightarrow> WebviewHandler \<Rightarrow> HandlerResult" where
  "imeSetCompositionNative on_ui t len cursor h =
     on_ui_thread on_ui h
       (let caret = (if cursor < 0 \<or> int len < cursor then len else nat cursor)
        in focused_calls [ImeSetComposition t len caret] h)"

definition imeCommitTextNative :: "bool \<Rightarrow> string \<Rightarrow> WebviewHandler \<Rightarrow> HandlerResult" where
  "imeCommitTextNative on_ui t h = on_ui_thread on_ui h (focused_calls [ImeCommitText t] h)"

definition imeFinishComposition :: "bool \<Rightarrow> WebviewHandler \<Rightarrow> HandlerResult" where
  "imeFinishComposition on_ui h = on_ui_thread on_ui h (focused_calls [ImeFinishComposingText] h)"

definition OnImeCompositionRangeChanged :: "CefBrowser \<Rightarrow> CefRect list \<Rightarrow> WebviewHandler \<Rightarrow> HandlerResult" where
  "OnImeCompositionRangeChanged c bounds h =
     (case find_browser (cb_identifier c) h of
        None \<Rightarrow> stay h
      | Some b \<Rightarrow>
          if bi_browser b = None \<or> cb_is_popup c \<or> bounds = [] then stay h
          else if bi_is_ime_commit b
          then let r = last bounds; h' = put_browser (cb_identifier c)
                     (b\<lparr>bi_prev_ime_position := r, bi_is_ime_commit := False\<rparr>) h
               in call_back onImeCompositionRangeChangedMessage (cb_identifier c) []
                    [r_x r + r_width r, r_y r + r_height r, r_height r] h'
          else let r = hd bounds
               in if r = bi_prev_ime_position b then stay h
                  else call_back onImeCompositionRangeChangedMessage (cb_identifier c) []
                         [r_x r, r_y r + r_height r, r_height r]
                         (put_browser (cb_identifier c) (b\<lparr>bi_prev_ime_position := r\<rparr>) h))"

section \<open>Cookies\<close>

definition http_domain :: "string \<Rightarrow> string" where
  "http_domain domain = ''https://'' @ domain @ ''/cookiestorage''"

text \<open>The cookie carries the path \<open>/\<close>, its name and value, and its domain when one is given.\<close>

definition setCookie :: "bool \<Rightarrow> string \<Rightarrow> string \<Rightarrow> string \<Rightarrow> HandlerEffect list" where
  "setCookie manager domain key v =
     (if manager then [SetCookie (http_domain domain) domain key v] else [])"

definition deleteCookie :: "bool \<Rightarrow> string \<Rightarrow> string \<Rightarrow> HandlerEffect list" where
  "deleteCookie manager domain key =
     (if manager then [DeleteCookies (http_domain domain) key] else [])"

definition visitAllCookies :: "bool \<Rightarrow> HandlerEffect list" where
  "visitAllCookies manager = (if manager then [VisitCookies None] else [])"

definition visitUrlCookies :: "bool \<Rightarrow> string \<Rightarrow> HandlerEffect list" where
  "visitUrlCookies manager domain = (if manager then [VisitCookies (Some (http_domain domain))] else [])"

record CefCookie =
  ck_domain :: string
  ck_name :: string
  ck_value :: string

record CookieVisitor =
  m_vecAllCookies :: "CefCookie list"
  visit_completed :: "(string \<Rightarrow> string \<Rightarrow> string option) list"

definition CookieVisitor_init :: CookieVisitor where
  "CookieVisitor_init = \<lparr>m_vecAllCookies = [], visit_completed = []\<rparr>"

definition getVisitedCookies :: "CefCookie list \<Rightarrow> string \<Rightarrow> string \<Rightarrow> string option" where
  "getVisitedCookies cookies =
     foldl (\<lambda>ret k. ret(ck_domain k := (ret (ck_domain k))(ck_name k \<mapsto> ck_value k))) (\<lambda>_. Map.empty) cookies"

text \<open>\<open>visit_completed\<close> is what the completion function has been called with.\<close>

definition Visit :: "CookieVisitor \<Rightarrow> CefCookie \<Rightarrow> int \<Rightarrow> int \<Rightarrow> bool \<times> CookieVisitor" where
  "Visit v k count num_total =
     (let cookies = (if count = 0 then [] else m_vecAllCookies v) @ [k];
          v = v\<lparr>m_vecAllCookies := cookies\<rparr>;
          v = (if count = num_total - 1 then v\<lparr>visit_completed := visit_completed v @ [getVisitedCookies cookies]\<rparr> else v)
      in (count \<noteq> num_total, v))"

section \<open>JavaScript\<close>

text \<open>
  \<open>executeJavaScript\<close> wraps code whose result is wanted into a call of the bridge, under an
  identifier that is the system clock in nanoseconds; \<open>clock\<close> is its reading, \<open>has_frame\<close> whether
  the browser has a main frame.
\<close>

definition evaluate_code :: "string \<Rightarrow> string \<Rightarrow> string" where
  "evaluate_code callbackId code =
     ''external.EvaluateCallback('' @ [CHR 0x27] @ callbackId @ [CHR 0x27] @ '',(function(){return '' @ code @ ''})());''"

definition executeJavaScript :: "int \<Rightarrow> string \<Rightarrow> nat option \<Rightarrow> bool \<Rightarrow> int \<Rightarrow> WebviewHandler \<Rightarrow> HandlerResult" where
  "executeJavaScript i code callback has_frame clock h =
     (if code = [] then stay h
      else case find_browser i h of
             None \<Rightarrow> stay h
           | Some b \<Rightarrow>
               (case bi_browser b of
                  None \<Rightarrow> stay h
                | Some c \<Rightarrow>
                    if \<not> has_frame then stay h
                    else case callback of
                           None \<Rightarrow> Inr (h, [Host c (RunJavaScript code)])
                         | Some f \<Rightarrow>
                             let callbackId = show_int clock
                             in Inr (h\<lparr>js_callbacks := (js_callbacks h)(callbackId \<mapsto> f)\<rparr>,
                                     [Host c (RunJavaScript (evaluate_code callbackId code))])))"

definition OnTakeFocus :: "CefBrowser \<Rightarrow> bool \<Rightarrow> int \<Rightarrow> WebviewHandler \<Rightarrow> HandlerResult" where
  "OnTakeFocus c has_frame clock h =
     executeJavaScript (cb_identifier c) ''document.activeElement.blur()'' None has_frame clock h"

definition channel_code :: "string \<Rightarrow> string" where
  "channel_code channel =
     channel @ '' = (e,r) => {external.JavaScriptChannel('' @ [CHR 0x27] @ channel @ [CHR 0x27] @ '',e,r)};''"

definition setJavaScriptChannels :: "int \<Rightarrow> string list \<Rightarrow> bool \<Rightarrow> int \<Rightarrow> WebviewHandler \<Rightarrow> HandlerResult" where
  "setJavaScriptChannels i channels has_frame clock h =
     executeJavaScript i
       (''try{'' @ concat (map channel_code channels) @ ''}catch(e){console.log(e);}'') None has_frame clock h"

text \<open>
  The integers at the start of a text: \<open>strtol\<close> with 64-bit saturation for \<open>atoi\<close>, which cuts it to
  32 bits, and \<open>atoll\<close>; \<open>std::stoll\<close> throws without digits and out of range.
\<close>

definition leading_int :: "string \<Rightarrow> int option" where
  "leading_int s =
     (let t = dropWhile is_space s;
          neg = (t \<noteq> [] \<and> hd t = CHR ''-'');
          u = (if t \<noteq> [] \<and> (hd t = CHR ''-'' \<or> hd t = CHR ''+'') then tl t else t);
          ds = takeWhile is_digit u
      in if ds = [] then None else Some (if neg then - int (read_nat ds) else int (read_nat ds)))"

definition saturate64 :: "int \<Rightarrow> int" where
  "saturate64 n = max (- (2 ^ 63)) (min (2 ^ 63 - 1) n)"

definition atoll :: "string \<Rightarrow> int" where
  "atoll s = (case leading_int s of None \<Rightarrow> 0 | Some n \<Rightarrow> saturate64 n)"

definition atoi :: "string \<Rightarrow> int" where
  "atoi s = sint (word_of_int (atoll s) :: u32)"

definition stoll :: "string \<Rightarrow> int option" where
  "stoll s = (case leading_int s of None \<Rightarrow> None | Some n \<Rightarrow> if saturate64 n = n then Some n else None)"

definition sendJavaScriptChannelCallBack ::
    "bool \<Rightarrow> string \<Rightarrow> string \<Rightarrow> int \<Rightarrow> string \<Rightarrow> string \<Rightarrow> WebviewHandler \<Rightarrow> HandlerResult" where
  "sendJavaScriptChannelCallBack error result callbackId i frameId main_frame_id h =
     with_browser i (\<lambda>b.
       case bi_browser b of
         None \<Rightarrow> Inl NullBrowser
       | Some c \<Rightarrow>
           (case stoll main_frame_id of
              None \<Rightarrow> Inl InvalidFrameId
            | Some n \<Rightarrow>
                if n = atoll frameId
                then Inr (h, [Host c (SendCallbackMessage (atoi callbackId) error result)])
                else stay h)) h"

section \<open>Painting\<close>

definition int_of_u32 :: "u32 \<Rightarrow> int" where
  "int_of_u32 w = sint w"

definition GetViewRect :: "CefBrowser \<Rightarrow> CefRect \<Rightarrow> WebviewHandler \<Rightarrow> CefRect" where
  "GetViewRect c rect h =
     (case find_browser (cb_identifier c) h of
        None \<Rightarrow> rect
      | Some b \<Rightarrow>
          if bi_browser b = None \<or> cb_is_popup c then rect
          else \<lparr>r_x = 0, r_y = 0, r_width = (if bi_width b < 1 then 1 else int_of_u32 (bi_width b)),
                r_height = (if bi_height b < 1 then 1 else int_of_u32 (bi_height b))\<rparr>)"

text \<open>\<open>browser_map_[id]\<close> makes an entry for an identifier that has none.\<close>

definition GetScreenInfo :: "CefBrowser \<Rightarrow> WebviewHandler \<Rightarrow> u32 \<times> WebviewHandler" where
  "GetScreenInfo c h =
     (case find_browser (cb_identifier c) h of
        Some b \<Rightarrow> (bi_dpi b, h)
      | None \<Rightarrow> (bi_dpi browser_info_init, put_browser (cb_identifier c) browser_info_init h))"

definition OnPaint :: "CefBrowser \<Rightarrow> int \<Rightarrow> int \<Rightarrow> WebviewHandler \<Rightarrow> HandlerResult" where
  "OnPaint c w he h =
     (if \<not> cb_is_popup c \<and> callback_set h onPaintCallback
      then Inr (h, [Callback onPaintCallback (cb_identifier c) [] [w, he]]) else stay h)"

definition OnAcceleratedPaint :: "Build \<Rightarrow> CefBrowser \<Rightarrow> int \<Rightarrow> WebviewHandler \<Rightarrow> HandlerResult" where
  "OnAcceleratedPaint build c format h =
     (if \<not> gpu_texture build \<or> cb_is_popup c \<or> \<not> callback_set h onAcceleratedPaintCallback then stay h
      else let h = h\<lparr>received_accelerated_frame := True\<rparr>;
               paint = (\<lambda>w he. [Callback onAcceleratedPaintCallback (cb_identifier c) []
                                  [int_of_u32 w, int_of_u32 he, format]])
           in case find_browser (cb_identifier c) h of
                None \<Rightarrow> Inr (h, paint 0 0)
              | Some b \<Rightarrow>
                  if bi_wants_focus b \<and> \<not> bi_focus_reasserted b
                  then after (host_calls b [SetFocus True]
                                (put_browser (cb_identifier c) (b\<lparr>bi_focus_reasserted := True\<rparr>) h))
                         (\<lambda>h. Inr (h, paint (bi_width b) (bi_height b)))
                  else Inr (h, paint (bi_width b) (bi_height b)))"

section \<open>Histories\<close>

text \<open>
  What the plugin asks for one browser, by its identifier; what CEF reports of a browser; and the
  rest.
\<close>

datatype BrowserRequest =
    EvCloseBrowser
  | EvScroll int int int int
  | EvChangeSize u32 int int
  | EvClick int int bool
  | EvMove int int bool
  | EvLoadUrl string
  | EvForward
  | EvBack
  | EvReload
  | EvDevTools
  | EvImeSet string nat
  | EvImeCommit string nat
  | EvSetFocus bool
  | EvExecute string "nat option" bool int
  | EvChannels "string list" bool int
  | EvChannelAnswer bool string string string string

datatype CefReport =
    EvAfterCreated
  | EvTitle string
  | EvAddress string
  | EvCursor int
  | EvTooltip string
  | EvConsole int string string int
  | EvLoadStart string
  | EvLoadEnd string
  | EvFocusedNode bool int int int
  | EvPopup string
  | EvTakeFocus bool int
  | EvStartDragging int int
  | EvImeRange "CefRect list"
  | EvScreenInfo
  | EvPaint int int
  | EvAcceleratedPaint int

datatype HandlerEvent =
    Request int BrowserRequest
  | Report CefBrowser CefReport
  | EvCloseAll bool
  | EvLoadError int string string
  | EvJSCall "CefBrowser option" string string string int
  | EvEvaluated string nat
  | EvCreate bool "CefBrowser option"
  | EvWarn
  | EvBeginFrame bool
  | EvKey CefKeyEvent
  | EvImeSetNative bool string nat int
  | EvImeCommitNative bool string
  | EvImeFinish bool

primrec handle_request :: "Build \<Rightarrow> int \<Rightarrow> WebviewHandler \<Rightarrow> BrowserRequest \<Rightarrow> HandlerResult" where
  "handle_request build i h EvCloseBrowser = closeBrowser i h"
| "handle_request build i h (EvScroll x y dx dy) = sendScrollEvent build i x y dx dy h"
| "handle_request build i h (EvChangeSize d w he) = changeSize i d w he h"
| "handle_request build i h (EvClick x y up) = cursorClick i x y up h"
| "handle_request build i h (EvMove x y d) = cursorMove i x y d h"
| "handle_request build i h (EvLoadUrl u) = loadUrl i u h"
| "handle_request build i h EvForward = goForward i h"
| "handle_request build i h EvBack = goBack i h"
| "handle_request build i h EvReload = reload i h"
| "handle_request build i h EvDevTools = openDevTools i h"
| "handle_request build i h (EvImeSet t n) = imeSetComposition i t n h"
| "handle_request build i h (EvImeCommit t n) = imeCommitText i t n h"
| "handle_request build i h (EvSetFocus f) = setClientFocus i f h"
| "handle_request build i h (EvExecute code f fr t) = executeJavaScript i code f fr t h"
| "handle_request build i h (EvChannels cs fr t) = setJavaScriptChannels i cs fr t h"
| "handle_request build i h (EvChannelAnswer e r k f m) = sendJavaScriptChannelCallBack e r k i f m h"

primrec handle_report :: "Build \<Rightarrow> CefBrowser \<Rightarrow> WebviewHandler \<Rightarrow> CefReport \<Rightarrow> HandlerResult" where
  "handle_report build c h EvAfterCreated = stay (OnAfterCreated c h)"
| "handle_report build c h (EvTitle t) = OnTitleChange c t h"
| "handle_report build c h (EvAddress t) = OnAddressChange c t h"
| "handle_report build c h (EvCursor k) = snd (OnCursorChange c k h)"
| "handle_report build c h (EvTooltip t) = snd (OnTooltip c t h)"
| "handle_report build c h (EvConsole l m s n) = snd (OnConsoleMessage c l m s n h)"
| "handle_report build c h (EvLoadStart t) = OnLoadStart c t h"
| "handle_report build c h (EvLoadEnd t) = OnLoadEnd c t h"
| "handle_report build c h (EvFocusedNode ed x y he) = OnFocusedNodeChanged c ed x y he h"
| "handle_report build c h (EvPopup u) = snd (OnBeforePopup c u h)"
| "handle_report build c h (EvTakeFocus f t) = OnTakeFocus c f t h"
| "handle_report build c h (EvStartDragging x y) = StartDragging c x y h"
| "handle_report build c h (EvImeRange bs) = OnImeCompositionRangeChanged c bs h"
| "handle_report build c h EvScreenInfo = stay (snd (GetScreenInfo c h))"
| "handle_report build c h (EvPaint w he) = OnPaint c w he h"
| "handle_report build c h (EvAcceleratedPaint f) = OnAcceleratedPaint build c f h"

primrec handle :: "Build \<Rightarrow> WebviewHandler \<Rightarrow> HandlerEvent \<Rightarrow> HandlerResult" where
  "handle build h (Request i r) = handle_request build i h r"
| "handle build h (Report c r) = handle_report build c h r"
| "handle build h (EvCloseAll force) = CloseAllBrowsers force h"
| "handle build h (EvLoadError e t u) = OnLoadError e t u h"
| "handle build h (EvJSCall c fr f p k) = OnJSCallCppFunction c fr f p k h"
| "handle build h (EvEvaluated k p) = OnEvaluateCallback k p h"
| "handle build h (EvCreate ui c) = createBrowser build ui c h"
| "handle build h EvWarn = warnIfNoAcceleratedFrame build h"
| "handle build h (EvBeginFrame ui) = sendExternalBeginFrame build ui h"
| "handle build h (EvKey k) = sendKeyEvent k h"
| "handle build h (EvImeSetNative ui t n k) = imeSetCompositionNative ui t n k h"
| "handle build h (EvImeCommitNative ui t) = imeCommitTextNative ui t h"
| "handle build h (EvImeFinish ui) = imeFinishComposition ui h"

definition handler_step :: "Build \<Rightarrow> WebviewHandler \<Rightarrow> HandlerEvent \<Rightarrow> WebviewHandler option" where
  "handler_step build h ev = (case handle build h ev of Inl e \<Rightarrow> None | Inr (h, _) \<Rightarrow> Some h)"

text \<open>
  The discipline that keeps the handler defined: CEF asks for the screen of a browser only while the
  table has it, a created browser is not null, a main frame's identifier starts with a number, and the
  three callbacks that are called without a check are set.
\<close>

fun expected :: "WebviewHandler \<Rightarrow> HandlerEvent \<Rightarrow> bool" where
  "expected h (Report c r) \<longleftrightarrow> (r = EvScreenInfo \<longrightarrow> find_browser (cb_identifier c) h \<noteq> None)"
| "expected h (EvCreate ui c) \<longleftrightarrow> c \<noteq> None"
| "expected h (Request i r) \<longleftrightarrow> (case r of EvChannelAnswer e a k f m \<Rightarrow> stoll m \<noteq> None | _ \<Rightarrow> True)"
| "expected h _ \<longleftrightarrow> True"

definition callbacks_set :: "WebviewHandler \<Rightarrow> bool" where
  "callbacks_set h \<longleftrightarrow> callback_set h onFocusedNodeChangeMessage
     \<and> callback_set h onImeCompositionRangeChangedMessage \<and> callback_set h onJavaScriptChannelMessage"

definition live_table :: "(int \<times> browser_info) list \<Rightarrow> bool" where
  "live_table bs \<longleftrightarrow> (\<forall>(i, b) \<in> set bs. bi_browser b \<noteq> None)"

definition handler_ok :: "WebviewHandler \<Rightarrow> bool" where
  "handler_ok h \<longleftrightarrow> live_table (browser_map h) \<and> callbacks_set h"

lemma find_put [simp]: "find_browser j (put_browser i b h) = (if j = i then Some b else find_browser j h)"
  by (simp add: find_browser_def put_browser_def update_conv')

lemma find_erase [simp]: "find_browser j (erase_browser i h) = (if j = i then None else find_browser j h)"
  by (simp add: find_browser_def erase_browser_def delete_conv')

lemma callback_set_put [simp]:
  "callback_set (put_browser i b h) = callback_set h" "callback_set (erase_browser i h) = callback_set h"
  by (simp_all add: put_browser_def erase_browser_def)

lemma live_table_simps [simp]:
  "live_table []"
  "live_table ((i, b) # bs) \<longleftrightarrow> bi_browser b \<noteq> None \<and> live_table bs"
  by (auto simp: live_table_def)

lemma live_table_update: "live_table bs \<Longrightarrow> bi_browser b \<noteq> None \<Longrightarrow> live_table (AList.update i b bs)"
  by (induction bs) auto

lemma live_table_delete: "live_table bs \<Longrightarrow> live_table (AList.delete i bs)"
  by (induction bs) auto

lemma live_table_find: "live_table bs \<Longrightarrow> map_of bs i = Some b \<Longrightarrow> bi_browser b \<noteq> None"
  by (auto simp: live_table_def dest!: map_of_SomeD)

lemma handler_ok_put: "handler_ok h \<Longrightarrow> bi_browser b \<noteq> None \<Longrightarrow> handler_ok (put_browser i b h)"
  by (simp add: handler_ok_def callbacks_set_def) (simp add: put_browser_def live_table_update)

lemma handler_ok_erase: "handler_ok h \<Longrightarrow> handler_ok (erase_browser i h)"
  by (simp add: handler_ok_def callbacks_set_def) (simp add: erase_browser_def live_table_delete)

lemma handler_ok_find: "handler_ok h \<Longrightarrow> find_browser i h = Some b \<Longrightarrow> \<exists>c. bi_browser b = Some c"
  using live_table_find by (fastforce simp: handler_ok_def find_browser_def)

lemma handler_ok_fields [simp]:
  "handler_ok (h\<lparr>current_focused_browser := f\<rparr>) = handler_ok h"
  "handler_ok (h\<lparr>js_callbacks := m\<rparr>) = handler_ok h"
  "handler_ok (h\<lparr>received_accelerated_frame := r\<rparr>) = handler_ok h"
  "handler_ok (h\<lparr>gpu_warning_logged := g\<rparr>) = handler_ok h"
  "handler_ok h \<Longrightarrow> handler_ok (h\<lparr>browser_map := []\<rparr>)"
  by (simp_all add: handler_ok_def callbacks_set_def)

definition defined_ok :: "HandlerResult \<Rightarrow> bool" where
  "defined_ok r = (case r of Inl e \<Rightarrow> False | Inr (h, _) \<Rightarrow> handler_ok h)"

lemma defined_ok_Inr [simp]: "defined_ok (Inr (h, es)) = handler_ok h"
  by (simp add: defined_ok_def)

lemma close_each_defined: "live_table bs \<Longrightarrow> \<exists>es. close_each force bs = Inr es"
  by (induction bs) auto

lemma with_browser_ok:
  assumes "handler_ok h" and "\<And>b c. find_browser i h = Some b \<Longrightarrow> bi_browser b = Some c \<Longrightarrow> defined_ok (f b)"
  shows "defined_ok (with_browser i f h)"
proof (cases "find_browser i h")
  case None
  with assms(1) show ?thesis by (simp add: with_browser_def)
next
  case (Some b)
  with handler_ok_find [OF assms(1) Some] assms(2) [OF Some] show ?thesis by (auto simp: with_browser_def)
qed

lemma host_calls_ok: "bi_browser b = Some c \<Longrightarrow> handler_ok h \<Longrightarrow> defined_ok (host_calls b calls h)"
  by (simp add: host_calls_def)

lemma live_calls_ok: "bi_browser b = Some c \<Longrightarrow> handler_ok h' \<Longrightarrow> defined_ok (live_calls b calls h' h)"
  by (simp add: live_calls_def)

lemma focused_calls_ok: "handler_ok h \<Longrightarrow> defined_ok (focused_calls calls h)"
  by (simp add: focused_calls_def split: option.split)

lemma on_ui_thread_ok: "handler_ok h \<Longrightarrow> defined_ok r \<Longrightarrow> defined_ok (on_ui_thread ui h r)"
  by (simp add: on_ui_thread_def)

lemma call_back_if_set_ok: "handler_ok h \<Longrightarrow> defined_ok (snd (call_back_if_set c i ss ns h))"
  by (simp add: call_back_if_set_def)

lemma execute_ok: "handler_ok h \<Longrightarrow> defined_ok (executeJavaScript i code f fr t h)"
  by (auto simp: executeJavaScript_def Let_def split: option.split)

lemma after_ok: "defined_ok r \<Longrightarrow> (\<And>h. handler_ok h \<Longrightarrow> defined_ok (f h)) \<Longrightarrow> defined_ok (after r f)"
  by (fastforce simp: after_def defined_ok_def split: sum.splits)

lemma call_back_ok:
  "handler_ok h \<Longrightarrow> c \<in> {onFocusedNodeChangeMessage, onImeCompositionRangeChangedMessage, onJavaScriptChannelMessage}
     \<Longrightarrow> defined_ok (call_back c i ss ns h)"
  by (auto simp: call_back_def handler_ok_def callbacks_set_def)

lemma table_ops_ok:
  assumes "handler_ok h"
  shows "defined_ok (loadUrl i u h)" and "defined_ok (sendScrollEvent build i x y dx dy h)"
    and "defined_ok (changeSize i d w he h)" and "defined_ok (cursorClick i x y up h)"
    and "defined_ok (cursorMove i x y up h)" and "defined_ok (goForward i h)" and "defined_ok (goBack i h)"
    and "defined_ok (reload i h)" and "defined_ok (openDevTools i h)"
    and "defined_ok (imeSetComposition i t n h)" and "defined_ok (imeCommitText i t n h)"
    and "defined_ok (setClientFocus i f h)"
  unfolding loadUrl_def sendScrollEvent_def changeSize_def cursorClick_def cursorMove_def goForward_def goBack_def
    reload_def openDevTools_def imeSetComposition_def imeCommitText_def setClientFocus_def
  by (rule with_browser_ok [OF assms];
      simp add: Let_def assms host_calls_ok live_calls_ok handler_ok_put)+

lemma event_ops_ok:
  assumes "handler_ok h"
  shows "defined_ok (OnTitleChange c u h)" and "defined_ok (OnAddressChange c u h)"
    and "defined_ok (snd (OnCursorChange c k h))" and "defined_ok (snd (OnTooltip c u h))"
    and "defined_ok (snd (OnConsoleMessage c k u v n h))"
    and "defined_ok (OnLoadStart c u h)" and "defined_ok (OnLoadEnd c u h)"
    and "defined_ok (OnLoadError k u v h)" and "defined_ok (snd (OnBeforePopup c u h))"
    and "defined_ok (OnTakeFocus c f k h)" and "defined_ok (setJavaScriptChannels i cs f k h)"
    and "defined_ok (sendKeyEvent ev h)" and "defined_ok (imeFinishComposition f h)"
    and "defined_ok (imeCommitTextNative f u h)" and "defined_ok (imeSetCompositionNative f u m k h)"
    and "defined_ok (warnIfNoAcceleratedFrame build h)" and "defined_ok (sendExternalBeginFrame build f h)"
    and "defined_ok (OnPaint c k n h)"
  unfolding OnTitleChange_def OnAddressChange_def OnCursorChange_def OnTooltip_def OnConsoleMessage_def
    OnLoadStart_def OnLoadEnd_def OnLoadError_def OnBeforePopup_def OnTakeFocus_def setJavaScriptChannels_def
    sendKeyEvent_def imeFinishComposition_def imeCommitTextNative_def imeSetCompositionNative_def
    warnIfNoAcceleratedFrame_def sendExternalBeginFrame_def OnPaint_def
  by (simp_all add: assms call_back_if_set_ok table_ops_ok execute_ok focused_calls_ok on_ui_thread_ok Let_def)

lemma message_ops_ok:
  assumes "handler_ok h"
  shows "defined_ok (OnFocusedNodeChanged c f x y he h)"
    and "defined_ok (OnJSCallCppFunction b u v w k h)" and "defined_ok (OnEvaluateCallback u m h)"
proof -
  show "defined_ok (OnFocusedNodeChanged c f x y he h)"
    unfolding OnFocusedNodeChanged_def by (rule after_ok) (simp_all add: assms call_back_ok)
  show "defined_ok (OnJSCallCppFunction b u v w k h)" and "defined_ok (OnEvaluateCallback u m h)"
    by (simp_all add: OnJSCallCppFunction_def OnEvaluateCallback_def assms call_back_ok split: option.split)
qed

lemma handle_request_ok:
  assumes ok: "handler_ok h" and ex: "expected h (Request i r)"
  shows "defined_ok (handle_request build i h r)"
proof (cases r)
  case EvCloseBrowser
  with ok handler_ok_find [OF ok, of i] show ?thesis
    by (auto simp: closeBrowser_def host_calls_def split: option.split intro!: handler_ok_erase)
next
  case (EvChannelAnswer e a k f m)
  with ok ex show ?thesis
    by (auto simp: sendJavaScriptChannelCallBack_def intro!: with_browser_ok split: option.split)
qed (use ok in \<open>simp_all add: table_ops_ok event_ops_ok execute_ok\<close>)

lemma handle_report_ok:
  assumes ok: "handler_ok h" and ex: "expected h (Report c r)"
  shows "defined_ok (handle_report build c h r)"
proof (cases r)
  case EvAfterCreated
  with ok show ?thesis by (auto simp: OnAfterCreated_def Let_def intro!: handler_ok_put)
next
  case EvScreenInfo
  with ok ex show ?thesis by (auto simp: GetScreenInfo_def split: option.split)
next
  case (EvAcceleratedPaint f)
  with ok handler_ok_find [OF ok, of "cb_identifier c"] show ?thesis
    by (auto simp: OnAcceleratedPaint_def Let_def find_browser_def host_calls_def after_def split: option.split
        intro!: handler_ok_put)
next
  case (EvImeRange bs)
  with ok show ?thesis
    by (auto simp: OnImeCompositionRangeChanged_def Let_def split: option.split
        intro!: call_back_ok handler_ok_put)
next
  case (EvStartDragging x y)
  with ok show ?thesis
    by (auto simp: StartDragging_def intro!: with_browser_ok host_calls_ok handler_ok_put split: option.split)
qed (use ok in \<open>simp_all add: event_ops_ok message_ops_ok\<close>)

lemma handle_ok:
  assumes ok: "handler_ok h" and ex: "expected h ev"
  shows "defined_ok (handle build h ev)"
proof (cases ev)
  case (EvCloseAll force)
  from ok obtain es where "close_each force (browser_map h) = Inr es"
    using close_each_defined by (fastforce simp: handler_ok_def)
  with ok EvCloseAll show ?thesis by (simp add: CloseAllBrowsers_def)
next
  case (EvCreate ui c)
  with ok ex show ?thesis by (auto simp: createBrowser_def split: option.split)
qed (use ok ex in \<open>simp_all add: handle_request_ok handle_report_ok event_ops_ok message_ops_ok\<close>)

interpretation handler: guarded_machine "handler_step build" expected handler_ok for build
proof
  fix h ev
  assume "handler_ok h" and "expected h ev"
  from handle_ok [OF this, of build] show "\<exists>h'. handler_step build h ev = Some h' \<and> handler_ok h'"
    by (auto simp: handler_step_def defined_ok_def split: sum.splits)
qed

section \<open>What the rest of the handler leaves alone\<close>

text \<open>
  A statement about the handler that survives every change of the table but those of the focus fields,
  and every change of the remaining state but those of the JavaScript callbacks, survives every event
  but the four that make those changes.
\<close>

definition keeps :: "(WebviewHandler \<Rightarrow> bool) \<Rightarrow> HandlerResult \<Rightarrow> bool" where
  "keeps Q r \<longleftrightarrow> (case r of Inl e \<Rightarrow> True | Inr (h, _) \<Rightarrow> Q h)"

lemma keeps_Inl [simp]: "keeps Q (Inl e)" and keeps_Inr [simp]: "keeps Q (Inr (h, es)) = Q h"
  by (simp_all add: keeps_def)

locale kept_statement =
  fixes Q :: "WebviewHandler \<Rightarrow> bool"
  assumes kept_put: "Q h \<Longrightarrow> find_browser i h = Some b \<Longrightarrow> bi_wants_focus b' = bi_wants_focus b
      \<Longrightarrow> bi_focus_reasserted b' = bi_focus_reasserted b \<Longrightarrow> Q (put_browser i b' h)"
    and kept_new: "Q h \<Longrightarrow> find_browser i h = None \<Longrightarrow> Q (put_browser i (browser_info_init\<lparr>bi_browser := c\<rparr>) h)"
    and kept_erase: "Q h \<Longrightarrow> Q (erase_browser i h)"
    and kept_clear: "Q h \<Longrightarrow> Q (h\<lparr>browser_map := []\<rparr>)"
    and kept_focused: "Q h \<Longrightarrow> Q (h\<lparr>current_focused_browser := f\<rparr>)"
    and kept_warned: "Q h \<Longrightarrow> Q (h\<lparr>gpu_warning_logged := g\<rparr>)"
begin

lemma with_browser_kept:
  "Q h \<Longrightarrow> (\<And>b. find_browser i h = Some b \<Longrightarrow> keeps Q (f b)) \<Longrightarrow> keeps Q (with_browser i f h)"
  by (simp add: with_browser_def split: option.split)

lemma calls_kept [simp]:
  "Q h \<Longrightarrow> keeps Q (host_calls b cs h)"
  "Q h \<Longrightarrow> keeps Q (focused_calls cs h)"
  "Q h \<Longrightarrow> keeps Q (call_back k i ss ns h)"
  "Q h \<Longrightarrow> keeps Q (snd (call_back_if_set k i ss ns h))"
  "Q h \<Longrightarrow> keeps Q r \<Longrightarrow> keeps Q (on_ui_thread ui h r)"
  by (simp_all add: host_calls_def focused_calls_def call_back_def call_back_if_set_def on_ui_thread_def
      split: option.split)

lemma live_calls_kept [simp]: "Q h \<Longrightarrow> Q h' \<Longrightarrow> keeps Q (live_calls b cs h' h)"
  by (simp add: live_calls_def split: option.split)

lemma after_kept: "keeps Q r \<Longrightarrow> (\<And>h. Q h \<Longrightarrow> keeps Q (f h)) \<Longrightarrow> keeps Q (after r f)"
  by (fastforce simp: after_def keeps_def split: sum.splits)

lemma execute_kept: "Q h \<Longrightarrow> f = None \<Longrightarrow> keeps Q (executeJavaScript i code f fr t h)"
  by (auto simp: executeJavaScript_def split: option.split)

lemma table_kept:
  assumes "Q h"
  shows "keeps Q (loadUrl i u h)" and "keeps Q (sendScrollEvent build i x y dx dy h)"
    and "keeps Q (changeSize i d w he h)" and "keeps Q (cursorClick i x y up h)"
    and "keeps Q (cursorMove i x y up h)" and "keeps Q (goForward i h)" and "keeps Q (goBack i h)"
    and "keeps Q (reload i h)" and "keeps Q (openDevTools i h)"
    and "keeps Q (imeSetComposition i t n h)" and "keeps Q (imeCommitText i t n h)"
  unfolding loadUrl_def sendScrollEvent_def changeSize_def cursorClick_def cursorMove_def goForward_def goBack_def
    reload_def openDevTools_def imeSetComposition_def imeCommitText_def
  by (rule with_browser_kept [OF assms]; simp add: Let_def assms kept_put)+

lemma host_request_kept:
  assumes "Q h" and "\<forall>f. r \<noteq> EvSetFocus f" and "\<forall>c f fr t. r \<noteq> EvExecute c (Some f) fr t"
  shows "keeps Q (handle_request build i h r)"
proof (cases r)
  case EvCloseBrowser
  with assms(1) show ?thesis by (simp add: closeBrowser_def kept_erase split: option.split)
next
  case (EvExecute c f fr t)
  with assms(1,3) have "f = None" by (cases f) auto
  with EvExecute assms(1) show ?thesis by (simp add: execute_kept)
next
  case (EvChannelAnswer e a k f m)
  with assms(1) show ?thesis
    by (auto simp: sendJavaScriptChannelCallBack_def intro!: with_browser_kept split: option.split)
next
  case (EvSetFocus f)
  with assms(2) show ?thesis by blast
qed (use assms(1) in \<open>simp_all add: execute_kept setJavaScriptChannels_def table_kept\<close>)

lemma range_kept: "Q h \<Longrightarrow> keeps Q (OnImeCompositionRangeChanged c bs h)"
  by (auto simp: OnImeCompositionRangeChanged_def Let_def split: option.split intro!: calls_kept(3) intro: kept_put)

lemma cef_report_kept:
  assumes "Q h" and "\<forall>f. r \<noteq> EvAcceleratedPaint f"
  shows "keeps Q (handle_report build c h r)"
proof (cases r)
  case EvAfterCreated
  with assms(1) show ?thesis
    by (auto simp: OnAfterCreated_def Let_def split: option.split intro: kept_put kept_new)
next
  case (EvFocusedNode ed x y he)
  with assms(1) show ?thesis by (auto simp: OnFocusedNodeChanged_def intro!: after_kept calls_kept(3) kept_focused)
next
  case (EvStartDragging x y)
  with assms(1) show ?thesis
    by (auto simp: StartDragging_def split: option.split intro!: with_browser_kept calls_kept(1) simp: kept_put)
next
  case EvScreenInfo
  have "browser_info_init\<lparr>bi_browser := None\<rparr> = browser_info_init" by (simp add: browser_info_init_def)
  with EvScreenInfo assms(1) kept_new [of h "cb_identifier c" None] show ?thesis
    by (auto simp: GetScreenInfo_def split: option.split)
next
  case (EvAcceleratedPaint f)
  with assms(2) show ?thesis by simp
qed (use assms(1) in \<open>simp_all add: OnTitleChange_def OnAddressChange_def OnCursorChange_def OnTooltip_def
    OnConsoleMessage_def OnLoadStart_def OnLoadEnd_def OnBeforePopup_def loadUrl_def OnTakeFocus_def execute_kept
    range_kept OnPaint_def with_browser_kept\<close>)

lemma handle_kept:
  assumes "Q h" and "\<forall>i f. ev \<noteq> Request i (EvSetFocus f)"
    and "\<forall>i c f fr t. ev \<noteq> Request i (EvExecute c (Some f) fr t)"
    and "\<forall>c f. ev \<noteq> Report c (EvAcceleratedPaint f)" and "\<forall>k p. ev \<noteq> EvEvaluated k p"
  shows "keeps Q (handle build h ev)"
proof (cases ev)
  case (Request i r)
  with assms(1-3) show ?thesis by (simp add: host_request_kept)
next
  case (Report c r)
  with assms(1,4) show ?thesis by (simp add: cef_report_kept)
next
  case (EvEvaluated k p)
  with assms(5) show ?thesis by simp
next
  case (EvCloseAll force)
  with assms(1) show ?thesis by (simp add: CloseAllBrowsers_def kept_clear split: sum.split)
next
  case (EvJSCall c fr f p k)
  with assms(1) show ?thesis by (simp add: OnJSCallCppFunction_def split: option.split)
qed (use assms(1) in \<open>simp_all add: OnLoadError_def createBrowser_def warnIfNoAcceleratedFrame_def kept_warned
    sendExternalBeginFrame_def sendKeyEvent_def imeSetCompositionNative_def Let_def imeCommitTextNative_def
    imeFinishComposition_def split: option.split\<close>)

end


lemma handler_ok_browsers: "handler_ok h \<Longrightarrow> \<forall>i b. find_browser i h = Some b \<longrightarrow> bi_browser b \<noteq> None"
  using handler_ok_find by fastforce

section \<open>Properties\<close>


definition ready_handler :: WebviewHandler where
  "ready_handler = OnAfterCreated \<lparr>cb_object = 1, cb_identifier = 7, cb_is_popup = False\<rparr>
     (WebviewHandler_init\<lparr>callback_set := (\<lambda>_. True)\<rparr>)"

lemma ready_handler_ok: "handler_ok ready_handler"
  by code_simp

lemma ready_browser: "find_browser 7 ready_handler
    = Some (browser_info_init\<lparr>bi_browser := Some \<lparr>cb_object = 1, cb_identifier = 7, cb_is_popup = False\<rparr>\<rparr>)"
  by (simp add: ready_handler_def OnAfterCreated_def WebviewHandler_init_def find_browser_def put_browser_def)


text \<open>A screen question after a browser is closed poisons the table. The question makes an entry without a
  browser, and from then on loading an address in that browser, closing it, and closing all browsers
  dereference null.\<close>

theorem screen_info_after_close_crashes:
  assumes "closeBrowser (cb_identifier c) h = Inr (h', es)"
  shows "loadUrl (cb_identifier c) u (snd (GetScreenInfo c h')) = Inl NullBrowser
           \<and> closeBrowser (cb_identifier c) (snd (GetScreenInfo c h')) = Inl NullBrowser
           \<and> CloseAllBrowsers force (snd (GetScreenInfo c h')) = Inl NullBrowser"
proof -
  from assms have "find_browser (cb_identifier c) h' = None"
    by (auto simp: closeBrowser_def host_calls_def split: option.splits)
  then have s: "snd (GetScreenInfo c h') = put_browser (cb_identifier c) browser_info_init h'"
    by (simp add: GetScreenInfo_def)
  have e: "close_each force (AList.update i browser_info_init bs) = Inl NullBrowser" for i bs
    by (induction bs) (auto simp: browser_info_init_def split: option.split)
  have n: "bi_browser browser_info_init = None" by (simp add: browser_info_init_def)
  show ?thesis
    by (simp add: s n loadUrl_def closeBrowser_def with_browser_def host_calls_def CloseAllBrowsers_def)
      (simp add: put_browser_def e)
qed

theorem screen_info_after_close_crashes_witness:
  "\<exists>h'. closeBrowser 7 ready_handler = Inr (h', [Host \<lparr>cb_object = 1, cb_identifier = 7, cb_is_popup = False\<rparr> (CloseBrowser True)])
      \<and> CloseAllBrowsers False (snd (GetScreenInfo \<lparr>cb_object = 1, cb_identifier = 7, cb_is_popup = False\<rparr> h'))
        = Inl NullBrowser"
proof -
  have "closeBrowser 7 ready_handler = Inr (erase_browser 7 ready_handler,
      [Host \<lparr>cb_object = 1, cb_identifier = 7, cb_is_popup = False\<rparr> (CloseBrowser True)])"
    by (simp add: closeBrowser_def ready_browser host_calls_def)
  with screen_info_after_close_crashes [of "\<lparr>cb_object = 1, cb_identifier = 7, cb_is_popup = False\<rparr>" ready_handler
      _ _ "[]" False] show ?thesis by auto
qed


section \<open>The focus\<close>

text \<open>
  The process is gone when an event fails, so the handler stays as it was. The latch of the first
  frame: closed for a browser that does not want the focus or got it again, or is not in the table.
\<close>

definition handled :: "Build \<Rightarrow> WebviewHandler \<Rightarrow> HandlerEvent \<Rightarrow> WebviewHandler" where
  "handled build h ev = (case handle build h ev of Inl e \<Rightarrow> h | Inr (h, _) \<Rightarrow> h)"

definition focus_latched :: "int \<Rightarrow> WebviewHandler \<Rightarrow> bool" where
  "focus_latched i h =
     (case find_browser i h of None \<Rightarrow> True | Some b \<Rightarrow> \<not> bi_wants_focus b \<or> bi_focus_reasserted b)"

definition frame_focuses :: "Build \<Rightarrow> int \<Rightarrow> WebviewHandler \<Rightarrow> HandlerEvent \<Rightarrow> bool" where
  "frame_focuses build i h ev =
     (case ev of
        Report c (EvAcceleratedPaint f) \<Rightarrow>
          cb_identifier c = i
          \<and> (case handle build h ev of Inl e \<Rightarrow> False | Inr (_, es) \<Rightarrow> \<exists>d. Host d (SetFocus True) \<in> set es)
      | _ \<Rightarrow> False)"

definition focus_wanted :: "int \<Rightarrow> WebviewHandler \<Rightarrow> HandlerEvent \<Rightarrow> bool" where
  "focus_wanted i h ev = (case ev of Request j r \<Rightarrow> j = i \<and> r = EvSetFocus True | _ \<Rightarrow> False)"

lemma find_browser_fields [simp]:
  "find_browser i (h\<lparr>received_accelerated_frame := r\<rparr>) = find_browser i h"
  "find_browser i (h\<lparr>js_callbacks := m\<rparr>) = find_browser i h"
  "find_browser i (h\<lparr>current_focused_browser := f\<rparr>) = find_browser i h"
  "find_browser i (h\<lparr>gpu_warning_logged := g\<rparr>) = find_browser i h"
  "find_browser i (h\<lparr>browser_map := []\<rparr>) = None"
  by (simp_all add: find_browser_def)

interpretation focus: kept_statement "focus_latched i" for i
  by unfold_locales
    (auto simp: focus_latched_def browser_info_init_def split: if_splits option.splits)

lemma keeps_handled: "keeps Q (handle build h ev) \<Longrightarrow> Q h \<Longrightarrow> Q (handled build h ev)"
  by (auto simp: handled_def keeps_def split: sum.splits)

lemma paint_latches: "focus_latched i h \<Longrightarrow> keeps (focus_latched i) (OnAcceleratedPaint build c f h)"
  by (auto simp: OnAcceleratedPaint_def Let_def focus_latched_def host_calls_def after_def split: option.splits)

lemma set_focus_keeps:
  "focus_latched i h \<Longrightarrow> j \<noteq> i \<or> \<not> f \<Longrightarrow> keeps (focus_latched i) (setClientFocus j f h)"
  by (auto simp: setClientFocus_def with_browser_def live_calls_def focus_latched_def split: option.splits)

lemma execute_latch: "focus_latched i h \<Longrightarrow> keeps (focus_latched i) (executeJavaScript j code f fr t h)"
  by (auto simp: executeJavaScript_def Let_def focus_latched_def split: option.splits)

lemma evaluated_latch: "focus_latched i h \<Longrightarrow> keeps (focus_latched i) (OnEvaluateCallback k p h)"
  by (auto simp: OnEvaluateCallback_def focus_latched_def split: option.splits)

lemma focus_latch_kept:
  assumes l: "focus_latched i h" and n: "\<not> focus_wanted i h ev"
  shows "focus_latched i (handled build h ev)"
proof (rule keeps_handled [where Q = "focus_latched i", OF _ l])
  consider (focus) j f where "ev = Request j (EvSetFocus f)"
    | (execute) j c f fr t where "ev = Request j (EvExecute c (Some f) fr t)"
    | (paint) c f where "ev = Report c (EvAcceleratedPaint f)"
    | (evaluated) k p where "ev = EvEvaluated k p"
    | (rest) "\<forall>j f. ev \<noteq> Request j (EvSetFocus f)" "\<forall>j c f fr t. ev \<noteq> Request j (EvExecute c (Some f) fr t)"
        "\<forall>c f. ev \<noteq> Report c (EvAcceleratedPaint f)" "\<forall>k p. ev \<noteq> EvEvaluated k p"
    by blast
  then show "keeps (focus_latched i) (handle build h ev)"
  proof cases
    case rest
    with l show ?thesis by (rule focus.handle_kept)
  next
    case focus
    with l n show ?thesis by (auto simp: focus_wanted_def intro!: set_focus_keeps)
  next
    case paint
    with l show ?thesis by (simp add: paint_latches)
  qed (use l in \<open>simp_all add: execute_latch evaluated_latch\<close>)
qed

lemma frame_focuses_iff:
  "frame_focuses build i h ev \<Longrightarrow> \<not> focus_latched i h \<and> focus_latched i (handled build h ev)"
  by (auto simp: frame_focuses_def focus_latched_def handled_def OnAcceleratedPaint_def Let_def host_calls_def after_def
      split: HandlerEvent.splits CefReport.splits option.splits if_splits)

interpretation focus_latch: once_latch "handled build" "frame_focuses build i" "focus_latched i" "focus_wanted i"
  for build i
  by unfold_locales (use frame_focuses_iff focus_latch_kept in blast)+

text \<open>C18. A frame gives the focus back at most once for each time the focus was asked for. Over any history the
  frames of a browser re-assert its focus at most as often as \<open>setClientFocus(true)\<close> was called for it,
  when the browser starts out without a focus owed.\<close>

theorem focus_reasserted_once_per_request:
  "count_along (handled build) (frame_focuses build i) h evs
     \<le> (if focus_latched i h then 0 else 1) + count_along (handled build) (focus_wanted i) h evs"
  by (rule focus_latch.fire_count)

section \<open>Evaluated JavaScript\<close>

interpretation waiting: kept_statement "\<lambda>h. js_callbacks h k = Some f" for k f
  by unfold_locales (simp_all add: put_browser_def erase_browser_def)

text \<open>The events that can take the callback under \<open>k\<close> away: its answer, and another evaluation under \<open>k\<close>.\<close>

fun takes_callback :: "string \<Rightarrow> HandlerEvent \<Rightarrow> bool" where
  "takes_callback k (EvEvaluated k' p) \<longleftrightarrow> k' = k"
| "takes_callback k (Request i (EvExecute c (Some f) fr t)) \<longleftrightarrow> show_int t = k"
| "takes_callback k _ \<longleftrightarrow> False"

lemma js_callbacks_put [simp]: "js_callbacks (put_browser i b h) = js_callbacks h"
  by (simp add: put_browser_def)

lemma paint_callbacks: "js_callbacks h k = Some f \<Longrightarrow> keeps (\<lambda>h. js_callbacks h k = Some f) (OnAcceleratedPaint build c n h)"
  by (auto simp: OnAcceleratedPaint_def Let_def host_calls_def after_def split: option.splits)

lemma callback_waits_step:
  assumes k: "js_callbacks h k = Some f" and n: "\<not> takes_callback k ev"
    and s: "handler_step build h ev = Some h'"
  shows "js_callbacks h' k = Some f"
proof -
  consider (focus) j f where "ev = Request j (EvSetFocus f)"
    | (execute) j c f fr t where "ev = Request j (EvExecute c (Some f) fr t)"
    | (paint) c f where "ev = Report c (EvAcceleratedPaint f)"
    | (evaluated) k p where "ev = EvEvaluated k p"
    | (rest) "\<forall>j f. ev \<noteq> Request j (EvSetFocus f)" "\<forall>j c f fr t. ev \<noteq> Request j (EvExecute c (Some f) fr t)"
        "\<forall>c f. ev \<noteq> Report c (EvAcceleratedPaint f)" "\<forall>k p. ev \<noteq> EvEvaluated k p"
    by blast
  then have "keeps (\<lambda>h. js_callbacks h k = Some f) (handle build h ev)"
  proof cases
    case rest
    with waiting.handle_kept [OF k] show ?thesis by blast
  next
    case focus
    with k show ?thesis by (auto simp: setClientFocus_def with_browser_def live_calls_def split: option.split)
  next
    case execute
    with k n show ?thesis by (auto simp: executeJavaScript_def Let_def split: option.split)
  next
    case paint
    with k show ?thesis by (simp add: paint_callbacks)
  next
    case evaluated
    with k n show ?thesis by (auto simp: OnEvaluateCallback_def split: option.split)
  qed
  with s show ?thesis by (auto simp: handler_step_def split: sum.splits)
qed

lemma callback_waits:
  "js_callbacks h k = Some f \<Longrightarrow> \<forall>ev \<in> set evs. \<not> takes_callback k ev
     \<Longrightarrow> run_option (handler_step build) h evs = Some h' \<Longrightarrow> js_callbacks h' k = Some f"
  by (induction evs arbitrary: h) (auto split: option.splits dest: callback_waits_step)

lemma show_int_nonempty: "show_int t \<noteq> []"
  by (simp add: show_int_def)

lemma OnEvaluateCallback_waiting:
  "js_callbacks h (show_int t) = Some f
     \<Longrightarrow> OnEvaluateCallback (show_int t) p h
         = Inr (h\<lparr>js_callbacks := (js_callbacks h)(show_int t := None)\<rparr>, [RunJsCallback f p])"
  by (simp add: OnEvaluateCallback_def show_int_nonempty)



text \<open>Two evaluations at the same reading of the clock mix up their answers. The second callback takes the
  place of the first; it is run with the result of the first code, and the result of the second code
  reaches nobody.\<close>

theorem same_clock_reading_loses_callback:
  assumes "find_browser i h = Some b" and "bi_browser b = Some c" and "code \<noteq> []" and "code' \<noteq> []"
  shows "\<exists>h1 h2 h3 e1 e2. executeJavaScript i code (Some f) True t h = Inr (h1, e1)
           \<and> executeJavaScript i code' (Some g) True t h1 = Inr (h2, e2)
           \<and> OnEvaluateCallback (show_int t) result h2 = Inr (h3, [RunJsCallback g result])
           \<and> OnEvaluateCallback (show_int t) result' h3 = Inr (h3, [])"
  using assms by (simp add: executeJavaScript_def Let_def OnEvaluateCallback_def show_int_nonempty)

theorem same_clock_reading_witness:
  "\<exists>h1 h2 h3 e1 e2. executeJavaScript 7 ''f()'' (Some 5) True 1234 ready_handler = Inr (h1, e1)
           \<and> executeJavaScript 7 ''g()'' (Some 6) True 1234 h1 = Inr (h2, e2)
           \<and> OnEvaluateCallback (show_int 1234) 1 h2 = Inr (h3, [RunJsCallback 6 1])
           \<and> OnEvaluateCallback (show_int 1234) 2 h3 = Inr (h3, [])"
  by (rule same_clock_reading_loses_callback [OF ready_browser]) simp_all

section \<open>Visited cookies\<close>

text \<open>How CEF drives a visitor: with the index of each cookie and their number, until it is told to stop.\<close>

fun visit_each :: "int \<Rightarrow> int \<Rightarrow> CookieVisitor \<Rightarrow> CefCookie list \<Rightarrow> CookieVisitor" where
  "visit_each count num_total v [] = v"
| "visit_each count num_total v (k # ks) =
     (case Visit v k count num_total of
        (go_on, v) \<Rightarrow> if go_on then visit_each (count + 1) num_total v ks else v)"

abbreviation visit_cookies :: "CefCookie list \<Rightarrow> CookieVisitor \<Rightarrow> CookieVisitor" where
  "visit_cookies ks v \<equiv> visit_each 0 (int (length ks)) v ks"

definition last_cookie :: "CefCookie list \<Rightarrow> string \<Rightarrow> string \<Rightarrow> string option" where
  "last_cookie ks d n = map_of (rev (map (\<lambda>k. ((ck_domain k, ck_name k), ck_value k)) ks)) (d, n)"

lemma getVisitedCookies_last: "getVisitedCookies ks d n = last_cookie ks d n"
  by (induction ks rule: rev_induct) (auto simp: getVisitedCookies_def last_cookie_def)

lemma visit_each_completes:
  "0 < count \<Longrightarrow> ks \<noteq> [] \<Longrightarrow> num_total = count + int (length ks)
     \<Longrightarrow> visit_completed (visit_each count num_total v ks)
         = visit_completed v @ [getVisitedCookies (m_vecAllCookies v @ ks)]"
proof (induction ks arbitrary: count v)
  case Nil
  then show ?case by simp
next
  case (Cons k ks)
  show ?case
  proof (cases "ks = []")
    case False
    with Cons.prems have "Visit v k count num_total = (True, v\<lparr>m_vecAllCookies := m_vecAllCookies v @ [k]\<rparr>)"
      by (auto simp: Visit_def Let_def)
    with Cons.IH [of "count + 1" "v\<lparr>m_vecAllCookies := m_vecAllCookies v @ [k]\<rparr>"] Cons.prems False
    show ?thesis by simp
  qed (use Cons.prems in \<open>simp add: Visit_def Let_def\<close>)
qed

text \<open>Visiting cookies completes once, with all of them: for every domain and name the value visited last.
  Where there is no cookie the visitor is never called and never completes.\<close>

theorem cookies_complete_once:
  "visit_completed (visit_cookies ks v)
     = (if ks = [] then visit_completed v else visit_completed v @ [last_cookie ks])"
proof (cases ks)
  case (Cons k ks')
  have "getVisitedCookies ks = last_cookie ks" by (intro ext) (rule getVisitedCookies_last)
  with Cons visit_each_completes [of 1 ks' "int (length ks)"] show ?thesis
    by (cases ks') (simp_all add: Visit_def Let_def)
qed simp

section \<open>Size of the view\<close>

text \<open>The size set is the size painted, but zero, which becomes one. A negative size passes the test of the
  unsigned field and reaches CEF as it is.\<close>

theorem view_rect_follows_size:
  assumes "find_browser (cb_identifier c) h = Some b" and "bi_browser b = Some d" and "\<not> cb_is_popup c"
    and "- 2147483648 \<le> w" and "w < 2147483648" and "- 2147483648 \<le> he" and "he < 2147483648"
  shows "\<exists>h' es. changeSize (cb_identifier c) dpi w he h = Inr (h', es)
           \<and> GetViewRect c rect h'
             = \<lparr>r_x = 0, r_y = 0, r_width = (if w = 0 then 1 else w), r_height = (if he = 0 then 1 else he)\<rparr>"
proof -
  have z: "(of_int n :: u32) = 0 \<longleftrightarrow> n = 0" and s: "int_of_u32 (of_int n) = n"
    if "- 2147483648 \<le> n" and "n < 2147483648" for n
  proof -
    from that show s: "int_of_u32 (of_int n) = n"
      by (simp add: int_of_u32_def signed_of_int signed_take_bit_int_eq_self)
    from s show "(of_int n :: u32) = 0 \<longleftrightarrow> n = 0" by (auto simp: int_of_u32_def)
  qed
  from assms show ?thesis by (simp add: changeSize_def with_browser_def host_calls_def GetViewRect_def z s)
qed

theorem view_rect_follows_size_witness:
  "\<exists>h' es. changeSize 7 0x3F800000 (- 5) 0 ready_handler = Inr (h', es)
      \<and> GetViewRect \<lparr>cb_object = 1, cb_identifier = 7, cb_is_popup = False\<rparr> empty_rect h'
        = \<lparr>r_x = 0, r_y = 0, r_width = - 5, r_height = 1\<rparr>"
  using view_rect_follows_size [of "\<lparr>cb_object = 1, cb_identifier = 7, cb_is_popup = False\<rparr>" ready_handler _ _ "- 5" 0]
  by (simp add: ready_browser)

section \<open>Answers of a channel\<close>

lemma leading_int_number: "leading_int (show_nat n @ CHR ''-'' # s) = Some (int n)"
proof -
  obtain d ds where s: "show_nat n = d # ds" by (cases "show_nat n") auto
  have dig: "\<forall>x \<in> set (show_nat n). is_digit x" by (rule show_nat_digits)
  have "takeWhile is_digit (show_nat n @ CHR ''-'' # s) = show_nat n"
    using dig by (simp add: takeWhile_append2 is_digit_def)
  moreover have "\<not> is_space d" and "d \<noteq> CHR ''-''" and "d \<noteq> CHR ''+''"
    using dig s by (auto simp: is_digit_def is_space_def)
  ultimately show ?thesis using s by (simp add: leading_int_def read_show_nat [of n, unfolded s] Let_def)
qed

text \<open>The answer of a JavaScript channel goes to the main frame whenever the frame that asked has the
  number the main frame's identifier starts with. What follows the number is not looked at: the answer
  to any other frame of the same number arrives in the main frame, under the callback identifier that
  frame chose.\<close>

theorem channel_answer_matches_by_number:
  assumes "find_browser i h = Some b" and "bi_browser b = Some c" and "n < 9223372036854775808"
  shows "sendJavaScriptChannelCallBack e r k i (show_nat n @ CHR ''-'' # asking) (show_nat n @ CHR ''-'' # main) h
         = Inr (h, [Host c (SendCallbackMessage (atoi k) e r)])"
  using assms
  by (simp add: sendJavaScriptChannelCallBack_def with_browser_def stoll_def atoll_def leading_int_number saturate64_def)

theorem channel_answer_matches_by_number_witness:
  "sendJavaScriptChannelCallBack False ''1'' ''12'' 7 (show_nat 5 @ CHR ''-'' # ''B2'') (show_nat 5 @ CHR ''-'' # ''A1'') ready_handler
         = Inr (ready_handler, [Host \<lparr>cb_object = 1, cb_identifier = 7, cb_is_popup = False\<rparr>
              (SendCallbackMessage (atoi ''12'') False ''1'')])"
  by (rule channel_answer_matches_by_number [OF ready_browser]) simp_all

end
