(* ===== verification/Cef_Cache_Paths.thy ===== *)
theory Cef_Cache_Paths
  imports Text_Format
begin

text \<open>
  Where CEF keeps its profile and what a start may reclaim from the run before it
  (\<open>packages/webview_cef/common/cef_cache_paths.h\<close>, \<open>cef_cache_paths.cc\<close>): path arithmetic, the directories to
  try, and the plan of what is swept. The environment and the probe of a directory are parameters, as
  they are in the code.
\<close>

section \<open>Paths\<close>

datatype HostPlatform = kLinux | kMacOS | kWindows

definition kVendorDirLower :: string where "kVendorDirLower = ''centroidx''"
definition kVendorDirTitle :: string where "kVendorDirTitle = ''CentroidX''"
definition kAppDirName :: string where "kAppDirName = ''webview_cef''"
definition kCacheDirName :: string where "kCacheDirName = ''cache''"
definition kTempRootName :: string where "kTempRootName = ''centroidx-webview-cef''"
definition kRootCachePathEnvVar :: string where "kRootCachePathEnvVar = ''CENTROIDX_CEF_ROOT_CACHE_PATH''"

definition IsSeparator :: "char \<Rightarrow> bool" where
  "IsSeparator c \<longleftrightarrow> c = CHR ''/'' \<or> c = backslash"

fun StripTrailingSeparators :: "string \<Rightarrow> string" where
  "StripTrailingSeparators path =
     (if 1 < length path \<and> IsSeparator (last path) then StripTrailingSeparators (butlast path) else path)"

declare StripTrailingSeparators.simps [simp del]

text \<open>\<open>find_last_of\<close> and \<open>find_first_of\<close> the separators.\<close>

definition last_separator :: "string \<Rightarrow> nat option" where
  "last_separator s =
     (case dropWhile (\<lambda>c. \<not> IsSeparator c) (rev s) of [] \<Rightarrow> None | c # cs \<Rightarrow> Some (length cs))"

definition ParentDirectory :: "string \<Rightarrow> string" where
  "ParentDirectory path =
     (let trimmed = StripTrailingSeparators path
      in case last_separator trimmed of
           None \<Rightarrow> []
         | Some slash \<Rightarrow> if slash = 0 then [] else take slash trimmed)"

definition VendorDir :: "HostPlatform \<Rightarrow> string" where
  "VendorDir platform = (if platform = kLinux then kVendorDirLower else kVendorDirTitle)"

definition PathSeparator :: "HostPlatform \<Rightarrow> char" where
  "PathSeparator platform = (if platform = kWindows then backslash else CHR ''/'')"

definition JoinPath :: "string \<Rightarrow> string \<Rightarrow> HostPlatform \<Rightarrow> string" where
  "JoinPath left right platform =
     (if left = [] then right
      else if right = [] then left
      else StripTrailingSeparators left @ PathSeparator platform # dropWhile IsSeparator right)"

definition is_alpha :: "char \<Rightarrow> bool" where
  "is_alpha c \<longleftrightarrow> (65 \<le> (of_char c :: nat) \<and> (of_char c :: nat) \<le> 90)
     \<or> (97 \<le> (of_char c :: nat) \<and> (of_char c :: nat) \<le> 122)"

definition IsAbsolutePath :: "string \<Rightarrow> HostPlatform \<Rightarrow> bool" where
  "IsAbsolutePath path platform =
     (if path = [] then False
      else if platform \<noteq> kWindows then path ! 0 = CHR ''/''
      else if 2 \<le> length path \<and> IsSeparator (path ! 0) \<and> IsSeparator (path ! 1) then True
      else 3 \<le> length path \<and> is_alpha (path ! 0) \<and> path ! 1 = CHR '':'' \<and> IsSeparator (path ! 2))"

section \<open>Directories to try\<close>

type_synonym EnvLookup = "string \<Rightarrow> string"
type_synonym DirectoryProbe = "string \<Rightarrow> bool"

definition AppendIfAbsolute :: "string list \<Rightarrow> string \<Rightarrow> HostPlatform \<Rightarrow> string list" where
  "AppendIfAbsolute out path platform =
     (if path \<noteq> [] \<and> IsAbsolutePath path platform then out @ [StripTrailingSeparators path] else out)"

definition AppendVendorAppDir :: "string list \<Rightarrow> string \<Rightarrow> HostPlatform \<Rightarrow> string list" where
  "AppendVendorAppDir out base platform =
     (if base = [] then out
      else AppendIfAbsolute out
             (JoinPath (JoinPath base (VendorDir platform) platform) kAppDirName platform) platform)"

definition TempDirectory :: "EnvLookup \<Rightarrow> HostPlatform \<Rightarrow> string" where
  "TempDirectory env platform =
     (if platform = kWindows
      then if env ''TMP'' \<noteq> [] then StripTrailingSeparators (env ''TMP'')
           else if env ''TEMP'' \<noteq> [] then StripTrailingSeparators (env ''TEMP'')
           else ''.''
      else if env ''TMPDIR'' \<noteq> [] then StripTrailingSeparators (env ''TMPDIR'')
      else ''/tmp'')"

record CachePaths =
  cp_root :: string
  cp_cache :: string

definition CachePaths_empty :: CachePaths where
  "CachePaths_empty = \<lparr>cp_root = [], cp_cache = []\<rparr>"

definition CachePathsForRoot :: "string \<Rightarrow> HostPlatform \<Rightarrow> CachePaths" where
  "CachePathsForRoot root platform =
     (if root = [] then CachePaths_empty
      else let r = StripTrailingSeparators root
           in \<lparr>cp_root = r, cp_cache = JoinPath r kCacheDirName platform\<rparr>)"

definition RootCacheCandidates :: "EnvLookup \<Rightarrow> HostPlatform \<Rightarrow> string list" where
  "RootCacheCandidates env platform =
     (let candidates = AppendIfAbsolute [] (env kRootCachePathEnvVar) platform;
          candidates =
            (case platform of
               kWindows \<Rightarrow> AppendVendorAppDir candidates (env ''LOCALAPPDATA'') platform
             | kMacOS \<Rightarrow>
                 AppendVendorAppDir candidates
                   (JoinPath (JoinPath (env ''HOME'') ''Library'' platform) ''Application Support'' platform) platform
             | kLinux \<Rightarrow>
                 AppendVendorAppDir (AppendVendorAppDir candidates (env ''XDG_CONFIG_HOME'') platform)
                   (JoinPath (env ''HOME'') ''.config'' platform) platform)
      in AppendIfAbsolute candidates (JoinPath (TempDirectory env platform) kTempRootName platform) platform)"

fun first_writable :: "DirectoryProbe \<Rightarrow> HostPlatform \<Rightarrow> string list \<Rightarrow> CachePaths" where
  "first_writable writable platform [] = CachePaths_empty"
| "first_writable writable platform (root # roots) =
     (let paths = CachePathsForRoot root platform
      in if writable (cp_cache paths) then paths else first_writable writable platform roots)"

definition ResolveCachePaths :: "EnvLookup \<Rightarrow> DirectoryProbe \<Rightarrow> HostPlatform \<Rightarrow> CachePaths" where
  "ResolveCachePaths env writable platform = first_writable writable platform (RootCacheCandidates env platform)"

section \<open>The sweep\<close>

definition kSingletonLockName :: string where "kSingletonLockName = ''SingletonLock''"
definition kSingletonCookieName :: string where "kSingletonCookieName = ''SingletonCookie''"
definition kSingletonSocketName :: string where "kSingletonSocketName = ''SingletonSocket''"
definition kSocketDirPrefix :: string where "kSocketDirPrefix = ''org.chromium.Chromium.''"
definition kAbandonedSocketDirGraceSeconds :: int where "kAbandonedSocketDirGraceSeconds = 300"
definition kFreshSingletonStateGraceSeconds :: int where "kFreshSingletonStateGraceSeconds = 10"

record SingletonState =
  lock_present :: bool
  cookie_present :: bool
  socket_present :: bool
  socket_target :: string
  socket_answers :: bool
  age_seconds :: int

record AbandonedSocketDir =
  asd_path :: string
  asd_socket_answers :: bool
  asd_age_seconds :: int

record SingletonSweep =
  owner_alive :: bool
  sw_files :: "string list"
  sw_directories :: "string list"

definition IsChromiumSocketDir :: "string \<Rightarrow> string \<Rightarrow> bool" where
  "IsChromiumSocketDir path temp_dir =
     (if path = [] \<or> temp_dir = [] then False
      else let parent = StripTrailingSeparators temp_dir;
               candidate = StripTrailingSeparators path;
               prefix = JoinPath parent kSocketDirPrefix kLinux
           in if length candidate \<le> length prefix then False
              else if take (length prefix) candidate \<noteq> prefix then False
              else \<not> list_ex IsSeparator (drop (length prefix) candidate))"

definition singleton_files :: "string \<Rightarrow> SingletonState \<Rightarrow> string list" where
  "singleton_files root state =
     (if lock_present state then [JoinPath root kSingletonLockName kLinux] else [])
     @ (if cookie_present state then [JoinPath root kSingletonCookieName kLinux] else [])
     @ (if socket_present state then [JoinPath root kSingletonSocketName kLinux] else [])"

fun sweep_dirs :: "string \<Rightarrow> string list \<Rightarrow> AbandonedSocketDir list \<Rightarrow> string list" where
  "sweep_dirs temp_dir directories [] = directories"
| "sweep_dirs temp_dir directories (dir # dirs) =
     (let path = StripTrailingSeparators (asd_path dir)
      in if asd_socket_answers dir then sweep_dirs temp_dir directories dirs
         else if asd_age_seconds dir < kAbandonedSocketDirGraceSeconds then sweep_dirs temp_dir directories dirs
         else if \<not> IsChromiumSocketDir path temp_dir then sweep_dirs temp_dir directories dirs
         else if path \<notin> set directories then sweep_dirs temp_dir (directories @ [path]) dirs
         else sweep_dirs temp_dir directories dirs)"

definition PlanSingletonSweep ::
    "string \<Rightarrow> SingletonState \<Rightarrow> string \<Rightarrow> AbandonedSocketDir list \<Rightarrow> SingletonSweep" where
  "PlanSingletonSweep root state temp_dir socket_dirs =
     (let alive = (socket_present state \<and> socket_answers state);
          any_file_present = (lock_present state \<or> cookie_present state \<or> socket_present state);
          possibly_mid_startup = (any_file_present \<and> age_seconds state < kFreshSingletonStateGraceSeconds);
          sweeping = (root \<noteq> [] \<and> \<not> alive \<and> \<not> possibly_mid_startup);
          orphan = ParentDirectory (socket_target state);
          directories = (if sweeping \<and> IsChromiumSocketDir orphan temp_dir
                         then [StripTrailingSeparators orphan] else [])
      in \<lparr>owner_alive = alive,
          sw_files = (if sweeping then singleton_files root state else []),
          sw_directories = sweep_dirs temp_dir directories socket_dirs\<rparr>)"

section \<open>Facts about paths\<close>

lemma strip_nonempty [simp]: "StripTrailingSeparators p = [] \<longleftrightarrow> p = []"
proof (induction p rule: StripTrailingSeparators.induct)
  case (1 p)
  show ?case
  proof (cases "1 < length p \<and> IsSeparator (last p)")
    case True
    with 1 have "StripTrailingSeparators (butlast p) = [] \<longleftrightarrow> butlast p = []" by blast
    with True show ?thesis by (subst StripTrailingSeparators.simps) (cases p; auto)
  next
    case False
    then show ?thesis by (subst StripTrailingSeparators.simps) auto
  qed
qed

lemma strip_Nil [simp]: "StripTrailingSeparators [] = []"
  by simp

lemma strip_hd: "p \<noteq> [] \<Longrightarrow> hd (StripTrailingSeparators p) = hd p"
proof (induction p rule: StripTrailingSeparators.induct)
  case (1 p)
  show ?case
  proof (cases "1 < length p \<and> IsSeparator (last p)")
    case True
    then obtain a b q where "p = a # b # q" by (cases p; cases "tl p") auto
    with 1 True have "hd (StripTrailingSeparators (butlast p)) = hd p" by simp
    with True show ?thesis by (subst StripTrailingSeparators.simps) simp
  next
    case False
    then show ?thesis by (subst StripTrailingSeparators.simps) auto
  qed
qed

lemma strip_done: "length p \<le> 1 \<or> \<not> IsSeparator (last p) \<Longrightarrow> StripTrailingSeparators p = p"
  by (subst StripTrailingSeparators.simps) auto

lemma strip_stripped:
  "length (StripTrailingSeparators p) \<le> 1 \<or> \<not> IsSeparator (last (StripTrailingSeparators p))"
proof (induction p rule: StripTrailingSeparators.induct)
  case (1 p)
  then show ?case by (subst (1 2) StripTrailingSeparators.simps) auto
qed

lemma strip_idem [simp]: "StripTrailingSeparators (StripTrailingSeparators p) = StripTrailingSeparators p"
  by (rule strip_done [OF strip_stripped])

lemma strip_append: "q \<noteq> [] \<Longrightarrow> \<not> IsSeparator (last q) \<Longrightarrow> StripTrailingSeparators (p @ q) = p @ q"
  by (rule strip_done) simp

lemma names_clean [simp]:
  "IsSeparator (last kSocketDirPrefix) = False" "IsSeparator (hd kSocketDirPrefix) = False"
  "dropWhile IsSeparator kSocketDirPrefix = kSocketDirPrefix" "kSocketDirPrefix \<noteq> []"
  "dropWhile IsSeparator kCacheDirName = kCacheDirName" "kCacheDirName \<noteq> []"
  "dropWhile IsSeparator kTempRootName = kTempRootName" "kTempRootName \<noteq> []"
  "dropWhile IsSeparator kSingletonLockName = kSingletonLockName" "kSingletonLockName \<noteq> []"
  "dropWhile IsSeparator kSingletonCookieName = kSingletonCookieName" "kSingletonCookieName \<noteq> []"
  "dropWhile IsSeparator kSingletonSocketName = kSingletonSocketName" "kSingletonSocketName \<noteq> []"
  by code_simp+

lemma JoinPath_name:
  "left \<noteq> [] \<Longrightarrow> right \<noteq> [] \<Longrightarrow> dropWhile IsSeparator right = right
     \<Longrightarrow> JoinPath left right platform = StripTrailingSeparators left @ PathSeparator platform # right"
  by (simp add: JoinPath_def)

lemma JoinPath_hd: "left \<noteq> [] \<Longrightarrow> JoinPath left right platform \<noteq> [] \<and> hd (JoinPath left right platform) = hd left"
  by (auto simp: JoinPath_def strip_hd)

lemma strip_absolute: "platform \<noteq> kWindows \<Longrightarrow> IsAbsolutePath (StripTrailingSeparators p) platform = IsAbsolutePath p platform"
  using strip_hd [of p] by (auto simp: IsAbsolutePath_def hd_conv_nth)

text \<open>What passes the gate of every recursive removal, in plain terms.\<close>

lemma IsChromiumSocketDir_iff:
  "IsChromiumSocketDir path temp_dir \<longleftrightarrow>
     path \<noteq> [] \<and> temp_dir \<noteq> []
     \<and> (\<exists>suffix. suffix \<noteq> [] \<and> (\<forall>c \<in> set suffix. \<not> IsSeparator c)
          \<and> StripTrailingSeparators path
            = StripTrailingSeparators temp_dir @ ''/'' @ kSocketDirPrefix @ suffix)"
  (is "?l \<longleftrightarrow> ?r")
proof (cases "path = [] \<or> temp_dir = []")
  case True
  then show ?thesis by (auto simp: IsChromiumSocketDir_def)
next
  case False
  let ?s = "StripTrailingSeparators path"
  let ?p = "StripTrailingSeparators temp_dir @ ''/'' @ kSocketDirPrefix"
  from False have p: "JoinPath (StripTrailingSeparators temp_dir) kSocketDirPrefix kLinux = ?p"
    by (simp add: JoinPath_name PathSeparator_def)
  have "?l \<longleftrightarrow> length ?p < length ?s \<and> take (length ?p) ?s = ?p \<and> (\<forall>c \<in> set (drop (length ?p) ?s). \<not> IsSeparator c)"
    unfolding IsChromiumSocketDir_def Let_def p using False by (auto simp: list_ex_iff)
  also have "\<dots> \<longleftrightarrow> (\<exists>suffix. suffix \<noteq> [] \<and> (\<forall>c \<in> set suffix. \<not> IsSeparator c) \<and> ?s = ?p @ suffix)"
  proof
    assume l: "length ?p < length ?s \<and> take (length ?p) ?s = ?p \<and> (\<forall>c \<in> set (drop (length ?p) ?s). \<not> IsSeparator c)"
    then have "?s = ?p @ drop (length ?p) ?s" by (metis append_take_drop_id)
    with l show "\<exists>suffix. suffix \<noteq> [] \<and> (\<forall>c \<in> set suffix. \<not> IsSeparator c) \<and> ?s = ?p @ suffix"
      by (intro exI [of _ "drop (length ?p) ?s"]) simp
  qed auto
  finally show ?thesis using False by simp
qed

section \<open>The choice of a directory\<close>

lemma first_writable_find:
  "first_writable writable platform roots
     = (case List.find (\<lambda>root. writable (cp_cache (CachePathsForRoot root platform))) roots of
          None \<Rightarrow> CachePaths_empty | Some root \<Rightarrow> CachePathsForRoot root platform)"
  by (induction roots) (simp_all add: Let_def)

lemma set_AppendIfAbsolute:
  "set (AppendIfAbsolute out path platform)
     = set out \<union> (if path \<noteq> [] \<and> IsAbsolutePath path platform then {StripTrailingSeparators path} else {})"
  by (auto simp: AppendIfAbsolute_def)

lemma candidates_stripped:
  "root \<in> set (RootCacheCandidates env platform)
     \<Longrightarrow> \<exists>p. p \<noteq> [] \<and> IsAbsolutePath p platform \<and> root = StripTrailingSeparators p"
  by (auto simp: RootCacheCandidates_def Let_def AppendVendorAppDir_def set_AppendIfAbsolute
      split: HostPlatform.splits if_splits)

lemma append_extends:
  "prefix out (AppendIfAbsolute out path platform)" "prefix out (AppendVendorAppDir out path platform)"
  by (simp_all add: AppendIfAbsolute_def AppendVendorAppDir_def)

lemma choice_first:
  assumes "IsAbsolutePath (env kRootCachePathEnvVar) platform"
  shows "prefix [StripTrailingSeparators (env kRootCachePathEnvVar)] (RootCacheCandidates env platform)"
proof -
  from assms have "env kRootCachePathEnvVar \<noteq> []" by (auto simp: IsAbsolutePath_def)
  with assms have "AppendIfAbsolute [] (env kRootCachePathEnvVar) platform
      = [StripTrailingSeparators (env kRootCachePathEnvVar)]" by (simp add: AppendIfAbsolute_def)
  then show ?thesis
    by (cases platform; simp add: RootCacheCandidates_def Let_def)
      (blast intro: prefix_order.trans append_extends)+
qed




text \<open>A drive given as the cache root loses the separator that makes it absolute. On Windows the choice
  \<open>C:\<close> with its backslash is accepted as absolute and then stripped to \<open>C:\<close>, which names the current
  directory of that drive: the root handed to CEF is not absolute although its cache is.\<close>

theorem drive_root_loses_separator:
  assumes "is_alpha d" and "env kRootCachePathEnvVar = [d, CHR '':'', backslash]"
    and "writable ([d, CHR '':'', backslash] @ kCacheDirName)"
  shows "ResolveCachePaths env writable kWindows
           = \<lparr>cp_root = [d, CHR '':''], cp_cache = [d, CHR '':'', backslash] @ kCacheDirName\<rparr>
         \<and> \<not> IsAbsolutePath [d, CHR '':''] kWindows
         \<and> IsAbsolutePath ([d, CHR '':'', backslash] @ kCacheDirName) kWindows"
proof -
  have st: "StripTrailingSeparators [d, CHR '':'', backslash] = [d, CHR '':'']"
    "StripTrailingSeparators [d, CHR '':''] = [d, CHR '':'']"
    by (subst StripTrailingSeparators.simps, simp add: IsSeparator_def backslash_def strip_done)+
  have abs: "IsAbsolutePath (d # CHR '':'' # backslash # rest) kWindows" for rest
    using assms(1) by (auto simp: IsAbsolutePath_def IsSeparator_def)
  with choice_first [of env kWindows] assms(2) obtain rest where
      r: "RootCacheCandidates env kWindows = [d, CHR '':''] # rest" by (auto simp: st prefix_def)
  have "CachePathsForRoot [d, CHR '':''] kWindows
      = \<lparr>cp_root = [d, CHR '':''], cp_cache = [d, CHR '':'', backslash] @ kCacheDirName\<rparr>"
    by (simp add: CachePathsForRoot_def Let_def JoinPath_name PathSeparator_def st)
  with r assms(3) abs show ?thesis
    by (simp add: ResolveCachePaths_def Let_def) (simp add: IsAbsolutePath_def IsSeparator_def backslash_def)
qed

theorem drive_root_loses_separator_witness:
  "cp_root (ResolveCachePaths (\<lambda>n. if n = kRootCachePathEnvVar then [CHR ''D'', CHR '':'', backslash] else [])
     (\<lambda>_. True) kWindows) = ''D:'' \<and> \<not> IsAbsolutePath ''D:'' kWindows"
proof -
  have "is_alpha (CHR ''D'')" by code_simp
  from drive_root_loses_separator [OF this, of "\<lambda>n. if n = kRootCachePathEnvVar then [CHR ''D'', CHR '':'', backslash] else []"
      "\<lambda>_. True"] show ?thesis by simp
qed

text \<open>The directories to try need not end with one under the temporary directory: with a relative \<open>TMPDIR\<close>
  and no home there is none to try at all.\<close>

theorem no_fallback_candidate:
  assumes "\<forall>n. n \<noteq> ''TMPDIR'' \<longrightarrow> env n = []" and "env ''TMPDIR'' \<noteq> []" and "hd (env ''TMPDIR'') \<noteq> CHR ''/''"
  shows "RootCacheCandidates env kLinux = []"
proof -
  have rel: "\<not> IsAbsolutePath (JoinPath left right kLinux) kLinux" if "left \<noteq> []" "hd left \<noteq> CHR ''/''" for left right
    using JoinPath_hd [OF that(1), of right kLinux] that(2) by (simp add: IsAbsolutePath_def hd_conv_nth [symmetric])
  from assms(2,3) have "TempDirectory env kLinux \<noteq> []" "hd (TempDirectory env kLinux) \<noteq> CHR ''/''"
    by (simp_all add: TempDirectory_def strip_hd)
  note temp = rel [OF this]
  have "JoinPath [] ''.config'' kLinux = ''.config''" by (simp add: JoinPath_def)
  moreover have "\<not> IsAbsolutePath (JoinPath (JoinPath ''.config'' v kLinux) a kLinux) kLinux" for v a
    using JoinPath_hd [of "''.config''" v kLinux] by (intro rel) simp_all
  ultimately show ?thesis
    using assms(1) temp by (simp add: RootCacheCandidates_def AppendVendorAppDir_def AppendIfAbsolute_def
        kRootCachePathEnvVar_def)
qed

theorem no_fallback_candidate_witness:
  "RootCacheCandidates (\<lambda>n. if n = ''TMPDIR'' then ''tmp'' else []) kLinux = []"
  by (rule no_fallback_candidate) simp_all

section \<open>The plan of the sweep\<close>

definition sweepable :: "string \<Rightarrow> AbandonedSocketDir \<Rightarrow> bool" where
  "sweepable temp_dir dir \<longleftrightarrow>
     \<not> asd_socket_answers dir \<and> kAbandonedSocketDirGraceSeconds \<le> asd_age_seconds dir
     \<and> IsChromiumSocketDir (asd_path dir) temp_dir"

lemma IsChromiumSocketDir_strip [simp]:
  "IsChromiumSocketDir (StripTrailingSeparators p) t = IsChromiumSocketDir p t"
  by (simp add: IsChromiumSocketDir_iff)

lemma sweep_dirs_set:
  "set (sweep_dirs temp_dir directories dirs)
     = set directories \<union> StripTrailingSeparators ` asd_path ` {dir \<in> set dirs. sweepable temp_dir dir}"
  by (induction dirs arbitrary: directories) (auto simp: sweepable_def Let_def)

lemma sweep_dirs_distinct: "distinct directories \<Longrightarrow> distinct (sweep_dirs temp_dir directories dirs)"
  by (induction dirs arbitrary: directories) (auto simp: Let_def)

definition root_judged_dead :: "string \<Rightarrow> SingletonState \<Rightarrow> bool" where
  "root_judged_dead root state \<longleftrightarrow>
     root \<noteq> [] \<and> \<not> (socket_present state \<and> socket_answers state)
     \<and> ((lock_present state \<or> cookie_present state \<or> socket_present state)
          \<longrightarrow> kFreshSingletonStateGraceSeconds \<le> age_seconds state)"

lemma plan_directories:
  "set (sw_directories (PlanSingletonSweep root state temp_dir dirs))
     = (if root_judged_dead root state \<and> IsChromiumSocketDir (ParentDirectory (socket_target state)) temp_dir
        then {StripTrailingSeparators (ParentDirectory (socket_target state))} else {})
       \<union> StripTrailingSeparators ` asd_path ` {dir \<in> set dirs. sweepable temp_dir dir}"
  by (auto simp: PlanSingletonSweep_def Let_def sweep_dirs_set root_judged_dead_def)

text \<open>C37. A start deletes only what is its own or abandoned. Files go only when the root's socket is silent and
  none of the three files is younger than ten seconds, and then exactly the ones that are there; every
  directory of the plan is a direct child of the temporary directory with Chromium's prefix, planned
  once, and, but for the one the dead link names, five minutes old with a silent socket.\<close>

theorem sweep_takes_only_the_abandoned:
  "let sweep = PlanSingletonSweep root state temp_dir dirs in
     sw_files sweep = (if root_judged_dead root state then singleton_files root state else [])
     \<and> distinct (sw_directories sweep)
     \<and> (\<forall>d \<in> set (sw_directories sweep).
          (\<exists>suffix. suffix \<noteq> [] \<and> (\<forall>c \<in> set suffix. \<not> IsSeparator c)
             \<and> d = StripTrailingSeparators temp_dir @ ''/'' @ kSocketDirPrefix @ suffix)
          \<and> ((root_judged_dead root state \<and> d = StripTrailingSeparators (ParentDirectory (socket_target state)))
             \<or> (\<exists>dir \<in> set dirs. sweepable temp_dir dir \<and> d = StripTrailingSeparators (asd_path dir))))"
proof -
  let ?sweep = "PlanSingletonSweep root state temp_dir dirs"
  have "sw_files ?sweep = (if root_judged_dead root state then singleton_files root state else [])"
    by (auto simp: PlanSingletonSweep_def Let_def root_judged_dead_def)
  moreover have "distinct (sw_directories ?sweep)"
    by (simp add: PlanSingletonSweep_def Let_def sweep_dirs_distinct)
  moreover have "\<exists>suffix. suffix \<noteq> [] \<and> (\<forall>c \<in> set suffix. \<not> IsSeparator c)
      \<and> d = StripTrailingSeparators temp_dir @ ''/'' @ kSocketDirPrefix @ suffix"
    if "d \<in> set (sw_directories ?sweep)" for d
    using that by (auto simp: plan_directories sweepable_def IsChromiumSocketDir_iff split: if_splits)
  ultimately show ?thesis by (auto simp: Let_def plan_directories)
qed

theorem sweep_takes_only_the_abandoned_witness:
  "let state = \<lparr>lock_present = True, cookie_present = False, socket_present = True,
        socket_target = ''/tmp/org.chromium.Chromium.Ab12/SingletonSocket'', socket_answers = False, age_seconds = 60\<rparr>;
       sweep = PlanSingletonSweep ''/r'' state ''/tmp'' []
   in sw_files sweep = [''/r/SingletonLock'', ''/r/SingletonSocket'']
      \<and> sw_directories sweep = [''/tmp/org.chromium.Chromium.Ab12'']
      \<and> distinct (sw_directories sweep)"
proof -
  let ?state = "\<lparr>lock_present = True, cookie_present = False, socket_present = True,
        socket_target = ''/tmp/org.chromium.Chromium.Ab12/SingletonSocket'', socket_answers = False, age_seconds = 60\<rparr>"
  have "sw_files (PlanSingletonSweep ''/r'' ?state ''/tmp'' []) = [''/r/SingletonLock'', ''/r/SingletonSocket'']"
    and "sw_directories (PlanSingletonSweep ''/r'' ?state ''/tmp'' []) = [''/tmp/org.chromium.Chromium.Ab12'']"
    by code_simp+
  with sweep_takes_only_the_abandoned [of "''/r''" ?state "''/tmp''" "[]"] show ?thesis by (simp add: Let_def)
qed

end
