(* ===== verification/Cef_Cache_Host.thy ===== *)
theory Cef_Cache_Host
  imports Cef_Cache_Paths
begin

text \<open>
  The side of the cache paths that touches the disk (\<open>packages/webview_cef/common/cef_cache_paths_host.cc\<close>): making a
  directory, probing a socket, what a start finds of the run before it, and the sweep carried out. What
  the system calls answer is a record of functions of the path asked about; what the code changes on
  the disk and writes to stderr is a list of effects. The removal of a tree is a recursion over the
  tree itself. Windows has the choice of the directory only.
\<close>

section \<open>Environment and directories\<close>

definition EnvOrEmpty :: "(string \<Rightarrow> string option) \<Rightarrow> string \<Rightarrow> string" where
  "EnvOrEmpty getenv name = (case getenv name of Some v \<Rightarrow> v | None \<Rightarrow> [])"

text \<open>\<open>pw_dir\<close> is the home directory of the user's passwd entry, where there is one.\<close>

definition HostEnv :: "bool \<Rightarrow> (string \<Rightarrow> string option) \<Rightarrow> string option \<Rightarrow> string \<Rightarrow> string" where
  "HostEnv windows getenv pw_dir name =
     (let v = EnvOrEmpty getenv name
      in if \<not> windows \<and> v = [] \<and> name = ''HOME''
         then (case pw_dir of Some d \<Rightarrow> if d \<noteq> [] then d else v | None \<Rightarrow> v)
         else v)"

definition directories_made :: "string \<Rightarrow> string list" where
  "directories_made path = map (\<lambda>i. take i path) (filter (\<lambda>i. IsSeparator (path ! i)) [1..<length path]) @ [path]"

text \<open>
  The disk is of any type; \<open>mkdir\<close> is \<open>MakeOneDirectory\<close>, whose answer the code ignores, and \<open>writable\<close>
  is \<open>DirectoryIsWritable\<close>.
\<close>

definition EnsureWritableDirectory ::
    "(string \<Rightarrow> 'disk \<Rightarrow> 'disk) \<Rightarrow> (string \<Rightarrow> 'disk \<Rightarrow> bool) \<Rightarrow> string \<Rightarrow> 'disk \<Rightarrow> bool \<times> 'disk" where
  "EnsureWritableDirectory mkdir writable path disk =
     (if path = [] then (False, disk)
      else let disk = foldl (\<lambda>d p. mkdir p d) disk (directories_made path)
           in (writable path disk, disk))"

section \<open>What the system answers\<close>

datatype FileKind = Directory | SymbolicLink | OtherFile

text \<open>\<open>PollReady ok\<close>: the socket's error could be read and is none.\<close>

datatype PollResult = PollReady bool | PollTimedOut | PollFailed

datatype ConnectResult = Connected | WouldBlock | InProgress PollResult | ConnectFailed

record HostFs =
  fs_lstat :: "string \<Rightarrow> (FileKind \<times> int) option"
  fs_stat_mtime :: "string \<Rightarrow> int option"
  fs_readlink :: "string \<Rightarrow> string option"
  fs_readdir :: "string \<Rightarrow> string list option"
  fs_time :: "string \<Rightarrow> int"
  fs_socket :: "string \<Rightarrow> bool"
  fs_connect :: "string \<Rightarrow> ConnectResult"

definition sun_path_size :: nat where "sun_path_size = 108"

definition UnixSocketAnswers :: "HostFs \<Rightarrow> string \<Rightarrow> bool" where
  "UnixSocketAnswers fs path =
     (if path = [] then False
      else if sun_path_size \<le> length path then False
      else if \<not> fs_socket fs path then False
      else case fs_connect fs path of
             Connected \<Rightarrow> True
           | WouldBlock \<Rightarrow> True
           | InProgress (PollReady ok) \<Rightarrow> ok
           | InProgress PollTimedOut \<Rightarrow> True
           | InProgress PollFailed \<Rightarrow> False
           | ConnectFailed \<Rightarrow> False)"

definition PathExists :: "HostFs \<Rightarrow> string \<Rightarrow> bool" where
  "PathExists fs path = (fs_lstat fs path \<noteq> None)"

definition ReadLinkTarget :: "HostFs \<Rightarrow> string \<Rightarrow> string" where
  "ReadLinkTarget fs path = (case fs_readlink fs path of Some t \<Rightarrow> take 4095 t | None \<Rightarrow> [])"

definition SecondsSinceModified :: "HostFs \<Rightarrow> string \<Rightarrow> int" where
  "SecondsSinceModified fs path =
     (case fs_stat_mtime fs path of
        None \<Rightarrow> 0
      | Some m \<Rightarrow> let age = fs_time fs path - m in if age > 0 then age else 0)"

definition socket_dir_candidate :: "HostFs \<Rightarrow> string \<Rightarrow> string \<Rightarrow> AbandonedSocketDir option" where
  "socket_dir_candidate fs temp_dir name =
     (if length name \<le> length kSocketDirPrefix \<or> take (length kSocketDirPrefix) name \<noteq> kSocketDirPrefix then None
      else let path = temp_dir @ ''/'' @ name
           in case fs_lstat fs path of
                Some (Directory, m) \<Rightarrow>
                  let age = SecondsSinceModified fs path
                  in Some \<lparr>asd_path = path,
                       asd_socket_answers = (kAbandonedSocketDirGraceSeconds \<le> age
                         \<and> UnixSocketAnswers fs (path @ ''/'' @ kSingletonSocketName)),
                       asd_age_seconds = age\<rparr>
              | _ \<Rightarrow> None)"

definition FindSocketDirs :: "HostFs \<Rightarrow> string \<Rightarrow> AbandonedSocketDir list" where
  "FindSocketDirs fs temp_dir =
     (case fs_readdir fs temp_dir of
        None \<Rightarrow> []
      | Some names \<Rightarrow> List.map_filter (socket_dir_candidate fs temp_dir) names)"

section \<open>Removing a tree\<close>

text \<open>
  A tree of the disk: a link has its target as text. The three questions of the walk, by the path from
  the directory the walk started in: whether a directory opens, whether it can be listed, and whether an
  entry can be unlinked. What is left is the answer; \<open>None\<close> is the success of the code.
\<close>

datatype Node = Leaf | LinkTo string | Dir "(string \<times> Node) list"

record Walk =
  wk_opens :: "string list \<Rightarrow> bool"
  wk_lists :: "string list \<Rightarrow> bool"
  wk_unlinks :: "string list \<Rightarrow> bool"

lemma node_entry_size: "(n, e) \<in> set es \<Longrightarrow> size e < size (Dir es)"
  by (induction es) auto

function RemoveTreeAt :: "Walk \<Rightarrow> string list \<Rightarrow> Node \<Rightarrow> Node option" where
  "RemoveTreeAt w p Leaf = (if wk_unlinks w p then None else Some Leaf)"
| "RemoveTreeAt w p (LinkTo t) = (if wk_unlinks w p then None else Some (LinkTo t))"
| "RemoveTreeAt w p (Dir es) =
     (if \<not> wk_opens w p then Some (Dir es)
      else let left_over =
                 (if wk_lists w p
                  then List.map_filter id (map (\<lambda>(n, e). map_option (Pair n) (RemoveTreeAt w (p @ [n]) e)) es)
                  else es)
           in if left_over = [] \<and> wk_unlinks w p then None else Some (Dir left_over))"
  by pat_completeness auto

termination
  by (relation "measure (\<lambda>(w, p, t). size t)") (auto dest: node_entry_size)

section \<open>The sweep\<close>

datatype CacheEffect = StderrLine string | UnlinkFile string | RemoveTree string

definition youngest_age :: "HostFs \<Rightarrow> string list \<Rightarrow> int" where
  "youngest_age fs paths =
     (let youngest = foldl (\<lambda>youngest path.
            case fs_lstat fs path of
              None \<Rightarrow> youngest
            | Some (k, m) \<Rightarrow>
                let age = fs_time fs path - m;
                    clamped = (if age > 0 then age else 0)
                in if youngest < 0 \<or> clamped < youngest then clamped else youngest) (- 1) paths
      in if youngest \<ge> 0 then youngest else 0)"

definition observed_state :: "HostFs \<Rightarrow> string \<Rightarrow> SingletonState" where
  "observed_state fs root =
     (let lock_path = root @ ''/'' @ kSingletonLockName;
          cookie_path = root @ ''/'' @ kSingletonCookieName;
          socket_path = root @ ''/'' @ kSingletonSocketName;
          present = PathExists fs socket_path;
          target = (if present then ReadLinkTarget fs socket_path else [])
      in \<lparr>lock_present = PathExists fs lock_path,
          cookie_present = PathExists fs cookie_path,
          socket_present = present,
          socket_target = target,
          socket_answers = (present \<and> UnixSocketAnswers fs (if target = [] then socket_path else target)),
          age_seconds = youngest_age fs [lock_path, cookie_path, socket_path]\<rparr>)"

definition ClearStaleSingletonState :: "HostFs \<Rightarrow> string \<Rightarrow> string \<Rightarrow> SingletonSweep \<times> CacheEffect list" where
  "ClearStaleSingletonState fs root temp_dir =
     (let sweep = PlanSingletonSweep root (observed_state fs root) temp_dir (FindSocketDirs fs temp_dir)
      in (sweep, map UnlinkFile (sw_files sweep)
                 @ map RemoveTree (filter (\<lambda>d. IsChromiumSocketDir d temp_dir) (sw_directories sweep))))"

text \<open>\<open>fs\<close> is what the disk answers once the directory has been chosen; \<open>platform\<close> is the build's.\<close>

definition override_lines :: "string \<Rightarrow> CachePaths \<Rightarrow> HostPlatform \<Rightarrow> string list" where
  "override_lines requested paths platform =
     (if requested = [] then []
      else if \<not> IsAbsolutePath requested platform
      then [''[webview_cef] ignoring '' @ kRootCachePathEnvVar @ ''='' @ [dquote] @ requested @ [dquote]
            @ '': not an absolute path'']
      else if cp_root paths \<noteq> cp_root (CachePathsForRoot requested platform)
      then [''[webview_cef] '' @ kRootCachePathEnvVar @ ''='' @ [dquote] @ requested @ [dquote]
            @ '' could not be created or is not writable; falling back'']
      else [])"

definition sweep_lines :: "string \<Rightarrow> SingletonSweep \<Rightarrow> string list" where
  "sweep_lines root sweep =
     (if owner_alive sweep
      then [''[webview_cef] another instance is live in '' @ root
            @ ''; leaving its process-singleton state alone'']
      else if sw_files sweep = [] \<and> sw_directories sweep = [] then []
      else [''[webview_cef] cleared process-singleton state left by a killed run: ''
            @ show_nat (length (sw_files sweep)) @ '' file(s), ''
            @ show_nat (length (sw_directories sweep)) @ '' socket directory(ies)''])"

definition PrepareCefCachePaths ::
    "HostPlatform \<Rightarrow> (string \<Rightarrow> string option) \<Rightarrow> string option \<Rightarrow> (string \<Rightarrow> bool) \<Rightarrow> HostFs
       \<Rightarrow> CachePaths \<times> CacheEffect list" where
  "PrepareCefCachePaths platform getenv pw_dir ensure fs =
     (let env = HostEnv (platform = kWindows) getenv pw_dir;
          paths = ResolveCachePaths env ensure platform;
          out = map StderrLine (override_lines (env kRootCachePathEnvVar) paths platform)
      in if cp_root paths = []
         then (paths, out @ [StderrLine (''[webview_cef] WARNING: no writable cache directory could be created; ''
                 @ ''CEF falls back to its shared default user data directory. Set '' @ kRootCachePathEnvVar
                 @ '' to a writable absolute path.'')])
         else let out = out @ [StderrLine (''[webview_cef] cache root: '' @ cp_root paths)]
              in if platform = kWindows then (paths, out)
                 else let (sweep, effects) =
                            ClearStaleSingletonState fs (cp_root paths) (TempDirectory env platform)
                      in (paths, out @ effects @ map StderrLine (sweep_lines (cp_root paths) sweep)))"

section \<open>What is removed\<close>

lemma set_map_filter: "y \<in> set (List.map_filter f xs) \<longleftrightarrow> (\<exists>x \<in> set xs. f x = Some y)"
  by (induction xs) (auto simp: List.map_filter_def)

lemma FindSocketDirs_iff:
  "dir \<in> set (FindSocketDirs fs temp_dir) \<longleftrightarrow>
     (\<exists>ns n. fs_readdir fs temp_dir = Some ns \<and> n \<in> set ns \<and> socket_dir_candidate fs temp_dir n = Some dir)"
  by (cases "fs_readdir fs temp_dir") (auto simp: FindSocketDirs_def set_map_filter)

lemma candidate_fields:
  assumes "socket_dir_candidate fs temp_dir n = Some dir"
  shows "asd_path dir = temp_dir @ ''/'' @ n"
    and "asd_socket_answers dir = (kAbandonedSocketDirGraceSeconds \<le> asd_age_seconds dir
      \<and> UnixSocketAnswers fs (asd_path dir @ ''/'' @ kSingletonSocketName))"
  using assms by (auto simp: socket_dir_candidate_def Let_def split: if_splits option.splits FileKind.splits prod.splits)

lemma removed_iff:
  "RemoveTree d \<in> set (snd (ClearStaleSingletonState fs root temp_dir)) \<longleftrightarrow>
     d \<in> set (sw_directories (PlanSingletonSweep root (observed_state fs root) temp_dir (FindSocketDirs fs temp_dir)))"
  by (auto simp: ClearStaleSingletonState_def Let_def plan_directories sweepable_def)

lemma last_separator_name:
  "\<forall>c \<in> set n. \<not> IsSeparator c \<Longrightarrow> IsSeparator s \<Longrightarrow> last_separator (x @ s # n) = Some (length x)"
  by (simp add: last_separator_def dropWhile_append)

lemma parent_of_socket:
  assumes "x \<noteq> []"
  shows "ParentDirectory (x @ ''/'' @ kSingletonSocketName) = x"
proof -
  have c: "\<forall>c \<in> set kSingletonSocketName. \<not> IsSeparator c" "\<not> IsSeparator (last kSingletonSocketName)"
    by code_simp+
  then have "StripTrailingSeparators (x @ ''/'' @ kSingletonSocketName) = x @ ''/'' @ kSingletonSocketName"
    by (intro strip_done) simp
  moreover have "last_separator (x @ ''/'' @ kSingletonSocketName) = Some (length x)"
    using c(1) by (simp add: last_separator_name IsSeparator_def)
  ultimately show ?thesis using assms by (simp add: ParentDirectory_def)
qed

definition link_names_socket :: "HostFs \<Rightarrow> string \<Rightarrow> bool" where
  "link_names_socket fs root \<longleftrightarrow>
     (let t = ReadLinkTarget fs (root @ ''/'' @ kSingletonSocketName)
      in t = [] \<or> (\<exists>x. x \<noteq> [] \<and> \<not> IsSeparator (last x) \<and> t = x @ ''/'' @ kSingletonSocketName))"

text \<open>C38. No directory whose socket answers is removed, of this run or of any other application. The link must
  name a socket the way Chromium writes it, and no name in the temporary directory may end with a
  separator.\<close>

theorem answering_socket_survives:
  assumes names: "\<forall>ns. fs_readdir fs temp_dir = Some ns \<longrightarrow> (\<forall>n \<in> set ns. \<not> IsSeparator (last n))"
    and link: "link_names_socket fs root"
    and rm: "RemoveTree d \<in> set (snd (ClearStaleSingletonState fs root temp_dir))"
  shows "\<not> UnixSocketAnswers fs (d @ ''/'' @ kSingletonSocketName)"
proof -
  let ?s = "observed_state fs root"
  consider (orphan) "root_judged_dead root ?s" "IsChromiumSocketDir (ParentDirectory (socket_target ?s)) temp_dir"
      "d = StripTrailingSeparators (ParentDirectory (socket_target ?s))"
    | (found) dir where "dir \<in> set (FindSocketDirs fs temp_dir)" "sweepable temp_dir dir"
        "d = StripTrailingSeparators (asd_path dir)"
    using rm by (auto simp: removed_iff plan_directories split: if_splits)
  then show ?thesis
  proof cases
    case orphan
    then have "socket_target ?s \<noteq> []"
      by (auto simp: IsChromiumSocketDir_def ParentDirectory_def last_separator_def split: if_splits)
    then have present: "socket_present ?s"
      and t: "socket_target ?s = ReadLinkTarget fs (root @ ''/'' @ kSingletonSocketName)"
      by (auto simp: observed_state_def Let_def split: if_splits)
    with link \<open>socket_target ?s \<noteq> []\<close> obtain x where
        x: "x \<noteq> []" "\<not> IsSeparator (last x)" "socket_target ?s = x @ ''/'' @ kSingletonSocketName"
      by (auto simp: link_names_socket_def Let_def)
    with orphan(3) have "d = x" by (simp add: parent_of_socket [simplified] strip_done)
    moreover have "\<not> UnixSocketAnswers fs (socket_target ?s)"
      using orphan(1) present \<open>socket_target ?s \<noteq> []\<close>
      by (auto simp: root_judged_dead_def observed_state_def Let_def split: if_splits)
    ultimately show ?thesis using x(3) by simp
  next
    case found
    then obtain ns n where n: "fs_readdir fs temp_dir = Some ns" "n \<in> set ns"
        "socket_dir_candidate fs temp_dir n = Some dir" by (auto simp: FindSocketDirs_iff)
    from n(3) have "n \<noteq> []" by (auto simp: socket_dir_candidate_def)
    with names n candidate_fields(1) [OF n(3)] found(3) have "d = asd_path dir"
      by (simp add: strip_append [where p = "temp_dir @ ''/''", simplified])
    with found(2) candidate_fields(2) [OF n(3)] show ?thesis by (simp add: sweepable_def)
  qed
qed

definition killed_run :: "HostFs" where
  "killed_run =
     \<lparr>fs_lstat = (\<lambda>p. if p = ''/r/SingletonSocket'' \<or> p = ''/r/SingletonLock'' then Some (SymbolicLink, 100)
                     else if p = ''/tmp/org.chromium.Chromium.a'' \<or> p = ''/tmp/org.chromium.Chromium.a'' @ [backslash]
                     then Some (Directory, 100) else None),
      fs_stat_mtime = (\<lambda>p. if p = ''/tmp/org.chromium.Chromium.a'' then Some 990 else Some 100),
      fs_readlink = (\<lambda>p. if p = ''/r/SingletonSocket'' then Some ''/tmp/org.chromium.Chromium.b/SingletonSocket'' else None),
      fs_readdir = (\<lambda>p. Some [''org.chromium.Chromium.a'', ''org.chromium.Chromium.a'' @ [backslash]]),
      fs_time = (\<lambda>_. 1000), fs_socket = (\<lambda>_. True),
      fs_connect = (\<lambda>p. if p = ''/tmp/org.chromium.Chromium.a/SingletonSocket'' then Connected else ConnectFailed)\<rparr>"

theorem answering_socket_survives_witness:
  "\<not> UnixSocketAnswers (killed_run\<lparr>fs_readdir := \<lambda>_. None\<rparr>) (''/tmp/org.chromium.Chromium.b'' @ ''/'' @ kSingletonSocketName)"
proof (rule answering_socket_survives)
  show "link_names_socket (killed_run\<lparr>fs_readdir := \<lambda>_. None\<rparr>) ''/r''"
    unfolding link_names_socket_def Let_def
    by (intro disjI2 exI [of _ "''/tmp/org.chromium.Chromium.b''"]) code_simp
  show "RemoveTree ''/tmp/org.chromium.Chromium.b''
      \<in> set (snd (ClearStaleSingletonState (killed_run\<lparr>fs_readdir := \<lambda>_. None\<rparr>) ''/r'' ''/tmp''))"
    by code_simp
qed (simp add: killed_run_def)

text \<open>A name that ends with a backslash aims the sweep at its neighbour. On Linux a backslash is a
  character like any other, but the plan strips it: the directory that was found old and silent stays,
  and the one whose name is the same without the backslash is removed, without having been judged.\<close>

theorem backslash_name_removes_neighbour:
  assumes "fs_readdir fs temp_dir = Some ns" and "kSocketDirPrefix @ s @ [backslash] \<in> set ns"
    and "s \<noteq> []" and "\<forall>c \<in> set s. \<not> IsSeparator c"
    and "temp_dir \<noteq> []" and "StripTrailingSeparators temp_dir = temp_dir"
    and "fs_lstat fs (temp_dir @ ''/'' @ kSocketDirPrefix @ s @ [backslash]) = Some (Directory, m)"
    and "kAbandonedSocketDirGraceSeconds \<le> SecondsSinceModified fs (temp_dir @ ''/'' @ kSocketDirPrefix @ s @ [backslash])"
    and "\<not> UnixSocketAnswers fs (temp_dir @ ''/'' @ kSocketDirPrefix @ s @ [backslash] @ ''/'' @ kSingletonSocketName)"
  shows "RemoveTree (temp_dir @ ''/'' @ kSocketDirPrefix @ s) \<in> set (snd (ClearStaleSingletonState fs root temp_dir))"
proof -
  let ?n = "kSocketDirPrefix @ s @ [backslash]"
  let ?dir = "\<lparr>asd_path = temp_dir @ ''/'' @ ?n, asd_socket_answers = False,
      asd_age_seconds = SecondsSinceModified fs (temp_dir @ ''/'' @ ?n)\<rparr>"
  have "socket_dir_candidate fs temp_dir ?n = Some ?dir"
    using assms by (simp add: socket_dir_candidate_def Let_def)
  with assms(1,2) have f: "?dir \<in> set (FindSocketDirs fs temp_dir)" by (auto simp: FindSocketDirs_iff)
  have "butlast (temp_dir @ ''/'' @ ?n) = temp_dir @ ''/'' @ kSocketDirPrefix @ s"
    by (simp add: butlast_append)
  moreover have "\<not> IsSeparator (last s)" using assms(3,4) by simp
  ultimately have st: "StripTrailingSeparators (temp_dir @ ''/'' @ ?n) = temp_dir @ ''/'' @ kSocketDirPrefix @ s"
    using assms(3) strip_append [of s "temp_dir @ ''/'' @ kSocketDirPrefix"]
    by (subst StripTrailingSeparators.simps) (simp add: IsSeparator_def)
  with assms have "IsChromiumSocketDir (asd_path ?dir) temp_dir" by (auto simp: IsChromiumSocketDir_iff)
  with assms(8) have "sweepable temp_dir ?dir" by (simp add: sweepable_def)
  with f st show ?thesis by (force simp: removed_iff plan_directories)
qed

theorem backslash_name_removes_neighbour_witness:
  "RemoveTree (''/tmp'' @ ''/'' @ kSocketDirPrefix @ ''a'') \<in> set (snd (ClearStaleSingletonState killed_run ''/r'' ''/tmp''))
     \<and> UnixSocketAnswers killed_run (''/tmp/org.chromium.Chromium.a'' @ ''/'' @ kSingletonSocketName)"
proof (rule conjI, rule backslash_name_removes_neighbour)
  show "UnixSocketAnswers killed_run (''/tmp/org.chromium.Chromium.a'' @ ''/'' @ kSingletonSocketName)" by code_simp
  show "fs_readdir killed_run ''/tmp'' = Some [''org.chromium.Chromium.a'', ''org.chromium.Chromium.a'' @ [backslash]]"
    by code_simp
qed code_simp+

text \<open>A probe that cannot be made reads as death. When no socket can be created, the files of an instance
  that is alive are removed once its files are ten seconds old, whatever a connection would have said.\<close>

theorem failed_probe_reads_as_dead:
  assumes "\<And>p. \<not> fs_socket fs p" and "root \<noteq> []"
    and "kFreshSingletonStateGraceSeconds \<le> age_seconds (observed_state fs root)"
  shows "set (singleton_files root (observed_state fs root))
           = {f. UnlinkFile f \<in> set (snd (ClearStaleSingletonState fs root temp_dir))}"
  using assms by (auto simp: ClearStaleSingletonState_def Let_def PlanSingletonSweep_def observed_state_def UnixSocketAnswers_def)

theorem failed_probe_reads_as_dead_witness:
  "{f. UnlinkFile f \<in> set (snd (ClearStaleSingletonState
        (killed_run\<lparr>fs_socket := \<lambda>_. False, fs_connect := \<lambda>_. Connected\<rparr>) ''/r'' ''/tmp''))}
     = {''/r/SingletonLock'', ''/r/SingletonSocket''}"
proof -
  let ?fs = "killed_run\<lparr>fs_socket := \<lambda>_. False, fs_connect := \<lambda>_. Connected\<rparr>"
  have "set (singleton_files ''/r'' (observed_state ?fs ''/r'')) = {''/r/SingletonLock'', ''/r/SingletonSocket''}"
    by code_simp
  moreover have "kFreshSingletonStateGraceSeconds \<le> age_seconds (observed_state ?fs ''/r'')" by code_simp
  ultimately show ?thesis using failed_probe_reads_as_dead [of ?fs "''/r''" "''/tmp''"] by simp
qed

section \<open>Removing a tree\<close>

fun removable :: "Walk \<Rightarrow> string list \<Rightarrow> Node \<Rightarrow> bool" where
  "removable w p (Dir es) \<longleftrightarrow>
     wk_opens w p \<and> (wk_lists w p \<or> es = []) \<and> wk_unlinks w p
     \<and> (\<forall>(n, e) \<in> set es. removable w (p @ [n]) e)"
| "removable w p t \<longleftrightarrow> wk_unlinks w p"

fun retarget :: "(string \<Rightarrow> string) \<Rightarrow> Node \<Rightarrow> Node" where
  "retarget f Leaf = Leaf"
| "retarget f (LinkTo t) = LinkTo (f t)"
| "retarget f (Dir es) = Dir (map (\<lambda>(n, e). (n, retarget f e)) es)"


lemma map_filter_id_Nil: "List.map_filter id (map f xs) = [] \<longleftrightarrow> (\<forall>x \<in> set xs. f x = None)"
  by (induction xs) (auto simp: List.map_filter_def)

lemma removed_iff_removable: "RemoveTreeAt w p t = None \<longleftrightarrow> removable w p t"
proof (induction w p t rule: RemoveTreeAt.induct)
  case (3 w p es)
  show ?case
  proof (cases "wk_opens w p \<and> wk_lists w p")
    case True
    then have "(\<forall>x \<in> set es. (case x of (n, e) \<Rightarrow> map_option (Pair n) (RemoveTreeAt w (p @ [n]) e)) = None)
        \<longleftrightarrow> (\<forall>(n, e) \<in> set es. removable w (p @ [n]) e)"
      using 3 by (fastforce split: prod.splits)
    with True show ?thesis by (simp add: Let_def map_filter_id_Nil)
  qed auto
qed simp_all

lemma map_filter_id_map:
  "(\<And>x. x \<in> set xs \<Longrightarrow> g (k x) = map_option h (f x))
     \<Longrightarrow> List.map_filter id (map (g \<circ> k) xs) = map h (List.map_filter id (map f xs))"
  by (induction xs) (auto simp: List.map_filter_def split: option.split)

lemma removal_retarget: "RemoveTreeAt w p (retarget f t) = map_option (retarget f) (RemoveTreeAt w p t)"
proof (induction w p t rule: RemoveTreeAt.induct)
  case (3 w p es)
  let ?r = "\<lambda>(n, e). map_option (Pair n) (RemoveTreeAt w (p @ [n]) e)" and ?k = "\<lambda>(n, e). (n, retarget f e)"
  show ?case
  proof (cases "wk_opens w p \<and> wk_lists w p")
    case True
    then have "?r (?k x) = map_option ?k (?r x)" if "x \<in> set es" for x
      using 3 that by (cases x) (fastforce simp: option.map_comp o_def)
    from map_filter_id_map [of es ?r ?k, OF this] True show ?thesis by (simp add: Let_def o_def)
  qed auto
qed simp_all


section \<open>Making a directory\<close>

text \<open>A POSIX \<open>mkdir\<close> on the set of directories there are: it needs the directory that holds the new one.\<close>

definition posix_mkdir :: "string \<Rightarrow> string set \<Rightarrow> string set" where
  "posix_mkdir path dirs = (if ParentDirectory path = [] \<or> ParentDirectory path \<in> dirs then insert path dirs else dirs)"

definition path_of :: "string list \<Rightarrow> string" where
  "path_of names = concat (map (\<lambda>n. CHR ''/'' # n) names)"

lemma directories_made_snoc:
  assumes "p \<noteq> []" and "\<forall>c \<in> set n. \<not> IsSeparator c"
  shows "directories_made (p @ CHR ''/'' # n) = directories_made p @ [p @ CHR ''/'' # n]"
proof -
  let ?q = "p @ CHR ''/'' # n"
  have "[1..<length ?q] = [1..<length p] @ [length p] @ [Suc (length p)..<length ?q]"
    using assms(1) by (simp add: upt_conv_Cons [symmetric] upt_add_eq_append [symmetric] Suc_le_eq)
  moreover have "filter (\<lambda>i. IsSeparator (?q ! i)) [Suc (length p)..<length ?q] = []"
    using assms(2) by (auto simp: filter_empty_conv nth_append nth_Cons')
  moreover have "filter (\<lambda>i. IsSeparator (?q ! i)) [1..<length p] = filter (\<lambda>i. IsSeparator (p ! i)) [1..<length p]"
    by (rule filter_cong) (auto simp: nth_append)
  moreover have "map (\<lambda>i. take i ?q) (filter (\<lambda>i. IsSeparator (p ! i)) [1..<length p])
      = map (\<lambda>i. take i p) (filter (\<lambda>i. IsSeparator (p ! i)) [1..<length p])" by simp
  ultimately show ?thesis by (simp add: directories_made_def IsSeparator_def)
qed


definition plain_name :: "string \<Rightarrow> bool" where
  "plain_name n \<longleftrightarrow> n \<noteq> [] \<and> (\<forall>c \<in> set n. \<not> IsSeparator c)"

lemma parent_of_plain: "plain_name n \<Longrightarrow> ParentDirectory (p @ CHR ''/'' # n) = p"
proof -
  assume n: "plain_name n"
  then have "\<not> IsSeparator (last n)" by (simp add: plain_name_def)
  with n have "StripTrailingSeparators (p @ CHR ''/'' # n) = p @ CHR ''/'' # n"
    by (intro strip_done) (simp add: plain_name_def)
  with n show ?thesis
    by (simp add: ParentDirectory_def last_separator_name plain_name_def IsSeparator_def)
qed

lemma directories_made_first: "plain_name n \<Longrightarrow> directories_made (CHR ''/'' # n) = [CHR ''/'' # n]"
  by (auto simp: directories_made_def plain_name_def filter_empty_conv nth_Cons')

lemma path_of_snoc [simp]: "path_of (ns @ [n]) = path_of ns @ CHR ''/'' # n"
  by (simp add: path_of_def)

lemma path_of_Nil [simp]: "path_of ns = [] \<longleftrightarrow> ns = []"
  by (cases ns) (simp_all add: path_of_def)

lemma parents_made:
  "ns \<noteq> [] \<Longrightarrow> \<forall>n \<in> set ns. plain_name n
     \<Longrightarrow> path_of ns \<in> foldl (\<lambda>d p. posix_mkdir p d) D (directories_made (path_of ns))"
proof (induction ns rule: rev_induct)
  case Nil
  then show ?case by simp
next
  case (snoc n ns)
  then have n: "plain_name n" by simp
  show ?case
  proof (cases "ns = []")
    case True
    with n show ?thesis
      using parent_of_plain [OF n, of "[]"] by (simp add: path_of_def directories_made_first posix_mkdir_def)
  next
    case False
    with snoc have "path_of ns \<in> foldl (\<lambda>d p. posix_mkdir p d) D (directories_made (path_of ns))" by simp
    with False n show ?thesis
      by (simp add: directories_made_snoc [OF _ conjunct2 [OF n [unfolded plain_name_def]]] parent_of_plain posix_mkdir_def)
  qed
qed

text \<open>Making a cache directory makes the directories above it. On a disk where a directory can be made
  only in one that is there, the directory exists afterwards, however many of those above it were
  missing.\<close>

theorem missing_parents_are_made:
  assumes "ns \<noteq> []" and "\<forall>n \<in> set ns. plain_name n"
  shows "fst (EnsureWritableDirectory posix_mkdir (\<lambda>p dirs. p \<in> dirs) (path_of ns) D)"
  using parents_made [OF assms] assms(1) by (simp add: EnsureWritableDirectory_def Let_def)

theorem missing_parents_are_made_witness:
  "fst (EnsureWritableDirectory posix_mkdir (\<lambda>p dirs. p \<in> dirs) (path_of [''home'', ''hmi'', ''cache'']) {})"
  by (rule missing_parents_are_made) (simp_all add: plain_name_def IsSeparator_def backslash_def)

end
