(* ===== verification/Cef_App.thy ===== *)
theory Cef_App
  imports Js_Bridge Webview_Handler
begin

text \<open>
  The CEF application of every process (\<open>packages/webview_cef/common/webview_app.cc\<close>): the switches the
  browser process is started with, and the renderer's side of the messages. The last section puts the
  two processes together: a request of a page travels from the bridge through the handler to the
  application, and its answer back.

  The command line CEF hands over is asked what it has; what is appended to it is a list. The two flags
  are the build's: Linux, and the GPU texture path.
\<close>

section \<open>Process types\<close>

record CommandLine =
  HasSwitch :: "string \<Rightarrow> bool"
  GetSwitchValue :: "string \<Rightarrow> string"

datatype ProcessType = BrowserProcess | RendererProcess | ZygoteProcess | OtherProcess

definition GetProcessType :: "bool \<Rightarrow> CommandLine \<Rightarrow> ProcessType" where
  "GetProcessType linux cl =
     (if \<not> HasSwitch cl ''type'' then BrowserProcess
      else let process_type = GetSwitchValue cl ''type''
           in if process_type = ''renderer'' then RendererProcess
              else if linux \<and> process_type = ''zygote'' then ZygoteProcess
              else OtherProcess)"

section \<open>Switches of the browser process\<close>

record WebviewApp =
  m_uMode :: u32
  m_bEnableGPU :: bool
  m_strFilterDomain :: string

definition WebviewApp_init :: WebviewApp where
  "WebviewApp_init = \<lparr>m_uMode = 1, m_bEnableGPU = False, m_strFilterDomain = []\<rparr>"

definition SetProcessMode :: "u32 \<Rightarrow> WebviewApp \<Rightarrow> WebviewApp" where
  "SetProcessMode uMode app = app\<lparr>m_uMode := uMode\<rparr>"

definition SetEnableGPU :: "bool \<Rightarrow> WebviewApp \<Rightarrow> WebviewApp" where
  "SetEnableGPU bEnable app = app\<lparr>m_bEnableGPU := bEnable\<rparr>"

definition SetUnSafelyTreatInsecureOriginAsSecure :: "string \<Rightarrow> WebviewApp \<Rightarrow> WebviewApp" where
  "SetUnSafelyTreatInsecureOriginAsSecure strFilterDomain app = app\<lparr>m_strFilterDomain := strFilterDomain\<rparr>"

datatype Switch = AppendSwitch string | AppendSwitchWithValue string string

definition ozone_switches :: "(string \<Rightarrow> string option) \<Rightarrow> CommandLine \<Rightarrow> Switch list" where
  "ozone_switches getenv cl =
     (if HasSwitch cl ''ozone-platform'' then []
      else let forced = getenv ''CENTROIDX_CEF_OZONE_PLATFORM''; display = getenv ''DISPLAY''
           in if forced \<noteq> None \<and> forced \<noteq> Some [] then [AppendSwitchWithValue ''ozone-platform'' (the forced)]
              else if display = None \<or> display = Some [] then [AppendSwitchWithValue ''ozone-platform'' ''headless'']
              else [])"

definition mode_switches :: "u32 \<Rightarrow> Switch list" where
  "mode_switches mode =
     (if mode = 1 then [AppendSwitch ''process-per-site'', AppendSwitchWithValue ''renderer-process-limit'' ''8'']
      else if mode = 2 then [AppendSwitch ''process-per-tab'']
      else if mode = 3 then [AppendSwitch ''single-process'']
      else [])"

definition disable_features :: "string \<Rightarrow> string" where
  "disable_features given =
     (let values = (if given = [] then ''SameSiteByDefaultCookies,CookiesWithoutSameSiteMustBeSecure''
                    else given @ '',SameSiteByDefaultCookies,CookiesWithoutSameSiteMustBeSecure'')
      in if \<not> sublist ''CalculateNativeWinOcclusion'' values
         then values @ '',CalculateNativeWinOcclusion'' else values)"

definition OnBeforeCommandLineProcessing ::
    "Build \<Rightarrow> bool \<Rightarrow> (string \<Rightarrow> string option) \<Rightarrow> string \<Rightarrow> CommandLine \<Rightarrow> WebviewApp \<Rightarrow> Switch list" where
  "OnBeforeCommandLineProcessing build linux getenv process_type cl app =
     (if process_type = []
      then (if \<not> gpu_texture build \<and> \<not> m_bEnableGPU app
            then [AppendSwitch ''disable-gpu'', AppendSwitch ''disable-gpu-compositing''] else [])
           @ [AppendSwitch ''disable-web-security'',
              AppendSwitch ''allow-running-insecure-content'',
              AppendSwitch ''disable-gpu-shader-disk-cache'',
              AppendSwitch ''no-sandbox'']
           @ (if linux then ozone_switches getenv cl else [])
           @ mode_switches (m_uMode app)
           @ [AppendSwitchWithValue ''autoplay-policy'' ''no-user-gesture-required'',
              AppendSwitchWithValue ''disable-features'' (disable_features (GetSwitchValue cl ''disable-features''))]
           @ (if m_strFilterDomain app \<noteq> []
              then [AppendSwitch ''ignore-certificate-errors'',
                    AppendSwitchWithValue ''unsafely-treat-insecure-origin-as-secure'' (m_strFilterDomain app)]
              else [])
      else [])
     @ (if apple build then [AppendSwitch ''use-mock-keychain''] else [])"

section \<open>The renderer's messages\<close>

text \<open>
  The bridge is made when a browser is created or the extension is registered, and stays. A node is
  whether it can be edited and where it is. \<open>None\<close> is the overflow of the signed sum.
\<close>

definition ensure_bridge :: "'v CefJSBridge option \<Rightarrow> 'v CefJSBridge option" where
  "ensure_bridge bridge = (case bridge of None \<Rightarrow> Some CefJSBridge_init | Some b \<Rightarrow> Some b)"

definition OnContextReleased :: "nat \<Rightarrow> nat \<Rightarrow> 'v CefJSBridge option \<Rightarrow> 'v CefJSBridge option" where
  "OnContextReleased frame context bridge = map_option (RemoveCallbackFuncWithFrame frame context) bridge"

record CefDOMNode =
  IsEditable :: bool
  GetElementBounds :: CefRect

definition is_int32 :: "int \<Rightarrow> bool" where
  "is_int32 i \<longleftrightarrow> - 2147483648 \<le> i \<and> i \<le> 2147483647"

definition App_OnFocusedNodeChanged :: "nat \<Rightarrow> CefDOMNode option \<Rightarrow> 'v BridgeEffect option" where
  "App_OnFocusedNodeChanged frame node =
     (case node of
        Some n \<Rightarrow>
          if IsEditable n
          then let rect = GetElementBounds n
               in if is_int32 (r_y rect + r_height rect)
                  then Some (SendToBrowser frame ''FocusedNodeChanged''
                         [Some (ArgBool True), Some (ArgInt (r_x rect)), Some (ArgInt (r_y rect + r_height rect)),
                          Some (ArgInt (r_height rect))])
                  else None
          else Some (SendToBrowser frame ''FocusedNodeChanged'' [Some (ArgBool False)])
      | None \<Rightarrow> Some (SendToBrowser frame ''FocusedNodeChanged'' [Some (ArgBool False)]))"

definition App_OnProcessMessageReceived ::
    "string \<Rightarrow> int \<Rightarrow> bool \<Rightarrow> string \<Rightarrow> 'v CefJSBridge option
       \<Rightarrow> ('v CefJSBridge option \<times> 'v BridgeEffect list) option" where
  "App_OnProcessMessageReceived message_name callbackId error result bridge =
     (if message_name \<noteq> ''ExecuteJsCallback'' then Some (bridge, [])
      else case bridge of
             None \<Rightarrow> Some (None, [])
           | Some b \<Rightarrow> map_option (\<lambda>(ok, b, effects). (Some b, effects)) (ExecuteJSCallbackFunc callbackId error result b))"

section \<open>The browser's side of the messages\<close>

text \<open>
  \<open>WebviewHandler::OnProcessMessageReceived\<close> as a whole: the name of the message picks the branch, the
  arguments are read by their position. Reading an argument that is missing or of another type answers
  the type's default.
\<close>

definition message_arg :: "MessageArg option list \<Rightarrow> nat \<Rightarrow> MessageArg option" where
  "message_arg args i = (if i < length args then args ! i else None)"

definition GetString :: "MessageArg option list \<Rightarrow> nat \<Rightarrow> string" where
  "GetString args i = (case message_arg args i of Some (ArgString s) \<Rightarrow> s | _ \<Rightarrow> [])"

definition GetInt :: "MessageArg option list \<Rightarrow> nat \<Rightarrow> int" where
  "GetInt args i = (case message_arg args i of Some (ArgInt n) \<Rightarrow> n | _ \<Rightarrow> 0)"

definition GetBool :: "MessageArg option list \<Rightarrow> nat \<Rightarrow> bool" where
  "GetBool args i = (case message_arg args i of Some (ArgBool b) \<Rightarrow> b | _ \<Rightarrow> False)"

text \<open>\<open>values\<close> numbers the arguments that are handed on as they are.\<close>

definition OnProcessMessageReceived ::
    "(MessageArg option \<Rightarrow> nat) \<Rightarrow> CefBrowser \<Rightarrow> string \<Rightarrow> string \<Rightarrow> MessageArg option list \<Rightarrow> WebviewHandler
       \<Rightarrow> HandlerResult" where
  "OnProcessMessageReceived values c frame_id message_name args h =
     (if message_name = ''FocusedNodeChanged''
      then OnFocusedNodeChanged c (GetBool args 0) (GetInt args 1) (GetInt args 2) (GetInt args 3) h
      else if message_name = ''JSCallCppFunction''
      then OnJSCallCppFunction (Some c) frame_id (GetString args 0) (GetString args 1) (GetInt args 2) h
      else if message_name = ''EvaluateCallback''
      then OnEvaluateCallback (GetString args 0) (values (message_arg args 1)) h
      else stay h)"

section \<open>Switches\<close>

text \<open>The display backend of the browser process is chosen once. On Linux a platform the command line
  already names is left alone; otherwise the operator's choice is taken, and without one the headless
  backend exactly when there is no X display. No other process and no other system gets the switch.\<close>

theorem ozone_platform_chosen:
  "AppendSwitchWithValue ''ozone-platform'' v
       \<in> set (OnBeforeCommandLineProcessing build linux getenv process_type cl app)
     \<longleftrightarrow> process_type = [] \<and> linux \<and> \<not> HasSwitch cl ''ozone-platform''
         \<and> (case getenv ''CENTROIDX_CEF_OZONE_PLATFORM'' of
              Some (x # xs) \<Rightarrow> v = x # xs
            | _ \<Rightarrow> getenv ''DISPLAY'' \<in> {None, Some []} \<and> v = ''headless'')"
  by (auto simp: OnBeforeCommandLineProcessing_def ozone_switches_def mode_switches_def Let_def
      split: option.splits list.splits if_splits)

text \<open>The features of a list separated by commas.\<close>

fun features :: "string \<Rightarrow> string list" where
  "features [] = [[]]"
| "features (c # cs) = (if c = CHR '','' then [] # features cs
     else (case features cs of f # fs \<Rightarrow> (c # f) # fs | [] \<Rightarrow> [[c]]))"

lemma features_nonempty [simp]: "features s \<noteq> []"
  by (induction s) (auto split: list.split)

lemma features_append: "features (s @ CHR '','' # t) = features s @ features t"
proof (induction s)
  case (Cons c s)
  then show ?case by (cases "features s") auto
qed simp

lemma features_occlusion: "CHR '','' \<notin> set s \<Longrightarrow> features s = [s]"
  by (induction s) auto

lemma sublist_no_comma:
  assumes "sublist s (a @ CHR '','' # b)" and "CHR '','' \<notin> set s"
  shows "sublist s a \<or> sublist s b"
proof -
  from assms(1) consider "sublist s a" | "sublist s (CHR '','' # b)"
    | s1 s2 where "s = s1 @ s2" "suffix s1 a" "prefix s2 (CHR '','' # b)"
    by (auto simp: sublist_append)
  then show ?thesis
  proof cases
    case 2
    with assms(2) show ?thesis by (auto simp: sublist_Cons_right prefix_Cons)
  next
    case 3
    with assms(2) show ?thesis by (cases s2) (auto simp: suffix_imp_sublist)
  qed simp
qed

text \<open>Every feature that was switched off stays off, and the two cookie features join them. The native
  occlusion feature does, too, unless its name occurs anywhere in the list: the name of another feature
  that merely contains it keeps it on.\<close>

theorem disabled_features_kept:
  "(given \<noteq> [] \<longrightarrow> set (features given) \<subseteq> set (features (disable_features given)))
   \<and> {''SameSiteByDefaultCookies'', ''CookiesWithoutSameSiteMustBeSecure''} \<subseteq> set (features (disable_features given))
   \<and> (''CalculateNativeWinOcclusion'' \<in> set (features (disable_features given))
        \<or> sublist ''CalculateNativeWinOcclusion'' given)
   \<and> disable_features ''CalculateNativeWinOcclusionTwo''
       = ''CalculateNativeWinOcclusionTwo,SameSiteByDefaultCookies,CookiesWithoutSameSiteMustBeSecure''"
proof -
  let ?K = "''SameSiteByDefaultCookies,CookiesWithoutSameSiteMustBeSecure''" and ?O = "''CalculateNativeWinOcclusion''"
  let ?v = "if given = [] then ?K else given @ CHR '','' # ?K"
  have d: "disable_features given = (if sublist ?O ?v then ?v else ?v @ CHR '','' # ?O)"
    by (simp add: disable_features_def Let_def)
  have K: "features ?K = [''SameSiteByDefaultCookies'', ''CookiesWithoutSameSiteMustBeSecure'']"
    and O: "features ?O = [?O]" and n: "\<not> sublist ?O ?K" and c: "CHR '','' \<notin> set ?O" by code_simp+
  have v: "set (features ?v) = (if given = [] then {} else set (features given))
      \<union> {''SameSiteByDefaultCookies'', ''CookiesWithoutSameSiteMustBeSecure''}"
    using K features_append [of given ?K] by simp
  have kept: "set (features ?v) \<subseteq> set (features (disable_features given))"
  proof -
    have "set (features w) \<subseteq> set (features (if sublist ?O w then w else w @ CHR '','' # ?O))" for w
      using features_append [of w ?O] by auto
    then show ?thesis unfolding d by blast
  qed
  have "?O \<in> set (features (disable_features given)) \<or> sublist ?O given"
  proof (cases "sublist ?O ?v")
    case True
    with n sublist_no_comma [of ?O given ?K] c show ?thesis by (auto split: if_splits)
  next
    case False
    with d O features_append [of ?v ?O] show ?thesis by simp
  qed
  moreover have "disable_features ''CalculateNativeWinOcclusionTwo''
       = ''CalculateNativeWinOcclusionTwo,SameSiteByDefaultCookies,CookiesWithoutSameSiteMustBeSecure''" by code_simp
  ultimately show ?thesis using v kept by (cases "given = []") auto
qed

section \<open>Across the two processes\<close>

lemma leading_int_show_int: "leading_int (show_int i) = Some i"
proof -
  have t: "takeWhile is_digit (show_nat n) = show_nat n" for n
    using show_nat_digits [of n] by (simp add: takeWhile_eq_all_conv)
  have h: "\<not> is_space (hd (show_nat n)) \<and> hd (show_nat n) \<noteq> CHR ''-'' \<and> hd (show_nat n) \<noteq> CHR ''+''" for n
    using show_nat_digits [of n] by (cases "show_nat n") (auto simp: is_digit_def is_space_def)
  have p: "leading_int (show_nat n) = Some (int n)" for n
    using t [of n] h [of n] read_show_nat [of n]
    by (cases "show_nat n") (auto simp: leading_int_def Let_def)
  show ?thesis
  proof (cases "i < 0")
    case True
    then show ?thesis by (simp add: show_int_def leading_int_def Let_def is_space_def read_show_nat t)
  next
    case False
    with p [of "nat i"] show ?thesis by (simp add: show_int_def)
  qed
qed

text \<open>An \<open>int\<close> that is printed for the application and read back from its answer is the same.\<close>

lemma atoi_show_int: "is_int32 i \<Longrightarrow> atoi (show_int i) = i"
  by (simp add: atoi_def atoll_def leading_int_show_int saturate64_def is_int32_def signed_of_int
      signed_take_bit_int_eq_self)



text \<open>The caret of a focused input reaches the application: when a node that can be edited gets the focus,
  the application is told so and gets the left edge, the bottom edge and the height of the node; when
  the focus leaves, it is told that alone. Both make the browser the one that has the keyboard.\<close>

theorem caret_reaches_application:
  assumes "callbacks_set h"
    and "App_OnFocusedNodeChanged frame node = Some (SendToBrowser frame' name args)"
  shows "OnProcessMessageReceived values c frame_id name args h
           = Inr (h\<lparr>current_focused_browser := Some c\<rparr>,
                  (case node of
                     Some n \<Rightarrow>
                       if IsEditable n
                       then [Callback onFocusedNodeChangeMessage (cb_identifier c) [] [1],
                             Callback onImeCompositionRangeChangedMessage (cb_identifier c) []
                               [r_x (GetElementBounds n), r_y (GetElementBounds n) + r_height (GetElementBounds n),
                                r_height (GetElementBounds n)]]
                       else [Callback onFocusedNodeChangeMessage (cb_identifier c) [] [0]]
                   | None \<Rightarrow> [Callback onFocusedNodeChangeMessage (cb_identifier c) [] [0]]))"
proof -
  from assms(1) have cb: "callback_set h onFocusedNodeChangeMessage" "callback_set h onImeCompositionRangeChangedMessage"
    by (simp_all add: callbacks_set_def)
  have receive: "OnProcessMessageReceived values c frame_id ''FocusedNodeChanged'' as h
      = Inr (h\<lparr>current_focused_browser := Some c\<rparr>,
          Callback onFocusedNodeChangeMessage (cb_identifier c) [] [of_bool (GetBool as 0)]
          # (if GetBool as 0 then [Callback onImeCompositionRangeChangedMessage (cb_identifier c) []
                [GetInt as 1, GetInt as 2, GetInt as 3]] else []))" for as
    by (simp add: OnProcessMessageReceived_def OnFocusedNodeChanged_def call_back_def after_def cb)
  consider "node = None" | n where "node = Some n" "\<not> IsEditable n" | n where "node = Some n" "IsEditable n"
    by (cases node) auto
  then show ?thesis
  proof cases
    case 3
    with assms(2) have "is_int32 (r_y (GetElementBounds n) + r_height (GetElementBounds n))"
      by (auto simp: App_OnFocusedNodeChanged_def Let_def split: if_splits)
    with 3 assms(2) show ?thesis
      by (auto simp: App_OnFocusedNodeChanged_def Let_def receive GetBool_def GetInt_def message_arg_def)
  qed (use assms(2) in \<open>auto simp: App_OnFocusedNodeChanged_def receive GetBool_def message_arg_def\<close>)
qed

theorem caret_reaches_application_witness:
  "OnProcessMessageReceived (\<lambda>_. 0) \<lparr>cb_object = 1, cb_identifier = 7, cb_is_popup = False\<rparr> ''5-A'' ''FocusedNodeChanged''
       [Some (ArgBool True), Some (ArgInt 10), Some (ArgInt 50), Some (ArgInt 20)] ready_handler
     = Inr (ready_handler\<lparr>current_focused_browser := Some \<lparr>cb_object = 1, cb_identifier = 7, cb_is_popup = False\<rparr>\<rparr>,
         [Callback onFocusedNodeChangeMessage 7 [] [1], Callback onImeCompositionRangeChangedMessage 7 [] [10, 50, 20]])"
proof -
  let ?n = "\<lparr>IsEditable = True, GetElementBounds = \<lparr>r_x = 10, r_y = 30, r_width = 5, r_height = 20\<rparr>\<rparr>"
  have ok: "callbacks_set ready_handler" using ready_handler_ok by (simp add: handler_ok_def)
  have eq: "(App_OnFocusedNodeChanged 2 (Some ?n) :: nat BridgeEffect option)
      = Some (SendToBrowser 2 ''FocusedNodeChanged'' [Some (ArgBool True), Some (ArgInt 10), Some (ArgInt 50), Some (ArgInt 20)])"
    by (simp add: App_OnFocusedNodeChanged_def is_int32_def)
  show ?thesis by (simp add: caret_reaches_application [OF ok eq])
qed

end
