(* ===== verification/Plugin_Answers.thy ===== *)
theory Plugin_Answers
  imports Webview_Client
begin

text \<open>
  The values the webview plugin builds (\<open>packages/webview_cef/common/webview_plugin.cc\<close>): the map that goes with
  every event it tells the application of, and the answers of \<open>create\<close>, \<open>evaluateJavascript\<close> and the cookie
  visits. Each function answers the value, the heap when it is handed over and the heap when the plugin
  has released what it releases.
\<close>

section \<open>Events\<close>

datatype Scalar = SInt u64 | SBool bool | SDouble u64 | SText string

definition new_scalar :: "WHeap \<Rightarrow> Scalar \<Rightarrow> addr \<times> WHeap" where
  "new_scalar h s =
     (case s of
        SInt i \<Rightarrow> webview_value_new_int h i
      | SBool b \<Rightarrow> webview_value_new_bool h b
      | SDouble d \<Rightarrow> webview_value_new_double h d
      | SText t \<Rightarrow> webview_value_new_string h t)"

fun new_scalars :: "WHeap \<Rightarrow> Scalar list \<Rightarrow> addr list \<times> WHeap" where
  "new_scalars h [] = ([], h)"
| "new_scalars h (s # ss) =
     (let (a, h) = new_scalar h s; (xs, h) = new_scalars h ss in (a # xs, h))"

fun set_fields :: "WHeap \<Rightarrow> addr \<Rightarrow> (string \<times> addr) list \<Rightarrow> WHeap option" where
  "set_fields h m [] = Some h"
| "set_fields h m ((k, a) # fs) =
     (case webview_value_set_string h (Some m) k (Some a) of None \<Rightarrow> None | Some h \<Rightarrow> set_fields h m fs)"

fun unref_all :: "WHeap \<Rightarrow> addr list \<Rightarrow> WHeap option" where
  "unref_all h [] = Some h"
| "unref_all h (a # xs) =
     (case webview_value_unref h (Some a) of None \<Rightarrow> None | Some h \<Rightarrow> unref_all h xs)"

text \<open>
  Every event makes its fields and the map, sets the fields, calls the application, and releases what it
  made. Some fields are made after the map; the map is released last but in one event.
\<close>

definition event_value ::
    "(string \<times> Scalar) list \<Rightarrow> (string \<times> Scalar) list \<Rightarrow> bool \<Rightarrow> WHeap \<Rightarrow> (addr \<times> WHeap \<times> WHeap) option" where
  "event_value before behind map_first h =
     (let (xs, h) = new_scalars h (map snd before);
          (retMap, h) = webview_value_new_map h;
          (ys, h) = new_scalars h (map snd behind)
      in case set_fields h retMap (zip (map fst (before @ behind)) (xs @ ys)) of
           None \<Rightarrow> None
         | Some called \<Rightarrow>
             map_option (\<lambda>released. (retMap, called, released))
               (unref_all called (if map_first then retMap # xs @ ys else xs @ ys @ [retMap])))"

definition browser_id :: "int \<Rightarrow> string \<times> Scalar" where
  "browser_id i = (''browserId'', SInt (of_int i))"

definition tooltip_value :: "int \<Rightarrow> string \<Rightarrow> WHeap \<Rightarrow> (addr \<times> WHeap \<times> WHeap) option" where
  "tooltip_value i text = event_value [browser_id i, (''text'', SText text)] [] False"

definition cursor_value :: "int \<Rightarrow> int \<Rightarrow> WHeap \<Rightarrow> (addr \<times> WHeap \<times> WHeap) option" where
  "cursor_value i type = event_value [browser_id i, (''type'', SInt (of_int type))] [] False"

definition console_value :: "int \<Rightarrow> int \<Rightarrow> string \<Rightarrow> string \<Rightarrow> int \<Rightarrow> WHeap \<Rightarrow> (addr \<times> WHeap \<times> WHeap) option" where
  "console_value i level message source line =
     event_value [browser_id i, (''level'', SInt (of_int level)), (''message'', SText message),
                  (''source'', SText source), (''line'', SInt (of_int line))] [] False"

definition url_value :: "int \<Rightarrow> string \<Rightarrow> WHeap \<Rightarrow> (addr \<times> WHeap \<times> WHeap) option" where
  "url_value i url = event_value [browser_id i, (''url'', SText url)] [] False"

definition title_value :: "int \<Rightarrow> string \<Rightarrow> WHeap \<Rightarrow> (addr \<times> WHeap \<times> WHeap) option" where
  "title_value i title = event_value [browser_id i, (''title'', SText title)] [] False"

definition channel_value ::
    "string \<Rightarrow> string \<Rightarrow> string \<Rightarrow> int \<Rightarrow> string \<Rightarrow> WHeap \<Rightarrow> (addr \<times> WHeap \<times> WHeap) option" where
  "channel_value channel message callbackId i frameId =
     event_value [] [(''channel'', SText channel), (''message'', SText message), (''callbackId'', SText callbackId),
                     browser_id i, (''frameId'', SText frameId)] True"

definition focused_node_value :: "int \<Rightarrow> bool \<Rightarrow> WHeap \<Rightarrow> (addr \<times> WHeap \<times> WHeap) option" where
  "focused_node_value i editable = event_value [browser_id i, (''editable'', SBool editable)] [] False"

definition ime_range_value :: "int \<Rightarrow> int \<Rightarrow> int \<Rightarrow> int \<Rightarrow> WHeap \<Rightarrow> (addr \<times> WHeap \<times> WHeap) option" where
  "ime_range_value i x y height =
     event_value [browser_id i]
       [(''x'', SInt (of_int x)), (''y'', SInt (of_int y)), (''height'', SInt (of_int height))] False"

definition load_start_value :: "int \<Rightarrow> string \<Rightarrow> WHeap \<Rightarrow> (addr \<times> WHeap \<times> WHeap) option" where
  "load_start_value i url = event_value [browser_id i, (''urlId'', SText url)] [] False"

definition load_end_value :: "int \<Rightarrow> string \<Rightarrow> WHeap \<Rightarrow> (addr \<times> WHeap \<times> WHeap) option" where
  "load_end_value i url = event_value [browser_id i, (''urlId'', SText url)] [] False"

section \<open>Answers\<close>

text \<open>
  The list answers append each new element without giving up the reference they made it with.
\<close>

fun append_new :: "WHeap \<Rightarrow> addr \<Rightarrow> Scalar list \<Rightarrow> (addr list \<times> WHeap) option" where
  "append_new h l [] = Some ([], h)"
| "append_new h l (s # ss) =
     (let (a, h) = new_scalar h s
      in case webview_value_append h (Some l) (Some a) of
           None \<Rightarrow> None
         | Some h \<Rightarrow> map_option (\<lambda>(xs, h). (a # xs, h)) (append_new h l ss))"

definition list_answer :: "Scalar list \<Rightarrow> WHeap \<Rightarrow> (addr \<times> addr list \<times> WHeap \<times> WHeap) option" where
  "list_answer ss h =
     (let (l, h) = webview_value_new_list h
      in case append_new h l ss of
           None \<Rightarrow> None
         | Some (xs, answered) \<Rightarrow>
             map_option (\<lambda>released. (l, xs, answered, released)) (webview_value_unref answered (Some l)))"

definition created_answer :: "int \<Rightarrow> u64 \<Rightarrow> WHeap \<Rightarrow> (addr \<times> addr list \<times> WHeap \<times> WHeap) option" where
  "created_answer browserId textureId = list_answer [SInt (of_int browserId), SInt textureId]"

text \<open>
  The value of evaluated JavaScript. The elements of a list that are no scalars are left out; a value of
  any other type is answered as null, the left \<open>None\<close>.
\<close>

datatype CefValue =
    VNull | VBool bool | VInt int | VDouble u64 | VString string | VList "CefValue list" | VOther

fun scalar_of :: "CefValue \<Rightarrow> Scalar option" where
  "scalar_of (VBool b) = Some (SBool b)"
| "scalar_of (VInt i) = Some (SInt (of_int i))"
| "scalar_of (VDouble d) = Some (SDouble d)"
| "scalar_of (VString s) = Some (SText s)"
| "scalar_of _ = None"

definition scalar_answer :: "Scalar \<Rightarrow> WHeap \<Rightarrow> (addr \<times> WHeap \<times> WHeap) option" where
  "scalar_answer s h =
     (let (a, answered) = new_scalar h s
      in map_option (\<lambda>released. (a, answered, released)) (webview_value_unref answered (Some a)))"

definition evaluated_answer :: "CefValue option \<Rightarrow> WHeap \<Rightarrow> (addr option \<times> WHeap \<times> WHeap) option" where
  "evaluated_answer v h =
     (case v of
        None \<Rightarrow> Some (None, h, h)
      | Some (VList vs) \<Rightarrow>
          map_option (\<lambda>(l, xs, answered, released). (Some l, answered, released))
            (list_answer (List.map_filter scalar_of vs) h)
      | Some v \<Rightarrow>
          (case scalar_of v of
             None \<Rightarrow> Some (None, h, h)
           | Some s \<Rightarrow> map_option (\<lambda>(a, answered, released). (Some a, answered, released)) (scalar_answer s h)))"

text \<open>The cookies by domain, and by name in each domain: both in the order of their keys.\<close>

fun set_texts :: "WHeap \<Rightarrow> addr \<Rightarrow> (string \<times> string) list \<Rightarrow> WHeap option" where
  "set_texts h m [] = Some h"
| "set_texts h m ((k, v) # kvs) =
     (let (a, h) = webview_value_new_string h v
      in case webview_value_set_string h (Some m) k (Some a) of
           None \<Rightarrow> None
         | Some h \<Rightarrow>
             (case webview_value_unref h (Some a) of None \<Rightarrow> None | Some h \<Rightarrow> set_texts h m kvs))"

fun set_domains :: "WHeap \<Rightarrow> addr \<Rightarrow> (string \<times> (string \<times> string) list) list \<Rightarrow> WHeap option" where
  "set_domains h m [] = Some h"
| "set_domains h m ((domain, kvs) # ds) =
     (let (t, h) = webview_value_new_map h
      in case set_texts h t kvs of
           None \<Rightarrow> None
         | Some h \<Rightarrow>
             (case webview_value_set_string h (Some m) domain (Some t) of
                None \<Rightarrow> None
              | Some h \<Rightarrow>
                  (case webview_value_unref h (Some t) of None \<Rightarrow> None | Some h \<Rightarrow> set_domains h m ds)))"

definition cookies_answer ::
    "(string \<times> (string \<times> string) list) list \<Rightarrow> WHeap \<Rightarrow> (addr \<times> WHeap \<times> WHeap) option" where
  "cookies_answer cookies h =
     (let (retMap, h) = webview_value_new_map h
      in case set_domains h retMap cookies of
           None \<Rightarrow> None
         | Some answered \<Rightarrow>
             map_option (\<lambda>released. (retMap, answered, released)) (webview_value_unref answered (Some retMap)))"

section \<open>The books of the answers\<close>

text \<open>
  How many references the values of a heap hold in their arrays: no count can exceed it by more than
  what is held outside.
\<close>

definition slots :: "WCell option \<Rightarrow> nat" where
  "slots c = (case c of None \<Rightarrow> 0 | Some c \<Rightarrow> length (children (wv_data c)))"

definition held_slots :: "WHeap \<Rightarrow> nat" where
  "held_slots h = (\<Sum>c\<leftarrow>wh_cells h. slots c)"

lemma refs_in_bounded: "refs_in h a \<le> held_slots h"
proof -
  have "cell_refs c a \<le> slots c" for c
    by (cases c) (auto simp: slots_def cell_refs_def count_le_length)
  then show ?thesis unfolding refs_in_def held_slots_def by (rule sum_list_mono)
qed

lemma held_slots_put:
  "deref h a = Some c \<Longrightarrow> held_slots (put_cell h a d) = held_slots h + slots d - slots (Some c)"
  by (auto simp: held_slots_def put_cell_def deref_def map_update sum_list_update split: if_splits)

lemma slots_held: "deref h a = Some c \<Longrightarrow> slots (Some c) \<le> held_slots h"
  unfolding held_slots_def deref_def by (intro elem_le_sum_list [of a "map slots (wh_cells h)", THEN order_trans [rotated]])
     (auto split: if_splits)

lemma held_slots_new [simp]: "held_slots (snd (webview_value_new h p)) = held_slots h + length (children p)"
  by (simp add: held_slots_def webview_value_new_def slots_def)

lemma held_slots_ref: "webview_value_ref h p = Some (q, h') \<Longrightarrow> held_slots h' = held_slots h"
  by (auto simp: webview_value_ref_def held_slots_put slots_def split: option.splits if_splits)

lemma held_slots_unref:
  assumes "webview_value_unref h p = Some h'"
  shows "held_slots h' \<le> held_slots h"
proof (rule unref_tasks_keeps [OF _ _ assms [unfolded webview_value_unref_def], of "\<lambda>g. held_slots g \<le> held_slots h"])
  fix g a c n
  assume "held_slots g \<le> held_slots h" "deref g a = Some c"
  then show "held_slots (put_cell g a (Some (c\<lparr>wv_refs := n\<rparr>))) \<le> held_slots h"
    by (simp add: held_slots_put slots_def)
next
  fix g a
  assume "held_slots g \<le> held_slots h"
  moreover have "held_slots (put_cell g a None) \<le> held_slots g"
  proof (cases "deref g a")
    case None
    then show ?thesis
      by (cases "a < length (wh_cells g)")
         (auto simp: deref_def held_slots_def put_cell_def map_update sum_list_update slots_def list_update_beyond)
  qed (simp add: held_slots_put slots_def)
  ultimately show "held_slots (put_cell g a None) \<le> held_slots h" by simp
qed simp


lemma held_slots_add:
  assumes "webview_ptr_array_add h xs x = (ys, h')"
  shows "held_slots h' = held_slots h" and "length (pdata ys) \<le> Suc (length (pdata xs))"
  using assms by (auto simp: webview_ptr_array_add_def held_slots_def Let_def split: if_splits)

lemma held_slots_payload:
  "deref h a = Some c \<Longrightarrow>
     held_slots (put_payload h a f) = held_slots h + length (children (f (wv_data c))) - length (children (wv_data c))"
  by (simp add: put_payload_def held_slots_put slots_def)

lemma held_slots_map_add:
  assumes c: "deref h a = Some c" "wv_data c = WMap ks vs"
  shows "held_slots (map_add h a ks vs k v) \<le> Suc (Suc (held_slots h))"
proof -
  obtain ks1 h1 where k: "webview_ptr_array_add h ks k = (ks1, h1)" by fastforce
  obtain vs1 h2 where v: "webview_ptr_array_add h1 vs v = (vs1, h2)" by fastforce
  from c ptr_array_add_deref [OF k] ptr_array_add_deref [OF v] have "deref h2 a = Some c" by simp
  from slots_held [OF this] held_slots_payload [OF this, of "\<lambda>_. WMap ks1 vs1"] k v c
    held_slots_add [OF k] held_slots_add [OF v]
  show ?thesis by (simp add: map_add_def slots_def)
qed

lemma children_set_entry [simp]:
  "length (children (set_key i k p)) = length (children p)"
  "length (children (set_value i v p)) = length (children p)"
  by (cases p; simp)+

lemma held_slots_entry:
  "held_slots (put_payload h a (set_key i k)) = held_slots h \<or> deref h a = None"
  "held_slots (put_payload h a (set_value i v)) = held_slots h \<or> deref h a = None"
  using slots_held [of h a] by (cases "deref h a"; simp add: held_slots_payload slots_def)+

lemma held_slots_replace:
  "replace_entry h a ks vs i k v = Some h' \<Longrightarrow> held_slots h' \<le> held_slots h"
  by (auto simp: replace_entry_def split: option.splits if_splits dest!: held_slots_unref)
     (metis held_slots_entry le_trans option.distinct(1))

lemma held_slots_set_take:
  "webview_value_set_take h self k v = Some h' \<Longrightarrow> held_slots h' \<le> Suc (Suc (held_slots h))"
  by (auto simp: webview_value_set_take_def split: option.splits WPayload.splits
      dest: held_slots_replace intro: held_slots_map_add)

lemma held_slots_set_string:
  assumes "webview_value_set_string h self s v = Some h'"
  shows "held_slots h' \<le> held_slots h + 2"
proof -
  obtain k h1 where n: "webview_value_new_string h s = (k, h1)" by fastforce
  then have "held_slots h1 = held_slots h"
    using held_slots_new [of h "WString by_malloc (c_str s)"] by (simp add: webview_value_new_string_def)
  with n assms show ?thesis
    by (auto simp: webview_value_set_string_def split: option.splits bool.splits
        dest!: held_slots_ref held_slots_set_take)
qed


lemma refs_bounded:
  assumes "owned h e" and "deref h a = Some c" and "held_slots h + e a < nat int32_max"
  shows "wv_refs c < int32_max"
  using owned_live(1) [OF assms(1,2)] refs_in_bounded [of h a] assms(3) by (simp add: int32_max_def)

lemma new_scalar_ok:
  assumes ok: "client_ok (h, e)" and new: "new_scalar h s = (a, h')"
  shows "client_ok (h', holding e [a])" and "a = length (wh_cells h)"
    and "length (wh_cells h') = Suc a" and "held_slots h' = held_slots h"
    and "\<exists>p. deref h' a = Some \<lparr>wv_refs = 1, wv_data = p\<rparr>"
proof -
  obtain p where p: "new_scalar h s = webview_value_new h p" "children p = []" "\<not> frees_new p" "aligned p"
    by (cases s) (auto simp: new_scalar_def webview_value_new_int_def webview_value_new_bool_def
        webview_value_new_double_def webview_value_new_string_def)
  from client_new [OF ok p(2-4)] new p(1) show "client_ok (h', holding e [a])" by (simp add: gain_def)
  from new p(1) show "a = length (wh_cells h)" "length (wh_cells h') = Suc a"
    by (auto simp: webview_value_new_def)
  from new p(1) have "h' = snd (webview_value_new h p)" by simp
  then show "held_slots h' = held_slots h" "\<exists>p. deref h' a = Some \<lparr>wv_refs = 1, wv_data = p\<rparr>"
    using \<open>a = length (wh_cells h)\<close> by (simp_all add: p(2))
qed

lemma new_scalars_ok:
  "client_ok (h, e) \<Longrightarrow> new_scalars h ss = (xs, h') \<Longrightarrow>
     client_ok (h', holding e xs) \<and> length xs = length ss \<and> held_slots h' = held_slots h"
proof (induction ss arbitrary: h e xs h')
  case (Cons s ss)
  obtain a h1 where a: "new_scalar h s = (a, h1)" by fastforce
  obtain ys h2 where ys: "new_scalars h1 ss = (ys, h2)" by fastforce
  from new_scalar_ok [OF Cons.prems(1) a] Cons.IH [OF _ ys, of "holding e [a]"] Cons.prems(2) a ys
  show ?case by auto
qed simp

lemma unref_all_ok: "client_ok (h, holding e xs) \<Longrightarrow> \<exists>h'. unref_all h xs = Some h' \<and> client_ok (h', e)"
proof (induction xs arbitrary: h)
  case (Cons a xs)
  have "holding e (a # xs) = holding (holding e xs) [a]" by (auto simp: holding_def)
  with Cons.prems have "owned h (holding (holding e xs) [a])" and g: "granted h" by (simp_all add: client_ok_def)
  then obtain h1 where "webview_value_unref h (Some a) = Some h1" "owned h1 (holding e xs)"
    by (blast elim: owned_unref)
  with Cons.IH [of h1] g show ?case by (auto simp: client_ok_def dest: unref_granted)
qed simp

lemma set_fields_ok:
  "client_ok (h, e) \<Longrightarrow> 0 < e m \<Longrightarrow> (\<And>a. a \<in> snd ` set fs \<Longrightarrow> 0 < e a) \<Longrightarrow>
     (\<And>a. held_slots h + 2 * length fs + e a < nat int32_max) \<Longrightarrow>
     \<exists>h'. set_fields h m fs = Some h' \<and> client_ok (h', e)"
proof (induction fs arbitrary: h)
  case (Cons f fs)
  obtain k a where f: "f = (k, a)" by fastforce
  from Cons.prems f have own: "owned h e" and a: "0 < e a" by (auto simp: client_ok_def)
  from owned_held_live [OF this] obtain c where c: "deref h a = Some c" by auto
  from Cons.prems(4) [of a] have "wv_refs c < int32_max" by (intro refs_bounded [OF own c]) simp
  from client_set_string [OF Cons.prems(1,2) c this] obtain h1
    where h1: "webview_value_set_string h (Some m) k (Some a) = Some h1" "client_ok (h1, e)" by auto
  have bound: "held_slots h1 + 2 * length fs + e x < nat int32_max" for x
    using held_slots_set_string [OF h1(1)] Cons.prems(4) [of x] by simp
  have mem: "\<And>x. x \<in> snd ` set fs \<Longrightarrow> 0 < e x" using Cons.prems(3) by auto
  from Cons.IH [OF h1(2) Cons.prems(2) mem bound] h1 f show ?case by auto
qed simp


lemma holding_swap:
  "holding e (xs @ m # ys) = holding e (m # xs @ ys)"
  "holding e (xs @ m # ys) = holding e (xs @ ys @ [m])"
  by (auto simp: holding_def)

lemma new_map_ok:
  assumes ok: "client_ok (h, e)" and new: "webview_value_new_map h = (m, h')"
  shows "client_ok (h', holding e [m])" and "held_slots h' = held_slots h"
proof -
  let ?p = "WMap webview_ptr_array_new_with_free_func webview_ptr_array_new_with_free_func"
  have p: "webview_value_new_map h = webview_value_new h ?p" "children ?p = []" "aligned ?p"
    by (simp_all add: webview_value_new_map_def webview_ptr_array_new_with_free_func_def)
  from client_new [OF ok p(2) _ p(3)] new p(1) show "client_ok (h', holding e [m])" by (simp add: gain_def)
  from new p(1) have "h' = snd (webview_value_new h ?p)" by simp
  then show "held_slots h' = held_slots h" using p(2) by (simp only: held_slots_new) simp
qed

lemma holding_pos: "a \<in> set xs \<Longrightarrow> 0 < holding e xs a"
  using count_list_0_iff [of xs a] by (simp add: holding_def)

lemma event_balanced:
  assumes ok: "client_ok (h, e)"
    and room: "\<And>a. held_slots h + e a + 3 * (length before + length behind) + 1 < nat int32_max"
  shows "\<exists>m called released. event_value before behind first h = Some (m, called, released)
           \<and> deref called m \<noteq> None \<and> client_ok (released, e)"
proof -
  obtain xs h1 where xs: "new_scalars h (map snd before) = (xs, h1)" by fastforce
  obtain m h2 where m: "webview_value_new_map h1 = (m, h2)" by fastforce
  obtain ys h3 where ys: "new_scalars h2 (map snd behind) = (ys, h3)" by fastforce
  let ?fs = "zip (map fst (before @ behind)) (xs @ ys)" and ?e = "holding e (xs @ m # ys)"
  from new_scalars_ok [OF ok xs] have 1: "client_ok (h1, holding e xs)" "length xs = length before"
      "held_slots h1 = held_slots h" by auto
  note 2 = new_map_ok [OF 1(1) m]
  from new_scalars_ok [OF 2(1) ys] have 3: "client_ok (h3, ?e)" "length ys = length behind"
      "held_slots h3 = held_slots h2" by auto
  have "held_slots h3 + 2 * length ?fs + ?e a < nat int32_max" for a
    using room [of a] 1 2 3 count_le_length [of xs a] count_le_length [of ys a] by (simp add: holding_def)
  moreover have "0 < ?e a" if "a \<in> snd ` set ?fs" for a
  proof -
    from that have "a \<in> set (xs @ m # ys)" by (auto dest: set_zip_rightD)
    then show ?thesis by (rule holding_pos)
  qed
  ultimately obtain h4 where h4: "set_fields h3 m ?fs = Some h4" "client_ok (h4, ?e)"
    using set_fields_ok [OF 3(1), of m ?fs] by (auto simp: holding_def)
  from h4(2) have "deref h4 m \<noteq> None"
    using owned_held_live [of h4 ?e m] by (auto simp: client_ok_def holding_def)
  moreover obtain h5 where "unref_all h4 (if first then m # xs @ ys else xs @ ys @ [m]) = Some h5" "client_ok (h5, e)"
    using unref_all_ok [of h4 e "if first then m # xs @ ys else xs @ ys @ [m]"] h4(2) holding_swap [of e xs m ys]
    by (cases first) auto
  ultimately show ?thesis using xs m ys h4(1) by (auto simp: event_value_def)
qed


lemma append_new_ok:
  "client_ok (h, e) \<Longrightarrow> 0 < e l \<Longrightarrow>
     \<exists>xs h'. append_new h l ss = Some (xs, h') \<and> client_ok (h', holding e xs) \<and> length xs = length ss
       \<and> distinct xs \<and> (\<forall>x\<in>set xs. length (wh_cells h) \<le> x)"
proof (induction ss arbitrary: h e)
  case (Cons s ss)
  obtain a h1 where a: "new_scalar h s = (a, h1)" by fastforce
  note new = new_scalar_ok [OF Cons.prems(1) a]
  from new(5) obtain p where p: "deref h1 a = Some \<lparr>wv_refs = 1, wv_data = p\<rparr>" by auto
  from Cons.prems(2) have l: "0 < holding e [a] l" by (simp add: holding_def)
  from new(1) l obtain c where c: "deref h1 l = Some c"
    using owned_held_live [of h1 "holding e [a]" l] by (auto simp: client_ok_def)
  from client_append [OF new(1) c p] obtain h2
    where h2: "webview_value_append h1 (Some l) (Some a) = Some h2" "client_ok (h2, holding e [a])"
    by (auto simp: int32_max_def)
  from types_kept_append [OF h2(1)] new(3) have "Suc a \<le> length (wh_cells h2)" by (simp add: types_kept_def)
  with Cons.IH [OF h2(2) l] a h2(1) new(2) show ?case by (fastforce dest: Suc_le_lessD)
qed simp


definition plugin_events ::
    "int \<Rightarrow> string \<Rightarrow> string \<Rightarrow> string \<Rightarrow> string \<Rightarrow> int \<Rightarrow> int \<Rightarrow> int \<Rightarrow> bool \<Rightarrow> (WHeap \<Rightarrow> (addr \<times> WHeap \<times> WHeap) option) list"
  where
  "plugin_events i s t u w x y z b =
     [tooltip_value i s, cursor_value i x, console_value i x s t y, url_value i s, title_value i s,
      channel_value s t u i w, focused_node_value i b, ime_range_value i x y z, load_start_value i s,
      load_end_value i s]"

definition small_event :: "(WHeap \<Rightarrow> (addr \<times> WHeap \<times> WHeap) option) \<Rightarrow> bool" where
  "small_event f \<longleftrightarrow> (\<exists>before behind first. f = event_value before behind first \<and> length before + length behind \<le> 5)"

lemma small_eventI: "length before + length behind \<le> 5 \<Longrightarrow> small_event (event_value before behind first)"
  by (auto simp: small_event_def)

lemma plugin_events_small: "list_all small_event (plugin_events i s t u w x y z b)"
  by (simp add: small_eventI plugin_events_def tooltip_value_def cursor_value_def console_value_def url_value_def
      title_value_def channel_value_def focused_node_value_def ime_range_value_def load_start_value_def
      load_end_value_def)

text \<open>Telling the application of an event never misuses a value and never loses one. Whichever of the
  ten events it is and whatever its fields, the map the application is called with is alive during the
  call, and afterwards every count is again the number of references that were there before: the
  plugin has given up all it made.\<close>

lemma events_balanced:
  assumes "client_ok (h, e)" and "\<forall>a. held_slots h + e a + 16 < nat int32_max"
    and "n < length (plugin_events i s t u w x y z b)"
  shows "\<exists>m called released. (plugin_events i s t u w x y z b ! n) h = Some (m, called, released)
           \<and> deref called m \<noteq> None \<and> client_ok (released, e)"
proof -
  from plugin_events_small assms(3) have "small_event (plugin_events i s t u w x y z b ! n)"
    by (rule list_all_length [THEN iffD1, rule_format])
  then obtain before behind first
    where ev: "length before + length behind \<le> 5" "plugin_events i s t u w x y z b ! n = event_value before behind first"
    by (auto simp: small_event_def)
  have "held_slots h + e a + 3 * (length before + length behind) + 1 < nat int32_max" for a
    using ev(1) assms(2) [rule_format, of a] by simp
  from event_balanced [OF assms(1) this] ev(2) show ?thesis by simp
qed

lemma events_balanced_witness:
  "\<exists>m called released.
     (plugin_events 7 ''a'' ''b'' ''c'' ''d'' 1 2 3 True ! 5) (fst (empty_client (\<lambda>_. True))) = Some (m, called, released)
       \<and> deref called m \<noteq> None \<and> client_ok (released, snd (empty_client (\<lambda>_. True)))"
  using empty_client_ok [of "\<lambda>_. True"]
  by (intro events_balanced) (simp_all add: empty_client_def held_slots_def int32_max_def plugin_events_def)

text \<open>The lists the plugin answers with are never freed. \<open>create\<close> and an evaluated JavaScript list make
  each element, append it and forget it, though appending takes a reference of its own: once the list
  is released each of its elements is still alive, at an address that held nothing before, with the
  count of a reference nobody has.\<close>

lemma list_answers_leak:
  assumes ok: "client_ok (h, e)"
  shows "\<exists>l xs answered released. list_answer ss h = Some (l, xs, answered, released)
           \<and> length xs = length ss \<and> distinct xs
           \<and> list_all (\<lambda>x. deref h x = None \<and> e x = 0 \<and> deref released x \<noteq> None) xs
           \<and> client_ok (released, holding e xs)"
proof -
  obtain l h1 where new: "webview_value_new_list h = (l, h1)" by fastforce
  have p: "children (WList webview_ptr_array_new_with_free_func) = []"
    by (simp add: webview_ptr_array_new_with_free_func_def)
  from client_new [OF ok p] new have ok1: "client_ok (h1, holding e [l])" "length (wh_cells h) < length (wh_cells h1)"
    by (auto simp: webview_value_new_list_def webview_ptr_array_new_with_free_func_def gain_def webview_value_new_def)
  then obtain xs h2 where xs: "append_new h1 l ss = Some (xs, h2)" "client_ok (h2, holding (holding e [l]) xs)"
      "length xs = length ss" "distinct xs" "\<And>x. x \<in> set xs \<Longrightarrow> length (wh_cells h1) \<le> x"
    using append_new_ok [OF ok1(1), of l ss] by (auto simp: holding_def)
  have "holding (holding e [l]) xs = holding (holding e xs) [l]" by (auto simp: holding_def)
  with xs(2) have "owned h2 (holding (holding e xs) [l])" and g: "granted h2" by (simp_all add: client_ok_def)
  then obtain h3 where h3: "webview_value_unref h2 (Some l) = Some h3" "owned h3 (holding e xs)"
    by (blast elim: owned_unref)
  have "deref h x = None \<and> e x = 0 \<and> deref h3 x \<noteq> None" if "x \<in> set xs" for x
  proof -
    from xs(5) [OF that] ok1(2) have "deref h x = None" by (simp add: deref_def)
    with ok owned_freed(2) show ?thesis using owned_held_live [OF h3(2) holding_pos [OF that]]
      by (auto simp: client_ok_def)
  qed
  with new xs h3 g show ?thesis by (auto simp: list_answer_def client_ok_def list_all_iff dest: unref_granted)
qed

lemma list_answers_leak_witness:
  "\<exists>l xs answered released.
     list_answer [SInt 7, SInt 9] (fst (empty_client (\<lambda>_. True))) = Some (l, xs, answered, released)
       \<and> length xs = length [SInt 7, SInt 9] \<and> distinct xs
       \<and> list_all (\<lambda>x. deref (fst (empty_client (\<lambda>_. True))) x = None \<and> snd (empty_client (\<lambda>_. True)) x = 0
           \<and> deref released x \<noteq> None) xs
       \<and> client_ok (released, holding (snd (empty_client (\<lambda>_. True))) xs)"
  using empty_client_ok [of "\<lambda>_. True"] by (intro list_answers_leak) simp

end
