(* ===== verification/Webview_Plugin.thy ===== *)
theory Webview_Plugin
  imports Plugin_Answers Cef_App Cef_Cache_Host
begin

text \<open>
  The webview plugin itself (\<open>packages/webview_cef/common/webview_plugin.cc\<close>): the calls of the application,
  which arrive as a name and a value, the renderers it keeps for its browsers, and the callbacks through
  which the browsers' events reach the application. It drives the handler of \<open>Webview_Handler\<close> and speaks in
  the values of \<open>Webview_Value\<close>.

  A result is an error or the new state with what was done. The errors are the ways the code fails: the
  handler's, a text that is null where a \<open>std::string\<close> is made of it, a renderer that is null where it is
  read, a number an \<open>int\<close> cannot hold, and a misused value. The table of renderers is in the order of
  insertion; the code iterates an unordered map. The two variables of the process are fields of the
  state.
\<close>

section \<open>State\<close>

record WebviewTexture =
  textureId :: u64
  isFocused :: bool
  editableFocused :: bool
  composing :: bool

definition WebviewTexture_init :: "u64 \<Rightarrow> WebviewTexture" where
  "WebviewTexture_init t = \<lparr>textureId = t, isFocused = False, editableFocused = False, composing = False\<rparr>"

text \<open>\<open>None\<close> in the table is an entry whose pointer has been reset.\<close>

record WebviewPlugin =
  m_handler :: WebviewHandler
  m_renderers :: "(int \<times> WebviewTexture option) list"
  m_init :: bool
  m_invokeFunc :: bool
  isCefInitialized :: bool
  userAgent :: string
  values_heap :: WHeap

definition WebviewPlugin_init :: "bool \<Rightarrow> string \<Rightarrow> WHeap \<Rightarrow> WebviewPlugin" where
  "WebviewPlugin_init initialized agent h =
     \<lparr>m_handler = WebviewHandler_init, m_renderers = [], m_init = False, m_invokeFunc = False,
      isCefInitialized = initialized, userAgent = agent, values_heap = h\<rparr>"

definition setInvokeMethodFunc :: "WebviewPlugin \<Rightarrow> WebviewPlugin" where
  "setInvokeMethodFunc st = st\<lparr>m_invokeFunc := True\<rparr>"

record CefSettings =
  windowless_rendering_enabled :: bool
  no_sandbox :: bool
  root_cache_path :: string
  cache_path :: string
  user_agent_product :: string
  external_message_pump :: bool
  multi_threaded_message_loop :: bool
  browser_subprocess_path :: string
  framework_dir_path :: string
  main_bundle_path :: string

text \<open>
  What a call finds outside the plugin: the build, whether the thread is CEF's, the browser
  \<open>CreateBrowserSync\<close> answers, the texture the platform registers, whether there is a cookie manager, the
  main frame of the browser and the identifier of it, the clock, the length of a text in UTF-16 units,
  the text CEF makes of a C string, what \<open>PrepareCefCachePaths\<close> answers, the paths of the macOS bundle and
  the value a script evaluates to. \<open>call_id\<close> names the call whose \<open>result\<close> is answered.
\<close>

record PluginHost =
  host_build :: Build
  native_keys :: bool
  on_ui_thread_now :: bool
  created_browser :: "CefBrowser option"
  created_texture :: u64
  has_cookie_manager :: bool
  has_main_frame :: bool
  main_frame_identifier :: string
  clock_ns :: int
  utf16_length :: "string \<Rightarrow> nat"
  cef_text :: "string option \<Rightarrow> string"
  cef_cache_paths :: CachePaths
  mac_paths :: "string \<times> string \<times> string"
  script_value :: "nat \<Rightarrow> CefValue option"
  call_id :: nat

datatype PluginError = InHandler HandlerError | NullText | NullRenderer | BadValue | NotAnInt

datatype PluginEffect =
    HandlerDid HandlerEffect
  | ResultOf nat int "(addr \<times> WHeap) option"
  | InvokeMethod string addr WHeap
  | OnFrame u64 int int
  | OnAcceleratedFrame u64 int int int
  | CefInitialize CefSettings
  | CefShutdown

type_synonym PluginResult = "PluginError + (WebviewPlugin \<times> PluginEffect list)"

definition then_do :: "PluginResult \<Rightarrow> (WebviewPlugin \<Rightarrow> PluginResult) \<Rightarrow> PluginResult" where
  "then_do r f =
     (case r of Inl e \<Rightarrow> Inl e
      | Inr (st, effects) \<Rightarrow>
          (case f st of Inl e \<Rightarrow> Inl e | Inr (st, next_effects) \<Rightarrow> Inr (st, effects @ next_effects)))"

text \<open>\<open>result(code, nullptr)\<close> and \<open>result(code, value)\<close> with the heap at the time of the call.\<close>

definition answer :: "PluginHost \<Rightarrow> int \<Rightarrow> WebviewPlugin \<Rightarrow> PluginResult" where
  "answer env code st = Inr (st, [ResultOf (call_id env) code None])"

definition answer_value ::
    "nat \<Rightarrow> (addr option \<times> WHeap \<times> WHeap) option \<Rightarrow> WebviewPlugin \<Rightarrow> PluginResult" where
  "answer_value call v st =
     (case v of
        None \<Rightarrow> Inl BadValue
      | Some (a, answered, released) \<Rightarrow>
          Inr (st\<lparr>values_heap := released\<rparr>, [ResultOf call 1 (map_option (\<lambda>a. (a, answered)) a)]))"

section \<open>The renderers\<close>

definition find_renderer :: "int \<Rightarrow> WebviewPlugin \<Rightarrow> WebviewTexture option" where
  "find_renderer i st = Option.bind (map_of (m_renderers st) i) id"

definition put_renderer :: "int \<Rightarrow> WebviewTexture option \<Rightarrow> WebviewPlugin \<Rightarrow> WebviewPlugin" where
  "put_renderer i r st = st\<lparr>m_renderers := AList.update i r (m_renderers st)\<rparr>"

definition change_renderer :: "int \<Rightarrow> (WebviewTexture \<Rightarrow> WebviewTexture) \<Rightarrow> WebviewPlugin \<Rightarrow> WebviewPlugin" where
  "change_renderer i f st =
     (case find_renderer i st of None \<Rightarrow> st | Some r \<Rightarrow> put_renderer i (Some (f r)) st)"

definition getAnyBrowserFocused :: "WebviewPlugin \<Rightarrow> bool" where
  "getAnyBrowserFocused st \<longleftrightarrow>
     list_ex (\<lambda>(i, r). case r of None \<Rightarrow> False | Some r \<Rightarrow> isFocused r) (m_renderers st)"

definition focusedBrowserId :: "WebviewPlugin \<Rightarrow> int" where
  "focusedBrowserId st =
     (case find (\<lambda>(i, r). case r of None \<Rightarrow> False | Some r \<Rightarrow> isFocused r) (m_renderers st) of
        None \<Rightarrow> - 1
      | Some (i, _) \<Rightarrow> i)"

definition isEditableFocused :: "WebviewPlugin \<Rightarrow> bool" where
  "isEditableFocused st \<longleftrightarrow>
     (let i = focusedBrowserId st
      in \<not> i < 0 \<and> (case find_renderer i st of None \<Rightarrow> False | Some r \<Rightarrow> editableFocused r))"

definition isComposing :: "WebviewPlugin \<Rightarrow> bool" where
  "isComposing st \<longleftrightarrow>
     (let i = focusedBrowserId st
      in \<not> i < 0 \<and> (case find_renderer i st of None \<Rightarrow> False | Some r \<Rightarrow> composing r))"

definition setComposingForBrowser :: "int \<Rightarrow> bool \<Rightarrow> WebviewPlugin \<Rightarrow> WebviewPlugin" where
  "setComposingForBrowser i b = change_renderer i (\<lambda>r. r\<lparr>composing := b\<rparr>)"

section \<open>The callbacks\<close>

definition all_callbacks :: "HandlerCallback list" where
  "all_callbacks =
     [onPaintCallback, onAcceleratedPaintCallback, onTooltipEvent, onCursorChangedEvent, onConsoleMessageEvent,
      onUrlChangedEvent, onTitleChangedEvent, onJavaScriptChannelMessage, onFocusedNodeChangeMessage,
      onImeCompositionRangeChangedMessage, onLoadStart, onLoadEnd]"

definition set_callbacks :: "bool \<Rightarrow> HandlerCallback list \<Rightarrow> WebviewHandler \<Rightarrow> WebviewHandler" where
  "set_callbacks b cs h = h\<lparr>callback_set := (\<lambda>c. if c \<in> set cs then b else callback_set h c)\<rparr>"

definition initCallback :: "WebviewPlugin \<Rightarrow> WebviewPlugin" where
  "initCallback st =
     (if m_init st then st
      else st\<lparr>m_handler := set_callbacks True all_callbacks (m_handler st), m_init := True\<rparr>)"

text \<open>The two callbacks of a load are not taken back.\<close>

definition uninitCallback :: "WebviewPlugin \<Rightarrow> WebviewPlugin" where
  "uninitCallback st =
     st\<lparr>m_handler := set_callbacks False
          [onPaintCallback, onAcceleratedPaintCallback, onTooltipEvent, onCursorChangedEvent,
           onConsoleMessageEvent, onUrlChangedEvent, onTitleChangedEvent, onJavaScriptChannelMessage,
           onFocusedNodeChangeMessage, onImeCompositionRangeChangedMessage] (m_handler st),
        m_init := False\<rparr>"

definition tell :: "string \<Rightarrow> (WHeap \<Rightarrow> (addr \<times> WHeap \<times> WHeap) option) \<Rightarrow> WebviewPlugin \<Rightarrow> PluginResult" where
  "tell name event st =
     (if m_invokeFunc st
      then case event (values_heap st) of
             None \<Rightarrow> Inl BadValue
           | Some (m, called, released) \<Rightarrow> Inr (st\<lparr>values_heap := released\<rparr>, [InvokeMethod name m called])
      else Inr (st, []))"

definition nth_text :: "string list \<Rightarrow> nat \<Rightarrow> string" where
  "nth_text ss k = (if k < length ss then ss ! k else [])"

definition nth_int :: "int list \<Rightarrow> nat \<Rightarrow> int" where
  "nth_int ns k = (if k < length ns then ns ! k else 0)"

text \<open>The functions the callbacks are set to, on the browser, the texts and the numbers of the event.\<close>

primrec call_callback :: "HandlerCallback \<Rightarrow> int \<Rightarrow> string list \<Rightarrow> int list \<Rightarrow> WebviewPlugin \<Rightarrow> PluginResult" where
  "call_callback onPaintCallback i ss ns st =
     (case find_renderer i st of
        None \<Rightarrow> Inr (st, [])
      | Some r \<Rightarrow> Inr (st, [OnFrame (textureId r) (nth_int ns 0) (nth_int ns 1)]))"
| "call_callback onAcceleratedPaintCallback i ss ns st =
     (case find_renderer i st of
        None \<Rightarrow> Inr (st, [])
      | Some r \<Rightarrow> Inr (st, [OnAcceleratedFrame (textureId r) (nth_int ns 0) (nth_int ns 1) (nth_int ns 2)]))"
| "call_callback onTooltipEvent i ss ns st = tell ''onTooltip'' (tooltip_value i (nth_text ss 0)) st"
| "call_callback onCursorChangedEvent i ss ns st = tell ''onCursorChanged'' (cursor_value i (nth_int ns 0)) st"
| "call_callback onConsoleMessageEvent i ss ns st =
     tell ''onConsoleMessage'' (console_value i (nth_int ns 0) (nth_text ss 0) (nth_text ss 1) (nth_int ns 1)) st"
| "call_callback onUrlChangedEvent i ss ns st = tell ''urlChanged'' (url_value i (nth_text ss 0)) st"
| "call_callback onTitleChangedEvent i ss ns st = tell ''titleChanged'' (title_value i (nth_text ss 0)) st"
| "call_callback onJavaScriptChannelMessage i ss ns st =
     tell ''javascriptChannelMessage''
       (channel_value (nth_text ss 0) (nth_text ss 1) (nth_text ss 2) i (nth_text ss 3)) st"
| "call_callback onFocusedNodeChangeMessage i ss ns st =
     (let editable = (nth_int ns 0 \<noteq> 0)
      in tell ''onFocusedNodeChangeMessage'' (focused_node_value i editable)
           (change_renderer i (\<lambda>r. r\<lparr>editableFocused := editable, composing := False\<rparr>) st))"
| "call_callback onImeCompositionRangeChangedMessage i ss ns st =
     tell ''onImeCompositionRangeChangedMessage'' (ime_range_value i (nth_int ns 0) (nth_int ns 1) (nth_int ns 2)) st"
| "call_callback onLoadStart i ss ns st = tell ''onLoadStart'' (load_start_value i (nth_text ss 0)) st"
| "call_callback onLoadEnd i ss ns st = tell ''onLoadEnd'' (load_end_value i (nth_text ss 0)) st"

text \<open>A browser has been created: its texture, its entry in the table, and the answer of the call.\<close>

definition browser_created :: "PluginHost \<Rightarrow> int \<Rightarrow> WebviewPlugin \<Rightarrow> PluginResult" where
  "browser_created env browserId st =
     answer_value (call_id env)
       (map_option (\<lambda>(l, _, answered, released). (Some l, answered, released))
          (created_answer browserId (created_texture env) (values_heap st)))
       (put_renderer browserId (Some (WebviewTexture_init (created_texture env))) st)"

text \<open>What the handler does comes back to the plugin where it calls one of its functions.\<close>

primrec perform :: "PluginHost \<Rightarrow> HandlerEffect \<Rightarrow> WebviewPlugin \<Rightarrow> PluginResult" where
  "perform env (Host c k) st = Inr (st, [HandlerDid (Host c k)])"
| "perform env (Callback c i ss ns) st = call_callback c i ss ns st"
| "perform env (RunJsCallback call v) st =
     answer_value call (evaluated_answer (script_value env v) (values_heap st)) st"
| "perform env PostToUi st = Inr (st, [HandlerDid PostToUi])"
| "perform env Warn st = Inr (st, [HandlerDid Warn])"
| "perform env (SetCookie u d k v) st = Inr (st, [HandlerDid (SetCookie u d k v)])"
| "perform env (DeleteCookies u k) st = Inr (st, [HandlerDid (DeleteCookies u k)])"
| "perform env (VisitCookies u) st = Inr (st, [HandlerDid (VisitCookies u)])"
| "perform env (LoadDataURI t p) st = Inr (st, [HandlerDid (LoadDataURI t p)])"
| "perform env (BrowserCreated i) st = browser_created env i st"
| "perform env PostDelayedWarning st = Inr (st, [HandlerDid PostDelayedWarning])"

fun perform_all :: "PluginHost \<Rightarrow> HandlerEffect list \<Rightarrow> WebviewPlugin \<Rightarrow> PluginResult" where
  "perform_all env [] st = Inr (st, [])"
| "perform_all env (ev # evs) st = then_do (perform env ev st) (perform_all env evs)"

definition ask :: "PluginHost \<Rightarrow> (WebviewHandler \<Rightarrow> HandlerResult) \<Rightarrow> WebviewPlugin \<Rightarrow> PluginResult" where
  "ask env f st =
     (case f (m_handler st) of
        Inl e \<Rightarrow> Inl (InHandler e)
      | Inr (h, evs) \<Rightarrow> perform_all env evs (st\<lparr>m_handler := h\<rparr>))"

section \<open>Arguments\<close>

text \<open>
  \<open>int(...)\<close> of a 64-bit value keeps its low 32 bits. \<open>with_arg\<close> goes on with what was read; a read is
  undefined where it meets a freed value.
\<close>

definition with_arg :: "'a option \<Rightarrow> ('a \<Rightarrow> PluginResult) \<Rightarrow> PluginResult" where
  "with_arg v f = (case v of None \<Rightarrow> Inl BadValue | Some x \<Rightarrow> f x)"

definition with_text :: "string option \<Rightarrow> (string \<Rightarrow> PluginResult) \<Rightarrow> PluginResult" where
  "with_text t f = (case t of None \<Rightarrow> Inl NullText | Some s \<Rightarrow> f s)"

definition cut_int :: "u64 \<Rightarrow> int" where
  "cut_int w = sint (ucast w :: u32)"

definition own_int :: "WebviewPlugin \<Rightarrow> WPtr \<Rightarrow> int option" where
  "own_int st values = map_option cut_int (webview_value_get_int (values_heap st) values)"

definition item :: "(WHeap \<Rightarrow> WPtr \<Rightarrow> 'a option) \<Rightarrow> WebviewPlugin \<Rightarrow> WPtr \<Rightarrow> nat \<Rightarrow> 'a option" where
  "item get st values n =
     Option.bind (webview_value_get_list_value (values_heap st) values n) (get (values_heap st))"

definition int_item :: "WebviewPlugin \<Rightarrow> WPtr \<Rightarrow> nat \<Rightarrow> int option" where
  "int_item st values n = map_option cut_int (item webview_value_get_int st values n)"

definition bool_item :: "WebviewPlugin \<Rightarrow> WPtr \<Rightarrow> nat \<Rightarrow> bool option" where
  "bool_item = item webview_value_get_bool"

definition double_item :: "WebviewPlugin \<Rightarrow> WPtr \<Rightarrow> nat \<Rightarrow> u64 option" where
  "double_item = item webview_value_get_double"

definition text_item :: "WebviewPlugin \<Rightarrow> WPtr \<Rightarrow> nat \<Rightarrow> string option option" where
  "text_item = item webview_value_get_string"

text \<open>
  Doubles are their bits. \<open>(int)std::round(d)\<close> rounds halves away from zero and is undefined for what an
  \<open>int\<close> cannot hold; \<open>(float)d\<close> rounds to the nearest float, ties to the even one, and goes to infinity
  beyond the largest.
\<close>

definition double_parts :: "u64 \<Rightarrow> bool \<times> nat \<times> nat" where
  "double_parts d = (unat d div 2 ^ 63 = 1, unat d div 2 ^ 52 mod 2 ^ 11, unat d mod 2 ^ 52)"

definition double_scaled :: "nat \<Rightarrow> nat \<Rightarrow> nat \<times> int" where
  "double_scaled e m = (if e = 0 then (m, - 1074) else (m + 2 ^ 52, int e - 1075))"

definition int_of_double :: "u64 \<Rightarrow> int option" where
  "int_of_double d =
     (case double_parts d of
        (negative, e, m) \<Rightarrow>
          if e = 2047 then None
          else case double_scaled e m of
                 (s, k) \<Rightarrow>
                   let r = int (if 0 \<le> k then s * 2 ^ nat k else (2 * s + 2 ^ nat (- k)) div 2 ^ Suc (nat (- k)));
                       v = (if negative then - r else r)
                   in if - (2 ^ 31) \<le> v \<and> v < 2 ^ 31 then Some v else None)"

definition float_of_double :: "u64 \<Rightarrow> u32" where
  "float_of_double d =
     (case double_parts d of
        (negative, e, m) \<Rightarrow>
          let sign = (if negative then 2 ^ 31 else 0 :: nat)
          in if e = 2047 then of_nat (sign + 255 * 2 ^ 23 + (if m = 0 then 0 else 2 ^ 22 + m div 2 ^ 29 mod 2 ^ 22))
             else case double_scaled e m of
                    (s, k) \<Rightarrow>
                      let u = max (int (bit_len s) + k - 24) (- 149);
                          r = (if u \<le> k then s * 2 ^ nat (k - u) else round_half_even s (2 ^ nat (u - k)));
                          bits = (if r < 2 ^ 23 then r else nat (u + 149) * 2 ^ 23 + r)
                      in of_nat (sign + min bits (255 * 2 ^ 23)))"

section \<open>The life of CEF in the process\<close>

definition initCEFProcesses :: "bool \<Rightarrow> string \<Rightarrow> WebviewApp" where
  "initCEFProcesses mac subprocess_path =
     (if mac \<and> subprocess_path = [] then SetProcessMode 3 WebviewApp_init else WebviewApp_init)"

definition setMacCEFPaths :: "string \<Rightarrow> string \<Rightarrow> string \<Rightarrow> PluginHost \<Rightarrow> PluginHost" where
  "setMacCEFPaths subprocessPath frameworkDirPath mainBundlePath env =
     env\<lparr>mac_paths := (subprocessPath, frameworkDirPath, mainBundlePath)\<rparr>"

definition cef_settings :: "PluginHost \<Rightarrow> string \<Rightarrow> CefSettings" where
  "cef_settings env agent =
     (let mac = apple (host_build env);
          cached = (cp_root (cef_cache_paths env) \<noteq> []);
          (subprocess, framework, bundle) = mac_paths env
      in \<lparr>windowless_rendering_enabled = True, no_sandbox = True,
          root_cache_path = (if cached then cp_root (cef_cache_paths env) else []),
          cache_path = (if cached then cp_cache (cef_cache_paths env) else []),
          user_agent_product = agent, external_message_pump = mac, multi_threaded_message_loop = (\<not> mac),
          browser_subprocess_path = (if mac then subprocess else []),
          framework_dir_path = (if mac then framework else []),
          main_bundle_path = (if mac then bundle else [])\<rparr>)"

definition startCEF :: "PluginHost \<Rightarrow> WebviewPlugin \<Rightarrow> PluginResult" where
  "startCEF env st = Inr (st\<lparr>isCefInitialized := True\<rparr>, [CefInitialize (cef_settings env (userAgent st))])"

definition stopCEF :: "WebviewPlugin \<Rightarrow> PluginResult" where
  "stopCEF st = Inr (st, [CefShutdown])"

section \<open>The calls of the application\<close>

text \<open>\<open>call_init\<close> takes the user agent of a first start, when a value was passed at all.\<close>

definition call_init :: "PluginHost \<Rightarrow> WPtr \<Rightarrow> WebviewPlugin \<Rightarrow> PluginResult" where
  "call_init env values st =
     then_do
       (if isCefInitialized st then Inr (st, [])
        else if values = None then startCEF env st
        else with_arg (webview_value_get_string (values_heap st) values)
               (\<lambda>agent. startCEF env (st\<lparr>userAgent := cef_text env agent\<rparr>)))
       (\<lambda>st. answer env 1 (initCallback st))"

definition call_quit :: "PluginHost \<Rightarrow> WPtr \<Rightarrow> WebviewPlugin \<Rightarrow> PluginResult" where
  "call_quit env values st = then_do (stopCEF st) (answer env 1)"

definition call_create :: "PluginHost \<Rightarrow> WPtr \<Rightarrow> WebviewPlugin \<Rightarrow> PluginResult" where
  "call_create env values st =
     with_arg (webview_value_get_string (values_heap st) values) (\<lambda>url. with_text url (\<lambda>_.
       ask env (createBrowser (host_build env) (on_ui_thread_now env) (created_browser env)) st))"

definition call_close :: "PluginHost \<Rightarrow> WPtr \<Rightarrow> WebviewPlugin \<Rightarrow> PluginResult" where
  "call_close env values st =
     with_arg (own_int st values) (\<lambda>browserId.
       then_do (ask env (closeBrowser browserId) st)
         (\<lambda>st. answer env 1 (if find_renderer browserId st = None then st else put_renderer browserId None st)))"

definition call_loadUrl :: "PluginHost \<Rightarrow> WPtr \<Rightarrow> WebviewPlugin \<Rightarrow> PluginResult" where
  "call_loadUrl env values st =
     with_arg (int_item st values 0) (\<lambda>browserId. with_arg (text_item st values 1) (\<lambda>url.
       case url of
         None \<Rightarrow> Inr (st, [])
       | Some url \<Rightarrow> then_do (ask env (loadUrl browserId url) st) (answer env 1)))"

definition call_setSize :: "PluginHost \<Rightarrow> WPtr \<Rightarrow> WebviewPlugin \<Rightarrow> PluginResult" where
  "call_setSize env values st =
     with_arg (int_item st values 0) (\<lambda>browserId. with_arg (double_item st values 1) (\<lambda>dpi.
       with_arg (double_item st values 2) (\<lambda>w. with_arg (double_item st values 3) (\<lambda>he.
         case (int_of_double w, int_of_double he) of
           (Some w, Some he) \<Rightarrow>
             then_do (ask env (changeSize browserId (float_of_double dpi) w he) st) (answer env 1)
         | _ \<Rightarrow> Inl NotAnInt))))"

text \<open>A pointer at the origin is not passed on.\<close>

definition cursorAction :: "PluginHost \<Rightarrow> string \<Rightarrow> WPtr \<Rightarrow> WebviewPlugin \<Rightarrow> PluginResult" where
  "cursorAction env name args st =
     with_arg (if args = None then Some 0 else webview_value_get_len (values_heap st) args) (\<lambda>len.
       if args = None \<or> len \<noteq> 3 then answer env 0 st
       else with_arg (int_item st args 0) (\<lambda>browserId. with_arg (int_item st args 1) (\<lambda>x.
              with_arg (int_item st args 2) (\<lambda>y.
                if x = 0 \<and> y = 0 then answer env 0 st
                else then_do
                  (if name = ''cursorClickDown'' then ask env (cursorClick browserId x y False) st
                   else if name = ''cursorClickUp'' then ask env (cursorClick browserId x y True) st
                   else if name = ''cursorMove'' then ask env (cursorMove browserId x y False) st
                   else if name = ''cursorDragging'' then ask env (cursorMove browserId x y True) st
                   else Inr (st, []))
                  (answer env 1)))))"

definition call_setScrollDelta :: "PluginHost \<Rightarrow> WPtr \<Rightarrow> WebviewPlugin \<Rightarrow> PluginResult" where
  "call_setScrollDelta env values st =
     with_arg (int_item st values 0) (\<lambda>browserId. with_arg (int_item st values 1) (\<lambda>x.
       with_arg (int_item st values 2) (\<lambda>y. with_arg (int_item st values 3) (\<lambda>deltaX.
         with_arg (int_item st values 4) (\<lambda>deltaY.
           then_do (ask env (sendScrollEvent (host_build env) browserId x y deltaX deltaY) st) (answer env 1))))))"

definition call_browser ::
    "(int \<Rightarrow> WebviewHandler \<Rightarrow> HandlerResult) \<Rightarrow> PluginHost \<Rightarrow> WPtr \<Rightarrow> WebviewPlugin \<Rightarrow> PluginResult" where
  "call_browser f env values st =
     with_arg (own_int st values) (\<lambda>browserId. then_do (ask env (f browserId) st) (answer env 1))"

definition call_goForward :: "PluginHost \<Rightarrow> WPtr \<Rightarrow> WebviewPlugin \<Rightarrow> PluginResult" where
  "call_goForward = call_browser goForward"

definition call_goBack :: "PluginHost \<Rightarrow> WPtr \<Rightarrow> WebviewPlugin \<Rightarrow> PluginResult" where
  "call_goBack = call_browser goBack"

definition call_reload :: "PluginHost \<Rightarrow> WPtr \<Rightarrow> WebviewPlugin \<Rightarrow> PluginResult" where
  "call_reload = call_browser reload"

definition call_openDevTools :: "PluginHost \<Rightarrow> WPtr \<Rightarrow> WebviewPlugin \<Rightarrow> PluginResult" where
  "call_openDevTools = call_browser openDevTools"

text \<open>The composing flag is looked after before the text is passed on; the text may be null in both.\<close>

definition call_imeSetComposition :: "PluginHost \<Rightarrow> WPtr \<Rightarrow> WebviewPlugin \<Rightarrow> PluginResult" where
  "call_imeSetComposition env values st =
     with_arg (int_item st values 0) (\<lambda>browserId. with_arg (text_item st values 1) (\<lambda>t.
       let st = setComposingForBrowser browserId (t \<noteq> None \<and> t \<noteq> Some []) st
       in with_text t (\<lambda>t. then_do (ask env (imeSetComposition browserId t (utf16_length env t)) st) (answer env 1))))"

definition call_imeCommitText :: "PluginHost \<Rightarrow> WPtr \<Rightarrow> WebviewPlugin \<Rightarrow> PluginResult" where
  "call_imeCommitText env values st =
     with_arg (int_item st values 0) (\<lambda>browserId. with_arg (text_item st values 1) (\<lambda>t.
       let st = setComposingForBrowser browserId False st
       in with_text t (\<lambda>t. then_do (ask env (imeCommitText browserId t (utf16_length env t)) st) (answer env 1))))"

definition call_setClientFocus :: "PluginHost \<Rightarrow> WPtr \<Rightarrow> WebviewPlugin \<Rightarrow> PluginResult" where
  "call_setClientFocus env values st =
     with_arg (int_item st values 0) (\<lambda>browserId.
       then_do
         (case find_renderer browserId st of
            None \<Rightarrow> Inr (st, [])
          | Some r \<Rightarrow>
              with_arg (bool_item st values 1) (\<lambda>focused.
                ask env (setClientFocus browserId focused)
                  (put_renderer browserId
                     (Some (r\<lparr>isFocused := focused, composing := (focused \<and> composing r)\<rparr>)) st)))
         (answer env 1))"

text \<open>The cookie calls go to the cookie manager; a visit is answered when it is complete.\<close>

definition did :: "HandlerEffect list \<Rightarrow> WebviewPlugin \<Rightarrow> PluginResult" where
  "did effects st = Inr (st, map HandlerDid effects)"

definition call_setCookie :: "PluginHost \<Rightarrow> WPtr \<Rightarrow> WebviewPlugin \<Rightarrow> PluginResult" where
  "call_setCookie env values st =
     with_arg (text_item st values 0) (\<lambda>domain. with_arg (text_item st values 1) (\<lambda>key.
       with_arg (text_item st values 2) (\<lambda>v.
         with_text domain (\<lambda>domain. with_text key (\<lambda>key. with_text v (\<lambda>v.
           then_do (did (setCookie (has_cookie_manager env) domain key v) st) (answer env 1)))))))"

definition call_deleteCookie :: "PluginHost \<Rightarrow> WPtr \<Rightarrow> WebviewPlugin \<Rightarrow> PluginResult" where
  "call_deleteCookie env values st =
     with_arg (text_item st values 0) (\<lambda>domain. with_arg (text_item st values 1) (\<lambda>key.
       with_text domain (\<lambda>domain. with_text key (\<lambda>key.
         then_do (did (deleteCookie (has_cookie_manager env) domain key) st) (answer env 1)))))"

definition call_visitAllCookies :: "PluginHost \<Rightarrow> WPtr \<Rightarrow> WebviewPlugin \<Rightarrow> PluginResult" where
  "call_visitAllCookies env values st = did (visitAllCookies (has_cookie_manager env)) st"

definition call_visitUrlCookies :: "PluginHost \<Rightarrow> WPtr \<Rightarrow> WebviewPlugin \<Rightarrow> PluginResult" where
  "call_visitUrlCookies env values st =
     with_arg (text_item st values 0) (\<lambda>domain. with_arg (bool_item st values 1) (\<lambda>isHttpOnly.
       with_text domain (\<lambda>domain. did (visitUrlCookies (has_cookie_manager env) domain) st)))"

definition cookies_visited ::
    "PluginHost \<Rightarrow> (string \<times> (string \<times> string) list) list \<Rightarrow> WebviewPlugin \<Rightarrow> PluginResult" where
  "cookies_visited env cookies st =
     answer_value (call_id env)
       (map_option (\<lambda>(m, answered, released). (Some m, answered, released)) (cookies_answer cookies (values_heap st))) st"

fun read_channels :: "WebviewPlugin \<Rightarrow> WPtr \<Rightarrow> nat list \<Rightarrow> (string option list) option" where
  "read_channels st values [] = Some []"
| "read_channels st values (n # ns) =
     (case text_item st values n of
        None \<Rightarrow> None
      | Some t \<Rightarrow> map_option (\<lambda>ts. t # ts) (read_channels st values ns))"

definition call_setJavaScriptChannels :: "PluginHost \<Rightarrow> WPtr \<Rightarrow> WebviewPlugin \<Rightarrow> PluginResult" where
  "call_setJavaScriptChannels env values st =
     with_arg (int_item st values 0) (\<lambda>browserId.
       with_arg (webview_value_get_list_value (values_heap st) values 1) (\<lambda>channel_list.
         with_arg (webview_value_get_len (values_heap st) channel_list) (\<lambda>len.
           with_arg (read_channels st channel_list [0..<len]) (\<lambda>channels.
             with_text (if None \<in> set channels then None else Some [])
               (\<lambda>_. then_do (ask env (setJavaScriptChannels browserId (map the channels) (has_main_frame env)
                               (clock_ns env)) st) (answer env 1))))))"

definition call_sendJavaScriptChannelCallBack :: "PluginHost \<Rightarrow> WPtr \<Rightarrow> WebviewPlugin \<Rightarrow> PluginResult" where
  "call_sendJavaScriptChannelCallBack env values st =
     with_arg (bool_item st values 0) (\<lambda>error. with_arg (text_item st values 1) (\<lambda>ret.
       with_arg (text_item st values 2) (\<lambda>callbackId. with_arg (int_item st values 3) (\<lambda>browserId.
         with_arg (text_item st values 4) (\<lambda>frameId.
           with_text ret (\<lambda>ret. with_text callbackId (\<lambda>callbackId. with_text frameId (\<lambda>frameId.
             then_do (ask env (sendJavaScriptChannelCallBack error ret callbackId browserId frameId
                         (main_frame_identifier env)) st) (answer env 1)))))))))"

text \<open>
  A key goes to the browser that has the keyboard. Control and F12 together open the developer tools of
  every focused renderer: each entry of the table is read, a reset one too.
\<close>

definition developer_key :: "CefKeyEvent \<Rightarrow> bool" where
  "developer_key ev \<longleftrightarrow> key_type ev = 0 \<and> windows_key_code ev = 0x7B \<and> and (modifiers ev) 4 \<noteq> 0"

fun open_focused :: "PluginHost \<Rightarrow> (int \<times> WebviewTexture option) list \<Rightarrow> WebviewPlugin \<Rightarrow> PluginResult" where
  "open_focused env [] st = Inr (st, [])"
| "open_focused env ((i, r) # rs) st =
     (case r of
        None \<Rightarrow> Inl NullRenderer
      | Some r \<Rightarrow>
          then_do (if isFocused r then ask env (openDevTools i) st else Inr (st, [])) (open_focused env rs))"

definition Plugin_sendKeyEvent :: "PluginHost \<Rightarrow> CefKeyEvent \<Rightarrow> WebviewPlugin \<Rightarrow> PluginResult" where
  "Plugin_sendKeyEvent env ev st =
     then_do (ask env (sendKeyEvent ev) st)
       (\<lambda>st. if developer_key ev then open_focused env (m_renderers st) st else Inr (st, []))"

definition call_sendKeyEvent :: "PluginHost \<Rightarrow> WPtr \<Rightarrow> WebviewPlugin \<Rightarrow> PluginResult" where
  "call_sendKeyEvent env values st =
     with_arg (int_item st values 1) (\<lambda>type. with_arg (int_item st values 2) (\<lambda>keyCode.
       with_arg (int_item st values 3) (\<lambda>mods. with_arg (int_item st values 4) (\<lambda>c.
         with_arg (int_item st values 5) (\<lambda>unmodified.
           then_do
             (Plugin_sendKeyEvent env
                \<lparr>key_type = type, windows_key_code = keyCode, modifiers = of_int mods,
                 key_character = of_int c, unmodified_character = of_int unmodified,
                 native_key_code = 0, is_system_key = False\<rparr> st)
             (answer env 1))))))"

definition call_hasNativeKeySupport :: "PluginHost \<Rightarrow> WPtr \<Rightarrow> WebviewPlugin \<Rightarrow> PluginResult" where
  "call_hasNativeKeySupport env values st =
     answer_value (call_id env)
       (map_option (\<lambda>(a, answered, released). (Some a, answered, released))
          (scalar_answer (SBool (native_keys env)) (values_heap st))) st"

text \<open>Code that is evaluated is answered when its value comes back, by the callback of this call.\<close>

definition run_script :: "PluginHost \<Rightarrow> nat option \<Rightarrow> WPtr \<Rightarrow> WebviewPlugin \<Rightarrow> PluginResult" where
  "run_script env callback values st =
     with_arg (int_item st values 0) (\<lambda>browserId. with_arg (text_item st values 1) (\<lambda>code.
       with_text code (\<lambda>code.
         ask env (executeJavaScript browserId code callback (has_main_frame env) (clock_ns env)) st)))"

definition call_executeJavaScript :: "PluginHost \<Rightarrow> WPtr \<Rightarrow> WebviewPlugin \<Rightarrow> PluginResult" where
  "call_executeJavaScript env values st = then_do (run_script env None values st) (answer env 1)"

definition call_evaluateJavascript :: "PluginHost \<Rightarrow> WPtr \<Rightarrow> WebviewPlugin \<Rightarrow> PluginResult" where
  "call_evaluateJavascript env values st = run_script env (Some (call_id env)) values st"

text \<open>The calls by their names, in the order of the code. \<open>HandleMethodCall\<close> does nothing for any other name.\<close>

definition plugin_calls :: "(string \<times> (PluginHost \<Rightarrow> WPtr \<Rightarrow> WebviewPlugin \<Rightarrow> PluginResult)) list" where
  "plugin_calls =
     [(''init'', call_init), (''quit'', call_quit), (''create'', call_create), (''close'', call_close),
      (''loadUrl'', call_loadUrl), (''setSize'', call_setSize),
      (''cursorClickDown'', \<lambda>env. cursorAction env ''cursorClickDown''),
      (''cursorClickUp'', \<lambda>env. cursorAction env ''cursorClickUp''),
      (''cursorMove'', \<lambda>env. cursorAction env ''cursorMove''),
      (''cursorDragging'', \<lambda>env. cursorAction env ''cursorDragging''),
      (''setScrollDelta'', call_setScrollDelta), (''goForward'', call_goForward), (''goBack'', call_goBack),
      (''reload'', call_reload), (''openDevTools'', call_openDevTools),
      (''imeSetComposition'', call_imeSetComposition), (''imeCommitText'', call_imeCommitText),
      (''setClientFocus'', call_setClientFocus), (''setCookie'', call_setCookie),
      (''deleteCookie'', call_deleteCookie), (''visitAllCookies'', call_visitAllCookies),
      (''visitUrlCookies'', call_visitUrlCookies), (''setJavaScriptChannels'', call_setJavaScriptChannels),
      (''sendJavaScriptChannelCallBack'', call_sendJavaScriptChannelCallBack),
      (''sendKeyEvent'', call_sendKeyEvent), (''hasNativeKeySupport'', call_hasNativeKeySupport),
      (''executeJavaScript'', call_executeJavaScript), (''evaluateJavascript'', call_evaluateJavascript)]"

definition HandleMethodCall :: "PluginHost \<Rightarrow> string \<Rightarrow> WPtr \<Rightarrow> WebviewPlugin \<Rightarrow> PluginResult" where
  "HandleMethodCall env name values st =
     (case map_of plugin_calls name of None \<Rightarrow> Inr (st, []) | Some f \<Rightarrow> f env values st)"

section \<open>The rest\<close>

definition Plugin_imeSetCompositionNative :: "PluginHost \<Rightarrow> string \<Rightarrow> nat \<Rightarrow> int \<Rightarrow> WebviewPlugin \<Rightarrow> PluginResult" where
  "Plugin_imeSetCompositionNative env t len cursor =
     ask env (imeSetCompositionNative (on_ui_thread_now env) t len cursor)"

definition Plugin_imeCommitTextNative :: "PluginHost \<Rightarrow> string \<Rightarrow> WebviewPlugin \<Rightarrow> PluginResult" where
  "Plugin_imeCommitTextNative env t = ask env (imeCommitTextNative (on_ui_thread_now env) t)"

definition Plugin_imeFinishCompositionNative :: "PluginHost \<Rightarrow> WebviewPlugin \<Rightarrow> PluginResult" where
  "Plugin_imeFinishCompositionNative env = ask env (imeFinishComposition (on_ui_thread_now env))"

definition tickBeginFrame :: "PluginHost \<Rightarrow> WebviewPlugin \<Rightarrow> PluginResult" where
  "tickBeginFrame env = ask env (sendExternalBeginFrame (host_build env) (on_ui_thread_now env))"

text \<open>The destructor: the handler outlives the plugin as long as CEF refers to it.\<close>

definition destroy_plugin :: "PluginHost \<Rightarrow> WebviewPlugin \<Rightarrow> PluginResult" where
  "destroy_plugin env st =
     then_do (ask env (CloseAllBrowsers True) (uninitCallback st)) (\<lambda>st. Inr (st\<lparr>m_renderers := []\<rparr>, []))"

text \<open>A pixel as the code reads it: \<open>0xAARRGGBB\<close>. Red and blue change places.\<close>

definition swap_pixel :: "u32 \<Rightarrow> u32" where
  "swap_pixel bgra =
     or (or (drop_bit 16 (and bgra 0x00ff0000)) (and bgra 0xff00ff00)) (push_bit 16 (and bgra 0x000000ff))"

definition SwapBufferFromBgraToRgba :: "u32 list \<Rightarrow> u32 list \<Rightarrow> int \<Rightarrow> int \<Rightarrow> u32 list option" where
  "SwapBufferFromBgraToRgba dest src w he =
     (let len = nat (w * he)
      in if - (2 ^ 31) \<le> w * he \<and> w * he < 2 ^ 31 \<and> len \<le> length dest \<and> len \<le> length src
         then Some (map swap_pixel (take len src) @ drop len dest) else None)"

end
