(* ===== verification/Plugin_Calls.thy ===== *)
theory Plugin_Calls
  imports Webview_Plugin
begin

text \<open>
  What holds of the calls of the webview plugin: which of them are answered and how often, what the
  closing of a browser and the end of the plugin leave behind, and how often a process starts CEF.
\<close>

section \<open>Calls that only ask the handler\<close>

text \<open>What most requests do: nothing but calls on the browser's host, which come back to nobody.\<close>

definition host_only :: "HandlerResult \<Rightarrow> bool" where
  "host_only r = (case r of Inl e \<Rightarrow> True | Inr (h, es) \<Rightarrow> list_all (\<lambda>e. \<exists>c k. e = Host c k) es)"

lemma host_only_simps [simp]:
  "host_only (Inl e)" "host_only (stay h)" "host_only (Inr (h, map (Host c) calls))"
  by (simp_all add: host_only_def list_all_iff)

lemma host_only_calls: "host_only (host_calls b calls h)" "host_only (live_calls b calls h' h)" "host_only (focused_calls calls h)"
  by (simp_all add: host_calls_def live_calls_def focused_calls_def split: option.split)

lemma host_only_with: "(\<And>b. host_only (f b)) \<Longrightarrow> host_only (with_browser i f h)"
  by (simp add: with_browser_def split: option.split)

lemma host_only_execute: "host_only (executeJavaScript i code f fr t h)"
  by (auto simp: executeJavaScript_def host_only_def Let_def split: option.split)

lemma host_only_request: "host_only (handle_request build i h r)"
proof (cases r)
  case EvCloseBrowser
  then show ?thesis by (simp add: closeBrowser_def host_only_calls split: option.split)
next
  case (EvChannelAnswer e a k f m)
  then show ?thesis
    by (auto simp: sendJavaScriptChannelCallBack_def host_only_def with_browser_def split: option.split)
qed (simp_all add: sendScrollEvent_def changeSize_def cursorClick_def cursorMove_def loadUrl_def goForward_def
  goBack_def reload_def openDevTools_def imeSetComposition_def imeCommitText_def setClientFocus_def
  setJavaScriptChannels_def host_only_with host_only_calls host_only_execute Let_def)

lemma host_only_key: "host_only (sendKeyEvent ev h)"
  by (simp add: sendKeyEvent_def host_only_calls)

lemma perform_host:
  "list_all (\<lambda>e. \<exists>c k. e = Host c k) es \<Longrightarrow> perform_all env es st = Inr (st, map HandlerDid es)"
  by (induction es) (auto simp: then_do_def)

lemma ask_host:
  assumes "host_only (f (m_handler st))"
  shows "ask env f st =
    (case f (m_handler st) of
       Inl e \<Rightarrow> Inl (InHandler e) | Inr (h, es) \<Rightarrow> Inr (st\<lparr>m_handler := h\<rparr>, map HandlerDid es))"
  using assms by (auto simp: ask_def host_only_def perform_host split: sum.split)

section \<open>Every call is answered once\<close>

fun answers :: "nat \<Rightarrow> PluginEffect list \<Rightarrow> nat" where
  "answers call [] = 0"
| "answers call (e # es) = (case e of ResultOf c _ _ \<Rightarrow> of_bool (c = call) | _ \<Rightarrow> 0) + answers call es"

lemma answers_append [simp]: "answers call (xs @ ys) = answers call xs + answers call ys"
  by (induction xs) auto

lemma answers_did [simp]: "answers call (map HandlerDid es) = 0"
  by (induction es) auto

text \<open>The handler in order, and the values in the books of \<open>Webview_Client\<close> with \<open>e\<close> held outside.\<close>

definition plugin_ok :: "(addr \<Rightarrow> nat) \<Rightarrow> WebviewPlugin \<Rightarrow> bool" where
  "plugin_ok e st \<longleftrightarrow> handler_ok (m_handler st) \<and> client_ok (values_heap st, e)"

text \<open>What a plain call may do besides: answer this call as a success or as not implemented, with nothing or with a truth value, and call on CEF.\<close>

fun plain_effect :: "nat \<Rightarrow> PluginEffect \<Rightarrow> bool" where
  "plain_effect call (ResultOf c code v) \<longleftrightarrow>
     c = call \<and> code \<in> {0, 1} \<and> (case v of None \<Rightarrow> True | Some (a, h) \<Rightarrow> \<exists>d b. deref h a = Some d \<and> wv_data d = WBool b)"
| "plain_effect call (InvokeMethod name a h) \<longleftrightarrow> False"
| "plain_effect call _ \<longleftrightarrow> True"

definition answered :: "(addr \<Rightarrow> nat) \<Rightarrow> nat \<Rightarrow> nat \<Rightarrow> PluginResult \<Rightarrow> bool" where
  "answered e call n r \<longleftrightarrow>
     (\<exists>st es. r = Inr (st, es) \<and> answers call es = n \<and> list_all (plain_effect call) es \<and> plugin_ok e st)"

lemma plain_did [simp]: "list_all (plain_effect call) (map HandlerDid es)"
  by (induction es) auto

lemma answered_quiet [simp]: "answered e call n (Inr (st, [])) \<longleftrightarrow> n = 0 \<and> plugin_ok e st"
  by (auto simp: answered_def)

lemma answered_then:
  "answered e call m r \<Longrightarrow> (\<And>st. plugin_ok e st \<Longrightarrow> answered e call n (f st)) \<Longrightarrow> answered e call (m + n) (then_do r f)"
  by (fastforce simp: answered_def then_do_def)

lemma answered_answer:
  "plugin_ok e st \<Longrightarrow> answered e (call_id env) 1 (answer env 1 st)"
  "plugin_ok e st \<Longrightarrow> answered e (call_id env) 1 (answer env 0 st)"
  by (simp_all add: answered_def answer_def)

lemma answered_done:
  "answered e (call_id env) 0 r \<Longrightarrow> answered e (call_id env) 1 (then_do r (answer env 1))"
  using answered_then [of e _ 0 r 1 "answer env 1"] answered_answer by fastforce

lemma answered_ask:
  assumes "plugin_ok e st" and "host_only (f (m_handler st))" and "defined_ok (f (m_handler st))"
  shows "answered e call 0 (ask env f st)"
  using assms by (auto simp: ask_host answered_def plugin_ok_def defined_ok_def split: sum.splits)

lemma answered_request:
  assumes "plugin_ok e st" and "expected (m_handler st) (Request i r)"
  shows "answered e call 0 (ask env (\<lambda>h. handle_request build i h r) st)"
  using assms handle_request_ok [of "m_handler st" i r build]
  by (intro answered_ask host_only_request) (simp_all add: plugin_ok_def)


text \<open>What a call is given: nothing, or a value somebody holds. Everything in it can be read.\<close>

definition given :: "(addr \<Rightarrow> nat) \<Rightarrow> WPtr \<Rightarrow> bool" where
  "given e values \<longleftrightarrow> (case values of None \<Rightarrow> True | Some a \<Rightarrow> 0 < e a)"

lemma getter_defined:
  "getter d f h p \<noteq> None \<longleftrightarrow> (case p of None \<Rightarrow> True | Some a \<Rightarrow> deref h a \<noteq> None)"
  by (simp add: getter_def split: option.split)

lemma own_defined: "plugin_ok e st \<Longrightarrow> given e v \<Longrightarrow> getter d f (values_heap st) v \<noteq> None"
  by (cases v) (auto simp: getter_def given_def plugin_ok_def client_ok_def dest: owned_held_live)

lemma list_value_live:
  assumes ok: "plugin_ok e st" and v: "given e v"
  shows "\<exists>p. webview_value_get_list_value (values_heap st) v n = Some p
           \<and> (case p of None \<Rightarrow> True | Some a \<Rightarrow> deref (values_heap st) a \<noteq> None)"
proof (cases v)
  case None
  then show ?thesis by (simp add: webview_value_get_list_value_def getter_def)
next
  case (Some a)
  from ok v Some obtain c where own: "owned (values_heap st) e" and c: "deref (values_heap st) a = Some c"
    using owned_held_live by (fastforce simp: given_def plugin_ok_def client_ok_def)
  have "deref (values_heap st) x \<noteq> None" if "wv_data c = WList vs" "x \<in> set (pdata vs)" for vs x
    using owned_child_live [OF own c, of x] that by auto
  with Some c show ?thesis
    by (cases "wv_data c") (auto simp: webview_value_get_list_value_def getter_def webview_ptr_array_index_def)
qed

lemma item_defined:
  assumes "plugin_ok e st" and "given e v"
  shows "item (getter d f) st v n \<noteq> None"
  using list_value_live [OF assms, of n] getter_defined by (fastforce simp: item_def)

lemma items_defined:
  assumes "plugin_ok e st" and "given e v"
  shows "int_item st v n \<noteq> None" and "bool_item st v n \<noteq> None" and "double_item st v n \<noteq> None"
    and "text_item st v n \<noteq> None" and "own_int st v \<noteq> None"
    and "webview_value_get_len (values_heap st) v \<noteq> None"
  using item_defined [OF assms] own_defined [OF assms]
  by (simp_all add: int_item_def bool_item_def double_item_def text_item_def own_int_def webview_value_get_int_def
      webview_value_get_bool_def webview_value_get_double_def webview_value_get_string_def webview_value_get_len_def
      del: not_None_eq)

lemma answered_with: "v \<noteq> None \<Longrightarrow> (\<And>x. v = Some x \<Longrightarrow> answered e call n (f x)) \<Longrightarrow> answered e call n (with_arg v f)"
  by (auto simp: with_arg_def)

lemma answered_text: "t \<noteq> None \<Longrightarrow> (\<And>s. t = Some s \<Longrightarrow> answered e call n (f s)) \<Longrightarrow> answered e call n (with_text t f)"
  by (auto simp: with_text_def)


lemma plugin_ok_renderers [simp]:
  "plugin_ok e (put_renderer i r st) = plugin_ok e st"
  "plugin_ok e (setComposingForBrowser i b st) = plugin_ok e st"
  by (simp_all add: plugin_ok_def put_renderer_def setComposingForBrowser_def change_renderer_def split: option.split)

lemma answered_ops:
  assumes "plugin_ok e st"
  shows "answered e call 0 (ask env (closeBrowser i) st)" and "answered e call 0 (ask env (loadUrl i u) st)"
    and "answered e call 0 (ask env (cursorClick i x y b) st)" and "answered e call 0 (ask env (cursorMove i x y b) st)"
    and "answered e call 0 (ask env (sendScrollEvent build i x y dx dy) st)"
    and "answered e call 0 (ask env (goForward i) st)" and "answered e call 0 (ask env (goBack i) st)"
    and "answered e call 0 (ask env (reload i) st)" and "answered e call 0 (ask env (openDevTools i) st)"
    and "answered e call 0 (ask env (imeSetComposition i u n) st)"
    and "answered e call 0 (ask env (imeCommitText i u n) st)"
    and "answered e call 0 (ask env (setClientFocus i b) st)"
    and "answered e call 0 (ask env (executeJavaScript i u f fr k) st)"
    and "answered e call 0 (ask env (setJavaScriptChannels i cs fr k) st)"
    and "answered e call 0 (ask env (changeSize i w x y) st)"
  using answered_request [OF assms, of i EvCloseBrowser call env build]
    answered_request [OF assms, of i "EvLoadUrl u" call env build]
    answered_request [OF assms, of i "EvClick x y b" call env build]
    answered_request [OF assms, of i "EvMove x y b" call env build]
    answered_request [OF assms, of i "EvScroll x y dx dy" call env build]
    answered_request [OF assms, of i EvForward call env build]
    answered_request [OF assms, of i EvBack call env build]
    answered_request [OF assms, of i EvReload call env build]
    answered_request [OF assms, of i EvDevTools call env build]
    answered_request [OF assms, of i "EvImeSet u n" call env build]
    answered_request [OF assms, of i "EvImeCommit u n" call env build]
    answered_request [OF assms, of i "EvSetFocus b" call env build]
    answered_request [OF assms, of i "EvExecute u f fr k" call env build]
    answered_request [OF assms, of i "EvChannels cs fr k" call env build]
    answered_request [OF assms, of i "EvChangeSize w x y" call env build]
  by simp_all

lemma answered_did: "plugin_ok e st \<Longrightarrow> answered e call 0 (did es st)"
  by (simp add: did_def answered_def)

lemma scalar_answer_ok:
  assumes ok: "client_ok (h, e)"
  shows "\<exists>a answered released. scalar_answer (SBool b) h = Some (a, answered, released) \<and> client_ok (released, e)
     \<and> (\<exists>d. deref answered a = Some d \<and> wv_data d = WBool b)"
proof -
  obtain a h1 where a: "new_scalar h (SBool b) = (a, h1)" by fastforce
  then have "\<exists>d. deref h1 a = Some d \<and> wv_data d = WBool b"
    by (auto simp: new_scalar_def webview_value_new_bool_def webview_value_new_def deref_def)
  from new_scalar_ok(1) [OF ok a] have "owned h1 (holding e [a])" and g: "granted h1" by (simp_all add: client_ok_def)
  then obtain h2 where "webview_value_unref h1 (Some a) = Some h2" "owned h2 e" by (blast elim: owned_unref)
  with a g \<open>\<exists>d. deref h1 a = Some d \<and> wv_data d = WBool b\<close> show ?thesis
    by (auto simp: scalar_answer_def client_ok_def dest: unref_granted)
qed

lemma answered_value:
  assumes "plugin_ok e st" and "v = Some (Some a, called, released)" and "client_ok (released, e)"
    and "\<exists>d. deref called a = Some d \<and> wv_data d = WBool b"
  shows "answered e call 1 (answer_value call v st)"
  using assms by (auto simp: answer_value_def answered_def plugin_ok_def)

text \<open>The calls that are answered before they return, with the positions of the texts they need.\<close>

definition plain_calls :: "(string \<times> nat list) list" where
  "plain_calls =
     [(''quit'', []), (''close'', []), (''loadUrl'', [1]), (''cursorClickDown'', []), (''cursorClickUp'', []),
      (''cursorMove'', []), (''cursorDragging'', []), (''setScrollDelta'', []), (''goForward'', []),
      (''goBack'', []), (''reload'', []), (''openDevTools'', []), (''imeSetComposition'', [1]),
      (''imeCommitText'', [1]), (''setClientFocus'', []), (''setCookie'', [0, 1, 2]), (''deleteCookie'', [0, 1]),
      (''hasNativeKeySupport'', []), (''executeJavaScript'', [1])]"

lemma answered_if:
  "(c \<Longrightarrow> answered e call n r) \<Longrightarrow> (\<not> c \<Longrightarrow> answered e call n s) \<Longrightarrow> answered e call n (if c then r else s)"
  by simp

lemma answered_calls:
  assumes ok: "plugin_ok e st" and v: "given e values"
  shows "answered e (call_id env) 1 (call_quit env values st)"
    and "answered e (call_id env) 1 (call_close env values st)"
    and "answered e (call_id env) 1 (cursorAction env name values st)"
    and "answered e (call_id env) 1 (call_setScrollDelta env values st)"
    and "answered e (call_id env) 1 (call_goForward env values st)"
    and "answered e (call_id env) 1 (call_goBack env values st)"
    and "answered e (call_id env) 1 (call_reload env values st)"
    and "answered e (call_id env) 1 (call_openDevTools env values st)"
    and "answered e (call_id env) 1 (call_setClientFocus env values st)"
    and "answered e (call_id env) 1 (call_hasNativeKeySupport env values st)"
proof -
  note defined [simp] = items_defined [OF ok v]
  note reads = defined [unfolded not_None_eq]
  note ops = answered_with answered_done answered_ops answered_answer ok
  show "answered e (call_id env) 1 (call_quit env values st)"
    using ok unfolding call_quit_def by (intro answered_done) (simp add: stopCEF_def answered_def)
  have "answered e (call_id env) (0 + 1) (call_close env values st)"
    unfolding call_close_def by (intro answered_with answered_then answered_ops ok) (simp_all add: answered_answer del: One_nat_def)
  then show "answered e (call_id env) 1 (call_close env values st)" by simp
  show "answered e (call_id env) 1 (call_setScrollDelta env values st)"
    unfolding call_setScrollDelta_def by (intro ops) simp_all
  show "answered e (call_id env) 1 (call_goForward env values st)" "answered e (call_id env) 1 (call_goBack env values st)"
    "answered e (call_id env) 1 (call_reload env values st)" "answered e (call_id env) 1 (call_openDevTools env values st)"
    unfolding call_goForward_def call_goBack_def call_reload_def call_openDevTools_def call_browser_def
    by (intro ops; simp)+
  have "answered e (call_id env) 0
      (case find_renderer i st of None \<Rightarrow> Inr (st, [])
       | Some r \<Rightarrow> with_arg (bool_item st values 1) (\<lambda>b. ask env (setClientFocus i b) (put_renderer i (g r b) st)))" for i g
    using ok defined(2) [of 1] by (cases "find_renderer i st") (simp_all add: with_arg_def answered_ops split: option.split)
  then show "answered e (call_id env) 1 (call_setClientFocus env values st)"
    unfolding call_setClientFocus_def by (intro answered_with answered_done) simp_all
  have "answered e (call_id env) 0
      (if name = ''cursorClickDown'' then ask env (cursorClick i x y False) st
       else if name = ''cursorClickUp'' then ask env (cursorClick i x y True) st
       else if name = ''cursorMove'' then ask env (cursorMove i x y False) st
       else if name = ''cursorDragging'' then ask env (cursorMove i x y True) st
       else Inr (st, []))" for i x y
    using ok by (intro answered_if answered_ops) simp_all
  then show "answered e (call_id env) 1 (cursorAction env name values st)"
    unfolding cursorAction_def
    by (intro answered_with answered_if answered_done answered_answer ok) (simp_all del: not_None_eq)
  from ok obtain a called released where "scalar_answer (SBool (native_keys env)) (values_heap st) = Some (a, called, released)"
      "client_ok (released, e)" "\<exists>d. deref called a = Some d \<and> wv_data d = WBool (native_keys env)"
    using scalar_answer_ok unfolding plugin_ok_def by blast
  then show "answered e (call_id env) 1 (call_hasNativeKeySupport env values st)"
    unfolding call_hasNativeKeySupport_def by (intro answered_value [OF ok]) simp_all
qed

lemma answered_text_calls:
  assumes ok: "plugin_ok e st" and v: "given e values"
  shows "text_item st values 1 \<noteq> Some None \<Longrightarrow> answered e (call_id env) 1 (call_loadUrl env values st)"
    and "text_item st values 1 \<noteq> Some None \<Longrightarrow> answered e (call_id env) 1 (call_imeSetComposition env values st)"
    and "text_item st values 1 \<noteq> Some None \<Longrightarrow> answered e (call_id env) 1 (call_imeCommitText env values st)"
    and "text_item st values 1 \<noteq> Some None \<Longrightarrow> answered e (call_id env) 1 (call_executeJavaScript env values st)"
    and "text_item st values 0 \<noteq> Some None \<Longrightarrow> text_item st values 1 \<noteq> Some None
           \<Longrightarrow> answered e (call_id env) 1 (call_deleteCookie env values st)"
    and "text_item st values 0 \<noteq> Some None \<Longrightarrow> text_item st values 1 \<noteq> Some None \<Longrightarrow> text_item st values 2 \<noteq> Some None
           \<Longrightarrow> answered e (call_id env) 1 (call_setCookie env values st)"
proof -
  note defined [simp] = items_defined [OF ok v]
  note reads = defined [unfolded not_None_eq]
  note ops = answered_with answered_text answered_done answered_ops answered_did
  show "text_item st values 1 \<noteq> Some None \<Longrightarrow> answered e (call_id env) 1 (call_loadUrl env values st)"
    unfolding call_loadUrl_def by (intro answered_with) (auto intro!: ops reads simp: ok simp del: One_nat_def split: option.split)
  show "text_item st values 1 \<noteq> Some None \<Longrightarrow> answered e (call_id env) 1 (call_imeSetComposition env values st)"
    and "text_item st values 1 \<noteq> Some None \<Longrightarrow> answered e (call_id env) 1 (call_imeCommitText env values st)"
    unfolding call_imeSetComposition_def call_imeCommitText_def Let_def
    by (auto intro!: ops reads simp: ok simp del: One_nat_def)
  show "text_item st values 1 \<noteq> Some None \<Longrightarrow> answered e (call_id env) 1 (call_executeJavaScript env values st)"
    unfolding call_executeJavaScript_def run_script_def by (intro answered_done) (auto intro!: ops reads simp: ok simp del: One_nat_def)
  show "text_item st values 0 \<noteq> Some None \<Longrightarrow> text_item st values 1 \<noteq> Some None
           \<Longrightarrow> answered e (call_id env) 1 (call_deleteCookie env values st)"
    and "text_item st values 0 \<noteq> Some None \<Longrightarrow> text_item st values 1 \<noteq> Some None \<Longrightarrow> text_item st values 2 \<noteq> Some None
           \<Longrightarrow> answered e (call_id env) 1 (call_setCookie env values st)"
    unfolding call_deleteCookie_def call_setCookie_def by (auto intro!: ops reads simp: ok simp del: One_nat_def)
qed


lemma answered_init:
  assumes ok: "plugin_ok e st" and v: "given e values"
  shows "answered e (call_id env) 1 (call_init env values st)"
proof -
  have "answered e (call_id env) 0 (startCEF env (st\<lparr>userAgent := u\<rparr>))" for u
    using ok by (simp add: startCEF_def answered_def plugin_ok_def)
  moreover from this [of "userAgent st"] have "answered e (call_id env) 0 (startCEF env st)" by simp
  moreover have "webview_value_get_string (values_heap st) values \<noteq> None"
    using own_defined [OF ok v] by (simp add: webview_value_get_string_def)
  ultimately have "answered e (call_id env) 0
      (if isCefInitialized st then Inr (st, [])
       else if values = None then startCEF env st
       else with_arg (webview_value_get_string (values_heap st) values)
              (\<lambda>agent. startCEF env (st\<lparr>userAgent := cef_text env agent\<rparr>)))"
    using ok by (auto intro!: answered_with)
  moreover have "plugin_ok e (initCallback st)" if "plugin_ok e st" for st
    using that by (simp add: initCallback_def plugin_ok_def set_callbacks_def handler_ok_def callbacks_set_def
        all_callbacks_def)
  then have "answered e (call_id env) 1 (answer env 1 (initCallback st))" if "plugin_ok e st" for st
    using that answered_answer by blast
  ultimately have "answered e (call_id env) (0 + 1) (call_init env values st)"
    unfolding call_init_def by (rule answered_then)
  then show ?thesis by simp
qed

lemma calls_by_name:
  shows "HandleMethodCall env ''init'' = call_init env"
    and "HandleMethodCall env ''quit'' = call_quit env"
    and "HandleMethodCall env ''close'' = call_close env"
    and "HandleMethodCall env ''loadUrl'' = call_loadUrl env"
    and "HandleMethodCall env ''setScrollDelta'' = call_setScrollDelta env"
    and "HandleMethodCall env ''goForward'' = call_goForward env"
    and "HandleMethodCall env ''goBack'' = call_goBack env"
    and "HandleMethodCall env ''reload'' = call_reload env"
    and "HandleMethodCall env ''openDevTools'' = call_openDevTools env"
    and "HandleMethodCall env ''imeSetComposition'' = call_imeSetComposition env"
    and "HandleMethodCall env ''imeCommitText'' = call_imeCommitText env"
    and "HandleMethodCall env ''setClientFocus'' = call_setClientFocus env"
    and "HandleMethodCall env ''setCookie'' = call_setCookie env"
    and "HandleMethodCall env ''deleteCookie'' = call_deleteCookie env"
    and "HandleMethodCall env ''hasNativeKeySupport'' = call_hasNativeKeySupport env"
    and "HandleMethodCall env ''executeJavaScript'' = call_executeJavaScript env"
    and "HandleMethodCall env ''cursorClickDown'' = cursorAction env ''cursorClickDown''"
    and "HandleMethodCall env ''cursorClickUp'' = cursorAction env ''cursorClickUp''"
    and "HandleMethodCall env ''cursorMove'' = cursorAction env ''cursorMove''"
    and "HandleMethodCall env ''cursorDragging'' = cursorAction env ''cursorDragging''"
  by (simp_all add: fun_eq_iff HandleMethodCall_def plugin_calls_def)

lemma plain_call_answered:
  assumes ok: "plugin_ok e st" and v: "given e values" and name: "(name, ns) \<in> set ((''init'', []) # plain_calls)"
    and texts: "\<forall>n\<in>set ns. text_item st values n \<noteq> Some None"
  shows "answered e (call_id env) 1 (HandleMethodCall env name values st)"
proof -
  have "list_all (\<lambda>(name, ns). (\<forall>n\<in>set ns. text_item st values n \<noteq> Some None) \<longrightarrow>
          answered e (call_id env) 1 (HandleMethodCall env name values st)) ((''init'', []) # plain_calls)"
    unfolding plain_calls_def
    by (simp add: calls_by_name answered_calls [OF ok v, of env] answered_init [OF ok v, of env]
        answered_text_calls [OF ok v] del: One_nat_def)
  with name texts show ?thesis by (fastforce simp: list_all_iff simp del: One_nat_def)
qed


definition sample_host :: PluginHost where
  "sample_host =
     \<lparr>host_build = \<lparr>gpu_texture = False, apple = False\<rparr>, native_keys = True, on_ui_thread_now = True,
      created_browser = None, created_texture = 3, has_cookie_manager = True, has_main_frame = True,
      main_frame_identifier = ''7'', clock_ns = 1, utf16_length = length,
      cef_text = (\<lambda>t. case t of None \<Rightarrow> [] | Some s \<Rightarrow> s), cef_cache_paths = \<lparr>cp_root = [], cp_cache = []\<rparr>,
      mac_paths = ([], [], []), script_value = (\<lambda>_. None), call_id = 4\<rparr>"

text \<open>A plugin with browser 7, its renderer, and one value, the number 7, that the caller holds.\<close>

definition sample_heap :: WHeap where
  "sample_heap = \<lparr>wh_cells = [Some \<lparr>wv_refs = 1, wv_data = WInt 7\<rparr>], wh_grants = (\<lambda>_. True), wh_asked = 0\<rparr>"

definition sample_plugin :: WebviewPlugin where
  "sample_plugin =
     (WebviewPlugin_init True [] sample_heap)\<lparr>m_handler := ready_handler, m_init := True, m_invokeFunc := True,
        m_renderers := [(7, Some (WebviewTexture_init 3))]\<rparr>"

lemma sample_plugin_ok: "plugin_ok (holding (\<lambda>_. 0) [0]) sample_plugin"
proof -
  from client_new [OF empty_client_ok [of "\<lambda>_. True", unfolded empty_client_def], of "WInt 7"]
  have "client_ok (sample_heap, holding (\<lambda>_. 0) [0])"
    by (simp add: gain_def webview_value_new_def sample_heap_def)
  then show ?thesis using ready_handler_ok by (simp add: plugin_ok_def sample_plugin_def WebviewPlugin_init_def)
qed


section \<open>What a closed browser leaves behind\<close>

lemma ask_defined:
  assumes "host_only (f (m_handler st))" and "defined_ok (f (m_handler st))"
  obtains h es where "ask env f st = Inr (st\<lparr>m_handler := h\<rparr>, es)" and "handler_ok h"
  using assms by (auto simp: ask_host defined_ok_def split: sum.splits)

lemma request_defined:
  assumes "handler_ok (m_handler st)" and "expected (m_handler st) (Request i r)"
  obtains h es where "ask env (\<lambda>h. handle_request build i h r) st = Inr (st\<lparr>m_handler := h\<rparr>, es)" and "handler_ok h"
  using ask_defined [of "\<lambda>h. handle_request build i h r" st env, OF host_only_request handle_request_ok [OF assms]]
  by blast

lemma key_defined:
  assumes "handler_ok (m_handler st)"
  obtains h es where "ask env (sendKeyEvent ev) st = Inr (st\<lparr>m_handler := h\<rparr>, es)" and "handler_ok h"
  using ask_defined [of "sendKeyEvent ev" st, OF host_only_key event_ops_ok(12) [OF assms]] by blast

lemma open_focused_null:
  "handler_ok (m_handler st) \<Longrightarrow> (i, None) \<in> set rs \<Longrightarrow> open_focused env rs st = Inl NullRenderer"
proof (induction rs arbitrary: st)
  case (Cons p rs)
  obtain j r where p: "p = (j, r)" by fastforce
  obtain h es where d: "ask env (openDevTools j) st = Inr (st\<lparr>m_handler := h\<rparr>, es)" "handler_ok h"
    using request_defined [OF Cons.prems(1), of j EvDevTools env] by auto
  show ?case
  proof (cases r)
    case (Some t)
    with Cons.IH [of st] Cons.IH [of "st\<lparr>m_handler := h\<rparr>"] Cons.prems d p show ?thesis
      by (auto simp: then_do_def)
  qed (simp add: p)
qed simp

text \<open>After a browser has been closed, Control and F12 crash the program. \<open>close\<close> resets the pointer
  of the renderer and leaves its entry in the table; the developer key looks at the focus flag of
  every entry without the check for null that every other loop over the table makes, whether any
  browser has the focus or not.\<close>

theorem developer_key_after_close:
  assumes ok: "handler_ok (m_handler st)" and i: "own_int st values = Some i" and r: "find_renderer i st \<noteq> None"
    and ev: "developer_key ev"
  shows "\<exists>st' es. HandleMethodCall env ''close'' values st = Inr (st', es)
           \<and> Plugin_sendKeyEvent env ev st' = Inl NullRenderer"
proof -
  obtain h1 es1 where c: "ask env (closeBrowser i) st = Inr (st\<lparr>m_handler := h1\<rparr>, es1)" "handler_ok h1"
    using request_defined [OF ok, of i EvCloseBrowser env] by auto
  let ?st = "put_renderer i None (st\<lparr>m_handler := h1\<rparr>)"
  from c i r have call: "\<exists>es. HandleMethodCall env ''close'' values st = Inr (?st, es)"
    by (auto simp: calls_by_name call_close_def with_arg_def then_do_def answer_def find_renderer_def)
  from c have "handler_ok (m_handler ?st)" by (simp add: put_renderer_def)
  then obtain h2 es2 where k: "ask env (sendKeyEvent ev) ?st = Inr (?st\<lparr>m_handler := h2\<rparr>, es2)" "handler_ok h2"
    by (rule key_defined)
  have "(i, None) \<in> set (m_renderers ?st)"
    by (simp add: put_renderer_def map_of_SomeD update_conv')
  with k open_focused_null [of "?st\<lparr>m_handler := h2\<rparr>" i "m_renderers ?st" env] ev
  have "Plugin_sendKeyEvent env ev ?st = Inl NullRenderer"
    by (simp add: Plugin_sendKeyEvent_def then_do_def)
  with call show ?thesis by blast
qed

theorem developer_key_after_close_witness:
  "\<exists>st' es. HandleMethodCall sample_host ''close'' (Some 0) sample_plugin = Inr (st', es)
     \<and> Plugin_sendKeyEvent sample_host
         \<lparr>key_type = 0, windows_key_code = 123, modifiers = 4, key_character = 0, unmodified_character = 0,
            native_key_code = 0, is_system_key = False\<rparr> st'
       = Inl NullRenderer"
proof (rule developer_key_after_close [where i = 7])
  show "handler_ok (m_handler sample_plugin)" by (simp add: sample_plugin_def ready_handler_ok)
  show "own_int sample_plugin (Some 0) = Some 7" by code_simp
  show "find_renderer 7 sample_plugin \<noteq> None" by code_simp
  show "developer_key \<lparr>key_type = 0, windows_key_code = 123, modifiers = 4, key_character = 0, unmodified_character = 0,
            native_key_code = 0, is_system_key = False\<rparr>"
    by (simp add: developer_key_def)
qed

section \<open>The end of a plugin\<close>

text \<open>The callbacks are not all taken back. A plugin that goes takes ten of its twelve functions out of
  the handler, which CEF keeps alive: the start and the end of a load still call into the plugin that
  is gone, a title is passed over as it should be, and a change of the focused node calls an empty
  function, which throws.\<close>

theorem load_callbacks_outlive_plugin:
  assumes "\<not> m_init st"
  shows "let h = m_handler (uninitCallback (initCallback st))
         in OnLoadStart c url h = Inr (h, [Callback onLoadStart (cb_identifier c) [url] []])
            \<and> OnLoadEnd c url h = Inr (h, [Callback onLoadEnd (cb_identifier c) [url] []])
            \<and> OnTitleChange c url h = Inr (h, [])
            \<and> OnFocusedNodeChanged c editable x y he h = Inl BadFunctionCall"
  using assms
  by (simp add: Let_def initCallback_def uninitCallback_def set_callbacks_def all_callbacks_def OnLoadStart_def
      OnLoadEnd_def OnTitleChange_def OnFocusedNodeChanged_def call_back_if_set_def call_back_def after_def)

theorem load_callbacks_outlive_plugin_witness:
  "let h = m_handler (uninitCallback (initCallback (WebviewPlugin_init True [] sample_heap)));
       c = \<lparr>cb_object = 1, cb_identifier = 7, cb_is_popup = False\<rparr>
   in OnLoadStart c ''u'' h = Inr (h, [Callback onLoadStart 7 [''u''] []])
      \<and> OnFocusedNodeChanged c True 1 2 3 h = Inl BadFunctionCall"
  using load_callbacks_outlive_plugin [of "WebviewPlugin_init True [] sample_heap"
      "\<lparr>cb_object = 1, cb_identifier = 7, cb_is_popup = False\<rparr>" "''u''" True 1 2 3]
  by (simp add: Let_def WebviewPlugin_init_def)

section \<open>Calls nobody answers\<close>

text \<open>Some calls are never answered, and change nothing: a call of a name the plugin does not know, for
  which the code clears its own copy of the result function; \<open>loadUrl\<close> without an address; and
  \<open>evaluateJavascript\<close> for a browser the handler does not have, whose callback is dropped.\<close>

theorem calls_left_unanswered:
  assumes "name \<notin> fst ` set plugin_calls
     \<or> name = ''loadUrl'' \<and> int_item st values 0 = Some i \<and> text_item st values 1 = Some None
     \<or> name = ''evaluateJavascript'' \<and> int_item st values 0 = Some i \<and> text_item st values 1 = Some (Some code)
         \<and> find_browser i (m_handler st) = None"
  shows "HandleMethodCall env name values st = Inr (st, [])"
proof -
  have "map_of plugin_calls ''evaluateJavascript'' = Some call_evaluateJavascript" by (simp add: plugin_calls_def)
  then have script: "HandleMethodCall env ''evaluateJavascript'' values st = call_evaluateJavascript env values st"
    by (simp add: HandleMethodCall_def)
  from assms consider "map_of plugin_calls name = None"
    | "name = ''loadUrl''" "int_item st values 0 = Some i" "text_item st values 1 = Some None"
    | "name = ''evaluateJavascript''" "int_item st values 0 = Some i" "text_item st values 1 = Some (Some code)"
        "find_browser i (m_handler st) = None"
    by (auto simp: map_of_eq_None_iff)
  then show ?thesis
  proof cases
    case 1
    then show ?thesis by (simp add: HandleMethodCall_def)
  next
    case 2
    then show ?thesis by (simp add: calls_by_name call_loadUrl_def with_arg_def)
  next
    case 3
    then show ?thesis
      by (simp add: script call_evaluateJavascript_def run_script_def with_arg_def with_text_def ask_def
          executeJavaScript_def)
  qed
qed

theorem calls_left_unanswered_witness:
  "HandleMethodCall sample_host ''getPlatformVersion'' None sample_plugin = Inr (sample_plugin, [])"
  by (rule calls_left_unanswered) (simp add: plugin_calls_def)

section \<open>The keyboard\<close>

lemma find_focused_update:
  assumes "map_of rs j = Some (Some r)" and "isFocused r' = isFocused r"
  shows "map_option fst (find (\<lambda>(i, r). case r of None \<Rightarrow> False | Some r \<Rightarrow> isFocused r) (AList.update j (Some r') rs))
       = map_option fst (find (\<lambda>(i, r). case r of None \<Rightarrow> False | Some r \<Rightarrow> isFocused r) rs)"
  using assms by (induction rs) (auto split: if_splits option.splits)

lemma focused_fst:
  "focusedBrowserId st = (case map_option fst (find (\<lambda>(i, r). case r of None \<Rightarrow> False | Some r \<Rightarrow> isFocused r)
     (m_renderers st)) of None \<Rightarrow> - 1 | Some i \<Rightarrow> i)"
  by (auto simp: focusedBrowserId_def split: option.split)

lemma find_renderer_put [simp]:
  "find_renderer i (put_renderer j r st) = (if i = j then r else find_renderer i st)"
  by (simp add: find_renderer_def put_renderer_def update_conv')

lemma focused_composing [simp]: "focusedBrowserId (setComposingForBrowser j b st) = focusedBrowserId st"
proof (cases "find_renderer j st")
  case (Some r)
  then have "map_of (m_renderers st) j = Some (Some r)" by (auto simp: find_renderer_def split: bind_splits)
  from find_focused_update [OF this, of "r\<lparr>composing := b\<rparr>"] Some show ?thesis
    by (simp add: setComposingForBrowser_def change_renderer_def put_renderer_def focused_fst)
qed (simp add: setComposingForBrowser_def change_renderer_def)

text \<open>A composition is one browser's business. Setting the flag of one browser changes which keys go to
  the input method exactly when that browser has the focus and a renderer; a composition in any other
  browser never takes the keyboard from the focused one.\<close>

theorem composing_is_per_browser:
  "isComposing (setComposingForBrowser j b st)
     = (if j = focusedBrowserId st \<and> 0 \<le> j \<and> find_renderer j st \<noteq> None then b else isComposing st)"
  by (auto simp: isComposing_def Let_def) (auto simp: setComposingForBrowser_def change_renderer_def split: option.splits if_splits)

section \<open>Pixels\<close>

lemma colour_masks:
  "(0x00ff0000 :: u32) = push_bit 16 (mask 8)" "(0x000000ff :: u32) = mask 8"
  "(0xff00ff00 :: u32) = or (push_bit 24 (mask 8)) (push_bit 8 (mask 8))"
  by (simp_all add: mask_eq_exp_minus_1 push_bit_eq_mult)

lemma bit_swap_pixel:
  "bit (swap_pixel p) n \<longleftrightarrow> n < 32 \<and> bit p (if n < 8 then 16 + n else if 16 \<le> n \<and> n < 24 then n - 16 else n)"
  unfolding swap_pixel_def colour_masks by (auto simp: bit_simps)

lemma swap_pixel_twice: "swap_pixel (swap_pixel p) = p"
  by (rule bit_word_eqI) (auto simp: bit_swap_pixel)

text \<open>Changing the order of the colours twice gives back the picture. Converting a buffer from BGRA to
  RGBA and the result again, in place, restores every pixel of the picture, and pixels beyond it are
  never touched.\<close>

theorem swap_twice:
  assumes "SwapBufferFromBgraToRgba dest src w he = Some out"
  shows "SwapBufferFromBgraToRgba out out w he = Some (take (nat (w * he)) src @ drop (nat (w * he)) dest)"
  using assms by (auto simp: SwapBufferFromBgraToRgba_def Let_def map_idI comp_def swap_pixel_twice split: if_splits)

theorem swap_twice_witness:
  "SwapBufferFromBgraToRgba [0xFF443322, 0xFF000001, 9] [0xFF443322, 0xFF000001, 9] 2 1
     = Some (take (nat (2 * 1)) [0xFF223344, 0xFF010000] @ drop (nat (2 * 1)) [0, 0, 9])"
  by (rule swap_twice) code_simp

section \<open>The start of CEF\<close>

text \<open>What can happen to a plugin.\<close>

datatype PluginEvent =
    ApplicationCall PluginHost string WPtr
  | CefEvent PluginHost HandlerEvent
  | CookiesVisited PluginHost "(string \<times> (string \<times> string) list) list"
  | NativeKey PluginHost CefKeyEvent
  | NativeComposition PluginHost string nat int
  | NativeCommit PluginHost string
  | NativeFinish PluginHost
  | BeginFrame PluginHost
  | InvokeFuncSet

primrec plugin_step :: "PluginEvent \<Rightarrow> WebviewPlugin \<Rightarrow> PluginResult" where
  "plugin_step (ApplicationCall env name values) st = HandleMethodCall env name values st"
| "plugin_step (CefEvent env ev) st = ask env (\<lambda>h. handle (host_build env) h ev) st"
| "plugin_step (CookiesVisited env cookies) st = cookies_visited env cookies st"
| "plugin_step (NativeKey env ev) st = Plugin_sendKeyEvent env ev st"
| "plugin_step (NativeComposition env t len cursor) st = Plugin_imeSetCompositionNative env t len cursor st"
| "plugin_step (NativeCommit env t) st = Plugin_imeCommitTextNative env t st"
| "plugin_step (NativeFinish env) st = Plugin_imeFinishCompositionNative env st"
| "plugin_step (BeginFrame env) st = tickBeginFrame env st"
| "plugin_step InvokeFuncSet st = Inr (setInvokeMethodFunc st, [])"

fun plugin_run :: "PluginEvent list \<Rightarrow> WebviewPlugin \<Rightarrow> PluginResult" where
  "plugin_run [] st = Inr (st, [])"
| "plugin_run (ev # evs) st = then_do (plugin_step ev st) (plugin_run evs)"

fun starts :: "PluginEffect list \<Rightarrow> nat" where
  "starts [] = 0"
| "starts (e # es) = (case e of CefInitialize _ \<Rightarrow> 1 | _ \<Rightarrow> 0) + starts es"

lemma starts_append [simp]: "starts (xs @ ys) = starts xs + starts ys"
  by (induction xs) auto

lemma starts_did [simp]: "starts (map HandlerDid es) = 0"
  by (induction es) auto

text \<open>A step that keeps the account: the starts it makes are those the variable of the process gains.\<close>

definition accounted :: "WebviewPlugin \<Rightarrow> PluginResult \<Rightarrow> bool" where
  "accounted st r \<longleftrightarrow>
     (case r of Inl e \<Rightarrow> True
      | Inr (st', es) \<Rightarrow> starts es + of_bool (isCefInitialized st) = of_bool (isCefInitialized st'))"

named_theorems account

lemma accounted_simps [account, simp]:
  "accounted st (Inl e)"
  "accounted st (Inr (st', [])) \<longleftrightarrow> isCefInitialized st' = isCefInitialized st"
  by (auto simp: accounted_def)

lemma accounted_then [account]:
  "accounted st r \<Longrightarrow> (\<And>st'. accounted st' (f st')) \<Longrightarrow> accounted st (then_do r f)"
  by (fastforce simp: accounted_def then_do_def split: sum.splits)

lemma accounted_with [account]:
  "(\<And>x. accounted st (f x)) \<Longrightarrow> accounted st (with_arg v f)" "(\<And>s. accounted st (g s)) \<Longrightarrow> accounted st (with_text t g)"
  by (simp_all add: with_arg_def with_text_def split: option.split)

lemma accounted_if [account]:
  "(c \<Longrightarrow> accounted st r) \<Longrightarrow> (\<not> c \<Longrightarrow> accounted st s) \<Longrightarrow> accounted st (if c then r else s)"
  by simp

lemma accounted_answer [account]:
  "isCefInitialized st' = isCefInitialized st \<Longrightarrow> accounted st (answer env code st')"
  "isCefInitialized st' = isCefInitialized st \<Longrightarrow> accounted st (answer_value call v st')"
  "accounted st (did es st)"
  by (auto simp: accounted_def answer_def answer_value_def did_def split: option.split)

lemma renderers_keep [simp]:
  "isCefInitialized (put_renderer i r st) = isCefInitialized st"
  "isCefInitialized (change_renderer i f st) = isCefInitialized st"
  "isCefInitialized (setComposingForBrowser i b st) = isCefInitialized st"
  "isCefInitialized (initCallback st) = isCefInitialized st"
  by (simp_all add: put_renderer_def change_renderer_def setComposingForBrowser_def initCallback_def split: option.split)

lemma accounted_effect: "isCefInitialized st' = isCefInitialized st \<Longrightarrow> starts es = 0 \<Longrightarrow> accounted st (Inr (st', es))"
  by (simp add: accounted_def)

lemma accounted_tell: "isCefInitialized st' = isCefInitialized st \<Longrightarrow> accounted st (tell name event st')"
  by (auto simp: accounted_def tell_def split: option.split)

lemma accounted_callback: "accounted st (call_callback c i ss ns st)"
  by (cases c) (auto simp: accounted_tell Let_def accounted_effect split: option.split)

lemma accounted_perform: "accounted st (perform env ev st)"
  by (cases ev) (auto simp: accounted_callback accounted_answer browser_created_def accounted_effect)

lemma accounted_perform_all: "accounted st (perform_all env evs st)"
  by (induction evs arbitrary: st) (simp_all add: accounted_then accounted_perform)

lemma accounted_same: "accounted st r \<Longrightarrow> isCefInitialized st = isCefInitialized st' \<Longrightarrow> accounted st' r"
  by (simp only: accounted_def)

lemma accounted_ask [account]: "isCefInitialized st' = isCefInitialized st \<Longrightarrow> accounted st (ask env f st')"
  by (auto simp: ask_def intro: accounted_same [OF accounted_perform_all] split: sum.split)

lemma accounted_open [account]: "accounted st (open_focused env rs st)"
  by (induction rs arbitrary: st) (auto intro!: account split: option.split)

lemma accounted_key [account]: "accounted st (Plugin_sendKeyEvent env ev st)"
  unfolding Plugin_sendKeyEvent_def by (intro account) simp_all


lemma accounted_start: "\<not> isCefInitialized st \<Longrightarrow> accounted st (startCEF env (st\<lparr>userAgent := u\<rparr>))"
  by (simp add: startCEF_def accounted_def)

lemma accounted_init: "accounted st (call_init env values st)"
  using accounted_start [of st env "userAgent st"] unfolding call_init_def
  by (intro account) (simp_all add: accounted_start)

lemma accounted_named: "(name, f) \<in> set plugin_calls \<Longrightarrow> accounted st (f env values st)"
proof -
  have "list_all (\<lambda>(name, f). accounted st (f env values st)) plugin_calls"
    unfolding plugin_calls_def
    by (simp add: accounted_init)
      (intro conjI; unfold call_quit_def call_create_def call_close_def call_loadUrl_def call_setSize_def
        cursorAction_def call_setScrollDelta_def call_goForward_def call_goBack_def call_reload_def
        call_openDevTools_def call_browser_def call_imeSetComposition_def call_imeCommitText_def
        call_setClientFocus_def call_setCookie_def call_deleteCookie_def call_visitAllCookies_def
        call_visitUrlCookies_def call_setJavaScriptChannels_def call_sendJavaScriptChannelCallBack_def
        call_sendKeyEvent_def call_hasNativeKeySupport_def call_executeJavaScript_def
        call_evaluateJavascript_def run_script_def stopCEF_def Let_def;
       auto intro!: account simp: accounted_effect split: option.split if_splits)
  then show "(name, f) \<in> set plugin_calls \<Longrightarrow> accounted st (f env values st)" by (auto simp: list_all_iff)
qed

lemma starts_accounted_step: "accounted st (plugin_step ev st)"
proof (cases ev)
  case (ApplicationCall env name v)
  then show ?thesis
    by (auto simp: HandleMethodCall_def split: option.split dest!: map_of_SomeD intro: accounted_named)
qed (auto simp: cookies_visited_def Plugin_imeSetCompositionNative_def Plugin_imeCommitTextNative_def
    Plugin_imeFinishCompositionNative_def tickBeginFrame_def setInvokeMethodFunc_def intro!: account)

lemma starts_accounted_run: "accounted st (plugin_run evs st)"
  by (induction evs arbitrary: st) (simp_all add: accounted_then starts_accounted_step)

text \<open>C29. A process starts CEF at most once. However often and in whatever order the application calls
  \<open>init\<close> -- after a hot restart of the application it calls it again, while CEF lives on -- and whatever
  else happens in between, the calls of \<open>CefInitialize\<close> are accounted for by the variable of the process:
  one if CEF was not started before and is now, none otherwise.\<close>

theorem cef_starts_once:
  "case plugin_run evs st of
     Inl e \<Rightarrow> True
   | Inr (st', es) \<Rightarrow> starts es + of_bool (isCefInitialized st) = of_bool (isCefInitialized st')"
  using starts_accounted_run [of st evs] by (simp add: accounted_def)

section \<open>Calls that lose their argument\<close>

lemma origin_pointer_dropped:
  assumes "webview_value_get_len (values_heap st) (Some a) = Some 3" and "int_item st (Some a) 0 = Some i"
    and "int_item st (Some a) 1 = Some 0" and "int_item st (Some a) 2 = Some 0"
  shows "cursorAction env name (Some a) st = Inr (st, [ResultOf (call_id env) 0 None])"
  using assms by (simp add: cursorAction_def with_arg_def answer_def)

lemma null_text_not_guarded:
  assumes "int_item st values 0 = Some i" and "text_item st values 1 = Some None"
  shows "HandleMethodCall env ''imeSetComposition'' values st = Inl NullText"
    and "HandleMethodCall env ''imeCommitText'' values st = Inl NullText"
    and "HandleMethodCall env ''executeJavaScript'' values st = Inl NullText"
  using assms
  by (simp_all add: calls_by_name call_imeSetComposition_def call_imeCommitText_def call_executeJavaScript_def
      run_script_def with_arg_def with_text_def then_do_def)

end
