(* ===== verification/Linux_Keys.thy ===== *)
theory Linux_Keys
  imports Plugin_Calls
begin

text \<open>
  The keys of the GTK build (\<open>packages/webview_cef/linux/webview_cef_keyevent.h\<close> and \<open>processKeyEventForCEF\<close> of
  \<open>webview_cef_plugin.cc\<close>): from an event of GDK to the key events of CEF, and on to the plugin of its window.

  The constants of X11 and GDK are not part of the repository: \<open>xk\<close> gives the value of each by its name. The
  bits of a modifier state are those of GDK and CEF.
\<close>

section \<open>Key codes\<close>

text \<open>The enumeration of Windows key codes.\<close>

definition VKEY_BACK :: nat where "VKEY_BACK = 0x8"
definition VKEY_TAB :: nat where "VKEY_TAB = 0x9"
definition VKEY_BACKTAB :: nat where "VKEY_BACKTAB = 0xa"
definition VKEY_CLEAR :: nat where "VKEY_CLEAR = 0xc"
definition VKEY_RETURN :: nat where "VKEY_RETURN = 0xd"
definition VKEY_SHIFT :: nat where "VKEY_SHIFT = 0x10"
definition VKEY_CONTROL :: nat where "VKEY_CONTROL = 0x11"
definition VKEY_MENU :: nat where "VKEY_MENU = 0x12"
definition VKEY_PAUSE :: nat where "VKEY_PAUSE = 0x13"
definition VKEY_CAPITAL :: nat where "VKEY_CAPITAL = 0x14"
definition VKEY_KANA :: nat where "VKEY_KANA = 0x15"
definition VKEY_HANGUL :: nat where "VKEY_HANGUL = 0x15"
definition VKEY_JUNJA :: nat where "VKEY_JUNJA = 0x17"
definition VKEY_FINAL :: nat where "VKEY_FINAL = 0x18"
definition VKEY_HANJA :: nat where "VKEY_HANJA = 0x19"
definition VKEY_KANJI :: nat where "VKEY_KANJI = 0x19"
definition VKEY_ESCAPE :: nat where "VKEY_ESCAPE = 0x1b"
definition VKEY_CONVERT :: nat where "VKEY_CONVERT = 0x1c"
definition VKEY_NONCONVERT :: nat where "VKEY_NONCONVERT = 0x1d"
definition VKEY_ACCEPT :: nat where "VKEY_ACCEPT = 0x1e"
definition VKEY_MODECHANGE :: nat where "VKEY_MODECHANGE = 0x1f"
definition VKEY_SPACE :: nat where "VKEY_SPACE = 0x20"
definition VKEY_PRIOR :: nat where "VKEY_PRIOR = 0x21"
definition VKEY_NEXT :: nat where "VKEY_NEXT = 0x22"
definition VKEY_END :: nat where "VKEY_END = 0x23"
definition VKEY_HOME :: nat where "VKEY_HOME = 0x24"
definition VKEY_LEFT :: nat where "VKEY_LEFT = 0x25"
definition VKEY_UP :: nat where "VKEY_UP = 0x26"
definition VKEY_RIGHT :: nat where "VKEY_RIGHT = 0x27"
definition VKEY_DOWN :: nat where "VKEY_DOWN = 0x28"
definition VKEY_SELECT :: nat where "VKEY_SELECT = 0x29"
definition VKEY_PRINT :: nat where "VKEY_PRINT = 0x2a"
definition VKEY_EXECUTE :: nat where "VKEY_EXECUTE = 0x2b"
definition VKEY_SNAPSHOT :: nat where "VKEY_SNAPSHOT = 0x2c"
definition VKEY_INSERT :: nat where "VKEY_INSERT = 0x2d"
definition VKEY_DELETE :: nat where "VKEY_DELETE = 0x2e"
definition VKEY_HELP :: nat where "VKEY_HELP = 0x2f"
definition VKEY_0 :: nat where "VKEY_0 = 0x30"
definition VKEY_1 :: nat where "VKEY_1 = 0x31"
definition VKEY_2 :: nat where "VKEY_2 = 0x32"
definition VKEY_3 :: nat where "VKEY_3 = 0x33"
definition VKEY_4 :: nat where "VKEY_4 = 0x34"
definition VKEY_5 :: nat where "VKEY_5 = 0x35"
definition VKEY_6 :: nat where "VKEY_6 = 0x36"
definition VKEY_7 :: nat where "VKEY_7 = 0x37"
definition VKEY_8 :: nat where "VKEY_8 = 0x38"
definition VKEY_9 :: nat where "VKEY_9 = 0x39"
definition VKEY_A :: nat where "VKEY_A = 0x41"
definition VKEY_B :: nat where "VKEY_B = 0x42"
definition VKEY_C :: nat where "VKEY_C = 0x43"
definition VKEY_D :: nat where "VKEY_D = 0x44"
definition VKEY_E :: nat where "VKEY_E = 0x45"
definition VKEY_F :: nat where "VKEY_F = 0x46"
definition VKEY_G :: nat where "VKEY_G = 0x47"
definition VKEY_H :: nat where "VKEY_H = 0x48"
definition VKEY_I :: nat where "VKEY_I = 0x49"
definition VKEY_J :: nat where "VKEY_J = 0x4a"
definition VKEY_K :: nat where "VKEY_K = 0x4b"
definition VKEY_L :: nat where "VKEY_L = 0x4c"
definition VKEY_M :: nat where "VKEY_M = 0x4d"
definition VKEY_N :: nat where "VKEY_N = 0x4e"
definition VKEY_O :: nat where "VKEY_O = 0x4f"
definition VKEY_P :: nat where "VKEY_P = 0x50"
definition VKEY_Q :: nat where "VKEY_Q = 0x51"
definition VKEY_R :: nat where "VKEY_R = 0x52"
definition VKEY_S :: nat where "VKEY_S = 0x53"
definition VKEY_T :: nat where "VKEY_T = 0x54"
definition VKEY_U :: nat where "VKEY_U = 0x55"
definition VKEY_V :: nat where "VKEY_V = 0x56"
definition VKEY_W :: nat where "VKEY_W = 0x57"
definition VKEY_X :: nat where "VKEY_X = 0x58"
definition VKEY_Y :: nat where "VKEY_Y = 0x59"
definition VKEY_Z :: nat where "VKEY_Z = 0x5a"
definition VKEY_LWIN :: nat where "VKEY_LWIN = 0x5b"
definition VKEY_COMMAND :: nat where "VKEY_COMMAND = VKEY_LWIN"
definition VKEY_RWIN :: nat where "VKEY_RWIN = 0x5c"
definition VKEY_APPS :: nat where "VKEY_APPS = 0x5d"
definition VKEY_SLEEP :: nat where "VKEY_SLEEP = 0x5f"
definition VKEY_NUMPAD0 :: nat where "VKEY_NUMPAD0 = 0x60"
definition VKEY_NUMPAD1 :: nat where "VKEY_NUMPAD1 = 0x61"
definition VKEY_NUMPAD2 :: nat where "VKEY_NUMPAD2 = 0x62"
definition VKEY_NUMPAD3 :: nat where "VKEY_NUMPAD3 = 0x63"
definition VKEY_NUMPAD4 :: nat where "VKEY_NUMPAD4 = 0x64"
definition VKEY_NUMPAD5 :: nat where "VKEY_NUMPAD5 = 0x65"
definition VKEY_NUMPAD6 :: nat where "VKEY_NUMPAD6 = 0x66"
definition VKEY_NUMPAD7 :: nat where "VKEY_NUMPAD7 = 0x67"
definition VKEY_NUMPAD8 :: nat where "VKEY_NUMPAD8 = 0x68"
definition VKEY_NUMPAD9 :: nat where "VKEY_NUMPAD9 = 0x69"
definition VKEY_MULTIPLY :: nat where "VKEY_MULTIPLY = 0x6a"
definition VKEY_ADD :: nat where "VKEY_ADD = 0x6b"
definition VKEY_SEPARATOR :: nat where "VKEY_SEPARATOR = 0x6c"
definition VKEY_SUBTRACT :: nat where "VKEY_SUBTRACT = 0x6d"
definition VKEY_DECIMAL :: nat where "VKEY_DECIMAL = 0x6e"
definition VKEY_DIVIDE :: nat where "VKEY_DIVIDE = 0x6f"
definition VKEY_F1 :: nat where "VKEY_F1 = 0x70"
definition VKEY_F2 :: nat where "VKEY_F2 = 0x71"
definition VKEY_F3 :: nat where "VKEY_F3 = 0x72"
definition VKEY_F4 :: nat where "VKEY_F4 = 0x73"
definition VKEY_F5 :: nat where "VKEY_F5 = 0x74"
definition VKEY_F6 :: nat where "VKEY_F6 = 0x75"
definition VKEY_F7 :: nat where "VKEY_F7 = 0x76"
definition VKEY_F8 :: nat where "VKEY_F8 = 0x77"
definition VKEY_F9 :: nat where "VKEY_F9 = 0x78"
definition VKEY_F10 :: nat where "VKEY_F10 = 0x79"
definition VKEY_F11 :: nat where "VKEY_F11 = 0x7a"
definition VKEY_F12 :: nat where "VKEY_F12 = 0x7b"
definition VKEY_F13 :: nat where "VKEY_F13 = 0x7c"
definition VKEY_F14 :: nat where "VKEY_F14 = 0x7d"
definition VKEY_F15 :: nat where "VKEY_F15 = 0x7e"
definition VKEY_F16 :: nat where "VKEY_F16 = 0x7f"
definition VKEY_F17 :: nat where "VKEY_F17 = 0x80"
definition VKEY_F18 :: nat where "VKEY_F18 = 0x81"
definition VKEY_F19 :: nat where "VKEY_F19 = 0x82"
definition VKEY_F20 :: nat where "VKEY_F20 = 0x83"
definition VKEY_F21 :: nat where "VKEY_F21 = 0x84"
definition VKEY_F22 :: nat where "VKEY_F22 = 0x85"
definition VKEY_F23 :: nat where "VKEY_F23 = 0x86"
definition VKEY_F24 :: nat where "VKEY_F24 = 0x87"
definition VKEY_NUMLOCK :: nat where "VKEY_NUMLOCK = 0x90"
definition VKEY_SCROLL :: nat where "VKEY_SCROLL = 0x91"
definition VKEY_LSHIFT :: nat where "VKEY_LSHIFT = 0xa0"
definition VKEY_RSHIFT :: nat where "VKEY_RSHIFT = 0xa1"
definition VKEY_LCONTROL :: nat where "VKEY_LCONTROL = 0xa2"
definition VKEY_RCONTROL :: nat where "VKEY_RCONTROL = 0xa3"
definition VKEY_LMENU :: nat where "VKEY_LMENU = 0xa4"
definition VKEY_RMENU :: nat where "VKEY_RMENU = 0xa5"
definition VKEY_BROWSER_BACK :: nat where "VKEY_BROWSER_BACK = 0xa6"
definition VKEY_BROWSER_FORWARD :: nat where "VKEY_BROWSER_FORWARD = 0xa7"
definition VKEY_BROWSER_REFRESH :: nat where "VKEY_BROWSER_REFRESH = 0xa8"
definition VKEY_BROWSER_STOP :: nat where "VKEY_BROWSER_STOP = 0xa9"
definition VKEY_BROWSER_SEARCH :: nat where "VKEY_BROWSER_SEARCH = 0xaa"
definition VKEY_BROWSER_FAVORITES :: nat where "VKEY_BROWSER_FAVORITES = 0xab"
definition VKEY_BROWSER_HOME :: nat where "VKEY_BROWSER_HOME = 0xac"
definition VKEY_VOLUME_MUTE :: nat where "VKEY_VOLUME_MUTE = 0xad"
definition VKEY_VOLUME_DOWN :: nat where "VKEY_VOLUME_DOWN = 0xae"
definition VKEY_VOLUME_UP :: nat where "VKEY_VOLUME_UP = 0xaf"
definition VKEY_MEDIA_NEXT_TRACK :: nat where "VKEY_MEDIA_NEXT_TRACK = 0xb0"
definition VKEY_MEDIA_PREV_TRACK :: nat where "VKEY_MEDIA_PREV_TRACK = 0xb1"
definition VKEY_MEDIA_STOP :: nat where "VKEY_MEDIA_STOP = 0xb2"
definition VKEY_MEDIA_PLAY_PAUSE :: nat where "VKEY_MEDIA_PLAY_PAUSE = 0xb3"
definition VKEY_MEDIA_LAUNCH_MAIL :: nat where "VKEY_MEDIA_LAUNCH_MAIL = 0xb4"
definition VKEY_MEDIA_LAUNCH_MEDIA_SELECT :: nat where "VKEY_MEDIA_LAUNCH_MEDIA_SELECT = 0xb5"
definition VKEY_MEDIA_LAUNCH_APP1 :: nat where "VKEY_MEDIA_LAUNCH_APP1 = 0xb6"
definition VKEY_MEDIA_LAUNCH_APP2 :: nat where "VKEY_MEDIA_LAUNCH_APP2 = 0xb7"
definition VKEY_OEM_1 :: nat where "VKEY_OEM_1 = 0xba"
definition VKEY_OEM_PLUS :: nat where "VKEY_OEM_PLUS = 0xbb"
definition VKEY_OEM_COMMA :: nat where "VKEY_OEM_COMMA = 0xbc"
definition VKEY_OEM_MINUS :: nat where "VKEY_OEM_MINUS = 0xbd"
definition VKEY_OEM_PERIOD :: nat where "VKEY_OEM_PERIOD = 0xbe"
definition VKEY_OEM_2 :: nat where "VKEY_OEM_2 = 0xbf"
definition VKEY_OEM_3 :: nat where "VKEY_OEM_3 = 0xc0"
definition VKEY_OEM_4 :: nat where "VKEY_OEM_4 = 0xdb"
definition VKEY_OEM_5 :: nat where "VKEY_OEM_5 = 0xdc"
definition VKEY_OEM_6 :: nat where "VKEY_OEM_6 = 0xdd"
definition VKEY_OEM_7 :: nat where "VKEY_OEM_7 = 0xde"
definition VKEY_OEM_8 :: nat where "VKEY_OEM_8 = 0xdf"
definition VKEY_OEM_102 :: nat where "VKEY_OEM_102 = 0xe2"
definition VKEY_OEM_103 :: nat where "VKEY_OEM_103 = 0xe3"
definition VKEY_OEM_104 :: nat where "VKEY_OEM_104 = 0xe4"
definition VKEY_PROCESSKEY :: nat where "VKEY_PROCESSKEY = 0xe5"
definition VKEY_PACKET :: nat where "VKEY_PACKET = 0xe7"
definition VKEY_DBE_SBCSCHAR :: nat where "VKEY_DBE_SBCSCHAR = 0xf3"
definition VKEY_DBE_DBCSCHAR :: nat where "VKEY_DBE_DBCSCHAR = 0xf4"
definition VKEY_ATTN :: nat where "VKEY_ATTN = 0xf6"
definition VKEY_CRSEL :: nat where "VKEY_CRSEL = 0xf7"
definition VKEY_EXSEL :: nat where "VKEY_EXSEL = 0xf8"
definition VKEY_EREOF :: nat where "VKEY_EREOF = 0xf9"
definition VKEY_PLAY :: nat where "VKEY_PLAY = 0xfa"
definition VKEY_ZOOM :: nat where "VKEY_ZOOM = 0xfb"
definition VKEY_NONAME :: nat where "VKEY_NONAME = 0xfc"
definition VKEY_PA1 :: nat where "VKEY_PA1 = 0xfd"
definition VKEY_OEM_CLEAR :: nat where "VKEY_OEM_CLEAR = 0xfe"
definition VKEY_UNKNOWN :: nat where "VKEY_UNKNOWN = 0"
definition VKEY_WLAN :: nat where "VKEY_WLAN = 0x97"
definition VKEY_POWER :: nat where "VKEY_POWER = 0x98"
definition VKEY_BRIGHTNESS_DOWN :: nat where "VKEY_BRIGHTNESS_DOWN = 0xd8"
definition VKEY_BRIGHTNESS_UP :: nat where "VKEY_BRIGHTNESS_UP = 0xd9"
definition VKEY_KBD_BRIGHTNESS_DOWN :: nat where "VKEY_KBD_BRIGHTNESS_DOWN = 0xda"
definition VKEY_KBD_BRIGHTNESS_UP :: nat where "VKEY_KBD_BRIGHTNESS_UP = 0xe8"
definition VKEY_ALTGR :: nat where "VKEY_ALTGR = 0xe1"
definition VKEY_COMPOSE :: nat where "VKEY_COMPOSE = 0xe6"

definition KeyboardCode_basic :: "nat list" where
  "KeyboardCode_basic =
    [VKEY_BACK, VKEY_TAB, VKEY_BACKTAB, VKEY_CLEAR, VKEY_RETURN, VKEY_SHIFT, VKEY_CONTROL, VKEY_MENU,
     VKEY_PAUSE, VKEY_CAPITAL, VKEY_KANA, VKEY_HANGUL, VKEY_JUNJA, VKEY_FINAL, VKEY_HANJA, VKEY_KANJI,
     VKEY_ESCAPE, VKEY_CONVERT, VKEY_NONCONVERT, VKEY_ACCEPT, VKEY_MODECHANGE, VKEY_SPACE, VKEY_PRIOR,
     VKEY_NEXT, VKEY_END, VKEY_HOME, VKEY_LEFT, VKEY_UP, VKEY_RIGHT, VKEY_DOWN, VKEY_SELECT, VKEY_PRINT,
     VKEY_EXECUTE, VKEY_SNAPSHOT, VKEY_INSERT, VKEY_DELETE, VKEY_HELP, VKEY_0, VKEY_1, VKEY_2, VKEY_3, VKEY_4,
     VKEY_5, VKEY_6, VKEY_7, VKEY_8, VKEY_9, VKEY_A, VKEY_B, VKEY_C, VKEY_D, VKEY_E, VKEY_F, VKEY_G, VKEY_H,
     VKEY_I, VKEY_J, VKEY_K, VKEY_L, VKEY_M, VKEY_N, VKEY_O, VKEY_P, VKEY_Q, VKEY_R, VKEY_S, VKEY_T, VKEY_U,
     VKEY_V, VKEY_W, VKEY_X, VKEY_Y, VKEY_Z, VKEY_LWIN, VKEY_COMMAND, VKEY_RWIN, VKEY_APPS, VKEY_SLEEP,
     VKEY_NUMPAD0, VKEY_NUMPAD1, VKEY_NUMPAD2, VKEY_NUMPAD3, VKEY_NUMPAD4, VKEY_NUMPAD5, VKEY_NUMPAD6,
     VKEY_NUMPAD7, VKEY_NUMPAD8, VKEY_NUMPAD9, VKEY_MULTIPLY, VKEY_ADD, VKEY_SEPARATOR, VKEY_SUBTRACT,
     VKEY_DECIMAL, VKEY_DIVIDE]"

definition KeyboardCode_extended :: "nat list" where
  "KeyboardCode_extended =
    [VKEY_F1, VKEY_F2, VKEY_F3, VKEY_F4, VKEY_F5, VKEY_F6, VKEY_F7, VKEY_F8, VKEY_F9, VKEY_F10, VKEY_F11,
     VKEY_F12, VKEY_F13, VKEY_F14, VKEY_F15, VKEY_F16, VKEY_F17, VKEY_F18, VKEY_F19, VKEY_F20, VKEY_F21,
     VKEY_F22, VKEY_F23, VKEY_F24, VKEY_NUMLOCK, VKEY_SCROLL, VKEY_LSHIFT, VKEY_RSHIFT, VKEY_LCONTROL,
     VKEY_RCONTROL, VKEY_LMENU, VKEY_RMENU, VKEY_BROWSER_BACK, VKEY_BROWSER_FORWARD, VKEY_BROWSER_REFRESH,
     VKEY_BROWSER_STOP, VKEY_BROWSER_SEARCH, VKEY_BROWSER_FAVORITES, VKEY_BROWSER_HOME, VKEY_VOLUME_MUTE,
     VKEY_VOLUME_DOWN, VKEY_VOLUME_UP, VKEY_MEDIA_NEXT_TRACK, VKEY_MEDIA_PREV_TRACK, VKEY_MEDIA_STOP,
     VKEY_MEDIA_PLAY_PAUSE, VKEY_MEDIA_LAUNCH_MAIL, VKEY_MEDIA_LAUNCH_MEDIA_SELECT, VKEY_MEDIA_LAUNCH_APP1,
     VKEY_MEDIA_LAUNCH_APP2, VKEY_OEM_1, VKEY_OEM_PLUS, VKEY_OEM_COMMA, VKEY_OEM_MINUS, VKEY_OEM_PERIOD,
     VKEY_OEM_2, VKEY_OEM_3, VKEY_OEM_4, VKEY_OEM_5, VKEY_OEM_6, VKEY_OEM_7, VKEY_OEM_8, VKEY_OEM_102,
     VKEY_OEM_103, VKEY_OEM_104, VKEY_PROCESSKEY, VKEY_PACKET, VKEY_DBE_SBCSCHAR, VKEY_DBE_DBCSCHAR, VKEY_ATTN,
     VKEY_CRSEL, VKEY_EXSEL, VKEY_EREOF, VKEY_PLAY, VKEY_ZOOM, VKEY_NONAME, VKEY_PA1, VKEY_OEM_CLEAR,
     VKEY_UNKNOWN, VKEY_WLAN, VKEY_POWER, VKEY_BRIGHTNESS_DOWN, VKEY_BRIGHTNESS_UP, VKEY_KBD_BRIGHTNESS_DOWN,
     VKEY_KBD_BRIGHTNESS_UP, VKEY_ALTGR, VKEY_COMPOSE]"

definition KeyboardCode :: "nat list" where
  "KeyboardCode = KeyboardCode_basic @ KeyboardCode_extended"

text \<open>
  The switch over key symbols: the labels of a case with what it returns, a code or the code that lies as far
  from a first one as the symbol from a first symbol. Labels of a switch are distinct.
\<close>

datatype KeyResult = Returns nat | Counts nat string

type_synonym KeyCase = "string list \<times> KeyResult"
type_synonym Constants = "string \<Rightarrow> u32"

definition keysym_editing :: "KeyCase list" where
  "keysym_editing =
    [([''XK_BackSpace''], Returns VKEY_BACK),
     ([''XK_Delete'', ''XK_KP_Delete''], Returns VKEY_DELETE),
     ([''XK_Tab'', ''XK_KP_Tab'', ''XK_ISO_Left_Tab'', ''XK_3270_BackTab''], Returns VKEY_TAB),
     ([''XK_Linefeed'', ''XK_Return'', ''XK_KP_Enter'', ''XK_ISO_Enter''], Returns VKEY_RETURN),
     ([''XK_Clear'', ''XK_KP_Begin''], Returns VKEY_CLEAR),
     ([''XK_KP_Space'', ''XK_space''], Returns VKEY_SPACE),
     ([''XK_Home'', ''XK_KP_Home''], Returns VKEY_HOME),
     ([''XK_End'', ''XK_KP_End''], Returns VKEY_END),
     ([''XK_Page_Up'', ''XK_KP_Page_Up''], Returns VKEY_PRIOR),
     ([''XK_Page_Down'', ''XK_KP_Page_Down''], Returns VKEY_NEXT),
     ([''XK_Left'', ''XK_KP_Left''], Returns VKEY_LEFT),
     ([''XK_Right'', ''XK_KP_Right''], Returns VKEY_RIGHT),
     ([''XK_Down'', ''XK_KP_Down''], Returns VKEY_DOWN),
     ([''XK_Up'', ''XK_KP_Up''], Returns VKEY_UP),
     ([''XK_Escape''], Returns VKEY_ESCAPE),
     ([''XK_Kana_Lock'', ''XK_Kana_Shift''], Returns VKEY_KANA),
     ([''XK_Hangul''], Returns VKEY_HANGUL),
     ([''XK_Hangul_Hanja''], Returns VKEY_HANJA),
     ([''XK_Kanji''], Returns VKEY_KANJI),
     ([''XK_Henkan''], Returns VKEY_CONVERT),
     ([''XK_Muhenkan''], Returns VKEY_NONCONVERT),
     ([''XK_Zenkaku_Hankaku''], Returns VKEY_DBE_DBCSCHAR)]"

definition keysym_letters :: "KeyCase list" where
  "keysym_letters =
    [([''XK_A'', ''XK_a''], Returns VKEY_A),
     ([''XK_B'', ''XK_b''], Returns VKEY_B),
     ([''XK_C'', ''XK_c''], Returns VKEY_C),
     ([''XK_D'', ''XK_d''], Returns VKEY_D),
     ([''XK_E'', ''XK_e''], Returns VKEY_E),
     ([''XK_F'', ''XK_f''], Returns VKEY_F),
     ([''XK_G'', ''XK_g''], Returns VKEY_G),
     ([''XK_H'', ''XK_h''], Returns VKEY_H),
     ([''XK_I'', ''XK_i''], Returns VKEY_I),
     ([''XK_J'', ''XK_j''], Returns VKEY_J),
     ([''XK_K'', ''XK_k''], Returns VKEY_K),
     ([''XK_L'', ''XK_l''], Returns VKEY_L),
     ([''XK_M'', ''XK_m''], Returns VKEY_M),
     ([''XK_N'', ''XK_n''], Returns VKEY_N),
     ([''XK_O'', ''XK_o''], Returns VKEY_O),
     ([''XK_P'', ''XK_p''], Returns VKEY_P),
     ([''XK_Q'', ''XK_q''], Returns VKEY_Q),
     ([''XK_R'', ''XK_r''], Returns VKEY_R),
     ([''XK_S'', ''XK_s''], Returns VKEY_S),
     ([''XK_T'', ''XK_t''], Returns VKEY_T),
     ([''XK_U'', ''XK_u''], Returns VKEY_U),
     ([''XK_V'', ''XK_v''], Returns VKEY_V),
     ([''XK_W'', ''XK_w''], Returns VKEY_W),
     ([''XK_X'', ''XK_x''], Returns VKEY_X),
     ([''XK_Y'', ''XK_y''], Returns VKEY_Y),
     ([''XK_Z'', ''XK_z''], Returns VKEY_Z)]"

definition keysym_digits :: "KeyCase list" where
  "keysym_digits =
    [([''XK_0'', ''XK_1'', ''XK_2'', ''XK_3'', ''XK_4'', ''XK_5'', ''XK_6'', ''XK_7'', ''XK_8'', ''XK_9''], Counts VKEY_0 ''XK_0''),
     ([''XK_parenright''], Returns VKEY_0),
     ([''XK_exclam''], Returns VKEY_1),
     ([''XK_at''], Returns VKEY_2),
     ([''XK_numbersign''], Returns VKEY_3),
     ([''XK_dollar''], Returns VKEY_4),
     ([''XK_percent''], Returns VKEY_5),
     ([''XK_asciicircum''], Returns VKEY_6),
     ([''XK_ampersand''], Returns VKEY_7),
     ([''XK_asterisk''], Returns VKEY_8),
     ([''XK_parenleft''], Returns VKEY_9),
     ([''XK_KP_0'', ''XK_KP_1'', ''XK_KP_2'', ''XK_KP_3'', ''XK_KP_4'', ''XK_KP_5'', ''XK_KP_6'', ''XK_KP_7'',
       ''XK_KP_8'', ''XK_KP_9''], Counts VKEY_NUMPAD0 ''XK_KP_0'')]"

definition keysym_punctuation :: "KeyCase list" where
  "keysym_punctuation =
    [([''XK_multiply'', ''XK_KP_Multiply''], Returns VKEY_MULTIPLY),
     ([''XK_KP_Add''], Returns VKEY_ADD),
     ([''XK_KP_Separator''], Returns VKEY_SEPARATOR),
     ([''XK_KP_Subtract''], Returns VKEY_SUBTRACT),
     ([''XK_KP_Decimal''], Returns VKEY_DECIMAL),
     ([''XK_KP_Divide''], Returns VKEY_DIVIDE),
     ([''XK_KP_Equal'', ''XK_equal'', ''XK_plus''], Returns VKEY_OEM_PLUS),
     ([''XK_comma'', ''XK_less''], Returns VKEY_OEM_COMMA),
     ([''XK_minus'', ''XK_underscore''], Returns VKEY_OEM_MINUS),
     ([''XK_greater'', ''XK_period''], Returns VKEY_OEM_PERIOD),
     ([''XK_colon'', ''XK_semicolon''], Returns VKEY_OEM_1),
     ([''XK_question'', ''XK_slash''], Returns VKEY_OEM_2),
     ([''XK_asciitilde'', ''XK_quoteleft''], Returns VKEY_OEM_3),
     ([''XK_bracketleft'', ''XK_braceleft''], Returns VKEY_OEM_4),
     ([''XK_backslash'', ''XK_bar''], Returns VKEY_OEM_5),
     ([''XK_bracketright'', ''XK_braceright''], Returns VKEY_OEM_6),
     ([''XK_quoteright'', ''XK_quotedbl''], Returns VKEY_OEM_7),
     ([''XK_ISO_Level5_Shift''], Returns VKEY_OEM_8)]"

definition keysym_modifiers :: "KeyCase list" where
  "keysym_modifiers =
    [([''XK_Shift_L'', ''XK_Shift_R''], Returns VKEY_SHIFT),
     ([''XK_Control_L'', ''XK_Control_R''], Returns VKEY_CONTROL),
     ([''XK_Meta_L'', ''XK_Meta_R'', ''XK_Alt_L'', ''XK_Alt_R''], Returns VKEY_MENU),
     ([''XK_ISO_Level3_Shift''], Returns VKEY_ALTGR),
     ([''XK_Multi_key''], Returns VKEY_COMPOSE),
     ([''XK_Pause''], Returns VKEY_PAUSE),
     ([''XK_Caps_Lock''], Returns VKEY_CAPITAL),
     ([''XK_Num_Lock''], Returns VKEY_NUMLOCK),
     ([''XK_Scroll_Lock''], Returns VKEY_SCROLL),
     ([''XK_Select''], Returns VKEY_SELECT),
     ([''XK_Print''], Returns VKEY_PRINT),
     ([''XK_Execute''], Returns VKEY_EXECUTE),
     ([''XK_Insert'', ''XK_KP_Insert''], Returns VKEY_INSERT),
     ([''XK_Help''], Returns VKEY_HELP),
     ([''XK_Super_L''], Returns VKEY_LWIN),
     ([''XK_Super_R''], Returns VKEY_RWIN),
     ([''XK_Menu''], Returns VKEY_APPS)]"

definition keysym_function_keys :: "KeyCase list" where
  "keysym_function_keys =
    [([''XK_F1'', ''XK_F2'', ''XK_F3'', ''XK_F4'', ''XK_F5'', ''XK_F6'', ''XK_F7'', ''XK_F8'', ''XK_F9'',
       ''XK_F10'', ''XK_F11'', ''XK_F12'', ''XK_F13'', ''XK_F14'', ''XK_F15'', ''XK_F16'', ''XK_F17'',
       ''XK_F18'', ''XK_F19'', ''XK_F20'', ''XK_F21'', ''XK_F22'', ''XK_F23'', ''XK_F24''], Counts VKEY_F1 ''XK_F1''),
     ([''XK_KP_F1'', ''XK_KP_F2'', ''XK_KP_F3'', ''XK_KP_F4''], Counts VKEY_F1 ''XK_KP_F1''),
     ([''XK_guillemotleft'', ''XK_guillemotright'', ''XK_degree'', ''XK_ugrave'', ''XK_Ugrave'',
       ''XK_brokenbar''], Returns VKEY_OEM_102)]"

definition keysym_multimedia :: "KeyCase list" where
  "keysym_multimedia =
    [([''XF86XK_Tools''], Returns VKEY_F13),
     ([''XF86XK_Launch5''], Returns VKEY_F14),
     ([''XF86XK_Launch6''], Returns VKEY_F15),
     ([''XF86XK_Launch7''], Returns VKEY_F16),
     ([''XF86XK_Launch8''], Returns VKEY_F17),
     ([''XF86XK_Launch9''], Returns VKEY_F18),
     ([''XF86XK_Refresh'', ''XF86XK_History'', ''XF86XK_OpenURL'', ''XF86XK_AddFavorite'', ''XF86XK_Go'',
       ''XF86XK_ZoomIn'', ''XF86XK_ZoomOut''], Returns VKEY_UNKNOWN),
     ([''XF86XK_Back''], Returns VKEY_BROWSER_BACK),
     ([''XF86XK_Forward''], Returns VKEY_BROWSER_FORWARD),
     ([''XF86XK_Reload''], Returns VKEY_BROWSER_REFRESH),
     ([''XF86XK_Stop''], Returns VKEY_BROWSER_STOP),
     ([''XF86XK_Search''], Returns VKEY_BROWSER_SEARCH),
     ([''XF86XK_Favorites''], Returns VKEY_BROWSER_FAVORITES),
     ([''XF86XK_HomePage''], Returns VKEY_BROWSER_HOME),
     ([''XF86XK_AudioMute''], Returns VKEY_VOLUME_MUTE),
     ([''XF86XK_AudioLowerVolume''], Returns VKEY_VOLUME_DOWN),
     ([''XF86XK_AudioRaiseVolume''], Returns VKEY_VOLUME_UP),
     ([''XF86XK_AudioNext''], Returns VKEY_MEDIA_NEXT_TRACK),
     ([''XF86XK_AudioPrev''], Returns VKEY_MEDIA_PREV_TRACK),
     ([''XF86XK_AudioStop''], Returns VKEY_MEDIA_STOP),
     ([''XF86XK_AudioPlay''], Returns VKEY_MEDIA_PLAY_PAUSE),
     ([''XF86XK_Mail''], Returns VKEY_MEDIA_LAUNCH_MAIL),
     ([''XF86XK_LaunchA''], Returns VKEY_MEDIA_LAUNCH_APP1),
     ([''XF86XK_LaunchB'', ''XF86XK_Calculator''], Returns VKEY_MEDIA_LAUNCH_APP2),
     ([''XF86XK_WLAN''], Returns VKEY_WLAN),
     ([''XF86XK_PowerOff''], Returns VKEY_POWER),
     ([''XF86XK_MonBrightnessDown''], Returns VKEY_BRIGHTNESS_DOWN),
     ([''XF86XK_MonBrightnessUp''], Returns VKEY_BRIGHTNESS_UP),
     ([''XF86XK_KbdBrightnessDown''], Returns VKEY_KBD_BRIGHTNESS_DOWN),
     ([''XF86XK_KbdBrightnessUp''], Returns VKEY_KBD_BRIGHTNESS_UP)]"

definition keysym_cases :: "KeyCase list" where
  "keysym_cases = keysym_editing @ keysym_letters @ keysym_digits @ keysym_punctuation @ keysym_modifiers
     @ keysym_function_keys @ keysym_multimedia"

fun key_result :: "Constants \<Rightarrow> u32 \<Rightarrow> KeyResult \<Rightarrow> nat" where
  "key_result xk keysym (Returns code) = code"
| "key_result xk keysym (Counts code first) = code + unat (keysym - xk first)"

fun keysym_switch :: "Constants \<Rightarrow> u32 \<Rightarrow> KeyCase list \<Rightarrow> nat" where
  "keysym_switch xk keysym [] = VKEY_UNKNOWN"
| "keysym_switch xk keysym ((labels, r) # cs) =
     (if keysym \<in> xk ` set labels then key_result xk keysym r else keysym_switch xk keysym cs)"

definition KeyboardCodeFromXKeysym :: "Constants \<Rightarrow> u32 \<Rightarrow> nat" where
  "KeyboardCodeFromXKeysym xk keysym = keysym_switch xk keysym keysym_cases"

section \<open>Events of GDK\<close>

record GdkEventKey =
  ge_press :: bool
  ge_keyval :: u32
  ge_hardware_keycode :: "16 word"
  ge_state :: u32

text \<open>The keys of a US keyboard by their hardware code; \<open>None\<close> is the entry 0.\<close>

definition kHardwareCodeToGDKKeyval :: "string option list" where
  "kHardwareCodeToGDKKeyval =
    [None, None, None, None, None, None, None, None, None, None, Some ''GDK_1'', Some ''GDK_2'',
     Some ''GDK_3'', Some ''GDK_4'', Some ''GDK_5'', Some ''GDK_6'', Some ''GDK_7'', Some ''GDK_8'',
     Some ''GDK_9'', Some ''GDK_0'', Some ''GDK_minus'', Some ''GDK_equal'', None, None, Some ''GDK_q'',
     Some ''GDK_w'', Some ''GDK_e'', Some ''GDK_r'', Some ''GDK_t'', Some ''GDK_y'', Some ''GDK_u'',
     Some ''GDK_i'', Some ''GDK_o'', Some ''GDK_p'', Some ''GDK_bracketleft'', Some ''GDK_bracketright'', None,
     None, Some ''GDK_a'', Some ''GDK_s'', Some ''GDK_d'', Some ''GDK_f'', Some ''GDK_g'', Some ''GDK_h'',
     Some ''GDK_j'', Some ''GDK_k'', Some ''GDK_l'', Some ''GDK_semicolon'', Some ''GDK_apostrophe'',
     Some ''GDK_grave'', None, Some ''GDK_backslash'', Some ''GDK_z'', Some ''GDK_x'', Some ''GDK_c'',
     Some ''GDK_v'', Some ''GDK_b'', Some ''GDK_n'', Some ''GDK_m'', Some ''GDK_comma'', Some ''GDK_period'',
     Some ''GDK_slash'', None, None, None, None, None, None, None, None, None, None, None, None, None, None,
     None, None, None, None, None, None, None, None, None, None, None, None, None, None, None, None, None,
     None, None, None, None, None, None, None, None, None, None, None, None, None, None, None, None, None,
     None, None, None, None, None, Some ''GDK_Super_L'', Some ''GDK_Super_R'']"

definition GdkEventToWindowsKeyCode :: "Constants \<Rightarrow> GdkEventKey \<Rightarrow> nat" where
  "GdkEventToWindowsKeyCode xk event =
     (let code = KeyboardCodeFromXKeysym xk (ge_keyval event);
          hardware = unat (ge_hardware_keycode event);
          keyval = (if hardware < length kHardwareCodeToGDKKeyval
                    then (case kHardwareCodeToGDKKeyval ! hardware of None \<Rightarrow> 0 | Some name \<Rightarrow> xk name) else 0)
      in if code \<noteq> 0 then code
         else if keyval \<noteq> 0 then KeyboardCodeFromXKeysym xk keyval
         else KeyboardCodeFromXKeysym xk (ge_keyval event))"

definition GetWindowsKeyCodeWithoutLocation :: "nat \<Rightarrow> nat" where
  "GetWindowsKeyCodeWithoutLocation code =
     (if code = VKEY_LCONTROL \<or> code = VKEY_RCONTROL then VKEY_CONTROL
      else if code = VKEY_LSHIFT \<or> code = VKEY_RSHIFT then VKEY_SHIFT
      else if code = VKEY_LMENU \<or> code = VKEY_RMENU then VKEY_MENU
      else code)"

text \<open>The masks of GDK (Shift, Lock, Control, Mod1, the buttons) and the flags of CEF they become.\<close>

definition GetCefStateModifiers :: "u32 \<Rightarrow> u32" where
  "GetCefStateModifiers state =
     fold (\<lambda>(mask, flag) m. if and state mask \<noteq> 0 then or m flag else m)
       [(0x1, 0x2), (0x2, 0x1), (0x4, 0x4), (0x8, 0x8), (0x100, 0x10), (0x200, 0x20), (0x400, 0x40)] 0"

definition GetControlCharacter :: "nat \<Rightarrow> bool \<Rightarrow> nat" where
  "GetControlCharacter code shift =
     (if VKEY_A \<le> code \<and> code \<le> VKEY_Z then code - VKEY_A + 1
      else if shift
      then (if code = VKEY_2 then 0
            else if code = VKEY_6 then 0x1E
            else if code = VKEY_OEM_MINUS then 0x1F
            else 0)
      else if code = VKEY_OEM_4 then 0x1B
      else if code = VKEY_OEM_5 then 0x1C
      else if code = VKEY_OEM_6 then 0x1D
      else if code = VKEY_RETURN then 0x0A
      else 0)"

section \<open>Events of CEF\<close>

text \<open>
  The event but for its type, and the commands that are run for a paste. \<open>to_unicode\<close> is GDK's, \<open>copied\<close>
  what the first command answers.
\<close>

definition key_modifiers :: "Constants \<Rightarrow> GdkEventKey \<Rightarrow> u32" where
  "key_modifiers xk event =
     (let m = GetCefStateModifiers (ge_state event)
      in if xk ''GDK_KP_Space'' \<le> ge_keyval event \<and> ge_keyval event \<le> xk ''GDK_KP_9'' then or m 0x200 else m)"

definition pastes :: "Constants \<Rightarrow> GdkEventKey \<Rightarrow> bool" where
  "pastes xk event \<longleftrightarrow>
     GdkEventToWindowsKeyCode xk event = VKEY_V \<and> and (key_modifiers xk event) 0x4 \<noteq> 0 \<and> ge_press event"

definition cef_key_event :: "Constants \<Rightarrow> (u32 \<Rightarrow> u32) \<Rightarrow> GdkEventKey \<Rightarrow> int \<Rightarrow> CefKeyEvent" where
  "cef_key_event xk to_unicode event type =
     (let code = GdkEventToWindowsKeyCode xk event;
          mods = key_modifiers xk event;
          unmodified = (if code = VKEY_RETURN then 0x0D
                        else if pastes xk event then 0
                        else ucast (to_unicode (ge_keyval event)))
      in \<lparr>key_type = type,
          windows_key_code = int (GetWindowsKeyCodeWithoutLocation code),
          modifiers = mods,
          key_character = (if and mods 0x4 \<noteq> 0 then of_nat (GetControlCharacter code (and mods 0x2 \<noteq> 0)) else unmodified),
          unmodified_character = unmodified,
          native_key_code = uint (ge_hardware_keycode event),
          is_system_key = (and mods 0x8 \<noteq> 0)\<rparr>)"

definition paste_commands :: "bool \<Rightarrow> string list" where
  "paste_commands copied =
     ''xclip -o -sel clipboard | xclip -i -sel clipboard  &>/dev/null''
       # (if copied then [''xclip -o -sel clipboard | xclip -i &>/dev/null''] else [])"

text \<open>The plugins by their windows, and what GTK is told: whether the event has been dealt with.\<close>

type_synonym Windows = "int \<Rightarrow> WebviewPlugin option"

definition processKeyEventForCEF ::
    "PluginHost \<Rightarrow> Constants \<Rightarrow> (u32 \<Rightarrow> u32) \<Rightarrow> bool \<Rightarrow> int \<Rightarrow> GdkEventKey \<Rightarrow> Windows
       \<Rightarrow> PluginError + (bool \<times> Windows \<times> string list \<times> PluginEffect list)" where
  "processKeyEventForCEF env xk to_unicode copied widget event windows =
     (case windows widget of
        None \<Rightarrow> Inr (False, windows, [], [])
      | Some st \<Rightarrow>
          if \<not> getAnyBrowserFocused st then Inr (False, windows, [], [])
          else let key_event = cef_key_event xk to_unicode event;
                   commands = (if GdkEventToWindowsKeyCode xk event \<noteq> VKEY_RETURN \<and> pastes xk event
                               then paste_commands copied else [])
               in (case (if ge_press event
                         then then_do (Plugin_sendKeyEvent env (key_event 0) st) (Plugin_sendKeyEvent env (key_event 3))
                         else Plugin_sendKeyEvent env (key_event 2) st) of
                     Inl e \<Rightarrow> Inl e
                   | Inr (st, effects) \<Rightarrow> Inr (True, windows(widget \<mapsto> st), commands, effects)))"

end
