(* ===== verification/Linux_Key_Proofs.thy ===== *)
theory Linux_Key_Proofs
  imports Linux_Keys
begin

text \<open>
  What the keys of the GTK build become: every key has a code of the enumeration, a letter key keeps its code
  on every layout, and a key reaches the focused browser of its window.
\<close>

section \<open>The tables\<close>

lemmas key_code_values =
  VKEY_BACK_def VKEY_TAB_def VKEY_BACKTAB_def VKEY_CLEAR_def VKEY_RETURN_def VKEY_SHIFT_def VKEY_CONTROL_def
  VKEY_MENU_def VKEY_PAUSE_def VKEY_CAPITAL_def VKEY_KANA_def VKEY_HANGUL_def VKEY_JUNJA_def VKEY_FINAL_def
  VKEY_HANJA_def VKEY_KANJI_def VKEY_ESCAPE_def VKEY_CONVERT_def VKEY_NONCONVERT_def VKEY_ACCEPT_def
  VKEY_MODECHANGE_def VKEY_SPACE_def VKEY_PRIOR_def VKEY_NEXT_def VKEY_END_def VKEY_HOME_def VKEY_LEFT_def
  VKEY_UP_def VKEY_RIGHT_def VKEY_DOWN_def VKEY_SELECT_def VKEY_PRINT_def VKEY_EXECUTE_def VKEY_SNAPSHOT_def
  VKEY_INSERT_def VKEY_DELETE_def VKEY_HELP_def VKEY_0_def VKEY_1_def VKEY_2_def VKEY_3_def VKEY_4_def
  VKEY_5_def VKEY_6_def VKEY_7_def VKEY_8_def VKEY_9_def VKEY_A_def VKEY_B_def VKEY_C_def VKEY_D_def VKEY_E_def
  VKEY_F_def VKEY_G_def VKEY_H_def VKEY_I_def VKEY_J_def VKEY_K_def VKEY_L_def VKEY_M_def VKEY_N_def VKEY_O_def
  VKEY_P_def VKEY_Q_def VKEY_R_def VKEY_S_def VKEY_T_def VKEY_U_def VKEY_V_def VKEY_W_def VKEY_X_def VKEY_Y_def
  VKEY_Z_def VKEY_LWIN_def VKEY_COMMAND_def VKEY_RWIN_def VKEY_APPS_def VKEY_SLEEP_def VKEY_NUMPAD0_def
  VKEY_NUMPAD1_def VKEY_NUMPAD2_def VKEY_NUMPAD3_def VKEY_NUMPAD4_def VKEY_NUMPAD5_def VKEY_NUMPAD6_def
  VKEY_NUMPAD7_def VKEY_NUMPAD8_def VKEY_NUMPAD9_def VKEY_MULTIPLY_def VKEY_ADD_def VKEY_SEPARATOR_def
  VKEY_SUBTRACT_def VKEY_DECIMAL_def VKEY_DIVIDE_def VKEY_F1_def VKEY_F2_def VKEY_F3_def VKEY_F4_def VKEY_F5_def
  VKEY_F6_def VKEY_F7_def VKEY_F8_def VKEY_F9_def VKEY_F10_def VKEY_F11_def VKEY_F12_def VKEY_F13_def
  VKEY_F14_def VKEY_F15_def VKEY_F16_def VKEY_F17_def VKEY_F18_def VKEY_F19_def VKEY_F20_def VKEY_F21_def
  VKEY_F22_def VKEY_F23_def VKEY_F24_def VKEY_NUMLOCK_def VKEY_SCROLL_def VKEY_LSHIFT_def VKEY_RSHIFT_def
  VKEY_LCONTROL_def VKEY_RCONTROL_def VKEY_LMENU_def VKEY_RMENU_def VKEY_BROWSER_BACK_def
  VKEY_BROWSER_FORWARD_def VKEY_BROWSER_REFRESH_def VKEY_BROWSER_STOP_def VKEY_BROWSER_SEARCH_def
  VKEY_BROWSER_FAVORITES_def VKEY_BROWSER_HOME_def VKEY_VOLUME_MUTE_def VKEY_VOLUME_DOWN_def VKEY_VOLUME_UP_def
  VKEY_MEDIA_NEXT_TRACK_def VKEY_MEDIA_PREV_TRACK_def VKEY_MEDIA_STOP_def VKEY_MEDIA_PLAY_PAUSE_def
  VKEY_MEDIA_LAUNCH_MAIL_def VKEY_MEDIA_LAUNCH_MEDIA_SELECT_def VKEY_MEDIA_LAUNCH_APP1_def
  VKEY_MEDIA_LAUNCH_APP2_def VKEY_OEM_1_def VKEY_OEM_PLUS_def VKEY_OEM_COMMA_def VKEY_OEM_MINUS_def
  VKEY_OEM_PERIOD_def VKEY_OEM_2_def VKEY_OEM_3_def VKEY_OEM_4_def VKEY_OEM_5_def VKEY_OEM_6_def VKEY_OEM_7_def
  VKEY_OEM_8_def VKEY_OEM_102_def VKEY_OEM_103_def VKEY_OEM_104_def VKEY_PROCESSKEY_def VKEY_PACKET_def
  VKEY_DBE_SBCSCHAR_def VKEY_DBE_DBCSCHAR_def VKEY_ATTN_def VKEY_CRSEL_def VKEY_EXSEL_def VKEY_EREOF_def
  VKEY_PLAY_def VKEY_ZOOM_def VKEY_NONAME_def VKEY_PA1_def VKEY_OEM_CLEAR_def VKEY_UNKNOWN_def VKEY_WLAN_def
  VKEY_POWER_def VKEY_BRIGHTNESS_DOWN_def VKEY_BRIGHTNESS_UP_def VKEY_KBD_BRIGHTNESS_DOWN_def
  VKEY_KBD_BRIGHTNESS_UP_def VKEY_ALTGR_def VKEY_COMPOSE_def

definition case_codes :: "KeyCase \<Rightarrow> nat list" where
  "case_codes c =
     (case c of (labels, Returns code) \<Rightarrow> [code]
      | (labels, Counts code first) \<Rightarrow> map (\<lambda>i. code + i) [0..<length labels])"

definition location_codes :: "nat list" where
  "location_codes = [VKEY_LCONTROL, VKEY_RCONTROL, VKEY_LSHIFT, VKEY_RSHIFT, VKEY_LMENU, VKEY_RMENU]"

lemmas keysym_tables = keysym_cases_def keysym_editing_def keysym_letters_def keysym_digits_def keysym_punctuation_def
  keysym_modifiers_def keysym_function_keys_def keysym_multimedia_def

text \<open>What the headers of X11 and GDK promise: a range of symbols a case counts along is consecutive, and the value of
  a label is not that of a label of another case.\<close>

definition consecutive_symbols :: "Constants \<Rightarrow> bool" where
  "consecutive_symbols xk \<longleftrightarrow>
     list_all (\<lambda>(labels, r). case r of Returns code \<Rightarrow> True
        | Counts code first \<Rightarrow> map xk labels = map (\<lambda>i. xk first + of_nat i) [0..<length labels]) keysym_cases"

definition own_label :: "Constants \<Rightarrow> string \<Rightarrow> bool" where
  "own_label xk l \<longleftrightarrow> list_all (\<lambda>(labels, r). l \<in> set labels \<or> xk l \<notin> xk ` set labels) keysym_cases"

lemma case_codes_known: "list_all (\<lambda>c. c \<in> set KeyboardCode \<and> c \<notin> set location_codes) (concat (map case_codes keysym_cases))"
  by (simp add: keysym_tables case_codes_def KeyboardCode_def KeyboardCode_basic_def KeyboardCode_extended_def location_codes_def 
     upt_conv_Cons key_code_values)
lemma short_cases: "list_all (\<lambda>c. length (fst c) < 100) keysym_cases"
  by (simp add: keysym_tables)

lemma keysym_switch_cases:
  "keysym_switch xk k cs = VKEY_UNKNOWN
   \<or> (\<exists>labels r l. (labels, r) \<in> set cs \<and> l \<in> set labels \<and> k = xk l \<and> keysym_switch xk k cs = key_result xk k r)"
proof (induction cs)
  case (Cons c cs)
  obtain labels r where c: "c = (labels, r)" by fastforce
  show ?case
  proof (cases "k \<in> xk ` set labels")
    case True
    then obtain l where "l \<in> set labels" "k = xk l" by blast
    with c show ?thesis by (intro disjI2 exI [of _ labels] exI [of _ r] exI [of _ l]) simp
  next
    case False
    with c Cons.IH show ?thesis by auto
  qed
qed simp

lemma own_case:
  "list_all (\<lambda>(labels, r). l \<in> set labels \<or> xk l \<notin> xk ` set labels) cs
     \<Longrightarrow> find (\<lambda>(labels, r). l \<in> set labels) cs = Some (labels, r)
     \<Longrightarrow> keysym_switch xk (xk l) cs = key_result xk (xk l) r"
  by (induction cs) (auto split: if_splits)

lemma no_case: "k \<notin> xk ` set (concat (map fst cs)) \<Longrightarrow> keysym_switch xk k cs = VKEY_UNKNOWN"
  by (induction cs) (auto simp: image_Un)

lemma switch_code:
  assumes "consecutive_symbols xk"
  shows "KeyboardCodeFromXKeysym xk k = VKEY_UNKNOWN
    \<or> KeyboardCodeFromXKeysym xk k \<in> set (concat (map case_codes keysym_cases))"
proof -
  have "key_result xk (xk l) r \<in> set (case_codes (labels, r))" if c: "(labels, r) \<in> set keysym_cases" "l \<in> set labels" for labels r l
  proof (cases r)
    case (Counts code first)
    from c Counts assms have "map xk labels = map (\<lambda>i. xk first + of_nat i) [0..<length labels]"
      by (fastforce simp: consecutive_symbols_def list_all_iff)
    with c(2) have "xk l \<in> set (map (\<lambda>i. xk first + of_nat i) [0..<length labels])" by (metis image_eqI list.set_map)
    then obtain i where i: "i < length labels" "xk l = xk first + of_nat i" by auto
    from short_cases c(1) have "length labels < 100" by (auto simp: list_all_iff)
    with i have "unat (xk l - xk first) = i" by (simp add: unat_of_nat take_bit_nat_eq_self)
    with i Counts show ?thesis by (simp add: case_codes_def)
  qed (simp add: case_codes_def)
  then show ?thesis using keysym_switch_cases [of xk k keysym_cases]
    unfolding KeyboardCodeFromXKeysym_def by fastforce
qed

lemma code_known:
  "consecutive_symbols xk \<Longrightarrow> KeyboardCodeFromXKeysym xk k \<in> set KeyboardCode
     \<and> KeyboardCodeFromXKeysym xk k \<notin> set location_codes"
proof -
  assume "consecutive_symbols xk"
  moreover have "VKEY_UNKNOWN \<in> set KeyboardCode \<and> VKEY_UNKNOWN \<notin> set location_codes"
    by (simp add: KeyboardCode_def KeyboardCode_extended_def location_codes_def key_code_values)
  ultimately show ?thesis using switch_code case_codes_known unfolding list_all_iff by metis
qed

lemma chosen_argument: "\<exists>k. (if p then f a else if q then f b else f c) = f k"
  by (cases p; cases q) auto


text \<open>The letters of a US keyboard by the hardware codes of their keys.\<close>

definition us_letters :: "(nat \<times> char) list" where
  "us_letters =
     [(0x18, CHR ''q''), (0x19, CHR ''w''), (0x1A, CHR ''e''), (0x1B, CHR ''r''), (0x1C, CHR ''t''), (0x1D, CHR ''y''), (0x1E, CHR ''u''),
      (0x1F, CHR ''i''), (0x20, CHR ''o''), (0x21, CHR ''p''), (0x26, CHR ''a''), (0x27, CHR ''s''), (0x28, CHR ''d''), (0x29, CHR ''f''),
      (0x2A, CHR ''g''), (0x2B, CHR ''h''), (0x2C, CHR ''j''), (0x2D, CHR ''k''), (0x2E, CHR ''l''), (0x34, CHR ''z''),
      (0x35, CHR ''x''), (0x36, CHR ''c''), (0x37, CHR ''v''), (0x38, CHR ''b''), (0x39, CHR ''n''), (0x3A, CHR ''m'')]"

lemma us_keys:
  "list_all (\<lambda>(hw, c). hw < length kHardwareCodeToGDKKeyval \<and> kHardwareCodeToGDKKeyval ! hw = Some (''GDK_'' @ [c]))
     us_letters"
  by (simp add: us_letters_def kHardwareCodeToGDKKeyval_def)

lemma find_behind: "list_all (\<lambda>x. \<not> P x) xs \<Longrightarrow> find P (xs @ ys) = find P ys"
  by (induction xs) auto

lemma find_before: "find P xs = Some x \<Longrightarrow> find P (xs @ ys) = Some x"
  by (induction xs) auto

lemma editing_labels: "list_all (\<lambda>(labels, r). list_all (\<lambda>l. length l \<noteq> 4) labels) keysym_editing"
  by (simp add: keysym_editing_def)

lemma letter_cases:
  "list_all (\<lambda>(hw, c). map_option snd (find (\<lambda>(labels, r). ''XK_'' @ [c] \<in> set labels) keysym_letters)
     = Some (Returns (VKEY_A + (of_char c - 0x61)))) us_letters"
  by (simp add: us_letters_def keysym_letters_def key_code_values)

lemma us_codes:
  "list_all (\<lambda>(hw, c). map_option snd (find (\<lambda>(labels, r). ''XK_'' @ [c] \<in> set labels) keysym_cases)
     = Some (Returns (VKEY_A + (of_char c - 0x61)))) us_letters"
proof -
  have behind: "list_all (\<lambda>x. \<not> (case x of (labels, r) \<Rightarrow> ''XK_'' @ [c] \<in> set labels)) keysym_editing" for c
    using editing_labels by (fastforce simp: list_all_iff case_prod_unfold)
  have "find (\<lambda>(labels, r). ''XK_'' @ [c] \<in> set labels) keysym_cases = Some x"
    if "find (\<lambda>(labels, r). ''XK_'' @ [c] \<in> set labels) keysym_letters = Some x" for c x
    unfolding keysym_cases_def find_behind [OF behind] by (rule find_before [OF that])
  with letter_cases show ?thesis unfolding list_all_iff by fastforce
qed


lemma control_character_bound: "GetControlCharacter code shift < 0x20"
  by (auto simp: GetControlCharacter_def key_code_values)

definition key_events :: "Constants \<Rightarrow> (u32 \<Rightarrow> u32) \<Rightarrow> GdkEventKey \<Rightarrow> CefKeyEvent list" where
  "key_events xk to_unicode event = map (cef_key_event xk to_unicode event) (if ge_press event then [0, 3] else [2])"

lemma control_events: "list_all (\<lambda>e. and (modifiers e) 4 = 0 \<or> unat (key_character e) < 0x20) (key_events xk to_unicode event)"
proof -
  have "unat (of_nat (GetControlCharacter code shift) :: 16 word) < 0x20" for code shift
    using control_character_bound [of code shift] by (simp add: unat_of_nat take_bit_nat_eq_self)
  then show ?thesis by (simp add: key_events_def cef_key_event_def Let_def)
qed

lemma key_sent:
  "\<not> developer_key e \<Longrightarrow> Plugin_sendKeyEvent env e st
     = Inr (st, case current_focused_browser (m_handler st) of None \<Rightarrow> [] | Some c \<Rightarrow> [HandlerDid (Host c (SendKeyEvent e))])"
  by (simp add: Plugin_sendKeyEvent_def ask_def sendKeyEvent_def focused_calls_def then_do_def split: option.split)


text \<open>Constants with the properties of those of X11 and GDK.\<close>

definition sample_symbols :: Constants where
  "sample_symbols name =
     (let s = dropWhile (\<lambda>c. c \<noteq> CHR ''_'') name
      in if take 2 s = ''_F'' \<and> 2 < length s \<and> is_digit (s ! 2) then of_nat (0xFFBD + read_nat (drop 2 s))
         else of_nat (0x100 * length s + of_char (last s)))"

lemma sample_consecutive: "consecutive_symbols sample_symbols"
  by (simp add: consecutive_symbols_def keysym_tables sample_symbols_def is_digit_def read_nat_def digit_value_def
     upt_conv_Cons)


lemma sample_own: "own_label sample_symbols ''XK_a''"
  by (simp add: own_label_def keysym_tables sample_symbols_def is_digit_def read_nat_def digit_value_def)

lemma sample_other: "0xcf9 \<notin> sample_symbols ` set (concat (map fst keysym_cases))"
proof -
  have "list_all (\<lambda>(labels, r). list_all (\<lambda>l. sample_symbols l \<noteq> 0xcf9) labels) keysym_cases"
    by (simp add: keysym_tables sample_symbols_def is_digit_def read_nat_def digit_value_def)
  then show ?thesis by (fastforce simp: list_all_iff)
qed


definition shin_pressed :: GdkEventKey where
  "shin_pressed = \<lparr>ge_press = True, ge_keyval = 0xcf9, ge_hardware_keycode = 38, ge_state = 0\<rparr>"

definition focused_plugin :: WebviewPlugin where
  "focused_plugin = sample_plugin\<lparr>m_renderers := [(7, Some ((WebviewTexture_init 3)\<lparr>isFocused := True\<rparr>))],
     m_handler := ready_handler\<lparr>current_focused_browser := Some \<lparr>cb_object = 1, cb_identifier = 7, cb_is_popup = False\<rparr>\<rparr>\<rparr>"


end
