(* ===== verification/Channel_Values.thy ===== *)
theory Channel_Values
  imports Plugin_Answers
begin

text \<open>
  The values of the method channel: what the application sends becomes a counted value of the plugin, and
  what the plugin answers becomes a value of the channel. The GTK build
  (\<open>packages/webview_cef/linux/webview_cef_plugin.cc\<close>) and the embedded one
  (\<open>packages/webview_cef/elinux/webview_cef_plugin.cc\<close>) walk lists and maps alike and differ in the other values.

  A value of the channel is data of the embedder (\<open>FlValue\<close>, \<open>EncodableValue\<close>). A map lists its entries in the
  order the embedder walks them.
\<close>

section \<open>Values of the channel\<close>

datatype FlutterValue =
    FvNull
  | FvBool bool
  | FvInt32 u32
  | FvInt u64
  | FvFloat u64
  | FvString string
  | FvUint8s "8 word list"
  | FvInt32s "u32 list"
  | FvInt64s "u64 list"
  | FvFloat32s "u32 list"
  | FvFloats "u64 list"
  | FvList "FlutterValue list"
  | FvMap "(FlutterValue \<times> FlutterValue) list"
  | FvCustom

text \<open>A float as the double of the same value; the payload of a NaN is kept and made quiet.\<close>

definition double_of_float :: "u32 \<Rightarrow> u64" where
  "double_of_float w =
     (let negative = (unat w div 2 ^ 31 = 1); e = unat w div 2 ^ 23 mod 2 ^ 8; m = unat w mod 2 ^ 23;
          sign = (if negative then 2 ^ 63 else 0 :: nat)
      in if e = 255 then of_nat (sign + 2047 * 2 ^ 52 + (if m = 0 then 0 else 2 ^ 51 + m mod 2 ^ 22 * 2 ^ 29))
         else if e = 0
         then (if m = 0 then of_nat sign
               else let k = bit_len m
                    in of_nat (sign + (k + 873) * 2 ^ 52 + (m - 2 ^ (k - 1)) * 2 ^ (53 - k)))
         else of_nat (sign + (e + 896) * 2 ^ 52 + m * 2 ^ 29))"

section \<open>From the channel\<close>

text \<open>The values but lists and maps. An \<open>FlValue\<close> has one type of integer, which the codec widens to.\<close>

definition linux_scalar :: "FlutterValue \<Rightarrow> WHeap \<Rightarrow> (addr \<times> WHeap) option" where
  "linux_scalar v h =
     (case v of
        FvBool b \<Rightarrow> Some (webview_value_new_bool h b)
      | FvInt32 i \<Rightarrow> Some (webview_value_new_int h (scast i))
      | FvInt i \<Rightarrow> Some (webview_value_new_int h i)
      | FvFloat d \<Rightarrow> Some (webview_value_new_double h d)
      | FvString s \<Rightarrow> Some (webview_value_new_string h s)
      | FvUint8s xs \<Rightarrow> webview_value_new_uint8_list h xs (length xs)
      | FvInt32s xs \<Rightarrow> webview_value_new_int32_list h xs (length xs)
      | FvInt64s xs \<Rightarrow> webview_value_new_int64_list h xs (length xs)
      | FvFloat32s xs \<Rightarrow> webview_value_new_float_list h xs (length xs)
      | FvFloats xs \<Rightarrow> webview_value_new_double_list h xs (length xs)
      | _ \<Rightarrow> Some (webview_value_new_null h))"

definition elinux_scalar :: "FlutterValue \<Rightarrow> WHeap \<Rightarrow> (addr \<times> WHeap) option" where
  "elinux_scalar v h =
     (case v of
        FvBool b \<Rightarrow> Some (webview_value_new_bool h b)
      | FvInt32 i \<Rightarrow> Some (webview_value_new_int h (scast i))
      | FvInt i \<Rightarrow> Some (webview_value_new_int h i)
      | FvFloat d \<Rightarrow> Some (webview_value_new_double h d)
      | FvString s \<Rightarrow> Some (webview_value_new_string h s)
      | _ \<Rightarrow> Some (webview_value_new_null h))"

text \<open>Every element is made, put into its list or map, and released by its maker.\<close>

function (sequential) decode_value :: "(FlutterValue \<Rightarrow> WHeap \<Rightarrow> (addr \<times> WHeap) option) \<Rightarrow> FlutterValue \<Rightarrow> WHeap \<Rightarrow> (addr \<times> WHeap) option"
and decode_items :: "(FlutterValue \<Rightarrow> WHeap \<Rightarrow> (addr \<times> WHeap) option) \<Rightarrow> FlutterValue list \<Rightarrow> addr \<Rightarrow> WHeap \<Rightarrow> WHeap option"
and decode_entries ::
    "(FlutterValue \<Rightarrow> WHeap \<Rightarrow> (addr \<times> WHeap) option) \<Rightarrow> (FlutterValue \<times> FlutterValue) list \<Rightarrow> addr \<Rightarrow> WHeap \<Rightarrow> WHeap option"
where
  "decode_value scalar (FvList vs) h =
     (case webview_value_new_list h of (l, h) \<Rightarrow> map_option (\<lambda>h. (l, h)) (decode_items scalar vs l h))"
| "decode_value scalar (FvMap kvs) h =
     (case webview_value_new_map h of (m, h) \<Rightarrow> map_option (\<lambda>h. (m, h)) (decode_entries scalar kvs m h))"
| "decode_value scalar v h = scalar v h"
| "decode_items scalar [] l h = Some h"
| "decode_items scalar (v # vs) l h =
     (case decode_value scalar v h of
        None \<Rightarrow> None
      | Some (item, h) \<Rightarrow>
          (case webview_value_append h (Some l) (Some item) of
             None \<Rightarrow> None
           | Some h \<Rightarrow>
               (case webview_value_unref h (Some item) of
                  None \<Rightarrow> None
                | Some h \<Rightarrow> decode_items scalar vs l h)))"
| "decode_entries scalar [] m h = Some h"
| "decode_entries scalar ((k, v) # kvs) m h =
     (case decode_value scalar k h of
        None \<Rightarrow> None
      | Some (key, h) \<Rightarrow>
          (case decode_value scalar v h of
             None \<Rightarrow> None
           | Some (val, h) \<Rightarrow>
               (case webview_value_set h (Some m) (Some key) (Some val) of
                  None \<Rightarrow> None
                | Some h \<Rightarrow>
                    (case unref_all h [key, val] of
                       None \<Rightarrow> None
                     | Some h \<Rightarrow> decode_entries scalar kvs m h))))"
  by pat_completeness auto

termination
  by (relation "measure (case_sum (\<lambda>(_, v, _). size v)
       (case_sum (\<lambda>(_, vs, _). size_list size vs) (\<lambda>(_, kvs, _). size_list (size_prod size size) kvs)))")
     auto

definition encode_flvalue_to_wvalue :: "FlutterValue \<Rightarrow> WHeap \<Rightarrow> (addr \<times> WHeap) option" where
  "encode_flvalue_to_wvalue = decode_value linux_scalar"

definition decode_to_wvalue :: "FlutterValue \<Rightarrow> WHeap \<Rightarrow> (addr \<times> WHeap) option" where
  "decode_to_wvalue = decode_value elinux_scalar"

section \<open>To the channel\<close>

definition elinux_read :: "WValueType \<Rightarrow> WHeap \<Rightarrow> WPtr \<Rightarrow> FlutterValue option" where
  "elinux_read t h args =
     (case t of
        Webview_Value_Type_Bool \<Rightarrow> map_option FvBool (webview_value_get_bool h args)
      | Webview_Value_Type_Int \<Rightarrow> map_option FvInt (webview_value_get_int h args)
      | Webview_Value_Type_Float \<Rightarrow> map_option (FvFloat \<circ> double_of_float) (webview_value_get_float h args)
      | Webview_Value_Type_Double \<Rightarrow> map_option FvFloat (webview_value_get_double h args)
      | Webview_Value_Type_String \<Rightarrow> map_option FvString (Option.bind (webview_value_get_string h args) id)
      | _ \<Rightarrow> Some FvNull)"

definition linux_read :: "WValueType \<Rightarrow> WHeap \<Rightarrow> WPtr \<Rightarrow> FlutterValue option" where
  "linux_read t h args =
     (case t of
        Webview_Value_Type_Uint8_List \<Rightarrow> map_option FvUint8s (Option.bind (webview_value_get_uint8_list h args) id)
      | Webview_Value_Type_Int32_List \<Rightarrow> map_option FvInt32s (Option.bind (webview_value_get_int32_list h args) id)
      | Webview_Value_Type_Int64_List \<Rightarrow> map_option FvInt64s (Option.bind (webview_value_get_int64_list h args) id)
      | Webview_Value_Type_Float_List \<Rightarrow> map_option FvFloat32s (Option.bind (webview_value_get_float_list h args) id)
      | Webview_Value_Type_Double_List \<Rightarrow> map_option FvFloats (Option.bind (webview_value_get_double_list h args) id)
      | _ \<Rightarrow> elinux_read t h args)"

text \<open>
  \<open>fl_value_set\<close> and \<open>map[key] = val\<close> keep one entry for a key; a key of a double is compared as a number.
\<close>

definition same_key :: "FlutterValue \<Rightarrow> FlutterValue \<Rightarrow> bool" where
  "same_key a b = (case (a, b) of (FvFloat x, FvFloat y) \<Rightarrow> double_eq x y | _ \<Rightarrow> a = b)"

fun put_entry :: "FlutterValue \<times> FlutterValue \<Rightarrow> (FlutterValue \<times> FlutterValue) list \<Rightarrow> (FlutterValue \<times> FlutterValue) list" where
  "put_entry (k, v) [] = [(k, v)]"
| "put_entry (k, v) ((k', v') # kvs) = (if same_key k' k then (k', v) # kvs else (k', v') # put_entry (k, v) kvs)"

text \<open>
  The recursion with its depth as fuel. It walks a value without changing the heap: deeper than the number of
  cells it has met a cell inside itself and does not end. \<open>None\<close> is that, or a freed cell.
\<close>

fun encode_depth :: "nat \<Rightarrow> (WValueType \<Rightarrow> WHeap \<Rightarrow> WPtr \<Rightarrow> FlutterValue option) \<Rightarrow> WHeap \<Rightarrow> WPtr \<Rightarrow> FlutterValue option" where
  "encode_depth 0 read h args = None"
| "encode_depth (Suc n) read h args =
     (let at = (\<lambda>get i. case get h args i of None \<Rightarrow> None | Some q \<Rightarrow> encode_depth n read h q)
      in case webview_value_get_type h args of
           None \<Rightarrow> None
         | Some Webview_Value_Type_List \<Rightarrow>
             (case webview_value_get_len h args of
                None \<Rightarrow> None
              | Some len \<Rightarrow> map_option FvList (those (map (at webview_value_get_list_value) [0..<len])))
         | Some Webview_Value_Type_Map \<Rightarrow>
             (case webview_value_get_len h args of
                None \<Rightarrow> None
              | Some len \<Rightarrow>
                  map_option (\<lambda>kvs. FvMap (fold put_entry kvs []))
                    (those (map (\<lambda>i. case (at webview_value_get_key i, at webview_value_get_value i) of
                                       (Some k, Some v) \<Rightarrow> Some (k, v) | _ \<Rightarrow> None) [0..<len])))
         | Some t \<Rightarrow> read t h args)"

definition encode_wavlue_to_flvalue :: "WHeap \<Rightarrow> WPtr \<Rightarrow> FlutterValue option" where
  "encode_wavlue_to_flvalue h = encode_depth (Suc (length (wh_cells h))) linux_read h"

definition encode_wvalue :: "WHeap \<Rightarrow> WPtr \<Rightarrow> FlutterValue option" where
  "encode_wvalue h = encode_depth (Suc (length (wh_cells h))) elinux_read h"

end
