(* ===== verification/Channel_Proofs.thy ===== *)
theory Channel_Proofs
  imports Channel_Values
begin

text \<open>
  What survives the way of a value through the plugin: the decoder of either build makes a value that its
  encoder reads back as what the build keeps of it, and that the client of the values owns with one reference.
  The locale \<open>channel_codec\<close> states what the builds have in common; both are interpreted.
\<close>


declare encode_depth.simps(2) [simp del]

section \<open>What survives the way through the plugin\<close>

definition plain :: "FlutterValue \<Rightarrow> bool" where
  "plain v \<longleftrightarrow> (case v of FvList vs \<Rightarrow> False | FvMap kvs \<Rightarrow> False | _ \<Rightarrow> True)"

text \<open>A key that is no container and equals itself (a NaN is no key), as a payload and as a value.\<close>

definition simple_key :: "FlutterValue \<Rightarrow> bool" where
  "simple_key v \<longleftrightarrow> (case v of FvNull \<Rightarrow> True | FvBool b \<Rightarrow> True | FvInt32 i \<Rightarrow> True | FvInt i \<Rightarrow> True
     | FvFloat d \<Rightarrow> double_eq d d | FvString s \<Rightarrow> True | _ \<Rightarrow> False)"

definition key_payload :: "FlutterValue \<Rightarrow> WPayload" where
  "key_payload v =
     (case v of
        FvBool b \<Rightarrow> WBool b
      | FvInt32 i \<Rightarrow> WInt (scast i)
      | FvInt i \<Rightarrow> WInt i
      | FvFloat d \<Rightarrow> WDouble d
      | FvString s \<Rightarrow> WString by_malloc (c_str s)
      | _ \<Rightarrow> WNull)"

definition key_value :: "FlutterValue \<Rightarrow> FlutterValue" where
  "key_value v = (case v of FvInt32 i \<Rightarrow> FvInt (scast i) | FvString s \<Rightarrow> FvString (c_str s) | _ \<Rightarrow> v)"

definition same_payload :: "WPayload \<Rightarrow> WPayload \<Rightarrow> bool" where
  "same_payload p q = (case (p, q) of (WDouble x, WDouble y) \<Rightarrow> double_eq x y | (WString _ s, WString _ t) \<Rightarrow> s = t | _ \<Rightarrow> p = q)"

primrec kept :: "(FlutterValue \<Rightarrow> FlutterValue) \<Rightarrow> FlutterValue \<Rightarrow> FlutterValue" where
  "kept keep FvNull = keep FvNull"
| "kept keep (FvBool b) = keep (FvBool b)"
| "kept keep (FvInt32 i) = keep (FvInt32 i)"
| "kept keep (FvInt j) = keep (FvInt j)"
| "kept keep (FvFloat d) = keep (FvFloat d)"
| "kept keep (FvString s) = keep (FvString s)"
| "kept keep (FvUint8s bs) = keep (FvUint8s bs)"
| "kept keep (FvInt32s is) = keep (FvInt32s is)"
| "kept keep (FvInt64s js) = keep (FvInt64s js)"
| "kept keep (FvFloat32s fs) = keep (FvFloat32s fs)"
| "kept keep (FvFloats ds) = keep (FvFloats ds)"
| "kept keep (FvList vs) = FvList (map (kept keep) vs)"
| "kept keep (FvMap kvs) = FvMap (map (map_prod (kept keep) (kept keep)) kvs)"
| "kept keep FvCustom = keep FvCustom"

text \<open>A value whose maps have simple keys that stay apart.\<close>

primrec sendable :: "FlutterValue \<Rightarrow> bool" where
  "sendable FvNull = True"
| "sendable (FvBool b) = True"
| "sendable (FvInt32 i) = True"
| "sendable (FvInt j) = True"
| "sendable (FvFloat d) = True"
| "sendable (FvString s) = True"
| "sendable (FvUint8s bs) = True"
| "sendable (FvInt32s is) = True"
| "sendable (FvInt64s js) = True"
| "sendable (FvFloat32s fs) = True"
| "sendable (FvFloats ds) = True"
| "sendable (FvList vs) = list_all id (map sendable vs)"
| "sendable (FvMap kvs) = (list_all (\<lambda>(p, q). p \<and> q) (map (map_prod sendable sendable) kvs) \<and> list_all (simple_key \<circ> fst) kvs
     \<and> sorted_wrt (\<lambda>p q. \<not> same_payload p q) (map (key_payload \<circ> fst) kvs))"
| "sendable FvCustom = True"

lemma kept_plain: "plain v \<Longrightarrow> kept keep v = keep v"
  by (cases v) (simp_all add: plain_def)

lemma simple_plain: "simple_key k \<Longrightarrow> plain k"
  by (simp add: plain_def simple_key_def split: FlutterValue.splits)

section \<open>Steps of the walk\<close>

definition heap_le :: "WHeap \<Rightarrow> WHeap \<Rightarrow> bool" where
  "heap_le h g \<longleftrightarrow> (\<forall>a c. deref h a = Some c \<longrightarrow> deref g a = Some c)"

text \<open>The heap without the cells below an address.\<close>

definition above :: "nat \<Rightarrow> WHeap \<Rightarrow> WHeap" where
  "above lo h = h\<lparr>wh_cells := map (\<lambda>i. if i < lo then None else wh_cells h ! i) [0..<length (wh_cells h)]\<rparr>"

lemma deref_above [simp]: "deref (above lo h) a = (if a < lo then None else deref h a)"
  by (simp add: above_def deref_def)

lemma above_le: "lo \<le> lo' \<Longrightarrow> heap_le (above lo' h) (above lo h)"
  by (simp add: heap_le_def)

lemma those_map: "list_all2 (\<lambda>x y. f x = Some y) xs ys \<Longrightarrow> those (map f xs) = Some ys"
  by (induction rule: list_all2_induct) auto

lemma those_mapD: "those (map f xs) = Some ys \<Longrightarrow> list_all2 (\<lambda>x y. f x = Some y) xs ys"
  by (induction xs arbitrary: ys) (auto split: option.splits)

lemma those_map_mono:
  "those (map f xs) = Some ys \<Longrightarrow> (\<And>x y. f x = Some y \<Longrightarrow> g x = Some y) \<Longrightarrow> those (map g xs) = Some ys"
  by (rule those_map) (auto dest!: those_mapD elim: list_all2_mono)

lemma getter_le: "heap_le h g \<Longrightarrow> deref h a = Some c \<Longrightarrow> getter d f g (Some a) = getter d f h (Some a)"
  by (simp add: heap_le_def getter_def)

lemma unref_shared:
  "deref h a = Some c \<Longrightarrow> wv_refs c = 2 \<Longrightarrow> webview_value_unref h (Some a) = Some (put_cell h a (Some (c\<lparr>wv_refs := 1\<rparr>)))"
  by (simp add: webview_value_unref_def Let_def)

lemma append_item:
  assumes l: "deref h l = Some c" "wv_data c = WList vs" and a: "deref h a = Some d" "wv_refs d = 1"
    and "a \<noteq> l" and g: "granted h"
  obtains h2 h' vs' where "webview_value_append h (Some l) (Some a) = Some h2" and "webview_value_unref h2 (Some a) = Some h'"
    and "pdata vs' = pdata vs @ [a]" and "length (wh_cells h') = length (wh_cells h)" and "granted h'"
    and "\<And>b. deref h' b = (if b = l then Some (c\<lparr>wv_data := WList vs'\<rparr>) else deref h b)"
proof -
  let ?h1 = "put_cell h a (Some (d\<lparr>wv_refs := 2\<rparr>))"
  from g have "granted ?h1" by simp
  then obtain vs' h2 where add: "webview_ptr_array_add ?h1 vs a = (vs', h2)" "pdata vs' = pdata vs @ [a]"
      "wh_cells h2 = wh_cells ?h1" "granted h2" by (rule ptr_array_add_granted)
  from add(3) have d2: "deref h2 = deref ?h1" by (rule deref_cells)
  let ?h3 = "put_payload h2 l (\<lambda>_. WList vs')"
  have app: "webview_value_append h (Some l) (Some a) = Some ?h3"
    using l a add assms(5) by (simp add: webview_value_append_def webview_value_ref_def webview_value_append_take_def int32_max_def)
  have a3: "deref ?h3 a = Some (d\<lparr>wv_refs := 2\<rparr>)" using assms(5) a d2 by (simp add: deref_lt)
  have len: "length (wh_cells h2) = length (wh_cells h)" using add(3) by simp
  show thesis
  proof (rule that [OF app])
    show "webview_value_unref ?h3 (Some a) = Some (put_cell ?h3 a (Some (d\<lparr>wv_refs := 1\<rparr>)))"
      using unref_shared [OF a3] by simp
    show "deref (put_cell ?h3 a (Some (d\<lparr>wv_refs := 1\<rparr>))) b = (if b = l then Some (c\<lparr>wv_data := WList vs'\<rparr>) else deref h b)" for b
      using assms(5) a l d2 len deref_lt [OF a(1)] deref_lt [OF l(1)] by (auto simp: put_payload_def)
  qed (use add len in simp_all)
qed

lemma key_payload_flat: "flat (key_payload k)"
  by (simp add: key_payload_def split: FlutterValue.split)

lemma equals_key:
  assumes "deref h a = Some ca" and "deref h b = Some cb" and "wv_data cb = key_payload k"
  shows "webview_value_equals h (Some a) (Some b) = Some (same_payload (wv_data ca) (key_payload k))"
  using assms by (cases "wv_data ca"; cases k) (simp_all add: webview_value_equals_def same_payload_def key_payload_def)

lemma set_entry:
  assumes m: "deref h m = Some c" "wv_data c = WMap ks vs" and k: "deref h k = Some ck" "wv_refs ck = 1"
    and v: "deref h v = Some cv" "wv_refs cv = 1" and ne: "k \<noteq> v" "k \<noteq> m" "v \<noteq> m" and g: "granted h"
    and key: "wv_data ck = key_payload x"
    and apart: "\<And>y. y \<in> set (pdata ks) \<Longrightarrow> \<exists>cy. deref h y = Some cy \<and> \<not> same_payload (wv_data cy) (key_payload x)"
  obtains h2 h' ks' vs' where "webview_value_set h (Some m) (Some k) (Some v) = Some h2" and "unref_all h2 [k, v] = Some h'"
    and "pdata ks' = pdata ks @ [k]" and "pdata vs' = pdata vs @ [v]"
    and "length (wh_cells h') = length (wh_cells h)" and "granted h'"
    and "\<And>b. deref h' b = (if b = m then Some (c\<lparr>wv_data := WMap ks' vs'\<rparr>) else deref h b)"
proof -
  let ?h1 = "put_cell (put_cell h k (Some (ck\<lparr>wv_refs := 2\<rparr>))) v (Some (cv\<lparr>wv_refs := 2\<rparr>))"
  note lt = deref_lt [OF m(1)] deref_lt [OF k(1)] deref_lt [OF v(1)]
  have refs: "webview_value_ref h (Some k) = Some (Some k, put_cell h k (Some (ck\<lparr>wv_refs := 2\<rparr>)))"
      "webview_value_ref (put_cell h k (Some (ck\<lparr>wv_refs := 2\<rparr>))) (Some v) = Some (Some v, ?h1)"
    using k v ne by (simp_all add: webview_value_ref_def int32_max_def)
  have "webview_value_equals ?h1 (Some y) (Some k) = Some False" if "y \<in> set (pdata ks)" for y
  proof -
    from apart [OF that] obtain cy where y: "deref h y = Some cy" "\<not> same_payload (wv_data cy) (key_payload x)" by auto
    from y(1) k v ne obtain cy' where "deref ?h1 y = Some cy'" "wv_data cy' = wv_data cy"
      using deref_lt [OF y(1)] by (cases "y = v"; cases "y = k") auto
    with equals_key [OF this(1), of k "ck\<lparr>wv_refs := 2\<rparr>" x] y(2) key lt ne show ?thesis by simp
  qed
  then have "index_of (\<lambda>y. webview_value_equals ?h1 (Some y) (Some k)) 0 (pdata ks) = Some None"
    by (subst index_of_Some [where P = "\<lambda>_. False"]) auto
  moreover have m1: "deref ?h1 m = Some c" using m ne by simp
  ultimately have look: "webview_value_lookup_index ?h1 m (Some k) = Some None"
    using m by (simp add: webview_value_lookup_index_def)
  from g have "granted ?h1" by simp
  then obtain ks' h2 where k2: "webview_ptr_array_add ?h1 ks k = (ks', h2)" "pdata ks' = pdata ks @ [k]"
      "wh_cells h2 = wh_cells ?h1" "granted h2" by (rule ptr_array_add_granted)
  from k2(4) obtain vs' h3 where v3: "webview_ptr_array_add h2 vs v = (vs', h3)" "pdata vs' = pdata vs @ [v]"
      "wh_cells h3 = wh_cells h2" "granted h3" by (rule ptr_array_add_granted)
  from v3(3) k2(3) have d3: "deref h3 = deref ?h1" by (intro deref_cells) simp
  have len: "length (wh_cells h3) = length (wh_cells h)" using v3(3) k2(3) by simp
  let ?h4 = "put_payload h3 m (\<lambda>_. WMap ks' vs')"
  let ?h5 = "put_cell ?h4 k (Some (ck\<lparr>wv_refs := 1\<rparr>))"
  have set: "webview_value_set h (Some m) (Some k) (Some v) = Some ?h4"
    using m refs m1 look k2(1) v3(1)
    by (simp add: webview_value_set_def settable_def webview_value_set_take_def map_add_def)
  have k4: "deref ?h4 k = Some (ck\<lparr>wv_refs := 2\<rparr>)" using ne lt d3 len by (simp add: put_payload_def)
  have v5: "deref ?h5 v = Some (cv\<lparr>wv_refs := 2\<rparr>)" using ne lt d3 len by (simp add: put_payload_def)
  show thesis
  proof (rule that [OF set])
    show "unref_all ?h4 [k, v] = Some (put_cell ?h5 v (Some (cv\<lparr>wv_refs := 1\<rparr>)))"
      using unref_shared [OF k4] unref_shared [OF v5] by simp
    show "deref (put_cell ?h5 v (Some (cv\<lparr>wv_refs := 1\<rparr>))) b
        = (if b = m then Some (c\<lparr>wv_data := WMap ks' vs'\<rparr>) else deref h b)" for b
      using ne m k v d3 len lt by (auto simp: put_payload_def)
  qed (use k2 v3 len in simp_all)
qed

lemma client_unref_one:
  assumes "client_ok (h, holding e [a])" and "webview_value_unref h (Some a) = Some h'"
  shows "client_ok (h', e)"
proof -
  from assms(1) have "owned h (holding e [a])" "granted h" by (simp_all add: client_ok_def)
  with owned_unref [OF this(1)] assms(2) unref_granted [OF assms(2)] show ?thesis by (auto simp: client_ok_def)
qed

lemma new_cell:
  assumes "webview_value_new h p = (l, h1)" and "granted h"
  shows "l = length (wh_cells h)" and "length (wh_cells h1) = Suc (length (wh_cells h))" and "granted h1"
    and "deref h1 b = (if b = l then Some \<lparr>wv_refs = 1, wv_data = p\<rparr> else deref h b)"
  using assms deref_new [of h p b] by (auto simp: webview_value_new_def granted_def)

lemma put_entries_apart:
  "sorted_wrt (\<lambda>p q. \<not> same_key (fst p) (fst q)) (acc @ kvs) \<Longrightarrow> fold put_entry kvs acc = acc @ kvs"
proof (induction kvs arbitrary: acc)
  case (Cons kv kvs)
  obtain k v where kv: "kv = (k, v)" by fastforce
  have "put_entry (k, v) acc = acc @ [(k, v)]" if "\<forall>p\<in>set acc. \<not> same_key (fst p) k" for acc
    using that by (induction acc) auto
  with Cons.prems kv have "put_entry kv acc = acc @ [kv]" by (auto simp: sorted_wrt_append)
  with Cons.IH [of "acc @ [kv]"] Cons.prems show ?case by simp
qed simp

section \<open>The interface of a build\<close>

text \<open>
  What the two builds have in common: a value that is no container becomes one cell, whose payload is read
  back as what the build keeps of the value.
\<close>

locale channel_codec =
  fixes scalar :: "FlutterValue \<Rightarrow> WHeap \<Rightarrow> (addr \<times> WHeap) option"
    and read :: "WValueType \<Rightarrow> WHeap \<Rightarrow> WPtr \<Rightarrow> FlutterValue option"
    and payload :: "FlutterValue \<Rightarrow> WPayload"
    and keep :: "FlutterValue \<Rightarrow> FlutterValue"
  assumes scalar_new: "plain v \<Longrightarrow> scalar v h = Some (webview_value_new h (payload v))"
    and payload_scalar: "plain v \<Longrightarrow> children (payload v) = [] \<and> \<not> frees_new (payload v) \<and> aligned (payload v)
          \<and> type_of_payload (payload v) \<notin> {Webview_Value_Type_List, Webview_Value_Type_Map}"
    and payload_key: "simple_key k \<Longrightarrow> payload k = key_payload k"
    and keep_key: "simple_key k \<Longrightarrow> keep k = key_value k"
    and read_keeps: "plain v \<Longrightarrow> deref h a = Some c \<Longrightarrow> wv_data c = payload v
          \<Longrightarrow> read (type_of_payload (payload v)) h (Some a) = Some (keep v)"
    and read_local: "deref h a = Some c \<Longrightarrow> deref g a = Some c \<Longrightarrow> read t g (Some a) = read t h (Some a)"
    and read_null: "read t g None = read t h None"
begin

lemma encode_mono:
  "heap_le h g \<Longrightarrow> n \<le> m \<Longrightarrow> encode_depth n read h p = Some x \<Longrightarrow> encode_depth m read g p = Some x"
proof (induction n arbitrary: m p x)
  case (Suc n)
  from Suc.prems(2) obtain m' where m: "m = Suc m'" "n \<le> m'" by (cases m) auto
  note IH = Suc.IH [OF Suc.prems(1) m(2)]
  show ?case
  proof (cases p)
    case None
    with Suc.prems(3) read_null [of _ g h] m show ?thesis by (simp add: encode_depth.simps(2) webview_value_get_type_def Let_def)
  next
    case (Some a)
    from Suc.prems(3) Some obtain c where c: "deref h a = Some c"
      by (cases "deref h a") (auto simp: encode_depth.simps(2) webview_value_get_type_def Let_def)
    with Suc.prems(1) have d: "deref g a = Some c" by (simp add: heap_le_def)
    have same: "webview_value_get_len g (Some a) = webview_value_get_len h (Some a)"
        "webview_value_get_list_value g (Some a) = webview_value_get_list_value h (Some a)"
        "webview_value_get_key g (Some a) = webview_value_get_key h (Some a)"
        "webview_value_get_value g (Some a) = webview_value_get_value h (Some a)"
        "webview_value_get_type g (Some a) = webview_value_get_type h (Some a)"
      using c d by (simp_all add: fun_eq_iff webview_value_get_len_def webview_value_get_list_value_def
          webview_value_get_key_def webview_value_get_value_def webview_value_get_type_def getter_def)
    show ?thesis
    proof (cases "webview_value_get_type h (Some a) = Some Webview_Value_Type_Map")
      case True
      let ?at = "\<lambda>n h get i. case get h (Some a) i of None \<Rightarrow> None | Some q \<Rightarrow> encode_depth n read h q"
      let ?entry = "\<lambda>n h i. case (?at n h webview_value_get_key i, ?at n h webview_value_get_value i) of
          (Some k, Some v) \<Rightarrow> Some (k, v) | _ \<Rightarrow> None"
      from Suc.prems(3) True Some obtain len z where z: "webview_value_get_len h (Some a) = Some len"
          "those (map (?entry n h) [0..<len]) = Some z" "x = FvMap (fold put_entry z [])"
        by (auto simp: encode_depth.simps(2) Let_def split: option.splits)
      have "those (map (?entry m' g) [0..<len]) = Some z"
      proof (rule those_map_mono [OF z(2)])
        fix i y assume "?entry n h i = Some y"
        with IH show "?entry m' g i = Some y" unfolding same by (auto split: option.splits)
      qed
      with z(1,3) True show ?thesis unfolding Some m encode_depth.simps Let_def same by simp
    next
      case False
      with Suc.prems(3) IH show ?thesis unfolding Some m encode_depth.simps Let_def same read_local [OF c d]
        by (auto split: option.splits WValueType.splits elim!: those_map_mono)
    qed
  qed
qed simp

lemma encode_list:
  assumes "deref h a = Some c" and "wv_data c = WList vs"
    and "list_all2 (\<lambda>x v. encode_depth n read h (Some x) = Some v) (pdata vs) xs"
  shows "encode_depth (Suc n) read h (Some a) = Some (FvList xs)"
proof -
  have "(\<lambda>i. case webview_value_get_list_value h (Some a) i of None \<Rightarrow> None | Some q \<Rightarrow> encode_depth n read h q) i
      = encode_depth n read h (Some (pdata vs ! i))" if "i < length (pdata vs)" for i
    using assms(1,2) that by (simp add: webview_value_get_list_value_def getter_def webview_ptr_array_index_def)
  then have "map (\<lambda>i. case webview_value_get_list_value h (Some a) i of None \<Rightarrow> None | Some q \<Rightarrow> encode_depth n read h q)
      [0..<length (pdata vs)] = map (\<lambda>x. encode_depth n read h (Some x)) (pdata vs)"
    by (intro nth_equalityI) simp_all
  with those_map [OF assms(3)] assms(1,2) show ?thesis
    by (simp add: encode_depth.simps(2) webview_value_get_type_def webview_value_get_len_def getter_def Let_def)
qed

lemma encode_map:
  assumes "deref h a = Some c" and "wv_data c = WMap ks vs"
    and "list_all2 (\<lambda>x v. encode_depth n read h (Some x) = Some v) (pdata ks) xs"
    and "list_all2 (\<lambda>x v. encode_depth n read h (Some x) = Some v) (pdata vs) ys"
    and "length xs = length ys"
  shows "encode_depth (Suc n) read h (Some a) = Some (FvMap (fold put_entry (zip xs ys) []))"
proof -
  from assms(3-5) have len: "length (pdata ks) = length xs" "length (pdata vs) = length ys" by (simp_all add: list_all2_lengthD)
  let ?at = "\<lambda>get i. case get h (Some a) i of None \<Rightarrow> None | Some q \<Rightarrow> encode_depth n read h q"
  have "?at webview_value_get_key i = Some (xs ! i)" "?at webview_value_get_value i = Some (ys ! i)"
    if "i < length xs" for i
    using that len assms list_all2_nthD [OF assms(3), of i] list_all2_nthD [OF assms(4), of i]
    by (simp_all add: webview_value_get_key_def webview_value_get_value_def getter_def webview_ptr_array_index_def)
  then have "list_all2 (\<lambda>i y. (case (?at webview_value_get_key i, ?at webview_value_get_value i) of
      (Some k, Some v) \<Rightarrow> Some (k, v) | _ \<Rightarrow> None) = Some y) [0..<length xs] (zip xs ys)"
    using assms(5) by (intro list_all2_all_nthI) simp_all
  from those_map [OF this] assms(1,2) len show ?thesis
    by (simp add: encode_depth.simps(2) webview_value_get_type_def webview_value_get_len_def getter_def Let_def)
qed

text \<open>
  What making a value does: the root is the next cell, with one reference; the cells that were there are as
  they were; read back, the new cells are what is kept of the value; and the books gain the root.
\<close>

definition made :: "FlutterValue \<Rightarrow> WHeap \<Rightarrow> addr \<Rightarrow> WHeap \<Rightarrow> bool" where
  "made x h a h' \<longleftrightarrow>
     a = length (wh_cells h) \<and> length (wh_cells h) < length (wh_cells h') \<and> granted h'
     \<and> (\<forall>b < length (wh_cells h). deref h' b = deref h b) \<and> (\<exists>c. deref h' a = Some c \<and> wv_refs c = 1)
     \<and> encode_depth (length (wh_cells h') - length (wh_cells h)) read (above (length (wh_cells h)) h') (Some a) = Some x
     \<and> (\<forall>e. client_ok (h, e) \<longrightarrow> client_ok (h', holding e [a]))"

lemma made_scalar:
  assumes "plain v" and "granted h"
  shows "\<exists>a h'. scalar v h = Some (a, h') \<and> made (keep v) h a h'"
proof -
  obtain a h' where n: "webview_value_new h (payload v) = (a, h')" by fastforce
  then have a: "a = length (wh_cells h)" "length (wh_cells h') = Suc (length (wh_cells h))" "granted h'"
    using assms(2) by (auto simp: webview_value_new_def granted_def)
  from n have d: "deref h' b = (if b = a then Some \<lparr>wv_refs = 1, wv_data = payload v\<rparr> else deref h b)" for b
    using deref_new [of h "payload v" b] a by simp
  have "webview_value_get_type (above (length (wh_cells h)) h') (Some a) = Some (type_of_payload (payload v))"
    by (simp add: webview_value_get_type_def d a)
  moreover have "read (type_of_payload (payload v)) (above (length (wh_cells h)) h') (Some a) = Some (keep v)"
    by (rule read_keeps [OF assms(1), where c = "\<lparr>wv_refs = 1, wv_data = payload v\<rparr>"]) (simp_all add: d a)
  ultimately have "encode_depth (Suc 0) read (above (length (wh_cells h)) h') (Some a) = Some (keep v)"
    using payload_scalar [OF assms(1)] by (auto simp: encode_depth.simps(2) Let_def split: WValueType.split)
  moreover have "client_ok (h', holding e [a])" if "client_ok (h, e)" for e
    using client_new [OF that, of "payload v"] payload_scalar [OF assms(1)] n by (simp add: gain_def)
  ultimately show ?thesis using scalar_new [OF assms(1)] n a d by (auto simp: made_def)
qed

lemma made_later:
  assumes "made x h a h1" and "\<And>b. length (wh_cells h) \<le> b \<Longrightarrow> b < length (wh_cells h1) \<Longrightarrow> deref g b = deref h1 b"
    and "lo \<le> length (wh_cells h)" and "length (wh_cells h1) - length (wh_cells h) \<le> n"
  shows "encode_depth n read (above lo g) (Some a) = Some x"
proof (rule encode_mono [OF _ assms(4)])
  show "heap_le (above (length (wh_cells h)) h1) (above lo g)"
    using assms(2,3) deref_lt [of h1] by (fastforce simp: heap_le_def)
  show "encode_depth (length (wh_cells h1) - length (wh_cells h)) read (above (length (wh_cells h)) h1) (Some a) = Some x"
    using assms(1) unfolding made_def by blast
qed

definition items_made :: "FlutterValue list \<Rightarrow> addr \<Rightarrow> WPtrArray \<Rightarrow> WCell \<Rightarrow> WHeap \<Rightarrow> WHeap \<Rightarrow> bool" where
  "items_made xs l arr c h h' \<longleftrightarrow>
     length (wh_cells h) \<le> length (wh_cells h') \<and> granted h'
     \<and> (\<forall>b < length (wh_cells h). b \<noteq> l \<longrightarrow> deref h' b = deref h b)
     \<and> (\<exists>arr' as. deref h' l = Some (c\<lparr>wv_data := WList arr'\<rparr>) \<and> pdata arr' = pdata arr @ as
          \<and> list_all2 (\<lambda>a x. encode_depth (length (wh_cells h') - length (wh_cells h)) read (above (length (wh_cells h)) h') (Some a) = Some x) as xs)
     \<and> (\<forall>e. 0 < e l \<longrightarrow> client_ok (h, e) \<longrightarrow> client_ok (h', e))"

lemma items_Cons:
  assumes l: "deref h l = Some c" "wv_data c = WList arr" and made: "made x h a h1"
    and h2: "webview_value_append h1 (Some l) (Some a) = Some h2" "webview_value_unref h2 (Some a) = Some h3"
    and h3: "pdata arr1 = pdata arr @ [a]" "length (wh_cells h3) = length (wh_cells h1)"
      "\<And>b. deref h3 b = (if b = l then Some (c\<lparr>wv_data := WList arr1\<rparr>) else deref h1 b)"
    and rest: "items_made xs l arr1 (c\<lparr>wv_data := WList arr1\<rparr>) h3 h'"
  shows "items_made (x # xs) l arr c h h'"
proof -
  from made have a: "a = length (wh_cells h)" and len: "length (wh_cells h) < length (wh_cells h1)"
    and low: "\<And>b. b < length (wh_cells h) \<Longrightarrow> deref h1 b = deref h b" by (simp_all add: made_def)
  from l have "l < length (wh_cells h)" by (simp add: deref_lt)
  from rest obtain arr' as where r: "length (wh_cells h3) \<le> length (wh_cells h')" "granted h'"
      "\<And>b. b < length (wh_cells h3) \<Longrightarrow> b \<noteq> l \<Longrightarrow> deref h' b = deref h3 b"
      "deref h' l = Some (c\<lparr>wv_data := WList arr'\<rparr>)" "pdata arr' = pdata arr1 @ as"
      "list_all2 (\<lambda>a x. encode_depth (length (wh_cells h') - length (wh_cells h3)) read (above (length (wh_cells h3)) h') (Some a) = Some x) as xs"
    by (auto simp: items_made_def)
  have "encode_depth (length (wh_cells h') - length (wh_cells h)) read (above (length (wh_cells h)) h') (Some a) = Some x"
    by (rule made_later [OF made]) (use h3(2,3) r(1,3) len \<open>l < length (wh_cells h)\<close> in auto)
  moreover have "list_all2 (\<lambda>a x. encode_depth (length (wh_cells h') - length (wh_cells h)) read
      (above (length (wh_cells h)) h') (Some a) = Some x) as xs"
    using r(6) by (rule list_all2_mono) (rule encode_mono, use len h3(2) in \<open>auto intro: above_le\<close>)
  moreover have "client_ok (h', e)" if "0 < e l" "client_ok (h, e)" for e
  proof -
    from made that(2) have "client_ok (h1, holding e [a])" unfolding made_def by blast
    moreover from made obtain d where "deref h1 a = Some d" "wv_refs d = 1" by (auto simp: made_def)
    moreover from l low have "deref h1 l = Some c" by (simp add: deref_lt)
    ultimately have "client_ok (h2, holding e [a])" using client_append [of h1 "holding e [a]" l c a d] h2(1)
      by (simp add: int32_max_def)
    from client_unref_one [OF this h2(2)] rest that(1) show ?thesis by (simp add: items_made_def)
  qed
  ultimately show ?thesis unfolding items_made_def using r h3 len low \<open>l < length (wh_cells h)\<close>
    by (auto intro!: exI [of _ arr'] exI [of _ "a # as"])
qed

definition entries_made ::
    "(FlutterValue \<times> FlutterValue) list \<Rightarrow> addr \<Rightarrow> WPtrArray \<Rightarrow> WPtrArray \<Rightarrow> WCell \<Rightarrow> WHeap \<Rightarrow> WHeap \<Rightarrow> bool" where
  "entries_made xs m ks vs c h h' \<longleftrightarrow>
     length (wh_cells h) \<le> length (wh_cells h') \<and> granted h'
     \<and> (\<forall>b < length (wh_cells h). b \<noteq> m \<longrightarrow> deref h' b = deref h b)
     \<and> (\<exists>ks' vs' as bs. deref h' m = Some (c\<lparr>wv_data := WMap ks' vs'\<rparr>) \<and> pdata ks' = pdata ks @ as \<and> pdata vs' = pdata vs @ bs
          \<and> list_all2 (\<lambda>a x. encode_depth (length (wh_cells h') - length (wh_cells h)) read (above (length (wh_cells h)) h') (Some a) = Some x) as (map fst xs)
          \<and> list_all2 (\<lambda>a x. encode_depth (length (wh_cells h') - length (wh_cells h)) read (above (length (wh_cells h)) h') (Some a) = Some x) bs (map snd xs))
     \<and> (\<forall>e. 0 < e m \<longrightarrow> client_ok (h, e) \<longrightarrow> client_ok (h', e))"

lemma entries_Cons:
  assumes m: "deref h m = Some c" "wv_data c = WMap ks vs" and key: "made x h a h1" and val: "made y h1 b h2"
    and flat: "\<exists>ck. deref h1 a = Some ck \<and> flat (wv_data ck)"
    and h3: "webview_value_set h2 (Some m) (Some a) (Some b) = Some h3" "unref_all h3 [a, b] = Some h4"
    and h4: "pdata ks1 = pdata ks @ [a]" "pdata vs1 = pdata vs @ [b]" "length (wh_cells h4) = length (wh_cells h2)"
      "\<And>z. deref h4 z = (if z = m then Some (c\<lparr>wv_data := WMap ks1 vs1\<rparr>) else deref h2 z)"
    and rest: "entries_made xs m ks1 vs1 (c\<lparr>wv_data := WMap ks1 vs1\<rparr>) h4 h'"
  shows "entries_made ((x, y) # xs) m ks vs c h h'"
proof -
  from key have a: "a = length (wh_cells h)" and len: "length (wh_cells h) < length (wh_cells h1)"
    and low: "\<And>z. z < length (wh_cells h) \<Longrightarrow> deref h1 z = deref h z" by (simp_all add: made_def)
  from val have b: "b = length (wh_cells h1)" and len2: "length (wh_cells h1) < length (wh_cells h2)"
    and low2: "\<And>z. z < length (wh_cells h1) \<Longrightarrow> deref h2 z = deref h1 z" by (simp_all add: made_def)
  from m have lt: "m < length (wh_cells h)" by (simp add: deref_lt)
  from rest obtain ks' vs' as bs where r: "length (wh_cells h4) \<le> length (wh_cells h')" "granted h'"
      "\<And>z. z < length (wh_cells h4) \<Longrightarrow> z \<noteq> m \<Longrightarrow> deref h' z = deref h4 z"
      "deref h' m = Some (c\<lparr>wv_data := WMap ks' vs'\<rparr>)" "pdata ks' = pdata ks1 @ as" "pdata vs' = pdata vs1 @ bs"
      "list_all2 (\<lambda>a x. encode_depth (length (wh_cells h') - length (wh_cells h4)) read (above (length (wh_cells h4)) h') (Some a) = Some x) as (map fst xs)"
      "list_all2 (\<lambda>a x. encode_depth (length (wh_cells h') - length (wh_cells h4)) read (above (length (wh_cells h4)) h') (Some a) = Some x) bs (map snd xs)"
    by (auto simp: entries_made_def)
  have "encode_depth (length (wh_cells h') - length (wh_cells h)) read (above (length (wh_cells h)) h') (Some a) = Some x"
    by (rule made_later [OF key]) (use h4(3,4) r(1,3) len len2 low2 lt in auto)
  moreover have "encode_depth (length (wh_cells h') - length (wh_cells h)) read (above (length (wh_cells h)) h') (Some b) = Some y"
    by (rule made_later [OF val]) (use h4(3,4) r(1,3) len len2 lt in auto)
  moreover have later: "list_all2 (\<lambda>a x. encode_depth (length (wh_cells h') - length (wh_cells h)) read
      (above (length (wh_cells h)) h') (Some a) = Some x) zs ws"
    if "list_all2 (\<lambda>a x. encode_depth (length (wh_cells h') - length (wh_cells h4)) read (above (length (wh_cells h4)) h') (Some a) = Some x) zs ws"
    for zs ws
    using that by (rule list_all2_mono) (rule encode_mono, use len len2 h4(3) in \<open>auto intro: above_le\<close>)
  moreover have "client_ok (h', e)" if "0 < e m" "client_ok (h, e)" for e
  proof -
    from key that(2) have "client_ok (h1, holding e [a])" unfolding made_def by blast
    with val have ok: "client_ok (h2, holding (holding e [a]) [b])" unfolding made_def by blast
    from val obtain d where d: "deref h2 b = Some d" "wv_refs d = 1" by (auto simp: made_def)
    from flat key obtain ck where ck: "deref h1 a = Some ck" "flat (wv_data ck)" "wv_refs ck = 1" by (auto simp: made_def)
    from ck(1) low2 have "deref h2 a = Some ck" by (simp add: deref_lt)
    moreover from that(1) have "0 < holding (holding e [a]) [b] m" by (simp add: holding_def)
    ultimately have "client_ok (h3, holding (holding e [a]) [b])"
      using client_set [OF ok, of m a ck b d] ck d h3(1) by (simp add: int32_max_def)
    moreover have "holding (holding e [a]) [b] = holding (holding e [b]) [a]" by (rule ext) (auto simp: holding_def)
    moreover from h3(2) obtain h5 where u: "webview_value_unref h3 (Some a) = Some h5" "webview_value_unref h5 (Some b) = Some h4"
      by (auto split: option.splits)
    ultimately have "client_ok (h5, holding e [b])" using client_unref_one by metis
    from client_unref_one [OF this u(2)] rest that(1) show ?thesis by (simp add: entries_made_def)
  qed
  moreover have "deref h' z = deref h z" if "z < length (wh_cells h)" "z \<noteq> m" for z
    using that r(3) [of z] h4(3,4) len len2 low low2 by simp
  moreover note r(1,2) h4(3) len len2
  moreover have "\<exists>ks' vs' as bs. deref h' m = Some (c\<lparr>wv_data := WMap ks' vs'\<rparr>) \<and> pdata ks' = pdata ks @ as \<and> pdata vs' = pdata vs @ bs
      \<and> list_all2 (\<lambda>a x. encode_depth (length (wh_cells h') - length (wh_cells h)) read (above (length (wh_cells h)) h') (Some a) = Some x) as (x # map fst xs)
      \<and> list_all2 (\<lambda>a x. encode_depth (length (wh_cells h') - length (wh_cells h)) read (above (length (wh_cells h)) h') (Some a) = Some x) bs (y # map snd xs)"
    by (rule exI [of _ ks'], rule exI [of _ vs'], rule exI [of _ "a # as"], rule exI [of _ "b # bs"])
       (use calculation(1,2) r(4-6) h4(1,2) later [OF r(7)] later [OF r(8)] in simp)
  ultimately show ?thesis unfolding entries_made_def by simp
qed

lemma simple_sendable: "simple_key k \<Longrightarrow> sendable k"
  by (cases k) (simp_all add: simple_key_def)

lemma decode_plain: "plain v \<Longrightarrow> decode_value scalar v h = scalar v h"
  by (cases v) (simp_all add: plain_def)

lemma made_key:
  assumes "simple_key k" and "scalar k h = Some (a, h')"
  shows "\<exists>c. deref h' a = Some c \<and> wv_data c = key_payload k"
proof -
  from scalar_new [OF simple_plain [OF assms(1)]] assms(2) have n: "webview_value_new h (payload k) = (a, h')" by simp
  then have "deref h' a = Some \<lparr>wv_refs = 1, wv_data = payload k\<rparr>"
    using deref_new [of h "payload k" a] by (auto simp: webview_value_new_def)
  with payload_key [OF assms(1)] show ?thesis by simp
qed

lemma same_key_payload:
  "simple_key k \<Longrightarrow> simple_key l \<Longrightarrow> same_key (keep k) (keep l) = same_payload (key_payload k) (key_payload l)"
  by (simp add: keep_key)
     (auto simp: same_key_def key_value_def simple_key_def same_payload_def key_payload_def split: FlutterValue.splits)

lemma kept_entries_apart:
  "list_all (simple_key \<circ> fst) kvs \<Longrightarrow> sorted_wrt (\<lambda>p q. \<not> same_payload p q) (map (key_payload \<circ> fst) kvs)
     \<Longrightarrow> sorted_wrt (\<lambda>p q. \<not> same_key (fst p) (fst q)) (map (map_prod (kept keep) (kept keep)) kvs)"
  by (induction kvs) (auto simp: list_all_iff kept_plain simple_plain same_key_payload)

definition good_entries :: "WHeap \<Rightarrow> WPtrArray \<Rightarrow> (FlutterValue \<times> FlutterValue) list \<Rightarrow> bool" where
  "good_entries h ks kvs \<longleftrightarrow>
     list_all (\<lambda>(k, v). simple_key k \<and> sendable v) kvs \<and> sorted_wrt (\<lambda>p q. \<not> same_payload p q) (map (key_payload \<circ> fst) kvs)
     \<and> (\<forall>y\<in>set (pdata ks). \<exists>cy. deref h y = Some cy \<and> list_all (\<lambda>(k, v). \<not> same_payload (wv_data cy) (key_payload k)) kvs)"

lemma items_root:
  assumes n: "webview_value_new_list h = (l, h1)" and g: "granted h"
    and items: "items_made xs l webview_ptr_array_new_with_free_func
      \<lparr>wv_refs = 1, wv_data = WList webview_ptr_array_new_with_free_func\<rparr> h1 h'"
  shows "made (FvList xs) h l h'"
proof -
  note new = new_cell [OF n [unfolded webview_value_new_list_def] g]
  from items obtain arr' as where i: "length (wh_cells h1) \<le> length (wh_cells h')" "granted h'"
      "\<And>b. b < length (wh_cells h1) \<Longrightarrow> b \<noteq> l \<Longrightarrow> deref h' b = deref h1 b"
      "deref h' l = Some \<lparr>wv_refs = 1, wv_data = WList arr'\<rparr>" "pdata arr' = as"
      "list_all2 (\<lambda>a x. encode_depth (length (wh_cells h') - length (wh_cells h1)) read (above (length (wh_cells h1)) h') (Some a) = Some x) as xs"
    by (auto simp: items_made_def webview_ptr_array_new_with_free_func_def)
  have "encode_depth (Suc (length (wh_cells h') - length (wh_cells h1))) read (above (length (wh_cells h)) h') (Some l) = Some (FvList xs)"
  proof (rule encode_list)
    show "deref (above (length (wh_cells h)) h') l = Some \<lparr>wv_refs = 1, wv_data = WList arr'\<rparr>"
      using i(4) new(1) by simp
    show "list_all2 (\<lambda>x v. encode_depth (length (wh_cells h') - length (wh_cells h1)) read (above (length (wh_cells h)) h') (Some x) = Some v)
        (pdata arr') xs"
      using i(6) unfolding i(5) by (rule list_all2_mono) (rule encode_mono, use new(2) in \<open>auto intro: above_le\<close>)
  qed simp
  moreover have "Suc (length (wh_cells h') - length (wh_cells h1)) = length (wh_cells h') - length (wh_cells h)"
    using i(1) new(2) by simp
  moreover have "client_ok (h', holding e [l])" if "client_ok (h, e)" for e
  proof -
    from client_new [OF that, of "WList webview_ptr_array_new_with_free_func"] n
    have "client_ok (h1, holding e [l])"
      by (simp add: gain_def webview_value_new_list_def webview_ptr_array_new_with_free_func_def)
    moreover have "0 < holding e [l] l" by (simp add: holding_def)
    ultimately show ?thesis using items by (simp add: items_made_def)
  qed
  ultimately show ?thesis unfolding made_def using i(1,2,3,4) new by simp
qed

lemma entries_root:
  assumes n: "webview_value_new_map h = (l, h1)" and g: "granted h"
    and entries: "entries_made xs l webview_ptr_array_new_with_free_func webview_ptr_array_new_with_free_func
      \<lparr>wv_refs = 1, wv_data = WMap webview_ptr_array_new_with_free_func webview_ptr_array_new_with_free_func\<rparr> h1 h'"
    and apart: "sorted_wrt (\<lambda>p q. \<not> same_key (fst p) (fst q)) xs"
  shows "made (FvMap xs) h l h'"
proof -
  note new = new_cell [OF n [unfolded webview_value_new_map_def] g]
  from entries obtain ks' vs' as bs where i: "length (wh_cells h1) \<le> length (wh_cells h')" "granted h'"
      "\<And>b. b < length (wh_cells h1) \<Longrightarrow> b \<noteq> l \<Longrightarrow> deref h' b = deref h1 b"
      "deref h' l = Some \<lparr>wv_refs = 1, wv_data = WMap ks' vs'\<rparr>" "pdata ks' = as" "pdata vs' = bs"
      "list_all2 (\<lambda>a x. encode_depth (length (wh_cells h') - length (wh_cells h1)) read (above (length (wh_cells h1)) h') (Some a) = Some x) as (map fst xs)"
      "list_all2 (\<lambda>a x. encode_depth (length (wh_cells h') - length (wh_cells h1)) read (above (length (wh_cells h1)) h') (Some a) = Some x) bs (map snd xs)"
    by (auto simp: entries_made_def webview_ptr_array_new_with_free_func_def)
  have later: "list_all2 (\<lambda>x v. encode_depth (length (wh_cells h') - length (wh_cells h1)) read (above (length (wh_cells h)) h') (Some x) = Some v) zs ws"
    if "list_all2 (\<lambda>a x. encode_depth (length (wh_cells h') - length (wh_cells h1)) read (above (length (wh_cells h1)) h') (Some a) = Some x) zs ws" for zs ws
    using that by (rule list_all2_mono) (rule encode_mono, use new(2) in \<open>auto intro: above_le\<close>)
  have "encode_depth (Suc (length (wh_cells h') - length (wh_cells h1))) read (above (length (wh_cells h)) h') (Some l)
      = Some (FvMap (fold put_entry (zip (map fst xs) (map snd xs)) []))"
    by (rule encode_map [where c = "\<lparr>wv_refs = 1, wv_data = WMap ks' vs'\<rparr>" and ks = ks' and vs = vs'])
       (use i(4) new(1) later [OF i(7)] later [OF i(8)] i(5,6) in simp_all)
  then have "encode_depth (Suc (length (wh_cells h') - length (wh_cells h1))) read (above (length (wh_cells h)) h') (Some l) = Some (FvMap xs)"
    using put_entries_apart [of "[]" xs] apart by (simp add: zip_map_fst_snd)
  moreover have "Suc (length (wh_cells h') - length (wh_cells h1)) = length (wh_cells h') - length (wh_cells h)"
    using i(1) new(2) by simp
  moreover have "client_ok (h', holding e [l])" if "client_ok (h, e)" for e
  proof -
    from client_new [OF that, of "WMap webview_ptr_array_new_with_free_func webview_ptr_array_new_with_free_func"] n
    have "client_ok (h1, holding e [l])"
      by (simp add: gain_def webview_value_new_map_def webview_ptr_array_new_with_free_func_def)
    moreover have "0 < holding e [l] l" by (simp add: holding_def)
    ultimately show ?thesis using entries by (simp add: entries_made_def)
  qed
  ultimately show ?thesis unfolding made_def using i(1,2,3,4) new by simp
qed

lemma decode_made:
  shows "s = scalar \<Longrightarrow> granted h \<Longrightarrow> sendable v \<Longrightarrow> \<exists>a h'. decode_value s v h = Some (a, h') \<and> made (kept keep v) h a h'"
    and "s = scalar \<Longrightarrow> granted h \<Longrightarrow> list_all sendable vs \<Longrightarrow> deref h l = Some c \<Longrightarrow> wv_data c = WList arr
      \<Longrightarrow> \<exists>h'. decode_items s vs l h = Some h' \<and> items_made (map (kept keep) vs) l arr c h h'"
    and "s = scalar \<Longrightarrow> granted h \<Longrightarrow> good_entries h ks kvs \<Longrightarrow> deref h m = Some c \<Longrightarrow> wv_data c = WMap ks ws
      \<Longrightarrow> \<exists>h'. decode_entries s kvs m h = Some h' \<and> entries_made (map (map_prod (kept keep) (kept keep)) kvs) m ks ws c h h'"
proof (induction s v h and s vs l h and s kvs m h arbitrary: and c arr and ks ws c
    rule: decode_value_decode_items_decode_entries.induct)
  case (1 s vs h)
  obtain l h1 where n: "webview_value_new_list h = (l, h1)" by fastforce
  note new = new_cell [OF n [unfolded webview_value_new_list_def] "1.prems"(2)]
  from "1.prems"(3) have "list_all sendable vs" by (simp add: list_all_iff)
  from "1.IH" [OF n [symmetric] "1.prems"(1) new(3) this, of "\<lparr>wv_refs = 1, wv_data = WList webview_ptr_array_new_with_free_func\<rparr>"] new(4)
  obtain h' where "decode_items s vs l h1 = Some h'" "items_made (map (kept keep) vs) l webview_ptr_array_new_with_free_func
      \<lparr>wv_refs = 1, wv_data = WList webview_ptr_array_new_with_free_func\<rparr> h1 h'" by auto
  with n items_root [OF n "1.prems"(2)] show ?case by simp
next
  case (2 s kvs h)
  obtain l h1 where n: "webview_value_new_map h = (l, h1)" by fastforce
  note new = new_cell [OF n [unfolded webview_value_new_map_def] "2.prems"(2)]
  from "2.prems"(3) have sendable: "list_all (\<lambda>(k, v). simple_key k \<and> sendable v) kvs" "list_all (simple_key \<circ> fst) kvs"
      "sorted_wrt (\<lambda>p q. \<not> same_payload p q) (map (key_payload \<circ> fst) kvs)"
    by (auto simp: list_all_iff)
  then have "good_entries h1 webview_ptr_array_new_with_free_func kvs"
    by (simp add: good_entries_def webview_ptr_array_new_with_free_func_def)
  from "2.IH" [OF n [symmetric] "2.prems"(1) new(3) this, of "\<lparr>wv_refs = 1, wv_data = WMap webview_ptr_array_new_with_free_func
      webview_ptr_array_new_with_free_func\<rparr>"] new(4)
  obtain h' where "decode_entries s kvs l h1 = Some h'" "entries_made (map (map_prod (kept keep) (kept keep)) kvs) l
      webview_ptr_array_new_with_free_func webview_ptr_array_new_with_free_func
      \<lparr>wv_refs = 1, wv_data = WMap webview_ptr_array_new_with_free_func webview_ptr_array_new_with_free_func\<rparr> h1 h'" by auto
  with n entries_root [OF n "2.prems"(2) _ kept_entries_apart [OF sendable(2,3)]] show ?case by simp
next
  case (4 s l h)
  then show ?case by (auto simp: items_made_def intro!: exI [of _ arr])
next
  case (5 s v vs l h)
  from "5.IH"(1) [OF "5.prems"(1,2)] "5.prems"(3) obtain a h1
    where d: "decode_value s v h = Some (a, h1)" and made: "made (kept keep v) h a h1" by auto
  from made obtain ca where a: "a = length (wh_cells h)" "granted h1" "deref h1 a = Some ca" "wv_refs ca = 1"
    and low: "\<And>b. b < length (wh_cells h) \<Longrightarrow> deref h1 b = deref h b"
    by (auto simp: made_def)
  from "5.prems"(4) have lt: "l < length (wh_cells h)" by (rule deref_lt)
  then have l1: "deref h1 l = Some c" and "a \<noteq> l" using low "5.prems"(4) a(1) by simp_all
  obtain h2 h3 arr1 where h2: "webview_value_append h1 (Some l) (Some a) = Some h2" "webview_value_unref h2 (Some a) = Some h3"
    and h3: "pdata arr1 = pdata arr @ [a]" "length (wh_cells h3) = length (wh_cells h1)" "granted h3"
      "\<And>b. deref h3 b = (if b = l then Some (c\<lparr>wv_data := WList arr1\<rparr>) else deref h1 b)"
    by (rule append_item [OF l1 "5.prems"(5) a(3,4) \<open>a \<noteq> l\<close> a(2)]) (rule that)
  from "5.IH"(2) [OF d refl h2 "5.prems"(1) h3(3), of "c\<lparr>wv_data := WList arr1\<rparr>" arr1] "5.prems"(3) h3(4)
  obtain h' where "decode_items s vs l h3 = Some h'"
    "items_made (map (kept keep) vs) l arr1 (c\<lparr>wv_data := WList arr1\<rparr>) h3 h'" by auto
  with items_Cons [OF "5.prems"(4,5) made h2 h3(1,2,4)] d h2 show ?case by simp
next
  case (6 s m h)
  then have "\<exists>ks' vs'. c = c\<lparr>wv_data := WMap ks' vs'\<rparr> \<and> pdata ks' = pdata ks \<and> pdata vs' = pdata ws"
    by - (rule exI [of _ ks], rule exI [of _ ws], simp)
  with 6 show ?case by (simp add: entries_made_def)
next
  case (7 s k v kvs m h)
  from "7.prems"(3) have k: "simple_key k" "sendable k" "sendable v" by (auto simp: good_entries_def simple_sendable)
  from "7.IH"(1) [OF "7.prems"(1,2) k(2)] obtain a h1
    where da: "decode_value s k h = Some (a, h1)" and key: "made (kept keep k) h a h1" by auto
  then have "granted h1" by (simp add: made_def)
  from "7.IH"(2) [OF da refl "7.prems"(1) this k(3)] obtain b h2
    where db: "decode_value s v h1 = Some (b, h2)" and val: "made (kept keep v) h1 b h2" by auto
  from key obtain ca where a: "a = length (wh_cells h)" "length (wh_cells h) < length (wh_cells h1)" "deref h1 a = Some ca" "wv_refs ca = 1"
    and low: "\<And>z. z < length (wh_cells h) \<Longrightarrow> deref h1 z = deref h z" by (auto simp: made_def)
  from val obtain cb where b: "b = length (wh_cells h1)" "granted h2" "deref h2 b = Some cb" "wv_refs cb = 1"
    and low2: "\<And>z. z < length (wh_cells h1) \<Longrightarrow> deref h2 z = deref h1 z" by (auto simp: made_def)
  from "7.prems"(4) have lt: "m < length (wh_cells h)" by (rule deref_lt)
  have a2: "deref h2 a = Some ca" using a low2 by simp
  have m2: "deref h2 m = Some c" using lt a low low2 "7.prems"(4) by simp
  have "scalar k h = Some (a, h1)" using da "7.prems"(1) decode_plain [OF simple_plain [OF k(1)]] by simp
  from made_key [OF k(1) this] a(3) have ka: "wv_data ca = key_payload k" by simp
  have apart: "\<exists>cy. deref h2 y = Some cy \<and> \<not> same_payload (wv_data cy) (key_payload k)" if "y \<in> set (pdata ks)" for y
  proof -
    from "7.prems"(3) that obtain cy where "deref h y = Some cy" "\<not> same_payload (wv_data cy) (key_payload k)"
      by (auto simp: good_entries_def)
    moreover from this(1) have "deref h2 y = deref h y" using deref_lt [of h y] a low low2 by simp
    ultimately show ?thesis by simp
  qed
  have ne: "a \<noteq> b" "a \<noteq> m" "b \<noteq> m" using a b lt by auto
  obtain h3 h4 ks1 vs1 where h3: "webview_value_set h2 (Some m) (Some a) (Some b) = Some h3" "unref_all h3 [a, b] = Some h4"
    and h4: "pdata ks1 = pdata ks @ [a]" "pdata vs1 = pdata ws @ [b]" "length (wh_cells h4) = length (wh_cells h2)" "granted h4"
      "\<And>z. deref h4 z = (if z = m then Some (c\<lparr>wv_data := WMap ks1 vs1\<rparr>) else deref h2 z)"
    by (rule set_entry [OF m2 "7.prems"(5) a2 a(4) b(3,4) ne b(2) ka apart]) (assumption, rule that)
  have "\<exists>cy. deref h4 y = Some cy \<and> list_all (\<lambda>(k, v). \<not> same_payload (wv_data cy) (key_payload k)) kvs"
    if "y \<in> set (pdata ks1)" for y
  proof (cases "y = a")
    case True
    with "7.prems"(3) ka a2 h4(5) ne show ?thesis by (auto simp: good_entries_def list_all_iff)
  next
    case False
    with that h4(1) "7.prems"(3) obtain cy where y: "deref h y = Some cy"
        "list_all (\<lambda>(k, v). \<not> same_payload (wv_data cy) (key_payload k)) kvs"
      by (auto simp: good_entries_def)
    from y(1) have "deref h2 y = Some cy" using deref_lt [of h y] a low low2 by simp
    moreover from y(1) "7.prems"(4,5) have "y = m \<Longrightarrow> wv_data cy = WMap ks ws" by simp
    ultimately show ?thesis using y(2) h4(5)
      by (cases "y = m") (auto simp: list_all_iff same_payload_def key_payload_def split: FlutterValue.splits)
  qed
  with "7.prems"(3) have good: "good_entries h4 ks1 kvs" by (simp add: good_entries_def)
  have flat: "\<exists>ck. deref h1 a = Some ck \<and> flat (wv_data ck)" using a(3) ka key_payload_flat by simp
  from "7.IH"(3) [OF da refl db refl h3 "7.prems"(1) h4(4) good, of "c\<lparr>wv_data := WMap ks1 vs1\<rparr>" vs1] h4(5)
  obtain h' where "decode_entries s kvs m h4 = Some h'" "entries_made (map (map_prod (kept keep) (kept keep)) kvs) m ks1 vs1
      (c\<lparr>wv_data := WMap ks1 vs1\<rparr>) h4 h'" by auto
  with entries_Cons [OF "7.prems"(4,5) key val flat h3 h4(1-3,5)] da db h3 show ?case by simp
qed (auto simp: made_scalar plain_def)

lemma round_trip:
  assumes "client_ok (h, e)" and "sendable v"
  shows "\<exists>a h'. decode_value scalar v h = Some (a, h') \<and> encode_depth (Suc (length (wh_cells h'))) read h' (Some a) = Some (kept keep v)
     \<and> client_ok (h', holding e [a]) \<and> (\<forall>b < length (wh_cells h). deref h' b = deref h b)
     \<and> (\<exists>h''. webview_value_unref h' (Some a) = Some h'' \<and> client_ok (h'', e))"
proof -
  from assms(1) have "granted h" by (simp add: client_ok_def)
  from decode_made(1) [OF refl this assms(2)] obtain a h'
    where d: "decode_value scalar v h = Some (a, h')" and m: "made (kept keep v) h a h'" by auto
  from m assms(1) have ok: "client_ok (h', holding e [a])" unfolding made_def by blast
  then have "owned h' (holding e [a])" by (simp add: client_ok_def)
  from owned_unref [OF this] obtain h'' where u: "webview_value_unref h' (Some a) = Some h''" by blast
  have "encode_depth (Suc (length (wh_cells h'))) read h' (Some a) = Some (kept keep v)"
  proof (rule encode_mono)
    show "heap_le (above (length (wh_cells h)) h') h'" by (simp add: heap_le_def)
    show "encode_depth (length (wh_cells h') - length (wh_cells h)) read (above (length (wh_cells h)) h') (Some a) = Some (kept keep v)"
      using m unfolding made_def by blast
  qed simp
  moreover from m have "\<forall>b < length (wh_cells h). deref h' b = deref h b" unfolding made_def by blast
  ultimately show ?thesis using d ok u client_unref_one [OF ok u] by blast
qed

end


section \<open>The two builds\<close>

text \<open>The payload a build gives a value that is no container, and what it reads back of it.\<close>

definition elinux_payload :: "FlutterValue \<Rightarrow> WPayload" where
  "elinux_payload v =
     (case v of
        FvBool b \<Rightarrow> WBool b
      | FvInt32 i \<Rightarrow> WInt (scast i)
      | FvInt i \<Rightarrow> WInt i
      | FvFloat d \<Rightarrow> WDouble d
      | FvString s \<Rightarrow> WString by_malloc (c_str s)
      | _ \<Rightarrow> WNull)"

definition linux_payload :: "FlutterValue \<Rightarrow> WPayload" where
  "linux_payload v =
     (case v of
        FvUint8s xs \<Rightarrow> WUint8List xs
      | FvInt32s xs \<Rightarrow> WInt32List xs
      | FvInt64s xs \<Rightarrow> WInt64List xs
      | FvFloat32s xs \<Rightarrow> WFloatList xs
      | FvFloats xs \<Rightarrow> WDoubleList xs
      | _ \<Rightarrow> elinux_payload v)"

definition linux_keep :: "FlutterValue \<Rightarrow> FlutterValue" where
  "linux_keep v =
     (case v of FvInt32 i \<Rightarrow> FvInt (scast i) | FvString s \<Rightarrow> FvString (c_str s) | FvCustom \<Rightarrow> FvNull | _ \<Rightarrow> v)"

definition elinux_keep :: "FlutterValue \<Rightarrow> FlutterValue" where
  "elinux_keep v =
     (case v of
        FvUint8s xs \<Rightarrow> FvNull
      | FvInt32s xs \<Rightarrow> FvNull
      | FvInt64s xs \<Rightarrow> FvNull
      | FvFloat32s xs \<Rightarrow> FvNull
      | FvFloats xs \<Rightarrow> FvNull
      | _ \<Rightarrow> linux_keep v)"

lemmas scalar_makers = copy_list_def webview_value_new_null_def webview_value_new_bool_def webview_value_new_int_def
  webview_value_new_double_def webview_value_new_string_def webview_value_new_uint8_list_def webview_value_new_int32_list_def
  webview_value_new_int64_list_def webview_value_new_float_list_def webview_value_new_double_list_def

lemmas scalar_readers = getter_def webview_value_get_bool_def webview_value_get_int_def webview_value_get_float_def
  webview_value_get_double_def webview_value_get_string_def webview_value_get_uint8_list_def
  webview_value_get_int32_list_def webview_value_get_int64_list_def webview_value_get_float_list_def
  webview_value_get_double_list_def

lemmas scalar_payloads = linux_payload_def elinux_payload_def linux_keep_def elinux_keep_def key_payload_def key_value_def
  plain_def simple_key_def

interpretation linux: channel_codec linux_scalar linux_read linux_payload linux_keep
proof unfold_locales
  fix v h
  show "plain v \<Longrightarrow> linux_scalar v h = Some (webview_value_new h (linux_payload v))"
    by (cases v) (simp_all add: linux_scalar_def scalar_payloads scalar_makers)
  show "plain v \<Longrightarrow> children (linux_payload v) = [] \<and> \<not> frees_new (linux_payload v) \<and> aligned (linux_payload v)
          \<and> type_of_payload (linux_payload v) \<notin> {Webview_Value_Type_List, Webview_Value_Type_Map}"
    by (cases v) (simp_all add: scalar_payloads)
  show "simple_key v \<Longrightarrow> linux_payload v = key_payload v" "simple_key v \<Longrightarrow> linux_keep v = key_value v"
    by (cases v; simp add: scalar_payloads)+
next
  fix v h a c
  show "plain v \<Longrightarrow> deref h a = Some c \<Longrightarrow> wv_data c = linux_payload v
      \<Longrightarrow> linux_read (type_of_payload (linux_payload v)) h (Some a) = Some (linux_keep v)"
    by (cases v) (simp_all add: scalar_payloads linux_read_def elinux_read_def scalar_readers)
next
  fix h a c g t
  show "deref h a = Some c \<Longrightarrow> deref g a = Some c \<Longrightarrow> linux_read t g (Some a) = linux_read t h (Some a)"
    by (simp add: linux_read_def elinux_read_def scalar_readers split: WValueType.split)
next
  fix t g h
  show "linux_read t g None = linux_read t h None"
    by (simp add: linux_read_def elinux_read_def scalar_readers split: WValueType.split)
qed

interpretation elinux: channel_codec elinux_scalar elinux_read elinux_payload elinux_keep
proof unfold_locales
  fix v h
  show "plain v \<Longrightarrow> elinux_scalar v h = Some (webview_value_new h (elinux_payload v))"
    by (cases v) (simp_all add: elinux_scalar_def scalar_payloads scalar_makers)
  show "plain v \<Longrightarrow> children (elinux_payload v) = [] \<and> \<not> frees_new (elinux_payload v) \<and> aligned (elinux_payload v)
          \<and> type_of_payload (elinux_payload v) \<notin> {Webview_Value_Type_List, Webview_Value_Type_Map}"
    by (cases v) (simp_all add: scalar_payloads)
  show "simple_key v \<Longrightarrow> elinux_payload v = key_payload v" "simple_key v \<Longrightarrow> elinux_keep v = key_value v"
    by (cases v; simp add: scalar_payloads)+
next
  fix v h a c
  show "plain v \<Longrightarrow> deref h a = Some c \<Longrightarrow> wv_data c = elinux_payload v
      \<Longrightarrow> elinux_read (type_of_payload (elinux_payload v)) h (Some a) = Some (elinux_keep v)"
    by (cases v) (simp_all add: scalar_payloads elinux_read_def scalar_readers)
next
  fix h a c g t
  show "deref h a = Some c \<Longrightarrow> deref g a = Some c \<Longrightarrow> elinux_read t g (Some a) = elinux_read t h (Some a)"
    by (simp add: elinux_read_def scalar_readers split: WValueType.split)
next
  fix t g h
  show "elinux_read t g None = elinux_read t h None"
    by (simp add: elinux_read_def scalar_readers split: WValueType.split)
qed

section \<open>A sample\<close>

definition empty_heap :: WHeap where
  "empty_heap = \<lparr>wh_cells = [], wh_grants = (\<lambda>_. True), wh_asked = 0\<rparr>"

lemma client_empty: "client_ok (empty_heap, \<lambda>_. 0)"
  using empty_client_ok [of "\<lambda>_. True"] by (simp add: empty_client_def empty_heap_def)

definition sample_value :: FlutterValue where
  "sample_value = FvMap [(FvString ''a'', FvList [FvInt32 1, FvUint8s [7]]), (FvInt32 (- 1), FvCustom)]"

lemma sample_sendable: "sendable sample_value"
  by (simp add: sample_value_def simple_key_def same_payload_def key_payload_def)

section \<open>The round trip\<close>

text \<open>C23. (GTK) A value the application sends is made without an allocation lost or touched twice: the cells that
were there stay as they were, the caller holds the one reference of the new value, and releasing it gives the
books as they were. Answered unchanged, the value comes back with its integers widened, its strings ended at
their first NUL and its custom values null, and otherwise as it was: bytes and typed lists, doubles bit for
bit, lists in order, maps entry by entry as long as their keys are simple and stay apart.\<close>

theorem gtk_value_round_trip:
  assumes "client_ok (h, e)" and "sendable v"
  shows "\<exists>a h'. encode_flvalue_to_wvalue v h = Some (a, h') \<and> encode_wavlue_to_flvalue h' (Some a) = Some (kept linux_keep v)
     \<and> client_ok (h', holding e [a]) \<and> (\<forall>b < length (wh_cells h). deref h' b = deref h b)
     \<and> (\<exists>h''. webview_value_unref h' (Some a) = Some h'' \<and> client_ok (h'', e))"
  using linux.round_trip [OF assms] by (simp add: encode_flvalue_to_wvalue_def encode_wavlue_to_flvalue_def)

lemma gtk_value_round_trip_witness:
  "\<exists>a h'. encode_flvalue_to_wvalue sample_value empty_heap = Some (a, h')
     \<and> encode_wavlue_to_flvalue h' (Some a)
       = Some (FvMap [(FvString ''a'', FvList [FvInt 1, FvUint8s [7]]), (FvInt (- 1), FvNull)])"
  using gtk_value_round_trip [OF client_empty sample_sendable] by (auto simp: sample_value_def linux_keep_def c_str_def)

text \<open>C24. (Embedded Linux) The same of the embedded build, except that its decoder knows no typed lists: bytes and
lists of numbers the application sends arrive, and come back, as null.\<close>

theorem embedded_value_round_trip:
  assumes "client_ok (h, e)" and "sendable v"
  shows "\<exists>a h'. decode_to_wvalue v h = Some (a, h') \<and> encode_wvalue h' (Some a) = Some (kept elinux_keep v)
     \<and> client_ok (h', holding e [a]) \<and> (\<forall>b < length (wh_cells h). deref h' b = deref h b)
     \<and> (\<exists>h''. webview_value_unref h' (Some a) = Some h'' \<and> client_ok (h'', e))"
  using elinux.round_trip [OF assms] by (simp add: decode_to_wvalue_def encode_wvalue_def)

lemma embedded_value_round_trip_witness:
  "\<exists>a h'. decode_to_wvalue sample_value empty_heap = Some (a, h')
     \<and> encode_wvalue h' (Some a) = Some (FvMap [(FvString ''a'', FvList [FvInt 1, FvNull]), (FvInt (- 1), FvNull)])"
  using embedded_value_round_trip [OF client_empty sample_sendable]
  by (auto simp: sample_value_def elinux_keep_def linux_keep_def c_str_def)

end
