(* ===== verification/Platform_Plugins.thy ===== *)
theory Platform_Plugins
  imports Channel_Proofs Plugin_Calls
begin

text \<open>
  The plugins of the two Linux builds around the webview plugin
  (\<open>packages/webview_cef/linux/webview_cef_plugin.cc\<close>, \<open>packages/webview_cef/elinux/webview_cef_plugin.cc\<close> and
  their \<open>webview_cef_texture.h\<close>): a call of the method channel on its way in and out, the table of the
  plugins of the process, and the texture a browser paints on.
\<close>

section \<open>A call of the channel\<close>

datatype MethodResponse = RespondSuccess FlutterValue | RespondError "FlutterValue option" | RespondNotImplemented

text \<open>
  \<open>pending\<close> holds what an answer will release: in the GTK build a reference on the call, in the embedded one
  the result object and the arguments. The closure of an answered call finds its entry gone.
\<close>

record PlatformPlugin =
  web_plugin :: WebviewPlugin
  pending :: "(nat \<times> addr option) list"

datatype PlatformError = InPlugin PluginError | MisusedValue | AnsweredTwice

datatype PlatformEffect =
    Responded nat MethodResponse
  | Invoked string FlutterValue
  | PluginDid PluginEffect

text \<open>The closures that answer a call. The embedded one leaves the details of an error out.\<close>

definition gtk_result :: "int \<Rightarrow> WHeap \<Rightarrow> WPtr \<Rightarrow> MethodResponse option" where
  "gtk_result ret h responseArgs =
     (if ret > 0 then map_option RespondSuccess (encode_wavlue_to_flvalue h responseArgs)
      else if ret < 0 then map_option (\<lambda>v. RespondError (Some v)) (encode_wavlue_to_flvalue h responseArgs)
      else Some RespondNotImplemented)"

definition embedded_result :: "int \<Rightarrow> WHeap \<Rightarrow> WPtr \<Rightarrow> MethodResponse option" where
  "embedded_result ret h responseArgs =
     (if ret > 0 then map_option RespondSuccess (encode_wvalue h responseArgs)
      else if ret < 0 then Some (RespondError None)
      else Some RespondNotImplemented)"

definition release_arguments :: "addr option \<Rightarrow> WHeap \<Rightarrow> WHeap option" where
  "release_arguments args h = (case args of None \<Rightarrow> Some h | Some a \<Rightarrow> webview_value_unref h (Some a))"

text \<open>
  What the plugin did, as the platform sees it: answers go through the closure of their call, and events
  are encoded and sent. A value answered or sent is read in the heap of that moment. The plugin has read its
  arguments before it answers and shares no value with them, so they are released after what it did.
\<close>

fun platform_effects ::
    "(WHeap \<Rightarrow> WPtr \<Rightarrow> FlutterValue option) \<Rightarrow> (int \<Rightarrow> WHeap \<Rightarrow> WPtr \<Rightarrow> MethodResponse option) \<Rightarrow> PluginEffect list
     \<Rightarrow> PlatformPlugin \<Rightarrow> PlatformError + (PlatformPlugin \<times> PlatformEffect list)" where
  "platform_effects encode result [] p = Inr (p, [])"
| "platform_effects encode result (e # es) p =
     (case (case e of
              ResultOf call ret v \<Rightarrow>
                (case map_of (pending p) call of
                   None \<Rightarrow> Inl AnsweredTwice
                 | Some args \<Rightarrow>
                     let (responseArgs, h) = (case v of None \<Rightarrow> (None, values_heap (web_plugin p)) | Some (a, h) \<Rightarrow> (Some a, h))
                     in case (result ret h responseArgs, release_arguments args (values_heap (web_plugin p))) of
                          (Some r, Some h) \<Rightarrow>
                            Inr (p\<lparr>web_plugin := (web_plugin p)\<lparr>values_heap := h\<rparr>, pending := AList.delete call (pending p)\<rparr>,
                                 Responded call r)
                        | _ \<Rightarrow> Inl MisusedValue)
            | InvokeMethod name a h \<Rightarrow>
                (case encode h (Some a) of None \<Rightarrow> Inl MisusedValue | Some v \<Rightarrow> Inr (p, Invoked name v))
            | _ \<Rightarrow> Inr (p, PluginDid e)) of
        Inl err \<Rightarrow> Inl err
      | Inr (p, sent) \<Rightarrow> map_sum id (map_prod id ((#) sent)) (platform_effects encode result es p))"

definition gtk_effects :: "PluginEffect list \<Rightarrow> PlatformPlugin \<Rightarrow> PlatformError + (PlatformPlugin \<times> PlatformEffect list)" where
  "gtk_effects = platform_effects encode_wavlue_to_flvalue gtk_result"

definition embedded_effects :: "PluginEffect list \<Rightarrow> PlatformPlugin \<Rightarrow> PlatformError + (PlatformPlugin \<times> PlatformEffect list)" where
  "embedded_effects = platform_effects encode_wvalue embedded_result"

text \<open>The GTK build releases the arguments when \<open>HandleMethodCall\<close> has returned.\<close>

definition webview_cef_plugin_handle_method_call ::
    "PluginHost \<Rightarrow> string \<Rightarrow> FlutterValue \<Rightarrow> PlatformPlugin \<Rightarrow> PlatformError + (PlatformPlugin \<times> PlatformEffect list)" where
  "webview_cef_plugin_handle_method_call env method args p =
     (case encode_flvalue_to_wvalue args (values_heap (web_plugin p)) of
        None \<Rightarrow> Inl MisusedValue
      | Some (encodeArgs, h) \<Rightarrow>
          (case HandleMethodCall env method (Some encodeArgs) ((web_plugin p)\<lparr>values_heap := h\<rparr>) of
             Inl e \<Rightarrow> Inl (InPlugin e)
           | Inr (st, es) \<Rightarrow>
               (case gtk_effects es (p\<lparr>web_plugin := st, pending := (call_id env, None) # pending p\<rparr>) of
                  Inl e \<Rightarrow> Inl e
                | Inr (p, done) \<Rightarrow>
                    (case webview_value_unref (values_heap (web_plugin p)) (Some encodeArgs) of
                       None \<Rightarrow> Inl MisusedValue
                     | Some h \<Rightarrow> Inr (p\<lparr>web_plugin := (web_plugin p)\<lparr>values_heap := h\<rparr>\<rparr>, done)))))"

text \<open>The embedded build releases them in the closure. A call without arguments has null.\<close>

definition embedded_HandleMethodCall ::
    "PluginHost \<Rightarrow> string \<Rightarrow> FlutterValue option \<Rightarrow> PlatformPlugin \<Rightarrow> PlatformError + (PlatformPlugin \<times> PlatformEffect list)" where
  "embedded_HandleMethodCall env method arguments p =
     (case decode_to_wvalue (case arguments of None \<Rightarrow> FvNull | Some v \<Rightarrow> v) (values_heap (web_plugin p)) of
        None \<Rightarrow> Inl MisusedValue
      | Some (args, h) \<Rightarrow>
          (case HandleMethodCall env method (Some args) ((web_plugin p)\<lparr>values_heap := h\<rparr>) of
             Inl e \<Rightarrow> Inl (InPlugin e)
           | Inr (st, es) \<Rightarrow>
               embedded_effects es (p\<lparr>web_plugin := st, pending := (call_id env, Some args) # pending p\<rparr>)))"

section \<open>The plugins of the process\<close>

text \<open>
  \<open>webviewPlugins\<close> maps a window to the plugin that was registered for it first: \<open>emplace\<close> leaves an entry as it
  is. \<open>dispose\<close>, and the destructor of the embedded build, answer whether they shut CEF down.
\<close>

type_synonym PluginTable = "(int \<times> nat) list"

definition register_with_registrar :: "int \<Rightarrow> nat \<Rightarrow> PluginTable \<Rightarrow> PluginTable" where
  "register_with_registrar window plugin webviewPlugins =
     (if map_of webviewPlugins window = None then (window, plugin) # webviewPlugins else webviewPlugins)"

definition webview_cef_plugin_dispose :: "int \<Rightarrow> PluginTable \<Rightarrow> PluginTable \<times> bool" where
  "webview_cef_plugin_dispose window webviewPlugins =
     (let webviewPlugins = AList.delete window webviewPlugins in (webviewPlugins, webviewPlugins = []))"

section \<open>The texture\<close>

text \<open>
  Sizes are unsigned, a pixel is a word of 32 bits. The ways a frame is undefined: a buffer of an array
  released with \<open>delete\<close>, a size an \<open>int\<close> cannot hold, and a picture smaller than its size.
\<close>

record WebviewCefTexture =
  tex_buffer :: "u32 list option"
  tex_width :: u32
  tex_height :: u32

definition WebviewCefTexture_init :: WebviewCefTexture where
  "WebviewCefTexture_init = \<lparr>tex_buffer = None, tex_width = 0, tex_height = 0\<rparr>"

datatype FrameError = DeleteOfArray | SizeOverflow | BadArrayLength | ReadPastEnd

text \<open>\<open>new uint8_t[width * height * 4]\<close>, for pixels.\<close>

definition new_buffer :: "int \<Rightarrow> int \<Rightarrow> FrameError + u32 list" where
  "new_buffer width height =
     (let size = width * height * 4
      in if size < - (2 ^ 31) \<or> 2 ^ 31 \<le> size then Inl SizeOverflow
         else if size < 0 then Inl BadArrayLength
         else Inr (replicate (nat (width * height)) 0))"

definition show_frame :: "u32 list \<Rightarrow> int \<Rightarrow> int \<Rightarrow> u32 list \<Rightarrow> WebviewCefTexture \<Rightarrow> FrameError + WebviewCefTexture" where
  "show_frame frame width height dest t =
     (case SwapBufferFromBgraToRgba dest frame width height of
        None \<Rightarrow> Inl ReadPastEnd
      | Some pixels \<Rightarrow> Inr (t\<lparr>tex_buffer := (if tex_buffer t = None then None else Some pixels)\<rparr>))"

definition gtk_onFrame :: "u32 list \<Rightarrow> int \<Rightarrow> int \<Rightarrow> WebviewCefTexture \<Rightarrow> FrameError + WebviewCefTexture" where
  "gtk_onFrame frame width height t =
     (let t = t\<lparr>tex_width := of_int width, tex_height := of_int height\<rparr>
      in if tex_buffer t \<noteq> None then Inl DeleteOfArray
         else case new_buffer width height of
                Inl e \<Rightarrow> Inl e
              | Inr buffer \<Rightarrow> show_frame frame width height buffer (t\<lparr>tex_buffer := Some buffer\<rparr>))"

definition embedded_onFrame :: "u32 list \<Rightarrow> int \<Rightarrow> int \<Rightarrow> WebviewCefTexture \<Rightarrow> FrameError + WebviewCefTexture" where
  "embedded_onFrame frame width height t =
     (if tex_width t \<noteq> of_int width \<or> tex_height t \<noteq> of_int height
      then case new_buffer width height of
             Inl e \<Rightarrow> Inl e
           | Inr buffer \<Rightarrow>
               show_frame frame width height buffer
                 (t\<lparr>tex_width := of_int width, tex_height := of_int height, tex_buffer := Some buffer\<rparr>)
      else show_frame frame width height (case tex_buffer t of None \<Rightarrow> [] | Some pixels \<Rightarrow> pixels) t)"

text \<open>What the engine is given: the buffer with the size, in both builds.\<close>

definition copy_pixels :: "WebviewCefTexture \<Rightarrow> u32 list option \<times> u32 \<times> u32" where
  "copy_pixels t = (tex_buffer t, tex_width t, tex_height t)"


section \<open>A build with its closure\<close>

fun responses :: "PlatformEffect list \<Rightarrow> (nat \<times> MethodResponse) list" where
  "responses [] = []"
| "responses (e # es) = (case e of Responded call r \<Rightarrow> [(call, r)] | _ \<Rightarrow> []) @ responses es"

lemma responses_append [simp]: "responses (xs @ ys) = responses xs @ responses ys"
  by (induction xs) auto

lemma responses_did [simp]: "responses (map PluginDid es) = []"
  by (induction es) auto

definition plain_response :: "MethodResponse \<Rightarrow> bool" where
  "plain_response r \<longleftrightarrow> r = RespondNotImplemented \<or> r = RespondSuccess FvNull \<or> (\<exists>b. r = RespondSuccess (FvBool b))"

text \<open>An argument that is a text, at a position of the list of arguments.\<close>

definition text_at :: "FlutterValue \<Rightarrow> nat \<Rightarrow> bool" where
  "text_at v n \<longleftrightarrow> (case v of FvList vs \<Rightarrow> n < length vs \<and> (\<exists>s. vs ! n = FvString s) | _ \<Rightarrow> False)"

lemma plugin_release:
  assumes "plugin_ok (holding e [a]) st"
  shows "\<exists>h. webview_value_unref (values_heap st) (Some a) = Some h \<and> plugin_ok e (st\<lparr>values_heap := h\<rparr>)"
proof -
  from assms have ok: "client_ok (values_heap st, holding e [a])" by (simp add: plugin_ok_def)
  then have "owned (values_heap st) (holding e [a])" by (simp add: client_ok_def)
  from owned_unref [OF this] obtain h where "webview_value_unref (values_heap st) (Some a) = Some h" by blast
  with client_unref_one [OF ok this] assms show ?thesis by (auto simp: plugin_ok_def)
qed

locale platform_build = channel_codec +
  fixes result :: "int \<Rightarrow> WHeap \<Rightarrow> WPtr \<Rightarrow> MethodResponse option"
  assumes read_text: "read t h p = Some (FvString s) \<Longrightarrow> webview_value_get_string h p = Some (Some s)"
    and read_no_list: "read t h p \<noteq> Some (FvList vs)"
    and result_null: "code \<in> {0, 1} \<Longrightarrow> \<exists>r. result code h None = Some r \<and> plain_response r"
    and result_bool: "code \<in> {0, 1} \<Longrightarrow> deref h a = Some c \<Longrightarrow> wv_data c = WBool b
          \<Longrightarrow> \<exists>r. result code h (Some a) = Some r \<and> plain_response r"
begin

lemma quiet_effects:
  "list_all (plain_effect call) es \<Longrightarrow> answers call es = 0 \<Longrightarrow> platform_effects encode result es p = Inr (p, map PluginDid es)"
  by (induction es) (auto split: PluginEffect.splits)

lemma answer_effect:
  assumes "plain_effect call (ResultOf c code v)" and "map_of (pending p) call = Some args"
    and "release_arguments args (values_heap (web_plugin p)) = Some h"
  shows "\<exists>r. plain_response r \<and> platform_effects encode result (ResultOf c code v # es) p
     = map_sum id (map_prod id ((#) (Responded call r)))
         (platform_effects encode result es
           (p\<lparr>web_plugin := (web_plugin p)\<lparr>values_heap := h\<rparr>, pending := AList.delete call (pending p)\<rparr>))"
proof (cases v)
  case None
  with assms result_null [of code "values_heap (web_plugin p)"] show ?thesis by auto
next
  case (Some q)
  obtain a g where q: "q = (a, g)" by fastforce
  from Some q assms(1) obtain d b where "code \<in> {0, 1}" "deref g a = Some d" "wv_data d = WBool b" by auto
  from result_bool [OF this] Some q assms show ?thesis by auto
qed

lemma one_answer:
  assumes "list_all (plain_effect call) es" and "answers call es = 1" and "map_of (pending p) call = Some args"
    and "release_arguments args (values_heap (web_plugin p)) = Some h"
  shows "\<exists>sent r. platform_effects encode result es p
       = Inr (p\<lparr>web_plugin := (web_plugin p)\<lparr>values_heap := h\<rparr>, pending := AList.delete call (pending p)\<rparr>, sent)
     \<and> responses sent = [(call, r)] \<and> plain_response r"
  using assms(1,2)
proof (induction es)
  case (Cons e es)
  show ?case
  proof (cases "\<exists>c code v. e = ResultOf c code v")
    case True
    then obtain c code v where e: "e = ResultOf c code v" by blast
    with Cons.prems have plain: "plain_effect call (ResultOf c code v)" "c = call" "list_all (plain_effect call) es" "answers call es = 0"
      by auto
    from answer_effect [OF plain(1) assms(3,4), of encode es] quiet_effects [OF plain(3,4)] show ?thesis
      unfolding e by auto
  next
    case False
    with Cons.prems have "answers call es = 1" by (simp split: PluginEffect.splits)
    with Cons show ?thesis using False by (fastforce split: PluginEffect.splits)
  qed
qed simp

lemma list_item_text:
  assumes "encode_depth n read h (Some a) = Some (FvList vs)" and "k < length vs" and "vs ! k = FvString s"
  shows "Option.bind (webview_value_get_list_value h (Some a) k) (webview_value_get_string h) \<noteq> Some None"
proof -
  from assms(1) obtain m where n: "n = Suc m" by (cases n) auto
  from assms(1) n read_no_list obtain len where len: "webview_value_get_len h (Some a) = Some len"
    and those: "those (map (\<lambda>i. case webview_value_get_list_value h (Some a) i of None \<Rightarrow> None | Some q \<Rightarrow> encode_depth m read h q) [0..<len]) = Some vs"
    by (auto simp: encode_depth.simps(2) Let_def split: option.splits WValueType.splits)
  from those_mapD [OF those] assms(2) have "(case webview_value_get_list_value h (Some a) k of None \<Rightarrow> None | Some q \<Rightarrow> encode_depth m read h q) = Some (vs ! k)"
    by (auto simp: list_all2_conv_all_nth)
  then obtain q where q: "webview_value_get_list_value h (Some a) k = Some q" "encode_depth m read h q = Some (FvString s)"
    using assms(3) by (auto split: option.splits)
  then obtain t where "read t h q = Some (FvString s)"
    by (cases m) (auto simp: encode_depth.simps(2) Let_def split: option.splits WValueType.splits)
  with q read_text show ?thesis by simp
qed

lemma call_made:
  assumes ok: "plugin_ok e st" and v: "sendable v" and name: "(name, ns) \<in> set ((''init'', []) # plain_calls)"
    and texts: "list_all (text_at v) ns"
  shows "\<exists>a h st' es. decode_value scalar v (values_heap st) = Some (a, h)
     \<and> HandleMethodCall env name (Some a) (st\<lparr>values_heap := h\<rparr>) = Inr (st', es) \<and> answers (call_id env) es = 1
     \<and> list_all (plain_effect (call_id env)) es \<and> plugin_ok (holding e [a]) st'"
proof -
  from ok have "client_ok (values_heap st, e)" by (simp add: plugin_ok_def)
  from round_trip [OF this v] obtain a h where d: "decode_value scalar v (values_heap st) = Some (a, h)"
    and enc: "encode_depth (Suc (length (wh_cells h))) read h (Some a) = Some (kept keep v)" and own: "client_ok (h, holding e [a])"
    by blast
  let ?st = "st\<lparr>values_heap := h\<rparr>"
  from ok own have ok': "plugin_ok (holding e [a]) ?st" by (simp add: plugin_ok_def)
  have "given (holding e [a]) (Some a)" by (simp add: given_def holding_def)
  moreover have "text_item ?st (Some a) n \<noteq> Some None" if "n \<in> set ns" for n
  proof -
    from that texts have "text_at v n" by (simp add: list_all_iff)
    then obtain vs s where "v = FvList vs" "n < length vs" "vs ! n = FvString s"
      by (cases v) (auto simp: text_at_def)
    with enc have "encode_depth (Suc (length (wh_cells h))) read h (Some a) = Some (FvList (map (kept keep) vs))"
      "n < length (map (kept keep) vs)" "map (kept keep) vs ! n = FvString (c_str s)"
      using keep_key [of "FvString s"] by (simp_all add: simple_key_def key_value_def)
    from list_item_text [OF this] show ?thesis by (simp add: text_item_def item_def)
  qed
  ultimately have "answered (holding e [a]) (call_id env) 1 (HandleMethodCall env name (Some a) ?st)"
    using plain_call_answered [OF ok' _ name] by blast
  with d show ?thesis by (auto simp: answered_def)
qed

end


lemma encode_null: "encode_depth (Suc n) elinux_read h None = Some FvNull" "encode_depth (Suc n) linux_read h None = Some FvNull"
  by (simp_all add: encode_depth.simps(2) webview_value_get_type_def elinux_read_def linux_read_def)

lemma encode_bool:
  "deref h a = Some c \<Longrightarrow> wv_data c = WBool b \<Longrightarrow> encode_depth (Suc n) elinux_read h (Some a) = Some (FvBool b)"
  "deref h a = Some c \<Longrightarrow> wv_data c = WBool b \<Longrightarrow> encode_depth (Suc n) linux_read h (Some a) = Some (FvBool b)"
  by (simp_all add: encode_depth.simps(2) webview_value_get_type_def elinux_read_def linux_read_def webview_value_get_bool_def getter_def)

lemmas answered_values = gtk_result_def embedded_result_def encode_wavlue_to_flvalue_def encode_wvalue_def encode_null encode_bool plain_response_def

interpretation gtk: platform_build linux_scalar linux_read linux_payload linux_keep gtk_result
proof unfold_locales
  fix t h p s vs
  show "linux_read t h p = Some (FvString s) \<Longrightarrow> webview_value_get_string h p = Some (Some s)"
    and "linux_read t h p \<noteq> Some (FvList vs)"
    by (auto simp: linux_read_def elinux_read_def split: WValueType.splits bind_splits)
next
  fix code h a c b
  show "code \<in> {0, 1} \<Longrightarrow> \<exists>r. gtk_result code h None = Some r \<and> plain_response r"
    and "code \<in> {0, 1} \<Longrightarrow> deref h a = Some c \<Longrightarrow> wv_data c = WBool b
      \<Longrightarrow> \<exists>r. gtk_result code h (Some a) = Some r \<and> plain_response r"
    by (auto simp: answered_values)
qed

interpretation embedded: platform_build elinux_scalar elinux_read elinux_payload elinux_keep embedded_result
proof unfold_locales
  fix t h p s vs
  show "elinux_read t h p = Some (FvString s) \<Longrightarrow> webview_value_get_string h p = Some (Some s)"
    and "elinux_read t h p \<noteq> Some (FvList vs)"
    by (auto simp: elinux_read_def split: WValueType.splits bind_splits)
next
  fix code h a c b
  show "code \<in> {0, 1} \<Longrightarrow> \<exists>r. embedded_result code h None = Some r \<and> plain_response r"
    and "code \<in> {0, 1} \<Longrightarrow> deref h a = Some c \<Longrightarrow> wv_data c = WBool b
      \<Longrightarrow> \<exists>r. embedded_result code h (Some a) = Some r \<and> plain_response r"
    by (auto simp: answered_values)
qed

section \<open>Calls from end to end\<close>



definition sample_platform :: PlatformPlugin where
  "sample_platform = \<lparr>web_plugin = sample_plugin, pending = []\<rparr>"


text \<open>C21. A call with a name the plugin does not know is never answered, in neither build, and the caller waits for
ever. In the embedded build its arguments, which only the answer would release, stay with it: the whole value is
still there after the call, held by nobody who could release it. The GTK build releases the arguments and keeps
the reference it took on the call.\<close>

theorem unanswered_call_leaks:
  assumes ok: "plugin_ok e (web_plugin p)" and v: "sendable v" and name: "name \<notin> fst ` set plugin_calls"
  shows "(\<exists>a p'. embedded_HandleMethodCall env name (Some v) p = Inr (p', [])
            \<and> pending p' = (call_id env, Some a) # pending p \<and> plugin_ok (holding e [a]) (web_plugin p')
            \<and> encode_wvalue (values_heap (web_plugin p')) (Some a) = Some (kept elinux_keep v))
       \<and> (\<exists>p'. webview_cef_plugin_handle_method_call env name v p = Inr (p', [])
            \<and> pending p' = (call_id env, None) # pending p \<and> plugin_ok e (web_plugin p'))"
proof
  from ok have own: "client_ok (values_heap (web_plugin p), e)" by (simp add: plugin_ok_def)
  from name have call: "HandleMethodCall env name a st = Inr (st, [])" for a st
    by (simp add: HandleMethodCall_def map_of_eq_None_iff [symmetric])
  from elinux.round_trip [OF own v] ok
  show "\<exists>a p'. embedded_HandleMethodCall env name (Some v) p = Inr (p', [])
            \<and> pending p' = (call_id env, Some a) # pending p \<and> plugin_ok (holding e [a]) (web_plugin p')
            \<and> encode_wvalue (values_heap (web_plugin p')) (Some a) = Some (kept elinux_keep v)"
    by (auto simp: embedded_HandleMethodCall_def decode_to_wvalue_def call embedded_effects_def encode_wvalue_def plugin_ok_def)
  from linux.round_trip [OF own v] ok
  show "\<exists>p'. webview_cef_plugin_handle_method_call env name v p = Inr (p', [])
            \<and> pending p' = (call_id env, None) # pending p \<and> plugin_ok e (web_plugin p')"
    by (auto simp: webview_cef_plugin_handle_method_call_def encode_flvalue_to_wvalue_def call gtk_effects_def plugin_ok_def)
qed

lemma unanswered_call_leaks_witness:
  "\<exists>a p'. embedded_HandleMethodCall sample_host ''getPlatformVersion'' (Some (FvString ''x'')) sample_platform = Inr (p', [])
     \<and> pending p' = [(4, Some a)] \<and> encode_wvalue (values_heap (web_plugin p')) (Some a) = Some (FvString ''x'')"
proof -
  have "plugin_ok (holding (\<lambda>_. 0) [0]) (web_plugin sample_platform)"
    using sample_plugin_ok by (simp add: sample_platform_def)
  from unanswered_call_leaks [OF this, of "FvString ''x''" "''getPlatformVersion''" sample_host] show ?thesis
    by (auto simp: plugin_calls_def sample_platform_def sample_host_def elinux_keep_def linux_keep_def c_str_def)
qed

section \<open>Frames\<close>

text \<open>(GTK) A texture survives one frame. The buffer is made with \<open>new[]\<close> and the next frame releases it with
\<open>delete\<close>, so that whatever frame follows a frame that was shown is undefined.\<close>

theorem second_frame_undefined:
  assumes "gtk_onFrame frame w he t = Inr t'"
  shows "gtk_onFrame frame' w' he' t' = Inl DeleteOfArray"
proof -
  from assms have "tex_buffer t' \<noteq> None" by (auto simp: gtk_onFrame_def show_frame_def Let_def split: if_splits sum.splits option.splits)
  then show ?thesis by (simp add: gtk_onFrame_def Let_def)
qed

lemma second_frame_undefined_witness:
  "\<exists>t'. gtk_onFrame [0xFF443322, 0xFF000001] 2 1 WebviewCefTexture_init = Inr t'
     \<and> gtk_onFrame [0xFF443322, 0xFF000001] 2 1 t' = Inl DeleteOfArray"
proof -
  have "gtk_onFrame [0xFF443322, 0xFF000001] 2 1 WebviewCefTexture_init
      = Inr \<lparr>tex_buffer = Some [swap_pixel 0xFF443322, swap_pixel 0xFF000001], tex_width = 2, tex_height = 1\<rparr>"
    by (simp add: gtk_onFrame_def WebviewCefTexture_init_def new_buffer_def show_frame_def SwapBufferFromBgraToRgba_def)
  with second_frame_undefined [OF this] show ?thesis by blast
qed

fun embedded_frames :: "(u32 list \<times> int \<times> int) list \<Rightarrow> WebviewCefTexture \<Rightarrow> FrameError + WebviewCefTexture" where
  "embedded_frames [] t = Inr t"
| "embedded_frames ((frame, width, height) # fs) t =
     (case embedded_onFrame frame width height t of Inl e \<Rightarrow> Inl e | Inr t \<Rightarrow> embedded_frames fs t)"

text \<open>A picture of its size, whose bytes an \<open>int\<close> can count.\<close>

definition good_frame :: "u32 list \<times> int \<times> int \<Rightarrow> bool" where
  "good_frame = (\<lambda>(frame, w, he). 0 < w \<and> 0 < he \<and> w * he * 4 < 2 ^ 31 \<and> w * he \<le> int (length frame))"

definition texture_ok :: "WebviewCefTexture \<Rightarrow> bool" where
  "texture_ok t \<longleftrightarrow> (case tex_buffer t of None \<Rightarrow> tex_width t = 0
     | Some pixels \<Rightarrow> int (length pixels) = uint (tex_width t) * uint (tex_height t))"

lemma good_sizes:
  assumes "good_frame (frame, w, he)"
  shows "w < 2 ^ 31" and "he < 2 ^ 31" and "uint (of_int w :: u32) = w" and "uint (of_int he :: u32) = he"
proof -
  from assms have p: "0 < w" "0 < he" "w * he * 4 < 2 ^ 31" unfolding good_frame_def by blast+
  then have "w * 1 \<le> w * he" "1 * he \<le> w * he" by (intro mult_left_mono mult_right_mono; simp)+
  with p show "w < 2 ^ 31" "he < 2 ^ 31" by linarith+
  with p show "uint (of_int w :: u32) = w" "uint (of_int he :: u32) = he"
    by (simp_all add: uint_word_of_int)
qed

lemma frame_shown:
  assumes "texture_ok t" and "good_frame (frame, w, he)"
  shows "\<exists>t'. embedded_onFrame frame w he t = Inr t' \<and> texture_ok t'
     \<and> copy_pixels t' = (Some (map swap_pixel (take (nat (w * he)) frame)), of_int w, of_int he)"
proof -
  note s = good_sizes [OF assms(2)]
  from assms(2) have p: "0 < w" "0 < he" "w * he * 4 < 2 ^ 31" "w * he \<le> int (length frame)"
    unfolding good_frame_def by blast+
  then have nat: "nat (w * he) \<le> length frame" "0 < w * he" by simp_all
  have "x < 2147483648" if "x * 4 < 2 ^ 31" "0 < x" for x :: int using that by simp
  from this [OF p(3) nat(2)] have small: "w * he < 2147483648" .
  have made: "new_buffer w he = Inr (replicate (nat (w * he)) 0)"
  proof -
    have "\<not> x < - (2 ^ 31)" "\<not> 2 ^ 31 \<le> x" "\<not> x < 0" if "x < 2 ^ 31" "0 \<le> x" for x :: int using that by simp_all
    note range = this [OF p(3)]
    from p(1,2) have "0 \<le> w * he * 4" by (intro mult_nonneg_nonneg) simp_all
    from range [OF this] show ?thesis unfolding new_buffer_def Let_def by (simp only: if_False simp_thms)
  qed
  note p = p nat small
  have swap: "SwapBufferFromBgraToRgba dest frame w he = Some (map swap_pixel (take (nat (w * he)) frame))"
    if "int (length dest) = w * he" for dest
    using that p by (auto simp: SwapBufferFromBgraToRgba_def Let_def)
  show ?thesis
  proof (cases "tex_width t = of_int w \<and> tex_height t = of_int he")
    case True
    with assms(1) s p obtain pixels where "tex_buffer t = Some pixels" "int (length pixels) = w * he"
      by (cases "tex_buffer t") (auto simp: texture_ok_def)
    with True swap [of pixels] p s show ?thesis
      by (auto simp: embedded_onFrame_def show_frame_def copy_pixels_def texture_ok_def)
  next
    case False
    with swap [of "replicate (nat (w * he)) 0"] p s show ?thesis
      by (auto simp: embedded_onFrame_def made show_frame_def copy_pixels_def texture_ok_def)
  qed
qed

lemma frames_shown:
  "texture_ok t \<Longrightarrow> list_all good_frame fs \<Longrightarrow> \<exists>t'. embedded_frames fs t = Inr t' \<and> texture_ok t'"
proof (induction fs arbitrary: t)
  case (Cons f fs)
  obtain frame w he where f: "f = (frame, w, he)" by (cases f)
  with Cons.prems have "good_frame (frame, w, he)" by simp
  from frame_shown [OF Cons.prems(1) this] Cons f show ?case by fastforce
qed simp

lemma embedded_frames_append:
  "embedded_frames (fs @ gs) t = (case embedded_frames fs t of Inl e \<Rightarrow> Inl e | Inr t \<Rightarrow> embedded_frames gs t)"
  by (induction fs t rule: embedded_frames.induct) (auto split: sum.split)

text \<open>C25. (Embedded Linux) Whatever frames were painted, of whatever sizes, the engine is given the last one: every
pixel of it with red and blue exchanged, with its size, and no frame reads or writes past a buffer.\<close>

theorem last_frame_shown:
  assumes "list_all good_frame (fs @ [(frame, w, he)])"
  shows "\<exists>t. embedded_frames (fs @ [(frame, w, he)]) WebviewCefTexture_init = Inr t
     \<and> copy_pixels t = (Some (map swap_pixel (take (nat (w * he)) frame)), of_int w, of_int he)"
proof -
  have "texture_ok WebviewCefTexture_init" by (simp add: texture_ok_def WebviewCefTexture_init_def)
  with frames_shown assms obtain t where t: "embedded_frames fs WebviewCefTexture_init = Inr t" "texture_ok t" by fastforce
  from assms have "good_frame (frame, w, he)" by simp
  from frame_shown [OF t(2) this] t(1) show ?thesis by (auto simp: embedded_frames_append)
qed

lemma last_frame_shown_witness:
  "\<exists>t. embedded_frames [([1, 2], 2, 1), ([0xFF443322, 0xFF000001, 9], 1, 2)] WebviewCefTexture_init = Inr t
     \<and> copy_pixels t = (Some [0xFF223344, 0xFF010000], 1, 2)"
proof -
  have "swap_pixel 0xFF443322 = 0xFF223344" "swap_pixel 0xFF000001 = 0xFF010000" by (simp_all add: swap_pixel_def)
  with last_frame_shown [of "[([1, 2], 2, 1)]" "[0xFF443322, 0xFF000001, 9]" 1 2] show ?thesis
    by (simp add: good_frame_def)
qed

end
