(* ===== verification/Event_Messages.thy ===== *)
theory Event_Messages
  imports Platform_Plugins
begin

text \<open>
  The events of a browser on their way to the application: the callback of \<open>webview_plugin.cc\<close>, the map of
  \<open>Plugin_Answers\<close>, the codec of a build and the message on the channel. \<open>event_message\<close> says what the application
  is told; the theorem that it is told so holds of both builds.
\<close>


section \<open>The map of an event\<close>

definition holds :: "WHeap \<Rightarrow> addr \<Rightarrow> addr \<Rightarrow> WPayload \<Rightarrow> bool" where
  "holds h m a p \<longleftrightarrow> a \<noteq> m \<and> (\<exists>c. deref h a = Some c \<and> wv_data c = p)"

definition holds_fields :: "WHeap \<Rightarrow> addr \<Rightarrow> (string \<times> WPayload) list \<Rightarrow> bool" where
  "holds_fields h m fs \<longleftrightarrow>
     (\<exists>c ks vs. deref h m = Some c \<and> wv_data c = WMap ks vs
        \<and> list_all2 (holds h m) (pdata ks) (map (WString by_malloc \<circ> fst) fs) \<and> list_all2 (holds h m) (pdata vs) (map snd fs))"

lemma set_string_field:
  assumes f: "holds_fields h m fs" and g: "granted h" and a: "a \<noteq> m" "deref h a = Some \<lparr>wv_refs = 1, wv_data = p\<rparr>"
    and new: "c_str k \<notin> fst ` set fs"
  obtains h' where "webview_value_set_string h (Some m) k (Some a) = Some h'" and "granted h'"
    and "holds_fields h' m (fs @ [(c_str k, p)])" and "\<And>b. b < length (wh_cells h) \<Longrightarrow> b \<noteq> m \<Longrightarrow> b \<noteq> a \<Longrightarrow> deref h' b = deref h b"
proof -
  from f obtain c ks vs where m: "deref h m = Some c" "wv_data c = WMap ks vs"
    and ks: "list_all2 (holds h m) (pdata ks) (map (WString by_malloc \<circ> fst) fs)" and vs: "list_all2 (holds h m) (pdata vs) (map snd fs)"
    by (auto simp: holds_fields_def)
  obtain l h1 where n: "webview_value_new_string h k = (l, h1)" by fastforce
  note cell = new_cell [OF n [unfolded webview_value_new_string_def] g]
  let ?h2 = "put_cell h1 a (Some \<lparr>wv_refs = 2, wv_data = p\<rparr>)"
  from deref_lt [OF m(1)] deref_lt [OF a(2)] cell(1) have ne: "l \<noteq> m" "l \<noteq> a" by simp_all
  have a1: "deref h1 a = Some \<lparr>wv_refs = 1, wv_data = p\<rparr>" using cell(4) ne a by simp
  have d2: "deref ?h2 b = (if b = l then Some \<lparr>wv_refs = 1, wv_data = WString by_malloc (c_str k)\<rparr>
      else if b = a then Some \<lparr>wv_refs = 2, wv_data = p\<rparr> else deref h b)" for b
    using cell(4) ne deref_lt [OF a1] by simp
  have hold2: "holds ?h2 m b q" if "holds h m b q" for b q
    using that cell(1) deref_lt [of h b] a(2) unfolding holds_def d2 by (cases "b = a") auto
  have "webview_value_equals ?h2 (Some y) (Some l) = Some False" if "y \<in> set (pdata ks)" for y
  proof -
    from ks that obtain k' where "k' \<in> fst ` set fs" "holds h m y (WString by_malloc k')"
      by (fastforce simp: list_all2_conv_all_nth in_set_conv_nth)
    with hold2 obtain cy where "deref ?h2 y = Some cy" "wv_data cy = WString by_malloc k'" "k' \<noteq> c_str k"
      using new by (force simp: holds_def)
    then show ?thesis using equals_key [of ?h2 y cy l "\<lparr>wv_refs = 1, wv_data = WString by_malloc (c_str k)\<rparr>" "FvString k"] d2 [of l]
      by (simp add: key_payload_def same_payload_def)
  qed
  then have "index_of (\<lambda>y. webview_value_equals ?h2 (Some y) (Some l)) 0 (pdata ks) = Some None"
    by (subst index_of_Some [where P = "\<lambda>_. False"]) auto
  moreover have m2: "deref ?h2 m = Some c" using m ne a unfolding d2 by simp
  ultimately have look: "webview_value_lookup_index ?h2 m (Some l) = Some None"
    using m by (simp add: webview_value_lookup_index_def)
  from cell(3) have "granted ?h2" by simp
  then obtain ks' h3 where k3: "webview_ptr_array_add ?h2 ks l = (ks', h3)" "pdata ks' = pdata ks @ [l]"
      "wh_cells h3 = wh_cells ?h2" "granted h3" by (rule ptr_array_add_granted)
  from k3(4) obtain vs' h4 where v4: "webview_ptr_array_add h3 vs a = (vs', h4)" "pdata vs' = pdata vs @ [a]"
      "wh_cells h4 = wh_cells h3" "granted h4" by (rule ptr_array_add_granted)
  from v4(3) k3(3) have d4: "deref h4 = deref ?h2" by (intro deref_cells) simp
  let ?h5 = "put_payload h4 m (\<lambda>_. WMap ks' vs')"
  have d5: "deref ?h5 b = (if b = m then Some (c\<lparr>wv_data := WMap ks' vs'\<rparr>) else deref ?h2 b)" for b
    using d4 m2 by simp
  have hold5: "holds ?h5 m b q" if "holds ?h2 m b q" for b q
    using that unfolding holds_def d5 by simp
  show thesis
  proof (rule that)
    show "webview_value_set_string h (Some m) k (Some a) = Some ?h5"
      using m n a1 m2 look k3(1) v4(1)
      by (simp add: webview_value_set_string_def settable_def webview_value_ref_def int32_max_def webview_value_set_take_def map_add_def)
    have "list_all2 (holds ?h5 m) (pdata ks) (map (WString by_malloc \<circ> fst) fs)" "list_all2 (holds ?h5 m) (pdata vs) (map snd fs)"
      using ks vs by (auto elim!: list_all2_mono intro: hold5 hold2)
    moreover have "holds ?h5 m l (WString by_malloc (c_str k))" "holds ?h5 m a p"
      using ne a by (auto intro!: hold5) (auto simp: holds_def d2 simp del: deref_put)
    ultimately show "holds_fields ?h5 m (fs @ [(c_str k, p)])"
      unfolding holds_fields_def d5 by (simp add: k3(2) v4(2) list_all2_appendI)
    show "deref ?h5 b = deref h b" if "b < length (wh_cells h)" "b \<noteq> m" "b \<noteq> a" for b
      using that cell(1) unfolding d5 d2 by simp
  qed (use v4(4) in simp_all)
qed


lemma set_fields_holds:
  assumes "holds_fields h m fs" and "granted h" and "list_all2 (\<lambda>a p. a \<noteq> m \<and> deref h a = Some \<lparr>wv_refs = 1, wv_data = p\<rparr>) as ps"
    and "distinct as" and "distinct (map c_str keys)" and "fst ` set fs \<inter> set (map c_str keys) = {}" and "length keys = length as"
  shows "\<exists>h'. set_fields h m (zip keys as) = Some h' \<and> holds_fields h' m (fs @ zip (map c_str keys) ps)"
  using assms
proof (induction as arbitrary: h fs ps keys)
  case (Cons a as)
  from Cons.prems(3) obtain p ps' where ps: "ps = p # ps'" "a \<noteq> m" "deref h a = Some \<lparr>wv_refs = 1, wv_data = p\<rparr>"
    "list_all2 (\<lambda>a p. a \<noteq> m \<and> deref h a = Some \<lparr>wv_refs = 1, wv_data = p\<rparr>) as ps'" by (auto simp: list_all2_Cons1)
  from Cons.prems(7) obtain k ks where keys: "keys = k # ks" by (cases keys) auto
  from Cons.prems(6) keys have new: "c_str k \<notin> fst ` set fs" by auto
  obtain h1 where h1: "webview_value_set_string h (Some m) k (Some a) = Some h1" "granted h1"
      "holds_fields h1 m (fs @ [(c_str k, p)])" "\<And>b. b < length (wh_cells h) \<Longrightarrow> b \<noteq> m \<Longrightarrow> b \<noteq> a \<Longrightarrow> deref h1 b = deref h b"
    by (rule set_string_field [OF Cons.prems(1,2) ps(2,3) new]) (rule that)
  have "list_all2 (\<lambda>a p. a \<noteq> m \<and> deref h1 a = Some \<lparr>wv_refs = 1, wv_data = p\<rparr>) as ps'"
  proof (rule list.rel_mono_strong [OF ps(4)])
    fix b q assume "b \<in> set as" and b: "b \<noteq> m \<and> deref h b = Some \<lparr>wv_refs = 1, wv_data = q\<rparr>"
    with Cons.prems(4) have "b \<noteq> a" by auto
    with b h1(4) [of b] deref_lt [of h b] show "b \<noteq> m \<and> deref h1 b = Some \<lparr>wv_refs = 1, wv_data = q\<rparr>" by simp
  qed
  moreover from Cons.prems(4-7) keys have "distinct as" "distinct (map c_str ks)"
      "fst ` set (fs @ [(c_str k, p)]) \<inter> set (map c_str ks) = {}" "length ks = length as" by auto
  ultimately obtain h' where "set_fields h1 m (zip ks as) = Some h'"
      "holds_fields h' m ((fs @ [(c_str k, p)]) @ zip (map c_str ks) ps')"
    using Cons.IH [OF h1(3,2)] by blast
  with h1(1) show ?case unfolding keys ps(1) by simp
qed simp

text \<open>The value of the channel a scalar becomes, and its payload.\<close>

definition scalar_value :: "Scalar \<Rightarrow> FlutterValue" where
  "scalar_value s = (case s of SInt i \<Rightarrow> FvInt i | SBool b \<Rightarrow> FvBool b | SDouble d \<Rightarrow> FvFloat d | SText t \<Rightarrow> FvString t)"

lemma new_scalar_value: "new_scalar h s = webview_value_new h (key_payload (scalar_value s))"
  by (cases s) (simp_all add: new_scalar_def scalar_value_def key_payload_def webview_value_new_int_def
      webview_value_new_bool_def webview_value_new_double_def webview_value_new_string_def)

lemma new_scalars_cells:
  "granted h \<Longrightarrow> new_scalars h ss = (as, h') \<Longrightarrow>
     granted h' \<and> length (wh_cells h) \<le> length (wh_cells h') \<and> (\<forall>b < length (wh_cells h). deref h' b = deref h b)
     \<and> list_all2 (\<lambda>a s. length (wh_cells h) \<le> a \<and> a < length (wh_cells h')
          \<and> deref h' a = Some \<lparr>wv_refs = 1, wv_data = key_payload (scalar_value s)\<rparr>) as ss \<and> distinct as"
proof (induction ss arbitrary: h as h')
  case (Cons s ss)
  obtain a h1 where a: "new_scalar h s = (a, h1)" by fastforce
  obtain bs h2 where bs: "new_scalars h1 ss = (bs, h2)" by fastforce
  note cell = new_cell [OF a [unfolded new_scalar_value] Cons.prems(1)]
  from Cons.IH [OF cell(3) bs] have r: "granted h2" "length (wh_cells h1) \<le> length (wh_cells h2)"
      "\<forall>b < length (wh_cells h1). deref h2 b = deref h1 b" "distinct bs"
      "list_all2 (\<lambda>a s. length (wh_cells h1) \<le> a \<and> a < length (wh_cells h2)
          \<and> deref h2 a = Some \<lparr>wv_refs = 1, wv_data = key_payload (scalar_value s)\<rparr>) bs ss" by auto
  from r(5) have "list_all2 (\<lambda>a s. length (wh_cells h) \<le> a \<and> a < length (wh_cells h2)
          \<and> deref h2 a = Some \<lparr>wv_refs = 1, wv_data = key_payload (scalar_value s)\<rparr>) bs ss"
    by (rule list_all2_mono) (use cell(2) in auto)
  moreover from r(5) have "\<forall>b\<in>set bs. length (wh_cells h1) \<le> b" by (auto simp: list_all2_conv_all_nth in_set_conv_nth)
  then have "a \<notin> set bs" using cell(1,2) by auto
  moreover have "deref h2 a = Some \<lparr>wv_refs = 1, wv_data = key_payload (scalar_value s)\<rparr>"
    using r(3) cell(1,2,4) by simp
  ultimately show ?case using Cons.prems(2) a bs r cell by auto
qed auto

definition event_map :: "(string \<times> Scalar) list \<Rightarrow> FlutterValue" where
  "event_map fs = FvMap (map (\<lambda>(k, s). (FvString (c_str k), key_value (scalar_value s))) fs)"

lemma event_holds:
  assumes g: "granted h" and keys: "distinct (map (c_str \<circ> fst) (before @ behind))"
    and e: "event_value before behind first h = Some (m, called, released)"
  shows "holds_fields called m (map (\<lambda>(k, s). (c_str k, key_payload (scalar_value s))) (before @ behind))"
proof -
  obtain as h1 where as: "new_scalars h (map snd before) = (as, h1)" by fastforce
  obtain l h2 where l: "webview_value_new_map h1 = (l, h2)" by fastforce
  obtain bs h3 where bs: "new_scalars h2 (map snd behind) = (bs, h3)" by fastforce
  from new_scalars_cells [OF g as] have 1: "granted h1" "length (wh_cells h) \<le> length (wh_cells h1)" "distinct as"
    "list_all2 (\<lambda>a s. length (wh_cells h) \<le> a \<and> a < length (wh_cells h1)
        \<and> deref h1 a = Some \<lparr>wv_refs = 1, wv_data = key_payload (scalar_value s)\<rparr>) as (map snd before)" by auto
  note cell = new_cell [OF l [unfolded webview_value_new_map_def] 1(1)]
  from new_scalars_cells [OF cell(3) bs] have 3: "granted h3" "length (wh_cells h2) \<le> length (wh_cells h3)" "distinct bs"
    "\<And>b. b < length (wh_cells h2) \<Longrightarrow> deref h3 b = deref h2 b"
    "list_all2 (\<lambda>a s. length (wh_cells h2) \<le> a \<and> a < length (wh_cells h3)
        \<and> deref h3 a = Some \<lparr>wv_refs = 1, wv_data = key_payload (scalar_value s)\<rparr>) bs (map snd behind)" by auto
  have "list_all2 (\<lambda>a s. a < l \<and> deref h3 a = Some \<lparr>wv_refs = 1, wv_data = key_payload (scalar_value s)\<rparr>) as (map snd before)"
    using 1(4) by (rule list_all2_mono) (use cell 3(4) in auto)
  moreover have "list_all2 (\<lambda>a s. l < a \<and> deref h3 a = Some \<lparr>wv_refs = 1, wv_data = key_payload (scalar_value s)\<rparr>) bs (map snd behind)"
    using 3(5) by (rule list_all2_mono) (use cell in auto)
  ultimately have dist: "distinct (as @ bs)" and
    cells: "list_all2 (\<lambda>a p. a \<noteq> l \<and> deref h3 a = Some \<lparr>wv_refs = 1, wv_data = p\<rparr>) (as @ bs)
      (map (key_payload \<circ> scalar_value \<circ> snd) (before @ behind))"
    using 1(3) 3(3)
    by (auto simp: list_all2_map2 intro!: list_all2_appendI elim!: list_all2_mono)
       (fastforce simp: list_all2_conv_all_nth in_set_conv_nth)+
  have start: "holds_fields h3 l []"
    using 3(4) [of l] cell by (simp add: holds_fields_def webview_ptr_array_new_with_free_func_def)
  have len: "length (map fst (before @ behind)) = length (as @ bs)"
    using list_all2_lengthD [OF cells] by simp
  have "distinct (map c_str (map fst (before @ behind)))" "fst ` set [] \<inter> set (map c_str (map fst (before @ behind))) = {}"
    using keys by simp_all
  from set_fields_holds [OF start 3(1) cells dist this len] obtain h4
    where "set_fields h3 l (zip (map fst (before @ behind)) (as @ bs)) = Some h4"
      "holds_fields h4 l ([] @ zip (map c_str (map fst (before @ behind))) (map (key_payload \<circ> scalar_value \<circ> snd) (before @ behind)))"
    by blast
  with e as l bs show ?thesis
    by (auto simp: event_value_def Let_def zip_map_map zip_same_conv_map comp_def split_def)
qed


context channel_codec
begin

lemma read_cell:
  assumes "simple_key v" and "holds h m a (key_payload v)"
  shows "encode_depth (Suc n) read h (Some a) = Some (key_value v)"
proof -
  from assms(2) obtain c where c: "deref h a = Some c" "wv_data c = payload v"
    using payload_key [OF assms(1)] by (auto simp: holds_def)
  then have "webview_value_get_type h (Some a) = Some (type_of_payload (payload v))"
    by (simp add: webview_value_get_type_def)
  with read_keeps [OF simple_plain [OF assms(1)] c] payload_scalar [OF simple_plain [OF assms(1)]] keep_key [OF assms(1)]
  show ?thesis by (auto simp: encode_depth.simps(2) Let_def split: WValueType.split)
qed

lemma event_read:
  assumes f: "holds_fields h m (map (\<lambda>(k, s). (c_str k, key_payload (scalar_value s))) fs)"
    and keys: "distinct (map (c_str \<circ> fst) fs)" and simple: "list_all (\<lambda>(k, s). simple_key (scalar_value s)) fs"
  shows "encode_depth (Suc (Suc n)) read h (Some m) = Some (event_map fs)"
proof -
  let ?ks = "map (\<lambda>(k, s). FvString (c_str k)) fs" and ?vs = "map (\<lambda>(k, s). key_value (scalar_value s)) fs"
  from f obtain c ks vs where m: "deref h m = Some c" "wv_data c = WMap ks vs"
    and ks: "list_all2 (\<lambda>a f. holds h m a (WString by_malloc (c_str (fst f)))) (pdata ks) fs"
    and vs: "list_all2 (\<lambda>a f. holds h m a (key_payload (scalar_value (snd f)))) (pdata vs) fs"
    by (auto simp: holds_fields_def list_all2_map2 comp_def split_def)
  have "list_all2 (\<lambda>a x. encode_depth (Suc n) read h (Some a) = Some x) (pdata ks) ?ks"
    unfolding list_all2_map2
  proof (rule list_all2_mono [OF ks])
    fix a f assume "holds h m a (WString by_malloc (c_str (fst f)))"
    then show "encode_depth (Suc n) read h (Some a) = Some (case f of (k, s) \<Rightarrow> FvString (c_str k))"
      using read_cell [of "FvString (fst f)" h m a n] by (simp add: simple_key_def key_payload_def key_value_def split_def)
  qed
  moreover have "list_all2 (\<lambda>a x. encode_depth (Suc n) read h (Some a) = Some x) (pdata vs) ?vs"
    unfolding list_all2_map2
  proof (rule list.rel_mono_strong [OF vs])
    fix a f assume "f \<in> set fs" "holds h m a (key_payload (scalar_value (snd f)))"
    then show "encode_depth (Suc n) read h (Some a) = Some (case f of (k, s) \<Rightarrow> key_value (scalar_value s))"
      using read_cell [of "scalar_value (snd f)" h m a n] simple by (auto simp: list_all_iff split_def)
  qed
  moreover have "sorted_wrt (\<lambda>p q. \<not> same_key (fst p) (fst q)) (zip ?ks ?vs)"
    using keys by (induction fs) (auto simp: same_key_def zip_map_map zip_same_conv_map intro: rev_image_eqI)
  then have "fold put_entry (zip ?ks ?vs) [] = zip ?ks ?vs" using put_entries_apart [of "[]"] by simp
  ultimately show ?thesis using encode_map [OF m, of "Suc n" ?ks ?vs]
    by (simp add: event_map_def zip_map_map zip_same_conv_map split_def)
qed

end

section \<open>The messages of the events\<close>

text \<open>What the application is told of an event: the name of the method and its argument.\<close>

primrec event_message :: "HandlerCallback \<Rightarrow> int \<Rightarrow> string list \<Rightarrow> int list \<Rightarrow> (string \<times> (string \<times> Scalar) list) option" where
  "event_message onPaintCallback i ss ns = None"
| "event_message onAcceleratedPaintCallback i ss ns = None"
| "event_message onTooltipEvent i ss ns = Some (''onTooltip'', [browser_id i, (''text'', SText (nth_text ss 0))])"
| "event_message onCursorChangedEvent i ss ns = Some (''onCursorChanged'', [browser_id i, (''type'', SInt (of_int (nth_int ns 0)))])"
| "event_message onConsoleMessageEvent i ss ns =
     Some (''onConsoleMessage'', [browser_id i, (''level'', SInt (of_int (nth_int ns 0))), (''message'', SText (nth_text ss 0)),
       (''source'', SText (nth_text ss 1)), (''line'', SInt (of_int (nth_int ns 1)))])"
| "event_message onUrlChangedEvent i ss ns = Some (''urlChanged'', [browser_id i, (''url'', SText (nth_text ss 0))])"
| "event_message onTitleChangedEvent i ss ns = Some (''titleChanged'', [browser_id i, (''title'', SText (nth_text ss 0))])"
| "event_message onJavaScriptChannelMessage i ss ns =
     Some (''javascriptChannelMessage'', [(''channel'', SText (nth_text ss 0)), (''message'', SText (nth_text ss 1)),
       (''callbackId'', SText (nth_text ss 2)), browser_id i, (''frameId'', SText (nth_text ss 3))])"
| "event_message onFocusedNodeChangeMessage i ss ns =
     Some (''onFocusedNodeChangeMessage'', [browser_id i, (''editable'', SBool (nth_int ns 0 \<noteq> 0))])"
| "event_message onImeCompositionRangeChangedMessage i ss ns =
     Some (''onImeCompositionRangeChangedMessage'', [browser_id i, (''x'', SInt (of_int (nth_int ns 0))),
       (''y'', SInt (of_int (nth_int ns 1))), (''height'', SInt (of_int (nth_int ns 2)))])"
| "event_message onLoadStart i ss ns = Some (''onLoadStart'', [browser_id i, (''urlId'', SText (nth_text ss 0))])"
| "event_message onLoadEnd i ss ns = Some (''onLoadEnd'', [browser_id i, (''urlId'', SText (nth_text ss 0))])"

lemma tell_arrives:
  assumes ok: "plugin_ok e st" and invoke: "m_invokeFunc st"
    and room: "\<And>a. held_slots (values_heap st) + e a + 16 < nat int32_max" and small: "length before + length behind \<le> 5"
    and keys: "distinct (map (c_str \<circ> fst) (before @ behind))"
    and simple: "list_all (\<lambda>(k, s). simple_key (scalar_value s)) (before @ behind)"
  shows "\<exists>st' es. tell name (event_value before behind first) st = Inr (st', es) \<and> plugin_ok e st'
     \<and> embedded_effects es p = Inr (p, [Invoked name (event_map (before @ behind))])
     \<and> gtk_effects es p = Inr (p, [Invoked name (event_map (before @ behind))])"
proof -
  from ok have own: "client_ok (values_heap st, e)" and g: "granted (values_heap st)" by (simp_all add: plugin_ok_def client_ok_def)
  have "held_slots (values_heap st) + e a + 3 * (length before + length behind) + 1 < nat int32_max" for a
    using room [of a] small by simp
  from event_balanced [OF own this] obtain m called released
    where ev: "event_value before behind first (values_heap st) = Some (m, called, released)" "deref called m \<noteq> None"
      "client_ok (released, e)" by blast
  note f = event_holds [OF g keys ev(1)]
  from ev(2) obtain k where k: "length (wh_cells called) = Suc k"
    by (cases "length (wh_cells called)") (auto simp: deref_def)
  from elinux.event_read [OF f keys simple, of k] linux.event_read [OF f keys simple, of k] k
  have "encode_wvalue called (Some m) = Some (event_map (before @ behind))"
    "encode_wavlue_to_flvalue called (Some m) = Some (event_map (before @ behind))"
    by (simp_all add: encode_wvalue_def encode_wavlue_to_flvalue_def)
  with ev ok invoke show ?thesis by (simp add: tell_def embedded_effects_def gtk_effects_def plugin_ok_def)
qed



text \<open>A callback with a message builds its map from small, distinct fields.\<close>

definition tells :: "string \<Rightarrow> (string \<times> Scalar) list \<Rightarrow> WebviewPlugin \<Rightarrow> PluginResult \<Rightarrow> bool" where
  "tells name fs st r \<longleftrightarrow>
     (\<exists>before behind first. r = tell name (event_value before behind first) st \<and> before @ behind = fs)
     \<and> length fs \<le> 5 \<and> distinct (map (c_str \<circ> fst) fs) \<and> list_all (\<lambda>(k, s). simple_key (scalar_value s)) fs"

lemma tellsI:
  "before @ behind = fs \<Longrightarrow> length fs \<le> 5 \<Longrightarrow> distinct (map (c_str \<circ> fst) fs)
     \<Longrightarrow> list_all (\<lambda>(k, s). simple_key (scalar_value s)) fs \<Longrightarrow> tells name fs st (tell name (event_value before behind first) st)"
  unfolding tells_def by blast

lemma callback_tells:
  "event_message callback i ss ns = Some (name, fs) \<Longrightarrow>
     \<exists>st'. tells name fs st' (call_callback callback i ss ns st) \<and> (\<exists>f. st' = change_renderer i f st \<or> st' = st)"
  by (cases callback)
     (fastforce simp: tooltip_value_def cursor_value_def console_value_def url_value_def title_value_def channel_value_def
       focused_node_value_def ime_range_value_def load_start_value_def load_end_value_def Let_def browser_id_def c_str_def
       scalar_value_def simple_key_def intro!: tellsI)+

text \<open>C22. An event reaches the application as what it is, in both builds: the plugin's callback for it, the map it
makes, the codec and the channel together send one message, of the name and with the fields the event has, each
number, truth value and text under its key in the order of the code; the values made for it are all released.\<close>

theorem event_reaches_application:
  assumes ok: "plugin_ok e st" and invoke: "m_invokeFunc st" and room: "\<forall>a. held_slots (values_heap st) + e a + 16 < nat int32_max"
    and message: "event_message callback i ss ns = Some (name, fs)"
  shows "\<exists>st' es. call_callback callback i ss ns st = Inr (st', es) \<and> plugin_ok e st'
     \<and> embedded_effects es p = Inr (p, [Invoked name (event_map fs)])
     \<and> gtk_effects es p = Inr (p, [Invoked name (event_map fs)])"
proof -
  from callback_tells [OF message, of st] obtain st1 f
    where tells: "tells name fs st1 (call_callback callback i ss ns st)" and st1: "st1 = change_renderer i f st \<or> st1 = st"
    by blast
  from st1 ok have same: "plugin_ok e st1" "m_invokeFunc st1 = m_invokeFunc st" "values_heap st1 = values_heap st"
    by (cases "find_renderer i st"; auto simp: change_renderer_def put_renderer_def plugin_ok_def)+
  from tells obtain before behind first where t: "call_callback callback i ss ns st = tell name (event_value before behind first) st1"
      "before @ behind = fs" and small: "length fs \<le> 5" "distinct (map (c_str \<circ> fst) fs)"
      "list_all (\<lambda>(k, s). simple_key (scalar_value s)) fs"
    unfolding tells_def by blast
  have "length before + length behind \<le> 5" using t(2) small(1) by auto
  from tell_arrives [OF same(1) _ _ this, unfolded same(2,3) t(2), OF invoke room [rule_format] small(2,3)]
  show ?thesis unfolding t(1) .
qed


lemma event_reaches_application_witness:
  "\<exists>st' es. call_callback onUrlChangedEvent 7 [''u''] [] sample_plugin = Inr (st', es)
     \<and> gtk_effects es sample_platform
       = Inr (sample_platform, [Invoked ''urlChanged'' (FvMap [(FvString ''browserId'', FvInt 7), (FvString ''url'', FvString ''u'')])])"
proof -
  have "\<forall>a. held_slots (values_heap sample_plugin) + holding (\<lambda>_. 0) [0] a + 16 < nat int32_max"
    by (simp add: sample_plugin_def WebviewPlugin_init_def sample_heap_def held_slots_def slots_def holding_def int32_max_def)
  moreover have "m_invokeFunc sample_plugin" by (simp add: sample_plugin_def)
  moreover have "event_message onUrlChangedEvent 7 [''u''] [] = Some (''urlChanged'', [(''browserId'', SInt 7), (''url'', SText ''u'')])"
    by (simp add: browser_id_def nth_text_def)
  ultimately show ?thesis
    using event_reaches_application [OF sample_plugin_ok, of onUrlChangedEvent 7 "[''u'']" "[]" "''urlChanged''" _ sample_platform]
    by (fastforce simp: event_map_def scalar_value_def key_value_def c_str_def)
qed

end
