(* ===== verification/Video_Geometry.thy ===== *)
theory Video_Geometry
  imports Text_Format
begin

text \<open>
  The sizes of the embedded Linux video output
  (\<open>packages/media_kit_video_elinux/elinux/video_geometry.h\<close>, \<open>video_geometry.cc\<close>): reading a dimension, and
  fitting a size into the budget of a software-rendered frame. A size is a pair of 64-bit integers, held
  as integers; \<open>double\<close> is IEEE arithmetic, each operation rounded to 53 bits, ties to even.
\<close>

section \<open>Sizes\<close>

definition kMaxRenderWidth :: int where "kMaxRenderWidth = 1920"
definition kMaxRenderHeight :: int where "kMaxRenderHeight = 1080"

record Size =
  width :: int
  height :: int

definition empty_size :: Size where
  "empty_size = \<lparr>width = 0, height = 0\<rparr>"

definition IsEmpty :: "Size \<Rightarrow> bool" where
  "IsEmpty s \<longleftrightarrow> width s \<le> 0 \<or> height s \<le> 0"

text \<open>
  \<open>std::from_chars\<close> reads a minus sign and digits, and nothing before them; a value that does not fit is
  an error.
\<close>

definition from_chars :: "string \<Rightarrow> (int \<times> string) option" where
  "from_chars s =
     (let neg = (s \<noteq> [] \<and> hd s = CHR ''-'');
          t = (if neg then tl s else s);
          ds = takeWhile is_digit t;
          v = (if neg then - int (read_nat ds) else int (read_nat ds))
      in if ds = [] \<or> v < - (2 ^ 63) \<or> 2 ^ 63 \<le> v then None else Some (v, dropWhile is_digit t))"

definition ParseNullableInt :: "string \<Rightarrow> int option" where
  "ParseNullableInt s =
     (case from_chars s of
        None \<Rightarrow> None
      | Some (parsed, rest) \<Rightarrow> if rest \<noteq> [] \<or> parsed \<le> 0 then None else Some parsed)"

section \<open>Doubles\<close>

text \<open>A positive double is a fraction. \<open>round53\<close> rounds a positive fraction to 53 bits.\<close>

definition scaled53 :: "nat \<Rightarrow> nat \<Rightarrow> int \<Rightarrow> nat \<times> nat" where
  "scaled53 n d k = (if 0 \<le> k then (n, d * 2 ^ nat k) else (n * 2 ^ nat (- k), d))"

definition round53 :: "nat \<Rightarrow> nat \<Rightarrow> nat \<times> nat" where
  "round53 n d =
     (let k0 = int (bit_len n) - int (bit_len d) - 53;
          k = (case scaled53 n d k0 of (a, b) \<Rightarrow> if a < 2 ^ 53 * b then k0 else k0 + 1);
          m = (case scaled53 n d k of (a, b) \<Rightarrow> round_half_even a b)
      in if 0 \<le> k then (m * 2 ^ nat k, 1) else (m, 2 ^ nat (- k)))"

definition fraction_less :: "nat \<times> nat \<Rightarrow> nat \<times> nat \<Rightarrow> bool" where
  "fraction_less p q \<longleftrightarrow> fst p * snd q < fst q * snd p"

definition fraction_min :: "nat \<times> nat \<Rightarrow> nat \<times> nat \<Rightarrow> nat \<times> nat" where
  "fraction_min p q = (if fraction_less q p then q else p)"

text \<open>\<open>std::llround(static_cast<double>(w) * scale)\<close> of a positive width.\<close>

definition scale_round :: "int \<Rightarrow> nat \<times> nat \<Rightarrow> int" where
  "scale_round w scale =
     (case round53 (double_of_nat (nat w) * fst scale) (snd scale) of
        (n, d) \<Rightarrow> int ((2 * n + d) div (2 * d)))"

definition clamp :: "int \<Rightarrow> int \<Rightarrow> int \<Rightarrow> int" where
  "clamp v lo hi = (if v < lo then lo else if hi < v then hi else v)"

section \<open>The budget\<close>

definition render_scale :: "Size \<Rightarrow> nat \<times> nat" where
  "render_scale s =
     fraction_min (round53 (nat kMaxRenderWidth) (double_of_nat (nat (width s))))
       (round53 (nat kMaxRenderHeight) (double_of_nat (nat (height s))))"

definition FitWithinRenderBudget :: "Size \<Rightarrow> Size" where
  "FitWithinRenderBudget s =
     (if IsEmpty s then empty_size
      else let scale = render_scale s
           in if snd scale \<le> fst scale then s
              else \<lparr>width = clamp (scale_round (width s) scale) 1 kMaxRenderWidth,
                    height = clamp (scale_round (height s) scale) 1 kMaxRenderHeight\<rparr>)"

definition ResolveRenderSize :: "Size \<Rightarrow> Size \<Rightarrow> Size" where
  "ResolveRenderSize requested video =
     FitWithinRenderBudget (if IsEmpty requested then video else requested)"

definition NotifiableSize :: "Size \<Rightarrow> Size" where
  "NotifiableSize s = (if IsEmpty s then \<lparr>width = 1, height = 1\<rparr> else s)"

definition StrideBytes :: "Size \<Rightarrow> int" where
  "StrideBytes s = (if IsEmpty s then 0 else sint (word_of_int (width s * 4) :: u32))"

definition PixelBufferBytes :: "Size \<Rightarrow> nat" where
  "PixelBufferBytes s = (if IsEmpty s then 0 else unat (word_of_int (width s) * word_of_int (height s) * 4 :: u64))"

section \<open>What the rounding keeps\<close>

lemma bit_len_bounds: "n < 2 ^ bit_len n \<and> (0 < n \<longrightarrow> 2 ^ (bit_len n - 1) \<le> n)"
proof (induction n rule: bit_len.induct)
  case (1 n)
  show ?case
  proof (cases "n = 0")
    case True
    then show ?thesis by (simp add: bit_len.simps)
  next
    case False
    with 1 have IH: "n div 2 < 2 ^ bit_len (n div 2)" "0 < n div 2 \<Longrightarrow> 2 ^ (bit_len (n div 2) - 1) \<le> n div 2" by auto
    from False have b: "bit_len n = Suc (bit_len (n div 2))" by (subst bit_len.simps) simp
    have "2 ^ bit_len (n div 2) \<le> n"
    proof (cases "n div 2 = 0")
      case True
      then have "bit_len (n div 2) = 0" by (simp add: bit_len.simps)
      with False show ?thesis by simp
    next
      case pos: False
      then have "0 < bit_len (n div 2)" by (subst bit_len.simps) simp
      then have "2 * 2 ^ (bit_len (n div 2) - 1) = (2 :: nat) ^ bit_len (n div 2)" by (cases "bit_len (n div 2)") auto
      with IH(2) pos show ?thesis by simp
    qed
    with IH(1) b show ?thesis by auto
  qed
qed

lemma bit_len_mono: "m \<le> n \<Longrightarrow> bit_len m \<le> bit_len n"
proof (cases "m = 0")
  case False
  assume "m \<le> n"
  with False bit_len_bounds [of m] bit_len_bounds [of n] have "(2 :: nat) ^ (bit_len m - 1) < 2 ^ bit_len n"
    by (meson le_trans leI not_gr_zero not_less order_le_less_trans)
  then show ?thesis by (simp add: power_strict_increasing_iff)
qed (simp add: bit_len.simps)

lemma bit_len_le: "n < 2 ^ m \<Longrightarrow> bit_len n \<le> m"
proof (cases "n = 0")
  case False
  assume "n < 2 ^ m"
  with False bit_len_bounds [of n] have "(2 :: nat) ^ (bit_len n - 1) < 2 ^ m" by linarith
  then show ?thesis by (simp add: power_strict_increasing_iff)
qed (simp add: bit_len.simps)

lemma double_of_nat_exact: "n < 2 ^ 53 \<Longrightarrow> double_of_nat n = n"
  using bit_len_le [of n 53] round_half_even_exact [of 1 n] by (simp add: double_of_nat_def)

lemma double_of_nat_large:
  assumes "2 ^ 53 \<le> n"
  shows "2 ^ 52 \<le> double_of_nat n"
proof -
  let ?s = "bit_len n - 53"
  from assms bit_len_bounds [of n] have "(2 :: nat) ^ 53 < 2 ^ bit_len n" by linarith
  then have "53 < bit_len n" using power_less_imp_less_exp [of "2 :: nat" 53 "bit_len n"] by simp
  then have "bit_len n - 1 = 52 + ?s" by simp
  then have "(2 :: nat) ^ (bit_len n - 1) = 2 ^ 52 * 2 ^ ?s" by (simp only: power_add)
  with assms bit_len_bounds [of n] have "2 ^ 52 * 2 ^ ?s \<le> n" by simp
  then have "2 ^ 52 \<le> n div 2 ^ ?s" by (simp add: less_eq_div_iff_mult_less_eq)
  also have "\<dots> \<le> round_half_even n (2 ^ ?s)" by (rule round_half_even_bounds) simp
  also have "\<dots> \<le> double_of_nat n" by (simp add: double_of_nat_def Let_def)
  finally show ?thesis .
qed

lemma round_half_even_le:
  assumes "0 < den" and "2 * num < (2 * x + 1) * den"
  shows "round_half_even num den \<le> x"
proof -
  have "num div den \<le> x"
  proof (rule ccontr)
    assume "\<not> ?thesis"
    then have "Suc x * den \<le> num div den * den" by (intro mult_le_mono1) simp
    also have "\<dots> \<le> num" by simp
    finally show False using assms by (simp add: algebra_simps)
  qed
  moreover have "2 * (num mod den) < den" if "num div den = x"
  proof -
    have "num = x * den + num mod den" using that div_mult_mod_eq [of num den] by simp
    with assms(2) show ?thesis by (simp add: algebra_simps)
  qed
  ultimately show ?thesis
    using round_half_even_bounds [OF assms(1), of num] by (cases "num div den = x") (auto simp: round_half_even_def Let_def)
qed

text \<open>A fraction whose numerator a double holds exactly is rounded to the same side of one.\<close>

lemma round53_shape:
  assumes n: "n < 2 ^ 53" and d: "0 < d"
  obtains p where "round53 n d = (round_half_even (n * 2 ^ p) d, 2 ^ p)" and "d < 2 ^ Suc p"
proof -
  obtain k0 where k0_def: "k0 = int (bit_len n) - int (bit_len d) - 53" by blast
  from d have "0 < bit_len d" by (subst bit_len.simps) simp
  with bit_len_le [OF n] have k: "k0 < 0" "bit_len d \<le> nat (- k0)" by (simp_all add: k0_def)
  from bit_len_bounds [of d] k(2) have dp: "d < 2 ^ nat (- k0)"
    by (meson order_less_le_trans one_le_numeral power_increasing)
  show thesis
  proof (cases "n * 2 ^ nat (- k0) < 2 ^ 53 * d")
    case True
    with k have "round53 n d = (round_half_even (n * 2 ^ nat (- k0)) d, 2 ^ nat (- k0))"
      by (simp add: round53_def Let_def scaled53_def flip: k0_def)
    then show thesis by (rule that) (use dp in simp)
  next
    case False
    from k(1) have s: "nat (- k0) = Suc (nat (- (k0 + 1)))" by simp
    from False k(1) have "round53 n d = (round_half_even (n * 2 ^ nat (- (k0 + 1))) d, 2 ^ nat (- (k0 + 1)))"
      by (cases "k0 + 1 = 0") (auto simp: round53_def Let_def scaled53_def simp flip: k0_def)
    then show thesis by (rule that) (use dp s in simp)
  qed
qed

lemma round53_below_one:
  assumes "n < 2 ^ 53" and "n < d"
  shows "fst (round53 n d) < snd (round53 n d)"
proof -
  from assms have "0 < d" by simp
  then obtain p where r: "round53 n d = (round_half_even (n * 2 ^ p) d, 2 ^ p)" and p: "d < 2 ^ Suc p"
    by (rule round53_shape [OF assms(1)])
  let ?x = "2 ^ p - 1 :: nat"
  have "1 \<le> (2 :: nat) ^ p" by simp
  then have x: "2 * ?x + 1 = 2 ^ Suc p - 1" unfolding power_Suc by linarith
  have "Suc n * 2 ^ Suc p \<le> d * 2 ^ Suc p" using assms(2) by (intro mult_le_mono1) simp
  then have "n * 2 ^ Suc p + 2 ^ Suc p \<le> d * 2 ^ Suc p" by (simp only: mult_Suc add.commute)
  then have "n * 2 ^ Suc p < d * 2 ^ Suc p - d" using p by linarith
  then have "2 * (n * 2 ^ p) < (2 * ?x + 1) * d" unfolding x by (simp add: algebra_simps diff_mult_distrib)
  from round_half_even_le [OF \<open>0 < d\<close> this] \<open>1 \<le> 2 ^ p\<close> have "round_half_even (n * 2 ^ p) d < 2 ^ p" by linarith
  then show ?thesis by (simp add: r)
qed

lemma round53_above_one:
  assumes "n < 2 ^ 53" and "0 < d" and "d \<le> n"
  shows "snd (round53 n d) \<le> fst (round53 n d)"
proof -
  obtain p where r: "round53 n d = (round_half_even (n * 2 ^ p) d, 2 ^ p)"
    by (rule round53_shape [OF assms(1,2)])
  have "2 ^ p \<le> n * 2 ^ p div d" using assms by (simp add: less_eq_div_iff_mult_less_eq)
  with round_half_even_bounds(1) [OF assms(2), of "n * 2 ^ p"] r show ?thesis by simp
qed

section \<open>What the budget promises\<close>

lemma fraction_min_one:
  assumes "0 < snd p" and "0 < snd q"
  shows "snd (fraction_min p q) \<le> fst (fraction_min p q) \<longleftrightarrow> snd p \<le> fst p \<and> snd q \<le> fst q"
proof -
  obtain a b c d where [simp]: "p = (a, b)" "q = (c, d)" by fastforce
  from assms have pos: "0 < b" "0 < d" by simp_all
  have "b \<le> a" if "c * b < a * d" "d \<le> c"
  proof -
    from mult_le_mono1 [OF that(2)] that(1) have "d * b < a * d" by (rule le_less_trans)
    then show ?thesis by (simp add: mult.commute)
  qed
  moreover have "d \<le> c" if "a * d \<le> c * b" "b \<le> a"
  proof -
    from mult_le_mono1 [OF that(2)] that(1) have "b * d \<le> c * b" by (rule le_trans)
    with pos show ?thesis by (simp add: mult.commute)
  qed
  ultimately show ?thesis by (auto simp: fraction_min_def fraction_less_def)
qed

lemma round53_one:
  assumes "n < 2 ^ 53" and "0 < d"
  shows "snd (round53 n d) \<le> fst (round53 n d) \<longleftrightarrow> d \<le> n" and "0 < snd (round53 n d)"
proof -
  show "snd (round53 n d) \<le> fst (round53 n d) \<longleftrightarrow> d \<le> n"
    using round53_below_one [OF assms(1)] round53_above_one [OF assms] by (meson leD leI)
  show "0 < snd (round53 n d)" by (rule round53_shape [OF assms]) simp
qed

lemma double_within:
  assumes "0 < w" and "m < 2 ^ 52"
  shows "0 < double_of_nat (nat w)" and "double_of_nat (nat w) \<le> m \<longleftrightarrow> nat w \<le> m"
  using assms double_of_nat_exact [of "nat w"] double_of_nat_large [of "nat w"]
  by (cases "nat w < 2 ^ 53"; simp)+

lemma render_scale_one:
  assumes "\<not> IsEmpty s"
  shows "snd (render_scale s) \<le> fst (render_scale s) \<longleftrightarrow> width s \<le> kMaxRenderWidth \<and> height s \<le> kMaxRenderHeight"
proof -
  from assms have "0 < width s" "0 < height s" by (simp_all add: IsEmpty_def)
  with double_within [of "width s" 1920] double_within [of "height s" 1080]
    round53_one [of 1920 "double_of_nat (nat (width s))"] round53_one [of 1080 "double_of_nat (nat (height s))"]
  show ?thesis by (simp add: render_scale_def fraction_min_one kMaxRenderWidth_def kMaxRenderHeight_def nat_le_iff)
qed

lemma clamp_bounds: "lo \<le> hi \<Longrightarrow> lo \<le> clamp v lo hi \<and> clamp v lo hi \<le> hi"
  by (simp add: clamp_def)

lemma clamp_pos: "1 \<le> hi \<Longrightarrow> 0 < clamp v 1 hi"
  by (simp add: clamp_def)

lemma fit_bounds:
  "width (FitWithinRenderBudget s) \<le> kMaxRenderWidth" "height (FitWithinRenderBudget s) \<le> kMaxRenderHeight"
  "IsEmpty (FitWithinRenderBudget s) \<longleftrightarrow> IsEmpty s"
  using render_scale_one [of s] clamp_bounds [of 1 kMaxRenderWidth] clamp_bounds [of 1 kMaxRenderHeight]
  by (auto simp: FitWithinRenderBudget_def Let_def empty_size_def IsEmpty_def kMaxRenderWidth_def kMaxRenderHeight_def
      not_le clamp_pos)

lemma fit_same:
  "\<not> IsEmpty s \<Longrightarrow> FitWithinRenderBudget s = s \<longleftrightarrow> width s \<le> kMaxRenderWidth \<and> height s \<le> kMaxRenderHeight"
  using render_scale_one [of s] fit_bounds [of s] by (auto simp: FitWithinRenderBudget_def Let_def)

text \<open>C33. Every frame fits the budget, whatever size was asked for. A size within the budget is rendered as it
  is and no other is; a size beyond it is scaled down to at least one pixel and at most the budget in
  each direction, through every rounding of the double arithmetic; an empty size stays empty; and
  fitting twice changes nothing.\<close>

theorem frame_fits_budget:
  "width (FitWithinRenderBudget s) \<le> kMaxRenderWidth \<and> height (FitWithinRenderBudget s) \<le> kMaxRenderHeight
   \<and> (if IsEmpty s then FitWithinRenderBudget s = empty_size
      else 1 \<le> width (FitWithinRenderBudget s) \<and> 1 \<le> height (FitWithinRenderBudget s)
        \<and> (FitWithinRenderBudget s = s \<longleftrightarrow> width s \<le> kMaxRenderWidth \<and> height s \<le> kMaxRenderHeight))
   \<and> FitWithinRenderBudget (FitWithinRenderBudget s) = FitWithinRenderBudget s"
proof -
  have "FitWithinRenderBudget (FitWithinRenderBudget s) = FitWithinRenderBudget s"
  proof (cases "IsEmpty s")
    case True
    then have "FitWithinRenderBudget s = empty_size" by (simp add: FitWithinRenderBudget_def)
    then show ?thesis by (simp add: FitWithinRenderBudget_def IsEmpty_def empty_size_def)
  next
    case False
    with fit_same [of "FitWithinRenderBudget s"] fit_bounds [of s] show ?thesis by simp
  qed
  moreover from fit_bounds(3) [of s] have "1 \<le> width (FitWithinRenderBudget s)" "1 \<le> height (FitWithinRenderBudget s)"
    if "\<not> IsEmpty s" using that by (auto simp: IsEmpty_def)
  moreover have "IsEmpty s \<Longrightarrow> FitWithinRenderBudget s = empty_size" by (simp add: FitWithinRenderBudget_def)
  ultimately show ?thesis using fit_bounds [of s] fit_same [of s] by simp
qed

text \<open>A dimension is read exactly when it is a positive number that fits: what is read back is what the
  digits say, and every text with a sign, a blank, a fraction, a unit or a value out of range is no
  opinion, never a negative size.\<close>

theorem dimension_read_back:
  "ParseNullableInt (show_int n) = (if 0 < n \<and> n < 2 ^ 63 then Some n else None)
   \<and> (case ParseNullableInt s of None \<Rightarrow> True
      | Some v \<Rightarrow> 0 < v \<and> v < 2 ^ 63 \<and> list_all is_digit s \<and> v = int (read_nat s))"
proof -
  have digits: "takeWhile is_digit (show_nat k) = show_nat k" "dropWhile is_digit (show_nat k) = []" for k
    using show_nat_digits [of k] by (simp_all add: takeWhile_eq_all_conv)
  have sign: "hd (show_nat k) \<noteq> CHR ''-''" for k
    using show_nat_digits [of k] by (cases "show_nat k") (auto simp: is_digit_def)
  have "ParseNullableInt (show_int n) = (if 0 < n \<and> n < 2 ^ 63 then Some n else None)"
    by (auto simp: ParseNullableInt_def from_chars_def show_int_def digits sign read_show_nat Let_def)
  moreover have "0 < v \<and> v < 2 ^ 63 \<and> list_all is_digit s \<and> v = int (read_nat s)" if p: "ParseNullableInt s = Some v" for v
  proof -
    from p obtain rest where f: "from_chars s = Some (v, rest)" "rest = []" "0 < v"
      by (auto simp: ParseNullableInt_def split: option.splits if_splits)
    have neg: "\<not> (s \<noteq> [] \<and> hd s = CHR ''-'')"
    proof
      assume "s \<noteq> [] \<and> hd s = CHR ''-''"
      with f show False by (auto simp: from_chars_def Let_def split: if_splits)
    qed
    with f have s: "\<forall>c\<in>set s. is_digit c" by (auto simp: from_chars_def Let_def split: if_splits)
    then have t: "takeWhile is_digit s = s" by (simp add: takeWhile_eq_all_conv)
    from f neg s show ?thesis by (auto simp: from_chars_def Let_def list_all_iff t split: if_splits)
  qed
  ultimately show ?thesis by (auto split: option.split)
qed

end
