(* ===== verification/Video_Output.thy ===== *)
theory Video_Output
  imports Video_Geometry "HOL-Library.AList"
begin

text \<open>
  The embedded Linux video plugin (\<open>packages/media_kit_video_elinux/elinux\<close>): the late binding of libmpv
  (\<open>mpv_library.cc\<close>), one output per player (\<open>video_output.cc\<close>), and the calls of the application
  (\<open>media_kit_video_elinux_plugin.cc\<close>). libmpv, the texture registrar and the dynamic linker are not part
  of the repository: what they answer is a parameter of each step.

  A step is undefined, \<open>None\<close>, where the code would break the rules of what it calls: a call on a render
  context that has been freed, a frame that does not fit the buffer it is rendered into, a texture that
  is marked or unregistered when it is not registered.
\<close>

section \<open>The library\<close>

definition kLibraryNames :: "string list" where
  "kLibraryNames = [''libmpv.so'', ''libmpv.so.2'', ''libmpv.so.1'']"

definition RequiredMpvSymbols :: "string list" where
  "RequiredMpvSymbols =
     [''mpv_render_context_create'', ''mpv_render_context_render'', ''mpv_render_context_set_update_callback'',
      ''mpv_render_context_free'', ''mpv_get_property'', ''mpv_free_node_contents'']"

text \<open>The entry points, in the order of their names; \<open>None\<close> is a null pointer.\<close>

type_synonym MpvApi = "nat option list"

definition null_api :: MpvApi where
  "null_api = replicate 6 None"

fun resolve_all :: "(string \<Rightarrow> nat option) \<Rightarrow> string list \<Rightarrow> string + nat list" where
  "resolve_all resolve [] = Inr []"
| "resolve_all resolve (n # ns) =
     (case resolve n of
        None \<Rightarrow> Inl n
      | Some a \<Rightarrow> (case resolve_all resolve ns of Inl m \<Rightarrow> Inl m | Inr as \<Rightarrow> Inr (a # as)))"

definition LoadMpvApi :: "(string \<Rightarrow> nat option) \<Rightarrow> MpvApi \<Rightarrow> bool \<times> MpvApi \<times> string option" where
  "LoadMpvApi resolve api =
     (case resolve_all resolve RequiredMpvSymbols of
        Inl missing \<Rightarrow> (False, api, Some missing)
      | Inr addresses \<Rightarrow> (True, map Some addresses, None))"

text \<open>\<open>std::call_once\<close>: the first call decides for the life of the process.\<close>

record MpvProcess =
  once_done :: bool
  mp_api :: MpvApi
  mp_loaded :: bool
  load_error :: string

definition MpvProcess_init :: MpvProcess where
  "MpvProcess_init = \<lparr>once_done = False, mp_api = null_api, mp_loaded = False, load_error = []\<rparr>"

definition load_once :: "(string \<Rightarrow> nat option) \<Rightarrow> (nat \<Rightarrow> string \<Rightarrow> nat option) \<Rightarrow> MpvProcess \<Rightarrow> MpvProcess" where
  "load_once dlopen dlsym p =
     (case List.map_filter dlopen kLibraryNames of
        [] \<Rightarrow> p\<lparr>load_error := ''libmpv is not loaded in this process. Install the libmpv shared ''
                  @ ''library (Debian: libmpv2) or ship it beside the bundle.''\<rparr>
      | library # _ \<Rightarrow>
          (case LoadMpvApi (dlsym library) (mp_api p) of
             (True, api, _) \<Rightarrow> p\<lparr>mp_api := api, mp_loaded := True\<rparr>
           | (False, api, missing) \<Rightarrow>
               p\<lparr>mp_api := api,
                 load_error := ''libmpv is missing the symbol '' @ (case missing of None \<Rightarrow> [] | Some m \<Rightarrow> m)
                   @ ''; it is too old for the render API this plugin needs.''\<rparr>))"

definition MpvApiForProcess ::
    "(string \<Rightarrow> nat option) \<Rightarrow> (nat \<Rightarrow> string \<Rightarrow> nat option) \<Rightarrow> MpvProcess \<Rightarrow> (string + MpvApi) \<times> MpvProcess" where
  "MpvApiForProcess dlopen dlsym p =
     (let p = (if once_done p then p else (load_once dlopen dlsym p)\<lparr>once_done := True\<rparr>)
      in (if mp_loaded p then Inr (mp_api p) else Inl (load_error p), p))"

section \<open>An output\<close>

text \<open>\<open>vo_object\<close> is the object's identity: the texture and mpv call it back by its address.\<close>

record VideoOutput =
  vo_object :: nat
  vo_handle :: int
  render_context :: "nat option"
  pixels :: nat
  texture_id :: int
  requested_size :: Size
  shut_down :: bool

definition VideoOutput_init :: "nat \<Rightarrow> int \<Rightarrow> VideoOutput" where
  "VideoOutput_init object handle =
     \<lparr>vo_object = object, vo_handle = handle, render_context = None, pixels = 0, texture_id = - 1,
      requested_size = empty_size, shut_down = False\<rparr>"

text \<open>
  What the platform answers: the identifier of a registered texture, the status and the render context
  mpv creates, the property of the video's parameters, the status of rendering a frame.
\<close>

datatype MpvNode = PropertyError | NodeOther | NodeMap "(string \<times> int option) list"

record VideoHost =
  registered :: int
  create_status :: int
  created_context :: nat
  out_params :: MpvNode
  render_status :: int
  vh_dlopen :: "string \<Rightarrow> nat option"
  vh_dlsym :: "nat \<Rightarrow> string \<Rightarrow> nat option"
  fresh_object :: nat

datatype VideoEffect =
    RegisterTexture int
  | UnregisterTexture int
  | CreateContext nat
  | SetUpdateCallback nat bool
  | FreeContext nat
  | RenderFrame nat int int int
  | MarkFrameAvailable int
  | AnswerSuccess
  | AnswerError string string
  | AnswerNotImplemented
  | ResizeMessage int int int int

text \<open>What has been created and registered and not yet given back.\<close>

record Platform =
  contexts :: "nat list"
  textures :: "int list"

type_synonym 'a VideoStep = "Platform \<Rightarrow> ('a \<times> Platform \<times> VideoEffect list) option"

definition video_bind :: "'a VideoStep \<Rightarrow> ('a \<Rightarrow> 'b VideoStep) \<Rightarrow> 'b VideoStep" where
  "video_bind m f p =
     (case m p of
        None \<Rightarrow> None
      | Some (x, p, es) \<Rightarrow> (case f x p of None \<Rightarrow> None | Some (y, p, fs) \<Rightarrow> Some (y, p, es @ fs)))"

definition video_return :: "'a \<Rightarrow> 'a VideoStep" where
  "video_return x p = Some (x, p, [])"

definition video_do :: "VideoEffect \<Rightarrow> unit VideoStep" where
  "video_do e p =
     (case e of
        RegisterTexture i \<Rightarrow> Some ((), (if 0 \<le> i then p\<lparr>textures := i # textures p\<rparr> else p), [e])
      | UnregisterTexture i \<Rightarrow>
          if i \<in> set (textures p) then Some ((), p\<lparr>textures := remove1 i (textures p)\<rparr>, [e]) else None
      | CreateContext c \<Rightarrow> Some ((), p\<lparr>contexts := c # contexts p\<rparr>, [e])
      | SetUpdateCallback c b \<Rightarrow> if c \<in> set (contexts p) then Some ((), p, [e]) else None
      | FreeContext c \<Rightarrow>
          if c \<in> set (contexts p) then Some ((), p\<lparr>contexts := remove1 c (contexts p)\<rparr>, [e]) else None
      | RenderFrame c w he stride \<Rightarrow> if c \<in> set (contexts p) then Some ((), p, [e]) else None
      | MarkFrameAvailable i \<Rightarrow> if i \<in> set (textures p) then Some ((), p, [e]) else None
      | _ \<Rightarrow> Some ((), p, [e]))"

definition video_when :: "bool \<Rightarrow> unit VideoStep \<Rightarrow> unit VideoStep" where
  "video_when b m = (if b then m else video_return ())"

fun read_out_params :: "(string \<times> int option) list \<Rightarrow> int \<times> int \<times> int \<Rightarrow> int \<times> int \<times> int" where
  "read_out_params [] r = r"
| "read_out_params ((key, v) # kvs) (dw, dh, rot) =
     read_out_params kvs
       (case v of
          None \<Rightarrow> (dw, dh, rot)
        | Some i \<Rightarrow>
            if key = ''dw'' then (i, dh, rot)
            else if key = ''dh'' then (dw, i, rot)
            else if key = ''rotate'' then (dw, dh, i)
            else (dw, dh, rot))"

definition VideoSizeFromMpvLocked :: "VideoHost \<Rightarrow> Size" where
  "VideoSizeFromMpvLocked env =
     (case out_params env of
        PropertyError \<Rightarrow> empty_size
      | NodeOther \<Rightarrow> empty_size
      | NodeMap kvs \<Rightarrow>
          (case read_out_params kvs (0, 0, 0) of
             (dw, dh, rot) \<Rightarrow>
               let upright = (rot = 0 \<or> rot = 180)
               in \<lparr>width = (if upright then dw else dh), height = (if upright then dh else dw)\<rparr>))"

definition CurrentSize :: "VideoHost \<Rightarrow> VideoOutput \<Rightarrow> Size" where
  "CurrentSize env out = ResolveRenderSize (requested_size out) (VideoSizeFromMpvLocked env)"

definition SetRequestedSize :: "Size \<Rightarrow> VideoOutput \<Rightarrow> VideoOutput" where
  "SetRequestedSize s out = out\<lparr>requested_size := s\<rparr>"

text \<open>The right side is an output that is ready, the left side why it is not.\<close>

definition Initialize :: "VideoHost \<Rightarrow> Size \<Rightarrow> VideoOutput \<Rightarrow> (string + VideoOutput) VideoStep" where
  "Initialize env requested out =
     (let out = out\<lparr>requested_size := requested, texture_id := registered env\<rparr>
      in video_bind (video_do (RegisterTexture (registered env))) (\<lambda>_.
           if texture_id out < 0
           then video_return (Inl ''The embedder refused to register a pixel buffer texture.'')
           else if create_status env \<noteq> 0
           then video_bind (video_do (UnregisterTexture (texture_id out))) (\<lambda>_.
                  video_return (Inl (''mpv_render_context_create failed with status '' @ show_int (create_status env)
                    @ ''.'')))
           else video_bind (video_do (CreateContext (created_context env))) (\<lambda>_.
                  video_bind (video_do (SetUpdateCallback (created_context env) True)) (\<lambda>_.
                    video_return (Inr (out\<lparr>render_context := Some (created_context env)\<rparr>))))))"

text \<open>
  \<open>Shutdown\<close> and the destructor. After \<open>Shutdown\<close> the last reference is with the registrar, which drops it
  when the texture is no longer in use; that runs the destructor.
\<close>

definition clear_callback :: "VideoOutput \<Rightarrow> unit VideoStep" where
  "clear_callback out =
     (case render_context out of None \<Rightarrow> video_return () | Some c \<Rightarrow> video_do (SetUpdateCallback c False))"

definition Shutdown :: "VideoOutput \<Rightarrow> VideoOutput VideoStep" where
  "Shutdown out =
     video_bind (clear_callback out) (\<lambda>_.
       video_bind (video_when (0 \<le> texture_id out) (video_do (UnregisterTexture (texture_id out)))) (\<lambda>_.
         video_return (out\<lparr>shut_down := True, texture_id := (if 0 \<le> texture_id out then - 1 else texture_id out)\<rparr>)))"

definition destroy_output :: "VideoOutput \<Rightarrow> unit VideoStep" where
  "destroy_output out =
     video_bind (clear_callback out) (\<lambda>_.
       case render_context out of None \<Rightarrow> video_return () | Some c \<Rightarrow> video_do (FreeContext c))"

definition OnMpvRenderUpdate :: "VideoOutput \<Rightarrow> unit VideoStep" where
  "OnMpvRenderUpdate out = video_when (0 \<le> texture_id out) (video_do (MarkFrameAvailable (texture_id out)))"

text \<open>
  A frame: mpv renders \<open>height\<close> rows of \<open>stride\<close> bytes, which must fit the buffer and hold a row of four
  bytes a pixel each. The answer is the size of the buffer handed to the embedder, if any.
\<close>

definition render_into :: "nat \<Rightarrow> int \<Rightarrow> int \<Rightarrow> int \<Rightarrow> nat \<Rightarrow> unit VideoStep" where
  "render_into c w he stride room =
     (if w * 4 \<le> stride \<and> he * stride \<le> int room then video_do (RenderFrame c w he stride) else (\<lambda>p. None))"

definition CopyPixelBuffer :: "VideoHost \<Rightarrow> VideoOutput \<Rightarrow> (Size option \<times> VideoOutput) VideoStep" where
  "CopyPixelBuffer env out =
     (case render_context out of
        None \<Rightarrow> video_return (None, out)
      | Some c \<Rightarrow>
          if shut_down out then video_return (None, out)
          else let s = CurrentSize env out
               in if IsEmpty s then video_return (None, out)
                  else let out = out\<lparr>pixels := max (pixels out) (PixelBufferBytes s)\<rparr>
                       in video_bind
                            (render_into c (sint (word_of_int (width s) :: u32)) (sint (word_of_int (height s) :: u32))
                               (StrideBytes s) (pixels out))
                            (\<lambda>_. video_return (if render_status env \<noteq> 0 then None else Some s, out)))"

section \<open>The plugin\<close>

text \<open>The arguments of a call. Other values of the codec are \<open>OtherArg\<close>.\<close>

datatype VideoArg = StringArg string | MapArg "(string \<times> VideoArg) list" | OtherArg

definition StringAt :: "(string \<times> VideoArg) list \<Rightarrow> string \<Rightarrow> string" where
  "StringAt args key = (case map_of args key of Some (StringArg s) \<Rightarrow> s | _ \<Rightarrow> [])"

definition IntAt :: "(string \<times> VideoArg) list \<Rightarrow> string \<Rightarrow> int option" where
  "IntAt args key = ParseNullableInt (StringAt args key)"

definition size_at :: "(string \<times> VideoArg) list \<Rightarrow> Size" where
  "size_at args =
     \<lparr>width = (case IntAt args ''width'' of None \<Rightarrow> 0 | Some v \<Rightarrow> v),
      height = (case IntAt args ''height'' of None \<Rightarrow> 0 | Some v \<Rightarrow> v)\<rparr>"

record VideoPlugin =
  outputs :: "(int \<times> VideoOutput) list"
  retired :: "VideoOutput list"
  mpv_process :: MpvProcess

definition VideoPlugin_init :: VideoPlugin where
  "VideoPlugin_init = \<lparr>outputs = [], retired = [], mpv_process = MpvProcess_init\<rparr>"

definition NotifyResize :: "VideoHost \<Rightarrow> int \<Rightarrow> VideoOutput \<Rightarrow> unit VideoStep" where
  "NotifyResize env handle out =
     (let s = NotifiableSize (CurrentSize env out)
      in video_do (ResizeMessage handle (texture_id out) (width s) (height s)))"

definition video_answer :: "VideoEffect \<Rightarrow> VideoPlugin \<Rightarrow> VideoPlugin VideoStep" where
  "video_answer e pl = video_bind (video_do e) (\<lambda>_. video_return pl)"

definition video_Create :: "VideoHost \<Rightarrow> int \<Rightarrow> (string \<times> VideoArg) list \<Rightarrow> VideoPlugin \<Rightarrow> VideoPlugin VideoStep" where
  "video_Create env handle args pl =
     (if map_of (outputs pl) handle \<noteq> None then video_answer AnswerSuccess pl
      else case MpvApiForProcess (vh_dlopen env) (vh_dlsym env) (mpv_process pl) of
             (mpv, process) \<Rightarrow>
               let pl = pl\<lparr>mpv_process := process\<rparr>
               in case mpv of
                    Inl error \<Rightarrow> video_answer (AnswerError ''libmpv-unavailable'' error) pl
                  | Inr api \<Rightarrow>
                      let requested = (case map_of args ''configuration'' of
                                         Some (MapArg configuration) \<Rightarrow> size_at configuration
                                       | _ \<Rightarrow> empty_size)
                      in video_bind (Initialize env requested (VideoOutput_init (fresh_object env) handle)) (\<lambda>r.
                           case r of
                             Inl error \<Rightarrow> video_answer (AnswerError ''video-output-unavailable'' error) pl
                           | Inr out \<Rightarrow>
                               video_bind (video_do AnswerSuccess) (\<lambda>_.
                                 video_bind (NotifyResize env handle out) (\<lambda>_.
                                   video_return (pl\<lparr>outputs := (handle, out) # outputs pl\<rparr>)))))"

definition video_SetSize :: "VideoHost \<Rightarrow> int \<Rightarrow> (string \<times> VideoArg) list \<Rightarrow> VideoPlugin \<Rightarrow> VideoPlugin VideoStep" where
  "video_SetSize env handle args pl =
     (case map_of (outputs pl) handle of
        None \<Rightarrow> video_answer (AnswerError ''unknown-handle'' ''No video output for this player.'') pl
      | Some out \<Rightarrow>
          let out = SetRequestedSize (size_at args) out
          in video_bind (video_do AnswerSuccess) (\<lambda>_.
               video_bind (NotifyResize env handle out) (\<lambda>_.
                 video_return (pl\<lparr>outputs := AList.update handle out (outputs pl)\<rparr>))))"

definition video_Dispose :: "int \<Rightarrow> VideoPlugin \<Rightarrow> VideoPlugin VideoStep" where
  "video_Dispose handle pl =
     (case map_of (outputs pl) handle of
        None \<Rightarrow> video_answer AnswerSuccess pl
      | Some out \<Rightarrow>
          video_bind (Shutdown out) (\<lambda>out.
            video_answer AnswerSuccess
              (pl\<lparr>outputs := AList.delete handle (outputs pl), retired := out # retired pl\<rparr>)))"

definition video_Handle :: "VideoHost \<Rightarrow> string \<Rightarrow> VideoArg option \<Rightarrow> VideoPlugin \<Rightarrow> VideoPlugin VideoStep" where
  "video_Handle env method_name arguments pl =
     (case arguments of
        Some (MapArg args) \<Rightarrow>
          (case IntAt args ''handle'' of
             None \<Rightarrow> video_answer (AnswerError ''bad-arguments'' ''Missing or unparseable mpv handle.'') pl
           | Some handle \<Rightarrow>
               if method_name = ''VideoOutputManager.Create'' then video_Create env handle args pl
               else if method_name = ''VideoOutputManager.SetSize'' then video_SetSize env handle args pl
               else if method_name = ''VideoOutputManager.Dispose'' then video_Dispose handle pl
               else video_answer AnswerNotImplemented pl)
      | _ \<Rightarrow> video_answer (AnswerError ''bad-arguments'' ''Expected a map of arguments.'') pl)"

fun shutdown_each :: "(int \<times> VideoOutput) list \<Rightarrow> VideoOutput list VideoStep" where
  "shutdown_each [] = video_return []"
| "shutdown_each ((i, out) # os) =
     video_bind (Shutdown out) (\<lambda>out. video_bind (shutdown_each os) (\<lambda>os. video_return (out # os)))"

definition destroy_video_plugin :: "VideoPlugin \<Rightarrow> VideoPlugin VideoStep" where
  "destroy_video_plugin pl =
     video_bind (shutdown_each (outputs pl)) (\<lambda>os.
       video_return (pl\<lparr>outputs := [], retired := os @ retired pl\<rparr>))"

section \<open>What the binding hands out\<close>

lemma resolve_all_Inl: "resolve_all f ns = Inl m \<Longrightarrow> m \<in> set ns \<and> f m = None"
  by (induction ns) (auto split: option.splits sum.splits)

lemma resolve_all_Inr: "resolve_all f ns = Inr as \<Longrightarrow> map f ns = map Some as"
  by (induction ns arbitrary: as) (auto split: option.splits sum.splits)

text \<open>libmpv is bound once, and all of it or nothing: the first call decides for every later one, whatever
  the dynamic linker would say then; it succeeds exactly when the first library that can be opened has
  every entry point, and then hands out that library's.
\<close>

theorem libmpv_bound_once:
  "case MpvApiForProcess dlopen dlsym MpvProcess_init of
     (r, p) \<Rightarrow> MpvApiForProcess dlopen' dlsym' p = (r, p)
       \<and> (case (List.map_filter dlopen kLibraryNames, r) of
            ([], Inl e) \<Rightarrow> True
          | ([], Inr api) \<Rightarrow> False
          | (library # _, Inl e) \<Rightarrow> None \<in> dlsym library ` set RequiredMpvSymbols
          | (library # _, Inr api) \<Rightarrow> api = map (dlsym library) RequiredMpvSymbols \<and> None \<notin> set api)"
proof (cases "List.map_filter dlopen kLibraryNames")
  case Nil
  then show ?thesis by (simp add: MpvApiForProcess_def MpvProcess_init_def load_once_def)
next
  case (Cons library ls)
  then show ?thesis
  proof (cases "resolve_all (dlsym library) RequiredMpvSymbols")
    case (Inl m)
    with resolve_all_Inl [OF Inl] Cons show ?thesis
      by (force simp: MpvApiForProcess_def MpvProcess_init_def load_once_def LoadMpvApi_def)
  next
    case (Inr as)
    with resolve_all_Inr [OF Inr] Cons show ?thesis
      by (auto simp: MpvApiForProcess_def MpvProcess_init_def load_once_def LoadMpvApi_def)
  qed
qed

end
