(* ===== verification/Video_Histories.thy ===== *)
theory Video_Histories
  imports Video_Output "HOL-Library.Multiset"
begin

text \<open>
  The embedded Linux video plugin over its life: the calls of the application, the frames the registrar
  wants, the updates mpv tells of, and the release of a texture that is no longer in use, in any order.
  A texture whose output could not be set up is taken to be gone when it is unregistered, and a player is
  taken to outlive its output.
\<close>

section \<open>Histories\<close>

text \<open>
  The registrar asks for a frame and lets a texture go, mpv tells of a new frame, each from its own
  thread; the lock of an output makes each of these one step.
\<close>

datatype VideoEvent =
    VideoCall VideoHost string "VideoArg option"
  | FrameWanted VideoHost nat
  | MpvUpdate nat
  | TextureReleased nat
  | VideoPluginDestroyed

definition live_outputs :: "VideoPlugin \<Rightarrow> VideoOutput list" where
  "live_outputs pl = map snd (outputs pl) @ retired pl"

definition find_output :: "nat \<Rightarrow> VideoOutput list \<Rightarrow> VideoOutput option" where
  "find_output object = find (\<lambda>x. vo_object x = object)"

text \<open>A frame changes nothing of an output but its buffer.\<close>

definition grow_buffer :: "nat \<Rightarrow> nat \<Rightarrow> VideoOutput \<Rightarrow> VideoOutput" where
  "grow_buffer object n x = (if vo_object x = object then x\<lparr>pixels := n\<rparr> else x)"

definition with_output :: "VideoOutput option \<Rightarrow> (VideoOutput \<Rightarrow> VideoPlugin VideoStep) \<Rightarrow> VideoPlugin \<Rightarrow> VideoPlugin VideoStep" where
  "with_output out f pl = (case out of None \<Rightarrow> video_return pl | Some x \<Rightarrow> f x)"

primrec video_event :: "VideoEvent \<Rightarrow> VideoPlugin \<Rightarrow> VideoPlugin VideoStep" where
  "video_event (VideoCall env m args) pl = video_Handle env m args pl"
| "video_event (FrameWanted env object) pl =
     with_output (find_output object (live_outputs pl)) (\<lambda>out.
       video_bind (CopyPixelBuffer env out) (\<lambda>(s, out).
         video_return (pl\<lparr>outputs := map (apsnd (grow_buffer object (pixels out))) (outputs pl),
                         retired := map (grow_buffer object (pixels out)) (retired pl)\<rparr>))) pl"
| "video_event (MpvUpdate object) pl =
     with_output (find_output object (live_outputs pl)) (\<lambda>out.
       video_bind (OnMpvRenderUpdate out) (\<lambda>_. video_return pl)) pl"
| "video_event (TextureReleased object) pl =
     with_output (find_output object (retired pl)) (\<lambda>out.
       video_bind (destroy_output out) (\<lambda>_. video_return (pl\<lparr>retired := remove1 out (retired pl)\<rparr>))) pl"
| "video_event VideoPluginDestroyed pl = destroy_video_plugin pl"

definition video_step :: "VideoPlugin \<times> Platform \<Rightarrow> VideoEvent \<Rightarrow> (VideoPlugin \<times> Platform) option" where
  "video_step s ev = map_option (\<lambda>(pl, p, _). (pl, p)) (video_event ev (fst s) (snd s))"

text \<open>What the platform promises: a new texture or render context is none of those in use.\<close>

fun fresh_answers :: "VideoPlugin \<times> Platform \<Rightarrow> VideoEvent \<Rightarrow> bool" where
  "fresh_answers s (VideoCall env m args) \<longleftrightarrow>
     registered env \<notin> set (textures (snd s)) \<and> created_context env \<notin> set (contexts (snd s))"
| "fresh_answers s _ \<longleftrightarrow> True"

definition context_of :: "VideoOutput \<Rightarrow> nat" where
  "context_of x = (case render_context x of None \<Rightarrow> 0 | Some c \<Rightarrow> c)"

definition video_ok :: "VideoPlugin \<times> Platform \<Rightarrow> bool" where
  "video_ok s \<longleftrightarrow>
     (case s of (pl, p) \<Rightarrow>
        distinct (contexts p) \<and> distinct (textures p) \<and> distinct (map fst (outputs pl))
        \<and> list_all (\<lambda>x. render_context x \<noteq> None) (live_outputs pl)
        \<and> mset (contexts p) = mset (map context_of (live_outputs pl))
        \<and> list_all (\<lambda>(i, x). 0 \<le> texture_id x \<and> \<not> shut_down x) (outputs pl)
        \<and> list_all (\<lambda>x. texture_id x = - 1 \<and> shut_down x) (retired pl)
        \<and> mset (textures p) = mset (map (texture_id \<circ> snd) (outputs pl)))"

lemma video_binds [simp]:
  "video_bind (video_return x) f p = f x p" "video_return x p = Some (x, p, [])"
  by (auto simp: video_bind_def video_return_def split: option.split)

lemma sint32_small: "- (2 ^ 31) \<le> n \<Longrightarrow> n < 2 ^ 31 \<Longrightarrow> sint (word_of_int n :: u32) = n"
  by (simp add: signed_of_int signed_take_bit_int_eq_self)

lemma uint64_small: "0 \<le> n \<Longrightarrow> n < 2 ^ 64 \<Longrightarrow> uint (word_of_int n :: u64) = n"
  by (simp add: unsigned_of_int take_bit_int_eq_self)

lemma resolved_frame:
  assumes s: "s = ResolveRenderSize a b" and e: "\<not> IsEmpty s"
  shows "0 < width s \<and> width s \<le> 1920 \<and> 0 < height s \<and> height s \<le> 1080"
    and "StrideBytes s = width s * 4" and "int (PixelBufferBytes s) = width s * height s * 4"
    and "sint (word_of_int (width s) :: u32) = width s" and "sint (word_of_int (height s) :: u32) = height s"
proof -
  show b: "0 < width s \<and> width s \<le> 1920 \<and> 0 < height s \<and> height s \<le> 1080"
    using e fit_bounds [of "if IsEmpty a then b else a"]
    by (simp add: s ResolveRenderSize_def IsEmpty_def kMaxRenderWidth_def kMaxRenderHeight_def)
  show "sint (word_of_int (width s) :: u32) = width s" "sint (word_of_int (height s) :: u32) = height s"
    by (rule sint32_small; use b in simp)+
  have "sint (word_of_int (width s * 4) :: u32) = width s * 4" by (rule sint32_small; use b in simp)
  then show "StrideBytes s = width s * 4" using e by (simp add: StrideBytes_def)
  have "width s * height s \<le> 1920 * 1080" using b by (intro mult_mono) auto
  moreover have "0 < width s * height s" using b by simp
  moreover have "uint (word_of_int (n * 4) :: u64) = n * 4" if "0 < n" "n \<le> 1920 * 1080" for n
    using that by (intro uint64_small) simp_all
  ultimately have "uint (word_of_int (width s * height s * 4) :: u64) = width s * height s * 4" by blast
  moreover have "PixelBufferBytes s = unat (word_of_int (width s * height s * 4) :: u64)"
    using e by (simp add: PixelBufferBytes_def)
  ultimately show "int (PixelBufferBytes s) = width s * height s * 4" by (simp only: uint_nat)
qed

lemma render_into_fits:
  assumes "c \<in> set (contexts p)" and "s = ResolveRenderSize a b" and "\<not> IsEmpty s" and "PixelBufferBytes s \<le> n"
  shows "\<exists>es. render_into c (sint (word_of_int (width s) :: u32)) (sint (word_of_int (height s) :: u32)) (StrideBytes s) n p
           = Some ((), p, es)"
proof -
  from assms(4) resolved_frame(3) [OF assms(2,3)] have "width s * height s * 4 \<le> int n" by linarith
  then have "height s * (width s * 4) \<le> int n" by (simp add: algebra_simps)
  with resolved_frame [OF assms(2,3)] assms(1) show ?thesis by (simp add: render_into_def video_do_def)
qed

lemma copy_defined:
  assumes "render_context out = Some c" and "c \<in> set (contexts p)"
  shows "\<exists>s n es. CopyPixelBuffer env out p = Some ((s, out\<lparr>pixels := n\<rparr>), p, es)"
proof (cases "shut_down out \<or> IsEmpty (CurrentSize env out)")
  case True
  with assms(1) have "CopyPixelBuffer env out p = Some ((None, out), p, [])"
    by (auto simp: CopyPixelBuffer_def Let_def)
  then have "CopyPixelBuffer env out p = Some ((None, out\<lparr>pixels := pixels out\<rparr>), p, [])" by simp
  then show ?thesis by blast
next
  case False
  let ?s = "CurrentSize env out" and ?n = "max (pixels out) (PixelBufferBytes (CurrentSize env out))"
  from False obtain es where "render_into c (sint (word_of_int (width ?s) :: u32)) (sint (word_of_int (height ?s) :: u32))
      (StrideBytes ?s) ?n p = Some ((), p, es)"
    using render_into_fits [OF assms(2), of ?s _ _ ?n] by (auto simp: CurrentSize_def)
  with False assms(1) show ?thesis by (auto simp: CopyPixelBuffer_def Let_def video_bind_def)
qed

lemma shutdown_defined:
  assumes "render_context out = Some c" and "c \<in> set (contexts p)" and "0 \<le> texture_id out"
    and "texture_id out \<in> set (textures p)"
  shows "\<exists>es. Shutdown out p = Some (out\<lparr>shut_down := True, texture_id := - 1\<rparr>,
           p\<lparr>textures := remove1 (texture_id out) (textures p)\<rparr>, es)"
  using assms by (simp add: Shutdown_def clear_callback_def video_bind_def video_do_def video_when_def)

lemma destroy_defined:
  assumes "render_context out = Some c" and "c \<in> set (contexts p)"
  shows "\<exists>es. destroy_output out p = Some ((), p\<lparr>contexts := remove1 c (contexts p)\<rparr>, es)"
  using assms by (simp add: destroy_output_def clear_callback_def video_bind_def video_do_def)

definition keeps_video :: "(VideoPlugin \<times> Platform \<times> VideoEffect list) option \<Rightarrow> bool" where
  "keeps_video r \<longleftrightarrow> (\<exists>pl p es. r = Some (pl, p, es) \<and> video_ok (pl, p))"

lemma keeps_Some [simp]: "keeps_video (Some (pl, p, es)) \<longleftrightarrow> video_ok (pl, p)"
  by (simp add: keeps_video_def)

lemma keeps_answer:
  "video_ok (pl, p) \<Longrightarrow> e \<in> {AnswerSuccess, AnswerNotImplemented, AnswerError a b} \<Longrightarrow> keeps_video (video_answer e pl p)"
  by (auto simp: video_answer_def video_bind_def video_do_def)

lemma video_ok_process [simp]: "video_ok (pl\<lparr>mpv_process := x\<rparr>, p) = video_ok (pl, p)"
  by (simp add: video_ok_def live_outputs_def)

lemma notify_defined: "\<exists>es. NotifyResize env handle out p = Some ((), p, es)"
  by (simp add: NotifyResize_def video_do_def Let_def)

lemma context_live: "video_ok (pl, p) \<Longrightarrow> x \<in> set (live_outputs pl) \<Longrightarrow> \<exists>c. render_context x = Some c \<and> c \<in> set (contexts p)"
proof -
  assume ok: "video_ok (pl, p)" and x: "x \<in> set (live_outputs pl)"
  then obtain c where c: "render_context x = Some c" by (auto simp: video_ok_def list_all_iff)
  from ok have "mset (contexts p) = mset (map context_of (live_outputs pl))" by (simp add: video_ok_def)
  from mset_eq_setD [OF this] have "set (contexts p) = context_of ` set (live_outputs pl)" by simp
  moreover from c have "context_of x = c" by (simp add: context_of_def)
  ultimately show ?thesis using imageI [OF x, of context_of] c by simp
qed

lemma texture_live: "video_ok (pl, p) \<Longrightarrow> (i, x) \<in> set (outputs pl) \<Longrightarrow> 0 \<le> texture_id x \<and> texture_id x \<in> set (textures p)"
proof -
  assume ok: "video_ok (pl, p)" and x: "(i, x) \<in> set (outputs pl)"
  from ok have "mset (textures p) = mset (map (texture_id \<circ> snd) (outputs pl))" by (simp add: video_ok_def)
  from mset_eq_setD [OF this] have "set (textures p) = (texture_id \<circ> snd) ` set (outputs pl)" by simp
  with imageI [OF x, of "texture_id \<circ> snd"] have "texture_id x \<in> set (textures p)" by simp
  moreover from ok x have "0 \<le> texture_id x" by (auto simp: video_ok_def list_all_iff)
  ultimately show ?thesis by simp
qed

lemma initialize_cases:
  assumes "registered env \<notin> set (textures p)"
  shows "(\<exists>error es. Initialize env r out p = Some (Inl error, p, es))
       \<or> 0 \<le> registered env \<and> (\<exists>es. Initialize env r out p
           = Some (Inr (out\<lparr>requested_size := r, texture_id := registered env, render_context := Some (created_context env)\<rparr>),
                   p\<lparr>textures := registered env # textures p, contexts := created_context env # contexts p\<rparr>, es))"
  by (simp add: Initialize_def Let_def video_bind_def video_do_def video_return_def)

text \<open>The entry of a player in the table.\<close>

lemma split_entry:
  "map_of os h = Some x \<Longrightarrow> distinct (map fst os) \<Longrightarrow>
     \<exists>xs ys. os = xs @ (h, x) # ys \<and> AList.delete h os = xs @ ys \<and> (\<forall>y. AList.update h y os = xs @ (h, y) # ys)"
proof (induction os)
  case (Cons q os)
  obtain k z where q: "q = (k, z)" by fastforce
  show ?case
  proof (cases "k = h")
    case True
    with Cons.prems q have "h \<notin> fst ` set os" by auto
    then have "AList.delete h os = os" by (simp add: delete_id)
    with True Cons.prems q show ?thesis by - (rule exI [of _ "[]"], rule exI [of _ os], auto)
  next
    case False
    with Cons q obtain xs ys where "os = xs @ (h, x) # ys" "AList.delete h os = xs @ ys"
        "\<forall>y. AList.update h y os = xs @ (h, y) # ys" by auto
    with False q show ?thesis by - (rule exI [of _ "(k, z) # xs"], rule exI [of _ ys], auto)
  qed
qed simp

lemma create_keeps:
  assumes ok: "video_ok (pl, p)" and fresh: "registered env \<notin> set (textures p)" "created_context env \<notin> set (contexts p)"
  shows "keeps_video (video_Create env handle args pl p)"
proof (cases "map_of (outputs pl) handle")
  case (Some x)
  with ok show ?thesis by (simp add: video_Create_def keeps_answer)
next
  case None
  then have new: "handle \<notin> fst ` set (outputs pl)" by (simp add: map_of_eq_None_iff)
  obtain mpv process where api: "MpvApiForProcess (vh_dlopen env) (vh_dlsym env) (mpv_process pl) = (mpv, process)"
    by fastforce
  show ?thesis
  proof (cases mpv)
    case (Inl e)
    with ok None api show ?thesis by (simp add: video_Create_def Let_def keeps_answer)
  next
    case (Inr a)
    let ?pl = "pl\<lparr>mpv_process := process\<rparr>"
    obtain r where r: "r = (case map_of args ''configuration'' of Some (MapArg configuration) \<Rightarrow> size_at configuration
        | _ \<Rightarrow> empty_size)" by blast
    have create: "video_Create env handle args pl p = video_bind (Initialize env r (VideoOutput_init (fresh_object env) handle))
        (\<lambda>r. case r of Inl error \<Rightarrow> video_answer (AnswerError ''video-output-unavailable'' error) ?pl
           | Inr out \<Rightarrow> video_bind (video_do AnswerSuccess) (\<lambda>_. video_bind (NotifyResize env handle out)
               (\<lambda>_. video_return (?pl\<lparr>outputs := (handle, out) # outputs pl\<rparr>)))) p"
      using None api Inr by (simp add: video_Create_def Let_def r)
    from initialize_cases [OF fresh(1), of r "VideoOutput_init (fresh_object env) handle"]
    show ?thesis
    proof (elim disjE conjE exE)
      fix error es
      assume "Initialize env r (VideoOutput_init (fresh_object env) handle) p = Some (Inl error, p, es)"
      with ok create show ?thesis by (simp add: video_bind_def video_answer_def video_do_def video_return_def)
    next
      fix es
      assume id: "0 \<le> registered env" and i: "Initialize env r (VideoOutput_init (fresh_object env) handle) p
        = Some (Inr ((VideoOutput_init (fresh_object env) handle)\<lparr>requested_size := r, texture_id := registered env,
                       render_context := Some (created_context env)\<rparr>),
                p\<lparr>textures := registered env # textures p, contexts := created_context env # contexts p\<rparr>, es)"
      with create have "\<exists>es. video_Create env handle args pl p
        = Some (?pl\<lparr>outputs := (handle, (VideoOutput_init (fresh_object env) handle)\<lparr>requested_size := r,
                  texture_id := registered env, render_context := Some (created_context env)\<rparr>) # outputs pl\<rparr>,
                p\<lparr>textures := registered env # textures p, contexts := created_context env # contexts p\<rparr>, es)"
        by (simp add: video_bind_def video_do_def video_return_def NotifyResize_def Let_def)
      moreover have "\<not> shut_down ((VideoOutput_init (fresh_object env) handle)\<lparr>requested_size := r,
                  texture_id := registered env, render_context := Some (created_context env)\<rparr>)"
        by (simp add: VideoOutput_init_def)
      ultimately show ?thesis using ok fresh id new
        by (auto simp: video_ok_def live_outputs_def context_of_def)
    qed
  qed
qed

lemma set_size_keeps:
  assumes ok: "video_ok (pl, p)"
  shows "keeps_video (video_SetSize env handle args pl p)"
proof (cases "map_of (outputs pl) handle")
  case None
  with ok show ?thesis by (simp add: video_SetSize_def keeps_answer)
next
  case (Some x)
  from ok have "distinct (map fst (outputs pl))" by (simp add: video_ok_def)
  from split_entry [OF Some this] obtain xs ys where e: "outputs pl = xs @ (handle, x) # ys"
      "\<And>y. AList.update handle y (outputs pl) = xs @ (handle, y) # ys" by auto
  from ok Some show ?thesis
    by (simp add: video_SetSize_def Let_def video_bind_def video_do_def NotifyResize_def video_return_def e(2))
       (simp add: video_ok_def live_outputs_def e(1) SetRequestedSize_def context_of_def)
qed

lemma dispose_keeps:
  assumes ok: "video_ok (pl, p)"
  shows "keeps_video (video_Dispose handle pl p)"
proof (cases "map_of (outputs pl) handle")
  case None
  with ok show ?thesis by (simp add: video_Dispose_def keeps_answer)
next
  case (Some x)
  from ok have "distinct (map fst (outputs pl))" by (simp add: video_ok_def)
  from split_entry [OF Some this] obtain xs ys where e: "outputs pl = xs @ (handle, x) # ys"
      "AList.delete handle (outputs pl) = xs @ ys" by auto
  from context_live [OF ok, of x] e(1) obtain c where c: "render_context x = Some c" "c \<in> set (contexts p)"
    by (auto simp: live_outputs_def)
  from texture_live [OF ok, of handle x] e(1) have t: "0 \<le> texture_id x" "texture_id x \<in> set (textures p)" by simp_all
  from shutdown_defined [OF c t] obtain es where "Shutdown x p = Some (x\<lparr>shut_down := True, texture_id := - 1\<rparr>,
      p\<lparr>textures := remove1 (texture_id x) (textures p)\<rparr>, es)" by auto
  with ok Some e(2) show ?thesis
    by (simp add: video_Dispose_def video_bind_def video_answer_def video_do_def video_return_def)
       (auto simp: video_ok_def live_outputs_def e(1) context_of_def)
qed

lemma find_output_in: "find_output object xs = Some x \<Longrightarrow> x \<in> set xs"
  by (auto simp: find_output_def find_Some_iff)

lemma grow_fields [simp]:
  "render_context (grow_buffer b n x) = render_context x" "texture_id (grow_buffer b n x) = texture_id x"
  "shut_down (grow_buffer b n x) = shut_down x" "context_of (grow_buffer b n x) = context_of x"
  by (simp_all add: grow_buffer_def context_of_def)

lemma grow_keeps:
  "video_ok (pl, p) \<Longrightarrow>
     video_ok (pl\<lparr>outputs := map (apsnd (grow_buffer b n)) (outputs pl), retired := map (grow_buffer b n) (retired pl)\<rparr>, p)"
  by (simp add: video_ok_def live_outputs_def comp_def list_all_iff case_prod_unfold ball_Un multiset.map_comp
      del: not_None_eq)

lemma frame_keeps: "video_ok (pl, p) \<Longrightarrow> keeps_video (video_event (FrameWanted env object) pl p)"
proof (cases "find_output object (live_outputs pl)")
  case (Some x)
  assume ok: "video_ok (pl, p)"
  from context_live [OF ok find_output_in [OF Some]] obtain c where "render_context x = Some c" "c \<in> set (contexts p)" by auto
  from copy_defined [OF this] obtain s n es where "CopyPixelBuffer env x p = Some ((s, x\<lparr>pixels := n\<rparr>), p, es)" by blast
  with Some ok show ?thesis by (simp add: with_output_def video_bind_def video_return_def grow_keeps)
qed (simp add: with_output_def)

lemma update_keeps: "video_ok (pl, p) \<Longrightarrow> keeps_video (video_event (MpvUpdate object) pl p)"
proof (cases "find_output object (live_outputs pl)")
  case (Some x)
  assume ok: "video_ok (pl, p)"
  from find_output_in [OF Some] consider i where "(i, x) \<in> set (outputs pl)" | "x \<in> set (retired pl)"
    by (auto simp: live_outputs_def)
  then have "texture_id x < 0 \<or> texture_id x \<in> set (textures p)"
  proof cases
    case 1 with texture_live [OF ok] show ?thesis by blast
  next
    case 2 with ok show ?thesis by (auto simp: video_ok_def list_all_iff)
  qed
  with Some ok show ?thesis
    by (auto simp: with_output_def OnMpvRenderUpdate_def video_when_def video_bind_def video_do_def video_return_def)
qed (simp add: with_output_def)

lemma release_ok:
  assumes ok: "video_ok (pl, p)" and x: "x \<in> set (retired pl)" and c: "render_context x = Some c"
  shows "video_ok (pl\<lparr>retired := remove1 x (retired pl)\<rparr>, p\<lparr>contexts := remove1 c (contexts p)\<rparr>)"
proof -
  from x have s: "mset (retired pl) = add_mset x (mset (remove1 x (retired pl)))" by simp
  have sub: "set (remove1 x (retired pl)) \<subseteq> set (retired pl)" by (rule set_remove1_subset)
  from ok have m: "mset (contexts p) = mset (map context_of (live_outputs pl))" by (simp add: video_ok_def)
  have "mset (map context_of (live_outputs pl))
      = image_mset context_of (mset (map snd (outputs pl))) + image_mset context_of (mset (retired pl))"
    by (simp add: live_outputs_def multiset.map_comp)
  also have "\<dots> = add_mset c (mset (map context_of (live_outputs (pl\<lparr>retired := remove1 x (retired pl)\<rparr>))))"
    unfolding s using c by (simp add: live_outputs_def context_of_def multiset.map_comp del: mset_remove1)
  finally have "mset (remove1 c (contexts p)) = mset (map context_of (live_outputs (pl\<lparr>retired := remove1 x (retired pl)\<rparr>)))"
    using m by (simp del: mset_map)
  moreover have "list_all (\<lambda>x. render_context x \<noteq> None) (live_outputs (pl\<lparr>retired := remove1 x (retired pl)\<rparr>))"
    and "list_all (\<lambda>x. texture_id x = - 1 \<and> shut_down x) (remove1 x (retired pl))"
    using ok sub unfolding video_ok_def live_outputs_def list_all_iff by auto
  ultimately show ?thesis using ok unfolding video_ok_def by simp
qed

lemma release_keeps: "video_ok (pl, p) \<Longrightarrow> keeps_video (video_event (TextureReleased object) pl p)"
proof (cases "find_output object (retired pl)")
  case (Some x)
  assume ok: "video_ok (pl, p)"
  from find_output_in [OF Some] have x: "x \<in> set (retired pl)" .
  with context_live [OF ok, of x] obtain c where c: "render_context x = Some c" "c \<in> set (contexts p)"
    by (auto simp: live_outputs_def)
  from destroy_defined [OF c] obtain es where "destroy_output x p = Some ((), p\<lparr>contexts := remove1 c (contexts p)\<rparr>, es)" by auto
  with Some release_ok [OF ok x c(1)] show ?thesis
    by (simp add: with_output_def video_bind_def video_return_def)
qed (simp add: with_output_def)

lemma shutdown_each_defined:
  "(\<And>i x. (i, x) \<in> set os \<Longrightarrow> (\<exists>c. render_context x = Some c \<and> c \<in> set (contexts p)) \<and> 0 \<le> texture_id x)
     \<Longrightarrow> mset (textures p) = mset (map (texture_id \<circ> snd) os)
     \<Longrightarrow> \<exists>es. shutdown_each os p
           = Some (map (\<lambda>(i, x). x\<lparr>shut_down := True, texture_id := - 1\<rparr>) os, p\<lparr>textures := []\<rparr>, es)"
proof (induction os arbitrary: p)
  case (Cons q os)
  obtain i x where q: "q = (i, x)" by fastforce
  from Cons.prems(1) [of i x] q obtain c where c: "render_context x = Some c" "c \<in> set (contexts p)" and t: "0 \<le> texture_id x"
    by auto
  from Cons.prems(2) q have m: "mset (textures p) = add_mset (texture_id x) (mset (map (texture_id \<circ> snd) os))"
    by (simp add: comp_def)
  then have "texture_id x \<in># mset (textures p)" by simp
  then have "texture_id x \<in> set (textures p)" by simp
  from shutdown_defined [OF c t this] obtain es where s: "Shutdown x p = Some (x\<lparr>shut_down := True, texture_id := - 1\<rparr>,
      p\<lparr>textures := remove1 (texture_id x) (textures p)\<rparr>, es)" by auto
  have "\<exists>fs. shutdown_each os (p\<lparr>textures := remove1 (texture_id x) (textures p)\<rparr>)
      = Some (map (\<lambda>(i, x). x\<lparr>shut_down := True, texture_id := - 1\<rparr>) os,
              (p\<lparr>textures := remove1 (texture_id x) (textures p)\<rparr>)\<lparr>textures := []\<rparr>, fs)"
  proof (rule Cons.IH)
    fix j y assume "(j, y) \<in> set os"
    with Cons.prems(1) [of j y] show "(\<exists>c. render_context y = Some c
        \<and> c \<in> set (contexts (p\<lparr>textures := remove1 (texture_id x) (textures p)\<rparr>))) \<and> 0 \<le> texture_id y" by simp
  next
    show "mset (textures (p\<lparr>textures := remove1 (texture_id x) (textures p)\<rparr>)) = mset (map (texture_id \<circ> snd) os)"
      by (simp add: m del: mset_map)
  qed
  with s q show ?case by (auto simp: video_bind_def video_return_def)
qed simp

lemma destroy_keeps: "video_ok (pl, p) \<Longrightarrow> keeps_video (destroy_video_plugin pl p)"
proof -
  assume ok: "video_ok (pl, p)"
  have "\<exists>es. shutdown_each (outputs pl) p
      = Some (map (\<lambda>(i, x). x\<lparr>shut_down := True, texture_id := - 1\<rparr>) (outputs pl), p\<lparr>textures := []\<rparr>, es)"
  proof (rule shutdown_each_defined)
    fix i x assume x: "(i, x) \<in> set (outputs pl)"
    then have "x \<in> set (live_outputs pl)" by (force simp: live_outputs_def)
    with context_live [OF ok this] texture_live [OF ok x]
    show "(\<exists>c. render_context x = Some c \<and> c \<in> set (contexts p)) \<and> 0 \<le> texture_id x" by simp
  next
    show "mset (textures p) = mset (map (texture_id \<circ> snd) (outputs pl))" using ok by (simp add: video_ok_def)
  qed
  moreover have "video_ok (pl\<lparr>outputs := [],
      retired := map (\<lambda>(i, x). x\<lparr>shut_down := True, texture_id := - 1\<rparr>) (outputs pl) @ retired pl\<rparr>, p\<lparr>textures := []\<rparr>)"
    using ok
    by (simp add: video_ok_def live_outputs_def list_all_iff context_of_def case_prod_unfold comp_def multiset.map_comp
          ball_Un del: not_None_eq)
  ultimately show ?thesis by (auto simp: destroy_video_plugin_def video_bind_def video_return_def)
qed

interpretation video: guarded_machine video_step fresh_answers video_ok
proof
  fix s ev assume ok: "video_ok s" and a: "fresh_answers s ev"
  obtain pl p where s: "s = (pl, p)" by fastforce
  have "keeps_video (video_event ev pl p)"
  proof (cases ev)
    case (VideoCall env m args)
    with ok a s show ?thesis
      by (auto simp: video_Handle_def create_keeps set_size_keeps dispose_keeps keeps_answer
          split: option.split VideoArg.split)
  qed (use ok s in \<open>simp_all add: frame_keeps update_keeps release_keeps destroy_keeps del: video_event.simps(2-4)\<close>)
  then show "\<exists>t. video_step s ev = Some t \<and> video_ok t" by (auto simp: keeps_video_def video_step_def s)
qed

lemma video_starts_ok: "video_ok (VideoPlugin_init, \<lparr>contexts = [], textures = []\<rparr>)"
  by (simp add: video_ok_def VideoPlugin_init_def live_outputs_def)

text \<open>C32. Whatever the application, the registrar and mpv do and in whatever order, every call the video plugin
  makes is one its peers allow: no render context is used after it is freed, every frame fits the buffer
  it is rendered into, and no texture is marked or unregistered that is not registered. At the end the
  contexts and the textures still held are exactly those of the outputs still there, so that none leaks.
\<close>

theorem video_never_undefined:
  assumes "disciplined video_step fresh_answers (VideoPlugin_init, \<lparr>contexts = [], textures = []\<rparr>) evs"
  shows "\<exists>pl p. run_option video_step (VideoPlugin_init, \<lparr>contexts = [], textures = []\<rparr>) evs = Some (pl, p)
           \<and> mset (textures p) = mset (map (texture_id \<circ> snd) (outputs pl))
           \<and> mset (contexts p) = mset (map context_of (map snd (outputs pl) @ retired pl))"
proof -
  from video.guarded_run [OF video_starts_ok assms] obtain pl p
    where "run_option video_step (VideoPlugin_init, \<lparr>contexts = [], textures = []\<rparr>) evs = Some (pl, p)" "video_ok (pl, p)"
    by fastforce
  then show ?thesis unfolding video_ok_def live_outputs_def by fastforce
qed

definition witness_host :: VideoHost where
  "witness_host = \<lparr>registered = 3, create_status = 0, created_context = 5,
     out_params = NodeMap [(''dw'', Some 640), (''dh'', Some 480), (''rotate'', Some 90)], render_status = 0,
     vh_dlopen = (\<lambda>n. if n = ''libmpv.so.2'' then Some 1 else None), vh_dlsym = (\<lambda>l n. Some (length n)),
     fresh_object = 8\<rparr>"

definition witness_events :: "VideoEvent list" where
  "witness_events =
     [VideoCall witness_host ''VideoOutputManager.Create'' (Some (MapArg [(''handle'', StringArg ''77'')])),
      FrameWanted witness_host 8, MpvUpdate 8, VideoPluginDestroyed, FrameWanted witness_host 8, MpvUpdate 8,
      TextureReleased 8]"

theorem video_never_undefined_witness:
  "\<exists>pl p. run_option video_step (VideoPlugin_init, \<lparr>contexts = [], textures = []\<rparr>) witness_events = Some (pl, p)
     \<and> mset (textures p) = mset (map (texture_id \<circ> snd) (outputs pl))
     \<and> mset (contexts p) = mset (map context_of (map snd (outputs pl) @ retired pl))"
  by (rule video_never_undefined) (simp add: witness_events_def split: option.split)

end
