(* ===== verification/Gpu_Sentinel.thy ===== *)
theory Gpu_Sentinel
  imports Flutter_Window Output_Redirection
begin

text \<open>
  The sentinel device of the Windows runner (\<open>gpu_device_probe.cpp\<close>, \<open>gpu_device_probe.h\<close>): a Direct3D device of its own
  that is asked why devices went away, the identity of its adapter, and the identity of the adapter the
  session shows. What Direct3D and DXGI answer is a parameter; the references the probe holds on their objects
  are counted. The probe implements the one the runner window is modelled with.
\<close>

unbundle bit_operations_syntax

section \<open>What Direct3D answers\<close>

definition FAILED :: "u32 \<Rightarrow> bool" where
  "FAILED hr = bit hr 31"

text \<open>\<open>HighPart\<close> is signed; only its bits are used.\<close>

record Luid =
  luid_low :: u32
  luid_high :: u32

record AdapterDesc =
  desc_description :: "16 word list"
  desc_vendor :: u32
  desc_device :: u32

text \<open>A call that makes an object answers a code and leaves an object or none.\<close>

record D3DAnswers =
  hardware_device :: "u32 \<times> nat option"
  warp_device :: "u32 \<times> nat option"
  as_dxgi :: u32
  device_adapter :: "nat option"
  adapter_desc :: "u32 \<times> AdapterDesc"
  narrow_text :: "16 word list \<Rightarrow> string option"

section \<open>The probe\<close>

record GpuDeviceProbe =
  probe_device :: "nat option"
  adapter_description :: string
  vendor_id :: u32
  device_id :: u32
  com_refs :: "nat \<Rightarrow> nat"

definition sentinel_init :: GpuDeviceProbe where
  "sentinel_init = \<lparr>probe_device = None, adapter_description = [], vendor_id = 0, device_id = 0, com_refs = (\<lambda>_. 0)\<rparr>"

definition add_ref :: "nat option \<Rightarrow> (nat \<Rightarrow> nat) \<Rightarrow> nat \<Rightarrow> nat" where
  "add_ref p refs = (case p of None \<Rightarrow> refs | Some d \<Rightarrow> refs(d := Suc (refs d)))"

definition release :: "nat option \<Rightarrow> (nat \<Rightarrow> nat) \<Rightarrow> nat \<Rightarrow> nat" where
  "release p refs = (case p of None \<Rightarrow> refs | Some d \<Rightarrow> refs(d := refs d - 1))"

definition ToUtf8 :: "(16 word list \<Rightarrow> string option) \<Rightarrow> 16 word list option \<Rightarrow> string" where
  "ToUtf8 to_utf8 wide =
     (case wide of
        None \<Rightarrow> []
      | Some w \<Rightarrow>
          if w = [] then []
          else (case to_utf8 w of None \<Rightarrow> [] | Some t \<Rightarrow> if length t + 1 \<le> 1 then [] else t))"

definition Reset :: "GpuDeviceProbe \<Rightarrow> GpuDeviceProbe" where
  "Reset s =
     s\<lparr>probe_device := None, adapter_description := [], vendor_id := 0, device_id := 0,
       com_refs := release (probe_device s) (com_refs s)\<rparr>"

text \<open>The place for the device is emptied before the call fills it.\<close>

definition create_device :: "u32 \<times> nat option \<Rightarrow> nat option \<Rightarrow> (nat \<Rightarrow> nat) \<Rightarrow> u32 \<times> nat option \<times> (nat \<Rightarrow> nat)" where
  "create_device answer held refs = (fst answer, snd answer, add_ref (snd answer) (release held refs))"

definition read_adapter :: "D3DAnswers \<Rightarrow> GpuDeviceProbe \<Rightarrow> GpuDeviceProbe" where
  "read_adapter env s =
     (if FAILED (as_dxgi env) then s
      else let refs = add_ref (probe_device s) (com_refs s);
               (hr, desc) = adapter_desc env;
               s = (case device_adapter env of
                      None \<Rightarrow> s\<lparr>com_refs := refs\<rparr>
                    | Some a \<Rightarrow>
                        (if FAILED hr then s
                         else s\<lparr>adapter_description := ToUtf8 (narrow_text env) (Some (desc_description desc)),
                                vendor_id := desc_vendor desc, device_id := desc_device desc\<rparr>)
                        \<lparr>com_refs := release (Some a) (add_ref (Some a) refs)\<rparr>)
           in s\<lparr>com_refs := release (probe_device s) (com_refs s)\<rparr>)"

definition Probe_Create :: "D3DAnswers \<Rightarrow> GpuDeviceProbe \<Rightarrow> bool \<times> GpuDeviceProbe" where
  "Probe_Create env s =
     (let s = Reset s;
          (hr, device, refs) = create_device (hardware_device env) None (com_refs s);
          (hr, device, refs) = (if FAILED hr then create_device (warp_device env) device refs else (hr, device, refs))
      in if FAILED hr \<or> device = None then (False, s\<lparr>com_refs := release device refs\<rparr>)
         else let s = read_adapter env (s\<lparr>probe_device := device, com_refs := add_ref device refs\<rparr>)
              in (True, s\<lparr>com_refs := release device (com_refs s)\<rparr>))"

definition available :: "GpuDeviceProbe \<Rightarrow> bool" where
  "available s \<longleftrightarrow> probe_device s \<noteq> None"

definition Probe_GetRemovedReason :: "(nat \<Rightarrow> u32) \<Rightarrow> GpuDeviceProbe \<Rightarrow> u32" where
  "Probe_GetRemovedReason reason s = (case probe_device s of None \<Rightarrow> 0 | Some d \<Rightarrow> reason d)"

section \<open>The session's adapter\<close>

definition LuidToU64 :: "Luid \<Rightarrow> u64" where
  "LuidToU64 luid = or (push_bit 32 (ucast (luid_high luid))) (ucast (luid_low luid))"

record DxgiAnswers =
  dxgi_factory :: "u32 \<times> bool"
  first_adapter :: "u32 \<times> bool"
  first_luid :: "u32 \<times> Luid"

text \<open>\<open>wanted\<close> is whether the caller gave a place for the answer.\<close>

definition QuerySessionDisplayAdapterLuid :: "bool \<Rightarrow> DxgiAnswers \<Rightarrow> u64 option" where
  "QuerySessionDisplayAdapterLuid wanted env =
     (if \<not> wanted then None
      else if FAILED (fst (dxgi_factory env)) \<or> \<not> snd (dxgi_factory env) then None
      else if FAILED (fst (first_adapter env)) \<or> \<not> snd (first_adapter env) then None
      else if FAILED (fst (first_luid env)) then None
      else Some (LuidToU64 (snd (first_luid env))))"

section \<open>Facts\<close>

text \<open>The two conversions of wide text in the runner agree where the empty text converts to itself.\<close>

lemma ToUtf8_is_Utf8FromUtf16:
  assumes "f [] = Some []"
  shows "ToUtf8 f w = Utf8FromUtf16 f w"
  using assms
  by (auto simp: ToUtf8_def Utf8FromUtf16_def Utf8LengthWithoutNul_def split: option.splits)

lemma release_add [simp]: "release p (add_ref p refs) = refs"
  by (auto simp: release_def add_ref_def split: option.split)

lemma none_refs [simp]: "add_ref None refs = refs" "release None refs = refs"
  by (simp_all add: add_ref_def release_def)

text \<open>The one reference there should be, and an identity only with a device.\<close>

definition balanced :: "GpuDeviceProbe \<Rightarrow> bool" where
  "balanced s \<longleftrightarrow> com_refs s = add_ref (probe_device s) (\<lambda>_. 0)
     \<and> (probe_device s = None \<longrightarrow> adapter_description s = [] \<and> vendor_id s = 0 \<and> device_id s = 0)"

text \<open>The probe as the runner window sees it, and what the host answers there when one is created.\<close>

definition probe_of :: "GpuDeviceProbe \<Rightarrow> GpuProbe option" where
  "probe_of s =
     (if available s then Some \<lparr>gp_description = adapter_description s, gp_vendor = vendor_id s, gp_device = device_id s\<rparr>
      else None)"

definition adapter_identity :: "D3DAnswers \<Rightarrow> GpuProbe" where
  "adapter_identity env =
     (if FAILED (as_dxgi env) \<or> device_adapter env = None \<or> FAILED (fst (adapter_desc env))
      then \<lparr>gp_description = [], gp_vendor = 0, gp_device = 0\<rparr>
      else let desc = snd (adapter_desc env)
           in \<lparr>gp_description = ToUtf8 (narrow_text env) (Some (desc_description desc)), gp_vendor = desc_vendor desc,
               gp_device = desc_device desc\<rparr>)"

definition sentinel_answer :: "D3DAnswers \<Rightarrow> GpuProbe option" where
  "sentinel_answer env =
     (let (hr, device) = (if FAILED (fst (hardware_device env)) then warp_device env else hardware_device env)
      in if FAILED hr \<or> device = None then None else Some (adapter_identity env))"

datatype SentinelEvent = SentinelCreate D3DAnswers | SentinelReset

fun sentinel_step :: "GpuDeviceProbe \<Rightarrow> SentinelEvent \<Rightarrow> GpuDeviceProbe" where
  "sentinel_step s (SentinelCreate env) = snd (Probe_Create env s)"
| "sentinel_step s SentinelReset = Reset s"

fun window_probe_step :: "GpuProbe option \<Rightarrow> SentinelEvent \<Rightarrow> GpuProbe option" where
  "window_probe_step p (SentinelCreate env) = sentinel_answer env"
| "window_probe_step p SentinelReset = None"

lemma reset_facts: "balanced s \<Longrightarrow> Reset s = sentinel_init"
  by (simp add: balanced_def Reset_def sentinel_init_def)

lemma read_adapter_facts:
  "probe_device (read_adapter env s) = probe_device s" "com_refs (read_adapter env s) = com_refs s"
  by (auto simp: read_adapter_def Let_def split: option.split prod.split)

lemma read_adapter_identity:
  assumes "probe_device s = Some d" and "adapter_description s = []" and "vendor_id s = 0" and "device_id s = 0"
  shows "probe_of (read_adapter env s) = Some (adapter_identity env)"
  using assms
  by (auto simp: probe_of_def available_def read_adapter_def adapter_identity_def Let_def split: option.split prod.split)

lemma create_facts:
  assumes "balanced s"
  shows "balanced (snd (Probe_Create env s))" and "probe_of (snd (Probe_Create env s)) = sentinel_answer env"
    and "fst (Probe_Create env s) = available (snd (Probe_Create env s))"
proof -
  obtain hr device where chosen: "(if FAILED (fst (hardware_device env)) then warp_device env else hardware_device env) = (hr, device)"
    by fastforce
  let ?s = "sentinel_init\<lparr>probe_device := device, com_refs := add_ref device (add_ref device (\<lambda>_. 0))\<rparr>"
  have create: "Probe_Create env s =
      (if FAILED hr \<or> device = None then (False, sentinel_init)
       else (True, (read_adapter env ?s)\<lparr>com_refs := add_ref device (\<lambda>_. 0)\<rparr>))"
    using chosen reset_facts [OF assms]
    by (auto simp: Probe_Create_def create_device_def sentinel_init_def read_adapter_facts split: if_splits)
  show "balanced (snd (Probe_Create env s))"
    by (auto simp: create balanced_def read_adapter_facts sentinel_init_def)
  show "fst (Probe_Create env s) = available (snd (Probe_Create env s))"
    by (simp add: create available_def read_adapter_facts) (simp add: sentinel_init_def)
  show "probe_of (snd (Probe_Create env s)) = sentinel_answer env"
  proof (cases "FAILED hr \<or> device = None")
    case True
    then show ?thesis using chosen by (simp add: create sentinel_answer_def probe_of_def available_def sentinel_init_def)
  next
    case False
    then obtain d where d: "device = Some d" by auto
    have "probe_of (read_adapter env ?s) = Some (adapter_identity env)"
      by (rule read_adapter_identity) (simp_all add: d sentinel_init_def)
    then have "probe_of ((read_adapter env ?s)\<lparr>com_refs := r\<rparr>) = Some (adapter_identity env)" for r
      by (simp add: probe_of_def available_def split: if_splits)
    with False chosen show ?thesis by (auto simp: create sentinel_answer_def)
  qed
qed

interpretation sentinel: simulation sentinel_step window_probe_step probe_of balanced
proof
  show "balanced s \<Longrightarrow> balanced (sentinel_step s e)" for s e
    by (cases e) (simp_all add: create_facts reset_facts, simp add: balanced_def sentinel_init_def)
  show "balanced s \<Longrightarrow> probe_of (sentinel_step s e) = window_probe_step (probe_of s) e" for s e
    by (cases e) (simp_all add: create_facts reset_facts, simp add: probe_of_def available_def sentinel_init_def)
qed


lemma luid_injective: "LuidToU64 a = LuidToU64 b \<longleftrightarrow> a = b"
proof
  assume "LuidToU64 a = LuidToU64 b"
  then have eq: "bit (LuidToU64 a) n = bit (LuidToU64 b) n" for n by simp
  have low: "bit (LuidToU64 l) n = bit (luid_low l) n" if "n < 32" for l n
    using that by (simp add: LuidToU64_def bit_simps)
  have high: "bit (LuidToU64 l) (n + 32) = bit (luid_high l) n" if "n < 32" for l n
    using that by (auto simp: LuidToU64_def bit_simps dest: bit_imp_le_length)
  have "luid_low a = luid_low b" by (rule bit_word_eqI) (simp add: low [symmetric] eq)
  moreover have "luid_high a = luid_high b" by (rule bit_word_eqI) (simp add: high [symmetric] eq)
  ultimately show "a = b" by simp
qed simp

text \<open>C11. Comparing the two adapters by one number each is comparing the adapters: when the engine's adapter is known, the
  check that follows a session change says they differ exactly when DXGI names an adapter and it is another one,
  and says nothing when DXGI does not.\<close>

theorem adapter_check_is_exact:
  "(case QuerySessionDisplayAdapterLuid True env of
      None \<Rightarrow> ClassifyAdapterCheck True (LuidToU64 engine) False 0
    | Some luid \<Rightarrow> ClassifyAdapterCheck True (LuidToU64 engine) True luid)
   = (if FAILED (fst (dxgi_factory env)) \<or> \<not> snd (dxgi_factory env) \<or> FAILED (fst (first_adapter env))
          \<or> \<not> snd (first_adapter env) \<or> FAILED (fst (first_luid env)) then kAdapterUnknown
      else if engine = snd (first_luid env) then kSame else kChanged)"
  by (simp add: QuerySessionDisplayAdapterLuid_def ClassifyAdapterCheck_def luid_injective)

text \<open>The session moves to an adapter whose number differs in its high part only.\<close>

lemma adapter_check_is_exact_witness:
  "let env = \<lparr>dxgi_factory = (0, True), first_adapter = (0, True), first_luid = (0, \<lparr>luid_low = 5, luid_high = 1\<rparr>)\<rparr>
   in (case QuerySessionDisplayAdapterLuid True env of
         None \<Rightarrow> ClassifyAdapterCheck True (LuidToU64 \<lparr>luid_low = 5, luid_high = 0\<rparr>) False 0
       | Some luid \<Rightarrow> ClassifyAdapterCheck True (LuidToU64 \<lparr>luid_low = 5, luid_high = 0\<rparr>) True luid) = kChanged"
  unfolding Let_def by (subst adapter_check_is_exact) (simp add: FAILED_def)

end
