(* ===== verification/Elinux_Runner.thy ===== *)
theory Elinux_Runner
  imports Command_Options "HOL-Library.Monad_Syntax"
begin

text \<open>
  The runner of embedded Linux (\<open>elinux/runner/main.cc\<close>, \<open>flutter_window.cc\<close>): the process that may turn out to be a
  child of CEF, the options handed to the embedder, the life of the view controller, and the loop that sleeps
  between the events of the engine. What the embedder and the clock answer is a parameter; times are
  nanoseconds of 64 bits, and \<open>None\<close> is an overflow or a conversion the language leaves undefined.
\<close>

section \<open>The view\<close>

record ViewProperties =
  vp_width :: int
  vp_height :: int
  vp_view_mode :: ViewMode
  vp_view_rotation :: ViewRotation
  vp_title :: string
  vp_app_id :: string
  vp_use_mouse_cursor :: bool
  vp_use_onscreen_keyboard :: bool
  vp_use_window_decoration :: bool
  vp_text_scale_factor :: u64
  vp_enable_high_contrast :: bool
  vp_force_scale_factor :: bool
  vp_scale_factor :: u64
  vp_enable_vsync :: bool

definition view_properties :: "EmbedderOptions \<Rightarrow> ViewProperties" where
  "view_properties opts =
     \<lparr>vp_width = window_width opts, vp_height = window_height opts, vp_view_mode = window_view_mode opts,
      vp_view_rotation = window_view_rotation opts, vp_title = window_title opts, vp_app_id = window_app_id opts,
      vp_use_mouse_cursor = use_mouse_cursor opts, vp_use_onscreen_keyboard = use_onscreen_keyboard opts,
      vp_use_window_decoration = use_window_decoration opts, vp_text_scale_factor = text_scale_factor opts,
      vp_enable_high_contrast = enable_high_contrast opts, vp_force_scale_factor = is_force_scale_factor opts,
      vp_scale_factor = scale_factor opts, vp_enable_vsync = enable_vsync opts\<rparr>"

datatype RunnerEffect =
    InitCefProcesses
  | ParseOptions
  | PrintUsage string string
  | CreateViewController string ViewProperties
  | RegisterViewPlugins
  | DispatchViewEvent
  | SleepFor int
  | ProcessEngineMessages
  | DestroyViewController

section \<open>The loop\<close>

definition max_ns :: int where
  "max_ns = 2 ^ 63 - 1"

definition checked_ns :: "int \<Rightarrow> int option" where
  "checked_ns x = (if - (2 ^ 63) \<le> x \<and> x \<le> max_ns then Some x else None)"

text \<open>One turn: the clock before the sleep, what the engine answers, the clock after it, and the frame rate.\<close>

record LoopTurn =
  now_before :: int
  engine_wait :: int
  now_after :: int
  frame_rate :: int

text \<open>
  \<open>trunc(1000000.0 / rate)\<close> is the quotient of the integers: a quotient that is no integer is at least \<open>1 / rate\<close> away
  from one, more than rounding to a double moves it when the rate is an \<open>int\<close>. A rate of zero gives an infinity,
  whose conversion to \<open>int\<close> is undefined.
\<close>

definition frame_wait :: "int \<Rightarrow> int option" where
  "frame_wait rate = (if rate = 0 then None else Some (sgn rate * (1000000 div \<bar>rate\<bar>) * 1000000))"

definition next_event_time :: "LoopTurn \<Rightarrow> int option" where
  "next_event_time turn =
     do { wait \<leftarrow> (if engine_wait turn \<noteq> max_ns then Some (engine_wait turn) else frame_wait (frame_rate turn));
          t \<leftarrow> checked_ns (now_after turn + wait);
          Some (min max_ns t) }"

text \<open>The milliseconds slept and the new \<open>next_flutter_event_time\<close>.\<close>

definition loop_turn :: "int \<Rightarrow> LoopTurn \<Rightarrow> (int \<times> int) option" where
  "loop_turn next_time turn =
     do { d \<leftarrow> checked_ns (next_time - now_before turn);
          t \<leftarrow> next_event_time turn;
          Some (max 0 d div 1000000, max next_time t) }"

text \<open>The last call of \<open>DispatchEvent\<close> answers that the window is closed.\<close>

fun Run_loop :: "int \<Rightarrow> LoopTurn list \<Rightarrow> RunnerEffect list option" where
  "Run_loop next_time [] = Some [DispatchViewEvent]"
| "Run_loop next_time (turn # turns) =
     do { (slept, next_time) \<leftarrow> loop_turn next_time turn;
          effects \<leftarrow> Run_loop next_time turns;
          Some ([DispatchViewEvent, SleepFor slept, ProcessEngineMessages] @ effects) }"

section \<open>The process\<close>

record ViewHost =
  cef_exit_code :: int
  has_engine :: bool
  has_view :: bool
  start_time :: int
  loop_turns :: "LoopTurn list"

definition Elinux_OnCreate :: "ViewHost \<Rightarrow> string \<Rightarrow> ViewProperties \<Rightarrow> bool \<times> RunnerEffect list" where
  "Elinux_OnCreate env path properties =
     (let made = CreateViewController path properties
      in if \<not> has_engine env \<or> \<not> has_view env then (False, [made]) else (True, [made, RegisterViewPlugins]))"

text \<open>\<open>OnDestroy\<close>, and the end of the window where it was not called: the controller goes with its owner.\<close>

definition Elinux_OnDestroy :: "bool \<Rightarrow> RunnerEffect list" where
  "Elinux_OnDestroy has_controller = (if has_controller then [DestroyViewController] else [])"

datatype RunnerExit = Exits int | Throws OptError | Undefined

definition elinux_main :: "Backend \<Rightarrow> ViewHost \<Rightarrow> string list \<Rightarrow> RunnerExit \<times> RunnerEffect list" where
  "elinux_main backend env argv =
     (if 0 \<le> cef_exit_code env then (Exits (cef_exit_code env), [InitCefProcesses])
      else case FlutterEmbedderOptions_Parse backend argv of
             Inl e \<Rightarrow> (Throws e, [InitCefProcesses, ParseOptions])
           | Inr (Rejected message usage) \<Rightarrow> (Exits 0, [InitCefProcesses, ParseOptions, PrintUsage message usage])
           | Inr (Parsed opts) \<Rightarrow>
               (let (created, effects) = Elinux_OnCreate env (bundle_path opts) (view_properties opts);
                    effects = [InitCefProcesses, ParseOptions] @ effects
                in if \<not> created then (Exits 0, effects @ Elinux_OnDestroy True)
                   else case Run_loop (start_time env) (loop_turns env) of
                          None \<Rightarrow> (Undefined, effects)
                        | Some turns \<Rightarrow> (Exits 0, effects @ turns @ Elinux_OnDestroy True)))"

section \<open>How long the loop sleeps\<close>

text \<open>Clocks of less than a century, waits the engine answers below that or none at all, and a display that has a rate.\<close>

definition turn_ok :: "LoopTurn \<Rightarrow> bool" where
  "turn_ok turn \<longleftrightarrow> now_before turn \<in> {0..2 ^ 62} \<and> now_after turn \<in> {0..2 ^ 61}
     \<and> engine_wait turn \<in> insert max_ns {0..2 ^ 61} \<and> 0 < frame_rate turn"

text \<open>The time a turn asks to be waited for.\<close>

definition asked_for :: "LoopTurn \<Rightarrow> int" where
  "asked_for turn =
     now_after turn + (if engine_wait turn \<noteq> max_ns then engine_wait turn else 1000000 div frame_rate turn * 1000000)"

lemma asked_for_range: "turn_ok turn \<Longrightarrow> asked_for turn \<in> {0..2 ^ 62}"
proof -
  assume ok: "turn_ok turn"
  then have "1000000 div frame_rate turn \<le> 1000000 div 1"
    by (intro zdiv_mono2) (auto simp: turn_ok_def)
  with ok show ?thesis by (auto simp: turn_ok_def asked_for_def pos_imp_zdiv_nonneg_iff max_ns_def)
qed

lemma loop_turn_effect:
  assumes "turn_ok turn" and "next_time \<in> {0..2 ^ 62}"
  shows "loop_turn next_time turn
    = Some (max 0 (next_time - now_before turn) div 1000000, max next_time (asked_for turn))"
proof -
  from assms have "checked_ns (next_time - now_before turn) = Some (next_time - now_before turn)"
    by (auto simp: checked_ns_def turn_ok_def max_ns_def)
  moreover from asked_for_range [OF assms(1)] assms(1) have "next_event_time turn = Some (asked_for turn)"
    by (auto simp: next_event_time_def frame_wait_def asked_for_def checked_ns_def turn_ok_def max_ns_def)
  ultimately show ?thesis by (simp add: loop_turn_def)
qed

definition sleeps :: "RunnerEffect list \<Rightarrow> int list" where
  "sleeps effects = concat (map (\<lambda>e. case e of SleepFor ms \<Rightarrow> [ms] | _ \<Rightarrow> []) effects)"

fun turns_sleep :: "int \<Rightarrow> LoopTurn list \<Rightarrow> int list" where
  "turns_sleep latest [] = []"
| "turns_sleep latest (turn # turns) =
     max 0 (latest - now_before turn) div 1000000 # turns_sleep (max latest (asked_for turn)) turns"

lemma run_loop_effect:
  assumes "list_all turn_ok turns" and "next_time \<in> {0..2 ^ 62}"
  shows "\<exists>effects. Run_loop next_time turns = Some effects \<and> sleeps effects = turns_sleep next_time turns
    \<and> count_list effects DispatchViewEvent = Suc (length turns)
    \<and> set effects \<subseteq> {DispatchViewEvent, ProcessEngineMessages} \<union> range SleepFor"
  using assms
proof (induction turns arbitrary: next_time)
  case Nil
  then show ?case by (simp add: sleeps_def)
next
  case (Cons turn turns)
  then have "max next_time (asked_for turn) \<in> {0..2 ^ 62}" using asked_for_range [of turn] by auto
  with Cons obtain effects where "Run_loop (max next_time (asked_for turn)) turns = Some effects"
    "sleeps effects = turns_sleep (max next_time (asked_for turn)) turns"
    "count_list effects DispatchViewEvent = Suc (length turns)"
    "set effects \<subseteq> {DispatchViewEvent, ProcessEngineMessages} \<union> range SleepFor" by fastforce
  with Cons.prems loop_turn_effect [of turn next_time] show ?case by (simp add: sleeps_def)
qed

text \<open>\<open>sleep_for\<close> sleeps at least as long as it is asked to.\<close>

fun timely :: "int \<Rightarrow> LoopTurn list \<Rightarrow> bool" where
  "timely latest [] \<longleftrightarrow> True"
| "timely latest (turn # turns) \<longleftrightarrow>
     now_before turn + max 0 (latest - now_before turn) div 1000000 * 1000000 \<le> now_after turn
     \<and> timely (max latest (asked_for turn)) turns"

lemma length_turns_sleep [simp]: "length (turns_sleep t turns) = length turns"
  by (induction turns arbitrary: t) auto

lemma latest_is_asked_for:
  assumes "turn_ok turn" and "timely latest (turn # turns)"
  shows "max latest (asked_for turn) \<in> {asked_for turn..asked_for turn + 999999}"
proof -
  have "1000000 div frame_rate turn * 1000000 \<ge> 0" using assms(1) by (simp add: turn_ok_def pos_imp_zdiv_nonneg_iff)
  with assms(1) have "now_after turn \<le> asked_for turn" by (auto simp: turn_ok_def asked_for_def)
  with assms(2) have "now_before turn + max 0 (latest - now_before turn) div 1000000 * 1000000 \<le> asked_for turn" by simp
  moreover have "x - 999999 \<le> x div 1000000 * 1000000" for x :: int by presburger
  from this [of "max 0 (latest - now_before turn)"] have "latest - now_before turn - 999999
      \<le> max 0 (latest - now_before turn) div 1000000 * 1000000" by linarith
  ultimately show ?thesis by simp
qed

lemma turns_sleep_last:
  assumes "list_all turn_ok turns" and "timely t turns" and "Suc i < length turns"
  shows "turns_sleep t turns ! Suc i
    \<in> {max 0 (asked_for (turns ! i) - now_before (turns ! Suc i)) div 1000000
       ..max 0 (asked_for (turns ! i) - now_before (turns ! Suc i) + 999999) div 1000000}"
  using assms
proof (induction turns arbitrary: t i)
  case Nil
  then show ?case by simp
next
  case (Cons turn turns)
  then obtain next_turn rest where turns: "turns = next_turn # rest" by (cases turns) auto
  show ?case
  proof (cases i)
    case 0
    have "max t (asked_for turn) \<in> {asked_for turn..asked_for turn + 999999}"
      by (rule latest_is_asked_for [of _ _ turns]) (use Cons.prems in auto)
    then show ?thesis by (auto simp: turns 0 intro!: zdiv_mono1)
  next
    case (Suc j)
    with Cons.prems Cons.IH [of "max t (asked_for turn)" j] show ?thesis by simp
  qed
qed


text \<open>The engine asks for five seconds, then for nothing, which is the time of a frame.\<close>

definition sample_turns :: "LoopTurn list" where
  "sample_turns =
     [\<lparr>now_before = 0, engine_wait = 5000000000, now_after = 0, frame_rate = 60000\<rparr>,
      \<lparr>now_before = 2500000, engine_wait = max_ns, now_after = 5000100000, frame_rate = 60000\<rparr>,
      \<lparr>now_before = 5000200000, engine_wait = 0, now_after = 5016000000, frame_rate = 60000\<rparr>]"


section \<open>The life of the process\<close>

text \<open>
  A child of CEF does nothing but its own work, and whatever makes \<open>main\<close> return, the controller that was made is
  destroyed, once.
\<close>

lemma elinux_main_lifecycle:
  assumes "elinux_main backend env argv = (exit, effects)" and "list_all turn_ok (loop_turns env)"
    and "0 \<le> start_time env" and "start_time env \<le> 2 ^ 62"
  shows "exit \<noteq> Undefined" and "0 \<le> cef_exit_code env \<Longrightarrow> exit = Exits (cef_exit_code env) \<and> effects = [InitCefProcesses]"
    and "length (filter (\<lambda>e. \<exists>p v. e = CreateViewController p v) effects) \<le> 1"
    and "length (filter (\<lambda>e. \<exists>p v. e = CreateViewController p v) effects) = count_list effects DestroyViewController"
proof -
  obtain turns where run: "Run_loop (start_time env) (loop_turns env) = Some turns"
    "set turns \<subseteq> {DispatchViewEvent, ProcessEngineMessages} \<union> range SleepFor"
    using run_loop_effect [OF assms(2), of "start_time env"] assms(3,4) by auto
  then have none: "filter (\<lambda>e. \<exists>p v. e = CreateViewController p v) turns = []" "count_list turns DestroyViewController = 0"
    by (auto simp: filter_empty_conv count_list_0_iff)
  note cases = assms(1) [unfolded elinux_main_def Elinux_OnCreate_def Elinux_OnDestroy_def Let_def]
  show "exit \<noteq> Undefined" and "length (filter (\<lambda>e. \<exists>p v. e = CreateViewController p v) effects) \<le> 1"
    "length (filter (\<lambda>e. \<exists>p v. e = CreateViewController p v) effects) = count_list effects DestroyViewController"
    using cases run(1) none by (auto split: if_splits sum.splits EmbedderParse.splits)
  show "0 \<le> cef_exit_code env \<Longrightarrow> exit = Exits (cef_exit_code env) \<and> effects = [InitCefProcesses]"
    using assms(1) by (simp add: elinux_main_def)
qed

end
