(* ===== verification/Spec2Isabelle.thy ===== *)
theory Spec2Isabelle
  imports Rebuild_Gate Gpu_Watchdog Dart_Liveness Egl_Storm Session_Policy Log_Throttle Log_Files
    Crash_Record Drag_Drop Startup_Shutdown Output_Redirection Win32_Windows Window_Properties
    Webview_Client Command_Options Js_Bridge Webview_Handler Cef_Cache_Host Cef_App Plugin_Calls
    Linux_Key_Proofs Event_Messages Video_Histories Gpu_Sentinel Elinux_Runner
begin

text \<open>
  A model of the native code of CentroidX. The product is a Flutter application; what is
  written in C++ is the runner that hosts it on Windows (\<open>centroid-hmi/windows/runner\<close>), the runner for
  embedded Linux (\<open>centroid-hmi/elinux/runner\<close>) and the plugin that embeds the Chromium browser
  (\<open>packages/webview_cef\<close>).

  \<^bold>\<open>The Windows runner.\<close> A window (\<open>flutter_window.cpp\<close>) owns the engine and rebuilds it when the GPU device
  is lost. It feeds five components and carries out what they ask for.
  \<^item> \<^theory_text>\<open>Gpu_Watchdog\<close> counts unanswered frame probes and decides on a loss, a restart or the end of the
    process; \<^theory_text>\<open>Gpu_Diagnosis\<close> names the cause and writes the report.
  \<^item> \<^theory_text>\<open>Rebuild_Gate\<close> lets one rebuild at a time through and none into a startup.
  \<^item> \<^theory_text>\<open>Session_Policy\<close> decides what a remote session change means for the renderer.
  \<^item> \<^theory_text>\<open>Dart_Liveness\<close> follows the stamps of the UI isolate.
  \<^item> \<^theory_text>\<open>Egl_Storm\<close> searches the process's own stderr, which the interposer's reader loop hands it, for lost contexts.
  \<^item> \<^theory_text>\<open>Log_Throttle\<close> keeps repeated lines apart; \<^theory_text>\<open>Log_Files\<close> rotates and appends the files they go to.
  \<^item> \<^theory_text>\<open>Crash_Record\<close> is the last thing a crashing process runs; \<^theory_text>\<open>Startup_Shutdown\<close> the decisions at its two ends.
  \<^item> \<^theory_text>\<open>Output_Redirection\<close> (\<open>utils.cpp\<close>) sends what the process writes to the log file and to whoever watches, over tables of
    handles and descriptors, and asks Windows for what an unattended station needs.
  \<^item> \<^theory_text>\<open>Win32_Windows\<close> (\<open>win32_window.cpp\<close>) is the base class of the window for any number of objects: their count, the
    window class, and the calls that come back through Windows while a window is created or destroyed.
  \<^item> \<^theory_text>\<open>Gpu_Sentinel\<close> (\<open>gpu_device_probe.cpp\<close>) is the device that is asked why others went away, with the references it holds;
    it implements the probe of the window's host.
  \<^item> \<^theory_text>\<open>Drag_Drop\<close> is the model the runner's tests keep of the drag-and-drop target's lifetime.
  \<^item> \<^theory_text>\<open>Window_State\<close> has the state of the window and what the host answers, \<^theory_text>\<open>Flutter_Window\<close> one definition per
    handler. \<^theory_text>\<open>Window_Invariant\<close>, \<^theory_text>\<open>Window_Epoch\<close> and \<^theory_text>\<open>Window_Watchdog\<close> prove what every handler keeps;
    \<^theory_text>\<open>Window_Properties\<close> states what the window promises over every history of messages, channel calls,
    frame callbacks and timer firings, and every answer of the host.

  \<^bold>\<open>The webview plugin.\<close> A page calls the native function of \<^theory_text>\<open>Js_Bridge\<close> (\<open>webview_js_handler.cc\<close>) in the renderer
  process, which sends a message to \<^theory_text>\<open>Webview_Handler\<close> (\<open>webview_handler.cc\<close>, \<open>webview_cookieVisitor.cc\<close>) in the
  browser process; the handler passes it on to the application and sends the answer back. Arguments and
  answers are the counted values of \<^theory_text>\<open>Webview_Value\<close> (\<open>webview_value.cc\<close>). \<^theory_text>\<open>Webview_Ownership\<close> proves that the counts
  are right; \<^theory_text>\<open>Webview_Client\<close> runs any sequence of calls of a client that releases only what it holds. Before CEF
  starts, \<^theory_text>\<open>Cef_Cache_Paths\<close> (\<open>cef_cache_paths.cc\<close>) chooses its profile directory and plans what may be reclaimed from
  a killed run, and \<^theory_text>\<open>Cef_Cache_Host\<close> (\<open>cef_cache_paths_host.cc\<close>) finds that state on the disk and carries the plan out.
  \<^theory_text>\<open>Cef_App\<close> (\<open>webview_app.cc\<close>) is the command line of the CEF processes and the renderer's end of the messages; it joins
  the bridge and the handler. \<^theory_text>\<open>Webview_Plugin\<close> (\<open>webview_plugin.cc\<close>) is what the application talks to: the calls by their
  names, the renderers, and the callbacks that bring the handler's events to the application in the values that
  \<^theory_text>\<open>Plugin_Answers\<close> builds. \<^theory_text>\<open>Plugin_Calls\<close> proves what is answered, how often CEF is started and what a closed browser and
  a plugin that is gone leave behind.

  \<^bold>\<open>Its Linux builds.\<close> The plugins of \<open>packages/webview_cef/linux\<close> (GTK) and \<open>packages/webview_cef/elinux\<close> put the platform
  around it. \<^theory_text>\<open>Linux_Keys\<close> (\<open>webview_cef_keyevent.h\<close>, \<open>processKeyEventForCEF\<close>) makes the key events of CEF from those of GTK,
  and \<^theory_text>\<open>Linux_Key_Proofs\<close> shows which code a key has and where it goes. \<^theory_text>\<open>Channel_Values\<close> has the two codecs between the
  method channel and the counted values; \<^theory_text>\<open>Channel_Proofs\<close> proves their round trip. \<^theory_text>\<open>Platform_Plugins\<close> joins codec, plugin
  and closure into a call from the application's values to its response, and has the frames of the textures; \<^theory_text>\<open>Event_Messages\<close> follows an event the other way, to the message the application gets.

  \<^bold>\<open>The embedded Linux runner.\<close> \<^theory_text>\<open>Command_Options\<close> is its option table, parser and help text
  (\<open>command_options.h\<close>) with the options it registers and reads (\<open>flutter_embedder_options.h\<close>); \<^theory_text>\<open>Elinux_Runner\<close> is its process and
  its loop (\<open>main.cc\<close>, \<open>flutter_window.cc\<close>).

  \<^bold>\<open>The video plugin.\<close> On embedded Linux \<open>packages/media_kit_video_elinux\<close> shows a player's frames in a texture.
  \<^theory_text>\<open>Video_Geometry\<close> (\<open>video_geometry.cc\<close>) fits a frame into its budget, in the double arithmetic of the code;
  \<^theory_text>\<open>Video_Output\<close> binds libmpv late (\<open>mpv_library.cc\<close>), keeps an output per player (\<open>video_output.cc\<close>) and
  answers the application's calls (\<open>media_kit_video_elinux_plugin.cc\<close>); \<^theory_text>\<open>Video_Histories\<close> shows that over any
  history no context, buffer or texture is used after or beyond its life.

  \<^bold>\<open>How the code is written here.\<close> A class is a record, a member function that changes it returns the new record.
  Time stamps and counters are words of the code's width, \<open>int\<close> is \<open>int\<close> where it counts ticks and a bounded
  integer where its range matters. Calls out of the repository (Win32, the Flutter engine, CEF, V8) are either
  effects, listed in the order the code makes them, or questions whose answers are parameters: the window asks
  \<open>HostEnv\<close>, numbered question by question, so that a statement for every \<open>HostEnv\<close> is one for every sequence of
  answers. Undefined behaviour and exceptions are values: \<open>None\<close>, or the left side of a sum.

  \<^bold>\<open>Interfaces.\<close> \<^theory_text>\<open>Runner_Prelude\<close> has the contracts the components share as locales, and every component interprets
  those it fulfils on its own definitions: an invariant kept by a machine's steps (\<open>invariant_machine\<close>), a report made
  once per episode or once per process (\<open>once_latch\<close>, \<open>process_latch\<close>), a machine simulated by a smaller one
  (\<open>simulation\<close>), a partial machine that is defined within a discipline (\<open>guarded_machine\<close>: the counted values, the
  bridge, the handler, the video plugin, the windows) and a relation every step keeps (\<open>step_preorder\<close>). \<^theory_text>\<open>Webview_Handler\<close> has one of its own,
  \<open>kept_statement\<close>, for what most of its events leave alone. \<^theory_text>\<open>Channel_Proofs\<close> states what the codec of a build promises
  (\<open>channel_codec\<close>), which \<^theory_text>\<open>Platform_Plugins\<close> extends by its closure (\<open>platform_build\<close>); the GTK and the embedded build interpret both. \<^theory_text>\<open>Text_Format\<close> is what the code uses of the C and C++
  libraries to print and read text.

  \<^bold>\<open>What the lemmas show.\<close> Each component's theory proves the functional behaviour of its operations, errors included,
  and what holds over whole histories. Where a component has an abstract specification it is a refinement: the window's
  watchdog is driven only through the watchdog's events, the drag-and-drop lifecycle is a machine of two fields, a map
  of string keys is an association list, the bounded search is the search for a sublist, the sentinel device is the
  probe of the window's host. Some theorems
  state what the code does against its purpose: a failed rebuild is never retried, a list is printed past its buffer,
  two evaluations at one clock reading mix up their answers.

  \<^bold>\<open>Recursion and fuel.\<close> Loops over data are structural. Comparing two values recurses along the heap: its fuel is one more
  than the number of pairs of cells, enough on a heap without cycles because a path visits no pair twice. Printing has one
  more than the number of cells. Releasing schedules the children of a dying cell; a step lowers the sum of the reference
  counts of the live cells or shortens the schedule. The conversion of JavaScript values takes the depth of the stack as its fuel, and a rank
  that falls from every array to its elements bounds the depth it needs. Encoding a value for the channel has one more than the
  number of cells, enough for every value the decoder made because each level of it is a cell of its own. Destroying a window comes back
  into the class through Windows; one level of nesting is proved to be enough.

  \<^bold>\<open>Not modelled.\<close> The pipe plumbing of the interposer,
  the walk through the compiler's throw information, COM and the message pump are calls into Windows without a decision of
  the runner's. Exceptions thrown by engine calls are not modelled either, nor are the messages the runner's own handler gets while
  its window is being made; those the base class handles then are. Of the webview plugin's
  platforms the registration of channels, textures and GObject types is left, which only calls the embedder, and with it the
  threads on which a texture is read; so are the GTK runners and generated code.
\<close>

end
